(* ===== verification/Prelude.thy ===== *)
theory Prelude
  imports Complex_Main "HOL-Library.Multiset"
begin

text \<open>
  Shared vocabulary of the development: the fragment of ECMAScript that the modules under
  \<open>web/src\<close> rely on (strings, truthiness, nullish values, number parsing, array helpers)
  and the generic lemmas about it.

  A JavaScript string is modelled by the \<open>string\<close> of its code units.  Case mapping is
  the ASCII part of \<open>toUpperCase\<close> and \<open>toLowerCase\<close>; \<open>trim\<close> removes the
  ECMAScript white space and line terminators whose code unit is below 256.  A value that may
  be \<open>null\<close> or \<open>undefined\<close> is an \<open>option\<close>; a number whose fractional
  part matters is a \<open>rat\<close> (exact, so binary rounding is not modelled); a call that may
  throw returns a sum whose left component is the error.
\<close>

named_theorems js_string_simps "evaluation of the string helpers"

type_synonym 'a result = "string + 'a"

subsection \<open>Characters and white space\<close>

definition code :: "char \<Rightarrow> nat" where
  "code c = of_char c"

definition is_ws :: "char \<Rightarrow> bool" where
  "is_ws c \<longleftrightarrow> code c \<in> {9, 10, 11, 12, 13, 32, 160}"

definition is_digit :: "char \<Rightarrow> bool" where
  "is_digit c \<longleftrightarrow> 48 \<le> code c \<and> code c \<le> 57"

definition digit_val :: "char \<Rightarrow> nat" where
  "digit_val c = code c - 48"

definition digit_char :: "nat \<Rightarrow> char" where
  "digit_char n = char_of (48 + n)"

definition up_char :: "char \<Rightarrow> char" where
  "up_char c = (if 97 \<le> code c \<and> code c \<le> 122 then char_of (code c - 32) else c)"

definition low_char :: "char \<Rightarrow> char" where
  "low_char c = (if 65 \<le> code c \<and> code c \<le> 90 then char_of (code c + 32) else c)"

lemma code_less [simp]: "code c < 256"
  by (metis code_def of_char_mod_256 mod_less_divisor zero_less_numeral)

lemma code_char_of [simp]: "n < 256 \<Longrightarrow> code (char_of n) = n"
  by (simp add: code_def)

lemma code_inject [simp]: "code c = code d \<longleftrightarrow> c = d"
  by (simp add: code_def)

lemma is_digit_digit_char [simp]: "n < 10 \<Longrightarrow> is_digit (digit_char n)"
  by (simp add: is_digit_def digit_char_def)

lemma digit_val_digit_char [simp]: "n < 10 \<Longrightarrow> digit_val (digit_char n) = n"
  by (simp add: digit_val_def digit_char_def)

lemma digit_val_less: "is_digit c \<Longrightarrow> digit_val c < 10"
  by (auto simp: is_digit_def digit_val_def)

lemma digit_char_digit_val [simp]: "is_digit c \<Longrightarrow> digit_char (digit_val c) = c"
  by (auto simp: is_digit_def digit_val_def digit_char_def code_def)

lemma not_ws_digit: "is_digit c \<Longrightarrow> \<not> is_ws c"
  by (auto simp: is_digit_def is_ws_def)

lemma up_char_idem [simp]: "up_char (up_char c) = up_char c"
  by (auto simp: up_char_def)

lemma low_char_idem [simp]: "low_char (low_char c) = low_char c"
  by (auto simp: low_char_def)

lemma up_char_low_char [simp]: "up_char (low_char c) = up_char c"
  by (auto simp: up_char_def low_char_def code_def)

lemma low_char_up_char [simp]: "low_char (up_char c) = low_char c"
  by (auto simp: up_char_def low_char_def code_def)

lemma is_ws_up_char [simp]: "is_ws (up_char c) = is_ws c"
  by (auto simp: up_char_def is_ws_def)

lemma is_ws_low_char [simp]: "is_ws (low_char c) = is_ws c"
  by (auto simp: low_char_def is_ws_def)

subsection \<open>Strings\<close>

definition trimStart :: "string \<Rightarrow> string" where
  "trimStart s = dropWhile is_ws s"

definition trim :: "string \<Rightarrow> string" where
  "trim s = rev (trimStart (rev (trimStart s)))"

definition toUpperCase :: "string \<Rightarrow> string" where
  "toUpperCase = map up_char"

definition toLowerCase :: "string \<Rightarrow> string" where
  "toLowerCase = map low_char"

definition startsWith :: "string \<Rightarrow> string \<Rightarrow> bool" where
  "startsWith s p \<longleftrightarrow> take (length p) s = p"

definition endsWith :: "string \<Rightarrow> string \<Rightarrow> bool" where
  "endsWith s p \<longleftrightarrow> startsWith (rev s) (rev p)"

fun js_includes :: "string \<Rightarrow> string \<Rightarrow> bool" where
  "js_includes [] p \<longleftrightarrow> p = []"
| "js_includes (c # s) p \<longleftrightarrow> startsWith (c # s) p \<or> js_includes s p"

text \<open>\<open>s.slice(a, b)\<close> for indices that are not negative.\<close>

definition slice :: "nat \<Rightarrow> nat \<Rightarrow> 'a list \<Rightarrow> 'a list" where
  "slice a b s = take (b - a) (drop a s)"

text \<open>\<open>a || b\<close> on strings, \<open>a ?? b\<close> on nullable values, and both together.\<close>

definition or_str :: "string \<Rightarrow> string \<Rightarrow> string" where
  "or_str a b = (if a = [] then b else a)"

definition nullish :: "'a option \<Rightarrow> 'a \<Rightarrow> 'a" where
  "nullish a b = (case a of None \<Rightarrow> b | Some x \<Rightarrow> x)"

definition truthy_str :: "string option \<Rightarrow> bool" where
  "truthy_str v \<longleftrightarrow> v \<noteq> None \<and> v \<noteq> Some []"

definition or_opt :: "string option \<Rightarrow> string \<Rightarrow> string" where
  "or_opt a b = or_str (nullish a []) b"

text \<open>\<open>s.padStart(n, "0")\<close>.\<close>

definition padStart0 :: "nat \<Rightarrow> string \<Rightarrow> string" where
  "padStart0 n s = replicate (n - length s) (CHR ''0'') @ s"

lemma trimStart_Nil [simp]: "trimStart [] = []"
  by (simp add: trimStart_def)

lemma trim_Nil [simp]: "trim [] = []"
  by (simp add: trim_def)

lemma trimStart_idem [simp]: "trimStart (trimStart s) = trimStart s"
  by (simp add: trimStart_def)

lemma trimStart_eq_Nil_iff: "trimStart s = [] \<longleftrightarrow> (\<forall>c \<in> set s. is_ws c)"
  by (simp add: trimStart_def dropWhile_eq_Nil_conv)

lemma trimStart_fixpoint: "trimStart s = s \<longleftrightarrow> s = [] \<or> \<not> is_ws (hd s)"
  by (simp add: trimStart_def dropWhile_eq_self_iff)

lemma trim_eq_Nil_iff: "trim s = [] \<longleftrightarrow> (\<forall>c \<in> set s. is_ws c)"
proof
  assume "trim s = []"
  then have h: "\<forall>c \<in> set (trimStart s). is_ws c"
    by (simp add: trim_def trimStart_eq_Nil_iff)
  have "trimStart s = []"
    using h hd_dropWhile [of is_ws s] hd_in_set unfolding trimStart_def by blast
  then show "\<forall>c \<in> set s. is_ws c" by (simp add: trimStart_eq_Nil_iff)
next
  assume "\<forall>c \<in> set s. is_ws c"
  then have "trimStart s = []" by (simp add: trimStart_eq_Nil_iff)
  then show "trim s = []" by (simp add: trim_def)
qed

lemma trim_id: "s = [] \<or> (\<not> is_ws (hd s) \<and> \<not> is_ws (last s)) \<Longrightarrow> trim s = s"
proof (elim disjE conjE)
  assume "\<not> is_ws (hd s)" and l: "\<not> is_ws (last s)"
  then have "trimStart s = s" by (simp add: trimStart_fixpoint)
  moreover have "trimStart (rev s) = rev s"
    using l by (simp add: trimStart_fixpoint hd_rev)
  ultimately show ?thesis by (simp add: trim_def)
qed simp

lemma trim_no_ws: "\<forall>c \<in> set s. \<not> is_ws c \<Longrightarrow> trim s = s"
  by (rule trim_id) (metis hd_in_set last_in_set)

lemma trim_ends: "trim s \<noteq> [] \<Longrightarrow> \<not> is_ws (hd (trim s)) \<and> \<not> is_ws (last (trim s))"
proof -
  assume ne: "trim s \<noteq> []"
  define u where "u = dropWhile is_ws s"
  define w where "w = dropWhile is_ws (rev u)"
  have t: "trim s = rev w" by (simp add: trim_def trimStart_def u_def w_def)
  with ne have wne: "w \<noteq> []" by simp
  then have "\<not> is_ws (hd w)" unfolding w_def by (rule hd_dropWhile)
  then have l: "\<not> is_ws (last (trim s))" using wne by (simp add: t last_rev)
  from wne have une: "u \<noteq> []" by (auto simp: w_def)
  have "last w = last (rev u)"
    using wne unfolding w_def by (metis append_Nil2 last_append takeWhile_dropWhile_id)
  then have "hd (trim s) = hd u" using wne une by (simp add: t hd_rev last_rev)
  moreover have "\<not> is_ws (hd u)" using une unfolding u_def by (rule hd_dropWhile)
  ultimately show ?thesis using l by simp
qed

lemma trim_idem [simp]: "trim (trim s) = trim s"
  by (metis trim_ends trim_id)

lemma set_trim: "set (trim s) \<subseteq> set s"
proof -
  have d: "set (dropWhile is_ws xs) \<subseteq> set xs" for xs by (auto dest: set_dropWhileD)
  show ?thesis unfolding trim_def trimStart_def
    using d [of s] d [of "rev (dropWhile is_ws s)"] by auto
qed

lemma toUpperCase_idem [simp]: "toUpperCase (toUpperCase s) = toUpperCase s"
  by (simp add: toUpperCase_def)

lemma toLowerCase_idem [simp]: "toLowerCase (toLowerCase s) = toLowerCase s"
  by (simp add: toLowerCase_def)

lemma toUpperCase_eq_Nil [simp]: "toUpperCase s = [] \<longleftrightarrow> s = []"
  by (simp add: toUpperCase_def)

lemma toLowerCase_eq_Nil [simp]: "toLowerCase s = [] \<longleftrightarrow> s = []"
  by (simp add: toLowerCase_def)

lemma toUpperCase_append [simp]: "toUpperCase (s @ u) = toUpperCase s @ toUpperCase u"
  by (simp add: toUpperCase_def)

lemma trimStart_upper: "trimStart (toUpperCase s) = toUpperCase (trimStart s)"
  by (simp add: trimStart_def toUpperCase_def dropWhile_map o_def)

lemma trimStart_lower: "trimStart (toLowerCase s) = toLowerCase (trimStart s)"
  by (simp add: trimStart_def toLowerCase_def dropWhile_map o_def)

lemma trim_upper: "trim (toUpperCase s) = toUpperCase (trim s)"
  by (metis rev_map toUpperCase_def trimStart_upper trim_def)

lemma trim_lower: "trim (toLowerCase s) = toLowerCase (trim s)"
  by (metis rev_map toLowerCase_def trimStart_lower trim_def)

lemma startsWith_append [simp]: "startsWith (p @ s) p"
  by (simp add: startsWith_def)

lemma startsWith_iff: "startsWith s p \<longleftrightarrow> (\<exists>r. s = p @ r)"
  by (metis append_take_drop_id startsWith_append startsWith_def)

lemma js_includes_Nil [simp]: "js_includes s []"
  by (cases s) (auto simp: startsWith_def)

lemma js_includes_iff: "js_includes s p \<longleftrightarrow> (\<exists>a b. s = a @ p @ b)"
proof (induction s)
  case Nil
  then show ?case by simp
next
  case (Cons c s)
  show ?case
  proof
    assume "js_includes (c # s) p"
    then consider r where "c # s = p @ r" | a b where "s = a @ p @ b"
      using Cons.IH by (auto simp: startsWith_iff)
    then show "\<exists>a b. c # s = a @ p @ b"
    proof cases
      case 1
      then show ?thesis by (metis append_Nil)
    next
      case (2 a b)
      then have "c # s = (c # a) @ p @ b" by simp
      then show ?thesis by blast
    qed
  next
    assume "\<exists>a b. c # s = a @ p @ b"
    then obtain a b where e: "c # s = a @ p @ b" by blast
    show "js_includes (c # s) p"
    proof (cases a)
      case Nil
      with e have "startsWith (c # s) p" by (simp add: startsWith_iff)
      then show ?thesis by simp
    next
      case (Cons x a')
      with e have "s = a' @ p @ b" by simp
      then show ?thesis using Cons.IH by auto
    qed
  qed
qed

lemma or_str_Nil [simp]: "or_str [] b = b"
  by (simp add: or_str_def)

lemma nullish_simps [simp]: "nullish None b = b" "nullish (Some a) b = a"
  by (simp_all add: nullish_def)

lemma truthy_str_simps [simp]: "\<not> truthy_str None" "truthy_str (Some s) \<longleftrightarrow> s \<noteq> []"
  by (simp_all add: truthy_str_def)

lemma or_opt_simps [simp]: "or_opt None b = b" "or_opt (Some s) b = or_str s b"
  by (simp_all add: or_opt_def)

lemmas js_string_defs = trim_def trimStart_def toUpperCase_def toLowerCase_def startsWith_def
  endsWith_def or_str_def is_ws_def is_digit_def up_char_def low_char_def code_def

text \<open>\<open>split\<close> at one character.\<close>

fun split_on :: "char \<Rightarrow> string \<Rightarrow> string list" where
  "split_on d [] = [[]]"
| "split_on d (c # s) = (if c = d then [] # split_on d s else (c # hd (split_on d s)) # tl (split_on d s))"

lemma split_on_append: "d \<notin> set s \<Longrightarrow> split_on d (s @ d # r) = s # split_on d r"
  by (induction s) auto

lemma split_on_one: "d \<notin> set s \<Longrightarrow> split_on d s = [s]"
  by (induction s) auto

lemma list_all_update: "list_all P xs \<Longrightarrow> P x \<Longrightarrow> list_all P (xs[n := x])"
  by (auto simp: list_all_iff dest: set_update_subset_insert [THEN subsetD])

end
