(* ===== verification/Interfaces.thy ===== *)
theory Interfaces
  imports Prelude
begin

text \<open>
  The contracts that several modules of the client share, each a locale with the laws its
  provider promises and the lemmas its users need:
  \<^item> \<open>codec\<close>: an encoder with a decoder that undoes it (base64url, decimal numbers,
    JSON text);
  \<^item> \<open>js_comparator\<close> and \<open>js_total_comparator\<close>: the comparison functions handed
    to \<open>Array.prototype.sort\<close>;
  \<^item> \<open>event_machine\<close>: module-level state that changes one event at a time, with an
    invariant;
  \<^item> \<open>aging_store\<close>: a keyed store whose entries stop being served when they are too
    old.
  Every locale is interpreted in the theory of the module that provides it.
\<close>

subsection \<open>Encoders and decoders\<close>

locale codec =
  fixes enc :: "'a \<Rightarrow> 'b" and dec :: "'b \<Rightarrow> 'a option" and dom_ok :: "'a \<Rightarrow> bool"
  assumes dec_enc: "dom_ok x \<Longrightarrow> dec (enc x) = Some x"
begin

lemma enc_inject: "dom_ok x \<Longrightarrow> dom_ok y \<Longrightarrow> enc x = enc y \<longleftrightarrow> x = y"
  by (metis dec_enc option.inject)

lemma enc_inj_on: "inj_on enc (Collect dom_ok)"
  by (auto simp: inj_on_def enc_inject)

lemma dec_map_enc: "\<forall>x \<in> set xs. dom_ok x \<Longrightarrow> map (dec \<circ> enc) xs = map Some xs"
  by (auto simp: dec_enc)

lemma enc_list_inject:
  "\<forall>x \<in> set xs. dom_ok x \<Longrightarrow> \<forall>y \<in> set ys. dom_ok y \<Longrightarrow> map enc xs = map enc ys \<longleftrightarrow> xs = ys"
  by (metis dec_map_enc list.inj_map_strong list.map_comp option.inject)

end

subsection \<open>Sorting with a comparison function\<close>

text \<open>
  ECMAScript's sort is stable: when the comparison function is consistent, the result is the
  one stable arrangement, whatever the algorithm.  The model inserts each element before the
  first one that is not smaller.
\<close>

fun js_insert :: "('a \<Rightarrow> 'a \<Rightarrow> rat) \<Rightarrow> 'a \<Rightarrow> 'a list \<Rightarrow> 'a list" where
  "js_insert cmp x [] = [x]"
| "js_insert cmp x (y # ys) = (if cmp x y \<le> 0 then x # y # ys else y # js_insert cmp x ys)"

definition js_sort :: "('a \<Rightarrow> 'a \<Rightarrow> rat) \<Rightarrow> 'a list \<Rightarrow> 'a list" where
  "js_sort cmp xs = foldr (js_insert cmp) xs []"

lemma js_sort_simps [simp]:
  "js_sort cmp [] = []" "js_sort cmp (x # xs) = js_insert cmp x (js_sort cmp xs)"
  by (simp_all add: js_sort_def)

lemma mset_js_insert [simp]: "mset (js_insert cmp x xs) = {#x#} + mset xs"
  by (induction xs) auto

lemma mset_js_sort [simp]: "mset (js_sort cmp xs) = mset xs"
  by (induction xs) auto

lemma set_js_sort [simp]: "set (js_sort cmp xs) = set xs"
  by (metis mset_js_sort set_mset_mset)

lemma set_js_insert [simp]: "set (js_insert cmp x xs) = insert x (set xs)"
  by (induction xs) auto

lemma length_js_sort [simp]: "length (js_sort cmp xs) = length xs"
  by (metis mset_js_sort size_mset)

lemma distinct_js_sort [simp]: "distinct (js_sort cmp xs) = distinct xs"
  by (metis distinct_count_atmost_1 mset_js_sort set_js_sort)

locale js_comparator =
  fixes cmp :: "'a \<Rightarrow> 'a \<Rightarrow> rat"
  assumes cmp_flip: "sgn (cmp y x) = - sgn (cmp x y)"
    and cmp_trans: "cmp x y \<le> 0 \<Longrightarrow> cmp y z \<le> 0 \<Longrightarrow> cmp x z \<le> 0"
begin

lemma cmp_self: "cmp x x = 0"
  using cmp_flip [of x x] by (simp add: sgn_if split: if_splits)

lemma cmp_le_flip: "\<not> cmp x y \<le> 0 \<Longrightarrow> cmp y x \<le> 0"
  using cmp_flip [of y x] by (auto simp: sgn_if split: if_splits)

lemma cmp_zero_flip: "cmp x y = 0 \<longleftrightarrow> cmp y x = 0"
  using cmp_flip [of y x] by (auto simp: sgn_if split: if_splits)

lemma cmp_zero_le: "cmp x y = 0 \<longleftrightarrow> cmp x y \<le> 0 \<and> cmp y x \<le> 0"
  using cmp_flip [of y x] by (auto simp: sgn_if split: if_splits)

lemma sorted_js_insert:
  "sorted_wrt (\<lambda>x y. cmp x y \<le> 0) xs \<Longrightarrow> sorted_wrt (\<lambda>x y. cmp x y \<le> 0) (js_insert cmp x xs)"
  by (induction xs) (auto intro: cmp_trans cmp_le_flip)

lemma sorted_js_sort: "sorted_wrt (\<lambda>x y. cmp x y \<le> 0) (js_sort cmp xs)"
  by (induction xs) (auto intro: sorted_js_insert)

lemma js_insert_stable:
  "filter (\<lambda>y. cmp z y = 0) (js_insert cmp x xs) = filter (\<lambda>y. cmp z y = 0) (x # xs)"
proof (induction xs)
  case Nil
  then show ?case by simp
next
  case (Cons y ys)
  have "\<not> (cmp z x = 0 \<and> cmp z y = 0)" if "\<not> cmp x y \<le> 0"
  proof
    assume a: "cmp z x = 0 \<and> cmp z y = 0"
    then have "cmp x z = 0" using cmp_zero_flip [of z x] by simp
    with a have "cmp x y \<le> 0" by (intro cmp_trans [of x z y]) simp_all
    with that show False by simp
  qed
  with Cons.IH show ?case by auto
qed

lemma js_sort_stable: "filter (\<lambda>y. cmp z y = 0) (js_sort cmp xs) = filter (\<lambda>y. cmp z y = 0) xs"
  by (induction xs) (simp_all add: js_insert_stable)

lemma js_sort_sorted_id: "sorted_wrt (\<lambda>x y. cmp x y \<le> 0) xs \<Longrightarrow> js_sort cmp xs = xs"
proof (induction xs)
  case Nil
  then show ?case by simp
next
  case (Cons x xs)
  then show ?case by (cases xs) auto
qed

lemma js_sort_idem: "js_sort cmp (js_sort cmp xs) = js_sort cmp xs"
  by (rule js_sort_sorted_id [OF sorted_js_sort])

end

text \<open>
  Comparison functions are built from simpler ones: by a key, reversed, and one after the other
  where the first is undecided.
\<close>

definition cmp_then :: "('a \<Rightarrow> 'a \<Rightarrow> rat) \<Rightarrow> ('a \<Rightarrow> 'a \<Rightarrow> rat) \<Rightarrow> 'a \<Rightarrow> 'a \<Rightarrow> rat" where
  "cmp_then c d a b = (if c a b \<noteq> 0 then c a b else d a b)"

lemma js_comparator_diff: "js_comparator (\<lambda>a b. f a - f b)"
  by unfold_locales (simp_all add: sgn_if)

lemma js_comparator_comap: "js_comparator c \<Longrightarrow> js_comparator (\<lambda>a b. c (f a) (f b))"
  unfolding js_comparator_def by blast

lemma js_comparator_neg:
  assumes "js_comparator c"
  shows "js_comparator (\<lambda>a b. - c a b)"
proof
  fix x y z
  show "sgn (- c y x) = - sgn (- c x y)"
    using js_comparator.cmp_flip [OF assms, of y x] by (simp add: sgn_minus)
  assume "- c x y \<le> 0" "- c y z \<le> 0"
  then have "c y x \<le> 0" "c z y \<le> 0"
    using js_comparator.cmp_flip [OF assms, of y x] js_comparator.cmp_flip [OF assms, of z y]
    by (auto simp: sgn_if split: if_splits)
  then have "c z x \<le> 0" using js_comparator.cmp_trans [OF assms] by blast
  then show "- c x z \<le> 0"
    using js_comparator.cmp_flip [OF assms, of z x] by (auto simp: sgn_if split: if_splits)
qed

lemma js_comparator_then:
  assumes c: "js_comparator c" and d: "js_comparator d"
  shows "js_comparator (cmp_then c d)"
proof
  fix x y z
  show "sgn (cmp_then c d y x) = - sgn (cmp_then c d x y)"
    using js_comparator.cmp_flip [OF c, of y x] js_comparator.cmp_flip [OF d, of y x]
      js_comparator.cmp_zero_flip [OF c, of x y] by (simp add: cmp_then_def)
  assume xy: "cmp_then c d x y \<le> 0" and yz: "cmp_then c d y z \<le> 0"
  then have le: "c x y \<le> 0" "c y z \<le> 0" by (auto simp: cmp_then_def split: if_splits)
  then have xz: "c x z \<le> 0" by (rule js_comparator.cmp_trans [OF c])
  show "cmp_then c d x z \<le> 0"
  proof (cases "c x z = 0")
    case True
    then have "c z x \<le> 0" using js_comparator.cmp_zero_le [OF c, of x z] by simp
    then have "c y x \<le> 0" "c z y \<le> 0" using le js_comparator.cmp_trans [OF c] by blast+
    then have "c x y = 0" "c y z = 0" using le js_comparator.cmp_zero_le [OF c] by blast+
    with xy yz have "d x y \<le> 0" "d y z \<le> 0" by (auto simp: cmp_then_def)
    then have "d x z \<le> 0" by (rule js_comparator.cmp_trans [OF d])
    with True show ?thesis by (simp add: cmp_then_def)
  next
    case False
    with xz show ?thesis by (simp add: cmp_then_def)
  qed
qed

text \<open>
  A comparison that only calls equal elements equal: the sorted list depends on the elements
  alone, not on their order in the input.
\<close>

locale js_total_comparator = js_comparator +
  fixes key :: "'a \<Rightarrow> 'k"
  assumes cmp_zero_key: "cmp x y = 0 \<Longrightarrow> key x = key y"
begin

lemma sorted_unique:
  assumes "sorted_wrt (\<lambda>x y. cmp x y \<le> 0) xs" and "sorted_wrt (\<lambda>x y. cmp x y \<le> 0) ys"
    and "mset xs = mset ys" and "inj_on key (set xs)"
  shows "xs = ys"
  using assms
proof (induction xs arbitrary: ys)
  case Nil
  then show ?case by simp
next
  case (Cons x xs)
  then obtain y ys' where ys: "ys = y # ys'" by (cases ys) auto
  have "x \<in> set ys" using Cons.prems(3) by (metis list.set_intros(1) mset_eq_setD)
  then have yx: "cmp y x \<le> 0" using Cons.prems(2) ys cmp_self by auto
  have yin: "y \<in> set (x # xs)" using Cons.prems(3) ys by (metis list.set_intros(1) mset_eq_setD)
  then have xy: "cmp x y \<le> 0" using Cons.prems(1) cmp_self by auto
  from xy yx have "cmp x y = 0" by (simp add: cmp_zero_le)
  then have "key x = key y" by (rule cmp_zero_key)
  with Cons.prems(4) yin have e: "x = y" by (auto simp: inj_on_def)
  have "xs = ys'"
    by (rule Cons.IH) (use Cons.prems ys e in \<open>auto simp: inj_on_def\<close>)
  with e ys show ?case by simp
qed

lemma js_sort_perm: "mset xs = mset ys \<Longrightarrow> inj_on key (set xs) \<Longrightarrow> js_sort cmp xs = js_sort cmp ys"
  by (rule sorted_unique) (simp_all add: sorted_js_sort)

end

subsection \<open>State that changes one event at a time\<close>

locale event_machine =
  fixes step :: "'s \<Rightarrow> 'e \<Rightarrow> 's" and inv :: "'s \<Rightarrow> bool"
  assumes step_inv: "inv s \<Longrightarrow> inv (step s e)"
begin

lemma run_inv: "inv s \<Longrightarrow> inv (foldl step s es)"
  by (induction es arbitrary: s) (auto intro: step_inv)

lemma run_prefix_inv: "inv s \<Longrightarrow> inv (foldl step s (take n es))"
  by (rule run_inv)

end

subsection \<open>Stores whose entries expire\<close>

locale aging_store =
  fixes find :: "'s \<Rightarrow> 'k \<Rightarrow> int \<Rightarrow> 'v option" and put :: "'s \<Rightarrow> 'k \<Rightarrow> 'v \<Rightarrow> int \<Rightarrow> 's"
    and fresh :: "int \<Rightarrow> bool"
  assumes find_put_same: "find (put s k v t) k now = (if fresh (now - t) then Some v else None)"
    and find_put_other: "k \<noteq> k' \<Longrightarrow> find (put s k v t) k' now = find s k' now"
begin

lemma find_put_all_other:
  "k \<notin> fst ` set kvs \<Longrightarrow> find (foldl (\<lambda>s (k, v). put s k v t) s kvs) k now = find s k now"
  by (induction kvs arbitrary: s) (auto simp: find_put_other)

lemma find_put_all:
  "fresh (now - t) \<Longrightarrow> distinct (map fst kvs) \<Longrightarrow> (k, v) \<in> set kvs \<Longrightarrow>
   find (foldl (\<lambda>s (k, v). put s k v t) s kvs) k now = Some v"
proof (induction kvs arbitrary: s)
  case Nil
  then show ?case by simp
next
  case (Cons kv kvs)
  obtain k' v' where kv: "kv = (k', v')" by (cases kv)
  show ?case
  proof (cases "(k, v) \<in> set kvs")
    case True
    with Cons kv show ?thesis by simp
  next
    case False
    with Cons.prems kv have "k = k'" "v = v'" "k \<notin> fst ` set kvs" by auto
    with Cons.prems kv show ?thesis by (simp add: find_put_all_other find_put_same)
  qed
qed

lemma put_overwrites: "find (put (put s k v t) k w u) k now = find (put s k w u) k now"
  by (simp add: find_put_same)

end

end
