(* ===== verification/Numbers.thy ===== *)
theory Numbers
  imports Interfaces
begin

text \<open>
  Decimal text: \<open>parseInt(s, 10)\<close>, \<open>parseFloat(s)\<close> and \<open>toString\<close> of
  integers and of decimal fractions, as the forms of the client use them.  \<open>NaN\<close> of
  \<open>parseInt\<close> is \<open>None\<close>.  Numbers are exact: from 2 to the 53 on, where a double is rounded (and a text of more
  than 308 digits infinite), the model keeps the digits.  Printing and parsing are shown to be inverse, which is what
  makes the forms keep a value that nobody edited.
\<close>

subsection \<open>Natural numbers and integers\<close>

fun digits_of :: "nat \<Rightarrow> string" where
  "digits_of n = (if n < 10 then [digit_char n] else digits_of (n div 10) @ [digit_char (n mod 10)])"

declare digits_of.simps [simp del]

definition digits_val :: "string \<Rightarrow> nat" where
  "digits_val ds = foldl (\<lambda>a c. 10 * a + digit_val c) 0 ds"

definition int_to_string :: "int \<Rightarrow> string" where
  "int_to_string i = (if i < 0 then CHR ''-'' # digits_of (nat (- i)) else digits_of (nat i))"

definition split_sign :: "string \<Rightarrow> bool \<times> string" where
  "split_sign s = (case s of [] \<Rightarrow> (False, [])
     | c # r \<Rightarrow> if c = CHR ''-'' then (True, r) else if c = CHR ''+'' then (False, r) else (False, s))"

definition parse_int :: "string \<Rightarrow> int option" where
  "parse_int s = (let (neg, body) = split_sign (trimStart s); ds = takeWhile is_digit body
     in if ds = [] then None else Some (if neg then - int (digits_val ds) else int (digits_val ds)))"

lemma digits_of_digits: "\<forall>c \<in> set (digits_of n). is_digit c"
proof (induction n rule: digits_of.induct)
  case (1 n)
  then show ?case by (subst digits_of.simps) auto
qed

lemma digits_of_ne [simp]: "digits_of n \<noteq> []"
  by (subst digits_of.simps) simp

lemma digits_val_snoc [simp]: "digits_val (ds @ [c]) = 10 * digits_val ds + digit_val c"
  by (simp add: digits_val_def)

lemma digits_val_Nil [simp]: "digits_val [] = 0"
  by (simp add: digits_val_def)

lemma digits_val_append: "digits_val (ds @ es) = digits_val ds * 10 ^ length es + digits_val es"
  by (induction es rule: rev_induct) (simp_all add: algebra_simps flip: append_assoc)

lemma digits_val_digits_of [simp]: "digits_val (digits_of n) = n"
proof (induction n rule: digits_of.induct)
  case (1 n)
  show ?case
  proof (cases "n < 10")
    case True
    then show ?thesis by (subst digits_of.simps) (simp add: digits_val_def)
  next
    case False
    with 1 show ?thesis by (subst digits_of.simps) simp
  qed
qed

lemma takeWhile_digits_of: "takeWhile is_digit (digits_of n @ r) = digits_of n @ takeWhile is_digit r"
  by (simp add: digits_of_digits takeWhile_append2)

lemma dropWhile_digits_of: "dropWhile is_digit (digits_of n @ r) = dropWhile is_digit r"
  by (simp add: digits_of_digits dropWhile_append2)

lemma takeWhile_digits_of_all [simp]: "takeWhile is_digit (digits_of n) = digits_of n"
  using takeWhile_digits_of [of n "[]"] by simp

lemma dropWhile_digits_of_all [simp]: "dropWhile is_digit (digits_of n) = []"
  using dropWhile_digits_of [of n "[]"] by simp

lemma hd_digits_of: "is_digit (hd (digits_of n))"
  using digits_of_digits [of n] by simp

lemma not_digit_signs [simp]:
  "\<not> is_digit (CHR ''-'')" "\<not> is_digit (CHR ''+'')" "\<not> is_digit (CHR ''.'')" "\<not> is_ws (CHR ''-'')"
  "\<not> is_digit (CHR ''e'')" "\<not> is_digit (CHR ''E'')"
  by (simp_all add: is_digit_def is_ws_def code_def)

lemma trimStart_digits_of [simp]: "trimStart (digits_of n @ r) = digits_of n @ r"
  using hd_digits_of [of n] not_ws_digit by (cases "digits_of n") (auto simp: trimStart_def)

lemma split_sign_digits_of [simp]: "split_sign (digits_of n @ r) = (False, digits_of n @ r)"
  using hd_digits_of [of n] by (cases "digits_of n") (auto simp: split_sign_def)

lemma parse_int_int_to_string: "parse_int (int_to_string i) = Some i"
proof (cases "i < 0")
  case True
  then show ?thesis
    by (simp add: int_to_string_def parse_int_def trimStart_def split_sign_def Let_def)
next
  case False
  then show ?thesis
    using trimStart_digits_of [of "nat i" "[]"] split_sign_digits_of [of "nat i" "[]"]
    by (simp add: int_to_string_def parse_int_def Let_def)
qed

lemma int_to_string_ne [simp]: "int_to_string i \<noteq> []"
  by (simp add: int_to_string_def)

interpretation int_text: codec int_to_string parse_int "\<lambda>_. True"
  by unfold_locales (rule parse_int_int_to_string)

lemma parse_int_digits_only:
  assumes "ds \<noteq> []" and "\<forall>c \<in> set ds. is_digit c"
  shows "parse_int ds = Some (int (digits_val ds))"
proof -
  obtain c r where ds: "ds = c # r" using assms(1) by (cases ds) auto
  with assms(2) have "is_digit c" by simp
  then have "trimStart ds = ds" and "split_sign ds = (False, ds)"
    using ds not_ws_digit by (auto simp: trimStart_def split_sign_def)
  moreover have "takeWhile is_digit ds = ds" using assms(2) by (simp add: takeWhile_eq_all_conv)
  ultimately show ?thesis using assms(1) by (simp add: parse_int_def Let_def del: takeWhile_eq_all_conv)
qed

subsection \<open>parseFloat\<close>

datatype js_number = NaN | Infinity bool | Num rat

definition pow10 :: "int \<Rightarrow> rat" where
  "pow10 e = (if 0 \<le> e then 10 ^ nat e else 1 / 10 ^ nat (- e))"

definition parse_exponent :: "string \<Rightarrow> int" where
  "parse_exponent r = (case r of [] \<Rightarrow> 0
     | c # r' \<Rightarrow> if c = CHR ''e'' \<or> c = CHR ''E''
        then (let (neg, body) = split_sign r'; ds = takeWhile is_digit body
              in if ds = [] then 0 else if neg then - int (digits_val ds) else int (digits_val ds))
        else 0)"

definition split_fraction :: "string \<Rightarrow> string \<times> string" where
  "split_fraction r = (case r of [] \<Rightarrow> ([], [])
     | c # r' \<Rightarrow> if c = CHR ''.'' then (takeWhile is_digit r', dropWhile is_digit r') else ([], r))"

definition parse_float :: "string \<Rightarrow> js_number" where
  "parse_float s =
     (let (neg, body) = split_sign (trimStart s) in
      if startsWith body ''Infinity'' then Infinity neg
      else let ip = takeWhile is_digit body; (fp, rest) = split_fraction (dropWhile is_digit body)
        in if ip = [] \<and> fp = [] then NaN
           else let m = rat_of_nat (digits_val (ip @ fp)) * pow10 (parse_exponent rest - int (length fp))
             in Num (if neg then - m else m))"

text \<open>
  \<open>Number.prototype.toString\<close> on a decimal fraction: the integer part, and after a point
  the digits up to the last one that is not zero.  The fuel bounds the number of digits after
  the point.
\<close>

fun frac_digits :: "nat \<Rightarrow> rat \<Rightarrow> string" where
  "frac_digits 0 q = []"
| "frac_digits (Suc n) q =
     (if q = 0 then [] else digit_char (nat \<lfloor>10 * q\<rfloor>) # frac_digits n (10 * q - of_int \<lfloor>10 * q\<rfloor>))"

definition decimal_digits :: nat where
  "decimal_digits = 15"

definition decimal_to_string :: "rat \<Rightarrow> string" where
  "decimal_to_string x =
     (let a = \<bar>x\<bar>; ip = digits_of (nat \<lfloor>a\<rfloor>); fp = frac_digits decimal_digits (a - of_int \<lfloor>a\<rfloor>)
      in (if x < 0 then ''-'' else []) @ ip @ (if fp = [] then [] else CHR ''.'' # fp))"

definition short_decimal :: "rat \<Rightarrow> bool" where
  "short_decimal x \<longleftrightarrow> x * 10 ^ decimal_digits \<in> \<int>"

lemma frac_step:
  fixes q :: rat
  assumes "0 \<le> q" "q < 1"
  shows "0 \<le> \<lfloor>10 * q\<rfloor>" "\<lfloor>10 * q\<rfloor> < 10" "0 \<le> 10 * q - of_int \<lfloor>10 * q\<rfloor>" "10 * q - of_int \<lfloor>10 * q\<rfloor> < 1"
  using assms by (simp_all add: floor_less_iff) linarith

lemma frac_digits_digits: "0 \<le> q \<Longrightarrow> q < 1 \<Longrightarrow> \<forall>c \<in> set (frac_digits n q). is_digit c"
proof (induction n arbitrary: q)
  case 0
  then show ?case by simp
next
  case (Suc n)
  note fs = frac_step [OF Suc.prems]
  have "nat \<lfloor>10 * q\<rfloor> < 10" using fs(1,2) by linarith
  then have "is_digit (digit_char (nat \<lfloor>10 * q\<rfloor>))" by simp
  moreover have "\<forall>c \<in> set (frac_digits n (10 * q - of_int \<lfloor>10 * q\<rfloor>)). is_digit c"
    using fs(3,4) by (rule Suc.IH)
  ultimately show ?case by simp
qed

lemma digits_val_Cons: "digits_val (c # ds) = digit_val c * 10 ^ length ds + digits_val ds"
  using digits_val_append [of "[c]" ds] by (simp add: digits_val_def)

lemma frac_digits_val:
  "0 \<le> q \<Longrightarrow> q < 1 \<Longrightarrow> q * 10 ^ n \<in> \<int> \<Longrightarrow>
   rat_of_nat (digits_val (frac_digits n q)) = q * 10 ^ length (frac_digits n q)"
proof (induction n arbitrary: q)
  case 0
  then obtain k :: int where k: "q = of_int k" by (auto elim: Ints_cases)
  with 0 have "0 \<le> k" "k < 1" by simp_all
  with k show ?case by simp
next
  case (Suc n)
  note fs = frac_step [OF Suc.prems(1,2)]
  let ?d = "\<lfloor>10 * q\<rfloor>" and ?r = "10 * q - of_int \<lfloor>10 * q\<rfloor>"
  have "?r * 10 ^ n = q * 10 ^ Suc n - of_int (?d * 10 ^ n)" by (simp add: algebra_simps)
  with Suc.prems(3) have "?r * 10 ^ n \<in> \<int>" by (metis Ints_diff Ints_of_int)
  with fs(3,4) have ih: "rat_of_nat (digits_val (frac_digits n ?r)) = ?r * 10 ^ length (frac_digits n ?r)"
    by (rule Suc.IH)
  have dv: "rat_of_nat (digit_val (digit_char (nat ?d))) = of_int ?d"
  proof -
    have "nat ?d < 10" using fs(1,2) by linarith
    then show ?thesis using fs(1) by simp
  qed
  show ?case
  proof (cases "q = 0")
    case False
    let ?l = "length (frac_digits n ?r)"
    have "rat_of_nat (digits_val (frac_digits (Suc n) q)) = of_int ?d * 10 ^ ?l + ?r * 10 ^ ?l"
      using False by (simp add: digits_val_Cons ih dv)
    also have "\<dots> = q * 10 ^ length (frac_digits (Suc n) q)"
      using False by (simp add: algebra_simps)
    finally show ?thesis .
  qed simp
qed

lemma split_fraction_digits:
  "\<forall>c \<in> set fp. is_digit c \<Longrightarrow> split_fraction (CHR ''.'' # fp) = (fp, [])"
  by (simp add: split_fraction_def takeWhile_eq_all_conv dropWhile_eq_Nil_conv)

lemma not_Infinity_digits: "\<not> startsWith (digits_of n @ r) ''Infinity''"
  using hd_digits_of [of n]
  by (cases "digits_of n") (auto simp: startsWith_def is_digit_def code_def)

lemma parse_float_unsigned:
  assumes fp: "\<forall>c \<in> set fp. is_digit c"
    and sgn: "split_sign (trimStart s) = (neg, digits_of n @ (if fp = [] then [] else CHR ''.'' # fp))"
  shows "parse_float s =
    Num ((if neg then -1 else 1) * (rat_of_nat (digits_val (digits_of n @ fp)) / 10 ^ length fp))"
proof -
  let ?b = "digits_of n @ (if fp = [] then [] else CHR ''.'' # fp)"
  have tw: "takeWhile is_digit ?b = digits_of n"
    by (simp add: takeWhile_digits_of)
  have dw: "split_fraction (dropWhile is_digit ?b) = (fp, [])"
    using fp split_fraction_digits [OF fp]
    by (cases "fp = []") (simp_all add: dropWhile_digits_of, simp add: split_fraction_def)
  show ?thesis
    unfolding parse_float_def sgn
    by (simp add: tw dw not_Infinity_digits parse_exponent_def pow10_def del: takeWhile_append dropWhile_append
        split: if_splits)
qed

lemma parse_float_decimal:
  assumes "short_decimal x"
  shows "parse_float (decimal_to_string x) = Num x"
proof -
  let ?a = "\<bar>x\<bar>" and ?q = "\<bar>x\<bar> - of_int \<lfloor>\<bar>x\<bar>\<rfloor>"
  let ?n = "nat \<lfloor>?a\<rfloor>" and ?fp = "frac_digits decimal_digits ?q"
  have q: "0 \<le> ?q" "?q < 1" by (simp, linarith)
  have "?q * 10 ^ decimal_digits = \<bar>x\<bar> * 10 ^ decimal_digits - of_int (\<lfloor>?a\<rfloor> * 10 ^ decimal_digits)"
    by (simp add: algebra_simps)
  moreover have "\<bar>x\<bar> * 10 ^ decimal_digits \<in> \<int>"
    using assms by (cases "x < 0") (auto simp: short_decimal_def)
  ultimately have int: "?q * 10 ^ decimal_digits \<in> \<int>" by (metis Ints_diff Ints_of_int)
  have fp: "\<forall>c \<in> set ?fp. is_digit c" using q by (rule frac_digits_digits)
  have n: "rat_of_nat ?n = of_int \<lfloor>?a\<rfloor>" by simp
  have val: "rat_of_nat (digits_val (digits_of ?n @ ?fp)) / 10 ^ length ?fp = ?a"
    by (simp add: digits_val_append frac_digits_val [OF q int] n add_divide_distrib)
  let ?s = "digits_of ?n @ (if ?fp = [] then [] else CHR ''.'' # ?fp)"
  have ss: "split_sign (trimStart (decimal_to_string x)) = (x < 0, ?s)"
    using trimStart_digits_of split_sign_digits_of
    by (cases "x < 0") (simp_all add: decimal_to_string_def Let_def trimStart_def split_sign_def)
  show ?thesis
    using parse_float_unsigned [OF fp ss] val by (auto split: if_splits)
qed

interpretation decimal_text: codec decimal_to_string
  "\<lambda>s. case parse_float s of Num x \<Rightarrow> Some x | _ \<Rightarrow> None" short_decimal
  by unfold_locales (simp add: parse_float_decimal)

end
