(* ===== verification/Json.thy ===== *)
theory Json
  imports Numbers "HOL-Library.Monad_Syntax"
begin

text \<open>
  JSON values, \<open>JSON.stringify\<close> and \<open>JSON.parse\<close>, as the client uses them for channel
  configurations, stored objects and response bodies.  An object is the list of its members in
  property order.  Text is restricted to code units below 256 (an escape of a larger one does not
  parse), numbers print as decimal fractions.  The parser runs on fuel; \<open>json_parse\<close> starts it
  with more than the length of the text, and every recursive call consumes a character, so the fuel
  never runs out before the text does.
\<close>

datatype json =
    JNull
  | JBool bool
  | JNum rat
  | JStr string
  | JArr "json list"
  | JObj "(string \<times> json) list"

fun json_truthy :: "json \<Rightarrow> bool" where
  "json_truthy JNull = False"
| "json_truthy (JBool b) = b"
| "json_truthy (JNum x) = (x \<noteq> 0)"
| "json_truthy (JStr s) = (s \<noteq> [])"
| "json_truthy (JArr xs) = True"
| "json_truthy (JObj kvs) = True"

text \<open>\<open>data?.key\<close>: \<open>None\<close> is \<open>undefined\<close>.\<close>

fun json_get :: "json \<Rightarrow> string \<Rightarrow> json option" where
  "json_get (JObj kvs) k = map_of kvs k"
| "json_get _ k = None"

definition obj_put :: "string \<Rightarrow> 'a \<Rightarrow> (string \<times> 'a) list \<Rightarrow> (string \<times> 'a) list" where
  "obj_put k v kvs = (if k \<in> fst ` set kvs then map (\<lambda>(k', w). (k', if k' = k then v else w)) kvs
     else kvs @ [(k, v)])"

definition obj_of :: "(string \<times> 'a) list \<Rightarrow> (string \<times> 'a) list" where
  "obj_of kvs = foldl (\<lambda>m (k, v). obj_put k v m) [] kvs"

lemma map_of_replace:
  "map_of (map (\<lambda>(k', w). (k', if k' = k then v else w)) kvs) x =
   (if x = k \<and> k \<in> fst ` set kvs then Some v else map_of kvs x)"
proof (induction kvs)
  case (Cons a kvs)
  then show ?case by (cases "fst a = x"; cases "x = k") (simp_all add: case_prod_beta)
qed simp

lemma map_of_obj_put [simp]: "map_of (obj_put k v kvs) = (map_of kvs)(k \<mapsto> v)"
proof (rule ext)
  fix x
  have "map_of kvs k = None" if "k \<notin> fst ` set kvs" using that by (simp add: map_of_eq_None_iff)
  then show "map_of (obj_put k v kvs) x = ((map_of kvs)(k \<mapsto> v)) x"
    by (cases "k \<in> fst ` set kvs") (simp_all add: obj_put_def map_of_replace map_add_def split: option.split)
qed

lemma keys_obj_put: "map fst (obj_put k v kvs) = (if k \<in> fst ` set kvs then map fst kvs else map fst kvs @ [k])"
  by (induction kvs) (auto simp: obj_put_def)

lemma distinct_obj_put: "distinct (map fst kvs) \<Longrightarrow> distinct (map fst (obj_put k v kvs))"
  by (simp add: keys_obj_put)

lemma obj_of_distinct: "distinct (map fst kvs) \<Longrightarrow> obj_of kvs = kvs"
proof -
  have "distinct (map fst (m @ kvs)) \<Longrightarrow> foldl (\<lambda>m (k, v). obj_put k v m) m kvs = m @ kvs" for m
  proof (induction kvs arbitrary: m)
    case (Cons kv kvs)
    then have "fst kv \<notin> fst ` set m" by auto
    then have "obj_put (fst kv) (snd kv) m = m @ [kv]" by (simp add: obj_put_def)
    with Cons show ?case by (auto simp: case_prod_beta)
  qed simp
  from this [of "[]"] show "distinct (map fst kvs) \<Longrightarrow> obj_of kvs = kvs" by (simp add: obj_of_def)
qed

lemma map_of_obj_of: "map_of (obj_of kvs) k = map_of (rev kvs) k"
proof -
  have "map_of (foldl (\<lambda>m (k, v). obj_put k v m) m kvs) k = (map_of m ++ map_of (rev kvs)) k" for m
    by (induction kvs arbitrary: m) (auto simp: map_add_def split: option.splits)
  from this [of "[]"] show ?thesis by (simp add: obj_of_def)
qed

subsection \<open>JSON.stringify\<close>

definition hex_digit :: "nat \<Rightarrow> char" where
  "hex_digit n = (if n < 10 then char_of (48 + n) else char_of (87 + n))"

definition esc_char :: "char \<Rightarrow> string" where
  "esc_char c =
     (if c = CHR 0x22 then [CHR 0x5C, CHR 0x22]
      else if c = CHR 0x5C then [CHR 0x5C, CHR 0x5C]
      else if code c = 8 then [CHR 0x5C, CHR ''b'']
      else if code c = 9 then [CHR 0x5C, CHR ''t'']
      else if code c = 10 then [CHR 0x5C, CHR ''n'']
      else if code c = 12 then [CHR 0x5C, CHR ''f'']
      else if code c = 13 then [CHR 0x5C, CHR ''r'']
      else if code c < 32 then [CHR 0x5C, CHR ''u'', CHR ''0'', CHR ''0'', hex_digit (code c div 16), hex_digit (code c mod 16)]
      else [c])"

definition quote :: "string \<Rightarrow> string" where
  "quote s = CHR 0x22 # concat (map esc_char s) @ [CHR 0x22]"

fun join :: "string \<Rightarrow> string list \<Rightarrow> string" where
  "join sep [] = []"
| "join sep [x] = x"
| "join sep (x # y # xs) = x @ sep @ join sep (y # xs)"

fun json_stringify :: "json \<Rightarrow> string" where
  "json_stringify JNull = ''null''"
| "json_stringify (JBool b) = (if b then ''true'' else ''false'')"
| "json_stringify (JNum x) = decimal_to_string x"
| "json_stringify (JStr s) = quote s"
| "json_stringify (JArr xs) = ''['' @ join '','' (map json_stringify xs) @ '']''"
| "json_stringify (JObj kvs) =
     ''{'' @ join '','' (map (\<lambda>(k, v). quote k @ '':'' @ json_stringify v) kvs) @ ''}''"

text \<open>\<open>a ?? b\<close> on a member that may be missing or \<open>null\<close>.\<close>

definition json_nullish :: "json option \<Rightarrow> json \<Rightarrow> json" where
  "json_nullish a b = (case a of None \<Rightarrow> b | Some JNull \<Rightarrow> b | Some x \<Rightarrow> x)"

text \<open>\<open>String(v)\<close>, also inside a template literal.\<close>

fun js_text :: "json \<Rightarrow> string" where
  "js_text JNull = ''null''"
| "js_text (JBool b) = (if b then ''true'' else ''false'')"
| "js_text (JNum x) = decimal_to_string x"
| "js_text (JStr s) = s"
| "js_text (JArr xs) = join '','' (map (\<lambda>x. if x = JNull then [] else js_text x) xs)"
| "js_text (JObj kvs) = ''[object Object]''"

subsection \<open>JSON.parse\<close>

definition json_ws :: "char \<Rightarrow> bool" where
  "json_ws c \<longleftrightarrow> code c \<in> {9, 10, 13, 32}"

definition skip_ws :: "string \<Rightarrow> string" where
  "skip_ws = dropWhile json_ws"

definition hex_val :: "char \<Rightarrow> nat option" where
  "hex_val c = (if is_digit c then Some (code c - 48)
     else if 97 \<le> code c \<and> code c \<le> 102 then Some (code c - 87)
     else if 65 \<le> code c \<and> code c \<le> 70 then Some (code c - 55) else None)"

definition hex4 :: "char \<Rightarrow> char \<Rightarrow> char \<Rightarrow> char \<Rightarrow> char option" where
  "hex4 a b c d = do { x \<leftarrow> hex_val a; y \<leftarrow> hex_val b; z \<leftarrow> hex_val c; w \<leftarrow> hex_val d;
     if x = 0 \<and> y = 0 then Some (char_of (16 * z + w)) else None }"

definition simple_escape :: "char \<Rightarrow> char option" where
  "simple_escape e =
     (if e = CHR 0x22 \<or> e = CHR 0x5C \<or> e = CHR ''/'' then Some e
      else if e = CHR ''b'' then Some (char_of (8 :: nat))
      else if e = CHR ''t'' then Some (char_of (9 :: nat))
      else if e = CHR ''n'' then Some (char_of (10 :: nat))
      else if e = CHR ''f'' then Some (char_of (12 :: nat))
      else if e = CHR ''r'' then Some (char_of (13 :: nat)) else None)"

text \<open>The rest of a string after its opening quote.\<close>

fun p_chars :: "string \<Rightarrow> (string \<times> string) option" where
  "p_chars [] = None"
| "p_chars (c # r) =
     (if c = CHR 0x22 then Some ([], r)
      else if c = CHR 0x5C then
        (case r of
           e # r1 \<Rightarrow>
             if e = CHR ''u'' then
               (case r1 of
                  a # b # x # y # r2 \<Rightarrow>
                    do { ch \<leftarrow> hex4 a b x y; (s, rest) \<leftarrow> p_chars r2; Some (ch # s, rest) }
                | _ \<Rightarrow> None)
             else do { ch \<leftarrow> simple_escape e; (s, rest) \<leftarrow> p_chars r1; Some (ch # s, rest) }
         | [] \<Rightarrow> None)
      else if code c < 32 then None
      else do { (s, rest) \<leftarrow> p_chars r; Some (c # s, rest) })"

definition p_exponent :: "string \<Rightarrow> string option" where
  "p_exponent s = (case s of [] \<Rightarrow> Some []
     | c # r \<Rightarrow> if c = CHR ''e'' \<or> c = CHR ''E''
        then (let body = snd (split_sign r)
              in if takeWhile is_digit body = [] then None else Some (dropWhile is_digit body))
        else Some s)"

definition p_fraction :: "string \<Rightarrow> string option" where
  "p_fraction s = (case s of [] \<Rightarrow> Some []
     | c # r \<Rightarrow> if c = CHR ''.''
        then (if takeWhile is_digit r = [] then None else p_exponent (dropWhile is_digit r))
        else p_exponent s)"

definition p_number :: "string \<Rightarrow> (json \<times> string) option" where
  "p_number s =
     (let body = (case s of c # r \<Rightarrow> if c = CHR ''-'' then r else s | [] \<Rightarrow> []);
          ip = takeWhile is_digit body
      in if ip = [] \<or> (hd ip = CHR ''0'' \<and> length ip > 1) then None
         else do { rest \<leftarrow> p_fraction (dropWhile is_digit body);
                   case parse_float (take (length s - length rest) s) of
                     Num x \<Rightarrow> Some (JNum x, rest) | _ \<Rightarrow> None })"

fun p_val :: "nat \<Rightarrow> string \<Rightarrow> (json \<times> string) option"
  and p_elems :: "nat \<Rightarrow> string \<Rightarrow> (json list \<times> string) option"
  and p_members :: "nat \<Rightarrow> string \<Rightarrow> ((string \<times> json) list \<times> string) option" where
  "p_val 0 s = None"
| "p_val (Suc n) s0 =
     (let s = skip_ws s0 in
      case s of [] \<Rightarrow> None
      | c # r \<Rightarrow>
        if c = CHR ''{'' then
          (case skip_ws r of [] \<Rightarrow> None
           | c1 # r1 \<Rightarrow> if c1 = CHR ''}'' then Some (JObj [], r1)
               else do { (kvs, rest) \<leftarrow> p_members n r; Some (JObj (obj_of kvs), rest) })
        else if c = CHR ''['' then
          (case skip_ws r of [] \<Rightarrow> None
           | c1 # r1 \<Rightarrow> if c1 = CHR '']'' then Some (JArr [], r1)
               else do { (xs, rest) \<leftarrow> p_elems n r; Some (JArr xs, rest) })
        else if c = CHR 0x22 then do { (u, rest) \<leftarrow> p_chars r; Some (JStr u, rest) }
        else if startsWith s ''null'' then Some (JNull, drop 4 s)
        else if startsWith s ''true'' then Some (JBool True, drop 4 s)
        else if startsWith s ''false'' then Some (JBool False, drop 5 s)
        else p_number s)"
| "p_elems 0 s = None"
| "p_elems (Suc n) s =
     do { (x, r) \<leftarrow> p_val n s;
          case skip_ws r of [] \<Rightarrow> None
          | c # r1 \<Rightarrow> if c = CHR '']'' then Some ([x], r1)
              else if c = CHR '','' then do { (xs, rest) \<leftarrow> p_elems n r1; Some (x # xs, rest) }
              else None }"
| "p_members 0 s = None"
| "p_members (Suc n) s =
     (case skip_ws s of [] \<Rightarrow> None
      | c # r \<Rightarrow> if c \<noteq> CHR 0x22 then None else
         do { (k, r1) \<leftarrow> p_chars r;
              case skip_ws r1 of [] \<Rightarrow> None
              | c1 # r2 \<Rightarrow> if c1 \<noteq> CHR '':'' then None else
                  do { (v, r3) \<leftarrow> p_val n r2;
                       case skip_ws r3 of [] \<Rightarrow> None
                       | c3 # r4 \<Rightarrow> if c3 = CHR ''}'' then Some ([(k, v)], r4)
                           else if c3 = CHR '','' then
                             do { (kvs, rest) \<leftarrow> p_members n r4; Some ((k, v) # kvs, rest) }
                           else None } })"

definition json_parse :: "string \<Rightarrow> json option" where
  "json_parse s = do { (j, rest) \<leftarrow> p_val (Suc (length s)) s;
     if skip_ws rest = [] then Some j else None }"

subsection \<open>Printing and parsing are inverse\<close>

fun json_ok :: "json \<Rightarrow> bool" where
  "json_ok (JNum x) = short_decimal x"
| "json_ok (JArr xs) = list_all json_ok xs"
| "json_ok (JObj kvs) = (distinct (map fst kvs) \<and> list_all (\<lambda>(k, v). json_ok v) kvs)"
| "json_ok _ = True"

lemma hex_val_digit: "n < 16 \<Longrightarrow> hex_val (hex_digit n) = Some n"
  by (simp add: hex_digit_def hex_val_def is_digit_def)

lemma hex_val_0 [simp]: "hex_val (CHR ''0'') = Some 0"
  by code_simp

lemma control_not_special:
  "code c < 32 \<Longrightarrow> c \<noteq> CHR 0x22 \<and> c \<noteq> CHR 0x5C"
  by (auto simp: code_def)

lemma hex4_control:
  assumes "code c < 32"
  shows "hex4 (CHR ''0'') (CHR ''0'') (hex_digit (code c div 16)) (hex_digit (code c mod 16)) = Some c"
  using assms by (simp add: hex4_def hex_val_digit) (simp add: code_def)

lemma simple_escape_eqs:
  "simple_escape (CHR 0x22) = Some (CHR 0x22)" "simple_escape (CHR 0x5C) = Some (CHR 0x5C)"
  "simple_escape (CHR ''b'') = Some (char_of (8 :: nat))" "simple_escape (CHR ''t'') = Some (char_of (9 :: nat))"
  "simple_escape (CHR ''n'') = Some (char_of (10 :: nat))" "simple_escape (CHR ''f'') = Some (char_of (12 :: nat))"
  "simple_escape (CHR ''r'') = Some (char_of (13 :: nat))"
  by (simp_all add: simple_escape_def)

lemma code_eq_char_of: "code c = n \<Longrightarrow> c = char_of n"
  by (auto simp: code_def)

lemma p_chars_esc:
  "p_chars (esc_char c @ r) = do { (s, rest) \<leftarrow> p_chars r; Some (c # s, rest) }"
proof -
  consider "c = CHR 0x22" | "c = CHR 0x5C" | "code c \<in> {8, 9, 10, 12, 13}"
    | "code c < 32" "code c \<notin> {8, 9, 10, 12, 13}"
    | "\<not> code c < 32" "c \<noteq> CHR 0x22" "c \<noteq> CHR 0x5C" by blast
  then show ?thesis
  proof cases
    case 3
    then have "c \<in> {char_of (8::nat), char_of (9::nat), char_of (10::nat), char_of (12::nat), char_of (13::nat)}"
      by (auto dest: code_eq_char_of)
    then show ?thesis
      by (elim insertE emptyE; simp add: esc_char_def simple_escape_eqs; simp add: char_of_def)
  next
    case 4
    then show ?thesis using control_not_special [of c] by (simp add: esc_char_def hex4_control)
  next
    case 5
    then show ?thesis by (auto simp: esc_char_def)
  qed (simp_all add: esc_char_def simple_escape_eqs)
qed

lemma p_chars_quoted: "p_chars (concat (map esc_char s) @ CHR 0x22 # r) = Some (s, r)"
  by (induction s) (simp_all add: p_chars_esc)

lemma quote_append: "quote s @ r = CHR 0x22 # concat (map esc_char s) @ CHR 0x22 # r"
  by (simp add: quote_def)

lemma digits_of_no_leading_zero: "hd (digits_of n) = CHR ''0'' \<Longrightarrow> n = 0"
proof (induction n rule: digits_of.induct)
  case (1 n)
  show ?case
  proof (cases "n < 10")
    case True
    with "1.prems" have "digit_val (digit_char n) = digit_val (CHR ''0'')" by (subst (asm) digits_of.simps) simp
    moreover have "digit_val (CHR ''0'') = 0" by (simp add: digit_val_def code_def)
    ultimately show ?thesis using True by simp
  next
    case False
    with "1.prems" have "hd (digits_of (n div 10)) = CHR ''0''"
      by (subst (asm) digits_of.simps) (simp add: hd_append)
    with 1 False have "n div 10 = 0" by simp
    with False show ?thesis by simp
  qed
qed

text \<open>What may follow a value inside a JSON text.\<close>

definition sep_ok :: "string \<Rightarrow> bool" where
  "sep_ok r \<longleftrightarrow> r = [] \<or> hd r = CHR '','' \<or> hd r = CHR '']'' \<or> hd r = CHR ''}'' \<or> hd r = CHR 0x0A"

lemma sep_ok_digit: "sep_ok r \<Longrightarrow> takeWhile is_digit r = [] \<and> dropWhile is_digit r = r"
  by (cases r) (auto simp: sep_ok_def is_digit_def code_def)

lemma p_exponent_sep: "sep_ok r \<Longrightarrow> p_exponent r = Some r"
  by (cases r) (auto simp: p_exponent_def sep_ok_def)

lemma p_fraction_sep:
  assumes "sep_ok r" and "\<forall>c \<in> set fp. is_digit c"
  shows "p_fraction ((if fp = [] then [] else CHR ''.'' # fp) @ r) = Some r"
proof (cases "fp = []")
  case True
  with assms(1) show ?thesis using p_exponent_sep [OF assms(1)]
    by (cases r) (auto simp: p_fraction_def sep_ok_def)
next
  case False
  then have "takeWhile is_digit (fp @ r) \<noteq> []" using assms(2) by (cases fp) auto
  moreover have "dropWhile is_digit (fp @ r) = r"
    using assms by (simp add: dropWhile_append2 sep_ok_digit)
  ultimately show ?thesis using False p_exponent_sep [OF assms(1)]
    by (simp add: p_fraction_def del: takeWhile_append dropWhile_append)
qed

lemma hd_digits_append: "hd (digits_of n @ r) \<noteq> CHR ''-''"
  using hd_digits_of [of n] not_digit_signs(1) by (metis digits_of_ne hd_append2)

lemma p_number_decimal:
  assumes "short_decimal x" and "sep_ok r"
  shows "p_number (decimal_to_string x @ r) = Some (JNum x, r)"
proof -
  let ?q = "\<bar>x\<bar> - of_int \<lfloor>\<bar>x\<bar>\<rfloor>" and ?n = "nat \<lfloor>\<bar>x\<bar>\<rfloor>"
  let ?fp = "frac_digits decimal_digits ?q"
  let ?f = "if ?fp = [] then [] else CHR ''.'' # ?fp"
  have q: "0 \<le> ?q" "?q < 1" by (simp, linarith)
  have fp: "\<forall>c \<in> set ?fp. is_digit c" using q by (rule frac_digits_digits)
  have dts: "decimal_to_string x = (if x < 0 then ''-'' else []) @ digits_of ?n @ ?f"
    by (simp add: decimal_to_string_def Let_def)
  let ?s = "decimal_to_string x @ r"
  have body: "(case ?s of c # t \<Rightarrow> if c = CHR ''-'' then t else ?s | [] \<Rightarrow> []) = digits_of ?n @ ?f @ r"
  proof (cases "x < 0")
    case False
    then have s: "?s = digits_of ?n @ ?f @ r" by (simp add: dts)
    then have "hd ?s \<noteq> CHR ''-''" by (metis hd_digits_append)
    then show ?thesis unfolding s by (cases "digits_of ?n") auto
  qed (simp add: dts)
  have sf: "takeWhile is_digit (?f @ r) = []" "dropWhile is_digit (?f @ r) = ?f @ r"
    using sep_ok_digit [OF assms(2)] by (auto simp del: takeWhile_append dropWhile_append)
  have ip: "takeWhile is_digit (digits_of ?n @ ?f @ r) = digits_of ?n"
    using sf(1) by (simp only: takeWhile_digits_of append_Nil2)
  have dw: "dropWhile is_digit (digits_of ?n @ ?f @ r) = ?f @ r"
    using sf(2) by (simp only: dropWhile_digits_of)
  have lead: "\<not> (digits_of ?n = [] \<or> hd (digits_of ?n) = CHR ''0'' \<and> 1 < length (digits_of ?n))"
  proof -
    have "length (digits_of ?n) = 1" if "hd (digits_of ?n) = CHR ''0''"
      using digits_of_no_leading_zero [OF that] by (subst digits_of.simps) simp
    then show ?thesis by auto
  qed
  have tk: "take (length ?s - length r) ?s = decimal_to_string x" by simp
  show ?thesis
    unfolding p_number_def Let_def body ip dw
    by (simp only: lead if_False p_fraction_sep [OF assms(2) fp] tk Option.bind.simps
        parse_float_decimal [OF assms(1)] js_number.case)
qed

lemma skip_ws_id: "s \<noteq> [] \<Longrightarrow> \<not> json_ws (hd s) \<Longrightarrow> skip_ws s = s"
  by (cases s) (simp_all add: skip_ws_def)

lemma not_json_ws [simp]:
  "\<not> json_ws (CHR ''['')" "\<not> json_ws (CHR '']'')" "\<not> json_ws (CHR ''{'')" "\<not> json_ws (CHR ''}'')"
  "\<not> json_ws (CHR '','')" "\<not> json_ws (CHR '':'')" "\<not> json_ws (CHR 0x22)" "\<not> json_ws (CHR ''n'')"
  "\<not> json_ws (CHR ''t'')" "\<not> json_ws (CHR ''f'')" "\<not> json_ws (CHR ''-'')"
  by (simp_all add: json_ws_def code_def)

lemma skip_ws_Cons [simp]: "\<not> json_ws c \<Longrightarrow> skip_ws (c # s) = c # s"
  by (simp add: skip_ws_def)

lemma digit_not_json_ws: "is_digit c \<Longrightarrow> \<not> json_ws c"
  by (auto simp: is_digit_def json_ws_def)

text \<open>The first character of a printed value, and the dispatch of the parser on a number.\<close>

lemma decimal_to_string_first:
  obtains c u where "decimal_to_string x = c # u" "c = CHR ''-'' \<or> is_digit c"
proof -
  obtain d ds where d: "digits_of (nat \<lfloor>\<bar>x\<bar>\<rfloor>) = d # ds" "is_digit d"
    using hd_digits_of [of "nat \<lfloor>\<bar>x\<bar>\<rfloor>"] by (cases "digits_of (nat \<lfloor>\<bar>x\<bar>\<rfloor>)") auto
  show ?thesis
  proof (cases "x < 0")
    case True
    with that show ?thesis by (simp add: decimal_to_string_def Let_def)
  next
    case False
    with d that show ?thesis by (simp add: decimal_to_string_def Let_def)
  qed
qed

lemma p_val_number:
  assumes "short_decimal x" and "sep_ok r"
  shows "p_val (Suc n) (decimal_to_string x @ r) = Some (JNum x, r)"
proof -
  obtain c u where c: "decimal_to_string x = c # u" "c = CHR ''-'' \<or> is_digit c"
    by (rule decimal_to_string_first)
  then have w: "\<not> json_ws c" using digit_not_json_ws by auto
  have ne: "c \<noteq> CHR ''{''" "c \<noteq> CHR ''[''" "c \<noteq> CHR 0x22" "c \<noteq> CHR ''n''" "c \<noteq> CHR ''t''" "c \<noteq> CHR ''f''"
    using c(2) by (auto simp: is_digit_def code_def)
  then have st: "\<not> startsWith (c # u @ r) ''null''" "\<not> startsWith (c # u @ r) ''true''"
    "\<not> startsWith (c # u @ r) ''false''" by (simp_all add: startsWith_def)
  have "p_val (Suc n) (c # u @ r) = p_number (c # u @ r)"
    using w ne st by simp
  also have "\<dots> = Some (JNum x, r)" using p_number_decimal [OF assms] c(1) by simp
  finally show ?thesis using c(1) by simp
qed

lemma stringify_first:
  assumes "json_ok j"
  obtains c u where "json_stringify j = c # u" "\<not> json_ws c" "c \<noteq> CHR '']''" "c \<noteq> CHR ''}''"
proof (cases j)
  case (JNum x)
  obtain c u where "decimal_to_string x = c # u" "c = CHR ''-'' \<or> is_digit c"
    by (rule decimal_to_string_first)
  moreover from this have "\<not> json_ws c" "c \<noteq> CHR '']''" "c \<noteq> CHR ''}''"
    using digit_not_json_ws by (auto simp: is_digit_def code_def)
  ultimately show ?thesis using that JNum by simp
next
  case (JBool b)
  then show ?thesis using that by (cases b) auto
qed (use that in \<open>simp_all add: quote_def\<close>)

lemma p_elems_join:
  assumes "xs \<noteq> []" and "length (join '','' (map json_stringify xs)) < n"
    and "\<And>x m u. x \<in> set xs \<Longrightarrow> length (json_stringify x) \<le> m \<Longrightarrow> sep_ok u \<Longrightarrow>
      p_val m (json_stringify x @ u) = Some (x, u)"
  shows "p_elems n (join '','' (map json_stringify xs) @ CHR '']'' # r) = Some (xs, r)"
  using assms
proof (induction xs arbitrary: n)
  case Nil
  then show ?case by simp
next
  case (Cons x xs)
  then obtain m where n: "n = Suc m" by (cases n) auto
  show ?case
  proof (cases xs)
    case Nil
    with Cons.prems n show ?thesis by (simp add: sep_ok_def)
  next
    case (Cons y ys)
    have "length (join '','' (map json_stringify xs)) < m"
      using Cons.prems(2) Cons n by simp
    then have "p_elems m (join '','' (map json_stringify xs) @ CHR '']'' # r) = Some (xs, r)"
      using Cons.IH [of m] Cons.prems(3) Cons by simp
    moreover have "length (json_stringify x) \<le> m" using Cons.prems(2) Cons n by simp
    ultimately show ?thesis using Cons.prems(3) [of x m] Cons n by (simp add: sep_ok_def)
  qed
qed

definition member_text :: "string \<times> json \<Rightarrow> string" where
  "member_text = (\<lambda>(k, v). quote k @ '':'' @ json_stringify v)"

lemma p_members_join:
  assumes "kvs \<noteq> []" and "length (join '','' (map member_text kvs)) < n"
    and "\<And>k v m u. (k, v) \<in> set kvs \<Longrightarrow> length (json_stringify v) \<le> m \<Longrightarrow> sep_ok u \<Longrightarrow>
      p_val m (json_stringify v @ u) = Some (v, u)"
  shows "p_members n (join '','' (map member_text kvs) @ CHR ''}'' # r) = Some (kvs, r)"
  using assms
proof (induction kvs arbitrary: n)
  case Nil
  then show ?case by simp
next
  case (Cons kv kvs)
  obtain k v where kv: "kv = (k, v)" by (cases kv)
  obtain m where n: "n = Suc m" using Cons.prems(2) by (cases n) auto
  have v: "p_val m (json_stringify v @ u) = Some (v, u)" if "sep_ok u" for u
  proof -
    have "length (json_stringify v) \<le> m"
      using Cons.prems(2) kv n by (cases kvs) (simp_all add: member_text_def)
    then show ?thesis using Cons.prems(3) [of k v m u] kv that by simp
  qed
  show ?case
  proof (cases kvs)
    case Nil
    with kv n v show ?thesis by (simp add: member_text_def quote_append p_chars_quoted sep_ok_def)
  next
    case (Cons y ys)
    have "length (join '','' (map member_text kvs)) < m"
      using Cons.prems(2) Cons n by simp
    then have "p_members m (join '','' (map member_text kvs) @ CHR ''}'' # r) = Some (kvs, r)"
    proof (rule Cons.IH [rotated])
      fix k v i u
      assume "(k, v) \<in> set kvs" "length (json_stringify v) \<le> i" "sep_ok u"
      then show "p_val i (json_stringify v @ u) = Some (v, u)" by (intro Cons.prems(3) [of k]) simp_all
    qed (simp add: Cons)
    then show ?thesis using kv n v Cons
      by (simp add: member_text_def quote_append p_chars_quoted sep_ok_def)
  qed
qed

lemma p_val_stringify:
  "json_ok j \<Longrightarrow> length (json_stringify j) \<le> n \<Longrightarrow> sep_ok r \<Longrightarrow>
   p_val n (json_stringify j @ r) = Some (j, r)"
proof (induction j arbitrary: n r)
  case (JNum x)
  obtain c u where "decimal_to_string x = c # u" by (rule decimal_to_string_first)
  with JNum obtain m where "n = Suc m" by (cases n) auto
  with JNum show ?case using p_val_number by simp
next
  case (JBool b)
  then obtain m where "n = Suc m" by (cases n; cases b) auto
  then show ?case by (cases b) (simp_all add: startsWith_def)
next
  case (JStr s)
  then obtain m where "n = Suc m" by (cases n) (auto simp: quote_def)
  then show ?case by (simp add: quote_append p_chars_quoted)
next
  case JNull
  then obtain m where "n = Suc m" by (cases n) auto
  then show ?case by (simp add: startsWith_def)
next
  case (JArr xs)
  then obtain m where n: "n = Suc m" by (cases n) auto
  show ?case
  proof (cases xs)
    case Nil
    with n show ?thesis by simp
  next
    case (Cons x ys)
    have "p_elems m (join '','' (map json_stringify xs) @ CHR '']'' # r) = Some (xs, r)"
      using JArr n Cons by (intro p_elems_join) (auto simp: list_all_iff)
    moreover from JArr.prems(1) Cons have "json_ok x" by simp
    then obtain c u where "json_stringify x = c # u" "\<not> json_ws c" "c \<noteq> CHR '']''"
      by (rule stringify_first)
    then obtain u' where "join '','' (map json_stringify xs) = c # u'" "\<not> json_ws c" "c \<noteq> CHR '']''"
      using Cons by (cases ys) auto
    ultimately show ?thesis using n by simp
  qed
next
  case (JObj kvs)
  then obtain m where n: "n = Suc m" by (cases n) auto
  have t: "json_stringify (JObj kvs) = CHR ''{'' # join '','' (map member_text kvs) @ ''}''"
    by (simp add: member_text_def)
  show ?case
  proof (cases kvs)
    case Nil
    with n show ?thesis by simp
  next
    case (Cons kv kvs')
    have "p_members m (join '','' (map member_text kvs) @ CHR ''}'' # r) = Some (kvs, r)"
    proof (rule p_members_join)
      fix k v i u
      assume "(k, v) \<in> set kvs" "length (json_stringify v) \<le> i" "sep_ok u"
      moreover from this JObj.prems(1) have "json_ok v" by (auto simp: list_all_iff)
      ultimately show "p_val i (json_stringify v @ u) = Some (v, u)" using JObj.IH by auto
    qed (use Cons JObj.prems(2) t n in simp_all)
    moreover obtain u' where "join '','' (map member_text kvs) = CHR 0x22 # u'"
      using Cons by (cases kvs'; cases kv) (auto simp: member_text_def quote_def)
    moreover have "obj_of kvs = kvs" using JObj.prems(1) by (simp add: obj_of_distinct)
    ultimately show ?thesis unfolding t n by simp
  qed
qed

lemma json_parse_stringify: "json_ok j \<Longrightarrow> json_parse (json_stringify j) = Some j"
  using p_val_stringify [of j "Suc (length (json_stringify j))" "[]"]
  by (simp add: json_parse_def sep_ok_def skip_ws_def del: p_val.simps)

interpretation json_text: codec json_stringify json_parse json_ok
  by unfold_locales (rule json_parse_stringify)

end
