(* ===== verification/Session.thy ===== *)
theory Session
  imports Json
begin

text \<open>
  The session of the client, \<open>web/src/lib/api.ts\<close>: the cached access token and user, their
  copies in \<open>localStorage\<close>, requests that refresh the session once when the server answers
  401, and the single refresh that all of them share.

  The synchronous functions are state transformers on \<open>Session\<close>.  The asynchronous ones run
  interleaved: every call is a task, a suspended \<open>async\<close> function is the value it awaits
  (\<open>task\<close>), and \<open>session_step\<close> is what happens when one promise settles.  Responses of
  the server, the outcome of \<open>fetch\<close> and the order of the events are unconstrained.

  Values whose type the code only asserts (the parsed response body, the stored user) are JSON.
  \<open>i18n.t\<close> is the parameter \<open>t\<close>.
\<close>

subsection \<open>State\<close>

record Storage =
  ls_items :: "string \<rightharpoonup> string"
  ls_accessible :: bool
  ls_room :: bool

record Session =
  cachedAccessToken :: json
  cachedUser :: json
  accessTokenLoaded :: bool
  userLoaded :: bool
  storage :: Storage
  toasts_shown :: "string list"
  location :: string

definition ACCESS_TOKEN_KEY :: string where
  "ACCESS_TOKEN_KEY = ''token''"

definition USER_KEY :: string where
  "USER_KEY = ''user''"

definition BACKEND_ERROR_TRANSLATIONS :: "(string \<times> string) list" where
  "BACKEND_ERROR_TRANSLATIONS =
     [(''you can enable at most 3 notification channels'', ''common.backendErrors.maxNotificationChannels''),
      (''smtp send rate limit exceeded, please wait before trying again'', ''common.backendErrors.smtpRateLimited''),
      (''re-authentication required'', ''common.backendErrors.reauthRequired''),
      (''no passkey registered for this account'', ''common.backendErrors.noPasskeyRegistered'')]"

subsection \<open>localStorage: every failure is swallowed\<close>

definition readLocalStorage :: "string \<Rightarrow> Session \<Rightarrow> string option" where
  "readLocalStorage key s = (if ls_accessible (storage s) then ls_items (storage s) key else None)"

definition writeLocalStorage :: "string \<Rightarrow> string \<Rightarrow> Session \<Rightarrow> Session" where
  "writeLocalStorage key v s =
     (if ls_accessible (storage s) \<and> ls_room (storage s)
      then s\<lparr>storage := (storage s)\<lparr>ls_items := (ls_items (storage s))(key \<mapsto> v)\<rparr>\<rparr> else s)"

definition removeLocalStorage :: "string \<Rightarrow> Session \<Rightarrow> Session" where
  "removeLocalStorage key s =
     (if ls_accessible (storage s)
      then s\<lparr>storage := (storage s)\<lparr>ls_items := (ls_items (storage s))(key := None)\<rparr>\<rparr> else s)"

subsection \<open>Token and user\<close>

definition getToken :: "Session \<Rightarrow> json \<times> Session" where
  "getToken s =
     (if accessTokenLoaded s then (cachedAccessToken s, s)
      else (let s = (removeLocalStorage ACCESS_TOKEN_KEY s)\<lparr>cachedAccessToken := JNull, accessTokenLoaded := True\<rparr>
            in (cachedAccessToken s, s)))"

definition setToken :: "json \<Rightarrow> Session \<Rightarrow> Session" where
  "setToken token s = removeLocalStorage ACCESS_TOKEN_KEY (s\<lparr>cachedAccessToken := token, accessTokenLoaded := True\<rparr>)"

definition clearToken :: "Session \<Rightarrow> Session" where
  "clearToken s =
     removeLocalStorage USER_KEY (removeLocalStorage ACCESS_TOKEN_KEY
       (s\<lparr>cachedAccessToken := JNull, cachedUser := JNull, accessTokenLoaded := True, userLoaded := True\<rparr>))"

definition isAuthenticated :: "Session \<Rightarrow> bool \<times> Session" where
  "isAuthenticated s = (let (token, s') = getToken s in (json_truthy token, s'))"

definition setUser :: "json \<Rightarrow> Session \<Rightarrow> Session" where
  "setUser user s = writeLocalStorage USER_KEY (json_stringify user) (s\<lparr>cachedUser := user, userLoaded := True\<rparr>)"

definition getUser :: "Session \<Rightarrow> json \<times> Session" where
  "getUser s =
     (if userLoaded s then (cachedUser s, s)
      else case readLocalStorage USER_KEY s of
             None \<Rightarrow> (JNull, s\<lparr>cachedUser := JNull, userLoaded := True\<rparr>)
           | Some raw \<Rightarrow>
               if raw = [] then (JNull, s\<lparr>cachedUser := JNull, userLoaded := True\<rparr>)
               else (case json_parse raw of
                   Some u \<Rightarrow> (u, s\<lparr>cachedUser := u, userLoaded := True\<rparr>)
                 | None \<Rightarrow> (JNull, (removeLocalStorage USER_KEY (s\<lparr>cachedUser := JNull\<rparr>))\<lparr>userLoaded := True\<rparr>)))"

definition isAdmin :: "Session \<Rightarrow> bool \<times> Session" where
  "isAdmin s = (let (u, s') = getUser s in (json_get u ''role'' = Some (JStr ''admin''), s'))"

definition setAuth :: "json \<Rightarrow> json \<Rightarrow> Session \<Rightarrow> Session" where
  "setAuth token user s = setUser user (setToken token s)"

definition resolveAccessToken :: "json \<Rightarrow> json" where
  "resolveAccessToken data = json_nullish (json_get data ''access_token'') (json_nullish (json_get data ''token'') JNull)"

definition handleUnauthorized :: "(string \<Rightarrow> string) \<Rightarrow> Session \<Rightarrow> string \<times> Session" where
  "handleUnauthorized t s =
     (t ''common.unauthorized'',
      (clearToken s)\<lparr>toasts_shown := toasts_shown s @ [t ''common.unauthorized''], location := ''/login''\<rparr>)"

definition canRefresh :: "string \<Rightarrow> bool \<Rightarrow> bool" where
  "canRefresh path hasAccessToken \<longleftrightarrow> hasAccessToken \<and> path \<noteq> ''/auth/refresh''"

text \<open>The table is looked up by its own keys: an error text that is the name of a member of \<open>Object.prototype\<close>, such as
  \<open>constructor\<close>, which the server does not send, is outside of the model.\<close>

definition localizeBackendError :: "(string \<Rightarrow> string) \<Rightarrow> json option \<Rightarrow> string" where
  "localizeBackendError t error =
     (case error of
        Some (JStr e) \<Rightarrow>
          if e = [] then t ''common.requestFailed''
          else (case map_of BACKEND_ERROR_TRANSLATIONS e of Some key \<Rightarrow> t key | None \<Rightarrow> e)
      | _ \<Rightarrow> t ''common.requestFailed'')"

subsection \<open>Requests and responses\<close>

datatype body = No_body | Text_body string | Form_body

record RequestInit =
  ri_method :: string
  ri_headers :: "(string \<times> string) list"
  ri_body :: body

record Response =
  rs_status :: nat
  rs_content_type :: "string option"
  rs_body :: "json option"

definition res_ok :: "Response \<Rightarrow> bool" where
  "res_ok res \<longleftrightarrow> 200 \<le> rs_status res \<and> rs_status res \<le> 299"

text \<open>\<open>new Headers(init)\<close>: names are compared without case, repeated ones are joined.\<close>

definition Headers :: "(string \<times> string) list \<Rightarrow> string \<rightharpoonup> string" where
  "Headers init = foldl (\<lambda>m (k, v). m(toLowerCase k \<mapsto>
     (case m (toLowerCase k) of None \<Rightarrow> v | Some u \<Rightarrow> u @ '', '' @ v))) Map.empty init"

definition buildHeaders :: "RequestInit \<Rightarrow> Session \<Rightarrow> (string \<rightharpoonup> string) \<times> Session" where
  "buildHeaders options s =
     (let headers = Headers (ri_headers options);
          hasBody = ri_body options \<noteq> No_body;
          isFormDataBody = ri_body options = Form_body;
          headers = (if hasBody \<and> \<not> isFormDataBody \<and> headers ''content-type'' = None
                     then headers(''content-type'' \<mapsto> ''application/json'') else headers);
          (token, s) = getToken s;
          headers = (if json_truthy token then headers(''authorization'' \<mapsto> ''Bearer '' @ js_text token) else headers)
      in (headers, s))"

definition parseJSON :: "Response \<Rightarrow> json" where
  "parseJSON res =
     (if \<not> js_includes (toLowerCase (nullish (rs_content_type res) [])) ''application/json'' then JNull
      else nullish (rs_body res) JNull)"

text \<open>
  \<open>performRefresh\<close> after its \<open>fetch\<close>: the catch-all turns every error into
  \<open>false\<close>, and only a complete answer changes the session.
\<close>

definition performRefresh :: "string + Response \<Rightarrow> Session \<Rightarrow> bool \<times> Session" where
  "performRefresh outcome s =
     (case outcome of
        Inl e \<Rightarrow> (False, s)
      | Inr res \<Rightarrow>
          if \<not> res_ok res then (False, s)
          else (let data = parseJSON res; accessToken = resolveAccessToken data;
                    user = nullish (json_get data ''user'') JNull
                in if \<not> json_truthy data then (False, s)
                   else if \<not> json_truthy accessToken \<or> \<not> json_truthy user then (False, s)
                   else (True, setAuth accessToken user s)))"

text \<open>
  What \<open>request\<close> and \<open>uploadFile\<close> make of a response that \<open>requestRaw\<close> returned:
  the value (\<open>None\<close> is \<open>undefined\<close>) or the error thrown, and the toast shown.
\<close>

definition show_error :: "string \<Rightarrow> Session \<Rightarrow> Session" where
  "show_error msg s = s\<lparr>toasts_shown := toasts_shown s @ [msg]\<rparr>"

definition finish_request ::
  "(string \<Rightarrow> string) \<Rightarrow> Response \<Rightarrow> Session \<Rightarrow> (string + json option) \<times> Session" where
  "finish_request t res s =
     (if rs_status res = 204 then (Inr None, s)
      else let data = parseJSON res
        in if \<not> res_ok res
           then (let errorMsg = localizeBackendError t (json_get data ''error'')
                 in (Inl errorMsg, show_error errorMsg s))
           else if \<not> json_truthy data
           then (Inl (t ''common.requestFailed''), show_error (t ''common.requestFailed'') s)
           else (Inr (Some data), s))"

definition finish_logout :: "(string \<Rightarrow> string) \<Rightarrow> Response \<Rightarrow> string + unit" where
  "finish_logout t res =
     (if rs_status res = 204 then Inr ()
      else if \<not> res_ok res then Inl (localizeBackendError t (json_get (parseJSON res) ''error''))
      else Inr ())"

subsection \<open>Interleaved calls\<close>

datatype outcome =
    Response_value Response
  | Json_value "json option"
  | Bool_value bool
  | Unit_value
  | Thrown string

text \<open>
  A task is what a pending call of \<open>requestRaw\<close>, \<open>request\<close>, \<open>restoreSession\<close>
  or \<open>logout\<close> awaits.  \<open>raw\<close> tells \<open>api.fetch\<close> from the calls that also read
  the body; \<open>retry\<close> is \<open>retryOnUnauthorized\<close>.
\<close>

datatype task =
    Fetching (tk_path: string) (tk_options: RequestInit) (tk_raw: bool) (tk_retry: bool) (tk_had_token: bool)
  | Refreshing (tk_path: string) (tk_options: RequestInit) (tk_raw: bool)
  | Refreshed bool (tk_path: string) (tk_options: RequestInit) (tk_raw: bool)
  | Reading_body Response
  | Restoring
  | Restored bool
  | Logging_out
  | Logout_body Response
  | Done outcome

text \<open>\<open>refreshRequest\<close>: none, one whose \<open>performRefresh\<close> is pending, or one that has
  settled and whose \<open>finally\<close> is about to run.\<close>

datatype refresh = No_refresh | Refresh_pending | Refresh_settled bool

record Client =
  session :: Session
  refreshRequest :: refresh
  tasks :: "task list"
  fetches :: "(nat option \<times> string \<times> (string \<rightharpoonup> string)) list"

text \<open>\<open>fetches\<close> records the calls of \<open>fetch\<close>: the task that made it (\<open>None\<close> for
  the shared refresh), the path and the headers.\<close>

definition refresh_headers :: "string \<rightharpoonup> string" where
  "refresh_headers = [''content-type'' \<mapsto> ''application/json'']"

definition refreshSession :: "Client \<Rightarrow> Client" where
  "refreshSession c =
     (if refreshRequest c = No_refresh
      then c\<lparr>refreshRequest := Refresh_pending, fetches := fetches c @ [(None, ''/auth/refresh'', refresh_headers)]\<rparr>
      else c)"

text \<open>The first part of \<open>requestRaw\<close>, up to its \<open>fetch\<close>.\<close>

definition requestRaw :: "nat \<Rightarrow> string \<Rightarrow> RequestInit \<Rightarrow> bool \<Rightarrow> bool \<Rightarrow> Client \<Rightarrow> task \<times> Client" where
  "requestRaw i path options raw retryOnUnauthorized c =
     (let (token, s) = getToken (session c);
          (headers, s) = buildHeaders options s
      in (Fetching path options raw retryOnUnauthorized (json_truthy token),
          c\<lparr>session := s, fetches := fetches c @ [(Some i, path, headers)]\<rparr>))"

definition set_task :: "nat \<Rightarrow> task \<Rightarrow> Client \<Rightarrow> Client" where
  "set_task i tk c = c\<lparr>tasks := (tasks c)[i := tk]\<rparr>"

definition fail_unauthorized :: "(string \<Rightarrow> string) \<Rightarrow> nat \<Rightarrow> Client \<Rightarrow> Client" where
  "fail_unauthorized t i c =
     (let (msg, s) = handleUnauthorized t (session c) in set_task i (Done (Thrown msg)) (c\<lparr>session := s\<rparr>))"

definition call_request :: "string \<Rightarrow> RequestInit \<Rightarrow> bool \<Rightarrow> bool \<Rightarrow> Client \<Rightarrow> Client" where
  "call_request path options raw retry c =
     (let (tk, c) = requestRaw (length (tasks c)) path options raw retry c in c\<lparr>tasks := tasks c @ [tk]\<rparr>)"

definition call_restore :: "Client \<Rightarrow> Client" where
  "call_restore c =
     (let (token, s) = getToken (session c); c = c\<lparr>session := s\<rparr>
      in if json_truthy token then c\<lparr>tasks := tasks c @ [Done (Bool_value True)]\<rparr>
         else (let c = refreshSession c in c\<lparr>tasks := tasks c @ [Restoring]\<rparr>))"

definition call_logout :: "Client \<Rightarrow> Client" where
  "call_logout c = c\<lparr>tasks := tasks c @ [Logging_out],
     fetches := fetches c @ [(Some (length (tasks c)), ''/auth/refresh/logout'', refresh_headers)]\<rparr>"

text \<open>The \<open>fetch\<close> of task \<open>i\<close> settles.\<close>

definition on_fetch :: "(string \<Rightarrow> string) \<Rightarrow> nat \<Rightarrow> string + Response \<Rightarrow> Client \<Rightarrow> Client" where
  "on_fetch t i outcome c =
     (case tasks c ! i of
        Fetching path options raw retry had_token \<Rightarrow>
          (case outcome of
             Inl e \<Rightarrow> set_task i (Done (Thrown e)) c
           | Inr res \<Rightarrow>
               if rs_status res = 401 then
                 if retry \<and> canRefresh path had_token
                 then set_task i (Refreshing path options raw) (refreshSession c)
                 else fail_unauthorized t i c
               else if raw then set_task i (Done (Response_value res)) c
               else set_task i (Reading_body res) c)
      | Logging_out \<Rightarrow>
          (case outcome of
             Inl e \<Rightarrow> set_task i (Done (Thrown e)) (c\<lparr>session := clearToken (session c)\<rparr>)
           | Inr res \<Rightarrow> set_task i (Logout_body res) c)
      | _ \<Rightarrow> c)"

text \<open>The body of a response has been read.\<close>

definition on_body :: "(string \<Rightarrow> string) \<Rightarrow> nat \<Rightarrow> Client \<Rightarrow> Client" where
  "on_body t i c =
     (case tasks c ! i of
        Reading_body res \<Rightarrow>
          (let (r, s) = finish_request t res (session c)
           in set_task i (Done (case r of Inl e \<Rightarrow> Thrown e | Inr v \<Rightarrow> Json_value v)) (c\<lparr>session := s\<rparr>))
      | Logout_body res \<Rightarrow>
          set_task i (Done (case finish_logout t res of Inl e \<Rightarrow> Thrown e | Inr u \<Rightarrow> Unit_value))
            (c\<lparr>session := clearToken (session c)\<rparr>)
      | _ \<Rightarrow> c)"

definition on_refresh :: "string + Response \<Rightarrow> Client \<Rightarrow> Client" where
  "on_refresh outcome c =
     (if refreshRequest c = Refresh_pending
      then (let (b, s) = performRefresh outcome (session c) in c\<lparr>session := s, refreshRequest := Refresh_settled b\<rparr>)
      else c)"

text \<open>\<open>finally\<close> resets \<open>refreshRequest\<close>, and then everyone who awaits it can resume.\<close>

fun wake :: "bool \<Rightarrow> task \<Rightarrow> task" where
  "wake b (Refreshing path options raw) = Refreshed b path options raw"
| "wake b Restoring = Restored b"
| "wake b tk = tk"

definition on_finally :: "Client \<Rightarrow> Client" where
  "on_finally c =
     (case refreshRequest c of
        Refresh_settled b \<Rightarrow> c\<lparr>refreshRequest := No_refresh, tasks := map (wake b) (tasks c)\<rparr>
      | _ \<Rightarrow> c)"

definition on_resume :: "(string \<Rightarrow> string) \<Rightarrow> nat \<Rightarrow> Client \<Rightarrow> Client" where
  "on_resume t i c =
     (case tasks c ! i of
        Refreshed b path options raw \<Rightarrow>
          if b then (let (tk, c) = requestRaw i path options raw False c in set_task i tk c)
          else fail_unauthorized t i c
      | Restored b \<Rightarrow>
          set_task i (Done (Bool_value b)) (if b then c else c\<lparr>session := clearToken (session c)\<rparr>)
      | _ \<Rightarrow> c)"

datatype event =
    Request string RequestInit bool bool
  | Restore_session
  | Logout
  | Set_auth json json
  | Fetch_settles nat "string + Response"
  | Body_read nat
  | Refresh_settles "string + Response"
  | Refresh_finally
  | Resume nat

fun session_step :: "(string \<Rightarrow> string) \<Rightarrow> Client \<Rightarrow> event \<Rightarrow> Client" where
  "session_step t c (Request path options raw retry) = call_request path options raw retry c"
| "session_step t c Restore_session = call_restore c"
| "session_step t c Logout = call_logout c"
| "session_step t c (Set_auth token user) = c\<lparr>session := setAuth token user (session c)\<rparr>"
| "session_step t c (Fetch_settles i outcome) = (if i < length (tasks c) then on_fetch t i outcome c else c)"
| "session_step t c (Body_read i) = (if i < length (tasks c) then on_body t i c else c)"
| "session_step t c (Refresh_settles outcome) = on_refresh outcome c"
| "session_step t c Refresh_finally = on_finally c"
| "session_step t c (Resume i) = (if i < length (tasks c) then on_resume t i c else c)"

text \<open>A page that has just been loaded: nothing cached, whatever \<open>localStorage\<close> holds.\<close>

definition page_load :: "Storage \<Rightarrow> Client" where
  "page_load ls = \<lparr>session = \<lparr>cachedAccessToken = JNull, cachedUser = JNull, accessTokenLoaded = False,
       userLoaded = False, storage = ls, toasts_shown = [], location = []\<rparr>,
     refreshRequest = No_refresh, tasks = [], fetches = []\<rparr>"

subsection \<open>The session functions\<close>

lemma keys_differ [simp]: "ACCESS_TOKEN_KEY \<noteq> USER_KEY" "USER_KEY \<noteq> ACCESS_TOKEN_KEY"
  by (simp_all add: ACCESS_TOKEN_KEY_def USER_KEY_def)

lemmas session_defs = getToken_def setToken_def clearToken_def setUser_def setAuth_def
  readLocalStorage_def writeLocalStorage_def removeLocalStorage_def Let_def

text \<open>Once the token has been loaded, no token is left in \<open>localStorage\<close>.\<close>

definition store_ok :: "Session \<Rightarrow> bool" where
  "store_ok s \<longleftrightarrow> (accessTokenLoaded s \<and> ls_accessible (storage s) \<longrightarrow> ls_items (storage s) ACCESS_TOKEN_KEY = None)"

lemma store_ok_getToken: "store_ok s \<Longrightarrow> store_ok (snd (getToken s))"
  by (simp add: store_ok_def session_defs)

lemma store_ok_setToken: "store_ok (setToken token s)"
  by (simp add: store_ok_def session_defs)

lemma store_ok_clearToken: "store_ok (clearToken s)"
  by (simp add: store_ok_def session_defs)

lemma store_ok_setUser: "store_ok s \<Longrightarrow> store_ok (setUser user s)"
  by (simp add: store_ok_def session_defs)

lemma store_ok_setAuth: "store_ok (setAuth token user s)"
  by (simp add: setAuth_def store_ok_setUser store_ok_setToken)

lemma store_ok_unauthorized: "store_ok (snd (handleUnauthorized t s))"
  using store_ok_clearToken [of s] by (simp add: handleUnauthorized_def store_ok_def)

lemma snd_buildHeaders: "snd (buildHeaders options s) = snd (getToken s)"
  by (simp add: buildHeaders_def Let_def case_prod_beta)

lemma getToken_again: "getToken (snd (getToken s)) = (fst (getToken s), snd (getToken s))"
  by (simp add: session_defs)

lemma store_ok_performRefresh: "store_ok s \<Longrightarrow> store_ok (snd (performRefresh outcome s))"
  by (cases outcome) (simp_all add: performRefresh_def store_ok_setAuth Let_def)

lemma finish_request_session: "\<exists>msgs. snd (finish_request t res s) = s\<lparr>toasts_shown := toasts_shown s @ msgs\<rparr>"
  unfolding finish_request_def show_error_def Let_def
  by (auto split: if_splits intro: exI [of _ "[]"])

lemma store_ok_finish: "store_ok s \<Longrightarrow> store_ok (snd (finish_request t res s))"
  using finish_request_session [of t res s] by (auto simp: store_ok_def)

text \<open>the user that a login stores survives a reload of the page, and the token does not: after
  \<open>setAuth\<close> a new page on the same \<open>localStorage\<close> reads the same user and the same
  administrator flag, and is not authenticated until a refresh succeeds.\<close>

theorem user_survives_reload:
  assumes "json_ok user" and "ls_accessible (storage s)" and "ls_room (storage s)"
  shows "fst (getUser (session (page_load (storage (setAuth token user s))))) = user
    \<and> fst (isAdmin (session (page_load (storage (setAuth token user s)))))
        = (json_get user ''role'' = Some (JStr ''admin''))
    \<and> \<not> fst (isAuthenticated (session (page_load (storage (setAuth token user s)))))"
proof -
  have ne: "json_stringify user \<noteq> []"
    using stringify_first [OF assms(1)] by (metis list.distinct(1))
  have r: "readLocalStorage USER_KEY (session (page_load (storage (setAuth token user s)))) = Some (json_stringify user)"
    using assms(2,3) by (simp add: page_load_def session_defs)
  have l: "\<not> userLoaded (session (page_load ls))" for ls by (simp add: page_load_def)
  have u: "fst (getUser (session (page_load (storage (setAuth token user s))))) = user"
    using ne r l by (simp add: getUser_def json_text.dec_enc [OF assms(1)])
  moreover have "\<not> fst (isAuthenticated (session (page_load ls)))" for ls
    by (simp add: isAuthenticated_def page_load_def getToken_def Let_def removeLocalStorage_def)
  ultimately show ?thesis by (simp add: isAdmin_def case_prod_beta Let_def)
qed

definition admin_user :: json where
  "admin_user = JObj [(''id'', JNum 1), (''role'', JStr ''admin'')]"

theorem user_survives_reload_witness:
  "fst (getUser (session (page_load (storage (setAuth (JStr ''abc'') admin_user
     (session (page_load \<lparr>ls_items = Map.empty, ls_accessible = True, ls_room = True\<rparr>))))))) = admin_user"
  using user_survives_reload [of admin_user
      "session (page_load \<lparr>ls_items = Map.empty, ls_accessible = True, ls_room = True\<rparr>)" "JStr ''abc''"]
  by (simp add: admin_user_def short_decimal_def page_load_def)

subsection \<open>The invariant of the interleaved calls\<close>

definition sent_by :: "nat \<Rightarrow> Client \<Rightarrow> nat" where
  "sent_by i c = length (filter (\<lambda>(j, p, h). j = Some i) (fetches c))"

definition refreshes_sent :: "Client \<Rightarrow> nat" where
  "refreshes_sent c = length (filter (\<lambda>(j, p, h). j = None) (fetches c))"

fun task_ok :: "refresh \<Rightarrow> nat \<Rightarrow> task \<Rightarrow> bool" where
  "task_ok r n (Fetching path options raw retry had) = (if retry then n = 1 else n \<le> 2)"
| "task_ok r n (Refreshing path options raw) = (n = 1 \<and> r \<noteq> No_refresh \<and> path \<noteq> ''/auth/refresh'')"
| "task_ok r n (Refreshed b path options raw) = (n = 1 \<and> path \<noteq> ''/auth/refresh'')"
| "task_ok r n Restoring = (n = 0 \<and> r \<noteq> No_refresh)"
| "task_ok r n tk = (n \<le> 2)"

definition client_ok :: "Client \<Rightarrow> bool" where
  "client_ok c \<longleftrightarrow> (\<forall>i < length (tasks c). task_ok (refreshRequest c) (sent_by i c) (tasks c ! i))
     \<and> (\<forall>i \<ge> length (tasks c). sent_by i c = 0) \<and> store_ok (session c)"

lemma task_ok_le: "task_ok r n tk \<Longrightarrow> n \<le> 2"
  by (cases tk) (auto split: if_splits)

lemma task_ok_refresh: "task_ok r n tk \<Longrightarrow> (r' = No_refresh \<Longrightarrow> r = No_refresh) \<Longrightarrow> task_ok r' n tk"
  by (cases tk) auto

lemma task_ok_wake: "task_ok r n tk \<Longrightarrow> task_ok r' n (wake b tk)"
  by (cases tk) auto

lemma client_ok_set:
  assumes "client_ok c" and "i < length (tasks c)"
    and "refreshRequest c' = No_refresh \<Longrightarrow> refreshRequest c = No_refresh"
    and "tasks c' = (tasks c)[i := tk]" and "\<And>j. j \<noteq> i \<Longrightarrow> sent_by j c' = sent_by j c"
    and "task_ok (refreshRequest c') (sent_by i c') tk" and "store_ok (session c')"
  shows "client_ok c'"
  using assms by (auto simp: client_ok_def nth_list_update intro: task_ok_refresh)

lemma client_ok_add:
  assumes "client_ok c" and "refreshRequest c' = No_refresh \<Longrightarrow> refreshRequest c = No_refresh"
    and "tasks c' = tasks c @ [tk]" and "\<And>j. j \<noteq> length (tasks c) \<Longrightarrow> sent_by j c' = sent_by j c"
    and "task_ok (refreshRequest c') (sent_by (length (tasks c)) c') tk" and "store_ok (session c')"
  shows "client_ok c'"
  using assms by (auto simp: client_ok_def nth_append less_Suc_eq intro: task_ok_refresh)

lemma client_ok_session: "client_ok c \<Longrightarrow> store_ok s \<Longrightarrow> client_ok (c\<lparr>session := s\<rparr>)"
  by (simp add: client_ok_def sent_by_def)

lemma client_ok_sent: "client_ok c \<Longrightarrow> sent_by (length (tasks c)) c = 0"
  by (simp add: client_ok_def)

lemma client_ok_task: "client_ok c \<Longrightarrow> i < length (tasks c) \<Longrightarrow> task_ok (refreshRequest c) (sent_by i c) (tasks c ! i)"
  by (simp add: client_ok_def)

lemma client_ok_store: "client_ok c \<Longrightarrow> store_ok (session c)"
  by (simp add: client_ok_def)

lemma refreshSession_simps [simp]:
  "tasks (refreshSession c) = tasks c" "session (refreshSession c) = session c"
  "sent_by i (refreshSession c) = sent_by i c" "refreshRequest (refreshSession c) \<noteq> No_refresh"
  by (simp_all add: refreshSession_def sent_by_def)

lemma requestRaw_simps [simp]:
  "tasks (snd (requestRaw i path options raw retry c)) = tasks c"
  "refreshRequest (snd (requestRaw i path options raw retry c)) = refreshRequest c"
  "session (snd (requestRaw i path options raw retry c)) = snd (getToken (session c))"
  "sent_by j (snd (requestRaw i path options raw retry c)) = (if j = i then Suc (sent_by j c) else sent_by j c)"
  "fst (requestRaw i path options raw retry c) = Fetching path options raw retry (json_truthy (fst (getToken (session c))))"
  by (simp_all add: requestRaw_def Let_def case_prod_beta snd_buildHeaders getToken_again sent_by_def)

lemma set_task_simps [simp]:
  "tasks (set_task i tk c) = (tasks c)[i := tk]" "refreshRequest (set_task i tk c) = refreshRequest c"
  "session (set_task i tk c) = session c" "sent_by j (set_task i tk c) = sent_by j c"
  by (simp_all add: set_task_def sent_by_def)

lemma sent_by_session [simp]: "sent_by j (c\<lparr>session := s\<rparr>) = sent_by j c"
  by (simp add: sent_by_def)

lemma sent_by_tasks [simp]: "sent_by j (c\<lparr>tasks := ts\<rparr>) = sent_by j c"
  by (simp add: sent_by_def)

lemma sent_by_refresh [simp]: "sent_by j (c\<lparr>refreshRequest := r\<rparr>) = sent_by j c"
  by (simp add: sent_by_def)

lemma client_ok_done:
  assumes "client_ok c" and "i < length (tasks c)" and "store_ok s"
  shows "client_ok (set_task i (Done out) (c\<lparr>session := s\<rparr>))"
proof (rule client_ok_set [OF assms(1,2), where tk = "Done out"])
  have "sent_by i c \<le> 2" using client_ok_task [OF assms(1,2)] by (rule task_ok_le)
  then show "task_ok (refreshRequest (set_task i (Done out) (c\<lparr>session := s\<rparr>)))
      (sent_by i (set_task i (Done out) (c\<lparr>session := s\<rparr>))) (Done out)" by simp
qed (simp_all add: assms(3))

lemma client_ok_fail: "client_ok c \<Longrightarrow> i < length (tasks c) \<Longrightarrow> client_ok (fail_unauthorized t i c)"
  by (simp add: fail_unauthorized_def case_prod_beta client_ok_done store_ok_unauthorized)

lemma client_ok_set_same:
  "client_ok c \<Longrightarrow> i < length (tasks c) \<Longrightarrow> task_ok (refreshRequest c) (sent_by i c) tk \<Longrightarrow> client_ok (set_task i tk c)"
  by (rule client_ok_set [where c = c and i = i]) (auto dest: client_ok_store)

lemma client_ok_request:
  assumes "client_ok c"
  shows "client_ok (call_request path options raw retry c)"
proof (rule client_ok_add [OF assms])
  show "tasks (call_request path options raw retry c) =
      tasks c @ [Fetching path options raw retry (json_truthy (fst (getToken (session c))))]"
    by (simp add: call_request_def case_prod_beta)
qed (use client_ok_sent [OF assms] client_ok_store [OF assms] in
    \<open>auto simp: call_request_def case_prod_beta intro: store_ok_getToken\<close>)

lemma client_ok_restore:
  assumes "client_ok c"
  shows "client_ok (call_restore c)"
proof (cases "json_truthy (fst (getToken (session c)))")
  case True
  then show ?thesis
    using client_ok_sent [OF assms] client_ok_store [OF assms]
    by (intro client_ok_add [OF assms, where tk = "Done (Bool_value True)"])
      (auto simp: call_restore_def case_prod_beta Let_def intro: store_ok_getToken)
next
  case False
  then show ?thesis
    using client_ok_sent [OF assms] client_ok_store [OF assms]
    by (intro client_ok_add [OF assms, where tk = Restoring])
      (auto simp: call_restore_def case_prod_beta Let_def intro: store_ok_getToken)
qed

lemma client_ok_logout:
  assumes "client_ok c"
  shows "client_ok (call_logout c)"
  using client_ok_sent [OF assms] client_ok_store [OF assms]
  by (intro client_ok_add [OF assms, where tk = Logging_out]) (auto simp: call_logout_def sent_by_def)

lemma client_ok_on_fetch:
  assumes ok: "client_ok c" and i: "i < length (tasks c)"
  shows "client_ok (on_fetch t i outcome c)"
proof (cases "tasks c ! i")
  case (Fetching path options raw retry had)
  have n: "sent_by i c \<le> 2" "retry \<Longrightarrow> sent_by i c = 1"
    using client_ok_task [OF ok i] Fetching by (auto split: if_splits)
  have s: "client_ok (set_task i (Done out) c)" "client_ok (set_task i (Reading_body res) c)" for out res
    using n by (simp_all add: client_ok_set_same ok i)
  have r: "client_ok (set_task i (Refreshing path options raw) (refreshSession c))"
    if "retry \<and> canRefresh path had"
    using that n(2) client_ok_store [OF ok]
    by (intro client_ok_set [OF ok i, where tk = "Refreshing path options raw"]) (simp_all add: canRefresh_def)
  show ?thesis
    using s r client_ok_fail [OF ok i]
    by (cases outcome) (simp_all add: on_fetch_def Fetching)
next
  case Logging_out
  then show ?thesis
    using client_ok_task [OF ok i]
    by (cases outcome) (simp_all add: on_fetch_def client_ok_done client_ok_set_same store_ok_clearToken ok i)
qed (simp_all add: on_fetch_def ok)

lemma client_ok_on_body:
  assumes "client_ok c" and "i < length (tasks c)"
  shows "client_ok (on_body t i c)"
  using assms client_ok_store [OF assms(1)]
  by (cases "tasks c ! i")
    (simp_all add: on_body_def case_prod_beta Let_def client_ok_done store_ok_clearToken store_ok_finish)

lemma client_ok_on_refresh: "client_ok c \<Longrightarrow> client_ok (on_refresh outcome c)"
  using client_ok_store [of c]
  by (auto simp: on_refresh_def case_prod_beta client_ok_def store_ok_performRefresh intro: task_ok_refresh)

lemma client_ok_on_finally: "client_ok c \<Longrightarrow> client_ok (on_finally c)"
  by (auto simp: on_finally_def client_ok_def intro: task_ok_wake split: refresh.split)

lemma client_ok_on_resume:
  assumes ok: "client_ok c" and i: "i < length (tasks c)"
  shows "client_ok (on_resume t i c)"
proof (cases "tasks c ! i")
  case (Refreshed b path options raw)
  have n: "sent_by i c = 1" using client_ok_task [OF ok i] Refreshed by simp
  show ?thesis
  proof (cases b)
    case True
    then show ?thesis
      using n client_ok_store [OF ok]
      by (intro client_ok_set [OF ok i,
            where tk = "Fetching path options raw False (json_truthy (fst (getToken (session c))))"])
        (simp_all add: on_resume_def Refreshed case_prod_beta store_ok_getToken)
  next
    case False
    then show ?thesis by (simp add: on_resume_def Refreshed client_ok_fail ok i)
  qed
next
  case (Restored b)
  then show ?thesis
    using client_ok_task [OF ok i]
    by (simp add: on_resume_def client_ok_done client_ok_set_same store_ok_clearToken ok i)
qed (simp_all add: on_resume_def ok)

interpretation session: event_machine "session_step t" client_ok for t
proof
  fix c e
  assume "client_ok c"
  then show "client_ok (session_step t c e)"
    by (cases e) (simp_all add: client_ok_request client_ok_restore client_ok_logout client_ok_session
        store_ok_setAuth client_ok_on_fetch client_ok_on_body client_ok_on_refresh client_ok_on_finally
        client_ok_on_resume)
qed

lemma client_ok_page_load: "client_ok (page_load ls)"
  by (simp add: client_ok_def page_load_def sent_by_def store_ok_def)

lemmas client_ok_run = session.run_inv [OF client_ok_page_load]

subsection \<open>What holds in every run\<close>

text \<open>C1: one call never sends its request more than twice, and a call to \<open>/auth/refresh\<close>
  itself never waits for a refresh: however calls, answers and refreshes interleave, a 401 cannot
  start a loop of retries.\<close>

theorem at_most_two_fetches:
  "sent_by i (foldl (session_step t) (page_load ls) es) \<le> 2
   \<and> (i < length (tasks (foldl (session_step t) (page_load ls) es)) \<longrightarrow>
      tasks (foldl (session_step t) (page_load ls) es) ! i \<noteq> Refreshing ''/auth/refresh'' options raw)"
proof -
  let ?c = "foldl (session_step t) (page_load ls) es"
  have ok: "client_ok ?c" by (rule client_ok_run)
  show ?thesis
  proof (cases "i < length (tasks ?c)")
    case True
    then show ?thesis using client_ok_task [OF ok True] task_ok_le by auto
  next
    case False
    then show ?thesis using ok by (simp add: client_ok_def)
  qed
qed

definition get_options :: RequestInit where
  "get_options = \<lparr>ri_method = ''GET'', ri_headers = [], ri_body = No_body\<rparr>"

definition empty_storage :: Storage where
  "empty_storage = \<lparr>ls_items = Map.empty, ls_accessible = True, ls_room = True\<rparr>"

theorem at_most_two_fetches_witness:
  "sent_by 0 (foldl (session_step id) (page_load empty_storage) [Request ''/auth/me'' get_options False True]) \<le> 2
   \<and> tasks (foldl (session_step id) (page_load empty_storage) [Request ''/auth/me'' get_options False True]) ! 0
     \<noteq> Refreshing ''/auth/refresh'' get_options False"
  using at_most_two_fetches [where i = 0 and t = id and ls = empty_storage
      and es = "[Request ''/auth/me'' get_options False True]" and options = get_options and raw = False]
  by (simp add: call_request_def case_prod_beta)

lemma refreshes_sent_simps [simp]:
  "refreshes_sent (set_task i tk c) = refreshes_sent c"
  "refreshes_sent (c\<lparr>session := s\<rparr>) = refreshes_sent c"
  "refreshes_sent (c\<lparr>tasks := ts\<rparr>) = refreshes_sent c"
  "refreshes_sent (c\<lparr>refreshRequest := r\<rparr>) = refreshes_sent c"
  "refreshes_sent (snd (requestRaw i path options raw retry c)) = refreshes_sent c"
  "refreshes_sent (call_logout c) = refreshes_sent c"
  by (simp_all add: refreshes_sent_def set_task_def requestRaw_def call_logout_def Let_def case_prod_beta)

text \<open>What a step does to the refresh: it sends nothing and leaves the promise as it is, or there is no
  promise and it sends one request and leaves a pending one.\<close>

definition refresh_moves :: "Client \<Rightarrow> Client \<Rightarrow> bool" where
  "refresh_moves c d \<longleftrightarrow>
     refreshes_sent d = refreshes_sent c \<and> refreshRequest d = refreshRequest c
     \<or> refreshes_sent d = Suc (refreshes_sent c) \<and> refreshRequest c = No_refresh \<and> refreshRequest d = Refresh_pending"

lemma refresh_movesI [intro]:
  "refreshes_sent d = refreshes_sent c \<Longrightarrow> refreshRequest d = refreshRequest c \<Longrightarrow> refresh_moves c d"
  by (simp add: refresh_moves_def)

lemma refreshSession_moves: "refresh_moves c (refreshSession c)"
  by (auto simp add: refresh_moves_def refreshSession_def refreshes_sent_def)

lemma fail_unauthorized_simps [simp]:
  "refreshes_sent (fail_unauthorized t i c) = refreshes_sent c"
  "refreshRequest (fail_unauthorized t i c) = refreshRequest c"
  "tasks (fail_unauthorized t i c) = (tasks c)[i := Done (Thrown (t ''common.unauthorized''))]"
  by (simp_all add: fail_unauthorized_def handleUnauthorized_def)

lemma step_moves:
  assumes "e \<noteq> Refresh_finally" "\<forall>outcome. e \<noteq> Refresh_settles outcome"
  shows "refresh_moves c (session_step t c e)"
proof -
  have f: "refresh_moves c (on_fetch t i outcome c)" for i outcome
    using refreshSession_moves [of c]
    by (cases "tasks c ! i"; cases outcome) (auto simp: on_fetch_def refresh_moves_def)
  have b: "refresh_moves c (on_body t i c)" for i
    by (cases "tasks c ! i") (auto simp add: on_body_def case_prod_beta Let_def)
  have r: "refresh_moves c (on_resume t i c)" for i
    by (cases "tasks c ! i") (auto simp add: on_resume_def case_prod_beta)
  have a: "refresh_moves c (call_restore c)"
    using refreshSession_moves [of "c\<lparr>session := snd (getToken (session c))\<rparr>"]
    by (cases "refreshRequest c = No_refresh") (auto simp add: call_restore_def case_prod_beta Let_def refresh_moves_def)
  have q: "refresh_moves c (call_request p ops raw retry c)" for p ops raw retry
    by (rule refresh_movesI) (simp_all add: call_request_def case_prod_beta)
  have l: "refresh_moves c (call_logout c)"
    by (rule refresh_movesI) (simp, simp add: call_logout_def)
  show ?thesis
    using assms by (cases e) (auto simp add: f b r a l q)
qed

text \<open>The refreshes the server, or a failure of the network, has answered: a promise is pending and its
  \<open>fetch\<close> settles.\<close>

fun refreshes_answered :: "(string \<Rightarrow> string) \<Rightarrow> Client \<Rightarrow> event list \<Rightarrow> nat" where
  "refreshes_answered t c [] = 0"
| "refreshes_answered t c (Refresh_settles outcome # es) =
     (if refreshRequest c = Refresh_pending then 1 else 0)
     + refreshes_answered t (session_step t c (Refresh_settles outcome)) es"
| "refreshes_answered t c (e # es) = refreshes_answered t (session_step t c e) es"

definition refresh_pending :: "Client \<Rightarrow> nat" where
  "refresh_pending c = (if refreshRequest c = Refresh_pending then 1 else 0)"

definition in_flight :: "Client \<Rightarrow> nat" where
  "in_flight c = (if refreshRequest c = No_refresh then 0 else 1)"

lemma refreshes_answered_Cons:
  "refreshes_answered t c (e # es) = refreshes_answered t c [e] + refreshes_answered t (session_step t c e) es"
  by (cases e) simp_all

lemma step_answers:
  "refreshes_sent (session_step t c e) + refresh_pending c
   = refreshes_sent c + refresh_pending (session_step t c e) + refreshes_answered t c [e]"
proof (cases e)
  case (Refresh_settles outcome)
  then show ?thesis
    by (simp add: on_refresh_def refresh_pending_def case_prod_beta)
next
  case Refresh_finally
  then show ?thesis
    by (simp add: on_finally_def refresh_pending_def split: refresh.split)
qed (use step_moves [of e c t] in \<open>auto simp: refresh_moves_def refresh_pending_def\<close>)

lemma run_answers:
  "refreshes_sent (foldl (session_step t) c es) + refresh_pending c
   = refreshes_sent c + refresh_pending (foldl (session_step t) c es) + refreshes_answered t c es"
proof (induction es arbitrary: c)
  case Nil
  then show ?case by simp
next
  case (Cons e es)
  show ?case
    using Cons.IH [of "session_step t c e"] step_answers [of t c e] refreshes_answered_Cons [of t c e es] by simp
qed

lemma step_finally:
  "refreshes_sent (session_step t c e) + in_flight c
   \<le> refreshes_sent c + in_flight (session_step t c e) + (if e = Refresh_finally then 1 else 0)"
proof (cases e)
  case (Refresh_settles outcome)
  then show ?thesis by (simp add: on_refresh_def in_flight_def case_prod_beta)
next
  case Refresh_finally
  then show ?thesis by (simp add: on_finally_def in_flight_def split: refresh.split)
qed (use step_moves [of e c t] in \<open>auto simp: refresh_moves_def in_flight_def\<close>)

lemma run_finally:
  "refreshes_sent (foldl (session_step t) c es) + in_flight c
   \<le> refreshes_sent c + in_flight (foldl (session_step t) c es) + length (filter (\<lambda>e. e = Refresh_finally) es)"
proof (induction es arbitrary: c)
  case Nil
  then show ?case by simp
next
  case (Cons e es)
  show ?case
    using Cons.IH [of "session_step t c e"] step_finally [of t c e] by (auto split: if_splits)
qed

text \<open>C2: the refresh is shared: at any moment of any run every call of \<open>fetch\<close> on \<open>/auth/refresh\<close>
  has been answered but the one of the pending promise, so the next is sent only after the answer to
  the last one, whatever number of requests fail with 401 meanwhile; and only after \<open>finally\<close> has run:
  they are at most one more than its runs.\<close>

theorem refresh_is_single_flight:
  "let c = foldl (session_step t) (page_load ls) es in
     refreshes_sent c = refreshes_answered t (page_load ls) es + (if refreshRequest c = Refresh_pending then 1 else 0)
     \<and> refreshes_sent c \<le> Suc (length (filter (\<lambda>e. e = Refresh_finally) es))"
proof -
  have "refreshes_sent (page_load ls) = 0" "refresh_pending (page_load ls) = 0" "in_flight (page_load ls) = 0"
    by (simp_all add: page_load_def refreshes_sent_def refresh_pending_def in_flight_def)
  then show ?thesis
    using run_answers [of t "page_load ls" es] run_finally [of t "page_load ls" es]
    by (auto simp: refresh_pending_def in_flight_def Let_def split: if_splits)
qed

subsection \<open>A 401\<close>

text \<open>C3: what a 401 does: a first attempt that carried a token waits for the shared refresh and
  changes nothing in the session; any other one signs the user out, with token and user gone from
  memory and from \<open>localStorage\<close>, the message shown and the browser sent to the login page.\<close>

theorem unauthorized_branches:
  assumes "i < length (tasks c)" and "tasks c ! i = Fetching path options raw retry had"
    and "rs_status res = 401" and "c' = session_step t c (Fetch_settles i (Inr res))"
  shows "(retry \<and> had \<and> path \<noteq> ''/auth/refresh'' \<longrightarrow>
      tasks c' ! i = Refreshing path options raw \<and> refreshRequest c' \<noteq> No_refresh \<and> session c' = session c)
    \<and> (\<not> (retry \<and> had \<and> path \<noteq> ''/auth/refresh'') \<longrightarrow>
      tasks c' ! i = Done (Thrown (t ''common.unauthorized'')) \<and> \<not> fst (isAuthenticated (session c'))
      \<and> fst (getUser (session c')) = JNull
      \<and> readLocalStorage ACCESS_TOKEN_KEY (session c') = None \<and> readLocalStorage USER_KEY (session c') = None
      \<and> location (session c') = ''/login'' \<and> last (toasts_shown (session c')) = t ''common.unauthorized'')"
  using assms
  by (auto simp: on_fetch_def canRefresh_def fail_unauthorized_def handleUnauthorized_def isAuthenticated_def
      getUser_def session_defs)

theorem unauthorized_branches_witness:
  "tasks (session_step id (foldl (session_step id) (page_load empty_storage) [Request ''/auth/me'' get_options False True])
     (Fetch_settles 0 (Inr \<lparr>rs_status = 401, rs_content_type = None, rs_body = None\<rparr>))) ! 0
   = Done (Thrown ''common.unauthorized'')"
proof -
  let ?c = "foldl (session_step id) (page_load empty_storage) [Request ''/auth/me'' get_options False True]"
  have t: "tasks ?c = [Fetching ''/auth/me'' get_options False True False]"
    by (simp add: call_request_def case_prod_beta page_load_def getToken_def Let_def removeLocalStorage_def)
  show ?thesis
    using unauthorized_branches [of 0 ?c "''/auth/me''" get_options False True False
        "\<lparr>rs_status = 401, rs_content_type = None, rs_body = None\<rparr>" _ id, OF _ _ _ refl] t by simp
qed

subsection \<open>Every call completes\<close>

text \<open>
  How far a task is from completion, and the promises it awaits: the shared refresh and its
  \<open>finally\<close>, its own \<open>fetch\<close>, the body, or its turn to resume.
\<close>

fun rank :: "task \<Rightarrow> nat" where
  "rank (Fetching path options raw retry had) = (if retry then 5 else 2)"
| "rank (Refreshing path options raw) = 4"
| "rank (Refreshed b path options raw) = 3"
| "rank (Reading_body res) = 1"
| "rank Restoring = 2"
| "rank (Restored b) = 1"
| "rank Logging_out = 2"
| "rank (Logout_body res) = 1"
| "rank (Done out) = 0"

fun awaited :: "string + Response \<Rightarrow> nat \<Rightarrow> task \<Rightarrow> event list" where
  "awaited out i (Fetching path options raw retry had) = [Fetch_settles i out]"
| "awaited out i (Refreshing path options raw) = [Refresh_settles out, Refresh_finally]"
| "awaited out i (Refreshed b path options raw) = [Resume i]"
| "awaited out i (Reading_body res) = [Body_read i]"
| "awaited out i Restoring = [Refresh_settles out, Refresh_finally]"
| "awaited out i (Restored b) = [Resume i]"
| "awaited out i Logging_out = [Fetch_settles i out]"
| "awaited out i (Logout_body res) = [Body_read i]"
| "awaited out i (Done out') = []"

lemma on_refresh_simps [simp]: "tasks (on_refresh out c) = tasks c"
  by (simp add: on_refresh_def case_prod_beta)

lemma finally_wakes:
  "refreshRequest c \<noteq> No_refresh \<Longrightarrow> \<exists>b. tasks (on_finally (on_refresh out c)) = map (wake b) (tasks c)"
  by (cases "refreshRequest c") (auto simp: on_finally_def on_refresh_def case_prod_beta)

lemma rank_wake: "rank (wake b tk) \<le> rank tk"
  by (cases tk) simp_all

lemma rank_update: "(i = j \<Longrightarrow> rank tk \<le> rank (ts ! j)) \<Longrightarrow> i < length ts \<Longrightarrow> rank (ts[j := tk] ! i) \<le> rank (ts ! i)"
  by (cases "i = j") simp_all

lemma on_fetch_rank: "i < length (tasks c) \<Longrightarrow> rank (tasks (on_fetch t j out c) ! i) \<le> rank (tasks c ! i)"
  by (cases "tasks c ! j"; cases out) (auto simp: on_fetch_def intro!: rank_update)

lemma on_body_rank: "i < length (tasks c) \<Longrightarrow> rank (tasks (on_body t j c) ! i) \<le> rank (tasks c ! i)"
  by (cases "tasks c ! j") (auto simp: on_body_def case_prod_beta Let_def intro!: rank_update)

lemma on_resume_rank: "i < length (tasks c) \<Longrightarrow> rank (tasks (on_resume t j c) ! i) \<le> rank (tasks c ! i)"
  by (cases "tasks c ! j") (auto simp: on_resume_def case_prod_beta intro!: rank_update)

lemma rank_never_grows:
  assumes "i < length (tasks c)"
  shows "rank (tasks (session_step t c e) ! i) \<le> rank (tasks c ! i)"
proof (cases e)
  case (Request path options raw retry)
  with assms show ?thesis by (simp add: call_request_def case_prod_beta nth_append)
next
  case Restore_session
  with assms show ?thesis by (simp add: call_restore_def case_prod_beta nth_append Let_def)
next
  case Logout
  with assms show ?thesis by (simp add: call_logout_def nth_append)
next
  case Refresh_finally
  with assms show ?thesis by (simp add: on_finally_def rank_wake split: refresh.split)
qed (use assms in \<open>simp_all add: on_fetch_rank on_body_rank on_resume_rank\<close>)

text \<open>C4: no call hangs once the network has answered: in every reachable state, the promises that
  an unfinished call awaits exist, and when they settle, with whatever result, the call is closer
  to its end, and no event moves it back; so it ends after at most five such rounds. In particular
  no call waits for a refresh that nobody is running.\<close>

theorem every_call_completes:
  assumes "c = foldl (session_step t) (page_load ls) es" and "i < length (tasks c)"
    and "0 < rank (tasks c ! i)"
  shows "rank (tasks (foldl (session_step t) c (awaited out i (tasks c ! i))) ! i) < rank (tasks c ! i)
    \<and> rank (tasks (session_step t c e) ! i) \<le> rank (tasks c ! i) \<and> rank (tasks c ! i) \<le> 5"
proof -
  have five: "rank (tasks c ! i) \<le> 5" by (cases "tasks c ! i") simp_all
  have tok: "task_ok (refreshRequest c) (sent_by i c) (tasks c ! i)"
    unfolding assms(1) by (rule client_ok_task [OF client_ok_run]) (use assms in simp)
  have "rank (tasks (foldl (session_step t) c (awaited out i (tasks c ! i))) ! i) < rank (tasks c ! i)"
  proof (cases "tasks c ! i")
    case (Refreshing path options raw)
    then obtain b where "tasks (on_finally (on_refresh out c)) = map (wake b) (tasks c)"
      using tok finally_wakes by fastforce
    with Refreshing assms(2) show ?thesis by simp
  next
    case Restoring
    then obtain b where "tasks (on_finally (on_refresh out c)) = map (wake b) (tasks c)"
      using tok finally_wakes by fastforce
    with Restoring assms(2) show ?thesis by simp
  next
    case (Fetching path options raw retry had)
    with assms(2) show ?thesis by (cases out) (simp_all add: on_fetch_def)
  next
    case Logging_out
    with assms(2) show ?thesis by (cases out) (simp_all add: on_fetch_def)
  next
    case (Done out')
    with assms(3) show ?thesis by simp
  qed (use assms(2) in \<open>simp_all add: on_resume_def on_body_def case_prod_beta Let_def\<close>)
  with five rank_never_grows [OF assms(2)] show ?thesis by simp
qed

theorem every_call_completes_witness:
  "rank (tasks (session_step id (session_step id (page_load empty_storage) Restore_session) (Refresh_settles (Inl ''offline''))) ! 0) \<le> 5
   \<and> rank (tasks (foldl (session_step id) (page_load empty_storage)
       [Restore_session, Refresh_settles (Inl ''offline''), Refresh_finally]) ! 0) < 2"
proof -
  let ?c = "foldl (session_step id) (page_load empty_storage) [Restore_session]"
  have t: "tasks ?c = [Restoring]"
    by (simp add: call_restore_def page_load_def getToken_def Let_def removeLocalStorage_def case_prod_beta)
  show ?thesis
    using every_call_completes [of ?c id empty_storage "[Restore_session]" 0 "Inl ''offline''"] t by simp
qed

subsection \<open>A token in localStorage has no influence\<close>

definition forget_token :: "Client \<Rightarrow> Client" where
  "forget_token c = c\<lparr>session := (session c)\<lparr>storage := (storage (session c))\<lparr>
     ls_items := (ls_items (storage (session c)))(ACCESS_TOKEN_KEY := None)\<rparr>\<rparr>\<rparr>"

definition forget :: "Session \<Rightarrow> Session" where
  "forget s = s\<lparr>storage := (storage s)\<lparr>ls_items := (ls_items (storage s))(ACCESS_TOKEN_KEY := None)\<rparr>\<rparr>"

lemma forget_token_alt: "forget_token c = c\<lparr>session := forget (session c)\<rparr>"
  by (simp add: forget_token_def forget_def)

lemma forget_simps [simp]:
  "cachedAccessToken (forget s) = cachedAccessToken s" "accessTokenLoaded (forget s) = accessTokenLoaded s"
  "toasts_shown (forget s) = toasts_shown s"
  by (simp_all add: forget_def)

lemma fun_upd_None_None: "(m(k := None))(k' := None) = (m(k' := None))(k := (None :: 'b option))"
  by auto

lemma forget_remove: "removeLocalStorage k (forget s) = forget (removeLocalStorage k s)"
  by (simp add: removeLocalStorage_def forget_def fun_upd_None_None)

lemma forget_fields [simp]:
  "(forget s)\<lparr>cachedAccessToken := j\<rparr> = forget (s\<lparr>cachedAccessToken := j\<rparr>)"
  "(forget s)\<lparr>cachedUser := j\<rparr> = forget (s\<lparr>cachedUser := j\<rparr>)"
  "(forget s)\<lparr>accessTokenLoaded := b\<rparr> = forget (s\<lparr>accessTokenLoaded := b\<rparr>)"
  "(forget s)\<lparr>userLoaded := b\<rparr> = forget (s\<lparr>userLoaded := b\<rparr>)"
  "(forget s)\<lparr>toasts_shown := ms\<rparr> = forget (s\<lparr>toasts_shown := ms\<rparr>)"
  "(forget s)\<lparr>location := l\<rparr> = forget (s\<lparr>location := l\<rparr>)"
  by (simp_all add: forget_def)

lemma forget_getToken: "getToken (forget s) = (fst (getToken s), forget (snd (getToken s)))"
  by (simp add: getToken_def Let_def forget_remove)

lemma forget_setAuth: "setAuth tk u (forget s) = forget (setAuth tk u s)"
  by (auto simp: setAuth_def setToken_def setUser_def forget_remove writeLocalStorage_def)
    (auto simp: forget_def fun_eq_iff)

lemma forget_clearToken: "clearToken (forget s) = forget (clearToken s)"
  by (simp add: clearToken_def forget_remove)

lemma forget_handle: "handleUnauthorized t (forget s) = (fst (handleUnauthorized t s), forget (snd (handleUnauthorized t s)))"
  by (simp add: handleUnauthorized_def forget_clearToken)

lemma forget_headers: "buildHeaders ops (forget s) = (fst (buildHeaders ops s), forget (snd (buildHeaders ops s)))"
  by (simp add: buildHeaders_def Let_def forget_getToken case_prod_beta)

lemma forget_refresh: "performRefresh out (forget s) = (fst (performRefresh out s), forget (snd (performRefresh out s)))"
  by (cases out) (simp_all add: performRefresh_def Let_def forget_setAuth)

lemma forget_finish: "finish_request t res (forget s) = (fst (finish_request t res s), forget (snd (finish_request t res s)))"
  by (simp add: finish_request_def Let_def show_error_def)

lemma forget_client [simp]:
  "session (forget_token c) = forget (session c)" "tasks (forget_token c) = tasks c"
  "refreshRequest (forget_token c) = refreshRequest c" "fetches (forget_token c) = fetches c"
  "(forget_token c)\<lparr>tasks := ts\<rparr> = forget_token (c\<lparr>tasks := ts\<rparr>)"
  "(forget_token c)\<lparr>refreshRequest := r\<rparr> = forget_token (c\<lparr>refreshRequest := r\<rparr>)"
  "(forget_token c)\<lparr>fetches := fs\<rparr> = forget_token (c\<lparr>fetches := fs\<rparr>)"
  "(forget_token c)\<lparr>session := forget s\<rparr> = forget_token (c\<lparr>session := s\<rparr>)"
  by (simp_all add: forget_token_alt)

lemma forget_refreshSession: "refreshSession (forget_token c) = forget_token (refreshSession c)"
  by (simp add: refreshSession_def)

lemma forget_requestRaw:
  "requestRaw i path ops raw retry (forget_token c) =
   (fst (requestRaw i path ops raw retry c), forget_token (snd (requestRaw i path ops raw retry c)))"
  by (simp add: requestRaw_def Let_def case_prod_beta forget_getToken forget_headers)

lemma forget_set_task: "set_task i tk (forget_token c) = forget_token (set_task i tk c)"
  by (simp add: set_task_def)

lemma forget_fail: "fail_unauthorized t i (forget_token c) = forget_token (fail_unauthorized t i c)"
  by (simp add: fail_unauthorized_def case_prod_beta forget_handle forget_set_task)

lemmas forget_rules = forget_refreshSession forget_requestRaw forget_set_task forget_fail forget_getToken
  forget_clearToken forget_finish forget_refresh forget_setAuth case_prod_beta Let_def

lemma forget_on_fetch: "on_fetch t i out (forget_token c) = forget_token (on_fetch t i out c)"
  by (cases "tasks c ! i"; cases out) (simp_all add: on_fetch_def forget_rules)

lemma forget_on_body: "on_body t i (forget_token c) = forget_token (on_body t i c)"
  by (cases "tasks c ! i") (simp_all add: on_body_def forget_rules)

lemma forget_on_resume: "on_resume t i (forget_token c) = forget_token (on_resume t i c)"
  by (cases "tasks c ! i") (simp_all add: on_resume_def forget_rules)

lemma forget_on_finally: "on_finally (forget_token c) = forget_token (on_finally c)"
  by (cases "refreshRequest c") (simp_all add: on_finally_def)

lemma forget_step: "session_step t (forget_token c) e = forget_token (session_step t c e)"
  by (cases e) (simp_all add: call_request_def call_restore_def call_logout_def on_refresh_def
      forget_on_fetch forget_on_body forget_on_resume forget_on_finally forget_rules)

lemma forget_run: "foldl (session_step t) (forget_token c) es = forget_token (foldl (session_step t) c es)"
  by (induction es arbitrary: c) (simp_all add: forget_step)

text \<open>a token planted in \<open>localStorage\<close> is never used: two pages whose
  \<open>localStorage\<close> differs only in that item send the same requests with the same headers and
  every call ends the same way; and once the session has looked at its token, the item is gone.\<close>

theorem stored_token_is_ignored:
  "fetches (foldl (session_step t) (page_load (ls\<lparr>ls_items := (ls_items ls)(''token'' := x)\<rparr>)) es)
     = fetches (foldl (session_step t) (page_load ls) es)
   \<and> tasks (foldl (session_step t) (page_load (ls\<lparr>ls_items := (ls_items ls)(''token'' := x)\<rparr>)) es)
     = tasks (foldl (session_step t) (page_load ls) es)
   \<and> \<not> (ls_accessible (storage (session (foldl (session_step t) (page_load ls) es)))
      \<and> accessTokenLoaded (session (foldl (session_step t) (page_load ls) es))
      \<and> ls_items (storage (session (foldl (session_step t) (page_load ls) es))) ''token'' \<noteq> None)"
proof -
  have f: "forget_token (page_load (ls\<lparr>ls_items := (ls_items ls)(''token'' := x)\<rparr>)) = forget_token (page_load ls)"
    by (simp add: forget_token_def page_load_def ACCESS_TOKEN_KEY_def)
  have g: "forget_token (foldl (session_step t) (page_load (ls\<lparr>ls_items := (ls_items ls)(''token'' := x)\<rparr>)) es)
      = forget_token (foldl (session_step t) (page_load ls) es)"
    by (simp only: forget_run [symmetric] f)
  have "store_ok (session (foldl (session_step t) (page_load ls) es))"
    by (rule client_ok_store [OF client_ok_run])
  then show ?thesis
    using arg_cong [OF g, of fetches] arg_cong [OF g, of tasks] by (simp add: store_ok_def ACCESS_TOKEN_KEY_def)
qed

subsection \<open>A refresh that outlives the logout\<close>

definition refresh_answer :: Response where
  "refresh_answer = \<lparr>rs_status = 200, rs_content_type = Some ''application/json'',
     rs_body = Some (JObj [(''access_token'', JStr ''fresh''), (''user'', JObj [(''id'', JNum 1)])])\<rparr>"

text \<open>
  \<open>logout\<close> clears the session when its request has completed, but it does not cancel a
  refresh in flight: when that one settles afterwards, the client is authenticated again, although
  the logout has resolved.
\<close>

lemma logout_then_refresh_signs_in_again:
  "let c = foldl (session_step id) (page_load empty_storage)
      [Restore_session, Logout, Fetch_settles 1 (Inr \<lparr>rs_status = 204, rs_content_type = None, rs_body = None\<rparr>),
       Body_read 1, Refresh_settles (Inr refresh_answer), Refresh_finally, Resume 0]
   in tasks c = [Done (Bool_value True), Done Unit_value] \<and> fst (isAuthenticated (session c))"
  by code_simp

end
