(* ===== verification/AccountSettings.thy ===== *)
theory AccountSettings
  imports Session
begin

text \<open>
  The account settings, \<open>web/src/features/settings/hooks/use-settings-account.ts\<close>: the change of
  the password, the change of the email in two steps, and the logout, on top of the session of
  \<open>lib/api.ts\<close>.  Requests are recorded when they are sent, and their answers are events.  The email of
  a user is a text or absent, and a user that is missing from an answer is read as \<open>null\<close>.
\<close>

datatype account_call =
    Get_me
  | Put_password string string
  | Post_email_code string string
  | Post_email_confirm string string
  | Call_logout

datatype account_reply = Account_failed string | Account_value "json option"

record AccountState =
  ac_user :: json
  newEmail :: string
  emailChangePassword :: string
  emailVerificationCode :: string
  emailCodeSent :: bool
  emailCodeLoading :: bool
  emailChangeLoading :: bool
  emailChangeError :: string
  currentPassword :: string
  newPassword :: string
  confirmPassword :: string
  passwordLoading :: bool
  passwordError :: string
  accountLoaded :: bool
  ac_session :: Session
  ac_path :: string
  ac_open :: "account_call list"
  ac_calls :: "account_call list"
  ac_success :: "string list"
  ac_errors :: "string list"

definition mount_account :: "Session \<Rightarrow> string \<Rightarrow> AccountState" where
  "mount_account ses path = \<lparr>ac_user = JNull, newEmail = [], emailChangePassword = [], emailVerificationCode = [],
     emailCodeSent = False, emailCodeLoading = False, emailChangeLoading = False, emailChangeError = [],
     currentPassword = [], newPassword = [], confirmPassword = [], passwordLoading = False, passwordError = [],
     accountLoaded = False, ac_session = ses, ac_path = path, ac_open = [], ac_calls = [], ac_success = [], ac_errors = []\<rparr>"

definition send_account :: "account_call \<Rightarrow> AccountState \<Rightarrow> AccountState" where
  "send_account c s = s\<lparr>ac_calls := ac_calls s @ [c], ac_open := ac_open s @ [c]\<rparr>"

definition account_active :: "AccountState \<Rightarrow> AccountState" where
  "account_active s = (if accountLoaded s then s else send_account Get_me (s\<lparr>accountLoaded := True\<rparr>))"

definition handleChangePassword :: "(string \<Rightarrow> string) \<Rightarrow> AccountState \<Rightarrow> AccountState" where
  "handleChangePassword t s =
     (let s = s\<lparr>passwordError := []\<rparr> in
      if newPassword s \<noteq> confirmPassword s then s\<lparr>passwordError := t ''settings.account.passwordMismatch''\<rparr>
      else if length (newPassword s) < 8 then s\<lparr>passwordError := t ''settings.account.passwordTooShort''\<rparr>
      else send_account (Put_password (currentPassword s) (newPassword s)) (s\<lparr>passwordLoading := True\<rparr>))"

text \<open>\<open>user?.email && newEmail.trim().toLowerCase() === user.email.toLowerCase()\<close>.\<close>

definition same_email :: "json \<Rightarrow> string \<Rightarrow> bool" where
  "same_email user email =
     (case json_get user ''email'' of
        Some (JStr e) \<Rightarrow> e \<noteq> [] \<and> toLowerCase (trim email) = toLowerCase e
      | _ \<Rightarrow> False)"

definition handleSendEmailChangeCode :: "(string \<Rightarrow> string) \<Rightarrow> AccountState \<Rightarrow> AccountState" where
  "handleSendEmailChangeCode t s =
     (let s = s\<lparr>emailChangeError := [], emailCodeSent := False\<rparr> in
      if trim (newEmail s) = [] then s\<lparr>emailChangeError := t ''settings.account.newEmailRequired''\<rparr>
      else if emailChangePassword s = [] then s\<lparr>emailChangeError := t ''settings.account.emailChangePasswordRequired''\<rparr>
      else if same_email (ac_user s) (newEmail s) then s\<lparr>emailChangeError := t ''settings.account.newEmailMustBeDifferent''\<rparr>
      else send_account (Post_email_code (trim (newEmail s)) (emailChangePassword s)) (s\<lparr>emailCodeLoading := True\<rparr>))"

definition handleConfirmEmailChange :: "(string \<Rightarrow> string) \<Rightarrow> AccountState \<Rightarrow> AccountState" where
  "handleConfirmEmailChange t s =
     (let s = s\<lparr>emailChangeError := []\<rparr> in
      if trim (newEmail s) = [] then s\<lparr>emailChangeError := t ''settings.account.newEmailRequired''\<rparr>
      else if trim (emailVerificationCode s) = []
      then s\<lparr>emailChangeError := t ''settings.account.emailVerificationCodeRequired''\<rparr>
      else send_account (Post_email_confirm (trim (newEmail s)) (trim (emailVerificationCode s)))
        (s\<lparr>emailChangeLoading := True\<rparr>))"

definition handleLogout :: "AccountState \<Rightarrow> AccountState" where
  "handleLogout s = send_account Call_logout s"

definition password_changed :: "(string \<Rightarrow> string) \<Rightarrow> AccountState \<Rightarrow> AccountState" where
  "password_changed t s = s\<lparr>ac_success := ac_success s @ [t ''settings.account.passwordChanged''],
     currentPassword := [], newPassword := [], confirmPassword := [], passwordLoading := False\<rparr>"

definition email_changed :: "(string \<Rightarrow> string) \<Rightarrow> json \<Rightarrow> AccountState \<Rightarrow> AccountState" where
  "email_changed t authData s =
     (let user = nullish (json_get authData ''user'') JNull in
      s\<lparr>ac_session := setAuth (resolveAccessToken authData) user (ac_session s), ac_user := user,
        newEmail := [], emailChangePassword := [], emailVerificationCode := [], emailCodeSent := False,
        ac_success := ac_success s @ [t ''settings.account.emailChangeSuccess''], emailChangeLoading := False\<rparr>)"

text \<open>\<open>logout\<close> clears the session in its \<open>finally\<close>, whatever the server answered.\<close>

definition logged_out :: "(string \<Rightarrow> string) \<Rightarrow> account_reply \<Rightarrow> AccountState \<Rightarrow> AccountState" where
  "logged_out t r s =
     (let s = s\<lparr>ac_session := clearToken (ac_session s)\<rparr>;
          s = (case r of
              Account_value v \<Rightarrow> s\<lparr>ac_success := ac_success s @ [t ''settings.account.logoutSuccess'']\<rparr>
            | Account_failed msg \<Rightarrow> s\<lparr>ac_errors := ac_errors s @ [msg]\<rparr>)
      in s\<lparr>ac_path := ''/login''\<rparr>)"

fun account_answered :: "(string \<Rightarrow> string) \<Rightarrow> account_call \<Rightarrow> account_reply \<Rightarrow> AccountState \<Rightarrow> AccountState" where
  "account_answered t Get_me (Account_value v) s = s\<lparr>ac_user := nullish v JNull\<rparr>"
| "account_answered t Get_me (Account_failed msg) s = s"
| "account_answered t (Put_password cur new) (Account_value v) s = password_changed t s"
| "account_answered t (Put_password cur new) (Account_failed msg) s = s\<lparr>passwordError := msg, passwordLoading := False\<rparr>"
| "account_answered t (Post_email_code email password) (Account_value v) s =
     s\<lparr>emailCodeSent := True, ac_success := ac_success s @ [t ''settings.account.emailCodeSent''], emailCodeLoading := False\<rparr>"
| "account_answered t (Post_email_code email password) (Account_failed msg) s =
     s\<lparr>emailChangeError := msg, emailCodeLoading := False\<rparr>"
| "account_answered t (Post_email_confirm email v_code) (Account_value (Some authData)) s = email_changed t authData s"
| "account_answered t (Post_email_confirm email v_code) (Account_value None) s =
     s\<lparr>emailChangeError := ''TypeError'', emailChangeLoading := False\<rparr>"
| "account_answered t (Post_email_confirm email v_code) (Account_failed msg) s =
     s\<lparr>emailChangeError := msg, emailChangeLoading := False\<rparr>"
| "account_answered t Call_logout r s = logged_out t r s"

datatype account_field = F_newEmail | F_emailPassword | F_code | F_current | F_new | F_confirm

fun set_field :: "account_field \<Rightarrow> string \<Rightarrow> AccountState \<Rightarrow> AccountState" where
  "set_field F_newEmail v s = s\<lparr>newEmail := v\<rparr>"
| "set_field F_emailPassword v s = s\<lparr>emailChangePassword := v\<rparr>"
| "set_field F_code v s = s\<lparr>emailVerificationCode := v\<rparr>"
| "set_field F_current v s = s\<lparr>currentPassword := v\<rparr>"
| "set_field F_new v s = s\<lparr>newPassword := v\<rparr>"
| "set_field F_confirm v s = s\<lparr>confirmPassword := v\<rparr>"

datatype account_event =
    Account_active
  | Type_field account_field string
  | Change_password
  | Send_code
  | Confirm_email
  | Log_out
  | Account_answer nat account_reply

fun account_step :: "(string \<Rightarrow> string) \<Rightarrow> AccountState \<Rightarrow> account_event \<Rightarrow> AccountState" where
  "account_step t s Account_active = account_active s"
| "account_step t s (Type_field f v) = set_field f v s"
| "account_step t s Change_password = handleChangePassword t s"
| "account_step t s Send_code = handleSendEmailChangeCode t s"
| "account_step t s Confirm_email = handleConfirmEmailChange t s"
| "account_step t s Log_out = handleLogout s"
| "account_step t s (Account_answer n r) =
     (if n < length (ac_open s)
      then account_answered t (ac_open s ! n) r (s\<lparr>ac_open := take n (ac_open s) @ drop (Suc n) (ac_open s)\<rparr>) else s)"

subsection \<open>What is sent\<close>

definition account_call_ok :: "account_call \<Rightarrow> bool" where
  "account_call_ok c = (case c of
     Put_password cur new \<Rightarrow> 8 \<le> length new
   | Post_email_code email password \<Rightarrow> email \<noteq> [] \<and> trim email = email \<and> password \<noteq> []
   | Post_email_confirm email v_code \<Rightarrow> email \<noteq> [] \<and> trim email = email \<and> v_code \<noteq> [] \<and> trim v_code = v_code
   | _ \<Rightarrow> True)"

definition account_ok :: "AccountState \<Rightarrow> bool" where
  "account_ok s \<longleftrightarrow> list_all account_call_ok (ac_calls s) \<and> store_ok (ac_session s)"

lemma send_account_calls [simp]:
  "ac_calls (send_account c s) = ac_calls s @ [c]" "ac_session (send_account c s) = ac_session s"
  by (simp_all add: send_account_def)

lemma account_answered_frame [simp]:
  "ac_calls (account_answered t c r s) = ac_calls s"
  by (cases "(t, c, r, s)" rule: account_answered.cases)
    (simp_all add: password_changed_def email_changed_def logged_out_def Let_def split: account_reply.split)

lemma account_answered_store: "store_ok (ac_session s) \<Longrightarrow> store_ok (ac_session (account_answered t c r s))"
  by (cases "(t, c, r, s)" rule: account_answered.cases)
    (simp_all add: password_changed_def email_changed_def logged_out_def Let_def store_ok_setAuth store_ok_clearToken
      split: account_reply.split)

lemma set_field_frame [simp]: "ac_calls (set_field f v s) = ac_calls s" "ac_session (set_field f v s) = ac_session s"
  by (cases f; simp)+

lemma account_step_ok: "account_ok s \<Longrightarrow> account_ok (account_step t s e)"
  by (cases e) (auto simp: account_ok_def account_active_def handleChangePassword_def handleSendEmailChangeCode_def
    handleConfirmEmailChange_def handleLogout_def account_call_ok_def account_answered_store Let_def)

interpretation account: event_machine "account_step t" account_ok for t
  by unfold_locales (rule account_step_ok)

text \<open>the account form never sends what it should have refused: in every run, a new password has at least
  eight characters, an email code is only asked for with a password and an address without surrounding white
  space, a confirmation carries an address and a code that are not blank; and no access token is left in
  \<open>localStorage\<close> once one was read or set.\<close>

theorem account_requests_valid:
  "let s = foldl (account_step t) (mount_account (session (page_load ls)) path) es in
     list_all (\<lambda>c. case c of
         Put_password cur new \<Rightarrow> 8 \<le> length new
       | Post_email_code email password \<Rightarrow> email \<noteq> [] \<and> trim email = email \<and> password \<noteq> []
       | Post_email_confirm email v_code \<Rightarrow> email \<noteq> [] \<and> trim email = email \<and> v_code \<noteq> [] \<and> trim v_code = v_code
       | _ \<Rightarrow> True) (ac_calls s)
     \<and> (if accessTokenLoaded (ac_session s) \<and> ls_accessible (storage (ac_session s))
        then ls_items (storage (ac_session s)) ACCESS_TOKEN_KEY = None else True)"
proof -
  have "account_ok (mount_account (session (page_load ls)) path)"
    by (simp add: account_ok_def mount_account_def store_ok_def page_load_def)
  from account.run_inv [OF this, of t es] show ?thesis
    by (simp add: account_ok_def account_call_ok_def [abs_def] store_ok_def Let_def)
qed

lemma password_sent_is_confirmed:
  "ac_calls (handleChangePassword t s) \<noteq> ac_calls s \<Longrightarrow>
   newPassword s = confirmPassword s \<and> 8 \<le> length (newPassword s)
    \<and> ac_calls (handleChangePassword t s) = ac_calls s @ [Put_password (currentPassword s) (confirmPassword s)]"
  by (auto simp: handleChangePassword_def Let_def split: if_splits)

text \<open>After a confirmed change of the email the session is that of the answer, and after a logout it is empty
  even when the server could not be reached.\<close>

lemma email_change_signs_in:
  "fst (getToken (ac_session (email_changed t authData s))) = resolveAccessToken authData
   \<and> fst (getUser (ac_session (email_changed t authData s))) = nullish (json_get authData ''user'') JNull"
  by (simp add: email_changed_def session_defs getUser_def Let_def)

lemma logout_always_clears:
  "fst (getToken (ac_session (account_answered t Call_logout r s))) = JNull
   \<and> ac_path (account_answered t Call_logout r s) = ''/login''"
  by (cases r) (simp_all add: logged_out_def session_defs)

end
