(* ===== verification/DetailCache.thy ===== *)
theory DetailCache
  imports Numbers
begin

text \<open>
  The cache of subscription details,
  \<open>web/src/features/subscriptions/subscription-detail-cache.ts\<close>.  The three maps of the
  module are fields of \<open>DetailState\<close>; the promises that \<open>loadSubscriptionDetail\<close> created
  are the list \<open>promises\<close>, so that \<open>detailRequests\<close> maps an id to a position in it.
  The clock is an argument; a request may be answered at any time and in any order.  The type
  \<open>'d\<close> is \<open>SubscriptionDetail\<close>, which the module only passes on.
\<close>

definition DETAIL_CACHE_TTL_MS :: int where
  "DETAIL_CACHE_TTL_MS = 120000"

datatype 'd promise_state = Awaiting | Then_done "string + 'd" | Finally_done "string + 'd"

record 'd Promise =
  pr_id :: int
  pr_version :: int
  pr_state :: "'d promise_state"

record 'd DetailState =
  detailCache :: "int \<rightharpoonup> (int \<times> 'd)"
  detailRequests :: "int \<rightharpoonup> nat"
  detailVersions :: "int \<rightharpoonup> int"
  promises :: "'d Promise list"

definition initial_details :: "'d DetailState" where
  "initial_details = \<lparr>detailCache = Map.empty, detailRequests = Map.empty, detailVersions = Map.empty, promises = []\<rparr>"

definition detailVersion :: "int \<Rightarrow> 'd DetailState \<Rightarrow> int" where
  "detailVersion i s = nullish (detailVersions s i) 0"

definition bumpDetailVersion :: "int \<Rightarrow> 'd DetailState \<Rightarrow> 'd DetailState" where
  "bumpDetailVersion i s = s\<lparr>detailVersions := (detailVersions s)(i \<mapsto> detailVersion i s + 1)\<rparr>"

definition getCachedSubscriptionDetail :: "int \<Rightarrow> int \<Rightarrow> 'd DetailState \<Rightarrow> 'd option \<times> 'd DetailState" where
  "getCachedSubscriptionDetail i now s =
     (case detailCache s i of
        None \<Rightarrow> (None, s)
      | Some (cachedAt, detail) \<Rightarrow>
          if now - cachedAt > DETAIL_CACHE_TTL_MS then (None, s\<lparr>detailCache := (detailCache s)(i := None)\<rparr>)
          else (Some detail, s))"

datatype 'd load_result = Resolved_now 'd | Pending_promise nat

definition loadSubscriptionDetail :: "int \<Rightarrow> int \<Rightarrow> 'd DetailState \<Rightarrow> 'd load_result \<times> 'd DetailState" where
  "loadSubscriptionDetail i now s =
     (let (cached, s) = getCachedSubscriptionDetail i now s
      in case cached of
           Some d \<Rightarrow> (Resolved_now d, s)
         | None \<Rightarrow>
             (case detailRequests s i of
                Some n \<Rightarrow> (Pending_promise n, s)
              | None \<Rightarrow>
                  (Pending_promise (length (promises s)),
                   s\<lparr>promises := promises s @ [\<lparr>pr_id = i, pr_version = detailVersion i s, pr_state = Awaiting\<rparr>],
                     detailRequests := (detailRequests s)(i \<mapsto> length (promises s))\<rparr>)))"

text \<open>The \<open>then\<close> callback, at the time \<open>now\<close>; a rejected request skips it.\<close>

definition on_answer :: "nat \<Rightarrow> string + 'd \<Rightarrow> int \<Rightarrow> 'd DetailState \<Rightarrow> 'd DetailState" where
  "on_answer n out now s =
     (if n < length (promises s) \<and> pr_state (promises s ! n) = Awaiting
      then (let p = promises s ! n;
                s = s\<lparr>promises := (promises s)[n := p\<lparr>pr_state := Then_done out\<rparr>]\<rparr>
            in case out of
                 Inl e \<Rightarrow> s
               | Inr d \<Rightarrow>
                   if detailVersion (pr_id p) s = pr_version p
                   then s\<lparr>detailCache := (detailCache s)(pr_id p \<mapsto> (now, d))\<rparr> else s)
      else s)"

text \<open>The \<open>finally\<close> callback.\<close>

definition on_complete :: "nat \<Rightarrow> 'd DetailState \<Rightarrow> 'd DetailState" where
  "on_complete n s =
     (if n < length (promises s) then
        (let p = promises s ! n in
         case pr_state p of
           Then_done out \<Rightarrow>
             (let s = s\<lparr>promises := (promises s)[n := p\<lparr>pr_state := Finally_done out\<rparr>]\<rparr>
              in if detailVersion (pr_id p) s = pr_version p
                 then s\<lparr>detailRequests := (detailRequests s)(pr_id p := None)\<rparr> else s)
         | _ \<Rightarrow> s)
      else s)"

definition invalidateSubscriptionDetail :: "int \<Rightarrow> 'd DetailState \<Rightarrow> 'd DetailState" where
  "invalidateSubscriptionDetail i s =
     (let s = bumpDetailVersion i s
      in s\<lparr>detailCache := (detailCache s)(i := None), detailRequests := (detailRequests s)(i := None)\<rparr>)"

text \<open>\<open>preloadSubscriptionDetail\<close> loads and drops the result.\<close>

definition preloadSubscriptionDetail :: "int \<Rightarrow> int \<Rightarrow> 'd DetailState \<Rightarrow> 'd DetailState" where
  "preloadSubscriptionDetail i now s = snd (loadSubscriptionDetail i now s)"

datatype 'd detail_event =
    Get int int
  | Load int int
  | Answer nat "string + 'd" int
  | Complete nat
  | Invalidate int

fun detail_step :: "'d DetailState \<Rightarrow> 'd detail_event \<Rightarrow> 'd DetailState" where
  "detail_step s (Get i now) = snd (getCachedSubscriptionDetail i now s)"
| "detail_step s (Load i now) = preloadSubscriptionDetail i now s"
| "detail_step s (Answer n out now) = on_answer n out now s"
| "detail_step s (Complete n) = on_complete n s"
| "detail_step s (Invalidate i) = invalidateSubscriptionDetail i s"

subsection \<open>The store of details\<close>

definition put_detail :: "'d DetailState \<Rightarrow> int \<Rightarrow> 'd \<Rightarrow> int \<Rightarrow> 'd DetailState" where
  "put_detail s i d now = s\<lparr>detailCache := (detailCache s)(i \<mapsto> (now, d))\<rparr>"

definition find_detail :: "'d DetailState \<Rightarrow> int \<Rightarrow> int \<Rightarrow> 'd option" where
  "find_detail s i now = fst (getCachedSubscriptionDetail i now s)"

interpretation detail_store: aging_store find_detail put_detail "\<lambda>age. age \<le> DETAIL_CACHE_TTL_MS"
  by unfold_locales (simp_all add: find_detail_def put_detail_def getCachedSubscriptionDetail_def split: option.split)

subsection \<open>Invariant\<close>

text \<open>
  A promise never has a later version than its id, and \<open>detailRequests\<close> only names a promise
  of that id and of the current version whose \<open>finally\<close> has not run.
\<close>

definition details_ok :: "'d DetailState \<Rightarrow> bool" where
  "details_ok s \<longleftrightarrow> (\<forall>p \<in> set (promises s). pr_version p \<le> detailVersion (pr_id p) s)
     \<and> (\<forall>i n. detailRequests s i = Some n \<longrightarrow> n < length (promises s) \<and> pr_id (promises s ! n) = i
          \<and> pr_version (promises s ! n) = detailVersion i s
          \<and> (\<forall>out. pr_state (promises s ! n) \<noteq> Finally_done out))"

lemma details_ok_cache [simp]: "details_ok (s\<lparr>detailCache := c\<rparr>) = details_ok s"
  by (simp add: details_ok_def detailVersion_def)

lemma snd_getCached: "\<exists>c. snd (getCachedSubscriptionDetail i now s) = s\<lparr>detailCache := c\<rparr>"
  by (auto simp: getCachedSubscriptionDetail_def split: option.split intro: exI [of _ "detailCache s"])

lemma details_ok_get: "details_ok s \<Longrightarrow> details_ok (snd (getCachedSubscriptionDetail i now s))"
  using snd_getCached [of i now s] by auto

lemma details_ok_load:
  assumes "details_ok s"
  shows "details_ok (snd (loadSubscriptionDetail i now s))"
proof -
  define s1 where "s1 = snd (getCachedSubscriptionDetail i now s)"
  have ok: "details_ok s1" unfolding s1_def using assms by (rule details_ok_get)
  show ?thesis
  proof (cases "fst (getCachedSubscriptionDetail i now s) = None \<and> detailRequests s1 i = None")
    case True
    let ?p = "\<lparr>pr_id = i, pr_version = detailVersion i s1, pr_state = Awaiting\<rparr> :: 'a Promise"
    have "snd (loadSubscriptionDetail i now s) =
        s1\<lparr>promises := promises s1 @ [?p], detailRequests := (detailRequests s1)(i \<mapsto> length (promises s1))\<rparr>"
      using True by (simp add: loadSubscriptionDetail_def case_prod_beta s1_def)
    moreover have "details_ok (s1\<lparr>promises := promises s1 @ [?p],
        detailRequests := (detailRequests s1)(i \<mapsto> length (promises s1))\<rparr>)"
      using ok unfolding details_ok_def detailVersion_def by (auto simp: nth_append less_Suc_eq)
    ultimately show ?thesis by simp
  next
    case False
    then have "snd (loadSubscriptionDetail i now s) = s1"
      by (auto simp: loadSubscriptionDetail_def case_prod_beta s1_def split: option.split)
    with ok show ?thesis by simp
  qed
qed

lemma details_ok_then:
  assumes "details_ok s" and "n < length (promises s)"
  shows "details_ok (s\<lparr>promises := (promises s)[n := (promises s ! n)\<lparr>pr_state := Then_done out\<rparr>]\<rparr>)"
proof -
  have "promises s ! n \<in> set (promises s)" using assms(2) by simp
  then show ?thesis
    using assms unfolding details_ok_def detailVersion_def
    by (auto simp: nth_list_update dest!: set_update_subset_insert [THEN subsetD])
qed

lemma details_ok_answer: "details_ok s \<Longrightarrow> details_ok (on_answer n out now s)"
  using details_ok_then [of s n out] by (cases out) (simp_all add: on_answer_def Let_def)

lemma details_ok_complete:
  assumes "details_ok s"
  shows "details_ok (on_complete n s)"
proof (cases "n < length (promises s) \<and> (\<exists>out. pr_state (promises s ! n) = Then_done out)")
  case True
  then obtain out where n: "n < length (promises s)" and out: "pr_state (promises s ! n) = Then_done out" by blast
  have "promises s ! n \<in> set (promises s)" using n by simp
  then show ?thesis
    using assms n out unfolding details_ok_def on_complete_def detailVersion_def Let_def
    by (auto simp: nth_list_update dest!: set_update_subset_insert [THEN subsetD])
next
  case False
  then have "on_complete n s = s" by (auto simp: on_complete_def Let_def split: promise_state.split)
  with assms show ?thesis by simp
qed

lemma details_ok_invalidate:
  assumes "details_ok s"
  shows "details_ok (invalidateSubscriptionDetail i s)"
proof -
  have v: "detailVersion j (invalidateSubscriptionDetail i s) = (if j = i then detailVersion i s + 1 else detailVersion j s)" for j
    by (simp add: invalidateSubscriptionDetail_def bumpDetailVersion_def detailVersion_def Let_def)
  have r: "detailRequests (invalidateSubscriptionDetail i s) = (detailRequests s)(i := None)"
    "promises (invalidateSubscriptionDetail i s) = promises s"
    by (simp_all add: invalidateSubscriptionDetail_def bumpDetailVersion_def Let_def)
  have le: "pr_version p \<le> detailVersion (pr_id p) s" if "p \<in> set (promises s)" for p
    using assms that by (simp add: details_ok_def)
  show ?thesis
    unfolding details_ok_def v r
  proof (rule conjI)
    show "\<forall>p \<in> set (promises s). pr_version p \<le> (if pr_id p = i then detailVersion i s + 1 else detailVersion (pr_id p) s)"
      using le by fastforce
  qed (use assms in \<open>simp add: details_ok_def\<close>)
qed

interpretation details: event_machine detail_step details_ok
proof
  fix s :: "'a DetailState" and e
  assume "details_ok s"
  then show "details_ok (detail_step s e)"
    by (cases e) (simp_all add: preloadSubscriptionDetail_def details_ok_get details_ok_load details_ok_answer
        details_ok_complete details_ok_invalidate)
qed

lemma details_ok_run: "details_ok (foldl detail_step initial_details es)"
  by (rule details.run_inv) (simp add: details_ok_def initial_details_def)

subsection \<open>Invalidation\<close>

text \<open>
  After an invalidation, the promises of the id are all outdated, and they stay so until the id is
  loaded again.
\<close>

definition outdated :: "int \<Rightarrow> 'd DetailState \<Rightarrow> bool" where
  "outdated i s \<longleftrightarrow> detailCache s i = None \<and> (\<forall>p \<in> set (promises s). pr_id p = i \<longrightarrow> pr_version p < detailVersion i s)"

lemma outdated_invalidate: "details_ok s \<Longrightarrow> outdated i (invalidateSubscriptionDetail i s)"
  by (fastforce simp: outdated_def details_ok_def invalidateSubscriptionDetail_def bumpDetailVersion_def
      detailVersion_def Let_def)

lemma outdated_get: "outdated i s \<Longrightarrow> outdated i (snd (getCachedSubscriptionDetail j now s))"
  by (auto simp: outdated_def getCachedSubscriptionDetail_def detailVersion_def split: option.split)

lemma outdated_load:
  assumes "outdated i s" and "j \<noteq> i"
  shows "outdated i (snd (loadSubscriptionDetail j now s))"
  using outdated_get [OF assms(1), of j now] assms(2)
  by (auto simp: loadSubscriptionDetail_def case_prod_beta outdated_def detailVersion_def split: option.split)

lemma outdated_answer:
  assumes "outdated i s"
  shows "outdated i (on_answer n out now s)"
proof (cases "n < length (promises s)")
  case True
  then have "promises s ! n \<in> set (promises s)" by simp
  with assms show ?thesis
    by (cases out) (auto simp: outdated_def on_answer_def Let_def detailVersion_def
        dest!: set_update_subset_insert [THEN subsetD])
next
  case False
  with assms show ?thesis by (simp add: on_answer_def)
qed

lemma outdated_complete:
  assumes "outdated i s"
  shows "outdated i (on_complete n s)"
proof (cases "n < length (promises s)")
  case True
  then have "promises s ! n \<in> set (promises s)" by simp
  with assms show ?thesis
    by (cases "pr_state (promises s ! n)") (auto simp: outdated_def on_complete_def Let_def detailVersion_def
        dest!: set_update_subset_insert [THEN subsetD])
next
  case False
  with assms show ?thesis by (simp add: on_complete_def)
qed

lemma outdated_invalidate_any: "outdated i s \<Longrightarrow> outdated i (invalidateSubscriptionDetail j s)"
  by (fastforce simp: outdated_def invalidateSubscriptionDetail_def bumpDetailVersion_def detailVersion_def Let_def)

lemma outdated_run:
  "outdated i s \<Longrightarrow> \<forall>now. Load i now \<notin> set es \<Longrightarrow> outdated i (foldl detail_step s es)"
proof (induction es arbitrary: s)
  case (Cons e es)
  have "outdated i (detail_step s e)"
    using Cons.prems
    by (cases e) (auto simp: preloadSubscriptionDetail_def outdated_get outdated_load outdated_answer
        outdated_complete outdated_invalidate_any)
  then show ?case using Cons.IH Cons.prems(2) by simp
qed simp

text \<open>C22: an answer to a request that was sent before an invalidation is never served from the
  cache: after \<open>invalidateSubscriptionDetail\<close>, whatever pending requests complete in whatever
  order, the cache has nothing for the id until it is loaded again.\<close>

theorem stale_answer_is_not_cached:
  assumes "\<And>now. Load i now \<notin> set later"
  shows "find_detail (foldl detail_step initial_details (es @ [Invalidate i] @ later)) i now = None"
proof -
  let ?s = "foldl detail_step initial_details es"
  have "outdated i (foldl detail_step (invalidateSubscriptionDetail i ?s) later)"
    by (rule outdated_run [OF outdated_invalidate [OF details_ok_run]]) (use assms in blast)
  then show ?thesis by (simp add: outdated_def find_detail_def getCachedSubscriptionDetail_def)
qed

theorem stale_answer_is_not_cached_witness:
  "find_detail (foldl detail_step initial_details ([Load 7 0] @ [Invalidate 7] @ [Answer 0 (Inr ''old'') 50, Complete 0])) 7 60 = None"
  by (rule stale_answer_is_not_cached) simp

subsection \<open>Sharing and retrying\<close>

lemma answer_cached:
  assumes "n < length (promises s)" and "pr_state (promises s ! n) = Awaiting"
    and "pr_version (promises s ! n) = detailVersion (pr_id (promises s ! n)) s"
  shows "find_detail (on_answer n (Inr d) now s) (pr_id (promises s ! n)) now' =
    (if now' - now \<le> DETAIL_CACHE_TTL_MS then Some d else None)"
  using assms by (simp add: on_answer_def Let_def detailVersion_def find_detail_def getCachedSubscriptionDetail_def)

lemma load_unanswered:
  assumes "detailRequests s i = Some n" and "find_detail s i now = None"
  shows "fst (loadSubscriptionDetail i now s) = Pending_promise n
    \<and> promises (snd (loadSubscriptionDetail i now s)) = promises s
    \<and> detailRequests (snd (loadSubscriptionDetail i now s)) i = Some n"
proof -
  have r: "detailRequests (snd (getCachedSubscriptionDetail i now s)) = detailRequests s"
    "promises (snd (getCachedSubscriptionDetail i now s)) = promises s"
    using snd_getCached [of i now s] by auto
  show ?thesis using assms by (simp add: loadSubscriptionDetail_def case_prod_beta r find_detail_def)
qed

text \<open>a detail is requested once: in every reachable state, \<open>loadSubscriptionDetail\<close> either
  returns a detail that is at most two minutes old, or a promise of the current version of the id
  that has not completed; it creates one only when none is pending, and a second call right after it
  returns the same promise.\<close>

theorem loads_share_one_request:
  assumes "s = foldl detail_step initial_details es" and "loadSubscriptionDetail i now s = (Pending_promise n, s')"
  shows "n < length (promises s') \<and> pr_id (promises s' ! n) = i \<and> pr_version (promises s' ! n) = detailVersion i s'
    \<and> (\<forall>out. pr_state (promises s' ! n) \<noteq> Finally_done out)
    \<and> (promises s' \<noteq> promises s \<longrightarrow> detailRequests s i = None)
    \<and> fst (loadSubscriptionDetail i later s') = Pending_promise n
    \<and> promises (snd (loadSubscriptionDetail i later s')) = promises s'"
proof -
  define s1 where "s1 = snd (getCachedSubscriptionDetail i now s)"
  obtain c where c: "s1 = s\<lparr>detailCache := c\<rparr>" using snd_getCached [of i now s] unfolding s1_def by blast
  have none: "fst (getCachedSubscriptionDetail i now s) = None"
    using assms(2) by (auto simp: loadSubscriptionDetail_def case_prod_beta split: option.splits)
  then have cc: "detailCache s1 i = None"
    by (auto simp: s1_def getCachedSubscriptionDetail_def split: option.splits if_splits)
  have s': "detailRequests s' i = Some n" "detailCache s' i = None"
    "promises s' \<noteq> promises s \<longrightarrow> detailRequests s i = None"
    using assms(2) none cc c by (auto simp: loadSubscriptionDetail_def case_prod_beta s1_def [symmetric] split: option.splits)
  have "details_ok s'"
    using details_ok_load [OF details_ok_run, of i now es] assms by simp
  then have "n < length (promises s') \<and> pr_id (promises s' ! n) = i \<and> pr_version (promises s' ! n) = detailVersion i s'
    \<and> (\<forall>out. pr_state (promises s' ! n) \<noteq> Finally_done out)"
    using s'(1) unfolding details_ok_def by blast
  moreover have "find_detail s' i later = None"
    using s'(2) by (simp add: find_detail_def getCachedSubscriptionDetail_def)
  ultimately show ?thesis using load_unanswered [OF s'(1)] s'(3) by blast
qed

theorem loads_share_one_request_witness:
  "fst (loadSubscriptionDetail 7 5 (snd (loadSubscriptionDetail 7 0 (initial_details :: string DetailState)))) = Pending_promise 0"
proof -
  have "loadSubscriptionDetail 7 0 (initial_details :: string DetailState) =
      (Pending_promise 0, snd (loadSubscriptionDetail 7 0 (initial_details :: string DetailState)))"
    by (simp add: loadSubscriptionDetail_def initial_details_def getCachedSubscriptionDetail_def)
  from loads_share_one_request [OF _ this, of "[]" 5] show ?thesis by simp
qed

lemma failed_load_is_retried:
  assumes "details_ok s" and "detailRequests s i = Some n" and "pr_state (promises s ! n) = Awaiting"
  shows "detailRequests (on_complete n (on_answer n (Inl e) now s)) i = None"
  using assms by (auto simp: details_ok_def on_complete_def on_answer_def Let_def detailVersion_def)

end
