(* ===== verification/Calendar.thy ===== *)
theory Calendar
  imports Numbers
begin

text \<open>
  Date-only values, \<open>web/src/lib/utils.ts\<close>.  \<open>Date.UTC\<close> and the getters of
  \<open>Date\<close> are ECMAScript's day arithmetic on the proleptic Gregorian calendar: day numbers
  count from 1970-01-01, months from 0.  A local \<open>Date\<close> at midnight is represented by its
  local calendar day, so no claim depends on the time zone.  \<open>new Date(text)\<close> on a text
  that is not date-only is implementation-defined; it is the parameter \<open>date_parse\<close>, which
  gives the UTC day of the parsed instant.
\<close>

subsection \<open>Day numbers\<close>

definition day_from_year :: "int \<Rightarrow> int" where
  "day_from_year y = 365 * (y - 1970) + (y - 1969) div 4 - (y - 1901) div 100 + (y - 1601) div 400"

definition leap_year :: "int \<Rightarrow> bool" where
  "leap_year y \<longleftrightarrow> y mod 4 = 0 \<and> (y mod 100 \<noteq> 0 \<or> y mod 400 = 0)"

text \<open>First day (from 0) of month \<open>m\<close> (from 0) within its year.\<close>

definition month_start :: "bool \<Rightarrow> int \<Rightarrow> int" where
  "month_start leap m = (if m \<le> 0 then 0 else if m = 1 then 31 else
     (if leap then 1 else 0) +
     (if m = 2 then 59 else if m = 3 then 90 else if m = 4 then 120 else if m = 5 then 151
      else if m = 6 then 181 else if m = 7 then 212 else if m = 8 then 243 else if m = 9 then 273
      else if m = 10 then 304 else if m = 11 then 334 else 365))"

definition days_in_month :: "int \<Rightarrow> int \<Rightarrow> int" where
  "days_in_month y m = month_start (leap_year y) (m + 1) - month_start (leap_year y) m"

text \<open>ECMAScript's MakeDay, for integer arguments; months outside 0..11 carry into the year.\<close>

definition make_day :: "int \<Rightarrow> int \<Rightarrow> int \<Rightarrow> int" where
  "make_day y m d = (let ym = y + m div 12
     in day_from_year ym + month_start (leap_year ym) (m mod 12) + d - 1)"

definition year_from_day :: "int \<Rightarrow> int" where
  "year_from_day t = (let y = 1970 + (400 * t) div 146097
     in if t < day_from_year y then y - 1 else if day_from_year (y + 1) \<le> t then y + 1 else y)"

definition month_of :: "bool \<Rightarrow> int \<Rightarrow> int" where
  "month_of leap n = (if n < month_start leap 1 then 0 else if n < month_start leap 2 then 1
     else if n < month_start leap 3 then 2 else if n < month_start leap 4 then 3
     else if n < month_start leap 5 then 4 else if n < month_start leap 6 then 5
     else if n < month_start leap 7 then 6 else if n < month_start leap 8 then 7
     else if n < month_start leap 9 then 8 else if n < month_start leap 10 then 9
     else if n < month_start leap 11 then 10 else 11)"

definition month_from_day :: "int \<Rightarrow> int" where
  "month_from_day t = (let y = year_from_day t in month_of (leap_year y) (t - day_from_year y))"

definition date_from_day :: "int \<Rightarrow> int" where
  "date_from_day t = (let y = year_from_day t; n = t - day_from_year y
     in n - month_start (leap_year y) (month_of (leap_year y) n) + 1)"

text \<open>\<open>Date.UTC\<close> and \<open>new Date(y, m, d)\<close> read the years 0 to 99 as 1900 to 1999.\<close>

definition legacy_year :: "int \<Rightarrow> int" where
  "legacy_year y = (if 0 \<le> y \<and> y \<le> 99 then 1900 + y else y)"

definition date_utc :: "int \<Rightarrow> int \<Rightarrow> int \<Rightarrow> int" where
  "date_utc y m d = make_day (legacy_year y) m d"

definition valid_date :: "int \<Rightarrow> int \<Rightarrow> int \<Rightarrow> bool" where
  "valid_date y m d \<longleftrightarrow> 1 \<le> m \<and> m \<le> 12 \<and> 1 \<le> d \<and> d \<le> days_in_month y (m - 1)"

lemma div_succ:
  fixes a n :: int
  assumes "0 < n"
  shows "(a + 1) div n = a div n + (if n dvd a + 1 then 1 else 0)"
proof -
  let ?q = "a div n" and ?r = "a mod n"
  have e: "a + 1 = n * ?q + (?r + 1)" by simp
  have r: "0 \<le> ?r" "?r < n" using assms by simp_all
  show ?thesis
  proof (cases "?r + 1 = n")
    case True
    with e have e': "a + 1 = n * (?q + 1)" by (metis distrib_left mult.right_neutral)
    then have "n dvd a + 1" by (rule dvdI)
    moreover have "(a + 1) div n = ?q + 1" using assms unfolding e' by simp
    ultimately show ?thesis by simp
  next
    case False
    with r have r': "0 \<le> ?r + 1" "?r + 1 < n" by auto
    then have "(a + 1) div n = ?q" using e by (rule int_div_pos_eq [rotated]) 
    moreover have "(a + 1) mod n = ?r + 1" using e r' by (rule int_mod_pos_eq)
    then have "\<not> n dvd a + 1" using r by (simp add: dvd_eq_mod_eq_0)
    ultimately show ?thesis by simp
  qed
qed

lemma leap_sum:
  fixes A :: int
  assumes "A = 365 + (if P then 1 else 0) - (if Q then 1 else 0) + (if R then 1 else 0)"
    and "R \<Longrightarrow> Q" and "Q \<Longrightarrow> P" and "L \<longleftrightarrow> P \<and> (\<not> Q \<or> R)"
  shows "A = (if L then 366 else 365)"
  using assms by (cases P; cases Q; cases R; cases L) simp_all

lemma year_length: "day_from_year (y + 1) - day_from_year y = (if leap_year y then 366 else 365)"
proof -
  have dv: "4 dvd y - 1968 \<longleftrightarrow> 4 dvd y" "100 dvd y - 1900 \<longleftrightarrow> 100 dvd y" "400 dvd y - 1600 \<longleftrightarrow> 400 dvd y"
    by (rule dvd_diff_left_iff, simp)+
  have e: "y + 1 - 1970 = y - 1970 + 1" "y + 1 - 1969 = y - 1969 + 1" "y + 1 - 1901 = y - 1901 + 1"
    "y + 1 - 1601 = y - 1601 + 1" "y - 1969 + 1 = y - 1968" "y - 1901 + 1 = y - 1900" "y - 1601 + 1 = y - 1600"
    by simp_all
  define a b c where "a = (y - 1969) div 4" and "b = (y - 1901) div 100" and "c = (y - 1601) div 400"
  have "(y + 1 - 1969) div 4 = a + (if 4 dvd y then 1 else 0)"
    unfolding e(2) a_def dv(1) [symmetric] e(5) [symmetric] by (rule div_succ) simp
  moreover have "(y + 1 - 1901) div 100 = b + (if 100 dvd y then 1 else 0)"
    unfolding e(3) b_def dv(2) [symmetric] e(6) [symmetric] by (rule div_succ) simp
  moreover have "(y + 1 - 1601) div 400 = c + (if 400 dvd y then 1 else 0)"
    unfolding e(4) c_def dv(3) [symmetric] e(7) [symmetric] by (rule div_succ) simp
  ultimately have "day_from_year (y + 1) - day_from_year y =
    365 + (if 4 dvd y then 1 else 0) - (if 100 dvd y then 1 else 0) + (if 400 dvd y then 1 else 0)"
    unfolding day_from_year_def a_def [symmetric] b_def [symmetric] c_def [symmetric] by simp
  moreover have "400 dvd y \<Longrightarrow> 100 dvd y" "100 dvd y \<Longrightarrow> 4 dvd y"
    by (erule dvd_trans [rotated], simp)+
  moreover have "leap_year y \<longleftrightarrow> 4 dvd y \<and> (\<not> 100 dvd y \<or> 400 dvd y)"
    by (simp add: leap_year_def dvd_eq_mod_eq_0)
  ultimately show ?thesis by (rule leap_sum)
qed

lemma div_bounds:
  fixes a n :: int
  assumes "0 < n"
  shows "n * (a div n) \<le> a" and "a \<le> n * (a div n) + (n - 1)"
  using pos_mod_sign [OF assms, of a] pos_mod_bound [OF assms, of a] mult_div_mod_eq [of n a] by linarith+

lemma day_from_year_bounds:
  "400 * day_from_year y \<le> 146097 * (y - 1970) + 589" "146097 * (y - 1970) - 506 \<le> 400 * day_from_year y"
proof -
  define a b c where "a = (y - 1969) div 4" and "b = (y - 1901) div 100" and "c = (y - 1601) div 400"
  have "4 * a \<le> y - 1969" "y - 1969 \<le> 4 * a + 3" "100 * b \<le> y - 1901" "y - 1901 \<le> 100 * b + 99"
    "400 * c \<le> y - 1601" "y - 1601 \<le> 400 * c + 399"
    using div_bounds [of 4 "y - 1969"] div_bounds [of 100 "y - 1901"] div_bounds [of 400 "y - 1601"]
    by (simp_all add: a_def b_def c_def)
  then show "400 * day_from_year y \<le> 146097 * (y - 1970) + 589" "146097 * (y - 1970) - 506 \<le> 400 * day_from_year y"
    unfolding day_from_year_def a_def [symmetric] b_def [symmetric] c_def [symmetric] int_distrib
    by simp_all
qed

lemma year_from_day_bounds:
  "day_from_year (year_from_day t) \<le> t \<and> t < day_from_year (year_from_day t + 1)"
proof -
  define y where "y = 1970 + (400 * t) div 146097"
  have est: "146097 * (y - 1970) \<le> 400 * t" "400 * t < 146097 * (y - 1970) + 146097"
    using div_mult_mod_eq [of "400 * t" 146097] pos_mod_sign [of 146097 "400 * t"]
      pos_mod_bound [of 146097 "400 * t"] unfolding y_def by simp_all
  have lo: "day_from_year (y - 1) \<le> t"
    using est day_from_year_bounds(1) [of "y - 1"] unfolding int_distrib by simp
  have hi: "t < day_from_year (y + 2)"
    using est day_from_year_bounds(2) [of "y + 2"] unfolding int_distrib by simp
  show ?thesis
    using lo hi unfolding year_from_day_def y_def [symmetric] Let_def
    by (auto simp: add.commute)
qed

lemma day_from_year_mono: "y \<le> z \<Longrightarrow> day_from_year y \<le> day_from_year z"
proof -
  have "day_from_year y \<le> day_from_year (y + int n)" for n
  proof (induction n)
    case (Suc n)
    have "day_from_year (y + int n) \<le> day_from_year (y + int n + 1)"
      using year_length [of "y + int n"] by (auto split: if_splits)
    with Suc show ?case by (simp add: algebra_simps)
  qed simp
  then have "day_from_year y \<le> day_from_year (y + int (nat (z - y)))" .
  then show "y \<le> z \<Longrightarrow> day_from_year y \<le> day_from_year z" by simp
qed

lemma year_from_day_unique:
  "day_from_year y \<le> t \<Longrightarrow> t < day_from_year (y + 1) \<Longrightarrow> year_from_day t = y"
  using year_from_day_bounds [of t] day_from_year_mono [of "y + 1" "year_from_day t"]
    day_from_year_mono [of "year_from_day t + 1" y] by linarith

lemma month_start_year_end: "month_start leap 12 = (if leap then 366 else 365)"
  by (simp add: month_start_def)

lemma twelve: "0 \<le> m \<Longrightarrow> m \<le> 11 \<Longrightarrow>
  m = 0 \<or> m = 1 \<or> m = 2 \<or> m = 3 \<or> m = 4 \<or> m = 5 \<or> m = 6 \<or> m = 7 \<or> m = 8 \<or> m = 9 \<or> m = 10 \<or> m = (11::int)"
  by arith

lemma month_start_range: "0 \<le> m \<Longrightarrow> m \<le> 11 \<Longrightarrow> 0 \<le> month_start leap m \<and> month_start leap m \<le> 335"
  by (drule (1) twelve) (elim disjE; simp add: month_start_def)

lemma month_of_range: "0 \<le> month_of leap n \<and> month_of leap n \<le> 11"
  by (simp add: month_of_def)

lemma month_of_bounds:
  "0 \<le> n \<Longrightarrow> n < month_start leap 12 \<Longrightarrow>
   month_start leap (month_of leap n) \<le> n \<and> n < month_start leap (month_of leap n + 1)"
  by (cases leap) (simp_all add: month_of_def month_start_def)

lemma month_of_unique:
  "0 \<le> m \<Longrightarrow> m \<le> 11 \<Longrightarrow> month_start leap m \<le> n \<Longrightarrow> n < month_start leap (m + 1) \<Longrightarrow> month_of leap n = m"
  by (drule (1) twelve) (elim disjE; cases leap; simp add: month_of_def month_start_def)

text \<open>Every day number is a valid calendar day.\<close>

lemma decompose_valid: "valid_date (year_from_day t) (month_from_day t + 1) (date_from_day t)"
proof -
  let ?y = "year_from_day t" and ?n = "t - day_from_year (year_from_day t)"
  have n: "0 \<le> ?n" "?n < month_start (leap_year ?y) 12"
    using year_from_day_bounds [of t] year_length [of ?y] by (auto simp: month_start_year_end split: if_splits)
  show ?thesis
    using month_of_bounds [OF n] month_of_range [of "leap_year ?y" ?n]
    by (simp add: valid_date_def month_from_day_def date_from_day_def days_in_month_def Let_def)
qed

lemma valid_date_day:
  assumes "valid_date y m d"
  shows "make_day y (m - 1) d = day_from_year y + month_start (leap_year y) (m - 1) + (d - 1)"
    and "0 \<le> month_start (leap_year y) (m - 1) + (d - 1)"
    and "month_start (leap_year y) (m - 1) + (d - 1) < month_start (leap_year y) m"
    and "month_start (leap_year y) m \<le> (if leap_year y then 366 else 365)"
proof -
  from assms have m: "0 \<le> m - 1" "m - 1 \<le> 11" and d: "1 \<le> d" "d \<le> days_in_month y (m - 1)"
    by (auto simp: valid_date_def)
  from m have md: "(m - 1) div 12 = 0" "(m - 1) mod 12 = m - 1" by simp_all
  then show "make_day y (m - 1) d = day_from_year y + month_start (leap_year y) (m - 1) + (d - 1)"
    by (simp add: make_day_def)
  show "0 \<le> month_start (leap_year y) (m - 1) + (d - 1)"
    using d by (simp add: month_start_def)
  show "month_start (leap_year y) (m - 1) + (d - 1) < month_start (leap_year y) m"
    using d by (simp add: days_in_month_def)
  show "month_start (leap_year y) m \<le> (if leap_year y then 366 else 365)"
    using twelve [OF m] by (elim disjE) (simp_all add: month_start_def)
qed

lemma decompose_make_day:
  assumes v: "valid_date y m d"
  shows "year_from_day (make_day y (m - 1) d) = y"
    and "month_from_day (make_day y (m - 1) d) = m - 1"
    and "date_from_day (make_day y (m - 1) d) = d"
proof -
  let ?t = "make_day y (m - 1) d"
  show y: "year_from_day ?t = y"
    by (rule year_from_day_unique) (use valid_date_day [OF v] year_length [of y] in \<open>auto split: if_splits\<close>)
  have mo: "month_of (leap_year y) (?t - day_from_year y) = m - 1"
    using v valid_date_day [OF v] by (intro month_of_unique) (auto simp: valid_date_def)
  then show "month_from_day ?t = m - 1" by (simp add: month_from_day_def y)
  show "date_from_day ?t = d"
    unfolding date_from_day_def Let_def y mo using valid_date_day(1) [OF v] by simp
qed

lemma make_day_decompose: "make_day (year_from_day t) (month_from_day t) (date_from_day t) = t"
proof -
  have "month_from_day t div 12 = 0" "month_from_day t mod 12 = month_from_day t"
    using month_of_range [of "leap_year (year_from_day t)" "t - day_from_year (year_from_day t)"]
    by (simp_all add: month_from_day_def Let_def)
  then show ?thesis by (simp add: make_day_def date_from_day_def month_from_day_def Let_def)
qed

subsection \<open>toDateParts\<close>

record DateParts =
  dp_year :: int
  dp_month :: int
  dp_day :: int

text \<open>\<open>DATE_ONLY_PATTERN\<close>: four digits, a hyphen, two digits, a hyphen, two digits, then
  anything.\<close>

definition match_date_only :: "string \<Rightarrow> (string \<times> string \<times> string) option" where
  "match_date_only s =
     (if 10 \<le> length s \<and> list_all is_digit (slice 0 4 s) \<and> s ! 4 = CHR ''-''
         \<and> list_all is_digit (slice 5 7 s) \<and> s ! 7 = CHR ''-'' \<and> list_all is_digit (slice 8 10 s)
      then Some (slice 0 4 s, slice 5 7 s, slice 8 10 s) else None)"

definition digits_int :: "string \<Rightarrow> int" where
  "digits_int s = (case parse_int s of Some i \<Rightarrow> i | None \<Rightarrow> 0)"

definition toDateParts :: "(string \<Rightarrow> int option) \<Rightarrow> string \<Rightarrow> DateParts option" where
  "toDateParts date_parse value =
     (case match_date_only (trim value) of
        Some (y, m, d) \<Rightarrow>
          (let year = digits_int y; month = digits_int m; day = digits_int d;
               candidate = date_utc year (month - 1) day
           in if year_from_day candidate = year \<and> month_from_day candidate = month - 1
                 \<and> date_from_day candidate = day
              then Some \<lparr>dp_year = year, dp_month = month, dp_day = day\<rparr> else None)
      | None \<Rightarrow>
          (case date_parse value of
             None \<Rightarrow> None
           | Some t \<Rightarrow> Some \<lparr>dp_year = year_from_day t, dp_month = month_from_day t + 1,
                             dp_day = date_from_day t\<rparr>))"

text \<open>A local date: the calendar day that \<open>getFullYear\<close>, \<open>getMonth\<close> and
  \<open>getDate\<close> report.\<close>

record LocalDate =
  full_year :: int
  month :: int
  date :: int

definition local_of_day :: "int \<Rightarrow> LocalDate" where
  "local_of_day t = \<lparr>full_year = year_from_day t, month = month_from_day t, date = date_from_day t\<rparr>"

definition valid_local :: "LocalDate \<Rightarrow> bool" where
  "valid_local l \<longleftrightarrow> valid_date (full_year l) (month l + 1) (date l)"

definition toLocalDate :: "(string \<Rightarrow> int option) \<Rightarrow> string \<Rightarrow> LocalDate option" where
  "toLocalDate date_parse value =
     (case toDateParts date_parse value of None \<Rightarrow> None
      | Some p \<Rightarrow> Some (local_of_day (date_utc (dp_year p) (dp_month p - 1) (dp_day p))))"

definition formatDateKey :: "LocalDate \<Rightarrow> string" where
  "formatDateKey l = int_to_string (full_year l) @ ''-'' @ padStart0 2 (int_to_string (month l + 1))
     @ ''-'' @ padStart0 2 (int_to_string (date l))"

text \<open>\<open>formatDate\<close>: the locale's rendering is the parameter \<open>render\<close>.\<close>

definition formatDate :: "(string \<Rightarrow> LocalDate \<Rightarrow> string) \<Rightarrow> (string \<Rightarrow> int option) \<Rightarrow> string \<Rightarrow> string \<Rightarrow> string" where
  "formatDate render date_parse d locale =
     (case toLocalDate date_parse d of None \<Rightarrow> d | Some target \<Rightarrow> render locale target)"

definition day_ms :: int where
  "day_ms = 24 * 60 * 60 * 1000"

text \<open>\<open>daysUntil\<close>, with the current local day as an argument; \<open>None\<close> is NaN.  Both
  operands are whole days, so the rounding of the source is the identity.\<close>

definition utc_ms :: "LocalDate \<Rightarrow> int" where
  "utc_ms l = date_utc (full_year l) (month l) (date l) * day_ms"

definition daysUntil :: "(string \<Rightarrow> int option) \<Rightarrow> LocalDate \<Rightarrow> string \<Rightarrow> int option" where
  "daysUntil date_parse now d =
     (case toLocalDate date_parse d of None \<Rightarrow> None
      | Some target \<Rightarrow> Some (round (rat_of_int (utc_ms target - utc_ms now) / rat_of_int day_ms)))"

text \<open>The text of a date: four, two and two digits.\<close>

definition date_text :: "int \<Rightarrow> int \<Rightarrow> int \<Rightarrow> string" where
  "date_text y m d = padStart0 4 (int_to_string y) @ ''-'' @ padStart0 2 (int_to_string m)
     @ ''-'' @ padStart0 2 (int_to_string d)"

lemma valid_date_bounds: "valid_date y m d \<Longrightarrow> 1 \<le> m \<and> m \<le> 12 \<and> 1 \<le> d \<and> d \<le> 31"
proof -
  assume v: "valid_date y m d"
  then have "0 \<le> m - 1" "m - 1 \<le> 11" by (auto simp: valid_date_def)
  from twelve [OF this] have "days_in_month y (m - 1) \<le> 31"
    by (elim disjE) (simp_all add: days_in_month_def month_start_def)
  with v show ?thesis by (auto simp: valid_date_def)
qed

lemma padStart0_int:
  assumes "0 \<le> i" and "i < 10 ^ n" and "0 < n"
  shows "length (padStart0 n (int_to_string i)) = n"
    and "list_all is_digit (padStart0 n (int_to_string i))"
    and "digits_int (padStart0 n (int_to_string i)) = i"
proof -
  let ?s = "int_to_string i"
  have s: "?s = digits_of (nat i)" using assms(1) by (simp add: int_to_string_def)
  have "length (digits_of k) \<le> n" if "k < 10 ^ n" "0 < n" for k n
    using that
  proof (induction k arbitrary: n rule: digits_of.induct)
    case (1 k)
    show ?case
    proof (cases "k < 10")
      case True
      with 1 show ?thesis by (subst digits_of.simps) simp
    next
      case False
      with 1 obtain m where m: "n = Suc m" "0 < m" by (cases n; cases "n = 1") auto
      with 1 have "k div 10 < 10 ^ m" by (simp add: div_less_iff_less_mult mult.commute)
      with 1 False m show ?thesis by (subst digits_of.simps) simp
    qed
  qed
  moreover have "nat i < 10 ^ n" using assms by (simp add: nat_less_iff)
  ultimately have len: "length ?s \<le> n" using assms(3) s by simp
  then show "length (padStart0 n ?s) = n" by (simp add: padStart0_def)
  have zero: "is_digit (CHR ''0'')" by (simp add: is_digit_def code_def)
  show al: "list_all is_digit (padStart0 n ?s)"
    using digits_of_digits [of "nat i"] zero by (auto simp: padStart0_def s list_all_iff)
  have "digits_val (replicate k (CHR ''0'')) = 0" for k
    by (induction k) (simp_all add: digits_val_Cons digit_val_def code_def)
  then have "digits_val (padStart0 n ?s) = nat i"
    by (simp add: padStart0_def s digits_val_append)
  moreover have "padStart0 n ?s \<noteq> []" by (simp add: padStart0_def)
  ultimately show "digits_int (padStart0 n ?s) = i"
    using al assms(1) by (simp add: digits_int_def parse_int_digits_only list_all_iff)
qed

lemma match_date_only_parts:
  assumes "length y = 4" "list_all is_digit y" "length m = 2" "list_all is_digit m"
    "length d = 2" "list_all is_digit d"
  shows "match_date_only (y @ ''-'' @ m @ ''-'' @ d @ r) = Some (y, m, d)"
  using assms by (simp add: match_date_only_def slice_def nth_append)

lemma match_date_text:
  assumes "0 \<le> y" "y \<le> 9999" "0 \<le> m" "m \<le> 99" "0 \<le> d" "d \<le> 99"
  shows "match_date_only (date_text y m d @ r) =
    Some (padStart0 4 (int_to_string y), padStart0 2 (int_to_string m), padStart0 2 (int_to_string d))"
  unfolding date_text_def append_assoc
  by (rule match_date_only_parts) (use assms padStart0_int in auto)

lemma date_text_ends:
  assumes "0 \<le> y" "y \<le> 9999" "0 \<le> m" "m \<le> 99" "0 \<le> d" "d \<le> 99"
  shows "\<forall>c \<in> set (date_text y m d). \<not> is_ws c"
proof -
  have "\<forall>c \<in> set (padStart0 4 (int_to_string y)). is_digit c"
    "\<forall>c \<in> set (padStart0 2 (int_to_string m)). is_digit c"
    "\<forall>c \<in> set (padStart0 2 (int_to_string d)). is_digit c"
    using assms padStart0_int(2) [of y 4] padStart0_int(2) [of m 2] padStart0_int(2) [of d 2]
    by (auto simp: list_all_iff)
  then show ?thesis by (auto simp: date_text_def not_ws_digit)
qed

lemma toDateParts_text:
  assumes "0 \<le> y" "y \<le> 9999" "0 \<le> m" "m \<le> 99" "0 \<le> d" "d \<le> 99"
  shows "toDateParts dp (date_text y m d) =
    (if 100 \<le> y \<and> valid_date y m d then Some \<lparr>dp_year = y, dp_month = m, dp_day = d\<rparr> else None)"
proof -
  let ?t = "date_utc y (m - 1) d"
  have tr: "trim (date_text y m d) = date_text y m d"
    using date_text_ends [OF assms] by (rule trim_no_ws)
  have v: "digits_int (padStart0 4 (int_to_string y)) = y" "digits_int (padStart0 2 (int_to_string m)) = m"
    "digits_int (padStart0 2 (int_to_string d)) = d"
    using assms padStart0_int(3) [of y 4] padStart0_int(3) [of m 2] padStart0_int(3) [of d 2] by auto
  have e: "toDateParts dp (date_text y m d) =
    (if year_from_day ?t = y \<and> month_from_day ?t = m - 1 \<and> date_from_day ?t = d
     then Some \<lparr>dp_year = y, dp_month = m, dp_day = d\<rparr> else None)"
    using match_date_text [OF assms, of "[]"] by (simp add: toDateParts_def tr v Let_def)
  have fwd: "year_from_day ?t = y \<and> month_from_day ?t = m - 1 \<and> date_from_day ?t = d" if "100 \<le> y" "valid_date y m d"
    using that decompose_make_day [of y m d] by (simp add: date_utc_def legacy_year_def)
  have bwd: "100 \<le> y \<and> valid_date y m d"
    if c: "year_from_day ?t = y \<and> month_from_day ?t = m - 1 \<and> date_from_day ?t = d"
  proof
    show vd: "valid_date y m d" using decompose_valid [of ?t] c by simp
    show "100 \<le> y"
    proof (rule ccontr)
      assume "\<not> 100 \<le> y"
      then have ly: "legacy_year y = 1900 + y" using assms by (simp add: legacy_year_def)
      have "make_day (1900 + y) (m - 1) d = make_day y (m - 1) d"
        using c ly make_day_decompose [of ?t] by (simp add: date_utc_def)
      moreover have "day_from_year (1900 + y) > day_from_year y + 366"
        using day_from_year_mono [of "y + 2" "1900 + y"] year_length [of y] year_length [of "y + 1"]
        by (auto simp: algebra_simps split: if_splits)
      moreover have "month_start l (m - 1) \<le> 335" "0 \<le> month_start l (m - 1)" for l
        using vd month_start_range [of "m - 1" l] by (auto simp: valid_date_def)
      then have "month_start (leap_year (1900 + y)) (m - 1) - month_start (leap_year y) (m - 1) \<ge> - 335" by smt
      moreover have "(m - 1) div 12 = 0" "(m - 1) mod 12 = m - 1" using vd by (auto simp: valid_date_def)
      ultimately show False by (simp add: make_day_def Let_def)
    qed
  qed
  show ?thesis using e fwd bwd by metis
qed

lemma valid_local_local_of_day [simp]: "valid_local (local_of_day t)"
  using decompose_valid [of t] by (simp add: valid_local_def local_of_day_def)

lemma local_of_valid:
  "valid_local l \<Longrightarrow> local_of_day (make_day (full_year l) (month l) (date l)) = l"
  using decompose_make_day [of "full_year l" "month l + 1" "date l"]
  by (simp add: valid_local_def local_of_day_def)

lemma formatDateKey_text:
  assumes "valid_local l" "1000 \<le> full_year l" "full_year l \<le> 9999"
  shows "formatDateKey l = date_text (full_year l) (month l + 1) (date l)"
proof -
  let ?y = "full_year l"
  have "length (digits_of k) = 4" if "1000 \<le> k" "k \<le> 9999" for k
    using that by (subst digits_of.simps, subst digits_of.simps, subst digits_of.simps, subst digits_of.simps) auto
  then have "length (int_to_string ?y) = 4" using assms by (simp add: int_to_string_def)
  then have "padStart0 4 (int_to_string ?y) = int_to_string ?y" by (simp add: padStart0_def)
  then show ?thesis by (simp add: formatDateKey_def date_text_def)
qed

lemma round_days: "round (rat_of_int (a * day_ms) / rat_of_int day_ms) = a"
  by (simp add: day_ms_def)

lemma daysUntil_days:
  assumes "toLocalDate dp s = Some target"
  shows "daysUntil dp now s = Some (date_utc (full_year target) (month target) (date target)
    - date_utc (full_year now) (month now) (date now))"
  using assms round_days [of "date_utc (full_year target) (month target) (date target)
    - date_utc (full_year now) (month now) (date now)"]
  by (simp add: daysUntil_def utc_ms_def left_diff_distrib)

text \<open>C40: a date-only text is accepted exactly when it names a day of the calendar, from the year
  100 on: nothing rolls over into the next month, and the years 0000 to 0099, which
  \<open>Date.UTC\<close> reads as 1900 to 1999, are rejected.\<close>

theorem date_only_accepted_iff_valid:
  assumes "0 \<le> y" "y \<le> 9999" "0 \<le> m" "m \<le> 99" "0 \<le> d" "d \<le> 99"
  shows "toDateParts date_parse (date_text y m d) =
    (if 100 \<le> y \<and> valid_date y m d then Some \<lparr>dp_year = y, dp_month = m, dp_day = d\<rparr> else None)"
  using assms by (rule toDateParts_text)

theorem date_only_accepted_iff_valid_witness:
  "toDateParts (\<lambda>_. None) (date_text 2024 2 29) = Some \<lparr>dp_year = 2024, dp_month = 2, dp_day = 29\<rparr>
   \<and> toDateParts (\<lambda>_. None) (date_text 2023 2 29) = None
   \<and> toDateParts (\<lambda>_. None) (date_text 50 2 3) = None"
proof -
  have "valid_date 2024 2 29" "\<not> valid_date 2023 2 29"
    by (simp_all add: valid_date_def days_in_month_def month_start_def leap_year_def)
  then show ?thesis
    using date_only_accepted_iff_valid [of 2024 2 29 "\<lambda>_. None"]
      date_only_accepted_iff_valid [of 2023 2 29 "\<lambda>_. None"]
      date_only_accepted_iff_valid [of 50 2 3 "\<lambda>_. None"] by simp
qed

text \<open>the key that the client writes for a local date reads back as that date, for the years
  of four digits.\<close>

theorem date_key_roundtrip:
  assumes "valid_local l" "1000 \<le> full_year l" "full_year l \<le> 9999"
  shows "toLocalDate date_parse (formatDateKey l) = Some l"
proof -
  have b: "0 \<le> month l + 1" "month l + 1 \<le> 99" "0 \<le> date l" "date l \<le> 99"
    using assms(1) valid_date_bounds unfolding valid_local_def by fastforce+
  have "toDateParts date_parse (formatDateKey l) =
      Some \<lparr>dp_year = full_year l, dp_month = month l + 1, dp_day = date l\<rparr>"
    using assms b toDateParts_text [of "full_year l" "month l + 1" "date l"]
    by (simp add: formatDateKey_text valid_local_def)
  then show ?thesis
    using assms local_of_valid [OF assms(1)] by (simp add: toLocalDate_def date_utc_def legacy_year_def)
qed

theorem date_key_roundtrip_witness:
  "toLocalDate (\<lambda>_. None) (formatDateKey \<lparr>full_year = 2024, month = 1, date = 29\<rparr>)
   = Some \<lparr>full_year = 2024, month = 1, date = 29\<rparr>"
  by (rule date_key_roundtrip)
    (simp_all add: valid_local_def valid_date_def days_in_month_def month_start_def leap_year_def)

lemma days_until_key:
  assumes "local_of_day (today + n) = target" and "1000 \<le> full_year target" "full_year target \<le> 9999"
    and "100 \<le> year_from_day today"
  shows "daysUntil date_parse (local_of_day today) (formatDateKey target) = Some n"
proof -
  have v: "valid_local target" using assms(1) valid_local_local_of_day by metis
  have t: "date_utc (full_year target) (month target) (date target) = today + n"
    using assms make_day_decompose [of "today + n"] by (auto simp: date_utc_def legacy_year_def local_of_day_def)
  have w: "date_utc (year_from_day today) (month_from_day today) (date_from_day today) = today"
    using assms(4) make_day_decompose [of today] by (simp add: date_utc_def legacy_year_def)
  have l: "toLocalDate date_parse (formatDateKey target) = Some target"
    using toDateParts_text [of "full_year target" "month target + 1" "date target"] v assms(2,3)
      valid_date_bounds [of "full_year target" "month target + 1" "date target"] local_of_valid [OF v]
    by (simp add: formatDateKey_text toLocalDate_def valid_local_def date_utc_def legacy_year_def)
  show ?thesis using daysUntil_days [OF l] t w by (simp add: local_of_day_def)
qed

text \<open>\<open>daysUntil\<close> counts calendar days exactly: the date \<open>n\<close> days after today gives
  \<open>n\<close>, in the past a negative number, whatever months, leap years and clock changes lie
  between.\<close>

theorem days_until_counts_days:
  assumes "local_of_day (today + n) = target" and "1000 \<le> full_year target" "full_year target \<le> 9999"
    and "100 \<le> year_from_day today"
  shows "daysUntil date_parse (local_of_day today) (formatDateKey target) = Some n"
  using assms by (rule days_until_key)

theorem days_until_counts_days_witness:
  "daysUntil (\<lambda>_. None) (local_of_day 19782) (formatDateKey (local_of_day (19782 + 2))) = Some 2"
proof (rule days_until_counts_days)
  show "1000 \<le> full_year (local_of_day (19782 + 2))" "full_year (local_of_day (19782 + 2)) \<le> 9999"
    "100 \<le> year_from_day 19782"
    by (simp_all add: local_of_day_def year_from_day_def day_from_year_def)
qed (rule refl)

end
