(* ===== verification/Types.thy ===== *)
theory Types
  imports Numbers
begin

text \<open>
  The data that crosses the API, \<open>web/src/types/*.ts\<close>.  A record per interface, with the
  field names of the source behind a short prefix.  A union of string literals that the code
  also tests for the empty string is an option over an enumeration (\<open>None\<close> is the falsy
  case); literals that are only compared stay strings.  Identifiers and counts are \<open>int\<close>,
  amounts and rates \<open>rat\<close>.
\<close>

subsection \<open>subscription.ts\<close>

datatype SubscriptionStatus = Active | Ended

datatype SubscriptionRenewalMode = Auto_renew | Manual_renew | Cancel_at_period_end

fun status_text :: "SubscriptionStatus \<Rightarrow> string" where
  "status_text Active = ''active''"
| "status_text Ended = ''ended''"

fun renewal_text :: "SubscriptionRenewalMode \<Rightarrow> string" where
  "renewal_text Auto_renew = ''auto_renew''"
| "renewal_text Manual_renew = ''manual_renew''"
| "renewal_text Cancel_at_period_end = ''cancel_at_period_end''"

record Subscription =
  sub_id :: int
  sub_name :: string
  sub_amount :: rat
  sub_currency :: string
  sub_status :: "SubscriptionStatus option"
  sub_renewal_mode :: "SubscriptionRenewalMode option"
  sub_ends_at :: "string option"
  sub_billing_type :: string
  sub_recurrence_type :: string
  sub_interval_count :: "int option"
  sub_interval_unit :: string
  sub_monthly_day :: "int option"
  sub_yearly_month :: "int option"
  sub_yearly_day :: "int option"
  sub_next_billing_date :: "string option"
  sub_category :: string
  sub_category_id :: "int option"
  sub_payment_method_id :: "int option"
  sub_notify_enabled :: "bool option"
  sub_notify_days_before :: "int option"
  sub_icon :: string
  sub_url :: string
  sub_notes :: string
  sub_created_at :: string
  sub_updated_at :: string

datatype SubscriptionEventType = Created | Updated | Manual_renewed | Deleted | System_change

fun event_type_text :: "SubscriptionEventType \<Rightarrow> string" where
  "event_type_text Created = ''created''"
| "event_type_text Updated = ''updated''"
| "event_type_text Manual_renewed = ''manual_renewed''"
| "event_type_text Deleted = ''deleted''"
| "event_type_text System_change = ''system_change''"

record SubscriptionDetailEvent =
  ev_id :: int
  ev_type :: SubscriptionEventType
  ev_changed_fields :: "string list"
  ev_previous_amount :: "rat option"
  ev_new_amount :: "rat option"
  ev_previous_monthly_amount :: "rat option"
  ev_new_monthly_amount :: "rat option"
  ev_previous_currency :: string
  ev_new_currency :: string
  ev_previous_next_billing_date :: "string option"
  ev_new_next_billing_date :: "string option"
  ev_previous_status :: "SubscriptionStatus option"
  ev_new_status :: "SubscriptionStatus option"
  ev_previous_renewal_mode :: "SubscriptionRenewalMode option"
  ev_new_renewal_mode :: "SubscriptionRenewalMode option"
  ev_previous_category_name :: string
  ev_new_category_name :: string
  ev_previous_payment_method_name :: string
  ev_new_payment_method_name :: string
  ev_changed_at :: string

record CreateSubscriptionInput =
  in_name :: string
  in_amount :: js_number
  in_currency :: string
  in_status :: SubscriptionStatus
  in_renewal_mode :: SubscriptionRenewalMode
  in_ends_at :: "string option"
  in_billing_type :: string
  in_recurrence_type :: string
  in_interval_count :: "int option option"
  in_interval_unit :: string
  in_next_billing_date :: string
  in_monthly_day :: "int option option"
  in_yearly_month :: "int option option"
  in_yearly_day :: "int option option"
  in_category :: string
  in_category_id :: "int option option"
  in_payment_method_id :: "int option option"
  in_notify_enabled :: "bool option"
  in_notify_days_before :: "int option"
  in_icon :: string
  in_url :: string
  in_notes :: string

text \<open>
  In \<open>CreateSubscriptionInput\<close> a number that the form parses is \<open>None\<close> for
  \<open>null\<close>, \<open>Some None\<close> for NaN and \<open>Some (Some i)\<close> for a number.
\<close>

subsection \<open>settings.ts\<close>

record ExchangeRateInfo =
  ri_base_currency :: string
  ri_target_currency :: string
  ri_rate :: rat
  ri_source :: string
  ri_fetched_at :: string

record UserCurrency =
  uc_id :: int
  uc_code :: string
  uc_symbol :: string
  uc_alias :: string
  uc_sort_order :: int

record CreateCurrencyInput =
  cc_code :: string
  cc_symbol :: string
  cc_alias :: string
  cc_sort_order :: int

record UpdateCurrencyInput =
  up_symbol :: "string option"
  up_alias :: "string option"
  up_sort_order :: "int option"

record ReorderCurrencyItem =
  ro_id :: int
  ro_sort_order :: int

record Category =
  cat_id :: int
  cat_name :: string
  cat_system_key :: "string option"
  cat_name_customized :: bool
  cat_display_order :: int

record CreateCategoryInput =
  cci_name :: string
  cci_display_order :: int

record PaymentMethod =
  pm_id :: int
  pm_name :: string
  pm_system_key :: "string option"
  pm_name_customized :: bool
  pm_icon :: string
  pm_sort_order :: int

record CreatePaymentMethodInput =
  cpm_name :: string
  cpm_icon :: string
  cpm_sort_order :: int

record UpdatePaymentMethodInput =
  upm_name :: "string option"
  upm_icon :: "string option"
  upm_sort_order :: "int option"

subsection \<open>auth.ts\<close>

datatype UserRole = Role_admin | Role_user

record User =
  user_id :: int
  user_username :: string
  user_email :: string
  user_role :: UserRole
  user_active :: bool
  user_totp_enabled :: bool

record AuthResponse =
  auth_token :: "string option"
  auth_access_token :: "string option"
  auth_user :: "User option"

subsection \<open>dashboard.ts\<close>

record DashboardSummary =
  sum_total_monthly :: rat
  sum_total_yearly :: rat
  sum_committed_monthly :: rat
  sum_committed_yearly :: rat
  sum_due_this_month :: rat
  sum_active_count :: "int option"
  sum_upcoming_renewal_count :: int
  sum_currency :: string

record DashboardBootstrap =
  db_subscriptions :: "Subscription list option"
  db_summary :: "DashboardSummary option"
  db_categories :: "Category list option"
  db_payment_methods :: "PaymentMethod list option"
  db_currencies :: "UserCurrency list option"
  db_preferred_currency :: string

end
