(* ===== verification/EventFormatters.thy ===== *)
theory EventFormatters
  imports Calendar Types
begin

text \<open>
  The rows of the change history, \<open>web/src/lib/subscription-event-formatters.ts\<close>.
  Parameters: \<open>t\<close> is i18next's \<open>t\<close> with its default value, \<open>formatAmount\<close> and
  \<open>formatDay\<close> (\<open>formatDate\<close> of \<open>lib/utils.ts\<close> in the language shown) print a value.
\<close>

record SubscriptionEventChangeRow =
  row_label :: string
  row_next :: string
  row_previous :: string

type_synonym translator = "string \<Rightarrow> string option \<Rightarrow> string"

definition subscriptionEventTypeLabel :: "string \<Rightarrow> translator \<Rightarrow> string" where
  "subscriptionEventTypeLabel ty t = t (''reports.recentChanges.types.'' @ ty) None"

definition subscriptionEventFieldLabel :: "string \<Rightarrow> translator \<Rightarrow> string" where
  "subscriptionEventFieldLabel field t =
     (let translated = t (''reports.recentChanges.fields.'' @ field) None
      in if translated = ''reports.recentChanges.fields.'' @ field then field else translated)"

definition reportRenewalModeLabel :: "SubscriptionRenewalMode \<Rightarrow> translator \<Rightarrow> string" where
  "reportRenewalModeLabel mode t = t (''reports.renewalModes.'' @ renewal_text mode) None"

definition subscriptionLifecycleStatusLabel :: "SubscriptionStatus option \<Rightarrow> translator \<Rightarrow> string" where
  "subscriptionLifecycleStatusLabel v t = (case v of None \<Rightarrow> []
     | Some s \<Rightarrow> t (''subscription.card.status.'' @ status_text s) (Some (status_text s)))"

definition subscriptionRenewalModeLabel :: "SubscriptionRenewalMode option \<Rightarrow> translator \<Rightarrow> string" where
  "subscriptionRenewalModeLabel v t = (case v of None \<Rightarrow> []
     | Some m \<Rightarrow> t (''subscription.card.renewalMode.'' @ renewal_text m) (Some (renewal_text m)))"

type_synonym amount_printer = "rat \<Rightarrow> string option \<Rightarrow> string"

record EventAmountChange =
  ac_new_amount :: "rat option"
  ac_new_currency :: "string option"
  ac_previous_amount :: "rat option"
  ac_previous_currency :: "string option"

definition formatSubscriptionEventAmountChange :: "EventAmountChange \<Rightarrow> amount_printer \<Rightarrow> string" where
  "formatSubscriptionEventAmountChange item formatAmount =
     (case (ac_previous_amount item, ac_new_amount item) of
        (Some p, Some n) \<Rightarrow> formatAmount p (ac_previous_currency item) @ '' -> '' @ formatAmount n (ac_new_currency item)
      | (None, Some n) \<Rightarrow> formatAmount n (ac_new_currency item)
      | (Some p, None) \<Rightarrow> formatAmount p (ac_previous_currency item)
      | (None, None) \<Rightarrow> [])"

datatype row_mode = Mode_created | Mode_deleted

text \<open>The cells: the old and the new text, for a row in one of the modes or in none.\<close>

definition cells :: "row_mode option \<Rightarrow> string \<Rightarrow> string \<Rightarrow> string \<Rightarrow> string \<times> string" where
  "cells mode none previous next =
     (case mode of
        Some Mode_created \<Rightarrow> (none, or_str next none)
      | Some Mode_deleted \<Rightarrow> (or_str previous none, none)
      | None \<Rightarrow> (or_str previous none, or_str next none))"

definition valueForText :: "row_mode option \<Rightarrow> string \<Rightarrow> string \<Rightarrow> string \<Rightarrow> (string \<times> string) option" where
  "valueForText mode none previous next =
     (if previous = [] \<and> next = [] then None else Some (cells mode none previous next))"

definition valueForAmount ::
  "rat option \<Rightarrow> string \<Rightarrow> rat option \<Rightarrow> string \<Rightarrow> amount_printer \<Rightarrow> row_mode option \<Rightarrow> string \<Rightarrow> (string \<times> string) option" where
  "valueForAmount previousAmount previousCurrency newAmount newCurrency formatAmount mode none =
     (if previousAmount = None \<and> newAmount = None then None
      else
        let previous = (case previousAmount of Some a \<Rightarrow> formatAmount a (Some previousCurrency) | None \<Rightarrow> []);
            next = (case newAmount of Some a \<Rightarrow> formatAmount a (Some newCurrency) | None \<Rightarrow> [])
        in Some (cells mode none previous next))"

definition subscriptionDetailEventChangeRow ::
  "string \<Rightarrow> SubscriptionDetailEvent \<Rightarrow> amount_printer \<Rightarrow> (string \<Rightarrow> string) \<Rightarrow> translator \<Rightarrow> row_mode option
   \<Rightarrow> SubscriptionEventChangeRow option" where
  "subscriptionDetailEventChangeRow field item formatAmount formatDay t mode =
     (let none = t ''subscription.detail.empty.none'' None;
          label = subscriptionEventFieldLabel field t;
          day = (\<lambda>d. if truthy_str d then formatDay (the d) else []);
          values =
            (if field = ''amount'' then
               valueForAmount (ev_previous_amount item) (or_str (ev_previous_currency item) (ev_new_currency item))
                 (ev_new_amount item) (or_str (ev_new_currency item) (ev_previous_currency item)) formatAmount mode none
             else if field = ''monthly_amount'' then
               valueForAmount (ev_previous_monthly_amount item) (or_str (ev_previous_currency item) (ev_new_currency item))
                 (ev_new_monthly_amount item) (or_str (ev_new_currency item) (ev_previous_currency item)) formatAmount mode none
             else if field = ''currency'' then
               valueForText mode none (ev_previous_currency item) (ev_new_currency item)
             else if field = ''next_billing_date'' then
               valueForText mode none (day (ev_previous_next_billing_date item)) (day (ev_new_next_billing_date item))
             else if field = ''status'' then
               valueForText mode none (subscriptionLifecycleStatusLabel (ev_previous_status item) t)
                 (subscriptionLifecycleStatusLabel (ev_new_status item) t)
             else if field = ''renewal_mode'' then
               valueForText mode none (subscriptionRenewalModeLabel (ev_previous_renewal_mode item) t)
                 (subscriptionRenewalModeLabel (ev_new_renewal_mode item) t)
             else if field = ''category'' then
               valueForText mode none (ev_previous_category_name item) (ev_new_category_name item)
             else if field = ''payment_method'' then
               valueForText mode none (ev_previous_payment_method_name item) (ev_new_payment_method_name item)
             else None)
      in map_option (\<lambda>(previous, next). \<lparr>row_label = label, row_next = next, row_previous = previous\<rparr>) values)"

definition event_fields :: "string list" where
  "event_fields = [''amount'', ''monthly_amount'', ''next_billing_date'', ''status'', ''renewal_mode'',
     ''category'', ''payment_method'']"

definition subscriptionDetailEventChangeRows ::
  "SubscriptionDetailEvent \<Rightarrow> amount_printer \<Rightarrow> (string \<Rightarrow> string) \<Rightarrow> translator \<Rightarrow> SubscriptionEventChangeRow list" where
  "subscriptionDetailEventChangeRows item formatAmount formatDay t =
     (let row = (\<lambda>mode field. subscriptionDetailEventChangeRow field item formatAmount formatDay t mode);
          fields = (if ev_changed_fields item \<noteq> [] then ev_changed_fields item else [''amount''])
      in if ev_type item = Created then List.map_filter (row (Some Mode_created)) event_fields
         else if ev_type item = Deleted then List.map_filter (row (Some Mode_deleted)) event_fields
         else List.map_filter (row None) fields)"

subsection \<open>The cells of a row\<close>

definition is_cells :: "row_mode option \<Rightarrow> string \<Rightarrow> string \<times> string \<Rightarrow> bool" where
  "is_cells mode none v \<longleftrightarrow> (\<exists>p n. v = cells mode none p n)"

lemma text_cells: "valueForText mode none p n = Some v \<Longrightarrow> is_cells mode none v"
  by (auto simp: valueForText_def is_cells_def split: if_splits)

lemma amount_cells: "valueForAmount pa pc na nc fa mode none = Some v \<Longrightarrow> is_cells mode none v"
  by (auto simp: valueForAmount_def is_cells_def Let_def split: if_splits)

lemma change_row_cells:
  "subscriptionDetailEventChangeRow field item fa fd t mode = Some r \<Longrightarrow>
   is_cells mode (t ''subscription.detail.empty.none'' None) (row_previous r, row_next r)"
  unfolding subscriptionDetailEventChangeRow_def Let_def
  by (auto split: if_splits dest!: text_cells amount_cells)

lemma in_map_filter: "r \<in> set (List.map_filter f xs) \<longleftrightarrow> (\<exists>x \<in> set xs. f x = Some r)"
  by (induction xs) (auto simp: List.map_filter_def)

lemma length_map_filter: "length (List.map_filter f xs) \<le> length xs"
  by (simp add: List.map_filter_def)

lemma or_str_ne: "b \<noteq> [] \<Longrightarrow> or_str a b \<noteq> []"
  by (simp add: or_str_def)

text \<open>the history never shows a blank cell (when the text for "none" is not blank): the rows of a
  created event all have "none" as the old value, those of a deleted event as the new one, and there is
  at most one row per field that the event names.\<close>

theorem change_rows_never_blank:
  assumes "t ''subscription.detail.empty.none'' None \<noteq> []"
    and "r \<in> set (subscriptionDetailEventChangeRows item fa fd t)"
  shows "row_previous r \<noteq> [] \<and> row_next r \<noteq> []
    \<and> (ev_type item = Created \<longrightarrow> row_previous r = t ''subscription.detail.empty.none'' None)
    \<and> (ev_type item = Deleted \<longrightarrow> row_next r = t ''subscription.detail.empty.none'' None)
    \<and> length (subscriptionDetailEventChangeRows item fa fd t) \<le> max 7 (length (ev_changed_fields item))"
proof -
  let ?none = "t ''subscription.detail.empty.none'' None"
  obtain field mode where row: "subscriptionDetailEventChangeRow field item fa fd t mode = Some r"
    and mode: "mode = (if ev_type item = Created then Some Mode_created
       else if ev_type item = Deleted then Some Mode_deleted else None)"
    using assms(2) by (auto simp: subscriptionDetailEventChangeRows_def Let_def in_map_filter split: if_splits)
  obtain p n where c: "(row_previous r, row_next r) = cells mode ?none p n"
    using change_row_cells [OF row] by (auto simp: is_cells_def)
  have "length (subscriptionDetailEventChangeRows item fa fd t) \<le> max 7 (length (ev_changed_fields item))"
    using length_map_filter [of _ event_fields] length_map_filter [of _ "ev_changed_fields item"]
      length_map_filter [of _ "[''amount'']"]
    by (fastforce simp: subscriptionDetailEventChangeRows_def Let_def event_fields_def le_max_iff_disj
        intro: order_trans)
  then show ?thesis using assms(1) c mode
    by (auto simp: cells_def or_str_ne split: if_splits)
qed

definition created_event :: SubscriptionDetailEvent where
  "created_event = \<lparr>ev_id = 1, ev_type = Created, ev_changed_fields = [], ev_previous_amount = None,
     ev_new_amount = Some 12, ev_previous_monthly_amount = None, ev_new_monthly_amount = None,
     ev_previous_currency = [], ev_new_currency = ''USD'', ev_previous_next_billing_date = None,
     ev_new_next_billing_date = None, ev_previous_status = None, ev_new_status = Some Active,
     ev_previous_renewal_mode = None, ev_new_renewal_mode = None, ev_previous_category_name = [],
     ev_new_category_name = [], ev_previous_payment_method_name = [], ev_new_payment_method_name = [],
     ev_changed_at = []\<rparr>"

theorem change_rows_never_blank_witness:
  "row_previous \<lparr>row_label = ''amount'', row_next = ''USD'', row_previous = ''-''\<rparr> = ''-''
   \<and> length (subscriptionDetailEventChangeRows created_event (\<lambda>a c. nullish c []) id (\<lambda>k d. if d = None \<and> k = ''subscription.detail.empty.none'' then ''-'' else k)) \<le> 7"
proof -
  let ?t = "\<lambda>k d. if d = None \<and> k = ''subscription.detail.empty.none'' then ''-'' else k"
  have "\<lparr>row_label = ''amount'', row_next = ''USD'', row_previous = ''-''\<rparr>
      \<in> set (subscriptionDetailEventChangeRows created_event (\<lambda>a c. nullish c []) id ?t)"
    by code_simp
  from change_rows_never_blank [OF _ this] show ?thesis by (simp add: created_event_def)
qed

end
