(* ===== verification/Currencies.thy ===== *)
theory Currencies
  imports Types
begin

text \<open>
  Currencies and display settings: \<open>web/src/lib/currencies.ts\<close>,
  \<open>default-currency.ts\<close>, \<open>display-preferences.ts\<close> and the currency formatting of
  \<open>utils.ts\<close>.  \<open>Intl\<close> is a parameter: \<open>display_name\<close> is
  \<open>Intl.DisplayNames(...).of\<close> (\<open>None\<close> when it is missing or has no name) and
  \<open>format_parts\<close> is \<open>NumberFormat.formatToParts\<close>.
\<close>

record PresetCurrency =
  pc_code :: string
  pc_symbol :: string
  pc_alias :: string

definition PRESET_CURRENCY_CODES :: "string list" where
  "PRESET_CURRENCY_CODES = [''USD'', ''EUR'', ''GBP'', ''JPY'', ''CNY'', ''CAD'', ''AUD'', ''CHF'', ''HKD'', ''SGD'',
     ''KRW'', ''INR'', ''BRL'', ''MXN'', ''TWD'', ''THB'', ''TRY'', ''NZD'', ''SEK'', ''NOK'', ''DKK'', ''PLN'']"

datatype part_type = Currency_part | Other_part

record Intl =
  display_name :: "string \<Rightarrow> string \<Rightarrow> string option"
  format_parts :: "string \<Rightarrow> string \<Rightarrow> rat \<Rightarrow> nat \<Rightarrow> (part_type \<times> string) list"

definition getIntlCurrencyAlias :: "Intl \<Rightarrow> string \<Rightarrow> string \<Rightarrow> string" where
  "getIntlCurrencyAlias intl cur locale = or_opt (display_name intl locale cur) cur"

definition getIntlCurrencySymbol :: "Intl \<Rightarrow> string \<Rightarrow> string \<Rightarrow> string" where
  "getIntlCurrencySymbol intl cur locale =
     or_opt (map_option snd (List.find (\<lambda>part. fst part = Currency_part) (format_parts intl locale cur 0 0))) cur"

record CurrencyCaches =
  presetCurrencyCache :: "string \<rightharpoonup> PresetCurrency list"
  presetCurrencyMapCache :: "string \<rightharpoonup> (string \<rightharpoonup> PresetCurrency)"

definition normalizeLocale :: "string \<Rightarrow> string" where
  "normalizeLocale locale = or_str (trim locale) ''en''"

definition generate_presets :: "Intl \<Rightarrow> string \<Rightarrow> PresetCurrency list" where
  "generate_presets intl locale = map (\<lambda>cur. \<lparr>pc_code = cur, pc_symbol = getIntlCurrencySymbol intl cur locale,
     pc_alias = getIntlCurrencyAlias intl cur locale\<rparr>) PRESET_CURRENCY_CODES"

definition getPresetCurrencies :: "Intl \<Rightarrow> string \<Rightarrow> CurrencyCaches \<Rightarrow> PresetCurrency list \<times> CurrencyCaches" where
  "getPresetCurrencies intl locale s =
     (let normalizedLocale = normalizeLocale locale in
      case presetCurrencyCache s normalizedLocale of
        Some cached \<Rightarrow> (cached, s)
      | None \<Rightarrow>
          (let generated = generate_presets intl normalizedLocale
           in (generated, s\<lparr>presetCurrencyCache := (presetCurrencyCache s)(normalizedLocale \<mapsto> generated)\<rparr>)))"

definition DEFAULT_CURRENCY_FALLBACK :: "string list" where
  "DEFAULT_CURRENCY_FALLBACK = [''USD'', ''EUR'', ''GBP'', ''CNY'', ''JPY'']"

text \<open>\<open>new Map(items.map((item) => [item.code, item]))\<close>: the last item of a code wins.\<close>

definition map_by_code :: "PresetCurrency list \<Rightarrow> string \<rightharpoonup> PresetCurrency" where
  "map_by_code items = foldl (\<lambda>m item. m(pc_code item \<mapsto> item)) Map.empty items"

definition getPresetCurrencyMap ::
  "Intl \<Rightarrow> string \<Rightarrow> CurrencyCaches \<Rightarrow> (string \<rightharpoonup> PresetCurrency) \<times> CurrencyCaches" where
  "getPresetCurrencyMap intl locale s =
     (let normalizedLocale = normalizeLocale locale in
      case presetCurrencyMapCache s normalizedLocale of
        Some cached \<Rightarrow> (cached, s)
      | None \<Rightarrow>
          (let (items, s) = getPresetCurrencies intl normalizedLocale s; currencyMap = map_by_code items
           in (currencyMap, s\<lparr>presetCurrencyMapCache := (presetCurrencyMapCache s)(normalizedLocale \<mapsto> currencyMap)\<rparr>)))"

definition getPresetCurrencyMeta ::
  "Intl \<Rightarrow> string \<Rightarrow> string \<Rightarrow> CurrencyCaches \<Rightarrow> PresetCurrency option \<times> CurrencyCaches" where
  "getPresetCurrencyMeta intl cur locale s =
     (let (m, s) = getPresetCurrencyMap intl locale s in (m (toUpperCase cur), s))"

text \<open>A lookup with empty caches; the module's caches do not change its answer, as shown below.\<close>

definition no_caches :: CurrencyCaches where
  "no_caches = \<lparr>presetCurrencyCache = Map.empty, presetCurrencyMapCache = Map.empty\<rparr>"

definition preset_for :: "Intl \<Rightarrow> string \<Rightarrow> string \<Rightarrow> PresetCurrency option" where
  "preset_for intl locale cur = fst (getPresetCurrencyMeta intl cur locale no_caches)"

definition formatCurrencyDisplay :: "string \<Rightarrow> string option \<Rightarrow> string option \<Rightarrow> string" where
  "formatCurrencyDisplay cur alias symbol =
     (let normalizedAlias = trim (nullish alias []); normalizedSymbol = trim (nullish symbol []) in
      if normalizedAlias \<noteq> [] \<and> normalizedSymbol \<noteq> [] then cur @ '' - '' @ normalizedAlias @ '' ('' @ normalizedSymbol @ '')''
      else if normalizedAlias \<noteq> [] then cur @ '' - '' @ normalizedAlias
      else if normalizedSymbol \<noteq> [] then cur @ '' ('' @ normalizedSymbol @ '')''
      else cur)"

subsection \<open>utils.ts\<close>

definition formatCurrency :: "Intl \<Rightarrow> rat \<Rightarrow> string \<Rightarrow> string \<Rightarrow> string" where
  "formatCurrency intl amount currency locale = concat (map snd (format_parts intl locale currency amount 2))"

definition formatCurrencyWithSymbol :: "Intl \<Rightarrow> rat \<Rightarrow> string \<Rightarrow> string option \<Rightarrow> string \<Rightarrow> string" where
  "formatCurrencyWithSymbol intl amount currency symbol locale =
     (let normalizedSymbol = trim (nullish symbol []) in
      if normalizedSymbol = [] then formatCurrency intl amount currency locale
      else concat (map (\<lambda>part. if fst part = Currency_part then normalizedSymbol else snd part)
             (format_parts intl locale currency amount 2)))"

subsection \<open>default-currency.ts and display-preferences.ts\<close>

type_synonym items = "string \<rightharpoonup> string"

definition DEFAULT_CURRENCY_KEY :: string where
  "DEFAULT_CURRENCY_KEY = ''defaultCurrency''"

definition getDefaultCurrency :: "string \<Rightarrow> items \<Rightarrow> string" where
  "getDefaultCurrency fallback ls = or_opt (ls DEFAULT_CURRENCY_KEY) fallback"

definition setDefaultCurrency :: "string \<Rightarrow> items \<Rightarrow> items" where
  "setDefaultCurrency currency ls = ls(DEFAULT_CURRENCY_KEY \<mapsto> currency)"

datatype preference = All_in_primary | Recurring_monthly | Cycle_progress | Disabled_last

fun preference_key :: "preference \<Rightarrow> string" where
  "preference_key All_in_primary = ''displayAllAmountsInPrimaryCurrency''"
| "preference_key Recurring_monthly = ''displayRecurringAmountsAsMonthlyCost''"
| "preference_key Cycle_progress = ''displaySubscriptionCycleProgress''"
| "preference_key Disabled_last = ''displayDisabledSubscriptionsLast''"

definition getDisplay :: "preference \<Rightarrow> items \<Rightarrow> bool" where
  "getDisplay p ls \<longleftrightarrow> ls (preference_key p) = Some ''true''"

definition setDisplay :: "preference \<Rightarrow> bool \<Rightarrow> items \<Rightarrow> items" where
  "setDisplay p enabled ls = ls(preference_key p \<mapsto> (if enabled then ''true'' else ''false''))"

lemma preference_keys: "preference_key p = preference_key q \<longleftrightarrow> p = q"
  by (cases p; cases q) simp_all

lemma display_roundtrip: "getDisplay q (setDisplay p b ls) = (if q = p then b else getDisplay q ls)"
  by (auto simp: getDisplay_def setDisplay_def preference_keys)

lemma default_currency_kept: "c \<noteq> [] \<Longrightarrow> getDefaultCurrency fb (setDefaultCurrency c ls) = c"
  by (simp add: getDefaultCurrency_def setDefaultCurrency_def or_str_def)

subsection \<open>The caches are transparent\<close>

definition caches_ok :: "Intl \<Rightarrow> CurrencyCaches \<Rightarrow> bool" where
  "caches_ok intl s \<longleftrightarrow>
     (\<forall>l c. presetCurrencyCache s l = Some c \<longrightarrow> c = generate_presets intl l)
     \<and> (\<forall>l m. presetCurrencyMapCache s l = Some m \<longrightarrow> m = map_by_code (generate_presets intl l))"

lemma normalizeLocale_idem [simp]: "normalizeLocale (normalizeLocale l) = normalizeLocale l"
proof -
  have "trim ''en'' = ''en''" by code_simp
  then show ?thesis by (simp add: normalizeLocale_def or_str_def)
qed

lemma getPresetCurrencies_ok:
  "caches_ok intl s \<Longrightarrow> fst (getPresetCurrencies intl l s) = generate_presets intl (normalizeLocale l)
    \<and> caches_ok intl (snd (getPresetCurrencies intl l s))"
  by (auto simp: getPresetCurrencies_def caches_ok_def Let_def split: option.split)

lemma getPresetCurrencyMap_ok:
  assumes "caches_ok intl s"
  shows "fst (getPresetCurrencyMap intl l s) = map_by_code (generate_presets intl (normalizeLocale l))
    \<and> caches_ok intl (snd (getPresetCurrencyMap intl l s))"
proof (cases "presetCurrencyMapCache s (normalizeLocale l)")
  case None
  have g: "fst (getPresetCurrencies intl (normalizeLocale l) s) = generate_presets intl (normalizeLocale l)"
    "caches_ok intl (snd (getPresetCurrencies intl (normalizeLocale l) s))"
    using getPresetCurrencies_ok [OF assms, of "normalizeLocale l"] by simp_all
  with None show ?thesis by (simp add: getPresetCurrencyMap_def Let_def case_prod_beta caches_ok_def)
next
  case (Some m)
  with assms show ?thesis by (simp add: getPresetCurrencyMap_def caches_ok_def)
qed

lemma map_by_code_lookup:
  "distinct (map pc_code items) \<Longrightarrow> map_by_code items k = map_of (map (\<lambda>i. (pc_code i, i)) items) k"
proof -
  have "foldl (\<lambda>m item. m(pc_code item \<mapsto> item)) m items k =
      (case map_of (map (\<lambda>i. (pc_code i, i)) items) k of Some v \<Rightarrow> Some v | None \<Rightarrow> m k)"
    if "distinct (map pc_code items)" for m
    using that
  proof (induction items arbitrary: m)
    case (Cons i items)
    then have "pc_code i = k \<Longrightarrow> map_of (map (\<lambda>i. (pc_code i, i)) items) k = None"
      by (auto simp: map_of_eq_None_iff image_iff)
    with Cons show ?case by (auto split: option.split)
  qed simp
  then show "distinct (map pc_code items) \<Longrightarrow> ?thesis"
    by (simp add: map_by_code_def split: option.split)
qed

lemma preset_codes_distinct: "distinct (map pc_code (generate_presets intl l))"
proof -
  have "map pc_code (generate_presets intl l) = PRESET_CURRENCY_CODES" by (simp add: generate_presets_def o_def)
  moreover have "distinct PRESET_CURRENCY_CODES" by code_simp
  ultimately show ?thesis by simp
qed

text \<open>looking a currency up never depends on what was asked before: from caches that a sequence of
  lookups has filled, the answer is the preset generated for the trimmed language, found without regard to
  the case of the code, and the caches stay right.\<close>

theorem preset_lookup_transparent:
  assumes "caches_ok intl s"
  shows "fst (getPresetCurrencyMeta intl cur l s) =
      List.find (\<lambda>p. pc_code p = toUpperCase cur) (generate_presets intl (normalizeLocale l))
    \<and> caches_ok intl (snd (getPresetCurrencyMeta intl cur l s))"
proof -
  have f: "map_of (map (\<lambda>i. (pc_code i, i)) items) k = List.find (\<lambda>p. pc_code p = k) items" for items k
    by (induction items) auto
  show ?thesis
    using getPresetCurrencyMap_ok [OF assms, of l] map_by_code_lookup [OF preset_codes_distinct] f
    by (simp add: getPresetCurrencyMeta_def case_prod_beta Let_def)
qed

definition plain_intl :: Intl where
  "plain_intl = \<lparr>display_name = (\<lambda>l c. Some c), format_parts = (\<lambda>l c a n. [(Currency_part, ''$''), (Other_part, ''0'')])\<rparr>"

theorem preset_lookup_transparent_witness:
  "fst (getPresetCurrencyMeta plain_intl ''eur'' '' '' \<lparr>presetCurrencyCache = Map.empty, presetCurrencyMapCache = Map.empty\<rparr>)
   = Some \<lparr>pc_code = ''EUR'', pc_symbol = ''$'', pc_alias = ''EUR''\<rparr>"
proof -
  have "caches_ok plain_intl \<lparr>presetCurrencyCache = Map.empty, presetCurrencyMapCache = Map.empty\<rparr>"
    by (simp add: caches_ok_def)
  note p = preset_lookup_transparent [OF this, of "''eur''" "'' ''"]
  have "List.find (\<lambda>p. pc_code p = toUpperCase ''eur'') (generate_presets plain_intl (normalizeLocale '' '')) =
     Some \<lparr>pc_code = ''EUR'', pc_symbol = ''$'', pc_alias = ''EUR''\<rparr>"
    by code_simp
  with p show ?thesis by simp
qed

end
