(* ===== verification/Links.thy ===== *)
theory Links
  imports Interfaces
begin

text \<open>
  Which links and images the client renders: \<open>web/src/lib/safe-href.ts\<close> and
  \<open>web/src/lib/icon-proxy.ts\<close>.  The URL parser of the host is the parameter
  \<open>new_URL\<close>, with \<open>None\<close> for an invalid URL.
\<close>

record URL =
  url_protocol :: string
  url_hostname :: string
  url_href :: string
  url_origin :: string
  url_pathname :: string
  url_searchParams :: "string \<rightharpoonup> string"

definition hasUnsafeURLCharacter :: "string \<Rightarrow> bool" where
  "hasUnsafeURLCharacter v \<longleftrightarrow> list_ex (\<lambda>c. code c \<le> 0x20 \<or> code c = 0x7f) v"

definition safeHref :: "(string \<Rightarrow> URL option) \<Rightarrow> string option \<Rightarrow> string option" where
  "safeHref new_URL v =
     (case map_option trim v of
        None \<Rightarrow> None
      | Some trimmed \<Rightarrow>
          if trimmed = [] \<or> hasUnsafeURLCharacter trimmed then None
          else (case new_URL trimmed of
             None \<Rightarrow> None
           | Some parsed \<Rightarrow>
               if url_protocol parsed \<noteq> ''http:'' \<and> url_protocol parsed \<noteq> ''https:'' then None
               else if url_hostname parsed = [] then None
               else Some (url_href parsed)))"

datatype IconProxyProvider = Google | Icon_horse

fun provider_text :: "IconProxyProvider \<Rightarrow> string" where
  "provider_text Google = ''google''"
| "provider_text Icon_horse = ''icon-horse''"

definition managedIconProxyPathPrefix :: string where
  "managedIconProxyPathPrefix = ''/api/icon-proxy/''"

definition allowedIconProxyProviders :: "string set" where
  "allowedIconProxyProviders = {''google'', ''icon-horse''}"

text \<open>\<open>encode\<close> is the serialisation of \<open>URLSearchParams\<close> with one entry.\<close>

definition buildIconProxySuggestionURL :: "(string \<Rightarrow> string \<Rightarrow> string) \<Rightarrow> IconProxyProvider \<Rightarrow> string \<Rightarrow> string" where
  "buildIconProxySuggestionURL encode provider domain =
     managedIconProxyPathPrefix @ provider_text provider @ ''?'' @ encode ''domain'' domain"

definition isManagedIconProxyURL :: "(string \<Rightarrow> URL option) \<Rightarrow> string \<Rightarrow> bool" where
  "isManagedIconProxyURL new_URL v =
     (if \<not> startsWith v managedIconProxyPathPrefix then False
      else case new_URL v of
        None \<Rightarrow> False
      | Some parsed \<Rightarrow>
          if url_origin parsed \<noteq> ''https://subdux.local'' then False
          else let provider = drop (length managedIconProxyPathPrefix) (url_pathname parsed) in
            if provider \<notin> allowedIconProxyProviders then False
            else let domain = toLowerCase (trim (nullish (url_searchParams parsed ''domain'') [])) in
              if domain = [] \<or> js_includes domain ''://'' \<or> js_includes domain ''/'' then False
              else js_includes domain ''.'')"

definition isDirectExternalImageURL :: "string \<Rightarrow> bool" where
  "isDirectExternalImageURL v \<longleftrightarrow> startsWith v ''http://'' \<or> startsWith v ''https://''"

definition isRenderableImageURL :: "(string \<Rightarrow> URL option) \<Rightarrow> string \<Rightarrow> bool" where
  "isRenderableImageURL new_URL v \<longleftrightarrow> isDirectExternalImageURL v \<or> isManagedIconProxyURL new_URL v"

text \<open>a link that is rendered is a web link: when \<open>safeHref\<close> returns a text it is the
  \<open>href\<close> of an \<open>http\<close> or \<open>https\<close> URL with a host, parsed from the trimmed
  value, which has no control character and no blank in it; so no \<open>javascript:\<close> or
  \<open>data:\<close> link is ever rendered, whatever the URL parser does with hidden characters.\<close>

theorem safe_href_is_web_link:
  assumes "safeHref new_URL v = Some h"
  shows "\<exists>s u. v = Some s \<and> new_URL (trim s) = Some u \<and> h = url_href u
    \<and> (url_protocol u = ''http:'' \<or> url_protocol u = ''https:'') \<and> url_hostname u \<noteq> []
    \<and> {c \<in> set (trim s). code c \<le> 32 \<or> code c = 127} = {}"
  using assms
  by (auto simp: safeHref_def hasUnsafeURLCharacter_def list_ex_iff split: option.splits if_splits)

definition example_URL :: "string \<Rightarrow> URL option" where
  "example_URL s = (if s = ''https://a.b/'' then Some \<lparr>url_protocol = ''https:'', url_hostname = ''a.b'',
     url_href = ''https://a.b/'', url_origin = ''https://a.b'', url_pathname = ''/'', url_searchParams = Map.empty\<rparr> else None)"

theorem safe_href_is_web_link_witness:
  "\<exists>s u. Some '' https://a.b/'' = Some s \<and> example_URL (trim s) = Some u \<and> ''https://a.b/'' = url_href u
    \<and> (url_protocol u = ''http:'' \<or> url_protocol u = ''https:'') \<and> url_hostname u \<noteq> []
    \<and> {c \<in> set (trim s). code c \<le> 32 \<or> code c = 127} = {}"
proof (rule safe_href_is_web_link)
  show "safeHref example_URL (Some '' https://a.b/'') = Some ''https://a.b/''" by code_simp
qed

lemma js_includes_subset: "js_includes s p \<Longrightarrow> set p \<subseteq> set s"
  by (auto simp: js_includes_iff)

lemma managed_icon_domain:
  assumes "isManagedIconProxyURL new_URL v"
  shows "\<exists>u d. new_URL v = Some u \<and> url_searchParams u ''domain'' = Some d
    \<and> CHR ''/'' \<notin> set (trim d) \<and> CHR ''.'' \<in> set (trim d)"
proof -
  obtain u where u: "new_URL v = Some u"
    and d: "toLowerCase (trim (nullish (url_searchParams u ''domain'') [])) \<noteq> []"
      "\<not> js_includes (toLowerCase (trim (nullish (url_searchParams u ''domain'') []))) ''/''"
      "js_includes (toLowerCase (trim (nullish (url_searchParams u ''domain'') []))) ''.''"
    using assms by (auto simp: isManagedIconProxyURL_def Let_def split: option.splits if_splits)
  then obtain w where w: "url_searchParams u ''domain'' = Some w" by (cases "url_searchParams u ''domain''") auto
  have one: "js_includes s [c] \<longleftrightarrow> c \<in> set s" for s c
    unfolding js_includes_iff by (auto dest: split_list)
  have low: "low_char c = CHR ''/'' \<longleftrightarrow> c = CHR ''/''" "low_char c = CHR ''.'' \<longleftrightarrow> c = CHR ''.''" for c
  proof -
    have v: "code (CHR ''/'') = 47" "code (CHR ''.'') = 46" by (simp_all add: code_def)
    have "code (low_char c) = (if 65 \<le> code c \<and> code c \<le> 90 then code c + 32 else code c)"
      by (simp add: low_char_def)
    then show "low_char c = CHR ''/'' \<longleftrightarrow> c = CHR ''/''" "low_char c = CHR ''.'' \<longleftrightarrow> c = CHR ''.''"
      unfolding code_inject [symmetric] v by auto
  qed
  show ?thesis
    using u w d(2,3) by (auto simp: one toLowerCase_def image_iff low low [THEN eq_sym_conv [THEN trans]])
qed

end
