(* ===== verification/Lifecycle.thy ===== *)
theory Lifecycle
  imports Types
begin

text \<open>
  The lifecycle of a subscription, \<open>web/src/features/subscriptions/subscription-lifecycle.ts\<close>:
  how the client reads status, renewal mode and end date, with the defaults it assumes for
  records that lack them.
\<close>

definition getSubscriptionStatus :: "Subscription \<Rightarrow> SubscriptionStatus" where
  "getSubscriptionStatus s = nullish (sub_status s) Active"

definition isSubscriptionActive :: "Subscription \<Rightarrow> bool" where
  "isSubscriptionActive s \<longleftrightarrow> getSubscriptionStatus s = Active"

definition isSubscriptionEnded :: "Subscription \<Rightarrow> bool" where
  "isSubscriptionEnded s \<longleftrightarrow> getSubscriptionStatus s = Ended"

definition getSubscriptionRenewalMode :: "Subscription \<Rightarrow> SubscriptionRenewalMode" where
  "getSubscriptionRenewalMode s =
     (case sub_renewal_mode s of
        Some m \<Rightarrow> m
      | None \<Rightarrow>
          if sub_billing_type s = ''recurring'' \<and> isSubscriptionActive s then Auto_renew
          else if isSubscriptionEnded s then Cancel_at_period_end
          else Manual_renew)"

definition getSubscriptionEndsAt :: "Subscription \<Rightarrow> string option" where
  "getSubscriptionEndsAt s =
     (if truthy_str (sub_ends_at s) then sub_ends_at s
      else if isSubscriptionEnded s then sub_next_billing_date s else None)"

definition hasFutureRecurringSchedule :: "Subscription \<Rightarrow> bool" where
  "hasFutureRecurringSchedule s \<longleftrightarrow> sub_billing_type s = ''recurring''
     \<and> isSubscriptionActive s \<and> getSubscriptionRenewalMode s = Auto_renew"

definition hasFutureCharge :: "Subscription \<Rightarrow> bool" where
  "hasFutureCharge s \<longleftrightarrow> isSubscriptionActive s
     \<and> getSubscriptionRenewalMode s \<noteq> Cancel_at_period_end"

definition hasActiveRecurringCycle :: "Subscription \<Rightarrow> bool" where
  "hasActiveRecurringCycle s \<longleftrightarrow> sub_billing_type s = ''recurring'' \<and> isSubscriptionActive s"

lemmas lifecycle_defs = getSubscriptionStatus_def isSubscriptionActive_def isSubscriptionEnded_def
  getSubscriptionRenewalMode_def getSubscriptionEndsAt_def hasFutureRecurringSchedule_def
  hasFutureCharge_def hasActiveRecurringCycle_def

lemma active_or_ended: "isSubscriptionActive s \<longleftrightarrow> \<not> isSubscriptionEnded s"
  by (cases "getSubscriptionStatus s") (simp_all add: isSubscriptionActive_def isSubscriptionEnded_def)

lemma ended_no_charge: "isSubscriptionEnded s \<Longrightarrow> \<not> hasFutureCharge s"
  by (simp add: hasFutureCharge_def active_or_ended)

lemma schedule_imp_charge: "hasFutureRecurringSchedule s \<Longrightarrow> hasFutureCharge s \<and> hasActiveRecurringCycle s"
  by (simp add: hasFutureRecurringSchedule_def hasFutureCharge_def hasActiveRecurringCycle_def)

lemma recurring_charge_split:
  "sub_billing_type s = ''recurring'' \<Longrightarrow> hasFutureCharge s \<longleftrightarrow>
    hasFutureRecurringSchedule s \<or> (isSubscriptionActive s \<and> getSubscriptionRenewalMode s = Manual_renew)"
  by (cases "getSubscriptionRenewalMode s") (auto simp: hasFutureCharge_def hasFutureRecurringSchedule_def)

text \<open>the three views of a recurring subscription partition it: it has ended, or it is set to
  stop at the end of the period, or a future charge is due, and then it either renews by itself
  or waits for a manual renewal.\<close>

theorem lifecycle_partition:
  assumes "sub_billing_type s = ''recurring''"
  shows "(hasFutureCharge s \<longleftrightarrow>
      \<not> isSubscriptionEnded s \<and> getSubscriptionRenewalMode s \<noteq> Cancel_at_period_end)
    \<and> (hasFutureCharge s \<longleftrightarrow> hasFutureRecurringSchedule s
      \<or> (hasActiveRecurringCycle s \<and> getSubscriptionRenewalMode s = Manual_renew))
    \<and> (isSubscriptionEnded s \<longrightarrow> \<not> hasFutureCharge s \<and> \<not> hasFutureRecurringSchedule s
      \<and> (truthy_str (getSubscriptionEndsAt s) \<or> getSubscriptionEndsAt s = sub_next_billing_date s))"
  using assms recurring_charge_split [OF assms] schedule_imp_charge [of s] ended_no_charge [of s]
  by (auto simp: hasFutureCharge_def hasActiveRecurringCycle_def active_or_ended getSubscriptionEndsAt_def)

text \<open>A subscription as the server sends it, for the concrete instances of the theorems.\<close>

definition netflix :: Subscription where
  "netflix = \<lparr>sub_id = 7, sub_name = ''Netflix'', sub_amount = 12, sub_currency = ''USD'',
     sub_status = Some Active, sub_renewal_mode = Some Auto_renew, sub_ends_at = None,
     sub_billing_type = ''recurring'', sub_recurrence_type = ''interval'', sub_interval_count = Some 1,
     sub_interval_unit = ''month'', sub_monthly_day = None, sub_yearly_month = None, sub_yearly_day = None,
     sub_next_billing_date = Some ''2025-03-01'', sub_category = ''Video'', sub_category_id = Some 3,
     sub_payment_method_id = None, sub_notify_enabled = None, sub_notify_days_before = None,
     sub_icon = [], sub_url = [], sub_notes = [], sub_created_at = ''2025-01-01'', sub_updated_at = ''2025-01-01''\<rparr>"

lemma netflix_facts [simp]:
  "sub_billing_type netflix = ''recurring''" "getSubscriptionRenewalMode netflix = Auto_renew"
  "isSubscriptionActive netflix" "isSubscriptionEnded (netflix\<lparr>sub_status := Some Ended\<rparr>)"
  by (simp_all add: netflix_def lifecycle_defs)

theorem lifecycle_partition_witness:
  "hasFutureCharge netflix \<and> \<not> hasFutureCharge (netflix\<lparr>sub_status := Some Ended\<rparr>)"
  using lifecycle_partition [of netflix] lifecycle_partition [of "netflix\<lparr>sub_status := Some Ended\<rparr>"]
  by (simp add: active_or_ended [symmetric])

end
