(* ===== verification/DetailDrawer.thy ===== *)
theory DetailDrawer
  imports DetailCache EventFormatters Currencies Links Lifecycle
begin

text \<open>
  The drawer that shows one subscription,
  \<open>web/src/features/subscriptions/subscription-detail-drawer.tsx\<close>: the texts it derives, and its state over
  the cache of details.  Parameters: \<open>t\<close> is i18next's \<open>t\<close> with its named arguments, \<open>formatDay\<close> is
  \<open>formatDate\<close> in the language shown, \<open>money\<close> is \<open>formatCurrencyWithSymbol\<close> in that language.
\<close>

subsection \<open>subscription.ts\<close>

record SubscriptionDetailPriceHistoryItem =
  ph_event_id :: int
  ph_type :: SubscriptionEventType
  ph_amount :: rat
  ph_currency :: string
  ph_monthly_amount :: "rat option"
  ph_previous_amount :: "rat option"
  ph_previous_currency :: string
  ph_previous_monthly_amount :: "rat option"
  ph_changed_at :: string

record SubscriptionDetailNotificationLog =
  nl_id :: int
  nl_channel_type :: string
  nl_notify_date :: string
  nl_status :: string
  nl_error :: string
  nl_sent_at :: string

record SubscriptionDetailUpcomingCharge =
  ch_date :: string
  ch_amount :: rat
  ch_currency :: string
  ch_renewal_mode :: SubscriptionRenewalMode

record SubscriptionDetailCalendar =
  dc_path :: string
  dc_feed_path :: string
  dc_has_upcoming_event :: bool
  dc_next_event_date :: "string option"

record SubscriptionDetail =
  de_subscription :: Subscription
  de_timeline :: "SubscriptionDetailEvent list"
  de_price_history :: "SubscriptionDetailPriceHistoryItem list"
  de_notification_logs :: "SubscriptionDetailNotificationLog list"
  de_upcoming_charges :: "SubscriptionDetailUpcomingCharge list"
  de_calendar :: SubscriptionDetailCalendar

subsection \<open>Texts\<close>

datatype t_arg = T_num int | T_text string

type_synonym t_fun = "string \<Rightarrow> (string \<times> t_arg) list \<Rightarrow> string"

definition formatRecurrenceRule :: "Subscription \<Rightarrow> t_fun \<Rightarrow> string" where
  "formatRecurrenceRule sub t =
     (if sub_recurrence_type sub = ''interval'' \<and> nullish (sub_interval_count sub) 0 \<noteq> 0 \<and> sub_interval_unit sub \<noteq> []
      then t (''subscription.card.recurrence.interval.'' @ sub_interval_unit sub)
             [(''count'', T_num (the (sub_interval_count sub)))]
      else if sub_recurrence_type sub = ''monthly_date'' \<and> nullish (sub_monthly_day sub) 0 \<noteq> 0
      then t ''subscription.card.recurrence.monthlyDate'' [(''day'', T_num (the (sub_monthly_day sub)))]
      else if sub_recurrence_type sub = ''yearly_date'' \<and> nullish (sub_yearly_month sub) 0 \<noteq> 0
          \<and> nullish (sub_yearly_day sub) 0 \<noteq> 0
      then t ''subscription.card.recurrence.yearlyDate''
             [(''month'', T_num (the (sub_yearly_month sub))), (''day'', T_num (the (sub_yearly_day sub)))]
      else t ''subscription.detail.empty.none'' [])"

definition formatNotificationSetting :: "Subscription \<Rightarrow> t_fun \<Rightarrow> string" where
  "formatNotificationSetting sub t =
     (case sub_notify_enabled sub of
        None \<Rightarrow> t ''subscription.detail.info.notificationDefault'' []
      | Some False \<Rightarrow> t ''subscription.detail.info.notificationDisabled'' []
      | Some True \<Rightarrow>
          (case sub_notify_days_before sub of
             Some days \<Rightarrow> t ''subscription.detail.info.notificationEnabledWithDays'' [(''days'', T_num days)]
           | None \<Rightarrow> t ''subscription.detail.info.notificationEnabled'' []))"

record DisplayAmounts =
  da_amount :: rat
  da_currency :: string
  da_previousAmount :: "rat option"
  da_previousCurrency :: string

definition priceHistoryDisplayAmounts :: "SubscriptionDetailPriceHistoryItem \<Rightarrow> DisplayAmounts" where
  "priceHistoryDisplayAmounts item =
     (let hasMonthlyOnlyPriceChange = ph_monthly_amount item \<noteq> None \<and> ph_previous_monthly_amount item \<noteq> None
            \<and> ph_monthly_amount item \<noteq> ph_previous_monthly_amount item
            \<and> (ph_previous_amount item = None \<or> ph_previous_amount item = Some (ph_amount item));
          previousCurrency = or_str (ph_previous_currency item) (ph_currency item)
      in if hasMonthlyOnlyPriceChange
         then \<lparr>da_amount = the (ph_monthly_amount item), da_currency = ph_currency item,
               da_previousAmount = ph_previous_monthly_amount item, da_previousCurrency = previousCurrency\<rparr>
         else \<lparr>da_amount = ph_amount item, da_currency = ph_currency item,
               da_previousAmount = ph_previous_amount item, da_previousCurrency = previousCurrency\<rparr>)"

text \<open>\<open>value.split(/[_-]/)\<close>\<close>

fun split_marks :: "string \<Rightarrow> string list" where
  "split_marks [] = [[]]"
| "split_marks (c # s) =
     (if c = CHR ''_'' \<or> c = CHR ''-'' then [] # split_marks s
      else (c # hd (split_marks s)) # tl (split_marks s))"

fun capitalised :: "string \<Rightarrow> string" where
  "capitalised [] = []"
| "capitalised (c # s) = toUpperCase [c] @ s"

fun join_with :: "string \<Rightarrow> string list \<Rightarrow> string" where
  "join_with sep [] = []"
| "join_with sep [x] = x"
| "join_with sep (x # y # xs) = x @ sep @ join_with sep (y # xs)"

definition channelTypeLabel :: "string \<Rightarrow> string" where
  "channelTypeLabel v = (if v = [] then [] else join_with '' '' (map capitalised (filter (\<lambda>p. p \<noteq> []) (split_marks v))))"

text \<open>The amount in a currency, with the symbol of the subscription's own currency where they agree.\<close>

definition drawer_amount ::
  "(rat \<Rightarrow> string \<Rightarrow> string option \<Rightarrow> string) \<Rightarrow> Subscription \<Rightarrow> string option \<Rightarrow> rat \<Rightarrow> string option \<Rightarrow> string" where
  "drawer_amount money active currencySymbol amount cur =
     (let cur = nullish cur (sub_currency active)
      in money amount cur (if toUpperCase cur = toUpperCase (sub_currency active) then currencySymbol else None))"

definition is_ending :: "Subscription \<Rightarrow> bool" where
  "is_ending sub \<longleftrightarrow> getSubscriptionRenewalMode sub = Cancel_at_period_end \<and> truthy_str (getSubscriptionEndsAt sub)"

definition day_or :: "(string \<Rightarrow> string) \<Rightarrow> string \<Rightarrow> string option \<Rightarrow> string" where
  "day_or formatDay none v = (if truthy_str v then formatDay (the v) else none)"

text \<open>A tile of the overview: its value and its detail.\<close>

definition OverviewFallback :: "t_fun \<Rightarrow> (string \<Rightarrow> string) \<Rightarrow> Subscription \<Rightarrow> (string \<times> string) list" where
  "OverviewFallback t formatDay sub =
     (let isEnding = is_ending sub;
          nextSummaryDate = (if isEnding then getSubscriptionEndsAt sub else sub_next_billing_date sub)
      in [(day_or formatDay (t ''subscription.detail.empty.none'' []) nextSummaryDate,
           if isEnding then t ''subscription.detail.summary.endingAtPeriodEnd'' []
           else t ''subscription.detail.empty.noUpcomingCharges'' []),
          (t (''subscription.card.status.'' @ status_text (nullish (sub_status sub) Active)) [],
           t (''subscription.card.renewalMode.'' @ renewal_text (getSubscriptionRenewalMode sub)) [])])"

definition Overview ::
  "t_fun \<Rightarrow> (string \<Rightarrow> string) \<Rightarrow> (rat \<Rightarrow> string option \<Rightarrow> string) \<Rightarrow> SubscriptionDetail \<Rightarrow> (string \<times> string) list" where
  "Overview t formatDay formatAmount detail =
     (let sub = de_subscription detail;
          none = t ''subscription.detail.empty.none'' [];
          lifecycleDetail =
            (if sub_status sub = Some Ended \<and> truthy_str (sub_ends_at sub)
             then t ''subscription.card.endedOn'' [(''date'', T_text (formatDay (the (sub_ends_at sub))))]
             else case sub_renewal_mode sub of
                 Some m \<Rightarrow> t (''subscription.card.renewalMode.'' @ renewal_text m) [] | None \<Rightarrow> [])
      in [case de_upcoming_charges detail of
            c # _ \<Rightarrow> (formatDay (ch_date c), formatAmount (ch_amount c) (Some (ch_currency c)))
          | [] \<Rightarrow> (none, t ''subscription.detail.empty.noUpcomingCharges'' []),
          (t (''subscription.card.status.'' @ (case sub_status sub of Some s \<Rightarrow> status_text s | None \<Rightarrow> ''undefined'')) [],
           lifecycleDetail),
          (case de_timeline detail of e # _ \<Rightarrow> formatDay (ev_changed_at e) | [] \<Rightarrow> none,
           case de_notification_logs detail of
             l # _ \<Rightarrow> t ''subscription.detail.summary.lastNotification'' [(''channel'', T_text (nl_channel_type l))]
           | [] \<Rightarrow> t ''subscription.detail.empty.noNotifications'' [])])"

text \<open>The rows of \<open>DetailInfoPanel\<close>: a label, a value and, for the address, the link.\<close>

record InfoRow =
  ir_label :: string
  ir_value :: string
  ir_href :: "string option"

definition trimmed_or :: "string option \<Rightarrow> string \<Rightarrow> string" where
  "trimmed_or v d = (case v of None \<Rightarrow> d | Some s \<Rightarrow> or_str (trim s) d)"

definition DetailInfoPanel ::
  "t_fun \<Rightarrow> (string \<Rightarrow> string) \<Rightarrow> (rat \<Rightarrow> string option \<Rightarrow> string) \<Rightarrow> (string \<Rightarrow> URL option) \<Rightarrow> string option
   \<Rightarrow> string option \<Rightarrow> SubscriptionDetail \<Rightarrow> InfoRow list" where
  "DetailInfoPanel t formatDay formatAmount new_URL categoryName paymentMethodName detail =
     (let sub = de_subscription detail;
          none = t ''subscription.detail.empty.none'' [];
          info = (\<lambda>label v. \<lparr>ir_label = t (''subscription.detail.info.'' @ label) [], ir_value = v, ir_href = None\<rparr>);
          formattedUrl = trim (sub_url sub);
          isEnding = is_ending sub
      in [info ''amount'' (formatAmount (sub_amount sub) (Some (sub_currency sub))),
          info ''recurrence'' (formatRecurrenceRule sub t),
          (if isEnding then info ''periodEndDate'' (formatDay (the (getSubscriptionEndsAt sub)))
           else info ''nextBillingDate'' (day_or formatDay none (sub_next_billing_date sub))),
          info ''status'' (t (''subscription.card.status.''
            @ (case sub_status sub of Some s \<Rightarrow> status_text s | None \<Rightarrow> ''undefined'')) []),
          info ''renewalMode'' (t (''subscription.card.renewalMode.''
            @ (case sub_renewal_mode sub of Some m \<Rightarrow> renewal_text m | None \<Rightarrow> ''undefined'')) []),
          info ''endsAt'' (day_or formatDay none (sub_ends_at sub)),
          info ''category'' (trimmed_or categoryName (or_str (trim (sub_category sub)) none)),
          info ''paymentMethod'' (trimmed_or paymentMethodName none),
          info ''notification'' (formatNotificationSetting sub t),
          info ''createdAt'' (day_or formatDay none (Some (sub_created_at sub))),
          info ''updatedAt'' (day_or formatDay none (Some (sub_updated_at sub))),
          (info ''url'' (or_str formattedUrl none))\<lparr>ir_href := safeHref new_URL (Some formattedUrl)\<rparr>,
          info ''notes'' (or_str (trim (sub_notes sub)) none)])"

text \<open>The rows of the tabs.  The formatters of the change history take i18next's default value alone.\<close>

definition as_translator :: "t_fun \<Rightarrow> translator" where
  "as_translator t = (\<lambda>key d. t key (case d of None \<Rightarrow> [] | Some v \<Rightarrow> [(''defaultValue'', T_text v)]))"

record TimelineRow =
  tr_type :: string
  tr_date :: string
  tr_fields :: string
  tr_amounts :: string
  tr_changes :: "SubscriptionEventChangeRow list"

definition amount_change_of :: "SubscriptionDetailEvent \<Rightarrow> EventAmountChange" where
  "amount_change_of e = \<lparr>ac_new_amount = ev_new_amount e, ac_new_currency = Some (ev_new_currency e),
     ac_previous_amount = ev_previous_amount e, ac_previous_currency = Some (ev_previous_currency e)\<rparr>"

definition TimelineItem ::
  "t_fun \<Rightarrow> (string \<Rightarrow> string) \<Rightarrow> (rat \<Rightarrow> string option \<Rightarrow> string) \<Rightarrow> SubscriptionDetailEvent \<Rightarrow> TimelineRow" where
  "TimelineItem t formatDay formatAmount item =
     \<lparr>tr_type = subscriptionEventTypeLabel (event_type_text (ev_type item)) (as_translator t),
      tr_date = formatDay (ev_changed_at item),
      tr_fields = join_with '', '' (map (\<lambda>field. subscriptionEventFieldLabel field (as_translator t)) (ev_changed_fields item)),
      tr_amounts = formatSubscriptionEventAmountChange (amount_change_of item) formatAmount,
      tr_changes = subscriptionDetailEventChangeRows item formatAmount formatDay (as_translator t)\<rparr>"

definition PriceHistoryPanel ::
  "t_fun \<Rightarrow> (string \<Rightarrow> string) \<Rightarrow> (rat \<Rightarrow> string option \<Rightarrow> string) \<Rightarrow> SubscriptionDetailPriceHistoryItem list
   \<Rightarrow> (string \<times> string \<times> string) list" where
  "PriceHistoryPanel t formatDay formatAmount items =
     map (\<lambda>item. let amounts = priceHistoryDisplayAmounts item in
       (formatAmount (da_amount amounts) (Some (da_currency amounts)),
        formatDay (ph_changed_at item),
        case da_previousAmount amounts of
          Some a \<Rightarrow> t ''subscription.detail.prices.from''
            [(''amount'', T_text (formatAmount a (Some (da_previousCurrency amounts))))]
        | None \<Rightarrow> subscriptionEventTypeLabel (event_type_text (ph_type item)) (as_translator t))) items"

record NotificationRow =
  nr_channel :: string
  nr_status :: string
  nr_error :: "string option"
  nr_notify_date :: string
  nr_sent_at :: string

definition NotificationPanel :: "t_fun \<Rightarrow> (string \<Rightarrow> string) \<Rightarrow> SubscriptionDetailNotificationLog list \<Rightarrow> NotificationRow list" where
  "NotificationPanel t formatDay logs =
     map (\<lambda>log. \<lparr>nr_channel = channelTypeLabel (nl_channel_type log),
       nr_status = (if nl_status log = ''sent'' then t ''subscription.detail.notifications.statusSent'' []
          else t ''subscription.detail.notifications.statusFailed'' []),
       nr_error = (if nl_error log = [] then None else Some (nl_error log)),
       nr_notify_date = formatDay (nl_notify_date log), nr_sent_at = formatDay (nl_sent_at log)\<rparr>) logs"

text \<open>The upcoming charges: the line about the calendar and the rows.\<close>

definition UpcomingChargesPanel ::
  "t_fun \<Rightarrow> (string \<Rightarrow> string) \<Rightarrow> (rat \<Rightarrow> string option \<Rightarrow> string) \<Rightarrow> SubscriptionDetail
   \<Rightarrow> (string \<times> (string \<times> string \<times> string) list) option" where
  "UpcomingChargesPanel t formatDay formatAmount detail =
     (if de_upcoming_charges detail = [] then None
      else Some
        (if truthy_str (dc_next_event_date (de_calendar detail))
         then t ''subscription.detail.calendar.next''
           [(''date'', T_text (formatDay (the (dc_next_event_date (de_calendar detail)))))]
         else t ''subscription.detail.calendar.noEvent'' [],
         map (\<lambda>charge. (formatDay (ch_date charge),
            t (''subscription.card.renewalMode.'' @ renewal_text (ch_renewal_mode charge)) [],
            formatAmount (ch_amount charge) (Some (ch_currency charge)))) (de_upcoming_charges detail)))"

subsection \<open>State\<close>

text \<open>
  The drawer while it is open.  Its effect reads the cache and asks for the detail; \<open>dw_source\<close> is what
  that returned, a detail or a promise of the cache, until its callbacks have run.  A closed drawer is
  unmounted, and a change of the subscription starts the effect anew, so no callback of an earlier one runs.
\<close>

record Drawer =
  dw_sub :: Subscription
  dw_detail :: "SubscriptionDetail option"
  dw_loading :: bool
  dw_error :: string
  dw_source :: "SubscriptionDetail load_result option"

definition mount_drawer :: "int \<Rightarrow> Subscription \<Rightarrow> SubscriptionDetail DetailState \<Rightarrow> Drawer \<times> SubscriptionDetail DetailState" where
  "mount_drawer now sub s =
     (let (cached, s) = getCachedSubscriptionDetail (sub_id sub) now s;
          (source, s) = loadSubscriptionDetail (sub_id sub) now s
      in (\<lparr>dw_sub = sub, dw_detail = cached, dw_loading = (cached = None), dw_error = [], dw_source = Some source\<rparr>, s))"

definition settle_drawer :: "SubscriptionDetail DetailState \<Rightarrow> Drawer \<Rightarrow> Drawer" where
  "settle_drawer s d =
     (case dw_source d of
        Some (Resolved_now x) \<Rightarrow> d\<lparr>dw_detail := Some x, dw_loading := False, dw_source := None\<rparr>
      | Some (Pending_promise n) \<Rightarrow>
          (case pr_state (promises s ! n) of
             Finally_done (Inr x) \<Rightarrow> d\<lparr>dw_detail := Some x, dw_loading := False, dw_source := None\<rparr>
           | Finally_done (Inl msg) \<Rightarrow> d\<lparr>dw_error := msg, dw_loading := False, dw_source := None\<rparr>
           | _ \<Rightarrow> d)
      | None \<Rightarrow> d)"

definition activeSubscription :: "Drawer \<Rightarrow> Subscription" where
  "activeSubscription d = (case dw_detail d of Some x \<Rightarrow> de_subscription x | None \<Rightarrow> dw_sub d)"

text \<open>What the body of the drawer shows, and the counts of its tabs.\<close>

datatype drawer_content =
    Detail_skeleton
  | Error_panel string
  | Fallback_overview Subscription
  | Detail_panels SubscriptionDetail

definition drawer_body :: "Drawer \<Rightarrow> drawer_content" where
  "drawer_body d =
     (if dw_loading d then Detail_skeleton
      else if dw_error d \<noteq> [] then Error_panel (dw_error d)
      else case dw_detail d of None \<Rightarrow> Fallback_overview (activeSubscription d) | Some x \<Rightarrow> Detail_panels x)"

definition tabsSummary :: "Drawer \<Rightarrow> nat \<times> nat \<times> nat \<times> nat" where
  "tabsSummary d =
     (case dw_detail d of
        None \<Rightarrow> (0, 0, 0, 0)
      | Some x \<Rightarrow> (length (de_timeline x), length (de_price_history x), length (de_notification_logs x),
                  length (de_upcoming_charges x)))"

lemma mount_drawer_details:
  "snd (mount_drawer now sub s) = foldl detail_step s [Get (sub_id sub) now, Load (sub_id sub) now]"
  by (simp add: mount_drawer_def preloadSubscriptionDetail_def case_prod_beta)

text \<open>After an invalidation no request of the id is left.\<close>

lemma outdated_no_request:
  assumes "outdated i s" and ok: "details_ok s"
  shows "detailRequests s i = None"
proof (cases "detailRequests s i")
  case (Some n)
  then have "n < length (promises s)" "pr_id (promises s ! n) = i" "pr_version (promises s ! n) = detailVersion i s"
    using ok by (auto simp: details_ok_def)
  moreover from this have "pr_version (promises s ! n) < detailVersion i s"
    using assms(1) nth_mem [of n "promises s"] by (auto simp: outdated_def)
  ultimately show ?thesis by simp
qed

text \<open>A detail for examples.\<close>

definition netflix_detail :: SubscriptionDetail where
  "netflix_detail = \<lparr>de_subscription = netflix, de_timeline = [], de_price_history = [], de_notification_logs = [],
     de_upcoming_charges = [],
     de_calendar = \<lparr>dc_path = [], dc_feed_path = [], dc_has_upcoming_event = False, dc_next_event_date = None\<rparr>\<rparr>"

end
