(* ===== verification/Amounts.thy ===== *)
theory Amounts
  imports Lifecycle
begin

text \<open>
  Amounts that the dashboard compares, \<open>web/src/features/dashboard/dashboard-amount-utils.ts\<close>:
  conversion into the preferred currency and the monthly share of a recurring amount.
\<close>

definition rate_key :: "string \<Rightarrow> string \<Rightarrow> string" where
  "rate_key source target = source @ ''->'' @ target"

definition getAmountInTargetCurrency ::
  "rat \<Rightarrow> string \<Rightarrow> string \<Rightarrow> (string \<rightharpoonup> js_number) \<Rightarrow> rat" where
  "getAmountInTargetCurrency amount sourceCurrency targetCurrency exchangeRates =
     (let normalizedSource = toUpperCase (trim sourceCurrency);
          normalizedTarget = toUpperCase (trim targetCurrency)
      in if normalizedSource = [] \<or> normalizedTarget = [] \<or> normalizedSource = normalizedTarget
         then amount
         else case exchangeRates (rate_key normalizedSource normalizedTarget) of
                Some (Num rate) \<Rightarrow> if rate \<le> 0 then amount else amount * rate
              | _ \<Rightarrow> amount)"

definition getMonthlyAmountFactor :: "Subscription \<Rightarrow> rat option" where
  "getMonthlyAmountFactor s =
     (if sub_billing_type s \<noteq> ''recurring'' then None
      else if sub_recurrence_type s = ''interval'' then
        (case sub_interval_count s of
           None \<Rightarrow> None
         | Some intervalCount \<Rightarrow>
             if intervalCount \<le> 0 then None
             else if sub_interval_unit s = ''day'' then Some (30436875 / 1000000 / of_int intervalCount)
             else if sub_interval_unit s = ''week'' then Some (4348125 / 1000000 / of_int intervalCount)
             else if sub_interval_unit s = ''month'' then Some (1 / of_int intervalCount)
             else if sub_interval_unit s = ''year'' then Some (1 / (12 * of_int intervalCount))
             else None)
      else if sub_recurrence_type s = ''monthly_date'' then Some 1
      else if sub_recurrence_type s = ''yearly_date'' then Some (1 / 12)
      else None)"

definition getComparableSubscriptionAmount ::
  "Subscription \<Rightarrow> string \<Rightarrow> (string \<rightharpoonup> js_number) \<Rightarrow> rat" where
  "getComparableSubscriptionAmount s preferredCurrency exchangeRates =
     (let amountInTargetCurrency =
        getAmountInTargetCurrency (sub_amount s) (sub_currency s) preferredCurrency exchangeRates
      in case getMonthlyAmountFactor s of
           Some f \<Rightarrow> if f \<noteq> 0 then amountInTargetCurrency * f else amountInTargetCurrency
         | None \<Rightarrow> amountInTargetCurrency)"

lemma monthly_factor_pos: "getMonthlyAmountFactor s = Some f \<Longrightarrow> 0 < f"
  by (auto simp: getMonthlyAmountFactor_def split: if_splits option.splits)

lemma comparable_amount:
  "getComparableSubscriptionAmount s c r =
     getAmountInTargetCurrency (sub_amount s) (sub_currency s) c r * nullish (getMonthlyAmountFactor s) 1"
  using monthly_factor_pos by (fastforce simp: getComparableSubscriptionAmount_def Let_def split: option.splits)

lemma target_amount_factor:
  "\<exists>q > 0. \<forall>a. getAmountInTargetCurrency a s t r = a * q"
proof -
  let ?k = "rate_key (toUpperCase (trim s)) (toUpperCase (trim t))"
  show ?thesis
  proof (cases "\<exists>rate. r ?k = Some (Num rate) \<and> 0 < rate \<and> toUpperCase (trim s) \<noteq> []
      \<and> toUpperCase (trim t) \<noteq> [] \<and> toUpperCase (trim s) \<noteq> toUpperCase (trim t)")
    case True
    then obtain rate where "r ?k = Some (Num rate)" "0 < rate" "toUpperCase (trim s) \<noteq> []"
      "toUpperCase (trim t) \<noteq> []" "toUpperCase (trim s) \<noteq> toUpperCase (trim t)" by blast
    then show ?thesis by (intro exI [of _ rate]) (simp add: getAmountInTargetCurrency_def Let_def)
  next
    case False
    then have "getAmountInTargetCurrency a s t r = a * 1" for a
      by (auto simp: getAmountInTargetCurrency_def Let_def not_le split: option.splits js_number.splits)
    then show ?thesis by (intro exI [of _ 1]) simp
  qed
qed

text \<open>the comparable amount is the amount times one positive factor that only depends on the
  currencies, the rates and the recurrence, so for two subscriptions that agree on those,
  ordering by the comparable amount is ordering by the amount, and no sign ever changes.\<close>

theorem comparable_amount_monotone:
  assumes "sub_currency a = sub_currency b" and "getMonthlyAmountFactor a = getMonthlyAmountFactor b"
  shows "getComparableSubscriptionAmount a c r \<le> getComparableSubscriptionAmount b c r
    \<longleftrightarrow> sub_amount a \<le> sub_amount b"
proof -
  obtain q where q: "0 < q" "\<And>x. getAmountInTargetCurrency x (sub_currency a) c r = x * q"
    using target_amount_factor by blast
  let ?f = "nullish (getMonthlyAmountFactor a) 1"
  have f: "0 < ?f" using monthly_factor_pos [of a] by (cases "getMonthlyAmountFactor a") simp_all
  have "getComparableSubscriptionAmount a c r = sub_amount a * (q * ?f)"
    "getComparableSubscriptionAmount b c r = sub_amount b * (q * ?f)"
    using q(2) assms by (simp_all add: comparable_amount)
  with q(1) f show ?thesis by simp
qed

theorem comparable_amount_monotone_witness:
  "getComparableSubscriptionAmount netflix ''EUR'' Map.empty
     \<le> getComparableSubscriptionAmount (netflix\<lparr>sub_amount := 20\<rparr>) ''EUR'' Map.empty"
  by (subst comparable_amount_monotone) (simp_all add: netflix_def getMonthlyAmountFactor_def)

lemma yearly_is_twelve_months:
  assumes "sub_billing_type s = ''recurring''" and "sub_recurrence_type s = ''interval''" and "0 < n"
  shows "getMonthlyAmountFactor (s\<lparr>sub_interval_unit := ''year'', sub_interval_count := Some n\<rparr>) =
    getMonthlyAmountFactor (s\<lparr>sub_interval_unit := ''month'', sub_interval_count := Some (12 * n)\<rparr>)"
    and "getMonthlyAmountFactor (s\<lparr>sub_interval_unit := ''day'', sub_interval_count := Some (7 * n)\<rparr>) =
    getMonthlyAmountFactor (s\<lparr>sub_interval_unit := ''week'', sub_interval_count := Some n\<rparr>)"
  using assms by (simp_all add: getMonthlyAmountFactor_def)

end
