(* ===== verification/DashboardFilters.thy ===== *)
theory DashboardFilters
  imports Amounts "HOL-Library.Sublist"
begin

text \<open>
  The filtered and sorted list of the dashboard,
  \<open>web/src/features/dashboard/hooks/use-dashboard-filters.ts\<close>, with the labels of
  \<open>web/src/lib/preset-labels.ts\<close>.  The hook's state is the record \<open>FilterState\<close>; each
  handler is a function on it, and \<open>filter_step\<close> dispatches them.

  Parameters of the host: \<open>t\<close> looks a translation key up, \<open>collation_key\<close> is the
  sort key of the language (\<open>localeCompare\<close> compares two strings as their collation keys
  compare), and \<open>date_ts\<close> is \<open>new Date(s).getTime()\<close> with \<open>None\<close> for NaN.
\<close>

subsection \<open>preset-labels.ts\<close>

definition resolvePresetLabel :: "(string \<Rightarrow> string option) \<Rightarrow> string \<Rightarrow> string option" where
  "resolvePresetLabel t key =
     (let translated = trim (nullish (t key) []) in if translated \<noteq> [] then Some translated else None)"

definition getCategoryLabel :: "(string \<Rightarrow> string option) \<Rightarrow> Category \<Rightarrow> string" where
  "getCategoryLabel t c =
     (if truthy_str (cat_system_key c) \<and> \<not> cat_name_customized c
      then nullish (resolvePresetLabel t (''presets.category.'' @ the (cat_system_key c))) (cat_name c)
      else cat_name c)"

definition getPaymentMethodLabel :: "(string \<Rightarrow> string option) \<Rightarrow> PaymentMethod \<Rightarrow> string" where
  "getPaymentMethodLabel t m =
     (if truthy_str (pm_system_key m) \<and> \<not> pm_name_customized m
      then nullish (resolvePresetLabel t (''presets.payment_method.'' @ the (pm_system_key m))) (pm_name m)
      else pm_name m)"

lemma customized_label: "cat_name_customized c \<Longrightarrow> getCategoryLabel t c = cat_name c"
  by (simp add: getCategoryLabel_def)

lemma category_label_ne: "cat_name c \<noteq> [] \<Longrightarrow> getCategoryLabel t c \<noteq> []"
  by (auto simp: getCategoryLabel_def resolvePresetLabel_def Let_def nullish_def)

subsection \<open>State\<close>

datatype SortField = By_next_billing_date | By_name | By_created_at | By_amount

datatype SortDirection = Asc | Desc

definition defaultSortField :: SortField where
  "defaultSortField = By_next_billing_date"

definition defaultSortDirection :: SortDirection where
  "defaultSortDirection = Asc"

record FilterState =
  searchTerm :: string
  selectedStatuses :: "SubscriptionStatus set"
  selectedCategories :: "string set"
  includeNoCategory :: bool
  selectedPaymentMethodIDs :: "int set"
  selectedRenewalModes :: "SubscriptionRenewalMode set"
  includeNoPaymentMethod :: bool
  sortField :: SortField
  sortDirection :: SortDirection

record 'k FilterOptions =
  op_categories :: "Category list"
  op_disabled_last :: bool
  op_exchangeRates :: "string \<rightharpoonup> js_number"
  op_collation_key :: "string \<Rightarrow> 'k"
  op_date_ts :: "string \<Rightarrow> int option"
  op_paymentMethods :: "PaymentMethod list"
  op_preferredCurrency :: string
  op_subscriptions :: "Subscription list"
  op_t :: "string \<Rightarrow> string option"

definition initial_filters :: FilterState where
  "initial_filters = \<lparr>searchTerm = [], selectedStatuses = {Active}, selectedCategories = {},
     includeNoCategory = False, selectedPaymentMethodIDs = {}, selectedRenewalModes = {},
     includeNoPaymentMethod = False, sortField = defaultSortField, sortDirection = defaultSortDirection\<rparr>"

subsection \<open>Names and options\<close>

text \<open>\<open>new Map(xs.map(x => [key, x]))\<close>: a later entry replaces an earlier one.\<close>

definition map_of_list :: "('a \<Rightarrow> 'b) \<Rightarrow> 'a list \<Rightarrow> 'b \<rightharpoonup> 'a" where
  "map_of_list key xs = foldl (\<lambda>m x. m(key x \<mapsto> x)) Map.empty xs"

definition getSubscriptionCategoryName :: "'k FilterOptions \<Rightarrow> Subscription \<Rightarrow> string" where
  "getSubscriptionCategoryName opt sub =
     (case Option.bind (sub_category_id sub) (map_of_list cat_id (op_categories opt)) of
        Some category \<Rightarrow> getCategoryLabel (op_t opt) category
      | None \<Rightarrow> trim (sub_category sub))"

definition toTimestamp :: "(string \<Rightarrow> int option) \<Rightarrow> string option \<Rightarrow> int" where
  "toTimestamp date_ts value =
     (case value of None \<Rightarrow> 9007199254740991
      | Some v \<Rightarrow> if v = [] then 9007199254740991 else nullish (date_ts v) 9007199254740991)"

definition localeCompare :: "(string \<Rightarrow> 'k::linorder) \<Rightarrow> string \<Rightarrow> string \<Rightarrow> rat" where
  "localeCompare ck a b = (if ck a < ck b then -1 else if ck b < ck a then 1 else 0)"

fun dedup :: "'a list \<Rightarrow> 'a list" where
  "dedup [] = []"
| "dedup (x # xs) = x # filter (\<lambda>y. y \<noteq> x) (dedup xs)"

definition categoryOptions :: "('k::linorder) FilterOptions \<Rightarrow> string list" where
  "categoryOptions opt =
     js_sort (localeCompare (op_collation_key opt))
       (dedup (filter (\<lambda>c. c \<noteq> []) (map (getSubscriptionCategoryName opt) (op_subscriptions opt))))"

definition paymentMethodLabelMap :: "'k FilterOptions \<Rightarrow> int \<rightharpoonup> string" where
  "paymentMethodLabelMap opt =
     (\<lambda>i. map_option (getPaymentMethodLabel (op_t opt)) (map_of_list pm_id (op_paymentMethods opt) i))"

subsection \<open>Filtering\<close>

definition join_space :: "string \<Rightarrow> string \<Rightarrow> string \<Rightarrow> string" where
  "join_space a b c = a @ '' '' @ b @ '' '' @ c"

definition matches_filters :: "'k FilterOptions \<Rightarrow> FilterState \<Rightarrow> Subscription \<Rightarrow> bool" where
  "matches_filters opt st sub =
     (let normalizedSearchTerm = toLowerCase (trim (searchTerm st));
          categoryName = getSubscriptionCategoryName opt sub;
          hasCategory = trim categoryName \<noteq> []
      in
      if normalizedSearchTerm \<noteq> []
         \<and> \<not> js_includes (toLowerCase (join_space (sub_name sub) categoryName (sub_notes sub)))
               normalizedSearchTerm then False
      else if getSubscriptionStatus sub \<notin> selectedStatuses st then False
      else if selectedRenewalModes st \<noteq> {} \<and> sub_billing_type sub = ''recurring''
         \<and> getSubscriptionRenewalMode sub \<notin> selectedRenewalModes st then False
      else if (selectedCategories st \<noteq> {} \<or> includeNoCategory st)
         \<and> (if hasCategory then categoryName \<notin> selectedCategories st else \<not> includeNoCategory st)
         then False
      else if (selectedPaymentMethodIDs st \<noteq> {} \<or> includeNoPaymentMethod st)
         \<and> (case sub_payment_method_id sub of None \<Rightarrow> \<not> includeNoPaymentMethod st
            | Some i \<Rightarrow> i \<notin> selectedPaymentMethodIDs st) then False
      else True)"

subsection \<open>Sorting\<close>

definition compareSubscriptions ::
  "('k::linorder) FilterOptions \<Rightarrow> SortField \<Rightarrow> Subscription \<Rightarrow> Subscription \<Rightarrow> rat" where
  "compareSubscriptions opt field a b =
     (if field = By_name then localeCompare (op_collation_key opt) (sub_name a) (sub_name b)
      else if field = By_created_at then
        of_int (toTimestamp (op_date_ts opt) (Some (sub_created_at a))
          - toTimestamp (op_date_ts opt) (Some (sub_created_at b)))
      else if field = By_amount then
        getComparableSubscriptionAmount a (op_preferredCurrency opt) (op_exchangeRates opt)
          - getComparableSubscriptionAmount b (op_preferredCurrency opt) (op_exchangeRates opt)
      else of_int (toTimestamp (op_date_ts opt) (sub_next_billing_date a)
          - toTimestamp (op_date_ts opt) (sub_next_billing_date b)))"

definition sort_compare ::
  "('k::linorder) FilterOptions \<Rightarrow> SortField \<Rightarrow> SortDirection \<Rightarrow> Subscription \<Rightarrow> Subscription \<Rightarrow> rat" where
  "sort_compare opt field dir a b =
     (if op_disabled_last opt \<and> getSubscriptionStatus a \<noteq> getSubscriptionStatus b
      then (if getSubscriptionStatus a = Active then -1 else 1)
      else let result = compareSubscriptions opt field a b in
        if result = 0 then
          (let tieBreaker = of_int (sub_id a - sub_id b) in if dir = Asc then tieBreaker else - tieBreaker)
        else if dir = Asc then result else - result)"

definition filteredSubscriptions :: "('k::linorder) FilterOptions \<Rightarrow> FilterState \<Rightarrow> Subscription list" where
  "filteredSubscriptions opt st =
     js_sort (sort_compare opt (sortField st) (sortDirection st))
       (filter (matches_filters opt st) (op_subscriptions opt))"

definition hasActiveFilters :: "FilterState \<Rightarrow> bool" where
  "hasActiveFilters st \<longleftrightarrow>
     0 < length (trim (searchTerm st)) \<or> card (selectedStatuses st) \<noteq> 1
     \<or> Active \<notin> selectedStatuses st \<or> selectedCategories st \<noteq> {} \<or> includeNoCategory st
     \<or> selectedPaymentMethodIDs st \<noteq> {} \<or> selectedRenewalModes st \<noteq> {}
     \<or> includeNoPaymentMethod st \<or> sortField st \<noteq> defaultSortField
     \<or> sortDirection st \<noteq> defaultSortDirection"

subsection \<open>Handlers\<close>

definition set_toggle :: "'a \<Rightarrow> bool \<Rightarrow> 'a set \<Rightarrow> 'a set" where
  "set_toggle x checked prev = (if checked then insert x prev else prev - {x})"

definition resetFiltersAndSorting :: "FilterState \<Rightarrow> FilterState" where
  "resetFiltersAndSorting st = st\<lparr>searchTerm := [], selectedStatuses := {Active},
     selectedCategories := {}, includeNoCategory := False, selectedPaymentMethodIDs := {},
     selectedRenewalModes := {}, includeNoPaymentMethod := False,
     sortField := defaultSortField, sortDirection := defaultSortDirection\<rparr>"

definition getSortFieldLabel :: "(string \<Rightarrow> string) \<Rightarrow> SortField \<Rightarrow> string" where
  "getSortFieldLabel t field =
     (if field = By_name then t ''dashboard.filters.sortFields.name''
      else if field = By_created_at then t ''dashboard.filters.sortFields.createdAt''
      else if field = By_amount then t ''dashboard.filters.sortFields.amount''
      else t ''dashboard.filters.sortFields.nextBillingDate'')"

definition handleSortFieldSelect :: "SortField \<Rightarrow> FilterState \<Rightarrow> FilterState" where
  "handleSortFieldSelect field st =
     (if sortField st = field
      then st\<lparr>sortDirection := (if sortDirection st = Asc then Desc else Asc)\<rparr>
      else st\<lparr>sortField := field, sortDirection := defaultSortDirection\<rparr>)"

definition handleToggleStatus :: "SubscriptionStatus \<Rightarrow> bool \<Rightarrow> FilterState \<Rightarrow> FilterState" where
  "handleToggleStatus status checked st =
     (let next = set_toggle status checked (selectedStatuses st)
      in st\<lparr>selectedStatuses := (if next = {} then insert Active next else next)\<rparr>)"

definition handleToggleRenewalMode :: "SubscriptionRenewalMode \<Rightarrow> bool \<Rightarrow> FilterState \<Rightarrow> FilterState" where
  "handleToggleRenewalMode mode checked st =
     st\<lparr>selectedRenewalModes := set_toggle mode checked (selectedRenewalModes st)\<rparr>"

definition handleToggleCategory :: "string \<Rightarrow> bool \<Rightarrow> FilterState \<Rightarrow> FilterState" where
  "handleToggleCategory category checked st =
     st\<lparr>selectedCategories := set_toggle category checked (selectedCategories st)\<rparr>"

definition handleTogglePaymentMethod :: "int \<Rightarrow> bool \<Rightarrow> FilterState \<Rightarrow> FilterState" where
  "handleTogglePaymentMethod paymentMethodID checked st =
     st\<lparr>selectedPaymentMethodIDs := set_toggle paymentMethodID checked (selectedPaymentMethodIDs st)\<rparr>"

datatype filter_event =
    SetSearchTerm string
  | ToggleStatus SubscriptionStatus bool
  | ToggleRenewalMode SubscriptionRenewalMode bool
  | ToggleCategory string bool
  | TogglePaymentMethod int bool
  | ToggleNoCategory bool
  | ToggleNoPaymentMethod bool
  | SortFieldSelect SortField
  | ResetFilters

fun filter_step :: "FilterState \<Rightarrow> filter_event \<Rightarrow> FilterState" where
  "filter_step st (SetSearchTerm v) = st\<lparr>searchTerm := v\<rparr>"
| "filter_step st (ToggleStatus s c) = handleToggleStatus s c st"
| "filter_step st (ToggleRenewalMode m c) = handleToggleRenewalMode m c st"
| "filter_step st (ToggleCategory x c) = handleToggleCategory x c st"
| "filter_step st (TogglePaymentMethod i c) = handleTogglePaymentMethod i c st"
| "filter_step st (ToggleNoCategory c) = st\<lparr>includeNoCategory := c\<rparr>"
| "filter_step st (ToggleNoPaymentMethod c) = st\<lparr>includeNoPaymentMethod := c\<rparr>"
| "filter_step st (SortFieldSelect f) = handleSortFieldSelect f st"
| "filter_step st ResetFilters = resetFiltersAndSorting st"

lemmas filter_handler_defs = handleToggleStatus_def handleToggleRenewalMode_def handleToggleCategory_def
  handleTogglePaymentMethod_def handleSortFieldSelect_def resetFiltersAndSorting_def set_toggle_def

subsection \<open>The comparison functions are consistent\<close>

interpretation locale_order: js_comparator "localeCompare ck" for ck :: "string \<Rightarrow> 'k::linorder"
  by unfold_locales (auto simp: localeCompare_def split: if_splits)

definition status_rank :: "'k FilterOptions \<Rightarrow> Subscription \<Rightarrow> rat" where
  "status_rank opt s = (if op_disabled_last opt \<and> getSubscriptionStatus s = Ended then 1 else 0)"

definition directed :: "SortDirection \<Rightarrow> ('a \<Rightarrow> 'a \<Rightarrow> rat) \<Rightarrow> 'a \<Rightarrow> 'a \<Rightarrow> rat" where
  "directed dir c a b = (if dir = Asc then c a b else - c a b)"

lemma directed_comparator: "js_comparator c \<Longrightarrow> js_comparator (directed dir c)"
  using js_comparator_neg [of c] by (cases dir) (simp_all add: directed_def [abs_def])

lemma sort_compare_layers:
  "sort_compare opt f d = cmp_then (\<lambda>a b. status_rank opt a - status_rank opt b)
     (cmp_then (directed d (compareSubscriptions opt f)) (directed d (\<lambda>a b. of_int (sub_id a) - of_int (sub_id b))))"
proof (intro ext)
  fix a b
  show "sort_compare opt f d a b = cmp_then (\<lambda>a b. status_rank opt a - status_rank opt b)
     (cmp_then (directed d (compareSubscriptions opt f)) (directed d (\<lambda>a b. of_int (sub_id a) - of_int (sub_id b)))) a b"
    by (cases "getSubscriptionStatus a"; cases "getSubscriptionStatus b"; cases "op_disabled_last opt")
      (simp_all add: sort_compare_def cmp_then_def directed_def status_rank_def Let_def)
qed

lemma compareSubscriptions_comparator: "js_comparator (compareSubscriptions opt f)"
proof -
  have k: "js_comparator (\<lambda>a b. rat_of_int (g a - g b))" for g :: "Subscription \<Rightarrow> int"
    using js_comparator_diff [of "\<lambda>a. rat_of_int (g a)"] by simp
  show ?thesis
    by (cases f) (simp_all add: compareSubscriptions_def [abs_def] k js_comparator_diff
        js_comparator_comap [OF locale_order.js_comparator_axioms] del: of_int_diff)
qed

interpretation dashboard_order: js_total_comparator "sort_compare opt field dir" sub_id
  for opt :: "('k::linorder) FilterOptions" and field and dir
proof (intro js_total_comparator.intro js_total_comparator_axioms.intro)
  show "js_comparator (sort_compare opt field dir)"
    unfolding sort_compare_layers
    by (intro js_comparator_then js_comparator_diff directed_comparator compareSubscriptions_comparator)
next
  fix x y
  assume "sort_compare opt field dir x y = 0"
  then show "sub_id x = sub_id y"
    by (cases dir) (simp_all add: sort_compare_def Let_def split: if_splits)
qed

subsection \<open>Properties\<close>

definition filters_ok :: "FilterState \<Rightarrow> bool" where
  "filters_ok st \<longleftrightarrow> selectedStatuses st \<noteq> {}"

interpretation filters: event_machine filter_step filters_ok
proof
  fix s e
  assume "filters_ok s"
  then show "filters_ok (filter_step s e)"
    by (cases e) (auto simp: filters_ok_def filter_handler_defs Let_def)
qed

lemma set_filtered: "set (filteredSubscriptions opt st) = {s \<in> set (op_subscriptions opt). matches_filters opt st s}"
  by (simp add: filteredSubscriptions_def Collect_conj_eq)

lemma default_state_iff:
  "\<not> hasActiveFilters st \<longleftrightarrow> trim (searchTerm st) = [] \<and> st\<lparr>searchTerm := []\<rparr> = initial_filters"
proof -
  have "card S = 1 \<and> Active \<in> S \<longleftrightarrow> S = {Active}" for S :: "SubscriptionStatus set"
    by (auto simp: card_1_singleton_iff)
  then show ?thesis
    by (cases st; unfold hasActiveFilters_def initial_filters_def) auto
qed

lemma default_matches: "\<not> hasActiveFilters st \<Longrightarrow> matches_filters opt st s \<longleftrightarrow> isSubscriptionActive s"
proof -
  assume "\<not> hasActiveFilters st"
  then have "trim (searchTerm st) = []" "selectedStatuses st = {Active}" "selectedRenewalModes st = {}"
    "selectedCategories st = {}" "\<not> includeNoCategory st" "selectedPaymentMethodIDs st = {}"
    "\<not> includeNoPaymentMethod st"
    by (cases st, simp add: default_state_iff initial_filters_def)+
  then show ?thesis by (simp add: matches_filters_def isSubscriptionActive_def)
qed

definition sample_options :: "nat FilterOptions" where
  "sample_options = \<lparr>op_categories = [], op_disabled_last = True, op_exchangeRates = Map.empty,
     op_collation_key = length, op_date_ts = (\<lambda>_. None), op_paymentMethods = [], op_preferredCurrency = ''USD'',
     op_subscriptions = [netflix\<lparr>sub_id := 8, sub_status := Some Ended\<rparr>, netflix, netflix\<lparr>sub_id := 9\<rparr>],
     op_t = (\<lambda>_. None)\<rparr>"

text \<open>What the toolbar asks for, said without the code.  A facet (categories, payment methods) lets everything pass while
  nothing is chosen in it; else what has a value needs a chosen one, and what has none needs the entry for none.\<close>

definition facet :: "'a set \<Rightarrow> bool \<Rightarrow> 'a option \<Rightarrow> bool" where
  "facet chosen none v \<longleftrightarrow> chosen = {} \<and> \<not> none \<or> (case v of None \<Rightarrow> none | Some x \<Rightarrow> x \<in> chosen)"

text \<open>The order of two keys in a direction, with the ids for equal keys.\<close>

fun in_order :: "SortDirection \<Rightarrow> 'a::linorder \<Rightarrow> 'a \<Rightarrow> int \<Rightarrow> int \<Rightarrow> bool" where
  "in_order Asc x y i j = (x < y \<or> x = y \<and> i \<le> j)"
| "in_order Desc x y i j = (y < x \<or> x = y \<and> j \<le> i)"

lemma includes_sublist: "js_includes s p \<longleftrightarrow> sublist p s"
  by (induction s) (auto simp: sublist_Cons_right startsWith_iff prefix_def)

lemma facet_simps:
  "facet chosen none None \<longleftrightarrow> \<not> ((chosen \<noteq> {} \<or> none) \<and> \<not> none)"
  "facet chosen none (Some x) \<longleftrightarrow> \<not> ((chosen \<noteq> {} \<or> none) \<and> x \<notin> chosen)"
  by (auto simp: facet_def)

lemma empty_search: "p \<noteq> [] \<and> \<not> sublist p s \<longleftrightarrow> \<not> sublist p s"
  by auto

lemma matches_filters_iff:
  "matches_filters opt st sub \<longleftrightarrow>
     (let category = getSubscriptionCategoryName opt sub in
      sublist (toLowerCase (trim (searchTerm st))) (toLowerCase (sub_name sub @ '' '' @ category @ '' '' @ sub_notes sub))
      \<and> getSubscriptionStatus sub \<in> selectedStatuses st
      \<and> (selectedRenewalModes st = {} \<or> sub_billing_type sub \<noteq> ''recurring''
          \<or> getSubscriptionRenewalMode sub \<in> selectedRenewalModes st)
      \<and> facet (selectedCategories st) (includeNoCategory st) (if trim category = [] then None else Some category)
      \<and> facet (selectedPaymentMethodIDs st) (includeNoPaymentMethod st) (sub_payment_method_id sub))"
proof (cases "sub_payment_method_id sub")
  case None
  then show ?thesis
    unfolding matches_filters_def Let_def join_space_def includes_sublist empty_search
    by (cases "trim (getSubscriptionCategoryName opt sub) = []") (simp_all add: facet_simps, blast+)
next
  case (Some i)
  then show ?thesis
    unfolding matches_filters_def Let_def join_space_def includes_sublist empty_search
    by (cases "trim (getSubscriptionCategoryName opt sub) = []") (simp_all add: facet_simps, blast+)
qed

lemma sort_compare_in_order:
  assumes "sort_compare opt f d a b \<le> 0"
  shows "if op_disabled_last opt \<and> getSubscriptionStatus a \<noteq> getSubscriptionStatus b then getSubscriptionStatus a = Active
    else case f of
        By_name \<Rightarrow> in_order d (op_collation_key opt (sub_name a)) (op_collation_key opt (sub_name b)) (sub_id a) (sub_id b)
      | By_created_at \<Rightarrow> in_order d (toTimestamp (op_date_ts opt) (Some (sub_created_at a)))
          (toTimestamp (op_date_ts opt) (Some (sub_created_at b))) (sub_id a) (sub_id b)
      | By_amount \<Rightarrow> in_order d (getComparableSubscriptionAmount a (op_preferredCurrency opt) (op_exchangeRates opt))
          (getComparableSubscriptionAmount b (op_preferredCurrency opt) (op_exchangeRates opt)) (sub_id a) (sub_id b)
      | By_next_billing_date \<Rightarrow> in_order d (toTimestamp (op_date_ts opt) (sub_next_billing_date a))
          (toTimestamp (op_date_ts opt) (sub_next_billing_date b)) (sub_id a) (sub_id b)"
proof (cases "op_disabled_last opt \<and> getSubscriptionStatus a \<noteq> getSubscriptionStatus b")
  case True
  then show ?thesis using assms by (auto simp: sort_compare_def split: if_splits)
next
  case False
  then show ?thesis using assms
    by (cases f; cases d) (auto simp: sort_compare_def compareSubscriptions_def localeCompare_def Let_def split: if_splits)
qed

text \<open>C38: the list shows the subscriptions that the toolbar asks for, each as often as it was sent, in the order asked for:
  those whose name, category or notes contain the search text without regard to case, with a selected status, for
  recurring ones a selected renewal mode when one is selected, and with a chosen category and payment method (or none);
  by name, creation, amount or next billing date in the chosen direction, missing dates as the latest, ids for equal keys,
  and with the option set every ended one after the active ones.\<close>

theorem dashboard_list_sorted_permutation:
  fixes opt :: "('k::linorder) FilterOptions"
  shows "let l = filteredSubscriptions opt st; dir = sortDirection st; category = getSubscriptionCategoryName opt;
      key = op_collation_key opt; time = toTimestamp (op_date_ts opt);
      amount = (\<lambda>s. getComparableSubscriptionAmount s (op_preferredCurrency opt) (op_exchangeRates opt)) in
    mset l = mset (filter (\<lambda>s.
        sublist (toLowerCase (trim (searchTerm st))) (toLowerCase (sub_name s @ '' '' @ category s @ '' '' @ sub_notes s))
        \<and> getSubscriptionStatus s \<in> selectedStatuses st
        \<and> (selectedRenewalModes st = {} \<or> (if sub_billing_type s = ''recurring''
             then getSubscriptionRenewalMode s \<in> selectedRenewalModes st else True))
        \<and> facet (selectedCategories st) (includeNoCategory st) (if trim (category s) = [] then None else Some (category s))
        \<and> facet (selectedPaymentMethodIDs st) (includeNoPaymentMethod st) (sub_payment_method_id s)) (op_subscriptions opt))
    \<and> sorted_wrt (\<lambda>a b.
        if op_disabled_last opt \<and> getSubscriptionStatus a \<noteq> getSubscriptionStatus b then getSubscriptionStatus a = Active
        else case sortField st of
            By_name \<Rightarrow> in_order dir (key (sub_name a)) (key (sub_name b)) (sub_id a) (sub_id b)
          | By_created_at \<Rightarrow> in_order dir (time (Some (sub_created_at a))) (time (Some (sub_created_at b))) (sub_id a) (sub_id b)
          | By_amount \<Rightarrow> in_order dir (amount a) (amount b) (sub_id a) (sub_id b)
          | By_next_billing_date \<Rightarrow> in_order dir (time (sub_next_billing_date a)) (time (sub_next_billing_date b)) (sub_id a) (sub_id b)) l"
proof -
  have m: "mset (filteredSubscriptions opt st) = mset (filter (matches_filters opt st) (op_subscriptions opt))"
    by (simp add: filteredSubscriptions_def)
  have r: "(sub_billing_type s \<noteq> ''recurring'' \<or> P) = (if sub_billing_type s = ''recurring'' then P else True)" for s P
    by simp
  show ?thesis
    unfolding Let_def m matches_filters_iff [abs_def, unfolded Let_def r]
    by (rule conjI [OF refl], unfold filteredSubscriptions_def)
      (rule sorted_wrt_mono_rel [OF _ dashboard_order.sorted_js_sort], rule sort_compare_in_order)
qed

text \<open>the list does not depend on the order in which the server sent the subscriptions: two
  permutations of the same subscriptions with distinct ids give the same list.\<close>

theorem dashboard_list_order_independent:
  fixes opt :: "('k::linorder) FilterOptions"
  assumes "mset ys = mset (op_subscriptions opt)" and "inj_on sub_id (set (op_subscriptions opt))"
  shows "filteredSubscriptions (opt\<lparr>op_subscriptions := ys\<rparr>) st = filteredSubscriptions opt st"
proof -
  have c: "sort_compare (opt\<lparr>op_subscriptions := ys\<rparr>) = sort_compare opt"
    by (simp add: fun_eq_iff sort_compare_def compareSubscriptions_def)
  have n: "getSubscriptionCategoryName (opt\<lparr>op_subscriptions := ys\<rparr>) = getSubscriptionCategoryName opt"
    by (simp add: fun_eq_iff getSubscriptionCategoryName_def split: option.split)
  have m: "matches_filters (opt\<lparr>op_subscriptions := ys\<rparr>) st = matches_filters opt st"
    by (rule ext) (simp only: matches_filters_def n)
  have "mset (filter (matches_filters opt st) ys) = mset (filter (matches_filters opt st) (op_subscriptions opt))"
    using assms(1) by simp
  moreover have "set ys = set (op_subscriptions opt)" using assms(1) by (rule mset_eq_setD)
  ultimately show ?thesis
    unfolding filteredSubscriptions_def c m using assms(2)
    by (auto intro!: dashboard_order.js_sort_perm intro: inj_on_subset)
qed

theorem dashboard_list_order_independent_witness:
  "filteredSubscriptions (sample_options\<lparr>op_subscriptions := rev (op_subscriptions sample_options)\<rparr>) initial_filters
   = filteredSubscriptions sample_options initial_filters"
  by (rule dashboard_list_order_independent) (simp_all add: sample_options_def netflix_def)

text \<open>with the display option set, no subscription that ended stands before an active one,
  whatever field and direction are chosen.\<close>

theorem disabled_last_order:
  fixes opt :: "('k::linorder) FilterOptions"
  assumes "op_disabled_last opt"
  shows "sorted_wrt (\<lambda>a b. isSubscriptionEnded a \<longrightarrow> isSubscriptionEnded b) (filteredSubscriptions opt st)"
proof -
  have "isSubscriptionEnded a \<longrightarrow> isSubscriptionEnded b" if "sort_compare opt f d a b \<le> 0" for a b f d
    using that assms
    by (cases "getSubscriptionStatus b") (auto simp: sort_compare_def isSubscriptionEnded_def Let_def split: if_splits)
  then show ?thesis
    unfolding filteredSubscriptions_def
    by (intro sorted_wrt_mono_rel [OF _ dashboard_order.sorted_js_sort]) blast
qed

theorem disabled_last_order_witness:
  "sorted_wrt (\<lambda>a b. isSubscriptionEnded a \<longrightarrow> isSubscriptionEnded b)
     (filteredSubscriptions sample_options (initial_filters\<lparr>selectedStatuses := {Active, Ended}\<rparr>))"
  by (rule disabled_last_order) (simp add: sample_options_def)

text \<open>whatever the user toggles, at least one status stays selected, resetting always ends with
  no active filter, and when no filter is active the list shows exactly the active
  subscriptions.\<close>

theorem filters_never_empty:
  fixes opt :: "('k::linorder) FilterOptions"
  assumes "st = foldl filter_step initial_filters es"
  shows "selectedStatuses st \<noteq> {} \<and> \<not> hasActiveFilters (filter_step st ResetFilters)
    \<and> (\<not> hasActiveFilters st \<longrightarrow>
        set (filteredSubscriptions opt st) = {s \<in> set (op_subscriptions opt). isSubscriptionActive s})"
proof (intro conjI impI)
  have "filters_ok st"
    unfolding assms by (rule filters.run_inv) (simp add: filters_ok_def initial_filters_def)
  then show "selectedStatuses st \<noteq> {}" by (simp add: filters_ok_def)
  show "\<not> hasActiveFilters (filter_step st ResetFilters)"
    by (simp add: default_state_iff initial_filters_def resetFiltersAndSorting_def)
  show "set (filteredSubscriptions opt st) = {s \<in> set (op_subscriptions opt). isSubscriptionActive s}"
    if "\<not> hasActiveFilters st"
    using that by (simp add: set_filtered default_matches)
qed

theorem filters_never_empty_witness:
  "set (filteredSubscriptions sample_options initial_filters) = {netflix, netflix\<lparr>sub_id := 9\<rparr>}"
proof -
  have n: "\<not> hasActiveFilters initial_filters" by (simp add: default_state_iff initial_filters_def)
  have "{s \<in> set (op_subscriptions sample_options). isSubscriptionActive s} = {netflix, netflix\<lparr>sub_id := 9\<rparr>}"
    by (auto simp: sample_options_def isSubscriptionActive_def getSubscriptionStatus_def netflix_def)
  with n show ?thesis
    using filters_never_empty [of initial_filters "[]" sample_options] by simp
qed

end
