(* ===== verification/SubscriptionPages.thy ===== *)
theory SubscriptionPages
  imports DetailDrawer DashboardFilters
begin

text \<open>
  What the pages with a list of subscriptions share (\<open>dashboard-page.tsx\<close>,
  \<open>calendar-page.tsx\<close>, \<open>actions-page.tsx\<close> under \<open>web/src/features\<close>): the lists, the drawer over the cache of
  details, the form, and the requests.  A page extends \<open>PageCore\<close> with its own state; \<open>'c\<close> are its
  requests, \<open>pg_open\<close> those without an answer.  \<open>detailSub\<close> and the mounted drawer are one field.
\<close>

datatype page_notice = Page_success string | Page_error string

record 'c PageCore =
  pg_subscriptions :: "Subscription list"
  pg_categories :: "Category list"
  pg_paymentMethods :: "PaymentMethod list"
  pg_userCurrencies :: "UserCurrency list"
  pg_editingSub :: "Subscription option"
  pg_drawer :: "Drawer option"
  pg_details :: "SubscriptionDetail DetailState"
  pg_open :: "'c list"
  pg_calls :: "'c list"
  pg_notices :: "page_notice list"

definition send_call :: "'c \<Rightarrow> ('c, 'm) PageCore_scheme \<Rightarrow> ('c, 'm) PageCore_scheme" where
  "send_call c s = s\<lparr>pg_calls := pg_calls s @ [c], pg_open := pg_open s @ [c]\<rparr>"

definition notify :: "page_notice \<Rightarrow> ('c, 'm) PageCore_scheme \<Rightarrow> ('c, 'm) PageCore_scheme" where
  "notify n s = s\<lparr>pg_notices := pg_notices s @ [n]\<rparr>"

definition on_details ::
  "(SubscriptionDetail DetailState \<Rightarrow> SubscriptionDetail DetailState) \<Rightarrow> ('c, 'm) PageCore_scheme \<Rightarrow> ('c, 'm) PageCore_scheme" where
  "on_details f s = s\<lparr>pg_details := f (pg_details s)\<rparr>"

text \<open>\<open>payment_method_id: data.payment_method_id ?? 0\<close>\<close>

definition update_payload :: "CreateSubscriptionInput \<Rightarrow> CreateSubscriptionInput" where
  "update_payload d = d\<lparr>in_payment_method_id := Some (nullish (in_payment_method_id d) (Some 0))\<rparr>"

definition currency_symbol_of :: "UserCurrency list \<Rightarrow> string \<Rightarrow> string option" where
  "currency_symbol_of cs cur =
     map_option (\<lambda>c. trim (uc_symbol c)) (map_of_list (\<lambda>c. toUpperCase (uc_code c)) cs (toUpperCase cur))"

definition category_name_of :: "(string \<Rightarrow> string option) \<Rightarrow> Category list \<Rightarrow> Subscription \<Rightarrow> string" where
  "category_name_of t cs sub =
     (case Option.bind (sub_category_id sub) (map_of_list cat_id cs) of
        Some category \<Rightarrow> getCategoryLabel t category
      | None \<Rightarrow> trim (sub_category sub))"

definition payment_method_name_of :: "(string \<Rightarrow> string option) \<Rightarrow> PaymentMethod list \<Rightarrow> Subscription \<Rightarrow> string option" where
  "payment_method_name_of t ms sub =
     (if nullish (sub_payment_method_id sub) 0 = 0 then None
      else map_option (getPaymentMethodLabel t) (map_of_list pm_id ms (the (sub_payment_method_id sub))))"

subsection \<open>The drawer on a page\<close>

definition openSubscriptionDetail :: "int \<Rightarrow> Subscription \<Rightarrow> ('c, 'm) PageCore_scheme \<Rightarrow> ('c, 'm) PageCore_scheme" where
  "openSubscriptionDetail now sub s =
     (let details = preloadSubscriptionDetail (sub_id sub) now (pg_details s);
          (drawer, details) = mount_drawer now sub details
      in s\<lparr>pg_details := details, pg_drawer := Some drawer\<rparr>)"

text \<open>\<open>handleEdit\<close> of the drawer: the page edits the subscription that the drawer shows, and the
  drawer closes.\<close>

definition drawer_edit :: "('c, 'm) PageCore_scheme \<Rightarrow> ('c, 'm) PageCore_scheme" where
  "drawer_edit s =
     (case pg_drawer s of None \<Rightarrow> s | Some d \<Rightarrow> s\<lparr>pg_drawer := None, pg_editingSub := Some (activeSubscription d)\<rparr>)"

datatype core_event =
    Open_detail int Subscription
  | Preload_detail int Subscription
  | Detail_answered nat "string + SubscriptionDetail" int
  | Detail_completed nat
  | Drawer_settled
  | Drawer_closed

fun core_step :: "core_event \<Rightarrow> ('c, 'm) PageCore_scheme \<Rightarrow> ('c, 'm) PageCore_scheme" where
  "core_step (Open_detail now sub) s = openSubscriptionDetail now sub s"
| "core_step (Preload_detail now sub) s = on_details (preloadSubscriptionDetail (sub_id sub) now) s"
| "core_step (Detail_answered n out now) s = on_details (on_answer n out now) s"
| "core_step (Detail_completed n) s = on_details (on_complete n) s"
| "core_step Drawer_settled s = s\<lparr>pg_drawer := map_option (settle_drawer (pg_details s)) (pg_drawer s)\<rparr>"
| "core_step Drawer_closed s = s\<lparr>pg_drawer := None\<rparr>"

text \<open>What a step of a page does to the cache of details.\<close>

fun core_details :: "core_event \<Rightarrow> SubscriptionDetail detail_event list" where
  "core_details (Open_detail now sub) = [Load (sub_id sub) now, Get (sub_id sub) now, Load (sub_id sub) now]"
| "core_details (Preload_detail now sub) = [Load (sub_id sub) now]"
| "core_details (Detail_answered n out now) = [Answer n out now]"
| "core_details (Detail_completed n) = [Complete n]"
| "core_details Drawer_settled = []"
| "core_details Drawer_closed = []"

lemma page_core_simps [simp]:
  "pg_details (send_call c s) = pg_details s" "pg_details (notify n s) = pg_details s"
  "pg_details (on_details f s) = f (pg_details s)"
  "pg_calls (send_call c s) = pg_calls s @ [c]" "pg_calls (notify n s) = pg_calls s" "pg_calls (on_details f s) = pg_calls s"
  "pg_open (send_call c s) = pg_open s @ [c]" "pg_open (notify n s) = pg_open s" "pg_open (on_details f s) = pg_open s"
  "pg_editingSub (send_call c s) = pg_editingSub s" "pg_editingSub (notify n s) = pg_editingSub s"
  "pg_editingSub (on_details f s) = pg_editingSub s"
  "pg_subscriptions (send_call c s) = pg_subscriptions s" "pg_subscriptions (notify n s) = pg_subscriptions s"
  "pg_subscriptions (on_details f s) = pg_subscriptions s"
  "pg_drawer (send_call c s) = pg_drawer s" "pg_drawer (notify n s) = pg_drawer s" "pg_drawer (on_details f s) = pg_drawer s"
  by (simp_all add: send_call_def notify_def on_details_def)

lemma openSubscriptionDetail_details:
  "pg_details (openSubscriptionDetail now sub s)
   = foldl detail_step (pg_details s) [Load (sub_id sub) now, Get (sub_id sub) now, Load (sub_id sub) now]"
  using mount_drawer_details [of now sub "preloadSubscriptionDetail (sub_id sub) now (pg_details s)"]
  by (simp add: openSubscriptionDetail_def case_prod_beta Let_def)

lemma core_step_details: "pg_details (core_step e s) = foldl detail_step (pg_details s) (core_details e)"
  by (cases e) (simp_all add: openSubscriptionDetail_details del: foldl.simps, simp_all)

lemma core_step_frame:
  "pg_calls (core_step e s) = pg_calls s \<and> pg_open (core_step e s) = pg_open s
   \<and> pg_subscriptions (core_step e s) = pg_subscriptions s \<and> pg_editingSub (core_step e s) = pg_editingSub s
   \<and> pg_notices (core_step e s) = pg_notices s"
  by (cases e) (simp_all add: openSubscriptionDetail_def on_details_def case_prod_beta Let_def)

text \<open>A drawer that is opened on an outdated detail shows none, and waits for a request that it has sent itself.\<close>

definition waits_for_new_request :: "int \<Rightarrow> ('c, 'm) PageCore_scheme \<Rightarrow> ('c, 'm) PageCore_scheme \<Rightarrow> bool" where
  "waits_for_new_request i before s =
     (case pg_drawer s of
        None \<Rightarrow> False
      | Some d \<Rightarrow> sub_id (dw_sub d) = i \<and> dw_detail d = None \<and> dw_loading d
          \<and> dw_source d = Some (Pending_promise (length (promises (pg_details before))))
          \<and> length (promises (pg_details s)) = length (promises (pg_details before)) + 1
          \<and> pr_state (promises (pg_details s) ! length (promises (pg_details before))) = Awaiting)"

lemma open_outdated:
  assumes out: "outdated (sub_id sub) (pg_details s)" and ok: "details_ok (pg_details s)"
  shows "waits_for_new_request (sub_id sub) s (openSubscriptionDetail now sub s)"
proof -
  let ?i = "sub_id sub" and ?s = "pg_details s"
  let ?p = "\<lparr>pr_id = ?i, pr_version = detailVersion ?i ?s, pr_state = Awaiting\<rparr> :: SubscriptionDetail Promise"
  have c: "detailCache ?s ?i = None" using out by (simp add: outdated_def)
  then have g: "getCachedSubscriptionDetail ?i now ?s = (None, ?s)" by (simp add: getCachedSubscriptionDetail_def)
  have r: "detailRequests ?s ?i = None" using outdated_no_request [OF out ok] .
  define s1 where "s1 = ?s\<lparr>promises := promises ?s @ [?p], detailRequests := (detailRequests ?s)(?i \<mapsto> length (promises ?s))\<rparr>"
  have p: "preloadSubscriptionDetail ?i now ?s = s1"
    by (simp add: preloadSubscriptionDetail_def loadSubscriptionDetail_def g r s1_def)
  have g1: "getCachedSubscriptionDetail ?i now s1 = (None, s1)" using c by (simp add: getCachedSubscriptionDetail_def s1_def)
  have l1: "loadSubscriptionDetail ?i now s1 = (Pending_promise (length (promises ?s)), s1)"
    by (simp add: loadSubscriptionDetail_def g1) (simp add: s1_def)
  show ?thesis
    by (simp add: openSubscriptionDetail_def p mount_drawer_def g1 l1 waits_for_new_request_def Let_def) (simp add: s1_def)
qed

subsection \<open>Pages over the cache of details\<close>

text \<open>
  The contract between a page and the cache: every step of the page acts on the cache by operations of
  the cache only, and a step that learns of a change of a subscription ends with its invalidation.
\<close>

fun never_loads :: "('s \<Rightarrow> 'e \<Rightarrow> 's) \<Rightarrow> ('s \<Rightarrow> 'e \<Rightarrow> 'd detail_event list) \<Rightarrow> int \<Rightarrow> 's \<Rightarrow> 'e list \<Rightarrow> bool" where
  "never_loads step acts i s [] = True"
| "never_loads step acts i s (e # es) =
     (list_all (\<lambda>x. case x of Load j now \<Rightarrow> j \<noteq> i | _ \<Rightarrow> True) (acts s e) \<and> never_loads step acts i (step s e) es)"

locale detail_client =
  fixes step :: "'s \<Rightarrow> 'e \<Rightarrow> 's" and details :: "'s \<Rightarrow> SubscriptionDetail DetailState"
    and acts :: "'s \<Rightarrow> 'e \<Rightarrow> SubscriptionDetail detail_event list"
  assumes details_step: "details (step s e) = foldl detail_step (details s) (acts s e)"
begin

lemma details_ok_steps: "details_ok (details s) \<Longrightarrow> details_ok (details (foldl step s es))"
proof (induction es arbitrary: s)
  case (Cons e es)
  then have "details_ok (details (step s e))" by (simp add: details_step details.run_inv)
  with Cons.IH show ?case by simp
qed simp

end

locale invalidating_client = detail_client step details acts
  for step :: "'s \<Rightarrow> 'e \<Rightarrow> 's" and details :: "'s \<Rightarrow> SubscriptionDetail DetailState"
    and acts :: "'s \<Rightarrow> 'e \<Rightarrow> SubscriptionDetail detail_event list" +
  fixes saved :: "'s \<Rightarrow> 'e \<Rightarrow> int option"
  assumes saved_invalidates: "saved s e = Some i \<Longrightarrow> acts s e = [Invalidate i]"
begin

lemma saved_outdated: "details_ok (details s) \<Longrightarrow> saved s e = Some i \<Longrightarrow> outdated i (details (step s e))"
  by (simp add: details_step saved_invalidates outdated_invalidate)

text \<open>Until the detail is asked for again, nothing of it is left.\<close>

lemma outdated_steps:
  "outdated i (details s) \<Longrightarrow> never_loads step acts i s es \<Longrightarrow> outdated i (details (foldl step s es))"
proof (induction es arbitrary: s)
  case (Cons e es)
  have "\<forall>now. Load i now \<notin> set (acts s e)" using Cons.prems(2) by (auto simp: list_all_iff)
  then have "outdated i (details (step s e))"
    using Cons.prems(1) outdated_run by (simp add: details_step)
  then show ?case using Cons.IH Cons.prems(2) by simp
qed simp

lemma saved_stays_outdated:
  "details_ok (details s) \<Longrightarrow> saved s e = Some i \<Longrightarrow> never_loads step acts i (step s e) es
    \<Longrightarrow> outdated i (details (foldl step s (e # es))) \<and> details_ok (details (foldl step s (e # es)))"
  using outdated_steps [OF saved_outdated, of s e i es] details_ok_steps [of s "e # es"] by simp

end

end
