(* ===== verification/Reorder.thy ===== *)
theory Reorder
  imports Prelude
begin

text \<open>
  Moving one element of a list by dragging, as the three lists of the settings pages do it:
  \<open>const [moved] = xs.splice(from, 1); xs.splice(to, 0, moved)\<close>.  \<open>splice\<close> removes
  nothing when the index is past the end, and inserts at the end when its index is; a drag of a row
  that is gone would insert \<open>undefined\<close>, which is \<open>None\<close> here.
\<close>

definition without :: "nat \<Rightarrow> 'a list \<Rightarrow> 'a list" where
  "without i xs = take i xs @ drop (Suc i) xs"

definition insert_at :: "nat \<Rightarrow> 'a \<Rightarrow> 'a list \<Rightarrow> 'a list" where
  "insert_at i x xs = take i xs @ x # drop i xs"

definition move_item :: "nat \<Rightarrow> nat \<Rightarrow> 'a list \<Rightarrow> 'a list option" where
  "move_item i j xs = (if i < length xs then Some (insert_at j (xs ! i) (without i xs)) else None)"

lemma mset_insert_at [simp]: "mset (insert_at i x xs) = add_mset x (mset xs)"
  by (metis append_take_drop_id insert_at_def mset.simps(2) mset_append union_mset_add_mset_right)

lemma mset_without: "i < length xs \<Longrightarrow> add_mset (xs ! i) (mset (without i xs)) = mset xs"
  by (metis Cons_nth_drop_Suc append_take_drop_id mset.simps(2) mset_append union_mset_add_mset_right without_def)

lemma length_without [simp]: "i < length xs \<Longrightarrow> length (without i xs) = length xs - 1"
  by (simp add: without_def min_def)

lemma insert_at_nth: "i \<le> length xs \<Longrightarrow> insert_at i x xs ! i = x"
  by (simp add: insert_at_def nth_append)

lemma without_insert_at: "i \<le> length xs \<Longrightarrow> without i (insert_at i x xs) = xs"
  by (simp add: without_def insert_at_def)

lemma insert_at_without: "i < length xs \<Longrightarrow> insert_at i (xs ! i) (without i xs) = xs"
  by (simp add: insert_at_def without_def id_take_nth_drop [symmetric])

lemma move_item_mset: "move_item i j xs = Some ys \<Longrightarrow> mset ys = mset xs"
  by (auto simp: move_item_def mset_without split: if_splits)

lemma move_item_set: "move_item i j xs = Some ys \<Longrightarrow> set ys = set xs"
  by (metis move_item_mset set_mset_mset)

lemma move_item_length: "move_item i j xs = Some ys \<Longrightarrow> length ys = length xs"
  by (metis move_item_mset size_mset)

lemma move_item_distinct: "move_item i j xs = Some ys \<Longrightarrow> distinct (map f ys) = distinct (map f xs)"
  by (metis (no_types) move_item_mset mset_map mset_eq_imp_distinct_iff)

text \<open>The row that was dragged is where it was dropped, and the others keep their order.\<close>

lemma move_item_at:
  assumes "move_item i j xs = Some ys" and "j < length xs"
  shows "ys ! j = xs ! i" and "without j ys = without i xs"
  using assms by (auto simp: move_item_def insert_at_nth without_insert_at split: if_splits)

lemma move_item_back:
  assumes "move_item i j xs = Some ys" and "j < length xs"
  shows "move_item j i ys = Some xs"
proof -
  have "i < length xs" using assms(1) by (simp add: move_item_def split: if_splits)
  then show ?thesis
    using move_item_at [OF assms] move_item_length [OF assms(1)] assms(2)
    by (simp add: move_item_def insert_at_without)
qed

lemma move_item_None_iff: "move_item i j xs = None \<longleftrightarrow> length xs \<le> i"
  by (simp add: move_item_def)


subsection \<open>Lists that are dragged\<close>

text \<open>
  The contract of a list with drag handlers: \<open>drop\<close> answers \<open>None\<close> when the new list holds
  \<open>undefined\<close>, on which the next rendering throws.
\<close>

locale draggable_list =
  fixes items :: "'s \<Rightarrow> 'a list" and from_row :: "'s \<Rightarrow> nat option" and to_row :: "'s \<Rightarrow> nat option"
    and drop_row :: "'s \<Rightarrow> 's option"
  assumes drop_moves: "from_row s = Some i \<Longrightarrow> to_row s = Some j \<Longrightarrow> i \<noteq> j \<Longrightarrow>
      map_option items (drop_row s) = move_item i j (items s)"
    and drop_idle: "from_row s = None \<or> to_row s = None \<or> from_row s = to_row s \<Longrightarrow> drop_row s = Some s"
begin

lemma drop_cases:
  assumes "drop_row s = Some s'"
  obtains "items s' = items s" | i j where "from_row s = Some i" "to_row s = Some j" "i \<noteq> j"
    "move_item i j (items s) = Some (items s')"
proof (cases "from_row s = None \<or> to_row s = None \<or> from_row s = to_row s")
  case True
  with assms drop_idle that(1) show ?thesis by simp
next
  case False
  then obtain i j where "from_row s = Some i" "to_row s = Some j" "i \<noteq> j" by auto
  with drop_moves [OF this] assms that(2) show ?thesis by simp
qed

lemma drop_mset: "drop_row s = Some s' \<Longrightarrow> mset (items s') = mset (items s)"
  by (erule drop_cases) (simp_all add: move_item_mset)

lemma drop_set: "drop_row s = Some s' \<Longrightarrow> set (items s') = set (items s)"
  by (metis drop_mset set_mset_mset)

lemma drop_lands:
  assumes "from_row s = Some i" and "to_row s = Some j" and "i < length (items s)" and "j < length (items s)"
  shows "\<exists>s'. drop_row s = Some s' \<and> items s' ! j = items s ! i \<and> without j (items s') = without i (items s)"
proof (cases "i = j")
  case True
  with assms drop_idle show ?thesis by auto
next
  case False
  obtain xs where xs: "move_item i j (items s) = Some xs" using assms(3) by (simp add: move_item_def)
  obtain s' where s': "drop_row s = Some s'" "items s' = xs"
    using drop_moves [OF assms(1,2) False] xs by (cases "drop_row s") simp_all
  then show ?thesis using move_item_at [OF xs assms(4)] by auto
qed

lemma drop_crashes_iff:
  "drop_row s = None \<longleftrightarrow> (\<exists>i j. from_row s = Some i \<and> to_row s = Some j \<and> i \<noteq> j \<and> length (items s) \<le> i)"
proof (cases "from_row s = None \<or> to_row s = None \<or> from_row s = to_row s")
  case True
  with drop_idle show ?thesis by auto
next
  case False
  then obtain i j where ij: "from_row s = Some i" "to_row s = Some j" "i \<noteq> j" by auto
  from drop_moves [OF this] have "drop_row s = None \<longleftrightarrow> move_item i j (items s) = None"
    by (cases "drop_row s"; cases "move_item i j (items s)") auto
  with ij show ?thesis by (simp add: move_item_None_iff)
qed

end

text \<open>\<open>items.map((item, index) => ({...item, sort_order: index}))\<close>.\<close>

definition number_items :: "(int \<Rightarrow> 'a \<Rightarrow> 'b) \<Rightarrow> 'a list \<Rightarrow> 'b list" where
  "number_items f xs = map2 (\<lambda>i x. f (int i) x) [0..<length xs] xs"

lemma length_number_items [simp]: "length (number_items f xs) = length xs"
  by (simp add: number_items_def)

lemma number_items_nth [simp]: "i < length xs \<Longrightarrow> number_items f xs ! i = f (int i) (xs ! i)"
  by (simp add: number_items_def)

lemma map_number_items: "(\<And>i x. g (f i x) = h x) \<Longrightarrow> map g (number_items f xs) = map h xs"
  by (rule nth_equalityI) simp_all

end
