(* ===== verification/ActionCenter.thy ===== *)
theory ActionCenter
  imports SubscriptionPages Reorder
begin

text \<open>
  The action centre, \<open>web/src/features/actions/actions-page.tsx\<close>, with its payload,
  \<open>web/src/types/actions.ts\<close>: how actions are grouped, which commands a group offers, and the handlers with the
  continuations of their requests.  \<open>t\<close> and \<open>formatDay\<close> are as in \<open>DetailDrawer\<close>.
\<close>

subsection \<open>actions.ts\<close>

datatype SubscriptionActionType =
    Upcoming_renewal | Manual_renewal_due | Ending_soon | Notification_failed | Missing_next_billing | Price_increase

datatype SubscriptionActionSeverity = Critical | High | Medium | Low

record SubscriptionAction =
  ac_key :: string
  ac_type :: SubscriptionActionType
  ac_severity :: SubscriptionActionSeverity
  ac_needs_decision :: bool
  ac_needs_repair :: bool
  ac_upcoming_charge :: bool
  ac_subscription_id :: int
  ac_subscription_name :: string
  ac_subscription_icon :: string
  ac_amount :: rat
  ac_currency :: string
  ac_renewal_mode :: SubscriptionRenewalMode
  ac_status :: SubscriptionStatus
  ac_due_date :: "string option"
  ac_days_until :: "int option"
  ac_event_date :: "string option"
  ac_message :: string
  ac_detail :: string
  ac_previous_monthly_amount :: "rat option"
  ac_new_monthly_amount :: "rat option"
  ac_delta_monthly_amount :: "rat option"
  ac_delta_percentage :: "rat option"
  ac_notification_channel :: string
  ac_notification_error :: string
  ac_allowed_actions :: "string list"
  ac_snoozed_until :: "string option"

record ActionCenterCounts =
  co_total :: int
  co_critical :: int
  co_high :: int
  co_medium :: int
  co_low :: int
  co_needs_decision :: int
  co_needs_repair :: int
  co_upcoming_charge :: int
  co_snoozed :: int

record ActionCenter =
  ce_generated_at :: string
  ce_window_days :: int
  ce_urgent_days :: int
  ce_items :: "SubscriptionAction list"
  ce_counts :: ActionCenterCounts
  ce_available_types :: "SubscriptionActionType list"

subsection \<open>Groups and commands\<close>

record SubscriptionActionGroup =
  gr_key :: string
  gr_primary :: SubscriptionAction
  gr_actions :: "SubscriptionAction list"

definition group_key :: "int \<Rightarrow> string" where
  "group_key i = ''subscription-action-group:'' @ int_to_string i"

text \<open>The map of the source points into the list of groups; \<open>existing\<close> is the group of the item's subscription.\<close>

fun add_to_group :: "SubscriptionAction \<Rightarrow> SubscriptionActionGroup list \<Rightarrow> SubscriptionActionGroup list" where
  "add_to_group item [] = [\<lparr>gr_key = group_key (ac_subscription_id item), gr_primary = item, gr_actions = [item]\<rparr>]"
| "add_to_group item (g # gs) =
     (if ac_subscription_id (gr_primary g) = ac_subscription_id item then g\<lparr>gr_actions := gr_actions g @ [item]\<rparr> # gs
      else g # add_to_group item gs)"

definition groupSubscriptionActions :: "SubscriptionAction list \<Rightarrow> SubscriptionActionGroup list" where
  "groupSubscriptionActions items = foldl (\<lambda>groups item. add_to_group item groups) [] items"

definition findAllowedAction :: "SubscriptionAction list \<Rightarrow> string \<Rightarrow> SubscriptionAction option" where
  "findAllowedAction actions actionName = find (\<lambda>action. actionName \<in> set (ac_allowed_actions action)) actions"

definition findActionByType :: "SubscriptionAction list \<Rightarrow> SubscriptionActionType \<Rightarrow> SubscriptionAction option" where
  "findActionByType actions actionType = find (\<lambda>action. ac_type action = actionType) actions"

datatype ActionCommand =
    Cancel_at_end_command SubscriptionAction
  | Mark_renewed_command SubscriptionAction
  | Keep_command SubscriptionAction
  | Edit_command SubscriptionAction
  | Open_command SubscriptionAction
  | Snooze_command SubscriptionActionGroup

definition some_command :: "('a \<Rightarrow> ActionCommand) \<Rightarrow> 'a option \<Rightarrow> ActionCommand list" where
  "some_command c v = (case v of None \<Rightarrow> [] | Some a \<Rightarrow> [c a])"

definition group_commands :: "SubscriptionActionGroup \<Rightarrow> ActionCommand list" where
  "group_commands grp =
     (let primary = gr_primary grp;
          markRenewedAction = findAllowedAction (gr_actions grp) ''mark_renewed'';
          keepSubscriptionAction = findActionByType (gr_actions grp) Ending_soon;
          priceIncreaseAction = findActionByType (gr_actions grp) Price_increase;
          cancelAtPeriodEndAction =
            (if ac_renewal_mode primary = Cancel_at_period_end then None
             else case priceIncreaseAction of
                 Some a \<Rightarrow> if ''cancel_at_period_end'' \<in> set (ac_allowed_actions a) then Some a
                           else findAllowedAction (gr_actions grp) ''cancel_at_period_end''
               | None \<Rightarrow> findAllowedAction (gr_actions grp) ''cancel_at_period_end'');
          prioritizeCancelAtPeriodEnd = (priceIncreaseAction \<noteq> None \<and> cancelAtPeriodEndAction \<noteq> None);
          cancelCommand = some_command Cancel_at_end_command cancelAtPeriodEndAction
      in (if prioritizeCancelAtPeriodEnd then cancelCommand else [])
         @ some_command Mark_renewed_command markRenewedAction
         @ some_command Keep_command keepSubscriptionAction
         @ (if prioritizeCancelAtPeriodEnd then [] else cancelCommand)
         @ [Edit_command primary, Open_command primary, Snooze_command grp])"

definition visibleCommands :: "SubscriptionActionGroup \<Rightarrow> ActionCommand list" where
  "visibleCommands grp = take 2 (group_commands grp)"

definition overflowCommands :: "SubscriptionActionGroup \<Rightarrow> ActionCommand list" where
  "overflowCommands grp = drop 2 (group_commands grp)"

definition formatActionDate :: "t_fun \<Rightarrow> (string \<Rightarrow> string) \<Rightarrow> SubscriptionAction \<Rightarrow> string" where
  "formatActionDate t formatDay action =
     (if truthy_str (ac_due_date action) then
        (let due = formatDay (the (ac_due_date action)) in
         case ac_days_until action of
           None \<Rightarrow> due
         | Some n \<Rightarrow>
             if n = 0 then t ''actions.date.today'' []
             else if n < 0 then t ''actions.date.overdue'' [(''count'', T_num (abs n))]
             else t ''actions.date.inDays'' [(''count'', T_num n), (''date'', T_text due)])
      else if truthy_str (ac_event_date action)
      then t ''actions.date.event'' [(''date'', T_text (formatDay (the (ac_event_date action))))]
      else t ''actions.date.none'' [])"

subsection \<open>State\<close>

text \<open>The bodies of the two updates that the page sends itself.\<close>

datatype action_update = Cancel_at_end string | Keep_subscription

datatype action_call =
    Load_actions
  | Refresh_actions
  | Action_renew SubscriptionAction
  | Action_put SubscriptionAction action_update
  | Snooze_group SubscriptionActionGroup
  | Reload_after SubscriptionAction
  | Reload_after_snooze
  | Form_put Subscription CreateSubscriptionInput
  | Form_renew Subscription
  | Reload_for_form

datatype action_reply =
    Action_failed
  | Actions_loaded ActionCenter "Subscription list option" "UserCurrency list option" "Category list option"
      "PaymentMethod list option"
  | Action_saved Subscription
  | Snoozed

record ActionState = "action_call PageCore" +
  center :: "ActionCenter option"
  actions_loading :: bool
  refreshing :: bool
  busyKey :: "string option"

definition mount_actions :: "SubscriptionDetail DetailState \<Rightarrow> ActionState" where
  "mount_actions details = send_call Load_actions
     \<lparr>pg_subscriptions = [], pg_categories = [], pg_paymentMethods = [], pg_userCurrencies = [], pg_editingSub = None,
      pg_drawer = None, pg_details = details, pg_open = [], pg_calls = [], pg_notices = [],
      center = None, actions_loading = True, refreshing = False, busyKey = None\<rparr>"

definition subscriptionForAction :: "ActionState \<Rightarrow> SubscriptionAction \<Rightarrow> Subscription option" where
  "subscriptionForAction s action = map_of_list sub_id (pg_subscriptions s) (ac_subscription_id action)"

text \<open>The part of \<open>fetchData\<close> after its five requests.\<close>

definition data_fetched ::
  "ActionCenter \<Rightarrow> Subscription list option \<Rightarrow> UserCurrency list option \<Rightarrow> Category list option
   \<Rightarrow> PaymentMethod list option \<Rightarrow> ActionState \<Rightarrow> ActionState" where
  "data_fetched c subs currencies cats methods s =
     s\<lparr>center := Some c, pg_subscriptions := nullish subs [], pg_userCurrencies := nullish currencies [],
       pg_categories := nullish cats [], pg_paymentMethods := nullish methods []\<rparr>"

definition handleRefresh :: "ActionState \<Rightarrow> ActionState" where
  "handleRefresh s = send_call Refresh_actions (s\<lparr>refreshing := True\<rparr>)"

definition openEdit :: "SubscriptionAction \<Rightarrow> ActionState \<Rightarrow> ActionState" where
  "openEdit action s = (case subscriptionForAction s action of None \<Rightarrow> s | Some sub \<Rightarrow> s\<lparr>pg_editingSub := Some sub\<rparr>)"

definition openDetail :: "int \<Rightarrow> SubscriptionAction \<Rightarrow> ActionState \<Rightarrow> ActionState" where
  "openDetail now action s =
     (case subscriptionForAction s action of None \<Rightarrow> s | Some sub \<Rightarrow> openSubscriptionDetail now sub s)"

definition handleMarkRenewed :: "SubscriptionAction \<Rightarrow> ActionState \<Rightarrow> ActionState" where
  "handleMarkRenewed action s =
     (if subscriptionForAction s action = None then notify (Page_error ''actions.error.subscriptionMissing'') s
      else send_call (Action_renew action) (s\<lparr>busyKey := Some (ac_key action)\<rparr>))"

definition handleCancelAtPeriodEnd :: "SubscriptionAction \<Rightarrow> ActionState \<Rightarrow> ActionState" where
  "handleCancelAtPeriodEnd action s =
     (case subscriptionForAction s action of
        None \<Rightarrow> notify (Page_error ''actions.error.subscriptionMissing'') s
      | Some sub \<Rightarrow>
          if \<not> truthy_str (sub_next_billing_date sub) then notify (Page_error ''actions.error.missingNextBilling'') s
          else send_call (Action_put action (Cancel_at_end (the (sub_next_billing_date sub))))
                 (s\<lparr>busyKey := Some (ac_key action)\<rparr>))"

definition handleKeepSubscription :: "SubscriptionAction \<Rightarrow> ActionState \<Rightarrow> ActionState" where
  "handleKeepSubscription action s =
     (if subscriptionForAction s action = None then notify (Page_error ''actions.error.subscriptionMissing'') s
      else send_call (Action_put action Keep_subscription) (s\<lparr>busyKey := Some (ac_key action)\<rparr>))"

text \<open>One request per action of the group, for seven days; the request stands for all of them.\<close>

definition handleSnooze :: "SubscriptionActionGroup \<Rightarrow> ActionState \<Rightarrow> ActionState" where
  "handleSnooze grp s = send_call (Snooze_group grp) (s\<lparr>busyKey := Some (gr_key grp)\<rparr>)"

text \<open>\<open>refreshAfterAction\<close> up to its request; an id of 0 is not one.\<close>

definition refreshAfterAction :: "int \<Rightarrow> action_call \<Rightarrow> ActionState \<Rightarrow> ActionState" where
  "refreshAfterAction i c s = send_call c (if i \<noteq> 0 then on_details (invalidateSubscriptionDetail i) s else s)"

text \<open>\<open>None\<close> is the error that the form reports: there is no subscription to save.\<close>

definition actions_submit :: "CreateSubscriptionInput \<Rightarrow> ActionState \<Rightarrow> ActionState option" where
  "actions_submit data s =
     (case pg_editingSub s of None \<Rightarrow> None | Some sub \<Rightarrow> Some (send_call (Form_put sub (update_payload data)) s))"

definition action_failed :: "ActionState \<Rightarrow> ActionState" where
  "action_failed s = (notify (Page_error ''actions.error.actionFailed'') s)\<lparr>busyKey := None\<rparr>"

fun update_notice :: "action_update \<Rightarrow> string" where
  "update_notice (Cancel_at_end day) = ''actions.toast.cancelAtPeriodEnd''"
| "update_notice Keep_subscription = ''actions.toast.keepSubscription''"

text \<open>The handlers after their request.\<close>

definition action_answered :: "action_call \<Rightarrow> action_reply \<Rightarrow> ActionState \<Rightarrow> ActionState" where
  "action_answered c r s =
     (case (c, r) of
        (Load_actions, Actions_loaded ce subs cur cats ms) \<Rightarrow> (data_fetched ce subs cur cats ms s)\<lparr>actions_loading := False\<rparr>
      | (Load_actions, Action_failed) \<Rightarrow> s\<lparr>actions_loading := False\<rparr>
      | (Refresh_actions, Actions_loaded ce subs cur cats ms) \<Rightarrow> (data_fetched ce subs cur cats ms s)\<lparr>refreshing := False\<rparr>
      | (Refresh_actions, Action_failed) \<Rightarrow>
          (notify (Page_error ''actions.error.description'') s)\<lparr>refreshing := False\<rparr>
      | (Action_renew action, Action_saved x) \<Rightarrow>
          refreshAfterAction (ac_subscription_id action) (Reload_after action)
            (notify (Page_success ''actions.toast.markRenewed'') s)
      | (Action_renew action, Action_failed) \<Rightarrow> action_failed s
      | (Action_put action u, Action_saved x) \<Rightarrow>
          refreshAfterAction (ac_subscription_id action) (Reload_after action) (notify (Page_success (update_notice u)) s)
      | (Action_put action u, Action_failed) \<Rightarrow> action_failed s
      | (Reload_after action, Actions_loaded ce subs cur cats ms) \<Rightarrow> (data_fetched ce subs cur cats ms s)\<lparr>busyKey := None\<rparr>
      | (Reload_after action, Action_failed) \<Rightarrow> action_failed s
      | (Snooze_group grp, Snoozed) \<Rightarrow>
          send_call Reload_after_snooze (notify (Page_success ''actions.toast.snoozed'') s)
      | (Snooze_group grp, Action_failed) \<Rightarrow> action_failed s
      | (Reload_after_snooze, Actions_loaded ce subs cur cats ms) \<Rightarrow> (data_fetched ce subs cur cats ms s)\<lparr>busyKey := None\<rparr>
      | (Reload_after_snooze, Action_failed) \<Rightarrow> action_failed s
      | (Form_put sub data, Action_saved x) \<Rightarrow>
          refreshAfterAction (sub_id sub) Reload_for_form
            ((notify (Page_success ''dashboard.updateSuccess'') s)\<lparr>pg_editingSub := None\<rparr>)
      | (Form_renew sub, Action_saved x) \<Rightarrow>
          refreshAfterAction (sub_id sub) Reload_for_form
            ((notify (Page_success ''actions.toast.markRenewed'') s)\<lparr>pg_editingSub := None\<rparr>)
      | (Reload_for_form, Actions_loaded ce subs cur cats ms) \<Rightarrow> data_fetched ce subs cur cats ms s
      | _ \<Rightarrow> s)"

datatype action_event =
    Actions_core core_event
  | Action_answer nat action_reply
  | Refresh
  | Run_command int nat nat
  | Open_group int nat
  | Actions_drawer_edit
  | Actions_form_closed
  | Actions_submit CreateSubscriptionInput
  | Actions_form_renewed Subscription

fun run_command :: "int \<Rightarrow> ActionCommand \<Rightarrow> ActionState \<Rightarrow> ActionState" where
  "run_command now (Cancel_at_end_command action) s = handleCancelAtPeriodEnd action s"
| "run_command now (Mark_renewed_command action) s = handleMarkRenewed action s"
| "run_command now (Keep_command action) s = handleKeepSubscription action s"
| "run_command now (Edit_command action) s = openEdit action s"
| "run_command now (Open_command action) s = openDetail now action s"
| "run_command now (Snooze_command grp) s = handleSnooze grp s"

definition actionGroups :: "ActionState \<Rightarrow> SubscriptionActionGroup list" where
  "actionGroups s = groupSubscriptionActions (case center s of None \<Rightarrow> [] | Some c \<Rightarrow> ce_items c)"

text \<open>The buttons of a group are disabled while it is busy; the group itself still opens the drawer.\<close>

definition group_busy :: "ActionState \<Rightarrow> SubscriptionActionGroup \<Rightarrow> bool" where
  "group_busy s grp \<longleftrightarrow> busyKey s = Some (gr_key grp) \<or> list_ex (\<lambda>action. busyKey s = Some (ac_key action)) (gr_actions grp)"

fun action_step :: "ActionState \<Rightarrow> action_event \<Rightarrow> ActionState" where
  "action_step s (Actions_core e) = core_step e s"
| "action_step s (Action_answer n r) =
     (if n < length (pg_open s) then action_answered (pg_open s ! n) r (s\<lparr>pg_open := without n (pg_open s)\<rparr>) else s)"
| "action_step s Refresh = (if actions_loading s \<or> refreshing s then s else handleRefresh s)"
| "action_step s (Run_command now g k) =
     (if g < length (actionGroups s) then
        (let grp = actionGroups s ! g; commands = group_commands grp
         in if group_busy s grp \<or> length commands \<le> k then s else run_command now (commands ! k) s)
      else s)"
| "action_step s (Open_group now g) =
     (if g < length (actionGroups s) then openDetail now (gr_primary (actionGroups s ! g)) s else s)"
| "action_step s Actions_drawer_edit = drawer_edit s"
| "action_step s Actions_form_closed = s\<lparr>pg_editingSub := None\<rparr>"
| "action_step s (Actions_submit data) = nullish (actions_submit data s) s"
| "action_step s (Actions_form_renewed sub) = send_call (Form_renew sub) s"

subsection \<open>Groups\<close>

definition group_id :: "SubscriptionActionGroup \<Rightarrow> int" where
  "group_id g = ac_subscription_id (gr_primary g)"

lemma group_id_simps [simp]:
  "group_id \<lparr>gr_key = k, gr_primary = p, gr_actions = xs\<rparr> = ac_subscription_id p"
  "group_id (g\<lparr>gr_actions := ys\<rparr>) = group_id g"
  by (simp_all add: group_id_def)

lemma add_to_group_Cons:
  "add_to_group item (g # gs) = (if group_id g = ac_subscription_id item then g\<lparr>gr_actions := gr_actions g @ [item]\<rparr> # gs
      else g # add_to_group item gs)"
  by (simp add: group_id_def)

definition first_ids :: "int list \<Rightarrow> int list" where
  "first_ids = foldl (\<lambda>ids i. if i \<in> set ids then ids else ids @ [i]) []"

definition group_of :: "SubscriptionAction list \<Rightarrow> SubscriptionActionGroup \<Rightarrow> bool" where
  "group_of items g \<longleftrightarrow> gr_actions g = filter (\<lambda>a. ac_subscription_id a = group_id g) items \<and> gr_actions g \<noteq> []
     \<and> gr_primary g = hd (gr_actions g) \<and> gr_key g = group_key (group_id g)"

lemma add_to_group_ids:
  "map group_id (add_to_group item gs)
   = (if ac_subscription_id item \<in> set (map group_id gs) then map group_id gs else map group_id gs @ [ac_subscription_id item])"
  by (induction gs) (auto simp: add_to_group_Cons simp del: add_to_group.simps(2))

lemma add_to_group_of:
  assumes "\<forall>g \<in> set gs. group_of items g" and "distinct (map group_id gs)"
    and "set (map ac_subscription_id items) = set (map group_id gs)"
  shows "\<forall>g \<in> set (add_to_group item gs). group_of (items @ [item]) g"
proof -
  have "\<forall>g \<in> set (add_to_group item gs). group_of (items @ [item]) g"
    if "\<forall>g \<in> set gs. group_of items g" "distinct (map group_id gs)"
      "ac_subscription_id item \<notin> set (map group_id gs) \<longrightarrow> filter (\<lambda>a. ac_subscription_id a = ac_subscription_id item) items = []"
    for gs
    using that
  proof (induction gs)
    case (Cons g gs)
    show ?case
    proof (cases "group_id g = ac_subscription_id item")
      case True
      then have "\<forall>h \<in> set gs. group_id h \<noteq> ac_subscription_id item" using Cons.prems(2) by force
      then have "\<forall>h \<in> set gs. group_of (items @ [item]) h" using Cons.prems(1) by (auto simp: group_of_def)
      moreover have "group_of (items @ [item]) (g\<lparr>gr_actions := gr_actions g @ [item]\<rparr>)"
        using Cons.prems(1) True by (auto simp: group_of_def hd_append)
      ultimately show ?thesis using True by (simp add: group_id_def)
    next
      case False
      have "\<forall>h \<in> set (add_to_group item gs). group_of (items @ [item]) h"
        using Cons.prems False by (intro Cons.IH) auto
      moreover have "group_of (items @ [item]) g" using Cons.prems(1) False by (auto simp: group_of_def)
      ultimately show ?thesis using False by (simp add: group_id_def)
    qed
  qed (simp add: group_of_def)
  moreover have "ac_subscription_id item \<notin> set (map group_id gs) \<longrightarrow>
      filter (\<lambda>a. ac_subscription_id a = ac_subscription_id item) items = []"
    using assms(3) by (auto simp: filter_empty_conv) (metis imageI)
  ultimately show ?thesis using assms by blast
qed

lemma groups_invariant:
  "map group_id (groupSubscriptionActions items) = first_ids (map ac_subscription_id items)
   \<and> distinct (map group_id (groupSubscriptionActions items))
   \<and> set (map ac_subscription_id items) = set (map group_id (groupSubscriptionActions items))
   \<and> (\<forall>g \<in> set (groupSubscriptionActions items). group_of items g)"
proof (induction items rule: rev_induct)
  case (snoc item items)
  have e: "groupSubscriptionActions (items @ [item]) = add_to_group item (groupSubscriptionActions items)"
    by (simp add: groupSubscriptionActions_def)
  have f: "first_ids (is @ [i]) = (if i \<in> set (first_ids is) then first_ids is else first_ids is @ [i])" for "is" i
    by (simp add: first_ids_def Let_def)
  let ?gs = "groupSubscriptionActions items"
  have ih: "map group_id ?gs = first_ids (map ac_subscription_id items)" "distinct (map group_id ?gs)"
    "set (map ac_subscription_id items) = set (map group_id ?gs)" "\<forall>g \<in> set ?gs. group_of items g"
    using snoc.IH by blast+
  have "map group_id (add_to_group item ?gs) = first_ids (map ac_subscription_id (items @ [item]))"
    using ih(1) by (simp add: add_to_group_ids f)
  moreover have "distinct (map group_id (add_to_group item ?gs))"
    using ih(2) unfolding add_to_group_ids by (simp split: if_splits)
  moreover have "set (map ac_subscription_id (items @ [item])) = set (map group_id (add_to_group item ?gs))"
    using ih(3) unfolding add_to_group_ids by auto
  ultimately show ?case using add_to_group_of [OF ih(4,2,3), of item] unfolding e by blast
qed (simp add: groupSubscriptionActions_def first_ids_def)

text \<open>C31: the action centre shows every subscription with an action once, in the order of its first action, with
  exactly its own actions in their order, the first of them in front; the keys of the groups differ.\<close>

theorem actions_grouped_by_subscription:
  "map group_id (groupSubscriptionActions items) = first_ids (map ac_subscription_id items)
   \<and> distinct (map gr_key (groupSubscriptionActions items))
   \<and> list_all (\<lambda>g. gr_actions g = filter (\<lambda>a. ac_subscription_id a = group_id g) items \<and> gr_primary g = hd (gr_actions g))
       (groupSubscriptionActions items)"
proof -
  let ?gs = "groupSubscriptionActions items"
  note inv = groups_invariant [of items]
  have "map gr_key ?gs = map (group_key \<circ> group_id) ?gs" using inv by (intro map_cong) (auto simp: group_of_def)
  then have "map gr_key ?gs = map group_key (map group_id ?gs)" by (simp only: map_map)
  moreover have "inj group_key"
    by (rule injI) (simp add: group_key_def int_text.enc_inject)
  moreover have "distinct (map group_id ?gs)" using inv by blast
  ultimately have "distinct (map gr_key ?gs)"
    using distinct_map [of group_key "map group_id ?gs"] inj_on_subset [of group_key UNIV] by (simp only:) blast
  with inv show ?thesis by (auto simp: list_all_iff group_of_def)
qed

subsection \<open>Commands\<close>

lemma find_Some: "find P xs = Some x \<Longrightarrow> x \<in> set xs \<and> P x"
  by (induction xs) (auto split: if_splits)

lemma find_None: "find P xs = None \<longleftrightarrow> (\<forall>x \<in> set xs. \<not> P x)"
  by (induction xs) auto

lemma some_command_mem: "x \<in> set (some_command c v) \<longleftrightarrow> (\<exists>a. v = Some a \<and> x = c a)"
  by (cases v) (auto simp: some_command_def)

text \<open>the buttons and the menu of a group together are its commands; editing, opening and snoozing are always
  among them; a renewal and a cancellation are offered exactly when an action of the group allows them, for such an
  action, and a cancellation never for a subscription that already ends; when an action reports a higher price, the
  cancellation comes first.\<close>

theorem offered_commands:
  "visibleCommands g @ overflowCommands g = group_commands g
   \<and> {Edit_command (gr_primary g), Open_command (gr_primary g), Snooze_command g} \<subseteq> set (group_commands g)
   \<and> (\<forall>a. Mark_renewed_command a \<in> set (group_commands g)
        \<longrightarrow> a \<in> set (gr_actions g) \<and> ''mark_renewed'' \<in> set (ac_allowed_actions a))
   \<and> (\<forall>a. Cancel_at_end_command a \<in> set (group_commands g)
        \<longrightarrow> a \<in> set (gr_actions g) \<and> ''cancel_at_period_end'' \<in> set (ac_allowed_actions a)
          \<and> ac_renewal_mode (gr_primary g) \<noteq> Cancel_at_period_end)
   \<and> ((\<exists>a. Mark_renewed_command a \<in> set (group_commands g))
        \<longleftrightarrow> list_ex (\<lambda>a. ''mark_renewed'' \<in> set (ac_allowed_actions a)) (gr_actions g))
   \<and> ((\<exists>a. Cancel_at_end_command a \<in> set (group_commands g))
        \<longleftrightarrow> ac_renewal_mode (gr_primary g) \<noteq> Cancel_at_period_end
          \<and> list_ex (\<lambda>a. ''cancel_at_period_end'' \<in> set (ac_allowed_actions a)) (gr_actions g))
   \<and> (list_ex (\<lambda>a. ac_type a = Price_increase) (gr_actions g) \<and> (\<exists>a. Cancel_at_end_command a \<in> set (group_commands g))
        \<longrightarrow> (\<exists>a. hd (visibleCommands g) = Cancel_at_end_command a))"
proof -
  define price cancel where "price = findActionByType (gr_actions g) Price_increase"
    and "cancel = (if ac_renewal_mode (gr_primary g) = Cancel_at_period_end then None
      else case price of
          Some a \<Rightarrow> if ''cancel_at_period_end'' \<in> set (ac_allowed_actions a) then Some a
                    else findAllowedAction (gr_actions g) ''cancel_at_period_end''
        | None \<Rightarrow> findAllowedAction (gr_actions g) ''cancel_at_period_end'')"
  have c: "group_commands g = (if price \<noteq> None \<and> cancel \<noteq> None then some_command Cancel_at_end_command cancel else [])
      @ some_command Mark_renewed_command (findAllowedAction (gr_actions g) ''mark_renewed'')
      @ some_command Keep_command (findActionByType (gr_actions g) Ending_soon)
      @ (if price \<noteq> None \<and> cancel \<noteq> None then [] else some_command Cancel_at_end_command cancel)
      @ [Edit_command (gr_primary g), Open_command (gr_primary g), Snooze_command g]"
    by (simp add: group_commands_def price_def cancel_def Let_def)
  have allowed: "a \<in> set (gr_actions g) \<and> n \<in> set (ac_allowed_actions a)"
    if "findAllowedAction (gr_actions g) n = Some a" for n a
    using that find_Some by (fastforce simp: findAllowedAction_def)
  have some: "findAllowedAction (gr_actions g) n \<noteq> None \<longleftrightarrow> list_ex (\<lambda>a. n \<in> set (ac_allowed_actions a)) (gr_actions g)" for n
    by (simp add: findAllowedAction_def find_None list_ex_iff)
  have pr: "price \<noteq> None \<longleftrightarrow> list_ex (\<lambda>a. ac_type a = Price_increase) (gr_actions g)"
    by (simp add: price_def findActionByType_def find_None list_ex_iff)
  have pm: "a \<in> set (gr_actions g)" if "price = Some a" for a
    using that find_Some by (fastforce simp: price_def findActionByType_def)
  have mem: "Mark_renewed_command a \<in> set (group_commands g) \<longleftrightarrow> findAllowedAction (gr_actions g) ''mark_renewed'' = Some a"
    "Cancel_at_end_command a \<in> set (group_commands g) \<longleftrightarrow> cancel = Some a" for a
    unfolding c by (auto simp: some_command_mem)
  have cm: "a \<in> set (gr_actions g) \<and> ''cancel_at_period_end'' \<in> set (ac_allowed_actions a)
      \<and> ac_renewal_mode (gr_primary g) \<noteq> Cancel_at_period_end" if "cancel = Some a" for a
    using that allowed pm by (auto simp: cancel_def split: if_splits option.splits)
  have ce: "cancel \<noteq> None \<longleftrightarrow> ac_renewal_mode (gr_primary g) \<noteq> Cancel_at_period_end
      \<and> list_ex (\<lambda>a. ''cancel_at_period_end'' \<in> set (ac_allowed_actions a)) (gr_actions g)"
  proof
    assume "cancel \<noteq> None"
    then show "ac_renewal_mode (gr_primary g) \<noteq> Cancel_at_period_end
      \<and> list_ex (\<lambda>a. ''cancel_at_period_end'' \<in> set (ac_allowed_actions a)) (gr_actions g)"
      using cm by (auto simp: list_ex_iff)
  next
    assume "ac_renewal_mode (gr_primary g) \<noteq> Cancel_at_period_end
      \<and> list_ex (\<lambda>a. ''cancel_at_period_end'' \<in> set (ac_allowed_actions a)) (gr_actions g)"
    then show "cancel \<noteq> None" using some [of "''cancel_at_period_end''"] by (auto simp: cancel_def split: option.splits)
  qed
  have first: "\<exists>a. hd (visibleCommands g) = Cancel_at_end_command a" if "price \<noteq> None" "cancel \<noteq> None"
    using that by (auto simp: visibleCommands_def c some_command_def)
  have "{Edit_command (gr_primary g), Open_command (gr_primary g), Snooze_command g} \<subseteq> set (group_commands g)"
    unfolding c by simp
  moreover have "visibleCommands g @ overflowCommands g = group_commands g"
    by (simp add: visibleCommands_def overflowCommands_def)
  moreover have "(\<exists>a. findAllowedAction (gr_actions g) ''mark_renewed'' = Some a)
      \<longleftrightarrow> list_ex (\<lambda>a. ''mark_renewed'' \<in> set (ac_allowed_actions a)) (gr_actions g)"
    using some [of "''mark_renewed''"] by (simp only: not_None_eq)
  moreover have "(\<exists>a. cancel = Some a) \<longleftrightarrow> ac_renewal_mode (gr_primary g) \<noteq> Cancel_at_period_end
      \<and> list_ex (\<lambda>a. ''cancel_at_period_end'' \<in> set (ac_allowed_actions a)) (gr_actions g)"
    using ce by (simp only: not_None_eq)
  moreover have "list_ex (\<lambda>a. ac_type a = Price_increase) (gr_actions g) \<and> (\<exists>a. cancel = Some a)
      \<longrightarrow> (\<exists>a. hd (visibleCommands g) = Cancel_at_end_command a)"
    using first unfolding pr [symmetric] by (simp only: not_None_eq) blast
  ultimately show ?thesis unfolding mem using allowed cm by (intro conjI allI impI) (assumption | blast)+
qed

text \<open>A group with a renewal that is due and a higher price.\<close>

definition due_action :: "int \<Rightarrow> SubscriptionAction" where
  "due_action i = \<lparr>ac_key = ''due:'' @ int_to_string i, ac_type = Manual_renewal_due, ac_severity = High,
     ac_needs_decision = True, ac_needs_repair = False, ac_upcoming_charge = False, ac_subscription_id = i,
     ac_subscription_name = [], ac_subscription_icon = [], ac_amount = 12, ac_currency = ''USD'',
     ac_renewal_mode = Manual_renew, ac_status = Active, ac_due_date = None, ac_days_until = None, ac_event_date = None,
     ac_message = [], ac_detail = [], ac_previous_monthly_amount = None, ac_new_monthly_amount = None,
     ac_delta_monthly_amount = None, ac_delta_percentage = None, ac_notification_channel = [],
     ac_notification_error = [], ac_allowed_actions = [''mark_renewed''], ac_snoozed_until = None\<rparr>"

theorem offered_commands_witness:
  "visibleCommands \<lparr>gr_key = [], gr_primary = due_action 7, gr_actions = [due_action 7,
     (due_action 7)\<lparr>ac_type := Price_increase, ac_allowed_actions := [''cancel_at_period_end'']\<rparr>]\<rparr>
   = [Cancel_at_end_command ((due_action 7)\<lparr>ac_type := Price_increase, ac_allowed_actions := [''cancel_at_period_end'']\<rparr>),
      Mark_renewed_command (due_action 7)]"
proof -
  define p where "p = (due_action 7)\<lparr>ac_type := Price_increase, ac_allowed_actions := [''cancel_at_period_end'']\<rparr>"
  define g where "g = \<lparr>gr_key = [], gr_primary = due_action 7, gr_actions = [due_action 7, p]\<rparr>"
  have "visibleCommands g = [Cancel_at_end_command p, Mark_renewed_command (due_action 7)]"
    by (simp add: g_def p_def visibleCommands_def group_commands_def findAllowedAction_def findActionByType_def
        some_command_def due_action_def Let_def)
  moreover from offered_commands [of g] have "visibleCommands g @ overflowCommands g = group_commands g" by blast
  ultimately show ?thesis by (simp add: g_def p_def)
qed

subsection \<open>Runs\<close>

lemmas action_handlers = handleRefresh_def openEdit_def handleMarkRenewed_def handleCancelAtPeriodEnd_def
  handleKeepSubscription_def handleSnooze_def actions_submit_def action_failed_def data_fetched_def

text \<open>What a step does to the cache of details: an answer that saved a subscription invalidates its detail.\<close>

definition saved_id :: "action_call \<Rightarrow> action_reply \<Rightarrow> int option" where
  "saved_id c r =
     (let i = (case (c, r) of
        (Action_renew a, Action_saved x) \<Rightarrow> ac_subscription_id a
      | (Action_put a u, Action_saved x) \<Rightarrow> ac_subscription_id a
      | (Form_put sub data, Action_saved x) \<Rightarrow> sub_id sub
      | (Form_renew sub, Action_saved x) \<Rightarrow> sub_id sub
      | _ \<Rightarrow> 0)
      in if i = 0 then None else Some i)"

definition action_saved :: "ActionState \<Rightarrow> action_event \<Rightarrow> int option" where
  "action_saved s e =
     (case e of Action_answer n r \<Rightarrow> if n < length (pg_open s) then saved_id (pg_open s ! n) r else None | _ \<Rightarrow> None)"

definition opening_acts :: "int \<Rightarrow> SubscriptionAction \<Rightarrow> ActionState \<Rightarrow> SubscriptionDetail detail_event list" where
  "opening_acts now a s = (case subscriptionForAction s a of None \<Rightarrow> [] | Some sub \<Rightarrow> core_details (Open_detail now sub))"

definition action_acts :: "ActionState \<Rightarrow> action_event \<Rightarrow> SubscriptionDetail detail_event list" where
  "action_acts s e =
     (case action_saved s e of
        Some i \<Rightarrow> [Invalidate i]
      | None \<Rightarrow>
          (case e of
             Actions_core ce \<Rightarrow> core_details ce
           | Run_command now g k \<Rightarrow>
               if g < length (actionGroups s) \<and> \<not> group_busy s (actionGroups s ! g)
                  \<and> k < length (group_commands (actionGroups s ! g))
               then (case group_commands (actionGroups s ! g) ! k of Open_command a \<Rightarrow> opening_acts now a s | _ \<Rightarrow> [])
               else []
           | Open_group now g \<Rightarrow>
               if g < length (actionGroups s) then opening_acts now (gr_primary (actionGroups s ! g)) s else []
           | _ \<Rightarrow> []))"

lemma openDetail_details: "pg_details (openDetail now a s) = foldl detail_step (pg_details s) (opening_acts now a s)"
  by (cases "subscriptionForAction s a")
    (simp_all add: openDetail_def opening_acts_def openSubscriptionDetail_details del: foldl.simps, simp)

lemma refreshAfterAction_details:
  "pg_details (refreshAfterAction i c s) = (if i = 0 then pg_details s else invalidateSubscriptionDetail i (pg_details s))"
  by (simp add: refreshAfterAction_def)

lemma action_answered_details:
  "pg_details (action_answered c r s) = (case saved_id c r of None \<Rightarrow> pg_details s
     | Some i \<Rightarrow> invalidateSubscriptionDetail i (pg_details s))"
  by (cases c; cases r) (simp_all add: action_answered_def saved_id_def refreshAfterAction_details data_fetched_def
      action_failed_def)

lemma run_command_details:
  "pg_details (run_command now c s) =
     foldl detail_step (pg_details s) (case c of Open_command a \<Rightarrow> opening_acts now a s | _ \<Rightarrow> [])"
  by (cases c) (simp_all add: openDetail_details action_handlers split: option.split)

lemma action_step_details:
  "pg_details (action_step s e) = foldl detail_step (pg_details s) (action_acts s e)"
proof (cases e)
  case (Action_answer n r)
  then show ?thesis
    by (simp add: action_acts_def action_saved_def action_answered_details split: option.split)
qed (simp_all add: action_acts_def action_saved_def core_step_details run_command_details openDetail_details
    action_handlers drawer_edit_def Let_def not_le split: option.split)

interpretation action_client: invalidating_client action_step pg_details action_acts action_saved
  by unfold_locales (rule action_step_details, simp add: action_acts_def)

text \<open>C23: after a renewal, a change of the renewal or a saved form, whatever happens in the meantime, the drawer of
  that subscription never shows a detail from before the change: unless the detail has been asked for since, opening
  the drawer shows none and sends a new request, also when requests from before the change answer late.\<close>

theorem drawer_fresh_after_save:
  assumes "s = foldl action_step (mount_actions (foldl detail_step initial_details earlier)) es"
    and "action_saved s e = Some (sub_id sub)"
    and "never_loads action_step action_acts (sub_id sub) (action_step s e) later"
  shows "waits_for_new_request (sub_id sub) (foldl action_step s (e # later))
    (foldl action_step s (e # later @ [Actions_core (Open_detail now sub)]))"
proof -
  have "details_ok (pg_details (mount_actions (foldl detail_step initial_details earlier)))"
    using details_ok_run [of earlier] by (simp add: mount_actions_def)
  then have "details_ok (pg_details s)" unfolding assms(1) by (rule action_client.details_ok_steps)
  from action_client.saved_stays_outdated [OF this assms(2,3)]
  show ?thesis using open_outdated [of sub "foldl action_step s (e # later)" now] by simp
qed

text \<open>An action centre with a due renewal of each of two subscriptions.\<close>

definition two_due :: ActionCenter where
  "two_due = \<lparr>ce_generated_at = [], ce_window_days = 30, ce_urgent_days = 7, ce_items = [due_action 7, due_action 8],
     ce_counts = \<lparr>co_total = 2, co_critical = 0, co_high = 2, co_medium = 0, co_low = 0, co_needs_decision = 2,
       co_needs_repair = 0, co_upcoming_charge = 0, co_snoozed = 0\<rparr>, ce_available_types = []\<rparr>"

definition two_loaded :: action_event where
  "two_loaded = Action_answer 0 (Actions_loaded two_due (Some [netflix, netflix\<lparr>sub_id := 8\<rparr>]) None None None)"

lemma netflix_id [simp]: "sub_id netflix = 7"
  by (simp add: netflix_def)

lemma due_action_simps [simp]:
  "ac_subscription_id (due_action i) = i" "ac_key (due_action i) = ''due:'' @ int_to_string i"
  "ac_type (due_action i) = Manual_renewal_due" "ac_allowed_actions (due_action i) = [''mark_renewed'']"
  by (simp_all add: due_action_def)

definition due_group :: "int \<Rightarrow> SubscriptionActionGroup" where
  "due_group i = \<lparr>gr_key = group_key i, gr_primary = due_action i, gr_actions = [due_action i]\<rparr>"

lemma two_due_groups: "groupSubscriptionActions (ce_items two_due) = [due_group 7, due_group 8]"
  by (simp add: groupSubscriptionActions_def two_due_def due_group_def)

lemma due_commands:
  "group_commands (due_group i)
   = [Mark_renewed_command (due_action i), Edit_command (due_action i), Open_command (due_action i), Snooze_command (due_group i)]"
  by (simp add: group_commands_def due_group_def findAllowedAction_def findActionByType_def some_command_def Let_def)

lemma due_busy: "busyKey s = Some (''due:'' @ int_to_string j) \<Longrightarrow> group_busy s (due_group i) \<longleftrightarrow> i = j"
  "busyKey s = None \<Longrightarrow> \<not> group_busy s (due_group i)"
  by (auto simp: group_busy_def due_group_def group_key_def int_text.enc_inject)

lemmas action_machine = mount_actions_def send_call_def notify_def on_details_def two_loaded_def without_def
  action_answered_def data_fetched_def actionGroups_def two_due_groups due_commands due_busy action_handlers
  subscriptionForAction_def map_of_list_def refreshAfterAction_def

theorem drawer_fresh_after_save_witness:
  "waits_for_new_request 7
     (foldl action_step (foldl action_step (mount_actions (foldl detail_step initial_details [Load 7 0]))
       [two_loaded, Run_command 0 0 0]) [Action_answer 0 (Action_saved netflix), Actions_core (Detail_answered 0 (Inr netflix_detail) 50)])
     (foldl action_step (foldl action_step (mount_actions (foldl detail_step initial_details [Load 7 0]))
       [two_loaded, Run_command 0 0 0])
       (Action_answer 0 (Action_saved netflix) # [Actions_core (Detail_answered 0 (Inr netflix_detail) 50)]
         @ [Actions_core (Open_detail 60 netflix)]))"
proof -
  let ?s = "foldl action_step (mount_actions (foldl detail_step initial_details [Load 7 0])) [two_loaded, Run_command 0 0 0]"
  have "pg_open ?s = [Action_renew (due_action 7)]" by (simp add: action_machine)
  then have "action_saved ?s (Action_answer 0 (Action_saved netflix)) = Some (sub_id netflix)"
    by (simp add: action_saved_def saved_id_def)
  moreover have "never_loads action_step action_acts (sub_id netflix) (action_step ?s (Action_answer 0 (Action_saved netflix)))
      [Actions_core (Detail_answered 0 (Inr netflix_detail) 50)]"
    by (simp only: never_loads.simps) (simp add: action_acts_def action_saved_def)
  ultimately show ?thesis unfolding netflix_id [symmetric] by (rule drawer_fresh_after_save [OF refl])
qed

text \<open>
  \<open>busyKey\<close> names one group: when two groups are busy, the first one that is done enables the buttons of both, and
  a renewal whose request is still open can be sent again.
\<close>

lemma renewal_is_sent_twice:
  "let s = foldl action_step (mount_actions initial_details) [two_loaded, Run_command 0 0 0, Run_command 0 1 0,
      Action_answer 1 Action_failed, Run_command 0 0 0]
   in pg_open s = [Action_renew (due_action 7), Action_renew (due_action 7)]"
  by (simp add: action_machine)

text \<open>A renewal that succeeded is reported as failed when the list cannot be loaded again, and can be sent again.\<close>

lemma renewal_reported_as_failed:
  "let s = foldl action_step (mount_actions initial_details) [two_loaded, Run_command 0 0 0,
      Action_answer 0 (Action_saved netflix), Action_answer 0 Action_failed]
   in pg_notices s = [Page_success ''actions.toast.markRenewed'', Page_error ''actions.error.actionFailed'']
      \<and> busyKey s = None \<and> subscriptionForAction s (due_action 7) = Some netflix"
  by (simp add: action_machine)

end
