(* ===== verification/AdminTypes.thy ===== *)
theory AdminTypes
  imports Types
begin

text \<open>
  The records of \<open>web/src/types/admin.ts\<close> and the exchange-rate status.  A field of
  \<open>UpdateSettingsInput\<close> that is absent is \<open>None\<close>.
\<close>

datatype AdminUserStatus = User_active | User_disabled

datatype BackgroundTaskStatus = Task_idle | Task_running | Task_succeeded | Task_failed

record AdminUser =
  au_id :: int
  au_email :: string
  au_role :: UserRole
  au_status :: AdminUserStatus
  au_created_at :: string
  au_subscription_count :: int

record BackgroundTask =
  bt_key :: string
  bt_name :: string
  bt_description :: string
  bt_interval_seconds :: int
  bt_status :: BackgroundTaskStatus
  bt_running :: bool
  bt_last_started_at :: "string option"
  bt_last_finished_at :: "string option"
  bt_next_run_at :: "string option"
  bt_last_duration_ms :: int
  bt_last_error :: string
  bt_success_count :: int
  bt_failure_count :: int

record SystemSettings =
  ss_registration_enabled :: bool
  ss_registration_email_verification_enabled :: bool
  ss_email_domain_whitelist :: string
  ss_site_name :: string
  ss_site_url :: string
  ss_icon_proxy_enabled :: bool
  ss_icon_proxy_domain_whitelist :: string
  ss_mcp_enabled :: bool
  ss_audit_enabled :: bool
  ss_system_proxy_enabled :: bool
  ss_system_proxy_type :: string
  ss_system_proxy_url_configured :: bool
  ss_ssrf_protection_enabled :: bool
  ss_ssrf_allow_private_ip :: bool
  ss_ssrf_domain_filter_mode :: string
  ss_ssrf_domain_filter_list :: string
  ss_ssrf_ip_filter_mode :: string
  ss_ssrf_ip_filter_list :: string
  ss_ssrf_filter_resolved_ips :: bool
  ss_currencyapi_key_configured :: bool
  ss_exchange_rate_source :: string
  ss_allow_image_upload :: bool
  ss_max_icon_file_size :: int
  ss_smtp_enabled :: bool
  ss_smtp_host :: string
  ss_smtp_port :: int
  ss_smtp_username :: string
  ss_smtp_password_configured :: bool
  ss_smtp_from_email :: string
  ss_smtp_from_name :: string
  ss_smtp_encryption :: string
  ss_smtp_auth_method :: string
  ss_smtp_helo_name :: string
  ss_smtp_timeout_seconds :: int
  ss_smtp_rate_limit_seconds :: int
  ss_smtp_skip_tls_verify :: bool
  ss_oidc_enabled :: bool
  ss_oidc_provider_name :: string
  ss_oidc_issuer_url :: string
  ss_oidc_client_id :: string
  ss_oidc_client_secret_configured :: bool
  ss_oidc_redirect_url :: string
  ss_oidc_scopes :: string
  ss_oidc_auto_create_user :: bool
  ss_oidc_authorization_endpoint :: string
  ss_oidc_token_endpoint :: string
  ss_oidc_userinfo_endpoint :: string
  ss_oidc_audience :: string
  ss_oidc_resource :: string
  ss_oidc_extra_auth_params :: string
  ss_backup_schedule_enabled :: bool
  ss_backup_time_of_day :: string
  ss_backup_include_assets :: bool
  ss_backup_encrypt_enabled :: bool
  ss_backup_encryption_password_configured :: bool
  ss_backup_local_dir :: string
  ss_backup_retention_count :: int
  ss_backup_last_run_at :: string
  ss_backup_last_status :: string
  ss_backup_last_error :: string

record UpdateSettingsInput =
  us_registration_enabled :: "bool option"
  us_registration_email_verification_enabled :: "bool option"
  us_email_domain_whitelist :: "string option"
  us_site_name :: "string option"
  us_site_url :: "string option"
  us_icon_proxy_enabled :: "bool option"
  us_icon_proxy_domain_whitelist :: "string option"
  us_mcp_enabled :: "bool option"
  us_audit_enabled :: "bool option"
  us_system_proxy_enabled :: "bool option"
  us_system_proxy_type :: "string option"
  us_system_proxy_url :: "string option"
  us_ssrf_protection_enabled :: "bool option"
  us_ssrf_allow_private_ip :: "bool option"
  us_ssrf_domain_filter_mode :: "string option"
  us_ssrf_domain_filter_list :: "string option"
  us_ssrf_ip_filter_mode :: "string option"
  us_ssrf_ip_filter_list :: "string option"
  us_ssrf_filter_resolved_ips :: "bool option"
  us_currencyapi_key :: "string option"
  us_exchange_rate_source :: "string option"
  us_allow_image_upload :: "bool option"
  us_max_icon_file_size :: "int option"
  us_smtp_enabled :: "bool option"
  us_smtp_host :: "string option"
  us_smtp_port :: "int option"
  us_smtp_username :: "string option"
  us_smtp_password :: "string option"
  us_smtp_from_email :: "string option"
  us_smtp_from_name :: "string option"
  us_smtp_encryption :: "string option"
  us_smtp_auth_method :: "string option"
  us_smtp_helo_name :: "string option"
  us_smtp_timeout_seconds :: "int option"
  us_smtp_rate_limit_seconds :: "int option"
  us_smtp_skip_tls_verify :: "bool option"
  us_oidc_enabled :: "bool option"
  us_oidc_provider_name :: "string option"
  us_oidc_issuer_url :: "string option"
  us_oidc_client_id :: "string option"
  us_oidc_client_secret :: "string option"
  us_oidc_redirect_url :: "string option"
  us_oidc_scopes :: "string option"
  us_oidc_auto_create_user :: "bool option"
  us_oidc_authorization_endpoint :: "string option"
  us_oidc_token_endpoint :: "string option"
  us_oidc_userinfo_endpoint :: "string option"
  us_oidc_audience :: "string option"
  us_oidc_resource :: "string option"
  us_oidc_extra_auth_params :: "string option"
  us_backup_schedule_enabled :: "bool option"
  us_backup_time_of_day :: "string option"
  us_backup_include_assets :: "bool option"
  us_backup_encrypt_enabled :: "bool option"
  us_backup_encryption_password :: "string option"
  us_backup_local_dir :: "string option"
  us_backup_retention_count :: "int option"

record LocalBackupInfo =
  lb_name :: string
  lb_size :: int
  lb_modified_at :: string
  lb_encrypted :: bool

record LocalBackupList =
  ll_directory :: string
  ll_backups :: "LocalBackupInfo list"

record SSRFTestResult =
  sr_target :: string
  sr_host :: string
  sr_allowed :: bool
  sr_reason :: string
  sr_resolved_ips :: "string list"
  sr_protection_enabled :: bool
  sr_allow_private_ip :: bool
  sr_domain_filter_mode :: string
  sr_ip_filter_mode :: string
  sr_filter_resolved_ips :: bool
  sr_proxy_mediated :: bool
  sr_resolved_ip_filter_applied :: bool

end
