(* ===== verification/AdminSettings.thy ===== *)
theory AdminSettings
  imports AdminTypes Numbers
begin

text \<open>
  The settings form of the administration page, the part of
  \<open>web/src/features/admin/hooks/use-admin-page-state.ts\<close> that turns the stored settings into the form
  and the form into an update.  The numbers of the form come from \<open>parseInt\<close> or from the server and
  are integers, so \<open>Number.isInteger\<close> holds.
\<close>

record AdminSettingsFormState =
  af_allowImageUpload :: bool
  af_backupScheduleEnabled :: bool
  af_backupTimeOfDay :: string
  af_backupIncludeAssets :: bool
  af_backupEncryptEnabled :: bool
  af_backupEncryptionPassword :: string
  af_backupEncryptionPasswordConfigured :: bool
  af_backupLocalDir :: string
  af_backupRetentionCount :: int
  af_currencyApiKey :: string
  af_currencyApiKeyConfigured :: bool
  af_emailDomainWhitelist :: string
  af_exchangeRateSource :: string
  af_iconProxyDomainWhitelist :: string
  af_iconProxyEnabled :: bool
  af_maxIconFileSize :: int
  af_mcpEnabled :: bool
  af_auditEnabled :: bool
  af_oidcAudience :: string
  af_oidcAuthorizationEndpoint :: string
  af_oidcAutoCreateUser :: bool
  af_oidcClientID :: string
  af_oidcClientSecret :: string
  af_oidcClientSecretConfigured :: bool
  af_oidcEnabled :: bool
  af_oidcExtraAuthParams :: string
  af_oidcIssuerURL :: string
  af_oidcProviderName :: string
  af_oidcRedirectURL :: string
  af_oidcResource :: string
  af_oidcScopes :: string
  af_oidcTokenEndpoint :: string
  af_oidcUserinfoEndpoint :: string
  af_registrationEmailVerificationEnabled :: bool
  af_registrationEnabled :: bool
  af_siteName :: string
  af_siteUrl :: string
  af_smtpAuthMethod :: string
  af_smtpEnabled :: bool
  af_smtpEncryption :: string
  af_smtpFromEmail :: string
  af_smtpFromName :: string
  af_smtpHeloName :: string
  af_smtpHost :: string
  af_smtpPassword :: string
  af_smtpPasswordConfigured :: bool
  af_smtpPort :: int
  af_smtpRateLimitSeconds :: int
  af_smtpSkipTLSVerify :: bool
  af_smtpTimeoutSeconds :: int
  af_smtpUsername :: string
  af_ssrfAllowPrivateIP :: bool
  af_ssrfDomainFilterList :: string
  af_ssrfDomainFilterMode :: string
  af_ssrfFilterResolvedIPs :: bool
  af_ssrfIPFilterList :: string
  af_ssrfIPFilterMode :: string
  af_ssrfProtectionEnabled :: bool
  af_systemProxyEnabled :: bool
  af_systemProxyType :: string
  af_systemProxyUrl :: string
  af_systemProxyUrlConfigured :: bool

text \<open>\<open>settings?.x ?? d\<close>, and \<open>settings?.x || d\<close> for numbers and texts.\<close>

definition with_default :: "'a \<Rightarrow> (SystemSettings \<Rightarrow> 'a) \<Rightarrow> SystemSettings option \<Rightarrow> 'a" where
  "with_default d f settings = (case settings of None \<Rightarrow> d | Some st \<Rightarrow> f st)"

definition or_number :: "int \<Rightarrow> (SystemSettings \<Rightarrow> int) \<Rightarrow> SystemSettings option \<Rightarrow> int" where
  "or_number d f settings = (case settings of None \<Rightarrow> d | Some st \<Rightarrow> if f st = 0 then d else f st)"

definition or_text :: "string \<Rightarrow> (SystemSettings \<Rightarrow> string) \<Rightarrow> SystemSettings option \<Rightarrow> string" where
  "or_text d f settings = (case settings of None \<Rightarrow> d | Some st \<Rightarrow> or_str (f st) d)"

text \<open>\<open>Math.round(n / d)\<close>: halves are rounded up.\<close>

definition js_round_div :: "int \<Rightarrow> int \<Rightarrow> int" where
  "js_round_div n d = (2 * n + d) div (2 * d)"

definition createSettingsForm :: "SystemSettings option \<Rightarrow> AdminSettingsFormState" where
  "createSettingsForm settings = \<lparr>
     af_allowImageUpload = with_default True ss_allow_image_upload settings,
     af_backupScheduleEnabled = with_default False ss_backup_schedule_enabled settings,
     af_backupTimeOfDay = or_text ''03:00'' ss_backup_time_of_day settings,
     af_backupIncludeAssets = with_default False ss_backup_include_assets settings,
     af_backupEncryptEnabled = with_default False ss_backup_encrypt_enabled settings,
     af_backupEncryptionPassword = [],
     af_backupEncryptionPasswordConfigured = with_default False ss_backup_encryption_password_configured settings,
     af_backupLocalDir = or_text [] ss_backup_local_dir settings,
     af_backupRetentionCount = with_default 7 ss_backup_retention_count settings,
     af_currencyApiKey = [],
     af_currencyApiKeyConfigured = with_default False ss_currencyapi_key_configured settings,
     af_emailDomainWhitelist = or_text [] ss_email_domain_whitelist settings,
     af_exchangeRateSource = or_text ''auto'' ss_exchange_rate_source settings,
     af_iconProxyDomainWhitelist = or_text [] ss_icon_proxy_domain_whitelist settings,
     af_iconProxyEnabled = with_default True ss_icon_proxy_enabled settings,
     af_maxIconFileSize = (case settings of None \<Rightarrow> 64 | Some st \<Rightarrow> if ss_max_icon_file_size st \<noteq> 0 then js_round_div (ss_max_icon_file_size st) 1024 else 64),
     af_mcpEnabled = with_default False ss_mcp_enabled settings,
     af_auditEnabled = with_default True ss_audit_enabled settings,
     af_oidcAudience = or_text [] ss_oidc_audience settings,
     af_oidcAuthorizationEndpoint = or_text [] ss_oidc_authorization_endpoint settings,
     af_oidcAutoCreateUser = with_default False ss_oidc_auto_create_user settings,
     af_oidcClientID = or_text [] ss_oidc_client_id settings,
     af_oidcClientSecret = [],
     af_oidcClientSecretConfigured = with_default False ss_oidc_client_secret_configured settings,
     af_oidcEnabled = with_default False ss_oidc_enabled settings,
     af_oidcExtraAuthParams = or_text [] ss_oidc_extra_auth_params settings,
     af_oidcIssuerURL = or_text [] ss_oidc_issuer_url settings,
     af_oidcProviderName = or_text ''OIDC'' ss_oidc_provider_name settings,
     af_oidcRedirectURL = or_text [] ss_oidc_redirect_url settings,
     af_oidcResource = or_text [] ss_oidc_resource settings,
     af_oidcScopes = or_text ''openid profile email'' ss_oidc_scopes settings,
     af_oidcTokenEndpoint = or_text [] ss_oidc_token_endpoint settings,
     af_oidcUserinfoEndpoint = or_text [] ss_oidc_userinfo_endpoint settings,
     af_registrationEmailVerificationEnabled = with_default False ss_registration_email_verification_enabled settings,
     af_registrationEnabled = with_default False ss_registration_enabled settings,
     af_siteName = or_text ''Subdux'' ss_site_name settings,
     af_siteUrl = or_text [] ss_site_url settings,
     af_smtpAuthMethod = or_text ''auto'' ss_smtp_auth_method settings,
     af_smtpEnabled = with_default False ss_smtp_enabled settings,
     af_smtpEncryption = or_text ''starttls'' ss_smtp_encryption settings,
     af_smtpFromEmail = or_text [] ss_smtp_from_email settings,
     af_smtpFromName = or_text [] ss_smtp_from_name settings,
     af_smtpHeloName = or_text [] ss_smtp_helo_name settings,
     af_smtpHost = or_text [] ss_smtp_host settings,
     af_smtpPassword = [],
     af_smtpPasswordConfigured = with_default False ss_smtp_password_configured settings,
     af_smtpPort = or_number 587 ss_smtp_port settings,
     af_smtpRateLimitSeconds = with_default 0 ss_smtp_rate_limit_seconds settings,
     af_smtpSkipTLSVerify = with_default False ss_smtp_skip_tls_verify settings,
     af_smtpTimeoutSeconds = or_number 10 ss_smtp_timeout_seconds settings,
     af_smtpUsername = or_text [] ss_smtp_username settings,
     af_ssrfAllowPrivateIP = with_default False ss_ssrf_allow_private_ip settings,
     af_ssrfDomainFilterList = or_text [] ss_ssrf_domain_filter_list settings,
     af_ssrfDomainFilterMode = or_text ''blacklist'' ss_ssrf_domain_filter_mode settings,
     af_ssrfFilterResolvedIPs = with_default True ss_ssrf_filter_resolved_ips settings,
     af_ssrfIPFilterList = or_text [] ss_ssrf_ip_filter_list settings,
     af_ssrfIPFilterMode = or_text ''blacklist'' ss_ssrf_ip_filter_mode settings,
     af_ssrfProtectionEnabled = with_default True ss_ssrf_protection_enabled settings,
     af_systemProxyEnabled = with_default False ss_system_proxy_enabled settings,
     af_systemProxyType = or_text ''http'' ss_system_proxy_type settings,
     af_systemProxyUrl = [],
     af_systemProxyUrlConfigured = with_default False ss_system_proxy_url_configured settings\<rparr>"

text \<open>A secret is sent only when something was typed.\<close>

definition typed_secret :: "string \<Rightarrow> string option" where
  "typed_secret v = (if trim v \<noteq> [] then Some (trim v) else None)"

definition settings_payload :: "AdminSettingsFormState \<Rightarrow> UpdateSettingsInput" where
  "settings_payload form = \<lparr>
     us_registration_enabled = Some (af_registrationEnabled form),
     us_registration_email_verification_enabled = Some (af_registrationEmailVerificationEnabled form),
     us_email_domain_whitelist = Some (af_emailDomainWhitelist form),
     us_site_name = Some (af_siteName form),
     us_site_url = Some (af_siteUrl form),
     us_icon_proxy_enabled = Some (af_iconProxyEnabled form),
     us_icon_proxy_domain_whitelist = Some (af_iconProxyDomainWhitelist form),
     us_mcp_enabled = Some (af_mcpEnabled form),
     us_audit_enabled = Some (af_auditEnabled form),
     us_system_proxy_enabled = Some (af_systemProxyEnabled form),
     us_system_proxy_type = Some (af_systemProxyType form),
     us_system_proxy_url = typed_secret (af_systemProxyUrl form),
     us_ssrf_protection_enabled = Some (af_ssrfProtectionEnabled form),
     us_ssrf_allow_private_ip = Some (af_ssrfAllowPrivateIP form),
     us_ssrf_domain_filter_mode = Some (af_ssrfDomainFilterMode form),
     us_ssrf_domain_filter_list = Some (af_ssrfDomainFilterList form),
     us_ssrf_ip_filter_mode = Some (af_ssrfIPFilterMode form),
     us_ssrf_ip_filter_list = Some (af_ssrfIPFilterList form),
     us_ssrf_filter_resolved_ips = Some (af_ssrfFilterResolvedIPs form),
     us_currencyapi_key = typed_secret (af_currencyApiKey form),
     us_exchange_rate_source = Some (af_exchangeRateSource form),
     us_allow_image_upload = Some (af_allowImageUpload form),
     us_max_icon_file_size = Some (af_maxIconFileSize form * 1024),
     us_smtp_enabled = Some (af_smtpEnabled form),
     us_smtp_host = Some (af_smtpHost form),
     us_smtp_port = Some (af_smtpPort form),
     us_smtp_username = Some (af_smtpUsername form),
     us_smtp_password = typed_secret (af_smtpPassword form),
     us_smtp_from_email = Some (af_smtpFromEmail form),
     us_smtp_from_name = Some (af_smtpFromName form),
     us_smtp_encryption = Some (af_smtpEncryption form),
     us_smtp_auth_method = Some (af_smtpAuthMethod form),
     us_smtp_helo_name = Some (af_smtpHeloName form),
     us_smtp_timeout_seconds = Some (af_smtpTimeoutSeconds form),
     us_smtp_rate_limit_seconds = Some (af_smtpRateLimitSeconds form),
     us_smtp_skip_tls_verify = Some (af_smtpSkipTLSVerify form),
     us_oidc_enabled = Some (af_oidcEnabled form),
     us_oidc_provider_name = Some (af_oidcProviderName form),
     us_oidc_issuer_url = Some (af_oidcIssuerURL form),
     us_oidc_client_id = Some (af_oidcClientID form),
     us_oidc_client_secret = typed_secret (af_oidcClientSecret form),
     us_oidc_redirect_url = Some (af_oidcRedirectURL form),
     us_oidc_scopes = Some (af_oidcScopes form),
     us_oidc_auto_create_user = Some (af_oidcAutoCreateUser form),
     us_oidc_authorization_endpoint = Some (af_oidcAuthorizationEndpoint form),
     us_oidc_token_endpoint = Some (af_oidcTokenEndpoint form),
     us_oidc_userinfo_endpoint = Some (af_oidcUserinfoEndpoint form),
     us_oidc_audience = Some (af_oidcAudience form),
     us_oidc_resource = Some (af_oidcResource form),
     us_oidc_extra_auth_params = Some (af_oidcExtraAuthParams form),
     us_backup_schedule_enabled = Some (af_backupScheduleEnabled form),
     us_backup_time_of_day = Some (af_backupTimeOfDay form),
     us_backup_include_assets = Some (af_backupIncludeAssets form),
     us_backup_encrypt_enabled = Some (af_backupEncryptEnabled form),
     us_backup_encryption_password = typed_secret (af_backupEncryptionPassword form),
     us_backup_local_dir = Some (af_backupLocalDir form),
     us_backup_retention_count = Some (af_backupRetentionCount form)\<rparr>"

text \<open>The update that writes every stored setting as it is and no secret.\<close>

definition unchanged_input :: "SystemSettings \<Rightarrow> UpdateSettingsInput" where
  "unchanged_input st = \<lparr>
     us_registration_enabled = Some (ss_registration_enabled st),
     us_registration_email_verification_enabled = Some (ss_registration_email_verification_enabled st),
     us_email_domain_whitelist = Some (ss_email_domain_whitelist st),
     us_site_name = Some (ss_site_name st),
     us_site_url = Some (ss_site_url st),
     us_icon_proxy_enabled = Some (ss_icon_proxy_enabled st),
     us_icon_proxy_domain_whitelist = Some (ss_icon_proxy_domain_whitelist st),
     us_mcp_enabled = Some (ss_mcp_enabled st),
     us_audit_enabled = Some (ss_audit_enabled st),
     us_system_proxy_enabled = Some (ss_system_proxy_enabled st),
     us_system_proxy_type = Some (ss_system_proxy_type st),
     us_system_proxy_url = None,
     us_ssrf_protection_enabled = Some (ss_ssrf_protection_enabled st),
     us_ssrf_allow_private_ip = Some (ss_ssrf_allow_private_ip st),
     us_ssrf_domain_filter_mode = Some (ss_ssrf_domain_filter_mode st),
     us_ssrf_domain_filter_list = Some (ss_ssrf_domain_filter_list st),
     us_ssrf_ip_filter_mode = Some (ss_ssrf_ip_filter_mode st),
     us_ssrf_ip_filter_list = Some (ss_ssrf_ip_filter_list st),
     us_ssrf_filter_resolved_ips = Some (ss_ssrf_filter_resolved_ips st),
     us_currencyapi_key = None,
     us_exchange_rate_source = Some (ss_exchange_rate_source st),
     us_allow_image_upload = Some (ss_allow_image_upload st),
     us_max_icon_file_size = Some (ss_max_icon_file_size st),
     us_smtp_enabled = Some (ss_smtp_enabled st),
     us_smtp_host = Some (ss_smtp_host st),
     us_smtp_port = Some (ss_smtp_port st),
     us_smtp_username = Some (ss_smtp_username st),
     us_smtp_password = None,
     us_smtp_from_email = Some (ss_smtp_from_email st),
     us_smtp_from_name = Some (ss_smtp_from_name st),
     us_smtp_encryption = Some (ss_smtp_encryption st),
     us_smtp_auth_method = Some (ss_smtp_auth_method st),
     us_smtp_helo_name = Some (ss_smtp_helo_name st),
     us_smtp_timeout_seconds = Some (ss_smtp_timeout_seconds st),
     us_smtp_rate_limit_seconds = Some (ss_smtp_rate_limit_seconds st),
     us_smtp_skip_tls_verify = Some (ss_smtp_skip_tls_verify st),
     us_oidc_enabled = Some (ss_oidc_enabled st),
     us_oidc_provider_name = Some (ss_oidc_provider_name st),
     us_oidc_issuer_url = Some (ss_oidc_issuer_url st),
     us_oidc_client_id = Some (ss_oidc_client_id st),
     us_oidc_client_secret = None,
     us_oidc_redirect_url = Some (ss_oidc_redirect_url st),
     us_oidc_scopes = Some (ss_oidc_scopes st),
     us_oidc_auto_create_user = Some (ss_oidc_auto_create_user st),
     us_oidc_authorization_endpoint = Some (ss_oidc_authorization_endpoint st),
     us_oidc_token_endpoint = Some (ss_oidc_token_endpoint st),
     us_oidc_userinfo_endpoint = Some (ss_oidc_userinfo_endpoint st),
     us_oidc_audience = Some (ss_oidc_audience st),
     us_oidc_resource = Some (ss_oidc_resource st),
     us_oidc_extra_auth_params = Some (ss_oidc_extra_auth_params st),
     us_backup_schedule_enabled = Some (ss_backup_schedule_enabled st),
     us_backup_time_of_day = Some (ss_backup_time_of_day st),
     us_backup_include_assets = Some (ss_backup_include_assets st),
     us_backup_encrypt_enabled = Some (ss_backup_encrypt_enabled st),
     us_backup_encryption_password = None,
     us_backup_local_dir = Some (ss_backup_local_dir st),
     us_backup_retention_count = Some (ss_backup_retention_count st)\<rparr>"

subsection \<open>Registration with a verified e-mail address\<close>

definition hasSMTPConfigForRegistrationVerification :: "AdminSettingsFormState \<Rightarrow> bool" where
  "hasSMTPConfigForRegistrationVerification form =
     (if \<not> af_smtpEnabled form then False
      else
        let host = trim (af_smtpHost form);
            fromEmail = trim (af_smtpFromEmail form);
            username = trim (af_smtpUsername form);
            hasPassword = trim (af_smtpPassword form) \<noteq> [] \<or> af_smtpPasswordConfigured form
        in if host = [] \<or> fromEmail = [] then False
           else if af_smtpPort form < 1 \<or> 65535 < af_smtpPort form then False
           else
             let authMethod = toLowerCase (trim (af_smtpAuthMethod form))
             in if authMethod \<notin> set [''auto'', ''plain'', ''login'', ''cram_md5'', ''none''] then False
                else if authMethod \<noteq> ''auto'' \<and> authMethod \<noteq> ''none'' \<and> (username = [] \<or> \<not> hasPassword) then False
                else True)"

subsection \<open>Loading and saving\<close>

lemma js_round_div_exact: "0 < d \<Longrightarrow> js_round_div (k * d) d = k"
proof -
  assume "0 < d"
  then have "(2 * (k * d) + d) div (2 * d) = (d + k * (2 * d)) div (2 * d)" by (simp add: algebra_simps)
  also have "\<dots> = k + d div (2 * d)" using \<open>0 < d\<close> by (simp add: div_mult_self1)
  finally show ?thesis using \<open>0 < d\<close> by (simp add: js_round_div_def)
qed

text \<open>Stored settings that the form shows as they are: no default is put in place of an empty value, and
  the icon size is a number of whole kibibytes.\<close>

definition settings_complete :: "SystemSettings \<Rightarrow> bool" where
  "settings_complete st \<longleftrightarrow>
     list_all (\<lambda>v. v \<noteq> []) [ss_backup_time_of_day st, ss_exchange_rate_source st, ss_oidc_provider_name st, ss_oidc_scopes st,
       ss_site_name st, ss_smtp_auth_method st, ss_smtp_encryption st, ss_ssrf_domain_filter_mode st,
       ss_ssrf_ip_filter_mode st, ss_system_proxy_type st]
     \<and> ss_smtp_port st \<noteq> 0 \<and> ss_smtp_timeout_seconds st \<noteq> 0
     \<and> 0 < ss_max_icon_file_size st \<and> ss_max_icon_file_size st mod 1024 = 0"

lemma typed_secret_blank [simp]: "typed_secret [] = None"
  by (simp add: typed_secret_def)

lemma or_str_id: "v \<noteq> [] \<Longrightarrow> or_str v d = v" "or_str v [] = v"
  by (simp_all add: or_str_def)

text \<open>C35: saving complete settings right after they were loaded, with nothing edited, writes back every stored setting
  with its value and sends no secret.  Complete means: the icon limit is a positive multiple of 1024 bytes, the SMTP port
  and timeout are not zero, and the texts that have a default (site name, time of the backup, source of the rates, modes,
  encryption and method of SMTP, type of the proxy, name and scopes of OIDC) are not empty.  Otherwise a save changes
  them, see \<open>icon_limit_drifts\<close> and \<open>empty_settings_become_defaults\<close> below.\<close>

theorem settings_saved_unchanged:
  assumes "settings_complete st"
  shows "settings_payload (createSettingsForm (Some st)) = unchanged_input st"
proof -
  have size: "js_round_div (ss_max_icon_file_size st) 1024 * 1024 = ss_max_icon_file_size st"
    using js_round_div_exact [of 1024 "ss_max_icon_file_size st div 1024"] assms by (simp add: settings_complete_def mod_eq_0_iff_dvd)
  show ?thesis
    using assms size
    by (simp add: settings_payload_def createSettingsForm_def unchanged_input_def with_default_def or_number_def
        or_text_def or_str_id settings_complete_def)
qed

definition example_settings :: SystemSettings where
  "example_settings = \<lparr>
     ss_registration_enabled = False, ss_registration_email_verification_enabled = False,
     ss_email_domain_whitelist = [], ss_site_name = ''Subdux'', ss_site_url = [],
     ss_icon_proxy_enabled = False, ss_icon_proxy_domain_whitelist = [], ss_mcp_enabled = False,
     ss_audit_enabled = False, ss_system_proxy_enabled = False, ss_system_proxy_type = ''http'',
     ss_system_proxy_url_configured = False, ss_ssrf_protection_enabled = False,
     ss_ssrf_allow_private_ip = False, ss_ssrf_domain_filter_mode = ''blacklist'',
     ss_ssrf_domain_filter_list = [], ss_ssrf_ip_filter_mode = ''blacklist'', ss_ssrf_ip_filter_list = [],
     ss_ssrf_filter_resolved_ips = False, ss_currencyapi_key_configured = False,
     ss_exchange_rate_source = ''auto'', ss_allow_image_upload = False, ss_max_icon_file_size = 65536,
     ss_smtp_enabled = False, ss_smtp_host = [], ss_smtp_port = 587, ss_smtp_username = [],
     ss_smtp_password_configured = False, ss_smtp_from_email = [], ss_smtp_from_name = [],
     ss_smtp_encryption = ''starttls'', ss_smtp_auth_method = ''auto'', ss_smtp_helo_name = [],
     ss_smtp_timeout_seconds = 10, ss_smtp_rate_limit_seconds = 1, ss_smtp_skip_tls_verify = False,
     ss_oidc_enabled = False, ss_oidc_provider_name = ''OIDC'', ss_oidc_issuer_url = [],
     ss_oidc_client_id = [], ss_oidc_client_secret_configured = False, ss_oidc_redirect_url = [],
     ss_oidc_scopes = ''openid'', ss_oidc_auto_create_user = False, ss_oidc_authorization_endpoint = [],
     ss_oidc_token_endpoint = [], ss_oidc_userinfo_endpoint = [], ss_oidc_audience = [], ss_oidc_resource = [],
     ss_oidc_extra_auth_params = [], ss_backup_schedule_enabled = False, ss_backup_time_of_day = ''03:00'',
     ss_backup_include_assets = False, ss_backup_encrypt_enabled = False,
     ss_backup_encryption_password_configured = False, ss_backup_local_dir = [], ss_backup_retention_count = 1,
     ss_backup_last_run_at = [], ss_backup_last_status = [], ss_backup_last_error = []\<rparr>"

theorem settings_saved_unchanged_witness:
  "settings_payload (createSettingsForm (Some example_settings)) = unchanged_input example_settings"
proof -
  have "settings_complete example_settings"
    by (simp add: settings_complete_def example_settings_def)
  then show ?thesis by (rule settings_saved_unchanged)
qed

lemma empty_settings_become_defaults:
  "us_smtp_port (settings_payload (createSettingsForm (Some (st\<lparr>ss_smtp_port := 0\<rparr>)))) = Some 587"
  "us_site_name (settings_payload (createSettingsForm (Some (st\<lparr>ss_site_name := []\<rparr>)))) = Some ''Subdux''"
  by (simp_all add: settings_payload_def createSettingsForm_def or_number_def or_text_def or_str_def)

text \<open>A limit that is no number of whole kibibytes is changed by a save that does not touch it: 100000 bytes
  become 100352, and 300 bytes become 0.\<close>

lemma icon_limit_drifts:
  "us_max_icon_file_size (settings_payload (createSettingsForm (Some (st\<lparr>ss_max_icon_file_size := 100000\<rparr>)))) = Some 100352"
  "us_max_icon_file_size (settings_payload (createSettingsForm (Some (st\<lparr>ss_max_icon_file_size := 300\<rparr>)))) = Some 0"
  by (simp_all add: settings_payload_def createSettingsForm_def js_round_div_def)

end
