(* ===== verification/ZipEncryption.thy ===== *)
theory ZipEncryption
  imports Prelude "HOL-Library.Word"
begin

unbundle bit_operations_syntax

text \<open>
  Detection of encrypted backups and verification of their password,
  \<open>web/src/lib/zip-encryption.ts\<close>.  A file is the list of its bytes with a flag that tells
  whether it can be read; the accessors of \<open>DataView\<close> throw a \<open>RangeError\<close> outside the
  buffer, and the loops end because the position grows.  The sums of the code stay below
  \<open>2 ^ 34\<close>, so the offsets, which JavaScript keeps exactly up to \<open>2 ^ 53\<close>, are
  \<open>nat\<close>.  Web Crypto's \<open>deriveBits\<close> is a parameter.
\<close>

type_synonym bytes = "8 word list"

record File =
  file_bytes :: bytes
  file_readable :: bool

definition file_size :: "File \<Rightarrow> nat" where
  "file_size f = length (file_bytes f)"

definition EOCD_SIGNATURE :: nat where "EOCD_SIGNATURE = 0x06054b50"
definition CENTRAL_HEADER_SIGNATURE :: nat where "CENTRAL_HEADER_SIGNATURE = 0x02014b50"
definition LOCAL_HEADER_SIGNATURE :: nat where "LOCAL_HEADER_SIGNATURE = 0x04034b50"
definition AES_EXTRA_FIELD_ID :: nat where "AES_EXTRA_FIELD_ID = 0x9901"
definition AES_COMPRESSION_METHOD :: nat where "AES_COMPRESSION_METHOD = 99"
definition ZIP64_SENTINEL_32 :: nat where "ZIP64_SENTINEL_32 = 0xffffffff"
definition MAX_EOCD_SEARCH :: nat where "MAX_EOCD_SEARCH = 22 + 65535"

record EncryptedZipEntry =
  localHeaderOffset :: nat
  aesStrength :: nat

record DetectZipEncryptionResult =
  isZip :: bool
  encrypted :: bool
  firstEncryptedEntry :: "EncryptedZipEntry option"
  cannotVerify :: bool

definition keySizeForStrength :: "nat \<Rightarrow> nat option" where
  "keySizeForStrength strength =
     (if strength = 1 then Some 16 else if strength = 2 then Some 24 else if strength = 3 then Some 32 else None)"

subsection \<open>Reading\<close>

definition readSlice :: "File \<Rightarrow> nat \<Rightarrow> nat \<Rightarrow> bytes result" where
  "readSlice f start stop = (if file_readable f then Inr (Prelude.slice start stop (file_bytes f)) else Inl ''NotReadableError'')"

definition getUint8 :: "bytes \<Rightarrow> nat \<Rightarrow> nat result" where
  "getUint8 v o1 = (if o1 + 1 \<le> length v then Inr (unat (v ! o1)) else Inl ''RangeError'')"

definition getUint16 :: "bytes \<Rightarrow> nat \<Rightarrow> nat result" where
  "getUint16 v o1 = (if o1 + 2 \<le> length v then Inr (unat (v ! o1) + 256 * unat (v ! (o1 + 1))) else Inl ''RangeError'')"

definition getUint32 :: "bytes \<Rightarrow> nat \<Rightarrow> nat result" where
  "getUint32 v o1 = (if o1 + 4 \<le> length v
     then Inr (unat (v ! o1) + 256 * unat (v ! (o1 + 1)) + 65536 * unat (v ! (o1 + 2)) + 16777216 * unat (v ! (o1 + 3)))
     else Inl ''RangeError'')"

definition and_then :: "'a result \<Rightarrow> ('a \<Rightarrow> 'b result) \<Rightarrow> 'b result" where
  "and_then m k = (case m of Inl e \<Rightarrow> Inl e | Inr x \<Rightarrow> k x)"

lemma and_then_simps [simp]: "and_then (Inl e) k = Inl e" "and_then (Inr x) k = k x"
  by (simp_all add: and_then_def)

subsection \<open>The end record\<close>

fun scan_eocd :: "bytes \<Rightarrow> nat \<Rightarrow> nat option result" where
  "scan_eocd v o1 = and_then (getUint32 v o1) (\<lambda>w.
     if w = EOCD_SIGNATURE then Inr (Some o1)
     else case o1 of 0 \<Rightarrow> Inr None | Suc p \<Rightarrow> scan_eocd v p)"

declare scan_eocd.simps [simp del]

definition findEocdOffset :: "bytes \<Rightarrow> nat option result" where
  "findEocdOffset v = (if length v < 22 then Inr None else scan_eocd v (length v - 22))"

subsection \<open>The extra field\<close>

function parseAes :: "bytes \<Rightarrow> nat \<Rightarrow> nat \<Rightarrow> nat option result" where
  "parseAes v stop pos =
     (if pos + 4 \<le> stop \<and> pos + 4 \<le> length v then
        (case getUint16 v pos of
           Inl e \<Rightarrow> Inl e
         | Inr headerId \<Rightarrow>
             (case getUint16 v (pos + 2) of
                Inl e \<Rightarrow> Inl e
              | Inr dataSize \<Rightarrow>
                  if headerId = AES_EXTRA_FIELD_ID
                  then (if pos + 4 + 5 \<le> length v then and_then (getUint8 v (pos + 4 + 4)) (\<lambda>s. Inr (Some s))
                        else Inr None)
                  else parseAes v stop (pos + 4 + dataSize)))
      else Inr None)"
  by pat_completeness auto
termination by (relation "measure (\<lambda>(v, stop, pos). length v - pos)") auto

declare parseAes.simps [simp del]

definition parseAesStrengthFromExtra :: "bytes \<Rightarrow> nat \<Rightarrow> nat \<Rightarrow> nat option result" where
  "parseAesStrengthFromExtra v start len = parseAes v (start + len) start"

subsection \<open>The central directory\<close>

record CentralHeader =
  gpFlag :: nat
  compressionMethod :: nat
  nameLen :: nat
  extraLen :: nat
  commentLen :: nat
  headerOffset :: nat

definition readCentralHeader :: "bytes \<Rightarrow> nat \<Rightarrow> CentralHeader result" where
  "readCentralHeader v pos =
     and_then (getUint16 v (pos + 8)) (\<lambda>gp.
     and_then (getUint16 v (pos + 10)) (\<lambda>cm.
     and_then (getUint16 v (pos + 28)) (\<lambda>nl.
     and_then (getUint16 v (pos + 30)) (\<lambda>el.
     and_then (getUint16 v (pos + 32)) (\<lambda>cl.
     and_then (getUint32 v (pos + 42)) (\<lambda>ho.
       Inr \<lparr>gpFlag = gp, compressionMethod = cm, nameLen = nl, extraLen = el, commentLen = cl, headerOffset = ho\<rparr>))))))"

function scanCentral :: "bytes \<Rightarrow> nat \<Rightarrow> EncryptedZipEntry option result" where
  "scanCentral v pos =
     (if pos + 46 \<le> length v then
        (case getUint32 v pos of
           Inl e \<Rightarrow> Inl e
         | Inr sig \<Rightarrow>
             if sig \<noteq> CENTRAL_HEADER_SIGNATURE then Inr None
             else (case readCentralHeader v pos of
                Inl e \<Rightarrow> Inl e
              | Inr h \<Rightarrow>
                  let isEncrypted = gpFlag h mod 2 = 1;
                      next = pos + (46 + nameLen h + extraLen h + commentLen h)
                  in if isEncrypted \<and> compressionMethod h = AES_COMPRESSION_METHOD
                     then (case parseAesStrengthFromExtra v (pos + 46 + nameLen h) (extraLen h) of
                         Inl e \<Rightarrow> Inl e
                       | Inr (Some strength) \<Rightarrow> Inr (Some \<lparr>localHeaderOffset = headerOffset h, aesStrength = strength\<rparr>)
                       | Inr None \<Rightarrow> scanCentral v next)
                     else scanCentral v next))
      else Inr None)"
  by pat_completeness auto
termination by (relation "measure (\<lambda>(v, pos). length v - pos)") auto

declare scanCentral.simps [simp del]

definition outcome_of :: "bool \<Rightarrow> bool \<Rightarrow> EncryptedZipEntry option \<Rightarrow> bool \<Rightarrow> DetectZipEncryptionResult" where
  "outcome_of z e entry cv = \<lparr>isZip = z, encrypted = e, firstEncryptedEntry = entry, cannotVerify = cv\<rparr>"

definition detectBody :: "File \<Rightarrow> DetectZipEncryptionResult result" where
  "detectBody f =
     and_then (readSlice f (file_size f - MAX_EOCD_SEARCH) (file_size f)) (\<lambda>tailView.
     and_then (findEocdOffset tailView) (\<lambda>eocd.
       case eocd of
         None \<Rightarrow> Inr (outcome_of False False None False)
       | Some eocdOffset \<Rightarrow>
           and_then (getUint16 tailView (eocdOffset + 10)) (\<lambda>totalEntries.
           and_then (getUint32 tailView (eocdOffset + 12)) (\<lambda>cdSize.
           and_then (getUint32 tailView (eocdOffset + 16)) (\<lambda>cdOffset.
             if cdSize = ZIP64_SENTINEL_32 \<or> cdOffset = ZIP64_SENTINEL_32 \<or> totalEntries = 0xffff
             then Inr (outcome_of True False None True)
             else if cdSize = 0 \<or> cdOffset + cdSize > file_size f
             then Inr (outcome_of True False None True)
             else and_then (readSlice f cdOffset (cdOffset + cdSize)) (\<lambda>cdView.
                  and_then (scanCentral cdView 0) (\<lambda>found.
                    case found of
                      Some entry \<Rightarrow> Inr (outcome_of True True (Some entry) False)
                    | None \<Rightarrow> Inr (outcome_of True False None False))))))))"

definition detectZipEncryption :: "File \<Rightarrow> DetectZipEncryptionResult" where
  "detectZipEncryption f =
     (if file_size f < 22 then outcome_of False False None False
      else case detectBody f of
             Inl e \<Rightarrow> outcome_of False False None True
           | Inr r \<Rightarrow> r)"

subsection \<open>The password\<close>

text \<open>UTF-8 of the code units below 256.\<close>

definition utf8 :: "string \<Rightarrow> bytes" where
  "utf8 s = concat (map (\<lambda>c. if code c < 128 then [word_of_nat (code c)]
     else [word_of_nat (192 + code c div 64), word_of_nat (128 + code c mod 64)]) s)"

datatype zip_error = WebCryptoUnavailableError | Other_error string

type_synonym derive_bits = "bytes \<Rightarrow> bytes \<Rightarrow> nat \<Rightarrow> nat \<Rightarrow> string + bytes"

text \<open>\<open>subtle\<close> takes the password, the salt, the iterations and the length in bits;
  \<open>None\<close> when Web Crypto is missing.\<close>

definition computePasswordVerificationValue ::
  "derive_bits option \<Rightarrow> string \<Rightarrow> bytes \<Rightarrow> nat \<Rightarrow> zip_error + bytes" where
  "computePasswordVerificationValue subtle password salt strength =
     (case keySizeForStrength strength of
        None \<Rightarrow> Inl (Other_error ''unsupported AES strength'')
      | Some keySize \<Rightarrow>
          (case subtle of
             None \<Rightarrow> Inl WebCryptoUnavailableError
           | Some deriveBits \<Rightarrow>
               (case deriveBits (utf8 password) salt 1000 ((keySize * 2 + 2) * 8) of
                  Inl e \<Rightarrow> Inl (Other_error e)
                | Inr derived \<Rightarrow> Inr (drop (length derived - 2) derived))))"

definition constantTimeEqual :: "bytes \<Rightarrow> bytes \<Rightarrow> bool" where
  "constantTimeEqual a b =
     (if length a \<noteq> length b then False
      else foldl (\<lambda>diff (x, y). diff OR (x XOR y)) 0 (zip a b) = 0)"

record VerifyZipPasswordResult =
  verified :: bool
  valid :: bool

definition not_verified :: VerifyZipPasswordResult where
  "not_verified = \<lparr>verified = False, valid = False\<rparr>"

definition verifyZipPassword ::
  "derive_bits option \<Rightarrow> File \<Rightarrow> EncryptedZipEntry \<Rightarrow> string \<Rightarrow> VerifyZipPasswordResult" where
  "verifyZipPassword subtle f entry password =
     (case keySizeForStrength (aesStrength entry) of
        None \<Rightarrow> not_verified
      | Some keySize \<Rightarrow>
          (case and_then (readSlice f (localHeaderOffset entry) (localHeaderOffset entry + 30)) (\<lambda>headerView.
                if length headerView < 30 then Inr not_verified
                else and_then (getUint32 headerView 0) (\<lambda>sig.
                  if sig \<noteq> LOCAL_HEADER_SIGNATURE then Inr not_verified
                  else and_then (getUint16 headerView 26) (\<lambda>localNameLen.
                  and_then (getUint16 headerView 28) (\<lambda>localExtraLen.
                    let dataStart = localHeaderOffset entry + 30 + localNameLen + localExtraLen;
                        saltLen = keySize div 2
                    in and_then (readSlice f dataStart (dataStart + saltLen + 2)) (\<lambda>prefixView.
                         if length prefixView < saltLen + 2 then Inr not_verified
                         else case computePasswordVerificationValue subtle password (take saltLen prefixView)
                                     (aesStrength entry) of
                                Inl e \<Rightarrow> Inl ''computePasswordVerificationValue''
                              | Inr computedPwv \<Rightarrow>
                                  Inr \<lparr>verified = True,
                                    valid = constantTimeEqual computedPwv (take 2 (drop saltLen prefixView))\<rparr>))))) of
             Inl e \<Rightarrow> not_verified
           | Inr r \<Rightarrow> r))"

subsection \<open>Reading what a writer wrote\<close>

definition le16 :: "nat \<Rightarrow> bytes" where
  "le16 n = [word_of_nat n, word_of_nat (n div 256)]"

definition le32 :: "nat \<Rightarrow> bytes" where
  "le32 n = [word_of_nat n, word_of_nat (n div 256), word_of_nat (n div 65536), word_of_nat (n div 16777216)]"

lemma length_le [simp]: "length (le16 n) = 2" "length (le32 n) = 4"
  by (simp_all add: le16_def le32_def)

lemma unat_byte [simp]: "unat (word_of_nat n :: 8 word) = n mod 256"
  by (simp add: unat_of_nat)

lemma getUint16_at:
  assumes "n < 65536" and "length xs = k"
  shows "getUint16 (xs @ le16 n @ ys) k = Inr n"
proof -
  have "n mod 256 + 256 * (n div 256 mod 256) = n" using assms(1) by simp
  then show ?thesis using assms(2) by (auto simp: getUint16_def le16_def nth_append)
qed

lemma getUint32_at:
  assumes "n < 4294967296" and "length xs = k"
  shows "getUint32 (xs @ le32 n @ ys) k = Inr n"
proof -
  have "n mod 256 + 256 * (n div 256 mod 256) + 65536 * (n div 65536 mod 256) + 16777216 * (n div 16777216 mod 256) = n"
  proof -
    define a where "a = n div 256"
    define b where "b = a div 256"
    define c where "c = b div 256"
    have d: "n div 65536 = b" "n div 16777216 = c"
      by (simp_all add: a_def b_def c_def flip: div_mult2_eq)
    have "c < 256" using assms(1) d(2) by (simp add: less_mult_imp_div_less flip: d(2))
    moreover have "a * 256 + n mod 256 = n" "b * 256 + a mod 256 = a" "c * 256 + b mod 256 = b"
      unfolding a_def b_def c_def by simp_all
    ultimately show ?thesis unfolding d a_def [symmetric] by simp
  qed
  moreover have "n div 16777216 < 256" using assms(1) by (simp add: less_mult_imp_div_less)
  ultimately show ?thesis using assms(2) by (auto simp: getUint32_def le32_def nth_append)
qed

lemma getUint32_shift: "getUint32 (xs @ ys) (length xs + k) = getUint32 ys k"
  by (simp add: getUint32_def nth_append add.assoc)

definition encode_extra :: "(nat \<times> bytes) list \<Rightarrow> bytes" where
  "encode_extra bs = concat (map (\<lambda>(i, d). le16 i @ le16 (length d) @ d) bs)"

definition extra_ok :: "nat \<times> bytes \<Rightarrow> bool" where
  "extra_ok = (\<lambda>(i, d). i < 65536 \<and> length d < 65536 \<and> (i = AES_EXTRA_FIELD_ID \<longrightarrow> 5 \<le> length d))"

definition aes_strength_of :: "(nat \<times> bytes) list \<Rightarrow> nat option" where
  "aes_strength_of bs = map_option (\<lambda>d. unat (d ! 4)) (map_of bs AES_EXTRA_FIELD_ID)"

lemma parseAes_encoded:
  "list_all extra_ok bs \<Longrightarrow> length xs = pos \<Longrightarrow>
   parseAes (xs @ encode_extra bs @ ys) (pos + length (encode_extra bs)) pos = Inr (aes_strength_of bs)"
proof (induction bs arbitrary: xs pos)
  case Nil
  then show ?case by (subst parseAes.simps) (simp add: encode_extra_def aes_strength_of_def)
next
  case (Cons b bs)
  obtain i d where b: "b = (i, d)" by (cases b)
  have lim: "i < 65536" "length d < 65536" "i = AES_EXTRA_FIELD_ID \<longrightarrow> 5 \<le> length d"
    using Cons.prems(1) b by (simp_all add: extra_ok_def)
  let ?v = "xs @ encode_extra (b # bs) @ ys"
  have v: "?v = xs @ le16 i @ (le16 (length d) @ d @ encode_extra bs @ ys)"
    "?v = (xs @ le16 i) @ le16 (length d) @ (d @ encode_extra bs @ ys)"
    "?v = (xs @ le16 i @ le16 (length d) @ d) @ encode_extra bs @ ys"
    by (simp_all add: encode_extra_def b)
  have r: "getUint16 ?v pos = Inr i" "getUint16 ?v (pos + 2) = Inr (length d)"
    using getUint16_at [OF lim(1) Cons.prems(2)] getUint16_at [OF lim(2), of "xs @ le16 i" "pos + 2"] Cons.prems(2) v
    by simp_all
  have len: "length ?v = pos + (4 + length d) + length (encode_extra bs) + length ys"
    using Cons.prems(2) unfolding v(1) by simp
  have stop: "pos + length (encode_extra (b # bs)) = (pos + 4 + length d) + length (encode_extra bs)"
    by (simp add: encode_extra_def b)
  show ?case
  proof (cases "i = AES_EXTRA_FIELD_ID")
    case True
    have "?v ! (pos + 8) = d ! 4"
      using True lim(3) Cons.prems(2) unfolding v(3) by (simp add: nth_append)
    then have g: "getUint8 ?v (pos + 4 + 4) = Inr (unat (d ! 4))"
      using len lim(3) True by (simp add: getUint8_def add.commute)
    show ?thesis
      using len r g True lim(3) stop
      by (subst parseAes.simps) (simp add: aes_strength_of_def b)
  next
    case False
    have "parseAes ?v (pos + length (encode_extra (b # bs))) pos =
        parseAes ?v (pos + length (encode_extra (b # bs))) (pos + 4 + length d)"
      using len r False stop by (subst parseAes.simps) simp
    also have "\<dots> = Inr (aes_strength_of bs)"
      unfolding stop unfolding v(3) by (rule Cons.IH) (use Cons.prems in simp_all)
    also have "\<dots> = Inr (aes_strength_of (b # bs))"
      using False by (simp add: aes_strength_of_def b)
    finally show ?thesis .
  qed
qed

text \<open>An entry of the central directory; \<open>ze_pre\<close>, \<open>ze_mid\<close> and \<open>ze_post\<close> are the
  fixed fields that the reader skips.\<close>

record ZipEntry =
  ze_pre :: bytes
  ze_flag :: nat
  ze_method :: nat
  ze_mid :: bytes
  ze_post :: bytes
  ze_offset :: nat
  ze_name :: bytes
  ze_extra :: "(nat \<times> bytes) list"
  ze_comment :: bytes

definition entry_ok :: "ZipEntry \<Rightarrow> bool" where
  "entry_ok e \<longleftrightarrow> length (ze_pre e) = 4 \<and> length (ze_mid e) = 16 \<and> length (ze_post e) = 8
     \<and> ze_flag e < 65536 \<and> ze_method e < 65536 \<and> ze_offset e < 4294967296
     \<and> length (ze_name e) < 65536 \<and> length (encode_extra (ze_extra e)) < 65536 \<and> length (ze_comment e) < 65536
     \<and> list_all extra_ok (ze_extra e)"

definition encode_entry :: "ZipEntry \<Rightarrow> bytes" where
  "encode_entry e = le32 CENTRAL_HEADER_SIGNATURE @ ze_pre e @ le16 (ze_flag e) @ le16 (ze_method e) @ ze_mid e
     @ le16 (length (ze_name e)) @ le16 (length (encode_extra (ze_extra e))) @ le16 (length (ze_comment e))
     @ ze_post e @ le32 (ze_offset e) @ ze_name e @ encode_extra (ze_extra e) @ ze_comment e"

fun first_encrypted :: "ZipEntry list \<Rightarrow> EncryptedZipEntry option" where
  "first_encrypted [] = None"
| "first_encrypted (e # es) =
     (if odd (ze_flag e) \<and> ze_method e = 99
      then (case aes_strength_of (ze_extra e) of
              Some s \<Rightarrow> Some \<lparr>localHeaderOffset = ze_offset e, aesStrength = s\<rparr>
            | None \<Rightarrow> first_encrypted es)
      else first_encrypted es)"

lemma length_encode_entry:
  "entry_ok e \<Longrightarrow> length (encode_entry e) =
    46 + length (ze_name e) + length (encode_extra (ze_extra e)) + length (ze_comment e)"
  by (simp add: encode_entry_def entry_ok_def)

lemma readCentralHeader_encoded:
  assumes "entry_ok e" and "length xs = pos"
  shows "getUint32 (xs @ encode_entry e @ ys) pos = Inr CENTRAL_HEADER_SIGNATURE"
    and "readCentralHeader (xs @ encode_entry e @ ys) pos = Inr \<lparr>gpFlag = ze_flag e, compressionMethod = ze_method e,
      nameLen = length (ze_name e), extraLen = length (encode_extra (ze_extra e)),
      commentLen = length (ze_comment e), headerOffset = ze_offset e\<rparr>"
proof -
  note ok = assms(1) [unfolded entry_ok_def]
  let ?v = "xs @ encode_entry e @ ys"
  let ?a = "xs @ le32 CENTRAL_HEADER_SIGNATURE @ ze_pre e"
  let ?b = "?a @ le16 (ze_flag e) @ le16 (ze_method e) @ ze_mid e"
  let ?n = "le16 (length (ze_name e))" and ?x = "le16 (length (encode_extra (ze_extra e)))"
  let ?c = "le16 (length (ze_comment e))"
  let ?t = "ze_name e @ encode_extra (ze_extra e) @ ze_comment e @ ys"
  have v: "?v = xs @ le32 CENTRAL_HEADER_SIGNATURE @ (ze_pre e @ le16 (ze_flag e) @ le16 (ze_method e) @ ze_mid e @ ?n @ ?x @ ?c @ ze_post e @ le32 (ze_offset e) @ ?t)"
    "?v = ?a @ le16 (ze_flag e) @ (le16 (ze_method e) @ ze_mid e @ ?n @ ?x @ ?c @ ze_post e @ le32 (ze_offset e) @ ?t)"
    "?v = (?a @ le16 (ze_flag e)) @ le16 (ze_method e) @ (ze_mid e @ ?n @ ?x @ ?c @ ze_post e @ le32 (ze_offset e) @ ?t)"
    "?v = ?b @ ?n @ (?x @ ?c @ ze_post e @ le32 (ze_offset e) @ ?t)"
    "?v = (?b @ ?n) @ ?x @ (?c @ ze_post e @ le32 (ze_offset e) @ ?t)"
    "?v = (?b @ ?n @ ?x) @ ?c @ (ze_post e @ le32 (ze_offset e) @ ?t)"
    "?v = (?b @ ?n @ ?x @ ?c @ ze_post e) @ le32 (ze_offset e) @ ?t"
    by (simp_all add: encode_entry_def)
  show "getUint32 ?v pos = Inr CENTRAL_HEADER_SIGNATURE"
    unfolding v(1) by (rule getUint32_at) (simp_all add: assms(2) CENTRAL_HEADER_SIGNATURE_def)
  have "getUint16 ?v (pos + 8) = Inr (ze_flag e)"
    unfolding v(2) by (rule getUint16_at) (use ok assms(2) in simp_all)
  moreover have "getUint16 ?v (pos + 10) = Inr (ze_method e)"
    unfolding v(3) by (rule getUint16_at) (use ok assms(2) in simp_all)
  moreover have "getUint16 ?v (pos + 28) = Inr (length (ze_name e))"
    unfolding v(4) by (rule getUint16_at) (use ok assms(2) in simp_all)
  moreover have "getUint16 ?v (pos + 30) = Inr (length (encode_extra (ze_extra e)))"
    unfolding v(5) by (rule getUint16_at) (use ok assms(2) in simp_all)
  moreover have "getUint16 ?v (pos + 32) = Inr (length (ze_comment e))"
    unfolding v(6) by (rule getUint16_at) (use ok assms(2) in simp_all)
  moreover have "getUint32 ?v (pos + 42) = Inr (ze_offset e)"
    unfolding v(7) by (rule getUint32_at) (use ok assms(2) in simp_all)
  ultimately show "readCentralHeader ?v pos = Inr \<lparr>gpFlag = ze_flag e, compressionMethod = ze_method e,
      nameLen = length (ze_name e), extraLen = length (encode_extra (ze_extra e)),
      commentLen = length (ze_comment e), headerOffset = ze_offset e\<rparr>"
    by (simp add: readCentralHeader_def)
qed

lemma scanCentral_encoded:
  "list_all entry_ok es \<Longrightarrow> length xs = pos \<Longrightarrow>
   scanCentral (xs @ concat (map encode_entry es)) pos = Inr (first_encrypted es)"
proof (induction es arbitrary: xs pos)
  case Nil
  then show ?case by (subst scanCentral.simps) simp
next
  case (Cons e es)
  have ok: "entry_ok e" using Cons.prems(1) by simp
  let ?r = "concat (map encode_entry es)"
  let ?v = "xs @ encode_entry e @ ?r"
  note h = readCentralHeader_encoded [OF ok Cons.prems(2), of ?r]
  have next_ok: "scanCentral ?v (pos + (46 + length (ze_name e) + length (encode_extra (ze_extra e)) + length (ze_comment e)))
      = Inr (first_encrypted es)"
    using Cons.IH [of "xs @ encode_entry e"] Cons.prems length_encode_entry [OF ok] by simp
  have p: "parseAesStrengthFromExtra ?v (pos + 46 + length (ze_name e)) (length (encode_extra (ze_extra e)))
      = Inr (aes_strength_of (ze_extra e))"
  proof -
    let ?p = "xs @ take (46 + length (ze_name e)) (encode_entry e)"
    have split: "encode_entry e = (le32 CENTRAL_HEADER_SIGNATURE @ ze_pre e @ le16 (ze_flag e) @ le16 (ze_method e) @ ze_mid e
       @ le16 (length (ze_name e)) @ le16 (length (encode_extra (ze_extra e))) @ le16 (length (ze_comment e))
       @ ze_post e @ le32 (ze_offset e) @ ze_name e) @ encode_extra (ze_extra e) @ ze_comment e"
      by (simp add: encode_entry_def)
    have "take (46 + length (ze_name e)) (encode_entry e) = le32 CENTRAL_HEADER_SIGNATURE @ ze_pre e @ le16 (ze_flag e)
       @ le16 (ze_method e) @ ze_mid e
       @ le16 (length (ze_name e)) @ le16 (length (encode_extra (ze_extra e))) @ le16 (length (ze_comment e))
       @ ze_post e @ le32 (ze_offset e) @ ze_name e"
      unfolding split using ok by (simp add: entry_ok_def)
    then have v: "?v = ?p @ encode_extra (ze_extra e) @ (ze_comment e @ ?r)"
      using split by simp
    have l: "length ?p = pos + 46 + length (ze_name e)"
      using Cons.prems(2) length_encode_entry [OF ok] by simp
    show ?thesis
      unfolding parseAesStrengthFromExtra_def v
      by (rule parseAes_encoded) (use l ok in \<open>simp_all add: entry_ok_def\<close>)
  qed
  have fits: "pos + 46 \<le> length ?v" using Cons.prems(2) length_encode_entry [OF ok] by simp
  show ?case
    using next_ok h p fits
    by (subst scanCentral.simps)
      (auto simp: Let_def AES_COMPRESSION_METHOD_def odd_iff_mod_2_eq_one split: option.split)
qed

subsection \<open>Detection is right on archives\<close>

text \<open>The end record: \<open>pre\<close> holds its six bytes between signature and entry count.\<close>

definition encode_eocd :: "bytes \<Rightarrow> nat \<Rightarrow> nat \<Rightarrow> nat \<Rightarrow> bytes \<Rightarrow> bytes" where
  "encode_eocd pre tot sz offset comment =
     le32 EOCD_SIGNATURE @ pre @ le16 tot @ le32 sz @ le32 offset @ le16 (length comment) @ comment"

definition archive :: "bytes \<Rightarrow> ZipEntry list \<Rightarrow> bytes \<Rightarrow> bytes \<Rightarrow> File" where
  "archive body es pre comment =
     (let cd = concat (map encode_entry es)
      in \<lparr>file_bytes = body @ cd @ encode_eocd pre (length es) (length cd) (length body) comment, file_readable = True\<rparr>)"

definition archive_ok :: "bytes \<Rightarrow> ZipEntry list \<Rightarrow> bytes \<Rightarrow> bytes \<Rightarrow> bool" where
  "archive_ok body es pre comment \<longleftrightarrow> es \<noteq> [] \<and> list_all entry_ok es \<and> length pre = 6 \<and> length es < 65535
     \<and> length body + length (concat (map encode_entry es)) < 4294967295 \<and> length comment \<le> 65535
     \<and> list_all (\<lambda>o1. getUint32 (encode_eocd pre (length es) (length (concat (map encode_entry es))) (length body) comment) o1
          \<noteq> Inr EOCD_SIGNATURE) [1..<Suc (length comment)]"

lemma scan_eocd_finds:
  assumes "getUint32 v o1 = Inr EOCD_SIGNATURE"
    and "\<And>k. o1 < k \<Longrightarrow> k \<le> n \<Longrightarrow> getUint32 v k \<noteq> Inr EOCD_SIGNATURE"
    and "o1 \<le> n" and "n + 4 \<le> length v"
  shows "scan_eocd v n = Inr (Some o1)"
  using assms(2-4)
proof (induction n)
  case 0
  then show ?case using assms(1) by (subst scan_eocd.simps) simp
next
  case (Suc n)
  show ?case
  proof (cases "o1 = Suc n")
    case True
    then show ?thesis using assms(1) by (subst scan_eocd.simps) simp
  next
    case False
    obtain w where w: "getUint32 v (Suc n) = Inr w" using Suc.prems(3) by (simp add: getUint32_def)
    then have "w \<noteq> EOCD_SIGNATURE" using Suc.prems(1) [of "Suc n"] Suc.prems(2) False by auto
    then show ?thesis using w Suc False by (subst scan_eocd.simps) simp
  qed
qed

lemma eocd_fields:
  assumes "length pre = 6" and "tot < 65536" and "sz < 4294967296" and "offset < 4294967296"
  shows "getUint32 (encode_eocd pre tot sz offset comment) 0 = Inr EOCD_SIGNATURE"
    and "getUint16 (xs @ encode_eocd pre tot sz offset comment) (length xs + 10) = Inr tot"
    and "getUint32 (xs @ encode_eocd pre tot sz offset comment) (length xs + 12) = Inr sz"
    and "getUint32 (xs @ encode_eocd pre tot sz offset comment) (length xs + 16) = Inr offset"
proof -
  let ?v = "xs @ encode_eocd pre tot sz offset comment"
  let ?a = "xs @ le32 EOCD_SIGNATURE @ pre"
  have v: "?v = ?a @ le16 tot @ (le32 sz @ le32 offset @ le16 (length comment) @ comment)"
    "?v = (?a @ le16 tot) @ le32 sz @ (le32 offset @ le16 (length comment) @ comment)"
    "?v = (?a @ le16 tot @ le32 sz) @ le32 offset @ (le16 (length comment) @ comment)"
    by (simp_all add: encode_eocd_def)
  have e: "encode_eocd pre tot sz offset comment = [] @ le32 EOCD_SIGNATURE @
      (pre @ le16 tot @ le32 sz @ le32 offset @ le16 (length comment) @ comment)"
    by (simp add: encode_eocd_def)
  show "getUint32 (encode_eocd pre tot sz offset comment) 0 = Inr EOCD_SIGNATURE"
    unfolding e by (rule getUint32_at) (simp_all add: EOCD_SIGNATURE_def)
  show "getUint16 ?v (length xs + 10) = Inr tot"
    unfolding v(1) by (rule getUint16_at) (use assms in simp_all)
  show "getUint32 ?v (length xs + 12) = Inr sz"
    unfolding v(2) by (rule getUint32_at) (use assms in simp_all)
  show "getUint32 ?v (length xs + 16) = Inr offset"
    unfolding v(3) by (rule getUint32_at) (use assms in simp_all)
qed

lemma detects_archive:
  assumes "archive_ok body es pre comment"
  shows "detectZipEncryption (archive body es pre comment) =
    (case first_encrypted es of
       Some e \<Rightarrow> outcome_of True True (Some e) False
     | None \<Rightarrow> outcome_of True False None False)"
proof -
  note ok = assms [unfolded archive_ok_def]
  let ?cd = "concat (map encode_entry es)" and ?f = "archive body es pre comment"
  let ?e = "encode_eocd pre (length es) (length ?cd) (length body) comment"
  have bytes: "file_bytes ?f = (body @ ?cd) @ ?e" and rd: "file_readable ?f"
    by (simp_all add: archive_def Let_def)
  have le: "length ?e = 22 + length comment" using ok by (simp add: encode_eocd_def)
  have size: "file_size ?f = length (body @ ?cd) + (22 + length comment)"
    unfolding file_size_def bytes length_append le ..
  define xs where "xs = drop (file_size ?f - MAX_EOCD_SEARCH) (body @ ?cd)"
  have tail: "Prelude.slice (file_size ?f - MAX_EOCD_SEARCH) (file_size ?f) (file_bytes ?f) = xs @ ?e"
  proof -
    have "file_size ?f - MAX_EOCD_SEARCH \<le> length (body @ ?cd)" using size conjunct1 [OF conjunct2 [OF conjunct2 [OF conjunct2 [OF conjunct2 [OF conjunct2 [OF ok]]]]]]
      by (simp add: MAX_EOCD_SEARCH_def)
    then have "drop (file_size ?f - MAX_EOCD_SEARCH) (file_bytes ?f) = xs @ ?e"
      unfolding bytes xs_def by simp
    moreover have "length (drop (file_size ?f - MAX_EOCD_SEARCH) (file_bytes ?f)) = file_size ?f - (file_size ?f - MAX_EOCD_SEARCH)"
      by (simp add: file_size_def)
    ultimately show ?thesis by (simp add: Prelude.slice_def)
  qed
  have lim: "length pre = 6" "length es < 65536" "length ?cd < 4294967296" "length body < 4294967296"
    using ok by simp_all
  have f: "getUint32 ?e 0 = Inr EOCD_SIGNATURE" "getUint16 (xs @ ?e) (length xs + 10) = Inr (length es)"
    "getUint32 (xs @ ?e) (length xs + 12) = Inr (length ?cd)" "getUint32 (xs @ ?e) (length xs + 16) = Inr (length body)"
    by (simp_all only: eocd_fields [OF lim])
  have find: "findEocdOffset (xs @ ?e) = Inr (Some (length xs))"
  proof -
    have "scan_eocd (xs @ ?e) (length xs + length comment) = Inr (Some (length xs))"
    proof (rule scan_eocd_finds)
      show "getUint32 (xs @ ?e) (length xs) = Inr EOCD_SIGNATURE"
        using f(1) getUint32_shift [of xs ?e 0] by simp
      show "getUint32 (xs @ ?e) k \<noteq> Inr EOCD_SIGNATURE" if "length xs < k" "k \<le> length xs + length comment" for k
      proof -
        have "getUint32 ?e (k - length xs) \<noteq> Inr EOCD_SIGNATURE"
        proof -
          have "k - length xs \<in> set [1..<Suc (length comment)]" using that by (simp only: set_upt) auto
          moreover have "list_all (\<lambda>o1. getUint32 ?e o1 \<noteq> Inr EOCD_SIGNATURE) [1..<Suc (length comment)]"
            using ok by blast
          ultimately show ?thesis unfolding list_all_iff by (rule bspec [rotated])
        qed
        then show ?thesis using getUint32_shift [of xs ?e "k - length xs"] that by simp
      qed
    qed (use le in simp_all)
    moreover have "length (xs @ ?e) - 22 = length xs + length comment" using le by simp
    ultimately show ?thesis using le by (simp only: findEocdOffset_def) (simp add: le)
  qed
  have cdpos: "length ?cd \<noteq> 0"
    using ok length_encode_entry by (cases es) auto
  have cd: "readSlice ?f (length body) (length body + length ?cd) = Inr ?cd"
    using rd by (simp add: readSlice_def Prelude.slice_def bytes)
  have scan: "scanCentral ?cd 0 = Inr (first_encrypted es)"
    using scanCentral_encoded [of es "[]" 0] ok by simp
  have "readSlice ?f (file_size ?f - MAX_EOCD_SEARCH) (file_size ?f) = Inr (xs @ ?e)"
    using rd tail by (simp add: readSlice_def)
  then have "detectBody ?f = Inr (case first_encrypted es of
       Some e \<Rightarrow> outcome_of True True (Some e) False | None \<Rightarrow> outcome_of True False None False)"
    using find f cdpos cd scan ok size
    by (auto simp add: detectBody_def ZIP64_SENTINEL_32_def split: option.split)
  moreover have "22 \<le> file_size ?f" using size by simp
  ultimately show ?thesis by (simp add: detectZipEncryption_def)
qed


definition sample_entry :: ZipEntry where
  "sample_entry = \<lparr>ze_pre = replicate 4 0, ze_flag = 1, ze_method = 99, ze_mid = replicate 16 0,
     ze_post = replicate 8 0, ze_offset = 0, ze_name = [97], ze_extra = [(0x9901, [2, 0, 65, 69, 3, 8, 0])],
     ze_comment = []\<rparr>"


subsection \<open>The password check\<close>

lemma diff_fold:
  fixes d :: "8 word"
  shows "foldl (\<lambda>diff (x, y). diff OR (x XOR y)) d xys = 0 \<longleftrightarrow> d = 0 \<and> list_all (\<lambda>(x, y). x = y) xys"
proof (induction xys arbitrary: d)
  case (Cons p xys)
  have "x XOR y = 0 \<longleftrightarrow> x = y" for x y :: "8 word"
  proof
    assume "x XOR y = 0"
    then have "(x XOR y) XOR y = y" by simp
    then show "x = y" by (simp add: xor.assoc)
  qed simp
  then have "d OR (x XOR y) = 0 \<longleftrightarrow> d = 0 \<and> x = y" for x y :: "8 word"
    by (simp add: or_eq_0_iff)
  with Cons show ?case by (auto simp: case_prod_beta)
qed simp

lemma constantTimeEqual_eq: "constantTimeEqual a b \<longleftrightarrow> a = b"
proof (cases "length a = length b")
  case True
  have "list_all (\<lambda>(x, y). x = y) (zip a b) \<longleftrightarrow> a = b"
    using True by (induction a b rule: list_induct2) auto
  with True show ?thesis by (simp add: constantTimeEqual_def diff_fold)
qed (auto simp: constantTimeEqual_def)

text \<open>The part of an archive that belongs to one encrypted entry.\<close>

definition encode_local :: "bytes \<Rightarrow> bytes \<Rightarrow> bytes \<Rightarrow> bytes \<Rightarrow> bytes \<Rightarrow> bytes" where
  "encode_local fixed name extra salt pwv =
     le32 LOCAL_HEADER_SIGNATURE @ fixed @ le16 (length name) @ le16 (length extra) @ name @ extra @ salt @ pwv"

lemma slice_at: "length xs = k \<Longrightarrow> length ys = n \<Longrightarrow> Prelude.slice k (k + n) (xs @ ys @ zs) = ys"
  by (simp add: Prelude.slice_def)

lemma verifies_entry:
  assumes "keySizeForStrength strength = Some keySize" and "length fixed = 22"
    and "length name < 65536" and "length extra < 65536" and "length salt = keySize div 2" and "length pwv = 2"
    and "f = \<lparr>file_bytes = before @ encode_local fixed name extra salt pwv @ rest, file_readable = True\<rparr>"
    and "entry = \<lparr>localHeaderOffset = length before, aesStrength = strength\<rparr>"
  shows "verifyZipPassword (Some deriveBits) f entry password =
      (case deriveBits (utf8 password) salt 1000 ((keySize * 2 + 2) * 8) of
         Inl e \<Rightarrow> not_verified
       | Inr derived \<Rightarrow> \<lparr>verified = True, valid = (drop (length derived - 2) derived = pwv)\<rparr>)
    \<and> verifyZipPassword None f entry password = not_verified"
proof -
  let ?h = "le32 LOCAL_HEADER_SIGNATURE @ fixed @ le16 (length name) @ le16 (length extra)"
  have fb: "file_bytes f = before @ ?h @ (name @ extra @ salt @ pwv @ rest)"
    "file_bytes f = (before @ ?h @ name @ extra) @ (salt @ pwv) @ rest"
    by (simp_all add: assms(7) encode_local_def)
  have h30: "length ?h = 30" using assms(2) by simp
  have rd: "file_readable f" by (simp add: assms(7))
  have s1: "readSlice f (length before) (length before + 30) = Inr ?h"
    using rd slice_at [OF refl h30] unfolding readSlice_def fb(1) by simp
  have h: "getUint32 ?h 0 = Inr LOCAL_HEADER_SIGNATURE" "getUint16 ?h 26 = Inr (length name)"
    "getUint16 ?h 28 = Inr (length extra)"
    using getUint32_at [of LOCAL_HEADER_SIGNATURE "[]" 0 "fixed @ le16 (length name) @ le16 (length extra)"]
      getUint16_at [OF assms(3), of "le32 LOCAL_HEADER_SIGNATURE @ fixed" 26 "le16 (length extra)"]
      getUint16_at [OF assms(4), of "le32 LOCAL_HEADER_SIGNATURE @ fixed @ le16 (length name)" 28 "[]"] assms(2)
    by (simp_all add: LOCAL_HEADER_SIGNATURE_def)
  let ?d = "length before + 30 + length name + length extra"
  have "Prelude.slice ?d (?d + (keySize div 2 + 2)) (file_bytes f) = salt @ pwv"
    unfolding fb(2) by (rule slice_at) (use assms(5,6) h30 in simp_all)
  then have s2: "readSlice f ?d (?d + keySize div 2 + 2) = Inr (salt @ pwv)"
    using rd by (simp add: readSlice_def add.assoc)
  show ?thesis
    using s1 h s2 h30 assms(5,6)
    by (simp only: verifyZipPassword_def computePasswordVerificationValue_def Let_def constantTimeEqual_eq
        assms(1,8) EncryptedZipEntry.simps option.case and_then_simps if_False not_less order_refl)
      (auto split: sum.split)
qed

text \<open>C21: the password is checked exactly when it can be: for an entry written with a local header,
  a salt of the length that goes with its strength and two verification bytes, the answer is that
  these bytes are the last two that PBKDF2 with 1000 iterations derives for twice the key size plus
  two; and without Web Crypto the answer is "not verified", never "wrong password".\<close>

theorem verify_password_entry:
  assumes "keySizeForStrength strength = Some keySize" and "length fixed = 22"
    and "length name < 65536" and "length extra < 65536" and "length salt = keySize div 2" and "length pwv = 2"
    and "f = \<lparr>file_bytes = before @ encode_local fixed name extra salt pwv @ rest, file_readable = True\<rparr>"
    and "entry = \<lparr>localHeaderOffset = length before, aesStrength = strength\<rparr>"
  shows "verifyZipPassword (Some deriveBits) f entry password =
      (case deriveBits (utf8 password) salt 1000 ((keySize * 2 + 2) * 8) of
         Inl e \<Rightarrow> not_verified
       | Inr derived \<Rightarrow> \<lparr>verified = True, valid = (drop (length derived - 2) derived = pwv)\<rparr>)
    \<and> verifyZipPassword None f entry password = not_verified"
  by (rule verifies_entry [OF assms])

theorem verify_password_entry_witness:
  "verifyZipPassword (Some (\<lambda>pw salt i n. Inr (pw @ [7, 8])))
     \<lparr>file_bytes = [] @ encode_local (replicate 22 0) [97] [] (replicate 8 5) [7, 8] @ [], file_readable = True\<rparr>
     \<lparr>localHeaderOffset = length ([] :: bytes), aesStrength = 1\<rparr> ''secret'' = \<lparr>verified = True, valid = True\<rparr>"
proof -
  have k: "keySizeForStrength 1 = Some 16" by (simp add: keySizeForStrength_def)
  show ?thesis
    using conjunct1 [OF verify_password_entry [OF k, of "replicate 22 0" "[97]" "[]" "replicate 8 5" "[7, 8]" _ "[]" "[]"
        _ "\<lambda>pw salt i n. Inr (pw @ [7, 8])" "''secret''", OF _ _ _ _ _ refl refl]] by simp
qed

text \<open>Whatever the bytes are, an encrypted verdict comes with an entry, and only then.\<close>

lemma detect_consistent:
  "encrypted (detectZipEncryption f) \<longleftrightarrow> firstEncryptedEntry (detectZipEncryption f) \<noteq> None"
  "encrypted (detectZipEncryption f) \<Longrightarrow> isZip (detectZipEncryption f) \<and> \<not> cannotVerify (detectZipEncryption f)"
proof -
  have "and_then m k = Inr r \<Longrightarrow> \<exists>x. m = Inr x \<and> k x = Inr r" for m :: "'x result" and k and r :: "'y"
    by (cases m) auto
  then have "detectBody f = Inr r \<Longrightarrow> (encrypted r \<longleftrightarrow> firstEncryptedEntry r \<noteq> None) \<and>
      (encrypted r \<longrightarrow> isZip r \<and> \<not> cannotVerify r)" for r
    unfolding detectBody_def and_then_def
    by (auto simp: outcome_of_def split: sum.splits option.splits if_splits)
  then show "encrypted (detectZipEncryption f) \<longleftrightarrow> firstEncryptedEntry (detectZipEncryption f) \<noteq> None"
    "encrypted (detectZipEncryption f) \<Longrightarrow> isZip (detectZipEncryption f) \<and> \<not> cannotVerify (detectZipEncryption f)"
    by (auto simp: detectZipEncryption_def outcome_of_def split: sum.splits if_splits)
qed

text \<open>The strength byte is not restricted to 1, 2 and 3: another value is returned as it is.\<close>

lemma strength_not_checked:
  "parseAesStrengthFromExtra (encode_extra [(0x9901, [2, 0, 65, 69, 7, 8, 0])]) 0 11 = Inr (Some 7)"
proof -
  have "list_all extra_ok [(0x9901, [2, 0, 65, 69, 7, 8, 0])]" by (simp add: extra_ok_def)
  from parseAes_encoded [OF this, of "[]" 0 "[]"] show ?thesis
    by (simp add: parseAesStrengthFromExtra_def aes_strength_of_def AES_EXTRA_FIELD_ID_def encode_extra_def)
qed

end
