(* ===== verification/Downloads.thy ===== *)
theory Downloads
  imports Prelude
begin

text \<open>
  The file name of a \<open>Content-Disposition\<close> header, as \<open>downloadExport\<close>
  (\<open>use-settings-account-transfer.ts\<close>) and \<open>parseFilenameFromContentDisposition\<close>
  (\<open>use-admin-page-state.ts\<close>) read it with \<open>/filename="?([^"]+)"?/\<close>, the second with the
  flag \<open>i\<close>: the first place where a name of at least one character follows.  \<open>fc\<close> is the
  identity or the case folding of the flag.
\<close>

fun filename_match :: "(string \<Rightarrow> string) \<Rightarrow> string \<Rightarrow> string option" where
  "filename_match fc [] = None"
| "filename_match fc (c # s) =
     (if fc (take 9 (c # s)) = ''filename='' then
        (let r = drop 9 (c # s); r = (if r \<noteq> [] \<and> hd r = CHR 0x22 then tl r else r);
             name = takeWhile (\<lambda>x. x \<noteq> CHR 0x22) r
         in if name \<noteq> [] then Some name else filename_match fc s)
      else filename_match fc s)"

lemma filename_match_ne: "filename_match fc s = Some n \<Longrightarrow> n \<noteq> [] \<and> CHR 0x22 \<notin> set n"
  by (induction s) (auto simp: Let_def dest: set_takeWhileD split: if_splits)

lemma filename_match_prefix:
  assumes "\<And>v. length (fc v) = length v" and "\<And>p v. fc (p @ v) = fc p @ fc v" and "CHR ''f'' \<notin> set (fc p)"
  shows "filename_match fc (p @ ''filename='' @ s) = filename_match fc (''filename='' @ s)"
  using assms(3)
proof (induction p)
  case (Cons c p)
  have f: "fc (c # v) = fc [c] @ fc v" for v using assms(2) [of "[c]" v] by simp
  obtain d where d: "fc [c] = [d]" using assms(1) [of "[c]"] by (cases "fc [c]") auto
  have "d \<noteq> CHR ''f''" "CHR ''f'' \<notin> set (fc p)" using Cons.prems f [of p] d by auto
  moreover have "fc (take 9 (c # p @ ''filename='' @ s)) = d # fc (take 8 (p @ ''filename='' @ s))"
    using f d by simp
  ultimately show ?case using Cons.IH by simp
qed simp

lemma filename_match_quoted:
  assumes "\<And>v. length (fc v) = length v" and "\<And>p v. fc (p @ v) = fc p @ fc v" and "CHR ''f'' \<notin> set (fc p)"
    and "fc ''filename='' = ''filename=''" and "name \<noteq> []" and "CHR 0x22 \<notin> set name"
  shows "filename_match fc (p @ ''filename='' @ CHR 0x22 # name @ CHR 0x22 # rest) = Some name"
proof -
  have "takeWhile (\<lambda>x. x \<noteq> CHR 0x22) (name @ CHR 0x22 # rest) = name"
    using assms(6) by (simp add: takeWhile_append1 takeWhile_tail) (auto simp: takeWhile_eq_all_conv)
  then show ?thesis
    unfolding filename_match_prefix [OF assms(1-3)] using assms(4,5) by (simp add: Let_def)
qed

end
