(* ===== verification/AdminState.thy ===== *)
theory AdminState
  imports AdminSettings ZipEncryption Session Downloads Interfaces
begin

text \<open>
  The administration page, the hook \<open>useAdminPageState\<close> of
  \<open>web/src/features/admin/hooks/use-admin-page-state.ts\<close>: users, settings, background tasks,
  exchange rates and backups.  A handler runs up to its first \<open>await\<close> and leaves a task with what its
  closure holds; the settling of the request (or of the reading of a file) is an event that resumes it.
  \<open>ad_calls\<close> records the requests, \<open>ad_downloads\<close> the files that were saved with the password of
  their request, and \<open>ad_validations\<close> the answers of \<open>validateRestoreInputs\<close>.

  The environment holds the translation, Web Crypto (or its absence) and the date of the day.
\<close>

record AdminEnv =
  ae_t :: "string \<Rightarrow> string"
  ae_subtle :: "derive_bits option"
  ae_today :: string

record RestoreFile =
  rf_name :: string
  rf_file :: File

record BackupStatus =
  lastRunAt :: string
  lastStatus :: string
  lastError :: string

record ExchangeRateStatus =
  es_last_fetched_at :: "string option"
  es_source :: string
  es_rate_count :: int

datatype admin_call =
    Get_admin_data
  | Get_local_backups
  | Put_role int UserRole
  | Put_status int AdminUserStatus
  | Delete_user int
  | Post_user string string string UserRole
  | Put_settings UpdateSettingsInput
  | Get_settings
  | Post_smtp_test string
  | Post_ssrf_test string
  | Get_tasks
  | Post_rates
  | Get_rates
  | Post_backup bool string string
  | Post_restore RestoreFile "string option" string
  | Post_run
  | Get_after_run

datatype admin_task =
    Loading_data
  | Loading_backups
  | Changing_role int UserRole
  | Changing_status int AdminUserStatus
  | Deleting_user int
  | Creating_user
  | Saving_settings
  | Reading_settings
  | Testing_smtp
  | Testing_ssrf
  | Refreshing_tasks
  | Refreshing_rates
  | Reading_rates
  | Downloading bool string
  | Detecting RestoreFile
  | Verifying RestoreFile EncryptedZipEntry string
  | Restoring
  | Refreshing_backups
  | Running_backup
  | Reading_after_run
  | Settled

datatype admin_reply =
    Admin_failed
  | Admin_done
  | All_data "AdminUser list option" "SystemSettings option" ExchangeRateStatus "BackgroundTask list option"
  | Local_list "LocalBackupList option"
  | New_user AdminUser
  | Settings SystemSettings
  | Ssrf_result SSRFTestResult
  | Task_list "BackgroundTask list option"
  | Rate_status ExchangeRateStatus
  | Raw_response bool "string option" "json option"
  | Run_message string
  | After_run "LocalBackupList option" "SystemSettings option"

datatype admin_notice = Toast_error string | Toast_success string | Toast_info string

record AdminState =
  ad_users :: "AdminUser list"
  ad_backgroundTasks :: "BackgroundTask list"
  ad_loading :: bool
  ad_settingsForm :: AdminSettingsFormState
  ad_includeAssets :: bool
  ad_downloadPassword :: string
  ad_restoreFile :: "RestoreFile option"
  ad_restorePassword :: string
  ad_restoreEncrypted :: bool
  ad_restoreEncryptedEntry :: "EncryptedZipEntry option"
  ad_restoreConfirmOpen :: bool
  ad_backupStatus :: BackupStatus
  ad_runningBackup :: bool
  ad_localBackups :: "LocalBackupInfo list"
  ad_localBackupDir :: string
  ad_localBackupsRefreshing :: bool
  ad_rateStatus :: "ExchangeRateStatus option"
  ad_refreshing :: bool
  ad_tasksRefreshing :: bool
  ad_smtpTestRecipient :: string
  ad_smtpTesting :: bool
  ad_ssrfTestTarget :: string
  ad_ssrfTestResult :: "SSRFTestResult option"
  ad_ssrfTesting :: bool
  ad_createDialogOpen :: bool
  ad_newUsername :: string
  ad_newEmail :: string
  ad_newPassword :: string
  ad_newRole :: UserRole
  ad_title :: string
  ad_tasks :: "admin_task list"
  ad_calls :: "admin_call list"
  ad_notices :: "admin_notice list"
  ad_downloads :: "(string \<times> string) list"
  ad_validations :: "bool list"

definition createBackupStatus :: "SystemSettings option \<Rightarrow> BackupStatus" where
  "createBackupStatus settings = \<lparr>lastRunAt = or_text [] ss_backup_last_run_at settings,
     lastStatus = or_text [] ss_backup_last_status settings, lastError = or_text [] ss_backup_last_error settings\<rparr>"

definition parseFilenameFromContentDisposition :: "string option \<Rightarrow> string option" where
  "parseFilenameFromContentDisposition contentDisposition =
     (case contentDisposition of None \<Rightarrow> None | Some h \<Rightarrow> if h = [] then None else filename_match toLowerCase h)"

definition readErrorMessage :: "(string \<Rightarrow> string) \<Rightarrow> json option \<Rightarrow> string option" where
  "readErrorMessage t body =
     (case Option.bind body (\<lambda>b. json_get b ''error'') of
        Some (JStr e) \<Rightarrow> if trim e \<noteq> [] then Some (localizeBackendError t (Some (JStr e))) else None
      | _ \<Rightarrow> None)"

text \<open>\<open>filename.replace(/\.[^./\\]+$/, "")\<close>\<close>

definition strip_extension :: "string \<Rightarrow> string" where
  "strip_extension name =
     (let ext = takeWhile (\<lambda>c. c \<noteq> CHR ''.'' \<and> c \<noteq> CHR ''/'' \<and> c \<noteq> CHR 0x5C) (rev name);
          before = drop (length ext) (rev name)
      in if ext \<noteq> [] \<and> before \<noteq> [] \<and> hd before = CHR ''.'' then rev (tl before) else name)"

definition download_name :: "AdminEnv \<Rightarrow> bool \<Rightarrow> string \<Rightarrow> string option \<Rightarrow> string" where
  "download_name env assets password disposition =
     (let encrypted = password \<noteq> [];
          filename = nullish (parseFilenameFromContentDisposition disposition)
            (''subdux-backup-'' @ ae_today env @ (if assets \<or> encrypted then ''.zip'' else ''.db''))
      in if encrypted \<and> \<not> endsWith (toLowerCase filename) ''.zip'' then strip_extension filename @ ''.zip'' else filename)"

subsection \<open>Handlers\<close>

definition adm_call :: "admin_call \<Rightarrow> admin_task \<Rightarrow> AdminState \<Rightarrow> AdminState" where
  "adm_call c k s = s\<lparr>ad_calls := ad_calls s @ [c], ad_tasks := ad_tasks s @ [k]\<rparr>"

definition adm_next :: "nat \<Rightarrow> admin_call \<Rightarrow> admin_task \<Rightarrow> AdminState \<Rightarrow> AdminState" where
  "adm_next n c k s = s\<lparr>ad_calls := ad_calls s @ [c], ad_tasks := (ad_tasks s)[n := k]\<rparr>"

definition adm_notice :: "admin_notice \<Rightarrow> AdminState \<Rightarrow> AdminState" where
  "adm_notice m s = s\<lparr>ad_notices := ad_notices s @ [m]\<rparr>"

definition mount_admin :: "AdminEnv \<Rightarrow> string \<Rightarrow> AdminState" where
  "mount_admin env email = adm_call Get_local_backups Loading_backups (adm_call Get_admin_data Loading_data
     \<lparr>ad_users = [], ad_backgroundTasks = [], ad_loading = True, ad_settingsForm = createSettingsForm None,
      ad_includeAssets = False, ad_downloadPassword = [], ad_restoreFile = None, ad_restorePassword = [],
      ad_restoreEncrypted = False, ad_restoreEncryptedEntry = None, ad_restoreConfirmOpen = False,
      ad_backupStatus = createBackupStatus None, ad_runningBackup = False, ad_localBackups = [], ad_localBackupDir = [],
      ad_localBackupsRefreshing = False, ad_rateStatus = None, ad_refreshing = False, ad_tasksRefreshing = False,
      ad_smtpTestRecipient = email, ad_smtpTesting = False, ad_ssrfTestTarget = [], ad_ssrfTestResult = None,
      ad_ssrfTesting = False, ad_createDialogOpen = False, ad_newUsername = [], ad_newEmail = [], ad_newPassword = [],
      ad_newRole = Role_user, ad_title = [], ad_tasks = [], ad_calls = [], ad_notices = [], ad_downloads = [],
      ad_validations = []\<rparr>)"

definition handleToggleRole :: "AdminUser \<Rightarrow> AdminState \<Rightarrow> AdminState" where
  "handleToggleRole user s =
     (let nextRole = (if au_role user = Role_admin then Role_user else Role_admin)
      in adm_call (Put_role (au_id user) nextRole) (Changing_role (au_id user) nextRole) s)"

definition handleToggleStatus :: "AdminUser \<Rightarrow> AdminState \<Rightarrow> AdminState" where
  "handleToggleStatus user s =
     (let nextStatus = (if au_status user = User_active then User_disabled else User_active)
      in adm_call (Put_status (au_id user) nextStatus) (Changing_status (au_id user) nextStatus) s)"

definition handleDeleteUser :: "bool \<Rightarrow> int \<Rightarrow> AdminState \<Rightarrow> AdminState" where
  "handleDeleteUser confirmed i s = (if \<not> confirmed then s else adm_call (Delete_user i) (Deleting_user i) s)"

definition handleCreateUser :: "AdminEnv \<Rightarrow> AdminState \<Rightarrow> AdminState" where
  "handleCreateUser env s =
     (if ad_newUsername s = [] \<or> ad_newEmail s = [] \<or> ad_newPassword s = [] then s
      else if length (ad_newPassword s) < 8 then adm_notice (Toast_error (ae_t env ''admin.users.passwordTooShort'')) s
      else adm_call (Post_user (ad_newUsername s) (ad_newEmail s) (ad_newPassword s) (ad_newRole s)) Creating_user s)"

definition handleSaveSettings :: "AdminState \<Rightarrow> AdminState" where
  "handleSaveSettings s = adm_call (Put_settings (settings_payload (ad_settingsForm s))) Saving_settings s"

definition handleRegistrationEmailVerificationChange :: "AdminEnv \<Rightarrow> bool \<Rightarrow> AdminState \<Rightarrow> AdminState" where
  "handleRegistrationEmailVerificationChange env enabled s =
     (let set = (\<lambda>v. s\<lparr>ad_settingsForm := (ad_settingsForm s)\<lparr>af_registrationEmailVerificationEnabled := v\<rparr>\<rparr>) in
      if \<not> enabled then set False
      else if \<not> hasSMTPConfigForRegistrationVerification (ad_settingsForm s)
      then adm_notice (Toast_error (ae_t env ''admin.settings.registrationEmailVerificationSmtpWarning'')) s
      else set True)"

definition handleTestSMTP :: "AdminState \<Rightarrow> AdminState" where
  "handleTestSMTP s = adm_call (Post_smtp_test (trim (ad_smtpTestRecipient s))) Testing_smtp (s\<lparr>ad_smtpTesting := True\<rparr>)"

definition handleTestSSRF :: "AdminEnv \<Rightarrow> AdminState \<Rightarrow> AdminState" where
  "handleTestSSRF env s =
     (let target = trim (ad_ssrfTestTarget s) in
      if target = [] then adm_notice (Toast_error (ae_t env ''admin.settings.ssrfTestTargetRequired'')) s
      else adm_call (Post_ssrf_test target) Testing_ssrf (s\<lparr>ad_ssrfTesting := True\<rparr>))"

definition handleRefreshBackgroundTasks :: "AdminState \<Rightarrow> AdminState" where
  "handleRefreshBackgroundTasks s = adm_call Get_tasks Refreshing_tasks (s\<lparr>ad_tasksRefreshing := True\<rparr>)"

definition handleRefreshRates :: "AdminState \<Rightarrow> AdminState" where
  "handleRefreshRates s = adm_call Post_rates Refreshing_rates (s\<lparr>ad_refreshing := True\<rparr>)"

definition handleDownloadBackup :: "string \<Rightarrow> AdminState \<Rightarrow> AdminState" where
  "handleDownloadBackup reauthTicket s =
     (let password = trim (ad_downloadPassword s)
      in adm_call (Post_backup (ad_includeAssets s) password reauthTicket) (Downloading (ad_includeAssets s) password) s)"

definition handleRestoreFileChange :: "RestoreFile option \<Rightarrow> AdminState \<Rightarrow> AdminState" where
  "handleRestoreFileChange file s =
     (let s = s\<lparr>ad_restoreFile := file, ad_restorePassword := [], ad_restoreEncrypted := False,
            ad_restoreEncryptedEntry := None, ad_restoreConfirmOpen := False\<rparr>
      in case file of
           None \<Rightarrow> s
         | Some f \<Rightarrow>
             if \<not> endsWith (toLowerCase (rf_name f)) ''.zip'' then s
             else s\<lparr>ad_tasks := ad_tasks s @ [Detecting f]\<rparr>)"

definition validated :: "bool \<Rightarrow> AdminState \<Rightarrow> AdminState" where
  "validated b s = s\<lparr>ad_validations := ad_validations s @ [b]\<rparr>"

definition validateRestoreInputs :: "AdminEnv \<Rightarrow> AdminState \<Rightarrow> AdminState" where
  "validateRestoreInputs env s =
     (case ad_restoreFile s of
        None \<Rightarrow> validated False s
      | Some f \<Rightarrow>
          let password = trim (ad_restorePassword s) in
          if ad_restoreEncrypted s then
            if password = [] then validated False (adm_notice (Toast_error (ae_t env ''admin.backup.restorePasswordRequired'')) s)
            else (case ad_restoreEncryptedEntry s of
                None \<Rightarrow> validated True s
              | Some entry \<Rightarrow> s\<lparr>ad_tasks := ad_tasks s @ [Verifying f entry password]\<rparr>)
          else validated True s)"

definition handleRestore :: "string \<Rightarrow> AdminState \<Rightarrow> AdminState" where
  "handleRestore reauthTicket s =
     (case ad_restoreFile s of
        None \<Rightarrow> s
      | Some f \<Rightarrow>
          let password = trim (ad_restorePassword s)
          in adm_call (Post_restore f (if password \<noteq> [] then Some password else None) reauthTicket) Restoring s)"

definition handleRefreshLocalBackups :: "AdminState \<Rightarrow> AdminState" where
  "handleRefreshLocalBackups s = adm_call Get_local_backups Refreshing_backups (s\<lparr>ad_localBackupsRefreshing := True\<rparr>)"

definition handleRunBackupNow :: "AdminState \<Rightarrow> AdminState" where
  "handleRunBackupNow s = adm_call Post_run Running_backup (s\<lparr>ad_runningBackup := True\<rparr>)"

subsection \<open>Answers\<close>

definition settle_task :: "nat \<Rightarrow> AdminState \<Rightarrow> AdminState" where
  "settle_task n s = s\<lparr>ad_tasks := (ad_tasks s)[n := Settled]\<rparr>"

definition data_loaded :: "AdminUser list option \<Rightarrow> SystemSettings option \<Rightarrow> ExchangeRateStatus \<Rightarrow> BackgroundTask list option
    \<Rightarrow> AdminState \<Rightarrow> AdminState" where
  "data_loaded usersData settingsData rateStatusData backgroundTasksData s =
     s\<lparr>ad_users := nullish usersData [], ad_settingsForm := createSettingsForm settingsData,
       ad_backupStatus := createBackupStatus settingsData, ad_rateStatus := Some rateStatusData,
       ad_backgroundTasks := nullish backgroundTasksData []\<rparr>"

definition backups_listed :: "LocalBackupList option \<Rightarrow> AdminState \<Rightarrow> AdminState" where
  "backups_listed xs s =
     s\<lparr>ad_localBackups := (case xs of None \<Rightarrow> [] | Some l \<Rightarrow> ll_backups l),
       ad_localBackupDir := (case xs of None \<Rightarrow> [] | Some l \<Rightarrow> ll_directory l)\<rparr>"

definition change_user :: "int \<Rightarrow> (AdminUser \<Rightarrow> AdminUser) \<Rightarrow> AdminState \<Rightarrow> AdminState" where
  "change_user i f s = s\<lparr>ad_users := map (\<lambda>item. if au_id item = i then f item else item) (ad_users s)\<rparr>"

definition user_created :: "AdminEnv \<Rightarrow> AdminUser \<Rightarrow> AdminState \<Rightarrow> AdminState" where
  "user_created env user s = adm_notice (Toast_success (ae_t env ''admin.users.createSuccess''))
     (s\<lparr>ad_users := ad_users s @ [user], ad_createDialogOpen := False, ad_newUsername := [], ad_newEmail := [],
        ad_newPassword := [], ad_newRole := Role_user\<rparr>)"

definition settings_saved :: "AdminEnv \<Rightarrow> SystemSettings \<Rightarrow> AdminState \<Rightarrow> AdminState" where
  "settings_saved env fresh s = adm_notice (Toast_success (ae_t env ''admin.settings.saveSuccess''))
     (s\<lparr>ad_settingsForm := createSettingsForm (Some fresh), ad_backupStatus := createBackupStatus (Some fresh),
        ad_title := or_str (ss_site_name fresh) ''Subdux''\<rparr>)"

definition ssrf_tested :: "AdminEnv \<Rightarrow> SSRFTestResult \<Rightarrow> AdminState \<Rightarrow> AdminState" where
  "ssrf_tested env result s = adm_notice (Toast_success (ae_t env
       (if sr_allowed result then ''admin.settings.ssrfTestAllowedToast'' else ''admin.settings.ssrfTestBlockedToast'')))
     (s\<lparr>ad_ssrfTestResult := Some result\<rparr>)"

definition backup_downloaded :: "AdminEnv \<Rightarrow> bool \<Rightarrow> string \<Rightarrow> admin_reply \<Rightarrow> AdminState \<Rightarrow> AdminState" where
  "backup_downloaded env assets password r s =
     (case r of
        Raw_response ok disposition body \<Rightarrow>
          if \<not> ok then adm_notice (Toast_error (nullish (readErrorMessage (ae_t env) body) (ae_t env ''admin.backup.downloadFailed''))) s
          else adm_notice (Toast_success (ae_t env ''admin.backup.downloadSuccess''))
            (s\<lparr>ad_downloads := ad_downloads s @ [(password, download_name env assets password disposition)]\<rparr>)
      | _ \<Rightarrow> adm_notice (Toast_error (ae_t env ''admin.backup.downloadFailed'')) s)"

definition archive_inspected :: "AdminEnv \<Rightarrow> RestoreFile \<Rightarrow> AdminState \<Rightarrow> AdminState" where
  "archive_inspected env f s =
     (let detection = detectZipEncryption (rf_file f) in
      if encrypted detection \<and> firstEncryptedEntry detection \<noteq> None
      then adm_notice (Toast_info (ae_t env ''admin.backup.restoreEncryptedDetected''))
        (s\<lparr>ad_restoreEncrypted := True, ad_restoreEncryptedEntry := firstEncryptedEntry detection\<rparr>)
      else s)"

definition password_verified :: "AdminEnv \<Rightarrow> RestoreFile \<Rightarrow> EncryptedZipEntry \<Rightarrow> string \<Rightarrow> AdminState \<Rightarrow> AdminState" where
  "password_verified env f entry password s =
     (let verification = verifyZipPassword (ae_subtle env) (rf_file f) entry password in
      if verified verification \<and> \<not> valid verification
      then validated False (adm_notice (Toast_error (ae_t env ''admin.backup.restoreWrongPassword'')) s)
      else validated True s)"

definition restore_answered :: "AdminEnv \<Rightarrow> admin_reply \<Rightarrow> AdminState \<Rightarrow> AdminState" where
  "restore_answered env r s =
     (case r of
        Raw_response ok disposition body \<Rightarrow>
          if \<not> ok then adm_notice (Toast_error (nullish (readErrorMessage (ae_t env) body) (ae_t env ''admin.backup.restoreFailed''))) s
          else adm_notice (Toast_success (ae_t env ''admin.backup.restoreSuccess'')) (s\<lparr>ad_restoreConfirmOpen := False\<rparr>)
      | _ \<Rightarrow> adm_notice (Toast_error (ae_t env ''admin.backup.restoreFailed'')) s)"

text \<open>What a task does with its answer; a rejection that is caught without a notice changes nothing but the
  flags that \<open>finally\<close> resets.\<close>

fun admin_resume :: "AdminEnv \<Rightarrow> nat \<Rightarrow> admin_task \<Rightarrow> admin_reply \<Rightarrow> AdminState \<Rightarrow> AdminState" where
  "admin_resume env n Loading_data r s = settle_task n
     ((case r of All_data u st q b \<Rightarrow> data_loaded u st q b s | _ \<Rightarrow> s)\<lparr>ad_loading := False\<rparr>)"
| "admin_resume env n Loading_backups r s = settle_task n (case r of Local_list xs \<Rightarrow> backups_listed xs s | _ \<Rightarrow> s)"
| "admin_resume env n (Changing_role i role) r s = settle_task n
     (case r of Admin_done \<Rightarrow> adm_notice (Toast_success (ae_t env ''admin.users.roleUpdated'')) (change_user i (\<lambda>u. u\<lparr>au_role := role\<rparr>) s) | _ \<Rightarrow> s)"
| "admin_resume env n (Changing_status i status) r s = settle_task n
     (case r of Admin_done \<Rightarrow> adm_notice (Toast_success (ae_t env ''admin.users.statusUpdated'')) (change_user i (\<lambda>u. u\<lparr>au_status := status\<rparr>) s) | _ \<Rightarrow> s)"
| "admin_resume env n (Deleting_user i) r s = settle_task n
     (case r of Admin_done \<Rightarrow> adm_notice (Toast_success (ae_t env ''admin.users.deleteSuccess''))
          (s\<lparr>ad_users := filter (\<lambda>item. au_id item \<noteq> i) (ad_users s)\<rparr>) | _ \<Rightarrow> s)"
| "admin_resume env n Creating_user r s = settle_task n (case r of New_user user \<Rightarrow> user_created env user s | _ \<Rightarrow> s)"
| "admin_resume env n Saving_settings r s =
     (case r of Admin_done \<Rightarrow> adm_next n Get_settings Reading_settings s | _ \<Rightarrow> settle_task n s)"
| "admin_resume env n Reading_settings r s = settle_task n (case r of Settings fresh \<Rightarrow> settings_saved env fresh s | _ \<Rightarrow> s)"
| "admin_resume env n Testing_smtp r s = settle_task n
     ((case r of Admin_done \<Rightarrow> adm_notice (Toast_success (ae_t env ''admin.settings.smtpTestSuccess'')) s | _ \<Rightarrow> s)\<lparr>ad_smtpTesting := False\<rparr>)"
| "admin_resume env n Testing_ssrf r s = settle_task n
     ((case r of Ssrf_result result \<Rightarrow> ssrf_tested env result s | _ \<Rightarrow> s)\<lparr>ad_ssrfTesting := False\<rparr>)"
| "admin_resume env n Refreshing_tasks r s = settle_task n
     ((case r of Task_list xs \<Rightarrow> s\<lparr>ad_backgroundTasks := nullish xs []\<rparr> | _ \<Rightarrow> s)\<lparr>ad_tasksRefreshing := False\<rparr>)"
| "admin_resume env n Refreshing_rates r s =
     (case r of Admin_done \<Rightarrow> adm_next n Get_rates Reading_rates s
      | _ \<Rightarrow> settle_task n ((adm_notice (Toast_error (ae_t env ''admin.exchangeRates.refreshFailed'')) s)\<lparr>ad_refreshing := False\<rparr>))"
| "admin_resume env n Reading_rates r s = settle_task n
     ((case r of Rate_status status \<Rightarrow> adm_notice (Toast_success (ae_t env ''admin.exchangeRates.refreshSuccess'')) (s\<lparr>ad_rateStatus := Some status\<rparr>)
       | _ \<Rightarrow> adm_notice (Toast_error (ae_t env ''admin.exchangeRates.refreshFailed'')) s)\<lparr>ad_refreshing := False\<rparr>)"
| "admin_resume env n (Downloading assets password) r s = settle_task n (backup_downloaded env assets password r s)"
| "admin_resume env n (Detecting f) r s = settle_task n (archive_inspected env f s)"
| "admin_resume env n (Verifying f entry password) r s = settle_task n (password_verified env f entry password s)"
| "admin_resume env n Restoring r s = settle_task n (restore_answered env r s)"
| "admin_resume env n Refreshing_backups r s = settle_task n
     ((case r of Local_list xs \<Rightarrow> backups_listed xs s | _ \<Rightarrow> s)\<lparr>ad_localBackupsRefreshing := False\<rparr>)"
| "admin_resume env n Running_backup r s =
     (case r of
        Run_message message \<Rightarrow> adm_next n Get_after_run Reading_after_run
          (adm_notice (Toast_success (or_str message (ae_t env ''admin.backup.runNowSuccess''))) s)
      | _ \<Rightarrow> settle_task n ((adm_notice (Toast_error (ae_t env ''admin.backup.runNowFailed'')) s)\<lparr>ad_runningBackup := False\<rparr>))"
| "admin_resume env n Reading_after_run r s = settle_task n
     ((case r of After_run xs fresh \<Rightarrow> (backups_listed xs s)\<lparr>ad_backupStatus := createBackupStatus fresh\<rparr>
       | _ \<Rightarrow> adm_notice (Toast_error (ae_t env ''admin.backup.runNowFailed'')) s)\<lparr>ad_runningBackup := False\<rparr>)"
| "admin_resume env n Settled r s = s"

datatype admin_field =
    Settings_field "AdminSettingsFormState \<Rightarrow> AdminSettingsFormState"
  | Include_assets bool
  | Download_password string
  | Restore_password string
  | Restore_confirm bool
  | Smtp_recipient string
  | Ssrf_target string
  | Create_dialog bool
  | New_username string
  | New_email string
  | New_password string
  | New_role UserRole

fun set_admin_field :: "admin_field \<Rightarrow> AdminState \<Rightarrow> AdminState" where
  "set_admin_field (Settings_field f) s = s\<lparr>ad_settingsForm := f (ad_settingsForm s)\<rparr>"
| "set_admin_field (Include_assets b) s = s\<lparr>ad_includeAssets := b\<rparr>"
| "set_admin_field (Download_password v) s = s\<lparr>ad_downloadPassword := v\<rparr>"
| "set_admin_field (Restore_password v) s = s\<lparr>ad_restorePassword := v\<rparr>"
| "set_admin_field (Restore_confirm b) s = s\<lparr>ad_restoreConfirmOpen := b\<rparr>"
| "set_admin_field (Smtp_recipient v) s = s\<lparr>ad_smtpTestRecipient := v\<rparr>"
| "set_admin_field (Ssrf_target v) s = s\<lparr>ad_ssrfTestTarget := v\<rparr>"
| "set_admin_field (Create_dialog b) s = s\<lparr>ad_createDialogOpen := b\<rparr>"
| "set_admin_field (New_username v) s = s\<lparr>ad_newUsername := v\<rparr>"
| "set_admin_field (New_email v) s = s\<lparr>ad_newEmail := v\<rparr>"
| "set_admin_field (New_password v) s = s\<lparr>ad_newPassword := v\<rparr>"
| "set_admin_field (New_role v) s = s\<lparr>ad_newRole := v\<rparr>"

datatype admin_event =
    Admin_answer nat admin_reply
  | Admin_field admin_field
  | Toggle_role AdminUser
  | Toggle_status AdminUser
  | Delete_user_event bool int
  | Create_user
  | Save_settings
  | Verification_change bool
  | Test_smtp
  | Test_ssrf
  | Refresh_tasks
  | Refresh_rates
  | Download_backup string
  | Choose_restore_file "RestoreFile option"
  | Validate_restore
  | Restore_backup string
  | Refresh_backups
  | Run_backup

fun admin_step :: "AdminEnv \<Rightarrow> AdminState \<Rightarrow> admin_event \<Rightarrow> AdminState" where
  "admin_step env s (Admin_answer n r) = (if n < length (ad_tasks s) then admin_resume env n (ad_tasks s ! n) r s else s)"
| "admin_step env s (Admin_field f) = set_admin_field f s"
| "admin_step env s (Toggle_role user) = handleToggleRole user s"
| "admin_step env s (Toggle_status user) = handleToggleStatus user s"
| "admin_step env s (Delete_user_event confirmed i) = handleDeleteUser confirmed i s"
| "admin_step env s Create_user = handleCreateUser env s"
| "admin_step env s Save_settings = handleSaveSettings s"
| "admin_step env s (Verification_change enabled) = handleRegistrationEmailVerificationChange env enabled s"
| "admin_step env s Test_smtp = handleTestSMTP s"
| "admin_step env s Test_ssrf = handleTestSSRF env s"
| "admin_step env s Refresh_tasks = handleRefreshBackgroundTasks s"
| "admin_step env s Refresh_rates = handleRefreshRates s"
| "admin_step env s (Download_backup ticket) = handleDownloadBackup ticket s"
| "admin_step env s (Choose_restore_file file) = handleRestoreFileChange file s"
| "admin_step env s Validate_restore = validateRestoreInputs env s"
| "admin_step env s (Restore_backup ticket) = handleRestore ticket s"
| "admin_step env s Refresh_backups = handleRefreshLocalBackups s"
| "admin_step env s Run_backup = handleRunBackupNow s"

end
