(* ===== verification/AdminRuns.thy ===== *)
theory AdminRuns
  imports AdminState
begin

text \<open>
  The runs of the administration page: any sequence of the events of \<open>AdminState\<close>, from the first
  rendering.  The requests it sends, the names of its downloads, and what it says of the file that is to be
  restored, with the detection and the password check of \<open>ZipEncryption\<close> as the code calls them.
\<close>

subsection \<open>Requests and downloads\<close>

lemma toLowerCase_append [simp]: "toLowerCase (a @ b) = toLowerCase a @ toLowerCase b"
  by (simp add: toLowerCase_def)

lemma endsWith_append [simp]: "endsWith (a @ b) b"
  by (simp add: endsWith_def)

lemma zip_lower: "toLowerCase ''.zip'' = ''.zip''"
  by code_simp

lemma download_name_zip: "password \<noteq> [] \<Longrightarrow> endsWith (toLowerCase (download_name env assets password disposition)) ''.zip''"
  by (simp add: download_name_def Let_def zip_lower)

definition secret_ok :: "string option \<Rightarrow> bool" where
  "secret_ok v \<longleftrightarrow> (case v of None \<Rightarrow> True | Some x \<Rightarrow> x \<noteq> [] \<and> trim x = x)"

fun admin_call_ok :: "admin_call \<Rightarrow> bool" where
  "admin_call_ok (Put_settings u) = list_all secret_ok [us_oidc_client_secret u, us_smtp_password u, us_system_proxy_url u,
     us_currencyapi_key u, us_backup_encryption_password u]"
| "admin_call_ok (Post_user username email password role) = (username \<noteq> [] \<and> email \<noteq> [] \<and> 8 \<le> length password)"
| "admin_call_ok (Post_ssrf_test target) = (target \<noteq> [] \<and> trim target = target)"
| "admin_call_ok (Post_restore f password ticket) = secret_ok password"
| "admin_call_ok c = True"

definition download_ok :: "string \<times> string \<Rightarrow> bool" where
  "download_ok d \<longleftrightarrow> (if fst d = [] then True else endsWith (toLowerCase (snd d)) ''.zip'')"

definition admin_ok :: "AdminState \<Rightarrow> bool" where
  "admin_ok s \<longleftrightarrow> list_all admin_call_ok (ad_calls s) \<and> list_all download_ok (ad_downloads s)"

lemma secret_ok_typed [simp]: "secret_ok (typed_secret v)"
  by (simp add: secret_ok_def typed_secret_def)

lemma payload_secrets [simp]: "admin_call_ok (Put_settings (settings_payload form))"
  by (simp add: settings_payload_def)

declare admin_call_ok.simps(1) [simp del]

lemma admin_ok_frame [simp]:
  "admin_ok (adm_notice m s) = admin_ok s" "admin_ok (settle_task n s) = admin_ok s"
  "admin_ok (adm_call c k s) \<longleftrightarrow> admin_call_ok c \<and> admin_ok s" "admin_ok (adm_next n c k s) \<longleftrightarrow> admin_call_ok c \<and> admin_ok s"
  "admin_ok (validated b s) = admin_ok s" "admin_ok (backups_listed xs s) = admin_ok s" "admin_ok (change_user i f s) = admin_ok s"
  by (auto simp: admin_ok_def adm_notice_def settle_task_def adm_call_def adm_next_def validated_def backups_listed_def change_user_def)

lemma admin_ok_update [simp]:
  "admin_ok (s\<lparr>ad_users := us\<rparr>) = admin_ok s" "admin_ok (s\<lparr>ad_loading := b\<rparr>) = admin_ok s"
  "admin_ok (s\<lparr>ad_smtpTesting := b\<rparr>) = admin_ok s" "admin_ok (s\<lparr>ad_ssrfTesting := b\<rparr>) = admin_ok s"
  "admin_ok (s\<lparr>ad_backgroundTasks := bs\<rparr>) = admin_ok s" "admin_ok (s\<lparr>ad_tasksRefreshing := b\<rparr>) = admin_ok s"
  "admin_ok (s\<lparr>ad_refreshing := b\<rparr>) = admin_ok s" "admin_ok (s\<lparr>ad_rateStatus := q\<rparr>) = admin_ok s"
  "admin_ok (s\<lparr>ad_localBackupsRefreshing := b\<rparr>) = admin_ok s" "admin_ok (s\<lparr>ad_runningBackup := b\<rparr>) = admin_ok s"
  "admin_ok (s\<lparr>ad_backupStatus := w\<rparr>) = admin_ok s" "admin_ok (s\<lparr>ad_ssrfTestResult := v\<rparr>) = admin_ok s"
  "admin_ok (s\<lparr>ad_restoreConfirmOpen := b\<rparr>) = admin_ok s" "admin_ok (s\<lparr>ad_settingsForm := form\<rparr>) = admin_ok s"
  "admin_ok (s\<lparr>ad_tasks := ks\<rparr>) = admin_ok s"
  by (simp_all add: admin_ok_def)

lemma admin_ok_answers [simp]:
  "admin_ok (data_loaded u st q b s) = admin_ok s" "admin_ok (user_created env user s) = admin_ok s"
  "admin_ok (settings_saved env fresh s) = admin_ok s" "admin_ok (ssrf_tested env result s) = admin_ok s"
  "admin_ok (archive_inspected env f s) = admin_ok s" "admin_ok (password_verified env f entry password s) = admin_ok s"
  by (simp_all add: data_loaded_def user_created_def settings_saved_def ssrf_tested_def archive_inspected_def
      password_verified_def Let_def) (simp_all add: admin_ok_def)

lemma admin_ok_restore [simp]: "admin_ok (restore_answered env r s) = admin_ok s"
  by (cases r) (simp_all add: restore_answered_def)

lemma admin_ok_download: "admin_ok s \<Longrightarrow> admin_ok (backup_downloaded env assets password r s)"
proof (cases r)
  case (Raw_response ok disposition body)
  assume "admin_ok s"
  moreover have "download_ok (password, download_name env assets password disposition)"
    by (simp add: download_ok_def download_name_zip)
  ultimately show ?thesis
    using Raw_response by (simp add: backup_downloaded_def) (simp add: admin_ok_def)
qed (simp_all add: backup_downloaded_def)

lemma admin_ok_resume: "admin_ok s \<Longrightarrow> admin_ok (admin_resume env n k r s)"
  by (cases k) (simp_all add: admin_ok_download split: admin_reply.split)

lemma admin_ok_field [simp]: "admin_ok (set_admin_field f s) = admin_ok s"
  by (cases f) (simp_all add: admin_ok_def)

lemma admin_ok_handlers:
  "admin_ok s \<Longrightarrow> admin_ok (handleCreateUser env s)" "admin_ok s \<Longrightarrow> admin_ok (handleTestSSRF env s)"
  "admin_ok s \<Longrightarrow> admin_ok (handleRestore ticket s)" "admin_ok s \<Longrightarrow> admin_ok (validateRestoreInputs env s)"
  by (auto simp: handleCreateUser_def handleTestSSRF_def handleRestore_def validateRestoreInputs_def Let_def secret_ok_def
      split: option.split)

lemma admin_ok_choose [simp]: "admin_ok (handleRestoreFileChange f s) = admin_ok s"
  by (cases f) (simp_all add: handleRestoreFileChange_def Let_def admin_ok_def)

lemmas admin_handlers = handleToggleRole_def handleToggleStatus_def handleDeleteUser_def handleSaveSettings_def
  handleRegistrationEmailVerificationChange_def handleTestSMTP_def handleRefreshBackgroundTasks_def handleRefreshRates_def
  handleDownloadBackup_def handleRefreshLocalBackups_def handleRunBackupNow_def

lemma admin_step_ok: "admin_ok s \<Longrightarrow> admin_ok (admin_step env s e)"
  by (cases e) (simp_all add: admin_ok_resume admin_ok_handlers admin_handlers Let_def)

interpretation admin_page: event_machine "admin_step env" admin_ok for env
  by unfold_locales (rule admin_step_ok)

lemma mount_admin_ok: "admin_ok (mount_admin env email)"
  by (simp add: mount_admin_def) (simp add: admin_ok_def)

text \<open>C36: whatever the order of clicks and answers: a secret is only sent when something was typed, and trimmed;
  a user is only created with a name, an address and a password of eight characters or more; an SSRF test
  has a target; and a backup that was requested with a password is saved under a name that ends in .zip.\<close>

theorem admin_requests_valid:
  "list_all admin_call_ok (ad_calls (foldl (admin_step env) (mount_admin env email) es))
   \<and> list_all download_ok (ad_downloads (foldl (admin_step env) (mount_admin env email) es))"
  using admin_page.run_inv [OF mount_admin_ok] by (simp only: admin_ok_def)

subsection \<open>The file that is restored\<close>

definition is_zip_name :: "RestoreFile \<Rightarrow> bool" where
  "is_zip_name f \<longleftrightarrow> endsWith (toLowerCase (rf_name f)) ''.zip''"

fun is_detecting :: "admin_task \<Rightarrow> bool" where
  "is_detecting (Detecting f) = True"
| "is_detecting _ = False"

definition detections :: "AdminState \<Rightarrow> admin_task list" where
  "detections s = filter is_detecting (ad_tasks s)"

text \<open>What the page should say of a file: whether it is encrypted, and the entry to try a password on.\<close>

definition verdict :: "RestoreFile option \<Rightarrow> bool \<times> EncryptedZipEntry option" where
  "verdict file =
     (case file of
        None \<Rightarrow> (False, None)
      | Some f \<Rightarrow> if is_zip_name f \<and> encrypted (detectZipEncryption (rf_file f))
                  then (True, firstEncryptedEntry (detectZipEncryption (rf_file f))) else (False, None))"

text \<open>A run in which no file is chosen while another one is still inspected.\<close>

fun calm_run :: "AdminEnv \<Rightarrow> AdminState \<Rightarrow> admin_event list \<Rightarrow> bool" where
  "calm_run env s [] = True"
| "calm_run env s (e # es) =
     ((case e of Choose_restore_file f \<Rightarrow> detections s = [] | _ \<Rightarrow> True) \<and> calm_run env (admin_step env s e) es)"

definition restore_view :: "AdminState \<Rightarrow> RestoreFile option \<times> (bool \<times> EncryptedZipEntry option) \<times> admin_task list" where
  "restore_view s = (ad_restoreFile s, (ad_restoreEncrypted s, ad_restoreEncryptedEntry s), detections s)"

definition inspected :: "AdminState \<Rightarrow> bool" where
  "inspected s \<longleftrightarrow> (case restore_view s of
       (file, flags, []) \<Rightarrow> flags = verdict file
     | (file, flags, [k]) \<Rightarrow> (\<exists>f. k = Detecting f \<and> file = Some f \<and> is_zip_name f \<and> flags = (False, None))
     | _ \<Rightarrow> False)"

lemma inspected_cong: "restore_view s' = restore_view s \<Longrightarrow> inspected s' = inspected s"
  by (simp add: inspected_def)

lemma filter_update_other: "\<not> P y \<Longrightarrow> n < length xs \<Longrightarrow> \<not> P (xs ! n) \<Longrightarrow> filter P (xs[n := y]) = filter P xs"
proof (induction xs arbitrary: n)
  case (Cons x xs)
  then show ?case by (cases n) auto
qed simp

lemma filter_update_only:
  "\<not> P y \<Longrightarrow> n < length xs \<Longrightarrow> P (xs ! n) \<Longrightarrow> length (filter P xs) \<le> 1 \<Longrightarrow> filter P xs = [xs ! n] \<and> filter P (xs[n := y]) = []"
proof (induction xs arbitrary: n)
  case (Cons x xs)
  show ?case
  proof (cases n)
    case 0
    with Cons.prems have "filter P xs = []" by (cases "filter P xs") auto
    with 0 Cons.prems show ?thesis by simp
  next
    case (Suc m)
    have "P (xs ! m)" "m < length xs" using Cons.prems Suc by auto
    then have "xs ! m \<in> set (filter P xs)" by simp
    then have "filter P xs \<noteq> []" by (metis empty_iff list.set(1))
    then have "\<not> P x" using Cons.prems(4) by (cases "filter P xs") auto
    with Suc Cons show ?thesis by auto
  qed
qed simp

lemma restore_view_frame [simp]:
  "restore_view (adm_notice m s) = restore_view s" "restore_view (validated b s) = restore_view s"
  "restore_view (backups_listed xs s) = restore_view s" "restore_view (change_user i f s) = restore_view s"
  "\<not> is_detecting k \<Longrightarrow> restore_view (adm_call c k s) = restore_view s"
  by (simp_all add: restore_view_def detections_def adm_notice_def validated_def backups_listed_def change_user_def adm_call_def)

lemma restore_view_update [simp]:
  "restore_view (s\<lparr>ad_users := us\<rparr>) = restore_view s" "restore_view (s\<lparr>ad_loading := b\<rparr>) = restore_view s"
  "restore_view (s\<lparr>ad_smtpTesting := b\<rparr>) = restore_view s" "restore_view (s\<lparr>ad_ssrfTesting := b\<rparr>) = restore_view s"
  "restore_view (s\<lparr>ad_backgroundTasks := bs\<rparr>) = restore_view s" "restore_view (s\<lparr>ad_tasksRefreshing := b\<rparr>) = restore_view s"
  "restore_view (s\<lparr>ad_refreshing := b\<rparr>) = restore_view s" "restore_view (s\<lparr>ad_rateStatus := q\<rparr>) = restore_view s"
  "restore_view (s\<lparr>ad_localBackupsRefreshing := b\<rparr>) = restore_view s" "restore_view (s\<lparr>ad_runningBackup := b\<rparr>) = restore_view s"
  "restore_view (s\<lparr>ad_backupStatus := w\<rparr>) = restore_view s" "restore_view (s\<lparr>ad_ssrfTestResult := v\<rparr>) = restore_view s"
  "restore_view (s\<lparr>ad_restoreConfirmOpen := b\<rparr>) = restore_view s" "restore_view (s\<lparr>ad_settingsForm := form\<rparr>) = restore_view s"
  "restore_view (s\<lparr>ad_downloads := ds\<rparr>) = restore_view s"
  by (simp_all add: restore_view_def detections_def)

lemma restore_view_answers [simp]:
  "restore_view (data_loaded u st q b s) = restore_view s" "restore_view (user_created env user s) = restore_view s"
  "restore_view (settings_saved env fresh s) = restore_view s" "restore_view (ssrf_tested env result s) = restore_view s"
  "restore_view (password_verified env f entry password s) = restore_view s"
  by (simp_all add: data_loaded_def user_created_def settings_saved_def ssrf_tested_def password_verified_def Let_def)
    (simp_all add: restore_view_def detections_def)

lemma restore_view_raw [simp]:
  "restore_view (restore_answered env r s) = restore_view s" "restore_view (backup_downloaded env a p r s) = restore_view s"
  by (cases r; simp add: restore_answered_def backup_downloaded_def)+

lemma admin_answers_tasks [simp]:
  "ad_tasks (adm_notice m s) = ad_tasks s" "ad_tasks (validated b s) = ad_tasks s" "ad_tasks (backups_listed xs s) = ad_tasks s"
  "ad_tasks (change_user i g s) = ad_tasks s" "ad_tasks (data_loaded u st q bts s) = ad_tasks s"
  "ad_tasks (user_created env user s) = ad_tasks s" "ad_tasks (settings_saved env fresh s) = ad_tasks s"
  "ad_tasks (ssrf_tested env result s) = ad_tasks s" "ad_tasks (archive_inspected env f s) = ad_tasks s"
  "ad_tasks (password_verified env f entry password s) = ad_tasks s"
  by (simp_all add: adm_notice_def validated_def backups_listed_def change_user_def data_loaded_def user_created_def
      settings_saved_def ssrf_tested_def archive_inspected_def password_verified_def Let_def)

lemma admin_raw_tasks [simp]:
  "ad_tasks (restore_answered env r s) = ad_tasks s" "ad_tasks (backup_downloaded env a p r s) = ad_tasks s"
  by (cases r; simp add: restore_answered_def backup_downloaded_def)+

lemma restore_view_settle:
  assumes "n < length (ad_tasks s)" and "\<not> is_detecting (ad_tasks s ! n)"
  shows "restore_view (settle_task n s) = restore_view s" "\<not> is_detecting k \<Longrightarrow> restore_view (adm_next n c k s) = restore_view s"
  using assms by (simp_all add: restore_view_def detections_def settle_task_def adm_next_def filter_update_other)

lemma restore_view_resume:
  "n < length (ad_tasks s) \<Longrightarrow> ad_tasks s ! n = k \<Longrightarrow> \<not> is_detecting k \<Longrightarrow> restore_view (admin_resume env n k r s) = restore_view s"
  by (cases k) (simp_all add: restore_view_settle split: admin_reply.split)

lemma inspected_detected:
  assumes "inspected s" and "n < length (ad_tasks s)" and "ad_tasks s ! n = Detecting f"
  shows "inspected (admin_resume env n (Detecting f) r s)"
proof -
  have "Detecting f \<in> set (detections s)" using assms(2,3) by (auto simp: detections_def in_set_conv_nth)
  then obtain k where k: "detections s = [k]"
    using assms(1) by (auto simp: inspected_def restore_view_def split: list.splits)
  then have d: "detections s = [Detecting f]" "filter is_detecting ((ad_tasks s)[n := Settled]) = []"
    using filter_update_only [of is_detecting Settled n "ad_tasks s"] assms(2,3) by (simp_all add: detections_def)
  have chosen: "ad_restoreFile s = Some f" "is_zip_name f" "\<not> ad_restoreEncrypted s" "ad_restoreEncryptedEntry s = None"
    using assms(1) d(1) by (auto simp: inspected_def restore_view_def)
  let ?s = "archive_inspected env f s"
  have "ad_restoreFile ?s = Some f \<and> (ad_restoreEncrypted ?s, ad_restoreEncryptedEntry ?s) = verdict (Some f)"
    using chosen detect_consistent [of "rf_file f"] by (auto simp: archive_inspected_def Let_def verdict_def adm_notice_def)
  then show ?thesis using d(2) by (simp add: inspected_def restore_view_def settle_task_def detections_def)
qed

lemma inspected_choose: "detections s = [] \<Longrightarrow> inspected (handleRestoreFileChange f s)"
  by (cases f) (auto simp: inspected_def restore_view_def handleRestoreFileChange_def detections_def Let_def verdict_def is_zip_name_def)

lemma restore_view_field [simp]: "restore_view (set_admin_field f s) = restore_view s"
  by (cases f) (simp_all add: restore_view_def detections_def)

lemma restore_view_handlers [simp]:
  "restore_view (handleToggleRole user s) = restore_view s" "restore_view (handleToggleStatus user s) = restore_view s"
  "restore_view (handleDeleteUser c i s) = restore_view s" "restore_view (handleSaveSettings s) = restore_view s"
  "restore_view (handleTestSMTP s) = restore_view s" "restore_view (handleRefreshBackgroundTasks s) = restore_view s"
  "restore_view (handleRefreshRates s) = restore_view s" "restore_view (handleDownloadBackup ticket s) = restore_view s"
  "restore_view (handleRefreshLocalBackups s) = restore_view s" "restore_view (handleRunBackupNow s) = restore_view s"
  by (simp_all add: admin_handlers Let_def)

lemma restore_view_guarded [simp]:
  "restore_view (handleCreateUser env s) = restore_view s" "restore_view (handleTestSSRF env s) = restore_view s"
  "restore_view (handleRegistrationEmailVerificationChange env b s) = restore_view s"
  by (simp_all add: handleCreateUser_def handleTestSSRF_def handleRegistrationEmailVerificationChange_def Let_def)

lemma restore_view_restore [simp]: "restore_view (handleRestore ticket s) = restore_view s"
  by (cases "ad_restoreFile s") (simp_all add: handleRestore_def Let_def)

lemma restore_view_task: "\<not> is_detecting k \<Longrightarrow> restore_view (s\<lparr>ad_tasks := ad_tasks s @ [k]\<rparr>) = restore_view s"
  by (simp add: restore_view_def detections_def)

lemma restore_view_validate [simp]: "restore_view (validateRestoreInputs env s) = restore_view s"
proof (cases "ad_restoreFile s")
  case (Some f)
  then show ?thesis
    by (cases "ad_restoreEncryptedEntry s") (simp_all add: validateRestoreInputs_def Let_def restore_view_task)
qed (simp add: validateRestoreInputs_def)

lemma inspected_step:
  assumes "inspected s" and "case e of Choose_restore_file f \<Rightarrow> detections s = [] | _ \<Rightarrow> True"
  shows "inspected (admin_step env s e)"
proof (cases e)
  case (Admin_answer n r)
  show ?thesis
  proof (cases "n < length (ad_tasks s) \<and> is_detecting (ad_tasks s ! n)")
    case True
    then obtain f where "ad_tasks s ! n = Detecting f" by (cases "ad_tasks s ! n") auto
    with True Admin_answer show ?thesis using inspected_detected [OF assms(1)] by simp
  next
    case False
    then have "restore_view (admin_step env s (Admin_answer n r)) = restore_view s"
      using restore_view_resume [of n s] by simp
    then show ?thesis using assms(1) Admin_answer inspected_cong by metis
  qed
next
  case (Choose_restore_file f)
  with assms show ?thesis by (simp add: inspected_choose)
qed (use assms(1) in \<open>simp_all add: inspected_def\<close>)

lemma inspected_run: "calm_run env s es \<Longrightarrow> inspected s \<Longrightarrow> inspected (foldl (admin_step env) s es)"
  by (induction es arbitrary: s) (auto intro: inspected_step)

lemma mount_inspected: "inspected (mount_admin env email)"
  by (simp add: inspected_def restore_view_def mount_admin_def adm_call_def detections_def verdict_def)

text \<open>when every chosen file is inspected before the next one is chosen, the page never mixes files up: with no
  inspection pending, what it says of the chosen file (encrypted or not, and the entry a password is tried
  on) is what the detection of that file says, and while one is pending it says nothing.\<close>

theorem restore_verdict_is_of_the_file:
  assumes "calm_run env (mount_admin env email) es"
    and "s = foldl (admin_step env) (mount_admin env email) es"
  shows "(ad_restoreEncrypted s, ad_restoreEncryptedEntry s) = (if detections s = [] then verdict (ad_restoreFile s) else (False, None))"
proof -
  have "inspected s" unfolding assms(2) by (rule inspected_run [OF assms(1) mount_inspected])
  then show ?thesis by (cases "detections s") (auto simp: inspected_def restore_view_def split: list.splits)
qed

text \<open>Without that order it does: a database that is chosen while an encrypted archive is still inspected
  is then taken for encrypted, and is not accepted without a password.\<close>

lemma stale_inspection_blocks_restore:
  assumes "is_zip_name a" and "encrypted (detectZipEncryption (rf_file a))" and "\<not> is_zip_name b"
    and "s' = foldl (admin_step env) s [Choose_restore_file (Some a), Choose_restore_file (Some b),
      Admin_answer (length (ad_tasks s)) Admin_done, Validate_restore]"
  shows "ad_restoreFile s' = Some b \<and> verdict (Some b) = (False, None) \<and> ad_restoreEncrypted s'
    \<and> ad_validations s' = ad_validations s @ [False]"
  using assms detect_consistent [of "rf_file a"]
  by (auto simp: handleRestoreFileChange_def Let_def is_zip_name_def archive_inspected_def adm_notice_def
      validateRestoreInputs_def validated_def settle_task_def verdict_def trim_def)

lemma restore_run:
  assumes "is_zip_name f" and "detectZipEncryption (rf_file f) = outcome_of True True (Some entry) False"
    and "trim password \<noteq> []" and "n = length (ad_tasks s)"
    and "s' = foldl (admin_step env) s [Choose_restore_file (Some f), Admin_answer n r,
      Admin_field (Restore_password password), Validate_restore, Admin_answer (Suc n) r']"
  shows "ad_validations s' = ad_validations s @
    [\<not> (verified (verifyZipPassword (ae_subtle env) (rf_file f) entry (trim password))
       \<and> \<not> valid (verifyZipPassword (ae_subtle env) (rf_file f) entry (trim password)))]"
  using assms
  by (simp add: handleRestoreFileChange_def Let_def is_zip_name_def archive_inspected_def adm_notice_def outcome_of_def
      validateRestoreInputs_def validated_def settle_task_def password_verified_def nth_append)

text \<open>C34: the whole way of an encrypted backup: a ZIP archive whose first encrypted entry has its local header, salt and
  verification bytes is chosen and inspected, a password is typed and the inputs are validated.  They are
  accepted exactly when the two bytes are those that PBKDF2 derives from the trimmed password, or when the
  derivation fails, which leaves the decision to the server.\<close>

theorem restore_checks_password:
  assumes "archive_ok body es pre comment" and "body = before @ encode_local fixed name extra salt pwv @ rest"
    and "first_encrypted es = Some \<lparr>localHeaderOffset = length before, aesStrength = strength\<rparr>"
    and "keySizeForStrength strength = Some keySize" and "length fixed = 22" and "length name < 65536"
    and "length extra < 65536" and "length salt = keySize div 2" and "length pwv = 2"
    and "is_zip_name f" and "rf_file f = archive body es pre comment"
    and "trim password \<noteq> []" and "ae_subtle env = Some deriveBits" and "n = length (ad_tasks s)"
  shows "ad_validations (foldl (admin_step env) s [Choose_restore_file (Some f), Admin_answer n r,
      Admin_field (Restore_password password), Validate_restore, Admin_answer (Suc n) r']) = ad_validations s @
    [case deriveBits (utf8 (trim password)) salt 1000 ((keySize * 2 + 2) * 8) of
       Inl e \<Rightarrow> True | Inr derived \<Rightarrow> drop (length derived - 2) derived = pwv]"
proof -
  let ?entry = "\<lparr>localHeaderOffset = length before, aesStrength = strength\<rparr>"
  let ?cd = "concat (map encode_entry es)"
  have bytes: "rf_file f = \<lparr>file_bytes = before @ encode_local fixed name extra salt pwv @
      (rest @ ?cd @ encode_eocd pre (length es) (length ?cd) (length body) comment), file_readable = True\<rparr>"
    unfolding assms(11) archive_def Let_def by (simp add: assms(2))
  have d: "detectZipEncryption (rf_file f) = outcome_of True True (Some ?entry) False"
    unfolding assms(11) detects_archive [OF assms(1)] assms(3) by simp
  have "verifyZipPassword (ae_subtle env) (rf_file f) ?entry (trim password) =
      (case deriveBits (utf8 (trim password)) salt 1000 ((keySize * 2 + 2) * 8) of
         Inl e \<Rightarrow> not_verified | Inr derived \<Rightarrow> \<lparr>verified = True, valid = (drop (length derived - 2) derived = pwv)\<rparr>)"
    unfolding assms(13) by (rule conjunct1 [OF verifies_entry [OF assms(4-9) bytes refl]])
  then show ?thesis
    using restore_run [OF assms(10) d assms(12,14) refl, of env r r'] by (simp add: not_verified_def split: sum.split)
qed

definition backup_file :: RestoreFile where
  "backup_file = \<lparr>rf_name = ''Backup.ZIP'',
     rf_file = archive ([] @ encode_local (replicate 22 0) [97] [] (replicate 16 5) [7, 8] @ []) [sample_entry] (replicate 6 0) []\<rparr>"

definition example_admin_env :: AdminEnv where
  "example_admin_env = \<lparr>ae_t = \<lambda>k. k, ae_subtle = Some (\<lambda>pw salt i n. Inr (pw @ [7, 9])), ae_today = ''2026-01-31''\<rparr>"

lemma backup_archive:
  "archive_ok ([] @ encode_local (replicate 22 0) [97] [] (replicate 16 5) [7, 8] @ []) [sample_entry] (replicate 6 0) []"
  "first_encrypted [sample_entry] = Some \<lparr>localHeaderOffset = length ([] :: bytes), aesStrength = 3\<rparr>"
proof -
  have e: "entry_ok sample_entry"
    by (simp add: entry_ok_def sample_entry_def extra_ok_def encode_extra_def)
  have "length (encode_entry sample_entry) = 46 + 1 + 11"
    using length_encode_entry [OF e] by (simp add: sample_entry_def encode_extra_def)
  then show "archive_ok ([] @ encode_local (replicate 22 0) [97] [] (replicate 16 5) [7, 8] @ []) [sample_entry] (replicate 6 0) []"
    using e by (simp add: archive_ok_def encode_local_def)
  show "first_encrypted [sample_entry] = Some \<lparr>localHeaderOffset = length ([] :: bytes), aesStrength = 3\<rparr>"
    by (simp add: sample_entry_def aes_strength_of_def AES_EXTRA_FIELD_ID_def)
qed

lemma backup_file_zip: "is_zip_name backup_file"
proof -
  have "endsWith (toLowerCase ''Backup.ZIP'') ''.zip''" by code_simp
  then show ?thesis by (simp only: is_zip_name_def backup_file_def RestoreFile.simps)
qed

lemma backup_file_verdict: "verdict (Some backup_file) = (True, Some \<lparr>localHeaderOffset = 0, aesStrength = 3\<rparr>)"
  using detects_archive [OF backup_archive(1)] backup_archive(2) backup_file_zip
  by (simp add: verdict_def backup_file_def outcome_of_def)

theorem restore_checks_password_witness:
  "ad_validations (foldl (admin_step example_admin_env) (mount_admin example_admin_env [])
     [Choose_restore_file (Some backup_file), Admin_answer 2 Admin_done,
      Admin_field (Restore_password '' secret ''), Validate_restore, Admin_answer (Suc 2) Admin_done]) = [False]"
proof -
  have trimmed: "trim '' secret '' = ''secret''" by code_simp
  have none: "ad_validations (mount_admin example_admin_env []) = []" "2 = length (ad_tasks (mount_admin example_admin_env []))"
    by (simp_all add: mount_admin_def adm_call_def)
  note checked = restore_checks_password [where deriveBits = "\<lambda>pw salt i n. Inr (pw @ [7, 9])" and env = example_admin_env
      and keySize = 32 and f = backup_file and r = Admin_done and r' = Admin_done and password = "'' secret ''",
      OF backup_archive(1) refl backup_archive(2) _ _ _ _ _ _ backup_file_zip _ _ _ none(2)]
  have sizes: "keySizeForStrength 3 = Some 32" "length (replicate 22 (0 :: 8 word)) = 22" "length [97 :: 8 word] < 65536"
    "length ([] :: bytes) < 65536" "length (replicate 16 (5 :: 8 word)) = 32 div 2" "length [7, 8 :: 8 word] = 2"
    by (simp_all add: keySizeForStrength_def)
  have rest: "rf_file backup_file = archive ([] @ encode_local (replicate 22 0) [97] [] (replicate 16 5) [7, 8] @ []) [sample_entry] (replicate 6 0) []"
    "trim '' secret '' \<noteq> []" "ae_subtle example_admin_env = Some (\<lambda>pw salt i n. Inr (pw @ [7, 9]))"
    by (simp_all only: backup_file_def RestoreFile.simps trimmed example_admin_env_def AdminEnv.simps) simp
  show ?thesis
    using checked [OF sizes rest] by (simp only: none(1)) simp
qed

theorem restore_verdict_is_of_the_file_witness:
  "(ad_restoreEncrypted (foldl (admin_step example_admin_env) (mount_admin example_admin_env [])
      [Choose_restore_file (Some backup_file), Admin_answer 2 Admin_done]),
    ad_restoreEncryptedEntry (foldl (admin_step example_admin_env) (mount_admin example_admin_env [])
      [Choose_restore_file (Some backup_file), Admin_answer 2 Admin_done]))
   = (True, Some \<lparr>localHeaderOffset = 0, aesStrength = 3\<rparr>)"
proof -
  let ?es = "[Choose_restore_file (Some backup_file), Admin_answer 2 Admin_done]"
  have tasks: "ad_tasks (mount_admin example_admin_env []) = [Loading_data, Loading_backups]"
    by (simp add: mount_admin_def adm_call_def)
  have calm: "calm_run example_admin_env (mount_admin example_admin_env []) ?es"
    by (simp add: detections_def tasks)
  let ?s = "foldl (admin_step example_admin_env) (mount_admin example_admin_env []) ?es"
  have "ad_restoreFile ?s = Some backup_file" "detections ?s = []"
    using backup_file_zip by (simp_all add: handleRestoreFileChange_def is_zip_name_def tasks settle_task_def
        archive_inspected_def Let_def adm_notice_def detections_def)
  then show ?thesis
    using restore_verdict_is_of_the_file [OF calm refl] backup_file_verdict by simp
qed

end
