(* ===== verification/Requests.thy ===== *)
theory Requests
  imports Interfaces Reorder
begin

text \<open>
  What the sections of the settings page share: a request is recorded when it is sent, in \<open>sc_sent\<close>, and
  stays in \<open>sc_open\<close> until its answer, an event, takes it out; \<open>sc_notices\<close> are the toasts shown.  The
  continuation of a request is part of the request, as the closure of its handler keeps it.
\<close>

datatype toast_note = Toast_error string | Toast_success string

record 'c Section =
  sc_open :: "'c list"
  sc_sent :: "'c list"
  sc_notices :: "toast_note list"

definition send :: "'c \<Rightarrow> ('c, 'm) Section_scheme \<Rightarrow> ('c, 'm) Section_scheme" where
  "send c s = s\<lparr>sc_open := sc_open s @ [c], sc_sent := sc_sent s @ [c]\<rparr>"

definition notify :: "toast_note \<Rightarrow> ('c, 'm) Section_scheme \<Rightarrow> ('c, 'm) Section_scheme" where
  "notify n s = s\<lparr>sc_notices := sc_notices s @ [n]\<rparr>"

text \<open>The answer to the \<open>n\<close>th open request, handed to the continuation \<open>f\<close>.\<close>

definition answer ::
  "('c \<Rightarrow> ('c, 'm) Section_scheme \<Rightarrow> ('c, 'm) Section_scheme) \<Rightarrow> nat \<Rightarrow> ('c, 'm) Section_scheme \<Rightarrow> ('c, 'm) Section_scheme" where
  "answer f n s = (if n < length (sc_open s) then f (sc_open s ! n) (s\<lparr>sc_open := without n (sc_open s)\<rparr>) else s)"

lemma section_simps [simp]:
  "sc_open (send c s) = sc_open s @ [c]" "sc_sent (send c s) = sc_sent s @ [c]" "sc_notices (send c s) = sc_notices s"
  "sc_open (notify m s) = sc_open s" "sc_sent (notify m s) = sc_sent s" "sc_notices (notify m s) = sc_notices s @ [m]"
  by (simp_all add: send_def notify_def)

lemmas request_defs = send_def notify_def

lemma answer_cases:
  assumes "P s" and "\<And>c. n < length (sc_open s) \<Longrightarrow> c = sc_open s ! n \<Longrightarrow> P (f c (s\<lparr>sc_open := without n (sc_open s)\<rparr>))"
  shows "P (answer f n s)"
  using assms by (simp add: answer_def)

text \<open>How many open requests are of a kind.\<close>

definition open_of :: "('c \<Rightarrow> bool) \<Rightarrow> ('c, 'm) Section_scheme \<Rightarrow> nat" where
  "open_of p s = length (filter p (sc_open s))"

lemma without_filter:
  "n < length xs \<Longrightarrow> length (filter p (without n xs)) = length (filter p xs) - (if p (xs ! n) then 1 else 0)"
proof -
  assume n: "n < length xs"
  have "filter p xs = filter p (take n xs) @ filter p (xs ! n # drop (Suc n) xs)"
    using id_take_nth_drop [OF n] by (metis filter_append)
  then show ?thesis by (simp add: without_def)
qed

lemma filter_has: "n < length xs \<Longrightarrow> p (xs ! n) \<Longrightarrow> 1 \<le> length (filter p xs)"
  by (metis (mono_tags, lifting) One_nat_def Suc_leI filter_empty_conv length_greater_0_conv nth_mem)

lemma open_of_simps [simp]:
  "open_of p (send c s) = open_of p s + (if p c then 1 else 0)" "open_of p (notify m s) = open_of p s"
  "n < length (sc_open s) \<Longrightarrow> open_of p (s\<lparr>sc_open := without n (sc_open s)\<rparr>) = open_of p s - (if p (sc_open s ! n) then 1 else 0)"
  by (simp_all add: open_of_def without_filter)

lemma open_of_positive: "n < length (sc_open s) \<Longrightarrow> p (sc_open s ! n) \<Longrightarrow> 1 \<le> open_of p s"
  unfolding open_of_def by (rule filter_has)

end
