(* ===== verification/JsonPretty.thy ===== *)
theory JsonPretty
  imports Json
begin

text \<open>
  \<open>JSON.stringify(value, null, 2)\<close>, with the proof that \<open>JSON.parse\<close> reads it back.  The first argument of
  \<open>json_pretty\<close> is the indentation of the line that the value begins on.
\<close>

definition newline :: string where
  "newline = [CHR 0x0A]"

fun json_pretty :: "string \<Rightarrow> json \<Rightarrow> string" where
  "json_pretty ind (JArr xs) =
     (if xs = [] then ''[]''
      else ''['' @ newline @ ind @ ''  '' @ join ('','' @ newline @ ind @ ''  '') (map (json_pretty (ind @ ''  '')) xs) @ newline @ ind @ '']'')"
| "json_pretty ind (JObj kvs) =
     (if kvs = [] then ''{}''
      else ''{'' @ newline @ ind @ ''  ''
        @ join ('','' @ newline @ ind @ ''  '') (map (\<lambda>(k, v). quote k @ '': '' @ json_pretty (ind @ ''  '') v) kvs) @ newline @ ind @ ''}'')"
| "json_pretty ind j = json_stringify j"

abbreviation blank :: "string \<Rightarrow> bool" where
  "blank w \<equiv> list_all json_ws w"

lemma blank_simps [simp]: "blank newline" "json_ws (CHR '' '')" "json_ws (CHR 0x0A)"
  by (simp_all add: newline_def json_ws_def code_def)

lemma skip_blank [simp]: "blank w \<Longrightarrow> skip_ws (w @ s) = skip_ws s"
  unfolding skip_ws_def by (induction w) simp_all

lemma p_val_blank [simp]: "blank w \<Longrightarrow> p_val n (w @ s) = p_val n s"
  by (cases n) simp_all

lemma p_elems_blank [simp]: "blank w \<Longrightarrow> p_elems n (w @ s) = p_elems n s"
  by (cases n) simp_all

lemma p_members_blank [simp]: "blank w \<Longrightarrow> p_members n (w @ s) = p_members n s"
  by (cases n) simp_all

text \<open>Elements and members with white space between them.\<close>

lemma p_elems_spaced:
  assumes "xs \<noteq> []" and "length (join ('','' @ w) (map f xs)) < n" and "blank w" and "blank e" and "sep_ok (e @ CHR '']'' # r)"
    and "\<And>x m u. x \<in> set xs \<Longrightarrow> length (f x) \<le> m \<Longrightarrow> sep_ok u \<Longrightarrow> p_val m (f x @ u) = Some (x, u)"
  shows "p_elems n (join ('','' @ w) (map f xs) @ e @ CHR '']'' # r) = Some (xs, r)"
  using assms
proof (induction xs arbitrary: n)
  case Nil
  then show ?case by simp
next
  case (Cons x xs)
  then obtain m where n: "n = Suc m" by (cases n) auto
  show ?case
  proof (cases xs)
    case Nil
    with Cons.prems n show ?thesis by simp
  next
    case (Cons y ys)
    have "length (join ('','' @ w) (map f xs)) < m" using Cons.prems(2) Cons n by simp
    then have "p_elems m (join ('','' @ w) (map f xs) @ e @ CHR '']'' # r) = Some (xs, r)"
      using Cons.IH [of m] Cons.prems Cons by simp
    moreover have "length (f x) \<le> m" using Cons.prems(2) Cons n by simp
    ultimately show ?thesis using Cons.prems(6) [of x m] Cons.prems(3) Cons n by (simp add: sep_ok_def)
  qed
qed

definition spaced_member :: "(json \<Rightarrow> string) \<Rightarrow> string \<times> json \<Rightarrow> string" where
  "spaced_member f = (\<lambda>(k, v). quote k @ '': '' @ f v)"

lemma p_members_spaced:
  assumes "kvs \<noteq> []" and "length (join ('','' @ w) (map (spaced_member f) kvs)) < n"
    and "blank w" and "blank e" and "sep_ok (e @ CHR ''}'' # r)"
    and "\<And>k v m u. (k, v) \<in> set kvs \<Longrightarrow> length (f v) \<le> m \<Longrightarrow> sep_ok u \<Longrightarrow> p_val m (f v @ u) = Some (v, u)"
  shows "p_members n (join ('','' @ w) (map (spaced_member f) kvs) @ e @ CHR ''}'' # r) = Some (kvs, r)"
  using assms
proof (induction kvs arbitrary: n)
  case Nil
  then show ?case by simp
next
  case (Cons kv kvs)
  obtain k v where kv: "kv = (k, v)" by (cases kv)
  obtain m where n: "n = Suc m" using Cons.prems(2) by (cases n) auto
  have v: "p_val m (CHR '' '' # f v @ u) = Some (v, u)" if "sep_ok u" for u
  proof -
    have "length (f v) \<le> m" using Cons.prems(2) kv n by (cases kvs) (simp_all add: spaced_member_def)
    then have "p_val m (f v @ u) = Some (v, u)" using Cons.prems(6) [of k v m u] kv that by simp
    then show ?thesis using p_val_blank [of "[CHR '' '']" m "f v @ u"] by simp
  qed
  show ?case
  proof (cases kvs)
    case Nil
    with kv n v Cons.prems(4,5) show ?thesis by (simp add: spaced_member_def quote_append p_chars_quoted)
  next
    case (Cons y ys)
    have "length (join ('','' @ w) (map (spaced_member f) kvs)) < m"
      using Cons.prems(2) Cons n by simp
    then have "p_members m (join ('','' @ w) (map (spaced_member f) kvs) @ e @ CHR ''}'' # r) = Some (kvs, r)"
    proof (rule Cons.IH [rotated])
      fix k v i u
      assume "(k, v) \<in> set kvs" "length (f v) \<le> i" "sep_ok u"
      then show "p_val i (f v @ u) = Some (v, u)" by (intro Cons.prems(6) [of k]) simp_all
    qed (use Cons Cons.prems in simp_all)
    then show ?thesis using kv n v Cons Cons.prems(3)
      by (simp add: spaced_member_def quote_append p_chars_quoted sep_ok_def)
  qed
qed

lemma p_val_array:
  "skip_ws r = c # u \<Longrightarrow> c \<noteq> CHR '']'' \<Longrightarrow> p_elems n r = Some (xs, rest) \<Longrightarrow> p_val (Suc n) (CHR ''['' # r) = Some (JArr xs, rest)"
  by simp

lemma p_val_object:
  "skip_ws r = c # u \<Longrightarrow> c \<noteq> CHR ''}'' \<Longrightarrow> p_members n r = Some (kvs, rest) \<Longrightarrow> p_val (Suc n) (CHR ''{'' # r) = Some (JObj (obj_of kvs), rest)"
  by simp

lemma pretty_first:
  assumes "json_ok j"
  obtains c u where "json_pretty ind j = c # u" "\<not> json_ws c" "c \<noteq> CHR '']''" "c \<noteq> CHR ''}''"
proof -
  obtain c u where first: "json_stringify j = c # u" "\<not> json_ws c" "c \<noteq> CHR '']''" "c \<noteq> CHR ''}''"
    using assms by (rule stringify_first)
  have "\<exists>v. json_pretty ind j = c # v"
    using first(1) by (cases j) (simp_all split: if_splits)
  then show ?thesis using first that by blast
qed

lemma p_val_pretty:
  "json_ok j \<Longrightarrow> length (json_pretty ind j) \<le> n \<Longrightarrow> sep_ok r \<Longrightarrow> blank ind \<Longrightarrow>
   p_val n (json_pretty ind j @ r) = Some (j, r)"
proof (induction ind j arbitrary: n r rule: json_pretty.induct)
  case (1 ind xs)
  then obtain m where n: "n = Suc m" by (cases n) (auto split: if_splits)
  show ?case
  proof (cases "xs = []")
    case True
    with n show ?thesis by simp
  next
    case False
    let ?w = "newline @ ind @ ''  ''" and ?f = "json_pretty (ind @ ''  '')"
    have "p_elems m (join ('','' @ ?w) (map ?f xs) @ (newline @ ind) @ CHR '']'' # r) = Some (xs, r)"
    proof (rule p_elems_spaced)
      fix x i u
      assume "x \<in> set xs" "length (?f x) \<le> i" "sep_ok u"
      then show "p_val i (?f x @ u) = Some (x, u)" using 1(2,5) by (intro 1(1) False) (simp_all add: list_all_iff)
    qed (use 1 n False in \<open>simp_all add: sep_ok_def newline_def\<close>)
    then have "p_elems m (?w @ join ('','' @ ?w) (map ?f xs) @ (newline @ ind) @ CHR '']'' # r) = Some (xs, r)"
      using p_elems_blank [of ?w m] 1(5) by simp
    moreover obtain c u where "join ('','' @ ?w) (map ?f xs) = c # u" "\<not> json_ws c" "c \<noteq> CHR '']''"
    proof -
      from False 1(2) have "json_ok (hd xs)" by (cases xs) simp_all
      then obtain c u where "?f (hd xs) = c # u" "\<not> json_ws c" "c \<noteq> CHR '']''" by (rule pretty_first)
      then show ?thesis using that False by (cases xs rule: list.exhaust; cases "tl xs") auto
    qed
    then have "skip_ws (?w @ join ('','' @ ?w) (map ?f xs) @ (newline @ ind) @ CHR '']'' # r) = c # u @ (newline @ ind) @ CHR '']'' # r"
      using skip_blank [of ?w] 1(5) by simp
    ultimately show ?thesis unfolding n using p_val_array [of _ c] False \<open>c \<noteq> CHR '']''\<close> by simp

  qed
next
  case (2 ind kvs)
  then obtain m where n: "n = Suc m" by (cases n) (auto split: if_splits)
  show ?case
  proof (cases "kvs = []")
    case True
    with n show ?thesis by simp
  next
    case False
    let ?w = "newline @ ind @ ''  ''" and ?f = "json_pretty (ind @ ''  '')"
    have t: "json_pretty ind (JObj kvs) = CHR ''{'' # ?w @ join ('','' @ ?w) (map (spaced_member ?f) kvs) @ (newline @ ind) @ ''}''"
      using False by (simp add: spaced_member_def)
    have "p_members m (join ('','' @ ?w) (map (spaced_member ?f) kvs) @ (newline @ ind) @ CHR ''}'' # r) = Some (kvs, r)"
    proof (rule p_members_spaced)
      fix k v i u
      assume "(k, v) \<in> set kvs" "length (?f v) \<le> i" "sep_ok u"
      then show "p_val i (?f v @ u) = Some (v, u)" using 2(2,5) by (intro 2(1) False) (auto simp: list_all_iff)
    qed (use 2 n False t in \<open>simp_all add: sep_ok_def newline_def\<close>)
    moreover obtain u' where "join ('','' @ ?w) (map (spaced_member ?f) kvs) = CHR 0x22 # u'"
      using False by (cases kvs; cases "tl kvs") (auto simp: spaced_member_def quote_def)
    moreover have "obj_of kvs = kvs" using 2(2) by (simp add: obj_of_distinct)
    moreover have "p_members m (?w @ join ('','' @ ?w) (map (spaced_member ?f) kvs) @ (newline @ ind) @ CHR ''}'' # r) = Some (kvs, r)"
      using calculation(1) p_members_blank [of ?w m] 2(5) by simp
    moreover have "skip_ws (?w @ join ('','' @ ?w) (map (spaced_member ?f) kvs) @ (newline @ ind) @ CHR ''}'' # r)
        = CHR 0x22 # u' @ (newline @ ind) @ CHR ''}'' # r"
      using calculation(2) skip_blank [of ?w] 2(5) by simp
    ultimately show ?thesis unfolding t n using p_val_object [of _ "CHR 0x22"] by simp
  qed
qed (simp_all only: json_pretty.simps p_val_stringify)


lemma json_parse_pretty: "json_ok j \<Longrightarrow> json_parse (json_pretty [] j) = Some j"
  using p_val_pretty [of j "[]" "Suc (length (json_pretty [] j))" "[]"]
  by (simp add: json_parse_def sep_ok_def skip_ws_def del: p_val.simps)

interpretation pretty_text: codec "json_pretty []" json_parse json_ok
  by unfold_locales (rule json_parse_pretty)

end
