(* ===== verification/ApiKeys.thy ===== *)
theory ApiKeys
  imports Requests JsonPretty Types
begin

text \<open>
  The API keys on the settings page, \<open>web/src/features/settings/settings-apikey-tab.tsx\<close>.  The text of a
  new key is in the page only as \<open>newKey\<close>; \<open>key_copies\<close> are the texts handed to the clipboard.  The
  events are what is done on what is rendered at that moment, and the answers of the server in any order.
\<close>

datatype KeyKind = Mcp_client | Api_integration

datatype ScopeMode = Read | Read_write

record APIKey =
  ak_id :: int
  ak_name :: string
  ak_prefix :: string
  ak_key_kind :: KeyKind
  ak_scopes :: "string list"
  ak_last_used_at :: "string option"
  ak_expires_at :: "string option"
  ak_created_at :: string

record CreateAPIKeyInput =
  cak_name :: string
  cak_key_kind :: KeyKind
  cak_scopes :: "string list"

record CreateAPIKeyResponse =
  car_key :: string
  car_api_key :: APIKey

datatype key_call = Get_keys | Get_site_info | Post_key CreateAPIKeyInput | Delete_key int

datatype key_reply = Key_failed | Key_list "APIKey list" | Site_info "bool option" | Key_created CreateAPIKeyResponse | Key_deleted

record ApiKeysState = "key_call Section" +
  keys :: "APIKey list"
  keys_loading :: bool
  createOpen :: bool
  key_name :: string
  keyKind :: KeyKind
  scopeMode :: ScopeMode
  creating :: bool
  newKey :: "string option"
  newKeyKind :: KeyKind
  deletingId :: "int option"
  mcpEnabled :: bool
  tab_active :: bool
  key_copies :: "string list"

definition loadKeys :: "ApiKeysState \<Rightarrow> ApiKeysState" where
  "loadKeys s = send Get_keys (s\<lparr>keys_loading := True\<rparr>)"

definition active_effect :: "ApiKeysState \<Rightarrow> ApiKeysState" where
  "active_effect s = (if tab_active s then send Get_site_info (loadKeys s) else s)"

definition mount_api_keys :: "bool \<Rightarrow> ApiKeysState" where
  "mount_api_keys active = active_effect
     \<lparr>sc_open = [], sc_sent = [], sc_notices = [], keys = [], keys_loading = False, createOpen = False, key_name = [],
      keyKind = Mcp_client, scopeMode = Read, creating = False, newKey = None, newKeyKind = Mcp_client, deletingId = None,
      mcpEnabled = False, tab_active = active, key_copies = []\<rparr>"

definition set_active :: "bool \<Rightarrow> ApiKeysState \<Rightarrow> ApiKeysState" where
  "set_active v s = (if v = tab_active s then s else active_effect (s\<lparr>tab_active := v\<rparr>))"

definition scopes_of :: "ScopeMode \<Rightarrow> string list" where
  "scopes_of m = (if m = Read_write then [''read'', ''write''] else [''read''])"

definition handleCreate :: "ApiKeysState \<Rightarrow> ApiKeysState" where
  "handleCreate s =
     (if trim (key_name s) = [] then s
      else send (Post_key \<lparr>cak_name = trim (key_name s), cak_key_kind = keyKind s, cak_scopes = scopes_of (scopeMode s)\<rparr>)
        (s\<lparr>creating := True\<rparr>))"

definition handleDelete :: "bool \<Rightarrow> int \<Rightarrow> ApiKeysState \<Rightarrow> ApiKeysState" where
  "handleDelete confirmed i s = (if \<not> confirmed then s else send (Delete_key i) (s\<lparr>deletingId := Some i\<rparr>))"

definition handleCopy :: "string \<Rightarrow> ApiKeysState \<Rightarrow> ApiKeysState" where
  "handleCopy txt s = s\<lparr>key_copies := key_copies s @ [txt]\<rparr>"

definition handleDialogClose :: "bool \<Rightarrow> ApiKeysState \<Rightarrow> ApiKeysState" where
  "handleDialogClose v s =
     (let s = s\<lparr>createOpen := v\<rparr> in
      if v then s
      else s\<lparr>newKey := None, key_name := [], keyKind := Mcp_client, scopeMode := Read, newKeyKind := Mcp_client\<rparr>)"

text \<open>\<open>formatDate\<close>: \<open>show_day\<close> is the date in the format of the browser.\<close>

definition formatDate :: "(string \<Rightarrow> string) \<Rightarrow> (string \<Rightarrow> string) \<Rightarrow> string option \<Rightarrow> string" where
  "formatDate t show_day v = (if truthy_str v then show_day (the v) else t ''settings.apiKeys.never'')"

definition mcp_servers :: "string \<Rightarrow> string \<Rightarrow> json" where
  "mcp_servers origin key =
     JObj [(''mcpServers'', JObj [(''subdux'', JObj
       [(''type'', JStr ''http''), (''url'', JStr (origin @ ''/mcp'')),
        (''headers'', JObj [(''X-API-Key'', JStr key), (''Content-Type'', JStr ''application/json''),
           (''Accept'', JStr ''application/json'')])])])]"

definition getMCPConfig :: "string \<Rightarrow> string \<Rightarrow> string" where
  "getMCPConfig origin key = json_pretty [] (mcp_servers origin key)"

definition formatKind :: "(string \<Rightarrow> string) \<Rightarrow> KeyKind \<Rightarrow> string" where
  "formatKind t kind = (if kind = Mcp_client then t ''settings.apiKeys.kindMCP'' else t ''settings.apiKeys.kindAPI'')"

definition formatScopes :: "(string \<Rightarrow> string) \<Rightarrow> string list \<Rightarrow> string" where
  "formatScopes t scopes =
     (if ''write'' \<in> set scopes then t ''settings.apiKeys.scopeReadWrite'' else t ''settings.apiKeys.scopeReadOnly'')"

fun key_answered :: "key_reply \<Rightarrow> key_call \<Rightarrow> ApiKeysState \<Rightarrow> ApiKeysState" where
  "key_answered (Key_list xs) Get_keys s = s\<lparr>keys := xs, keys_loading := False\<rparr>"
| "key_answered r Get_keys s = s\<lparr>keys_loading := False\<rparr>"
| "key_answered (Site_info v) Get_site_info s = s\<lparr>mcpEnabled := nullish v False\<rparr>"
| "key_answered r Get_site_info s = s\<lparr>mcpEnabled := False\<rparr>"
| "key_answered (Key_created resp) (Post_key input) s =
     s\<lparr>newKey := Some (car_key resp), newKeyKind := ak_key_kind (car_api_key resp), keys := car_api_key resp # keys s,
       key_name := [], creating := False\<rparr>"
| "key_answered r (Post_key input) s = s\<lparr>creating := False\<rparr>"
| "key_answered Key_deleted (Delete_key i) s = s\<lparr>keys := filter (\<lambda>k. ak_id k \<noteq> i) (keys s), deletingId := None\<rparr>"
| "key_answered r (Delete_key i) s = s\<lparr>deletingId := None\<rparr>"

text \<open>The key that is shown: an empty one counts as none.\<close>

definition shown_key :: "ApiKeysState \<Rightarrow> string option" where
  "shown_key s = (if createOpen s \<and> truthy_str (newKey s) then newKey s else None)"

definition key_form :: "ApiKeysState \<Rightarrow> bool" where
  "key_form s \<longleftrightarrow> createOpen s \<and> \<not> truthy_str (newKey s)"

datatype key_event =
    Key_answer nat key_reply
  | Tab_active bool
  | Dialog_change bool
  | Name_typed string
  | Kind_chosen KeyKind
  | Scope_chosen ScopeMode
  | Create_submitted
  | Delete_pressed bool int
  | Key_copy
  | Config_copy

fun key_step :: "string \<Rightarrow> ApiKeysState \<Rightarrow> key_event \<Rightarrow> ApiKeysState" where
  "key_step origin s (Key_answer n r) = answer (key_answered r) n s"
| "key_step origin s (Tab_active v) = set_active v s"
| "key_step origin s (Dialog_change v) = handleDialogClose v s"
| "key_step origin s (Name_typed v) = (if key_form s \<and> length v \<le> 100 then s\<lparr>key_name := v\<rparr> else s)"
| "key_step origin s (Kind_chosen v) = (if key_form s then s\<lparr>keyKind := v\<rparr> else s)"
| "key_step origin s (Scope_chosen v) = (if key_form s then s\<lparr>scopeMode := v\<rparr> else s)"
| "key_step origin s Create_submitted =
     (if key_form s \<and> \<not> (creating s \<or> trim (key_name s) = []) then handleCreate s else s)"
| "key_step origin s (Delete_pressed confirmed i) =
     (if i \<in> ak_id ` set (keys s) \<and> deletingId s \<noteq> Some i then handleDelete confirmed i s else s)"
| "key_step origin s Key_copy = (case shown_key s of Some k \<Rightarrow> handleCopy k s | None \<Rightarrow> s)"
| "key_step origin s Config_copy =
     (case shown_key s of Some k \<Rightarrow> if newKeyKind s = Mcp_client \<and> mcpEnabled s then handleCopy (getMCPConfig origin k) s else s
      | None \<Rightarrow> s)"

lemmas key_defs = loadKeys_def active_effect_def set_active_def handleCreate_def handleDelete_def handleCopy_def handleDialogClose_def
  request_defs

subsection \<open>The configuration\<close>

definition json_path :: "string list \<Rightarrow> json \<Rightarrow> json option" where
  "json_path ks j = foldl (\<lambda>v k. Option.bind v (\<lambda>x. json_get x k)) (Some j) ks"

text \<open>the configuration that the page offers for a new key is the JSON text of a server at the address of this
  installation, and the header of its requests is the key, whatever characters the key and the address have.\<close>

theorem mcp_config_carries_key:
  "\<exists>j. json_parse (getMCPConfig origin key) = Some j
     \<and> json_path [''mcpServers'', ''subdux'', ''url''] j = Some (JStr (origin @ ''/mcp''))
     \<and> json_path [''mcpServers'', ''subdux'', ''headers'', ''X-API-Key''] j = Some (JStr key)"
proof -
  have "json_ok (mcp_servers origin key)" by (simp add: mcp_servers_def)
  then have "json_parse (getMCPConfig origin key) = Some (mcp_servers origin key)"
    unfolding getMCPConfig_def by (rule json_parse_pretty)
  then show ?thesis by (simp add: json_path_def mcp_servers_def)
qed

text \<open>The permissions that are asked for are shown as they were chosen.\<close>

lemma scopes_shown:
  "formatScopes t (scopes_of m) = (if m = Read_write then t ''settings.apiKeys.scopeReadWrite'' else t ''settings.apiKeys.scopeReadOnly'')"
  by (simp add: formatScopes_def scopes_of_def)

subsection \<open>The requests\<close>

definition is_post :: "key_call \<Rightarrow> bool" where
  "is_post c \<longleftrightarrow> (case c of Post_key input \<Rightarrow> True | _ \<Rightarrow> False)"

fun key_call_ok :: "key_call \<Rightarrow> bool" where
  "key_call_ok (Post_key input) \<longleftrightarrow> cak_name input \<noteq> [] \<and> trim (cak_name input) = cak_name input
     \<and> length (cak_name input) \<le> 100 \<and> ''read'' \<in> set (cak_scopes input)"
| "key_call_ok c \<longleftrightarrow> True"

definition api_keys_ok :: "ApiKeysState \<Rightarrow> bool" where
  "api_keys_ok s \<longleftrightarrow> length (key_name s) \<le> 100 \<and> list_all key_call_ok (sc_sent s) \<and> open_of is_post s = (if creating s then 1 else 0)"

lemma is_post_simps [simp]: "\<not> is_post Get_keys" "\<not> is_post Get_site_info" "is_post (Post_key input)" "\<not> is_post (Delete_key i)"
  by (simp_all add: is_post_def)

lemma keys_loaded_ok: "api_keys_ok s \<Longrightarrow> api_keys_ok (active_effect s)"
  by (auto simp: api_keys_ok_def key_defs open_of_def split: if_splits)

lemma key_answered_ok:
  assumes ok: "api_keys_ok s" and n: "n < length (sc_open s)"
  shows "api_keys_ok (key_answered r (sc_open s ! n) (s\<lparr>sc_open := without n (sc_open s)\<rparr>))"
proof -
  have "is_post (sc_open s ! n) \<Longrightarrow> creating s"
    using ok open_of_positive [OF n, of is_post] by (auto simp: api_keys_ok_def split: if_splits)
  then show ?thesis
    using ok n by (cases "sc_open s ! n"; cases r) (simp_all add: api_keys_ok_def open_of_def without_filter)
qed

lemma key_step_ok: "api_keys_ok s \<Longrightarrow> api_keys_ok (key_step origin s e)"
proof (cases e)
  case (Key_answer n r)
  assume "api_keys_ok s"
  then show ?thesis using Key_answer key_answered_ok [of s n r] by (simp add: answer_def)
next
  case (Tab_active v)
  assume "api_keys_ok s"
  then have "api_keys_ok (active_effect (s\<lparr>tab_active := w\<rparr>))" for w
    by (intro keys_loaded_ok) (simp add: api_keys_ok_def open_of_def)
  then show ?thesis using Tab_active \<open>api_keys_ok s\<close> by (simp add: set_active_def)
next
  case Create_submitted
  assume "api_keys_ok s"
  moreover have "length (trim (key_name s)) \<le> length (key_name s)"
    unfolding trim_def trimStart_def by (metis length_dropWhile_le length_rev order_trans)
  ultimately show ?thesis using Create_submitted
    by (auto simp: api_keys_ok_def handleCreate_def scopes_of_def request_defs open_of_def)
qed (auto simp: api_keys_ok_def key_defs open_of_def Let_def split: option.split)

interpretation api_keys: event_machine "key_step origin" api_keys_ok for origin
  by unfold_locales (rule key_step_ok)

lemma mount_api_keys_ok: "api_keys_ok (mount_api_keys active)"
  unfolding mount_api_keys_def by (rule keys_loaded_ok) (simp add: api_keys_ok_def open_of_def)

lemma key_requests:
  "list_all key_call_ok (sc_sent (foldl (key_step origin) (mount_api_keys active) es))
   \<and> open_of is_post (foldl (key_step origin) (mount_api_keys active) es) \<le> 1"
proof -
  have "api_keys_ok (foldl (key_step origin) (mount_api_keys active) es)" by (rule api_keys.run_inv [OF mount_api_keys_ok])
  then show ?thesis by (simp add: api_keys_ok_def)
qed

subsection \<open>The text of a new key\<close>

definition brings :: "string \<Rightarrow> key_event \<Rightarrow> bool" where
  "brings k e \<longleftrightarrow> (case e of Key_answer n (Key_created resp) \<Rightarrow> car_key resp = k | _ \<Rightarrow> False)"

lemma step_newKey:
  "newKey (key_step origin s e) = Some k \<Longrightarrow> brings k e \<or> newKey s = Some k \<and> e \<noteq> Dialog_change False"
proof (cases e)
  case (Key_answer n r)
  assume "newKey (key_step origin s e) = Some k"
  then show ?thesis
    using Key_answer by (cases "sc_open s ! n"; cases r) (auto simp: answer_def brings_def split: if_splits)
qed (auto simp: key_defs brings_def Let_def split: if_splits option.splits)

text \<open>C11: a key that is shown came with an answer of the server that created it, and no closing of the dialog happened
  since that answer: closing it forgets the key for good.  (The dialog that shows it may be a later one than the one that
  asked for it, when that was closed before the answer: \<open>late_key_fills_next_dialog\<close> below.)\<close>

theorem key_shown_since_closing:
  assumes "shown_key (foldl (key_step origin) (mount_api_keys active) es) = Some k"
  shows "\<exists>n < length es. (case es ! n of Key_answer i (Key_created resp) \<Rightarrow> car_key resp = k | _ \<Rightarrow> False)
    \<and> (\<forall>m. n < m \<longrightarrow> m < length es \<longrightarrow> es ! m \<noteq> Dialog_change False)"
proof -
  have "newKey (foldl (key_step origin) (mount_api_keys active) es) = Some k \<Longrightarrow>
      \<exists>n < length es. brings k (es ! n) \<and> (\<forall>m. n < m \<longrightarrow> m < length es \<longrightarrow> es ! m \<noteq> Dialog_change False)" for es
  proof (induction es rule: rev_induct)
    case Nil
    then show ?case by (simp add: mount_api_keys_def key_defs split: if_splits)
  next
    case (snoc e es)
    from snoc.prems have "newKey (key_step origin (foldl (key_step origin) (mount_api_keys active) es) e) = Some k" by simp
    from step_newKey [OF this] consider "brings k e"
      | "newKey (foldl (key_step origin) (mount_api_keys active) es) = Some k" "e \<noteq> Dialog_change False" by blast
    then show ?case
    proof cases
      case 1
      then show ?thesis by (intro exI [of _ "length es"]) simp
    next
      case 2
      from snoc.IH [OF this(1)] obtain n where "n < length es" "brings k (es ! n)"
        "\<forall>m. n < m \<longrightarrow> m < length es \<longrightarrow> es ! m \<noteq> Dialog_change False" by blast
      then show ?thesis using 2(2) by (intro exI [of _ n]) (auto simp: nth_append not_less_iff_gr_or_eq less_Suc_eq)
    qed
  qed
  moreover have "newKey (foldl (key_step origin) (mount_api_keys active) es) = Some k"
    using assms by (simp add: shown_key_def split: if_splits)
  ultimately show ?thesis unfolding brings_def by blast
qed

definition a_key :: "string \<Rightarrow> key_reply" where
  "a_key k = Key_created \<lparr>car_key = k, car_api_key = \<lparr>ak_id = 7, ak_name = ''ci'', ak_prefix = ''sdx'', ak_key_kind = Mcp_client,
     ak_scopes = [''read''], ak_last_used_at = None, ak_expires_at = None, ak_created_at = ''2024-01-01''\<rparr>\<rparr>"

definition asking :: "key_event list" where
  "asking = [Dialog_change True, Name_typed ''ci'', Create_submitted]"

theorem key_shown_since_closing_witness:
  "\<exists>n < 4. (case (asking @ [Key_answer 0 (a_key ''K'')]) ! n of Key_answer i (Key_created resp) \<Rightarrow> car_key resp = ''K'' | _ \<Rightarrow> False)"
proof -
  have "shown_key (foldl (key_step []) (mount_api_keys False) (asking @ [Key_answer 0 (a_key ''K'')])) = Some ''K''" by code_simp
  from key_shown_since_closing [OF this] obtain n where n: "n < length (asking @ [Key_answer 0 (a_key ''K'')])"
    "case (asking @ [Key_answer 0 (a_key ''K'')]) ! n of Key_answer i (Key_created resp) \<Rightarrow> car_key resp = ''K'' | _ \<Rightarrow> False" by blast
  have "length (asking @ [Key_answer 0 (a_key ''K'')]) = 4" by (simp add: asking_def)
  with n show ?thesis by metis
qed

text \<open>The dialog was dismissed before the answer came: the key is shown when it is opened the next time, and there is no
  form to create another one until it is closed again.\<close>

lemma late_key_fills_next_dialog:
  "shown_key (foldl (key_step []) (mount_api_keys False)
     (asking @ [Dialog_change False, Key_answer 0 (a_key ''K''), Dialog_change True])) = Some ''K''"
  by code_simp

end
