(* ===== verification/UrlQuery.thy ===== *)
theory UrlQuery
  imports Interfaces
begin

text \<open>
  The query of an address as the pages read and write it: \<open>encodeURIComponent\<close> and \<open>URLSearchParams\<close> of the
  language, which \<open>features/auth\<close> uses to hand an email from page to page and to drop the parameters of a
  finished sign-in.  Characters are below 256; \<open>other\<close> is what the decoder of the browser makes of
  bytes that are not the encoding of such characters.
\<close>

subsection \<open>Bytes\<close>

definition utf8 :: "char \<Rightarrow> nat list" where
  "utf8 c = (if code c < 128 then [code c] else [192 + code c div 64, 128 + code c mod 64])"

fun utf8_decode :: "(nat list \<Rightarrow> string) \<Rightarrow> nat list \<Rightarrow> string" where
  "utf8_decode other [] = []"
| "utf8_decode other [b] = (if b < 128 then [char_of b] else other [b])"
| "utf8_decode other (b # c # r) =
     (if b < 128 then char_of b # utf8_decode other (c # r)
      else if (b = 194 \<or> b = 195) \<and> 128 \<le> c \<and> c < 192 then char_of ((b - 192) * 64 + (c - 128)) # utf8_decode other r
      else other (b # c # r))"

definition hex_char :: "nat \<Rightarrow> char" where
  "hex_char n = char_of (if n < 10 then 48 + n else 55 + n)"

definition hex_value :: "nat \<Rightarrow> nat option" where
  "hex_value b = (if 48 \<le> b \<and> b \<le> 57 then Some (b - 48) else if 65 \<le> b \<and> b \<le> 70 then Some (b - 55)
     else if 97 \<le> b \<and> b \<le> 102 then Some (b - 87) else None)"

definition percent :: "nat \<Rightarrow> string" where
  "percent n = [CHR ''%'', hex_char (n div 16), hex_char (n mod 16)]"

fun percent_decode :: "nat list \<Rightarrow> nat list" where
  "percent_decode (b # x # y # r) =
     (case (hex_value x, hex_value y) of
        (Some u, Some v) \<Rightarrow> if b = 37 then (16 * u + v) # percent_decode r else b # percent_decode (x # y # r)
      | _ \<Rightarrow> b # percent_decode (x # y # r))"
| "percent_decode bs = bs"

subsection \<open>encodeURIComponent and URLSearchParams\<close>

definition alphanumeric :: "char \<Rightarrow> bool" where
  "alphanumeric c \<longleftrightarrow> is_digit c \<or> 65 \<le> code c \<and> code c \<le> 90 \<or> 97 \<le> code c \<and> code c \<le> 122"

definition component_piece :: "char \<Rightarrow> string" where
  "component_piece c =
     (if alphanumeric c \<or> c \<in> set ''-_.!~*()'' \<or> code c = 39 then [c] else concat (map percent (utf8 c)))"

definition encodeURIComponent :: "string \<Rightarrow> string" where
  "encodeURIComponent s = concat (map component_piece s)"

definition form_piece :: "char \<Rightarrow> string" where
  "form_piece c =
     (if c = CHR '' '' then ''+'' else if alphanumeric c \<or> c \<in> set ''*-._'' then [c] else concat (map percent (utf8 c)))"

definition form_encode :: "string \<Rightarrow> string" where
  "form_encode s = concat (map form_piece s)"

definition form_bytes :: "string \<Rightarrow> nat list" where
  "form_bytes s = concat (map (\<lambda>c. utf8 (if c = CHR ''+'' then CHR '' '' else c)) s)"

definition form_decode :: "(nat list \<Rightarrow> string) \<Rightarrow> string \<Rightarrow> string" where
  "form_decode other s = utf8_decode other (percent_decode (form_bytes s))"

definition parse_pair :: "(nat list \<Rightarrow> string) \<Rightarrow> string \<Rightarrow> string \<times> string" where
  "parse_pair other s =
     (let n = takeWhile (\<lambda>c. c \<noteq> CHR ''='') s in (form_decode other n, form_decode other (drop (length n + 1) s)))"

definition searchParams :: "(nat list \<Rightarrow> string) \<Rightarrow> string \<Rightarrow> (string \<times> string) list" where
  "searchParams other search =
     map (parse_pair other) (filter (\<lambda>x. x \<noteq> []) (split_on (CHR ''&'') (if startsWith search ''?'' then tl search else search)))"

definition params_get :: "string \<Rightarrow> (string \<times> string) list \<Rightarrow> string option" where
  "params_get name ps = map_option snd (find (\<lambda>p. fst p = name) ps)"

definition params_delete :: "string \<Rightarrow> (string \<times> string) list \<Rightarrow> (string \<times> string) list" where
  "params_delete name ps = filter (\<lambda>p. fst p \<noteq> name) ps"

definition pair_text :: "string \<times> string \<Rightarrow> string" where
  "pair_text p = form_encode (fst p) @ CHR ''='' # form_encode (snd p)"

fun params_text :: "(string \<times> string) list \<Rightarrow> string" where
  "params_text [] = []"
| "params_text [p] = pair_text p"
| "params_text (p # q # ps) = pair_text p @ CHR ''&'' # params_text (q # ps)"

subsection \<open>Decoding what was encoded\<close>

lemma utf8_decode_utf8: "utf8_decode other (utf8 c @ r) = c # utf8_decode other r"
proof (cases "code c < 128")
  case True
  then show ?thesis by (cases r) (simp_all add: utf8_def code_def)
next
  case False
  define q m where "q = code c div 64" and "m = code c mod 64"
  have u: "utf8 c = [192 + q, 128 + m]" using False by (simp add: utf8_def q_def m_def)
  have "code c = q * 64 + m" by (simp add: q_def m_def)
  then have c: "char_of (q * 64 + m) = c" by (metis code_def char_of_char)
  have "2 \<le> q" using False by (simp add: q_def less_eq_div_iff_mult_less_eq)
  moreover have "q < 4" using less_mult_imp_div_less [of "code c" 4 64] code_less [of c] by (simp add: q_def)
  ultimately have "q = 2 \<or> q = 3" by linarith
  moreover have "m < 64" by (simp add: m_def)
  ultimately show ?thesis using c unfolding u by auto
qed

lemma utf8_decode_map: "utf8_decode other (concat (map utf8 s)) = s"
  by (induction s) (simp_all add: utf8_decode_utf8)

lemma code_hex_char: "n < 16 \<Longrightarrow> code (hex_char n) = (if n < 10 then 48 + n else 55 + n)"
  by (simp add: hex_char_def)

lemma hex_value_digit: "n < 16 \<Longrightarrow> hex_value (code (hex_char n)) = Some n"
  by (auto simp: code_hex_char hex_value_def)

lemma percent_decode_plain: "b \<noteq> 37 \<Longrightarrow> percent_decode (b # r) = b # percent_decode r"
  by (cases r rule: percent_decode.cases) (simp_all split: option.split)

lemma code_percent_char: "code (CHR ''%'') = 37" "code (CHR ''+'') = 43" "code (CHR '' '') = 32"
  "code (CHR ''&'') = 38" "code (CHR ''='') = 61" "code (CHR ''?'') = 63"
  by (simp_all add: code_def)

lemma percent_decode_percent: "n < 256 \<Longrightarrow> percent_decode (map code (percent n) @ r) = n # percent_decode r"
  by (simp add: percent_def hex_value_digit code_percent_char)

lemma percent_decode_percents:
  "\<forall>n \<in> set ns. n < 256 \<Longrightarrow> percent_decode (map code (concat (map percent ns)) @ r) = ns @ percent_decode r"
  by (induction ns) (simp_all add: percent_decode_percent)

lemma utf8_bytes: "\<forall>n \<in> set (utf8 c). n < 256"
proof -
  have "code c div 64 < 4" using less_mult_imp_div_less [of "code c" 4 64] code_less [of c] by simp
  moreover have "code c mod 64 < 64" by simp
  ultimately have "192 + code c div 64 < 256" "128 + code c mod 64 < 256" by linarith+
  then show ?thesis by (simp add: utf8_def)
qed

text \<open>Both encoders replace one character at a time, by ASCII without the marks of a query.\<close>

definition query_mark :: "char \<Rightarrow> bool" where
  "query_mark c \<longleftrightarrow> c \<in> set ''&=?#''"

locale piecewise_encoder =
  fixes piece :: "char \<Rightarrow> string"
  assumes piece_bytes: "percent_decode (form_bytes (piece c) @ r) = utf8 c @ percent_decode r"
    and piece_clean: "x \<in> set (piece c) \<Longrightarrow> \<not> query_mark x"
begin

lemma form_bytes_pieces: "percent_decode (form_bytes (concat (map piece s)) @ r) = concat (map utf8 s) @ percent_decode r"
proof (induction s)
  case (Cons c s)
  have "form_bytes (concat (map piece (c # s))) @ r = form_bytes (piece c) @ form_bytes (concat (map piece s)) @ r"
    by (simp add: form_bytes_def)
  then show ?case using Cons piece_bytes by simp
qed (simp add: form_bytes_def)

lemma decode_pieces: "form_decode other (concat (map piece s)) = s"
  using form_bytes_pieces [of s "[]"] by (simp add: form_decode_def utf8_decode_map)

lemma pieces_clean: "x \<in> set (concat (map piece s)) \<Longrightarrow> \<not> query_mark x"
  using piece_clean by auto

end

lemma form_bytes_ascii: "\<forall>c \<in> set s. code c < 128 \<and> c \<noteq> CHR ''+'' \<Longrightarrow> form_bytes s = map code s"
  by (induction s) (simp_all add: form_bytes_def utf8_def)

lemma percent_ascii: "\<forall>n \<in> set ns. n < 256 \<Longrightarrow> \<forall>c \<in> set (concat (map percent ns)). code c < 128 \<and> c \<noteq> CHR ''+'' \<and> \<not> query_mark c"
proof (induction ns)
  case (Cons n ns)
  have h: "code (hex_char k) < 128 \<and> hex_char k \<noteq> CHR ''+'' \<and> \<not> query_mark (hex_char k)" if "k < 16" for k
  proof -
    have "code (hex_char k) \<in> {48..57} \<union> {65..70}" using that by (auto simp: code_hex_char)
    then show ?thesis by (auto simp: query_mark_def code_def)
  qed
  have "n div 16 < 16" "n mod 16 < 16" using Cons.prems less_mult_imp_div_less [of n 16 16] by simp_all
  then have "\<forall>c \<in> set (percent n). code c < 128 \<and> c \<noteq> CHR ''+'' \<and> \<not> query_mark c"
    using h by (simp add: percent_def query_mark_def) (simp add: code_def)
  then show ?case using Cons by auto
qed simp

lemma percents_bytes: "percent_decode (form_bytes (concat (map percent (utf8 c))) @ r) = utf8 c @ percent_decode r"
  using percent_ascii [OF utf8_bytes, of c] percent_decode_percents [OF utf8_bytes, of c r]
  by (simp add: form_bytes_ascii)

lemma percents_clean: "x \<in> set (concat (map percent (utf8 c))) \<Longrightarrow> \<not> query_mark x"
  using percent_ascii [OF utf8_bytes, of c] by blast

lemma plain_bytes: "code c < 128 \<Longrightarrow> code c \<noteq> 37 \<Longrightarrow> c \<noteq> CHR ''+'' \<Longrightarrow>
    percent_decode (form_bytes [c] @ r) = utf8 c @ percent_decode r"
  by (simp add: form_bytes_def utf8_def percent_decode_plain)

lemma alphanumeric_clean:
  assumes "alphanumeric c"
  shows "code c < 128 \<and> code c \<noteq> 37 \<and> c \<noteq> CHR ''+'' \<and> \<not> query_mark c"
proof -
  have "code c \<in> {48..57} \<union> {65..90} \<union> {97..122}" using assms by (auto simp: alphanumeric_def is_digit_def)
  then show ?thesis by (auto simp: query_mark_def code_def)
qed

interpretation component: piecewise_encoder component_piece
proof
  fix c r
  have "percent_decode (form_bytes [c] @ r) = utf8 c @ percent_decode r"
    if "alphanumeric c \<or> c \<in> set ''-_.!~*()'' \<or> code c = 39"
    using that alphanumeric_clean [of c] by (intro plain_bytes) (auto simp: code_def)
  then show "percent_decode (form_bytes (component_piece c) @ r) = utf8 c @ percent_decode r"
    by (auto simp: component_piece_def percents_bytes)
next
  fix x c
  assume "x \<in> set (component_piece c)"
  moreover have "\<not> query_mark c" if "alphanumeric c \<or> c \<in> set ''-_.!~*()'' \<or> code c = 39"
    using that alphanumeric_clean [of c] by (auto simp: query_mark_def code_def)
  ultimately show "\<not> query_mark x"
    using percents_clean [of x c] by (auto simp: component_piece_def split: if_splits)
qed

interpretation form: piecewise_encoder form_piece
proof
  fix c r
  have "percent_decode (form_bytes [c] @ r) = utf8 c @ percent_decode r" if "alphanumeric c \<or> c \<in> set ''*-._''"
    using that alphanumeric_clean [of c] by (intro plain_bytes) (auto simp: code_def)
  moreover have "percent_decode (form_bytes ''+'' @ r) = utf8 (CHR '' '') @ percent_decode r"
    by (simp add: form_bytes_def utf8_def code_percent_char percent_decode_plain)
  ultimately show "percent_decode (form_bytes (form_piece c) @ r) = utf8 c @ percent_decode r"
    by (auto simp: form_piece_def percents_bytes)
next
  fix x c
  assume "x \<in> set (form_piece c)"
  moreover have "\<not> query_mark c" if "alphanumeric c \<or> c \<in> set ''*-._''"
    using that alphanumeric_clean [of c] by (auto simp: query_mark_def)
  ultimately show "\<not> query_mark x"
    using percents_clean [of x c] by (auto simp: form_piece_def query_mark_def split: if_splits)
qed

lemma form_decode_component: "form_decode other (encodeURIComponent s) = s"
  unfolding encodeURIComponent_def by (rule component.decode_pieces)

lemma form_decode_encode: "form_decode other (form_encode s) = s"
  unfolding form_encode_def by (rule form.decode_pieces)

lemma component_clean: "x \<in> set (encodeURIComponent s) \<Longrightarrow> \<not> query_mark x"
  unfolding encodeURIComponent_def by (rule component.pieces_clean)

lemma form_clean: "x \<in> set (form_encode s) \<Longrightarrow> \<not> query_mark x"
  unfolding form_encode_def by (rule form.pieces_clean)

lemma parse_pair_text:
  assumes "CHR ''='' \<notin> set n" and "form_decode other n = name" and "form_decode other v = value"
  shows "parse_pair other (n @ CHR ''='' # v) = (name, value)"
proof -
  have "takeWhile (\<lambda>c. c \<noteq> CHR ''='') (n @ CHR ''='' # v) = n"
    using assms(1) by (intro takeWhile_tail [THEN trans] takeWhile_eq_all_conv [THEN iffD2]) (auto simp: takeWhile_append)
  then show ?thesis using assms by (simp add: parse_pair_def)
qed

lemma pair_text_clean: "CHR ''&'' \<notin> set (pair_text p)" "pair_text p \<noteq> []" "\<not> startsWith (pair_text p @ r) ''?''"
proof -
  show "CHR ''&'' \<notin> set (pair_text p)"
    using form_clean [of "CHR ''&''"] by (auto simp: pair_text_def query_mark_def)
  show "pair_text p \<noteq> []" by (simp add: pair_text_def)
  have "CHR ''?'' \<notin> set (form_encode (fst p))" using form_clean [of "CHR ''?''"] by (auto simp: query_mark_def)
  then show "\<not> startsWith (pair_text p @ r) ''?''"
    by (cases "form_encode (fst p)") (auto simp: pair_text_def startsWith_def)
qed

lemma parse_pair_pair_text [simp]: "parse_pair other (pair_text p) = p"
  using form_clean [of "CHR ''=''"] unfolding pair_text_def
  by (cases p) (auto intro!: parse_pair_text simp: form_decode_encode query_mark_def)

lemma split_params: "map (parse_pair other) (filter (\<lambda>x. x \<noteq> []) (split_on (CHR ''&'') (params_text ps))) = ps"
  by (induction ps rule: params_text.induct) (simp_all add: split_on_append split_on_one pair_text_clean)

lemma params_text_question: "\<not> startsWith (params_text ps) ''?''"
  using pair_text_clean(3) [of _ "[]"] pair_text_clean(3)
  by (cases ps rule: params_text.cases) (simp_all add: startsWith_def)

text \<open>A query that was printed is read back as the same parameters in the same order.\<close>

lemma searchParams_text: "searchParams other (params_text ps) = ps"
  by (simp add: searchParams_def params_text_question split_params)

interpretation query_text: codec params_text "\<lambda>q. Some (searchParams other q)" "\<lambda>_. True" for other
  by unfold_locales (simp add: searchParams_text)

lemma searchParams_question: "\<not> startsWith q ''?'' \<Longrightarrow> searchParams other (CHR ''?'' # q) = searchParams other q"
  by (simp add: searchParams_def startsWith_def)

lemma get_after_delete: "params_get n (params_delete m ps) = (if n = m then None else params_get n ps)"
  by (induction ps) (auto simp: params_get_def params_delete_def)

text \<open>One parameter written with \<open>encodeURIComponent\<close>.\<close>

lemma single_parameter:
  assumes "CHR ''='' \<notin> set name" and "CHR ''&'' \<notin> set name" and "form_decode other name = name"
  shows "searchParams other (''?'' @ name @ ''='' @ encodeURIComponent v) = [(name, v)]"
proof -
  have a: "CHR ''&'' \<notin> set (encodeURIComponent v)" using component_clean [of "CHR ''&''" v] by (auto simp: query_mark_def)
  then have "split_on (CHR ''&'') (name @ CHR ''='' # encodeURIComponent v) = [name @ CHR ''='' # encodeURIComponent v]"
    using assms by (intro split_on_one) simp
  then show ?thesis
    using parse_pair_text [OF assms(1,3) form_decode_component] by (simp add: searchParams_def startsWith_def)
qed

end
