(* ===== verification/AuthPages.thy ===== *)
theory AuthPages
  imports Session UrlQuery
begin

text \<open>
  What the pages under \<open>web/src/features/auth\<close> share: each runs over the client of \<open>lib/api.ts\<close>.  A
  handler that awaits a request is a continuation \<open>'w\<close> beside the task it waits for; the network
  events of \<open>Session\<close> advance the tasks, and a continuation runs once its task is done.
\<close>

record 'w AuthPage =
  au_client :: Client
  au_waiting :: "(nat \<times> 'w) list"
  au_error :: string
  au_success :: "string list"
  au_path :: string

definition json_request :: "string \<Rightarrow> json \<Rightarrow> RequestInit" where
  "json_request method body = \<lparr>ri_method = method, ri_headers = [], ri_body = Text_body (json_stringify body)\<rparr>"

definition no_options :: RequestInit where
  "no_options = \<lparr>ri_method = ''GET'', ri_headers = [], ri_body = No_body\<rparr>"

definition await :: "string \<Rightarrow> RequestInit \<Rightarrow> 'w \<Rightarrow> ('w, 'm) AuthPage_scheme \<Rightarrow> ('w, 'm) AuthPage_scheme" where
  "await path options w s = s\<lparr>au_waiting := au_waiting s @ [(length (tasks (au_client s)), w)],
     au_client := call_request path options False True (au_client s)\<rparr>"

definition api_get :: "string \<Rightarrow> 'w \<Rightarrow> ('w, 'm) AuthPage_scheme \<Rightarrow> ('w, 'm) AuthPage_scheme" where
  "api_get path = await path no_options"

definition api_post :: "string \<Rightarrow> json \<Rightarrow> 'w \<Rightarrow> ('w, 'm) AuthPage_scheme \<Rightarrow> ('w, 'm) AuthPage_scheme" where
  "api_post path body = await path (json_request ''POST'' body)"

text \<open>A call that was awaited: the value, or the message of the error thrown.\<close>

fun call_result :: "outcome \<Rightarrow> string + json option" where
  "call_result (Thrown msg) = Inl msg"
| "call_result (Json_value v) = Inr v"
| "call_result _ = Inr None"

definition settled :: "nat \<Rightarrow> ('w, 'm) AuthPage_scheme \<Rightarrow> ('w \<times> (string + json option)) option" where
  "settled k s =
     (if k < length (au_waiting s) then
        (case tasks (au_client s) ! fst (au_waiting s ! k) of
           Done out \<Rightarrow> Some (snd (au_waiting s ! k), call_result out)
         | _ \<Rightarrow> None)
      else None)"

definition drop_waiting :: "nat \<Rightarrow> ('w, 'm) AuthPage_scheme \<Rightarrow> ('w, 'm) AuthPage_scheme" where
  "drop_waiting k s = s\<lparr>au_waiting := take k (au_waiting s) @ drop (Suc k) (au_waiting s)\<rparr>"

text \<open>What the network does; \<open>TypeError\<close> is the message of a member access on \<open>undefined\<close>.\<close>

fun net_event :: "event \<Rightarrow> bool" where
  "net_event (Fetch_settles i outcome) = True"
| "net_event (Body_read i) = True"
| "net_event (Refresh_settles outcome) = True"
| "net_event Refresh_finally = True"
| "net_event (Resume i) = True"
| "net_event _ = False"

definition on_net :: "(string \<Rightarrow> string) \<Rightarrow> event \<Rightarrow> ('w, 'm) AuthPage_scheme \<Rightarrow> ('w, 'm) AuthPage_scheme" where
  "on_net t e s = (if net_event e then s\<lparr>au_client := session_step t (au_client s) e\<rparr> else s)"

text \<open>\<open>setAuth(data.access_token ?? data.token, data.user)\<close>, the notice and \<open>navigate("/")\<close>.\<close>

definition signed_in :: "string \<Rightarrow> json \<Rightarrow> ('w, 'm) AuthPage_scheme \<Rightarrow> ('w, 'm) AuthPage_scheme" where
  "signed_in notice data s =
     s\<lparr>au_client := (au_client s)\<lparr>session := setAuth (resolveAccessToken data) (nullish (json_get data ''user'') JNull)
         (session (au_client s))\<rparr>,
       au_success := au_success s @ [notice], au_path := ''/''\<rparr>"

lemma page_simps [simp]:
  "au_waiting (await path options w s) = au_waiting s @ [(length (tasks (au_client s)), w)]"
  "au_client (await path options w s) = call_request path options False True (au_client s)"
  "au_error (await path options w s) = au_error s" "au_success (await path options w s) = au_success s"
  "au_path (await path options w s) = au_path s"
  "au_client (drop_waiting k s) = au_client s" "au_error (drop_waiting k s) = au_error s"
  "au_path (drop_waiting k s) = au_path s" "au_success (drop_waiting k s) = au_success s"
  "au_waiting (on_net t e s) = au_waiting s" "au_error (on_net t e s) = au_error s" "au_path (on_net t e s) = au_path s"
  "au_success (on_net t e s) = au_success s"
  "au_waiting (signed_in n d s) = au_waiting s" "au_error (signed_in n d s) = au_error s" "au_path (signed_in n d s) = ''/''"
  by (simp_all add: await_def drop_waiting_def on_net_def signed_in_def)

lemmas api_defs = api_get_def api_post_def

subsection \<open>A client without a session\<close>

text \<open>Nobody is signed in, and nothing that is under way could sign anybody in.\<close>

fun anonymous_task :: "task \<Rightarrow> bool" where
  "anonymous_task (Fetching path options raw retry had) \<longleftrightarrow> \<not> had"
| "anonymous_task (Refreshing path options raw) \<longleftrightarrow> False"
| "anonymous_task (Refreshed b path options raw) \<longleftrightarrow> False"
| "anonymous_task Restoring \<longleftrightarrow> False"
| "anonymous_task (Restored b) \<longleftrightarrow> False"
| "anonymous_task tk \<longleftrightarrow> True"

definition anonymous :: "Client \<Rightarrow> bool" where
  "anonymous c \<longleftrightarrow> \<not> json_truthy (fst (getToken (session c))) \<and> refreshRequest c = No_refresh \<and> list_all anonymous_task (tasks c)"

lemma getToken_cleared: "fst (getToken (clearToken s)) = JNull"
  by (simp add: session_defs)

lemma getToken_frame:
  "fst (getToken (snd (getToken s))) = fst (getToken s)"
  "fst (getToken (s\<lparr>toasts_shown := m\<rparr>)) = fst (getToken s)"
  "fst (getToken (s\<lparr>location := l\<rparr>)) = fst (getToken s)"
  by (simp_all add: session_defs)

lemma anonymous_page_load: "anonymous (page_load ls)"
  by (simp add: anonymous_def page_load_def session_defs)

lemma anonymous_request: "anonymous c \<Longrightarrow> anonymous (call_request path options raw retry c)"
  by (simp add: anonymous_def call_request_def requestRaw_def case_prod_beta snd_buildHeaders getToken_frame)

lemma anonymous_fail: "anonymous c \<Longrightarrow> anonymous (fail_unauthorized t i c)"
  by (simp add: anonymous_def fail_unauthorized_def handleUnauthorized_def set_task_def getToken_frame getToken_cleared
      list_all_update)

lemma anonymous_set: "anonymous c \<Longrightarrow> anonymous_task tk \<Longrightarrow> anonymous (set_task i tk c)"
  by (simp add: anonymous_def set_task_def list_all_update)

lemma anonymous_session: "anonymous c \<Longrightarrow> fst (getToken s) = fst (getToken (session c)) \<or> fst (getToken s) = JNull \<Longrightarrow>
    anonymous (c\<lparr>session := s\<rparr>)"
  by (auto simp: anonymous_def)

lemma anonymous_nth: "anonymous c \<Longrightarrow> i < length (tasks c) \<Longrightarrow> anonymous_task (tasks c ! i)"
  by (simp add: anonymous_def list_all_length)

lemma anonymous_fetch: "anonymous c \<Longrightarrow> i < length (tasks c) \<Longrightarrow> anonymous (on_fetch t i outcome c)"
  using anonymous_nth [of c i]
  by (cases "tasks c ! i"; cases outcome)
     (auto simp: on_fetch_def canRefresh_def anonymous_set anonymous_fail anonymous_session getToken_cleared)

lemma getToken_finish: "fst (getToken (snd (finish_request t res s))) = fst (getToken s)"
  using finish_request_session [of t res s] by (auto simp: getToken_frame)

lemma anonymous_body: "anonymous c \<Longrightarrow> i < length (tasks c) \<Longrightarrow> anonymous (on_body t i c)"
  by (cases "tasks c ! i")
     (simp_all add: on_body_def case_prod_beta Let_def anonymous_set anonymous_session getToken_cleared getToken_finish
        split: sum.split)

lemma anonymous_net:
  assumes "anonymous c" and "net_event e"
  shows "anonymous (session_step t c e)"
proof (cases e)
  case (Fetch_settles i outcome)
  then show ?thesis using assms by (simp add: anonymous_fetch)
next
  case (Body_read i)
  then show ?thesis using assms by (simp add: anonymous_body)
next
  case (Refresh_settles outcome)
  then show ?thesis using assms by (simp add: on_refresh_def anonymous_def)
next
  case Refresh_finally
  then show ?thesis using assms by (simp add: on_finally_def anonymous_def)
next
  case (Resume i)
  then show ?thesis using assms anonymous_nth [of c i] by (cases "tasks c ! i") (auto simp: on_resume_def)
qed (use assms in simp_all)

lemma anonymous_on_net: "anonymous (au_client s) \<Longrightarrow> anonymous (au_client (on_net t e s))"
  by (simp add: on_net_def anonymous_net)

end
