(* ===== verification/Routes.thy ===== *)
theory Routes
  imports Interfaces
begin

text \<open>
  Preloading: routes, \<open>web/src/lib/route-preload.ts\<close>, and languages,
  \<open>web/src/i18n/index.ts\<close>.  Dynamic imports are recorded in the order in which they are
  started; a cached promise is the number of the import that created it.
\<close>

subsection \<open>route-preload.ts\<close>

datatype RouteKind = Auth | Protected

fun kind_text :: "RouteKind \<Rightarrow> string" where
  "kind_text Auth = ''auth''"
| "kind_text Protected = ''protected''"

definition routeLoaders :: "RouteKind \<Rightarrow> string list" where
  "routeLoaders kind = (case kind of
       Auth \<Rightarrow> [''login'', ''register'', ''forgotPassword'', ''resetPassword'']
     | Protected \<Rightarrow> [''dashboard'', ''actions'', ''reports'', ''settings'', ''calendar'', ''admin''])"

record Preloads =
  routePreloadCache :: "string set"
  imports_started :: "(RouteKind \<times> string) list"

definition no_preloads :: Preloads where
  "no_preloads = \<lparr>routePreloadCache = {}, imports_started = []\<rparr>"

definition preloadRoute :: "RouteKind \<Rightarrow> string \<Rightarrow> Preloads \<Rightarrow> Preloads" where
  "preloadRoute kind route s =
     (if route \<notin> set (routeLoaders kind) then s
      else let key = kind_text kind @ '':'' @ route in
        if key \<in> routePreloadCache s then s
        else s\<lparr>routePreloadCache := insert key (routePreloadCache s), imports_started := imports_started s @ [(kind, route)]\<rparr>)"

definition preloadRouteForPath :: "string \<Rightarrow> Preloads \<Rightarrow> Preloads" where
  "preloadRouteForPath pathname s =
     (if pathname = ''/'' then preloadRoute Protected ''dashboard'' s
      else if pathname = ''/actions'' then preloadRoute Protected ''actions'' s
      else if pathname = ''/reports'' then preloadRoute Protected ''reports'' s
      else if pathname = ''/settings'' then preloadRoute Protected ''settings'' s
      else if pathname = ''/calendar'' then preloadRoute Protected ''calendar'' s
      else if pathname = ''/admin'' then preloadRoute Protected ''admin'' s
      else if pathname = ''/login'' then preloadRoute Auth ''login'' s
      else if pathname = ''/register'' then preloadRoute Auth ''register'' s
      else if pathname = ''/forgot-password'' then preloadRoute Auth ''forgotPassword'' s
      else if pathname = ''/reset-password'' then preloadRoute Auth ''resetPassword'' s
      else s)"

definition preloadNeighborRoutesForPath :: "string \<Rightarrow> Preloads \<Rightarrow> Preloads" where
  "preloadNeighborRoutesForPath pathname s =
     (if pathname = ''/'' then
        preloadRoute Protected ''reports'' (preloadRoute Protected ''calendar'' (preloadRoute Protected ''actions'' s))
      else if pathname \<in> {''/login'', ''/register'', ''/forgot-password'', ''/reset-password''} then
        preloadRoute Auth ''resetPassword'' (preloadRoute Auth ''forgotPassword''
          (preloadRoute Auth ''register'' (preloadRoute Auth ''login'' s)))
      else s)"

datatype preload_event = Preload RouteKind string | For_path string | Neighbors string

fun preload_step :: "Preloads \<Rightarrow> preload_event \<Rightarrow> Preloads" where
  "preload_step s (Preload kind route) = preloadRoute kind route s"
| "preload_step s (For_path p) = preloadRouteForPath p s"
| "preload_step s (Neighbors p) = preloadNeighborRoutesForPath p s"

definition route_key :: "RouteKind \<times> string \<Rightarrow> string" where
  "route_key = (\<lambda>(kind, route). kind_text kind @ '':'' @ route)"

definition preloads_ok :: "Preloads \<Rightarrow> bool" where
  "preloads_ok s \<longleftrightarrow> distinct (map route_key (imports_started s))
     \<and> routePreloadCache s = set (map route_key (imports_started s))
     \<and> list_all (\<lambda>(kind, route). route \<in> set (routeLoaders kind)) (imports_started s)"

lemma preloads_ok_route: "preloads_ok s \<Longrightarrow> preloads_ok (preloadRoute kind route s)"
  by (auto simp: preloads_ok_def preloadRoute_def route_key_def Let_def)

interpretation preloading: event_machine preload_step preloads_ok
proof
  fix s e
  assume "preloads_ok s"
  then show "preloads_ok (preload_step s e)"
    by (cases e) (simp_all add: preloads_ok_route preloadRouteForPath_def preloadNeighborRoutesForPath_def)
qed

lemma route_key_inject:
  "route_key (k, r) = route_key (k', r') \<longleftrightarrow> k = k' \<and> r = r'"
  by (cases k; cases k') (simp_all add: route_key_def)

text \<open>every page is imported at most once, however often the links are hovered, and only pages that
  exist are imported.\<close>

theorem routes_imported_once:
  "distinct (imports_started (foldl preload_step no_preloads es))
   \<and> list_all (\<lambda>(kind, route). route \<in> set (routeLoaders kind)) (imports_started (foldl preload_step no_preloads es))
   \<and> length (imports_started (foldl preload_step no_preloads es)) \<le> 10"
proof -
  let ?l = "imports_started (foldl preload_step no_preloads es)"
  have ok: "preloads_ok (foldl preload_step no_preloads es)"
    by (rule preloading.run_inv) (simp add: preloads_ok_def no_preloads_def)
  then have d: "distinct ?l" and a: "list_all (\<lambda>(kind, route). route \<in> set (routeLoaders kind)) ?l"
    by (auto simp: preloads_ok_def distinct_map)
  have "set ?l \<subseteq> set (map (Pair Auth) (routeLoaders Auth) @ map (Pair Protected) (routeLoaders Protected))"
  proof
    fix x
    assume "x \<in> set ?l"
    moreover obtain k r where "x = (k, r)" by (cases x)
    ultimately show "x \<in> set (map (Pair Auth) (routeLoaders Auth) @ map (Pair Protected) (routeLoaders Protected))"
      using a by (cases k) (auto simp: list_all_iff)
  qed
  then have "card (set ?l) \<le> card (set (map (Pair Auth) (routeLoaders Auth) @ map (Pair Protected) (routeLoaders Protected)))"
    by (rule card_mono [rotated]) (rule finite_set)
  also have "\<dots> \<le> 10" by (rule order_trans [OF card_length]) (simp add: routeLoaders_def)
  finally show ?thesis using d a by (simp add: distinct_card)
qed

subsection \<open>i18n/index.ts\<close>

datatype LocaleCode = En | ZhCN | Ja

fun locale_text :: "LocaleCode \<Rightarrow> string" where
  "locale_text En = ''en''"
| "locale_text ZhCN = ''zh-CN''"
| "locale_text Ja = ''ja''"

definition supportedLocales :: "LocaleCode list" where
  "supportedLocales = [En, ZhCN, Ja]"

definition fallbackLocale :: LocaleCode where
  "fallbackLocale = En"

text \<open>A text as a language code, when it is one of the supported ones.\<close>

definition as_locale :: "string \<Rightarrow> LocaleCode option" where
  "as_locale s = (if s = ''en'' then Some En else if s = ''zh-CN'' then Some ZhCN else if s = ''ja'' then Some Ja else None)"

text \<open>The stored language: \<open>None\<close> without a window, when storage throws, or for another text.\<close>

definition readStoredLanguage :: "bool \<Rightarrow> string option result \<Rightarrow> LocaleCode option" where
  "readStoredLanguage window item =
     (if \<not> window then None else case item of Inr (Some stored) \<Rightarrow> as_locale stored | _ \<Rightarrow> None)"

record Navigator =
  nav_languages :: "string list option"
  nav_language :: string

definition detectBrowserLanguage :: "bool \<Rightarrow> string option result \<Rightarrow> Navigator option \<Rightarrow> LocaleCode" where
  "detectBrowserLanguage window item navigator =
     (case readStoredLanguage window item of
        Some stored \<Rightarrow> stored
      | None \<Rightarrow>
          (case navigator of
             None \<Rightarrow> fallbackLocale
           | Some nav \<Rightarrow>
               (case Option.bind (List.find (\<lambda>l. as_locale l \<noteq> None) (nullish (nav_languages nav) [])) as_locale of
                  Some preferred \<Rightarrow> preferred
                | None \<Rightarrow> nullish (as_locale (nav_language nav)) fallbackLocale)))"

record Locales =
  localeCache :: "LocaleCode \<rightharpoonup> nat"
  locale_imports :: "LocaleCode list"

definition no_locales :: Locales where
  "no_locales = \<lparr>localeCache = Map.empty, locale_imports = []\<rparr>"

definition loadLocale :: "LocaleCode \<Rightarrow> Locales \<Rightarrow> nat \<times> Locales" where
  "loadLocale language s =
     (case localeCache s language of
        Some cached \<Rightarrow> (cached, s)
      | None \<Rightarrow>
          (let promise = length (locale_imports s)
           in (promise, s\<lparr>localeCache := (localeCache s)(language \<mapsto> promise), locale_imports := locale_imports s @ [language]\<rparr>)))"

definition preloadLocale :: "string \<Rightarrow> Locales \<Rightarrow> nat \<times> Locales" where
  "preloadLocale language s = loadLocale (nullish (as_locale language) fallbackLocale) s"

definition preloadSupportedLocales :: "string option \<Rightarrow> Locales \<Rightarrow> Locales" where
  "preloadSupportedLocales excludeLanguage s =
     foldl (\<lambda>s language. if Some (locale_text language) = excludeLanguage then s else snd (loadLocale language s))
       s supportedLocales"

text \<open>The backend's \<open>read\<close>: the promise whose result it hands to i18next.\<close>

definition backend_read :: "string \<Rightarrow> Locales \<Rightarrow> nat \<times> Locales" where
  "backend_read language s = loadLocale (nullish (as_locale language) fallbackLocale) s"

definition getInitialLanguage :: "string \<Rightarrow> LocaleCode" where
  "getInitialLanguage language = (if language = ''zh-CN'' then ZhCN else if language = ''ja'' then Ja else En)"

definition languageChanged :: "bool \<Rightarrow> bool \<Rightarrow> string \<Rightarrow> (string \<rightharpoonup> string) \<Rightarrow> string \<rightharpoonup> string" where
  "languageChanged window writable language items =
     (if window \<and> writable then items(''language'' \<mapsto> language) else items)"

definition locales_ok :: "Locales \<Rightarrow> bool" where
  "locales_ok s \<longleftrightarrow> distinct (locale_imports s) \<and> dom (localeCache s) = set (locale_imports s)
     \<and> (\<forall>l n. localeCache s l = Some n \<longrightarrow> n < length (locale_imports s) \<and> locale_imports s ! n = l)"

lemma loadLocale_ok:
  assumes "locales_ok s"
  shows "locales_ok (snd (loadLocale l s)) \<and> localeCache (snd (loadLocale l s)) l = Some (fst (loadLocale l s))"
proof (cases "localeCache s l")
  case None
  with assms have "l \<notin> set (locale_imports s)" by (metis domIff locales_ok_def)
  with None assms show ?thesis by (auto simp: loadLocale_def locales_ok_def nth_append Let_def intro: less_SucI)
next
  case (Some n)
  with assms show ?thesis by (simp add: loadLocale_def)
qed

lemma as_locale_text [simp]: "as_locale (locale_text l) = Some l"
  by (cases l) (simp_all add: as_locale_def)

text \<open>The language chosen survives a reload.\<close>

lemma language_survives_reload:
  "detectBrowserLanguage True (Inr (languageChanged True True (locale_text l) items ''language'')) nav = l"
  by (simp add: detectBrowserLanguage_def readStoredLanguage_def languageChanged_def)

datatype locale_event = Load_locale string | Preload_all "string option" | Backend_read string

fun locale_step :: "Locales \<Rightarrow> locale_event \<Rightarrow> Locales" where
  "locale_step s (Load_locale language) = snd (preloadLocale language s)"
| "locale_step s (Preload_all excluded) = preloadSupportedLocales excluded s"
| "locale_step s (Backend_read language) = snd (backend_read language s)"

interpretation languages: event_machine locale_step locales_ok
proof
  fix s e
  assume "locales_ok s"
  then show "locales_ok (locale_step s e)"
    by (cases e) (simp_all add: loadLocale_ok preloadLocale_def backend_read_def preloadSupportedLocales_def
        supportedLocales_def)
qed

text \<open>each language file is imported once, and every request for a language gets the import of that
  language, with English for a text that is no supported language.\<close>

theorem languages_imported_once:
  assumes "s = foldl locale_step no_locales es"
  shows "distinct (locale_imports s)
    \<and> locale_imports (snd (preloadLocale language s)) ! fst (preloadLocale language s)
        = nullish (as_locale language) En
    \<and> fst (preloadLocale language (snd (preloadLocale language s))) = fst (preloadLocale language s)"
proof -
  have ok: "locales_ok s"
    unfolding assms by (rule languages.run_inv) (simp add: locales_ok_def no_locales_def)
  let ?l = "nullish (as_locale language) En"
  have l: "preloadLocale language s' = loadLocale ?l s'" for s'
    by (simp add: preloadLocale_def fallbackLocale_def)
  show ?thesis
    using ok loadLocale_ok [OF ok, of ?l]
    by (simp add: l locales_ok_def) (simp add: loadLocale_def)
qed

theorem languages_imported_once_witness:
  "distinct (locale_imports (foldl locale_step no_locales [Load_locale ''ja'', Preload_all (Some ''ja''), Load_locale ''xx'']))"
  using languages_imported_once [OF refl, of "[Load_locale ''ja'', Preload_all (Some ''ja''), Load_locale ''xx'']"]
  by (rule conjunct1)

end
