(* ===== verification/AppRoutes.thy ===== *)
theory AppRoutes
  imports AuthPages Routes
begin

text \<open>
  The routes of the application, \<open>web/src/App.tsx\<close>, with \<open>hooks/useSiteSettings.ts\<close>: the guards over the
  session of \<open>lib/api.ts\<close>, the restoration of the session when the application is loaded, and the title.
  \<open>matched\<close> is the router's choice of a route for a path; it is a parameter that chooses a route of
  the table for its own path, and \<open>*\<close> for a path that no route matches.
\<close>

datatype page =
    Login_page | Register_page | Forgot_page | Reset_page
  | Dashboard_page | Actions_page | Reports_page | Settings_page | Calendar_page | Admin_page

text \<open>What is rendered: a page, the loading text, or a \<open>Navigate\<close>.\<close>

datatype rendered = Shows page | RouteLoading | Navigate string

definition ProtectedRoute :: "bool \<Rightarrow> page \<Rightarrow> Session \<Rightarrow> rendered \<times> Session" where
  "ProtectedRoute authReady children s =
     (if \<not> authReady then (RouteLoading, s)
      else let (signed, s) = isAuthenticated s in if \<not> signed then (Navigate ''/login'', s) else (Shows children, s))"

definition PublicRoute :: "bool \<Rightarrow> page \<Rightarrow> Session \<Rightarrow> rendered \<times> Session" where
  "PublicRoute authReady children s =
     (if \<not> authReady then (RouteLoading, s)
      else let (signed, s) = isAuthenticated s in if signed then (Navigate ''/'', s) else (Shows children, s))"

definition AdminRoute :: "bool \<Rightarrow> page \<Rightarrow> Session \<Rightarrow> rendered \<times> Session" where
  "AdminRoute authReady children s =
     (if \<not> authReady then (RouteLoading, s)
      else let (signed, s) = isAuthenticated s in
        if \<not> signed then (Navigate ''/login'', s)
        else let (admin, s) = isAdmin s in if \<not> admin then (Navigate ''/'', s) else (Shows children, s))"

definition routes :: "(string \<times> (bool \<Rightarrow> Session \<Rightarrow> rendered \<times> Session)) list" where
  "routes =
     [(''/login'', \<lambda>ready. PublicRoute ready Login_page), (''/register'', \<lambda>ready. PublicRoute ready Register_page),
      (''/forgot-password'', \<lambda>ready. PublicRoute ready Forgot_page), (''/reset-password'', \<lambda>ready. PublicRoute ready Reset_page),
      (''/'', \<lambda>ready. ProtectedRoute ready Dashboard_page), (''/actions'', \<lambda>ready. ProtectedRoute ready Actions_page),
      (''/reports'', \<lambda>ready. ProtectedRoute ready Reports_page), (''/settings'', \<lambda>ready. ProtectedRoute ready Settings_page),
      (''/calendar'', \<lambda>ready. ProtectedRoute ready Calendar_page), (''/admin'', \<lambda>ready. AdminRoute ready Admin_page),
      (''*'', \<lambda>ready s. (Navigate ''/'', s))]"

definition render_route :: "(string \<Rightarrow> string) \<Rightarrow> bool \<Rightarrow> string \<Rightarrow> Session \<Rightarrow> rendered \<times> Session" where
  "render_route matched authReady path s =
     (case map_of routes (matched path) of Some r \<Rightarrow> r authReady s | None \<Rightarrow> (Navigate ''/'', s))"

text \<open>A \<open>Navigate\<close> replaces the path and renders again; \<open>None\<close> is more than \<open>n\<close> of them.\<close>

fun follow :: "nat \<Rightarrow> (string \<Rightarrow> string) \<Rightarrow> bool \<Rightarrow> string \<Rightarrow> Session \<Rightarrow> (rendered \<times> string) option" where
  "follow n matched authReady path s =
     (case render_route matched authReady path s of
        (Navigate path', s') \<Rightarrow> (case n of 0 \<Rightarrow> None | Suc m \<Rightarrow> follow m matched authReady path' s')
      | (shown, s') \<Rightarrow> Some (shown, path))"

subsection \<open>The application\<close>

record AppState =
  app_client :: Client
  authReady :: bool
  app_restore :: "nat option"
  app_preloads :: Preloads
  app_title :: string

text \<open>\<open>useState(() => isAuthenticated())\<close> and the effect that restores the session.\<close>

definition App :: "Client \<Rightarrow> string \<Rightarrow> AppState" where
  "App c title =
     (let (signed, ses) = isAuthenticated (session c); c = c\<lparr>session := ses\<rparr>
      in if signed then \<lparr>app_client = c, authReady = True, app_restore = None, app_preloads = no_preloads, app_title = title\<rparr>
         else \<lparr>app_client = call_restore c, authReady = False, app_restore = Some (length (tasks c)),
               app_preloads = no_preloads, app_title = title\<rparr>)"

definition restore_settled :: "AppState \<Rightarrow> AppState" where
  "restore_settled a =
     (case app_restore a of
        None \<Rightarrow> a
      | Some i \<Rightarrow> (case tasks (app_client a) ! i of Done out \<Rightarrow> a\<lparr>authReady := True, app_restore := None\<rparr> | _ \<Rightarrow> a))"

definition RoutePreloader :: "string \<Rightarrow> Preloads \<Rightarrow> Preloads" where
  "RoutePreloader pathname s = preloadNeighborRoutesForPath pathname (preloadRouteForPath pathname s)"

text \<open>The answer to the request of \<open>useSiteTitle\<close>; a body that is no JSON throws into the \<open>catch\<close>.\<close>

definition useSiteTitle :: "string + Response \<Rightarrow> string \<Rightarrow> string" where
  "useSiteTitle outcome title =
     (case outcome of
        Inl e \<Rightarrow> title
      | Inr res \<Rightarrow>
          if \<not> res_ok res then title
          else (case rs_body res of
                  None \<Rightarrow> title
                | Some data \<Rightarrow>
                    let name = nullish (json_get data ''site_name'') JNull in if json_truthy name then js_text name else title))"

definition updateSiteTitle :: "string \<Rightarrow> string" where
  "updateSiteTitle siteName = or_str siteName ''Subdux''"

datatype app_event =
    App_net event
  | App_restored
  | App_location string
  | App_site_info "string + Response"

fun app_step :: "(string \<Rightarrow> string) \<Rightarrow> AppState \<Rightarrow> app_event \<Rightarrow> AppState" where
  "app_step t a (App_net e) = (if net_event e then a\<lparr>app_client := session_step t (app_client a) e\<rparr> else a)"
| "app_step t a App_restored = restore_settled a"
| "app_step t a (App_location path) = a\<lparr>app_preloads := RoutePreloader path (app_preloads a)\<rparr>"
| "app_step t a (App_site_info outcome) = a\<lparr>app_title := useSiteTitle outcome (app_title a)\<rparr>"

subsection \<open>Redirections\<close>

definition signed :: "Session \<Rightarrow> bool" where
  "signed s = fst (isAuthenticated s)"

definition admin :: "Session \<Rightarrow> bool" where
  "admin s = fst (isAdmin (snd (isAuthenticated s)))"

lemma signed_again [simp]: "fst (isAuthenticated (snd (isAuthenticated s))) = fst (isAuthenticated s)"
  by (simp add: isAuthenticated_def case_prod_beta getToken_frame)

lemma getUser_token: "fst (getToken (snd (getUser s))) = fst (getToken s)"
  by (auto simp: getUser_def session_defs split: option.split)

lemma signed_admin [simp]: "fst (isAuthenticated (snd (isAdmin s))) = fst (isAuthenticated s)"
  by (simp add: isAuthenticated_def isAdmin_def case_prod_beta getUser_token)

text \<open>Where a visitor ends up.\<close>

definition public_pages :: "string list" where
  "public_pages = [''/login'', ''/register'', ''/forgot-password'', ''/reset-password'']"

definition destination :: "string \<Rightarrow> bool \<Rightarrow> bool \<Rightarrow> page" where
  "destination route is_signed is_admin =
     (if is_signed then
        (if route = ''/actions'' then Actions_page else if route = ''/reports'' then Reports_page
         else if route = ''/settings'' then Settings_page else if route = ''/calendar'' then Calendar_page
         else if route = ''/admin'' \<and> is_admin then Admin_page else Dashboard_page)
      else if route = ''/register'' then Register_page else if route = ''/forgot-password'' then Forgot_page
      else if route = ''/reset-password'' then Reset_page else Login_page)"

definition router_ok :: "(string \<Rightarrow> string) \<Rightarrow> bool" where
  "router_ok matched \<longleftrightarrow> matched ''/'' = ''/'' \<and> matched ''/login'' = ''/login''"

text \<open>C6: the redirections of the routes never go round in circles: from every path, at most two lead to a page.
  Once the session is restored, that is the page of the path for who may see it; who is not signed in ends at
  the login page or at a public page, who is signed in never sees a public page, and only an administrator sees the
  administration.\<close>

theorem redirects_settle:
  assumes "router_ok matched"
  shows "(\<exists>path'. follow 2 matched True path s = Some (Shows (destination (matched path) (signed s) (admin s)), path'))
    \<and> (\<exists>path'. follow 1 matched False path s = Some (RouteLoading, path'))"
proof
  let ?r = "matched path"
  have m: "matched ''/'' = ''/''" "matched ''/login'' = ''/login''" using assms by (simp_all add: router_ok_def)
  show "\<exists>path'. follow 2 matched True path s = Some (Shows (destination ?r (signed s) (admin s)), path')"
    by (cases "fst (isAuthenticated s)"; cases "fst (isAdmin (snd (isAuthenticated s)))")
      (auto simp: numeral_2_eq_2 render_route_def routes_def PublicRoute_def ProtectedRoute_def AdminRoute_def case_prod_beta Let_def
        m signed_def admin_def destination_def)
  show "\<exists>path'. follow 1 matched False path s = Some (RouteLoading, path')"
    by (auto simp: render_route_def routes_def PublicRoute_def ProtectedRoute_def AdminRoute_def m)
qed

definition exact_router :: "string \<Rightarrow> string" where
  "exact_router path = (if path \<in> set (map fst routes) then path else ''*'')"

theorem redirects_settle_witness:
  "\<exists>path'. follow 2 exact_router True ''/admin'' (session (page_load empty_storage)) = Some (Shows Login_page, path')"
proof -
  have "router_ok exact_router" by (simp add: router_ok_def exact_router_def routes_def)
  then have "\<exists>path'. follow 2 exact_router True ''/admin'' (session (page_load empty_storage)) =
      Some (Shows (destination (exact_router ''/admin'') (signed (session (page_load empty_storage)))
        (admin (session (page_load empty_storage)))), path')"
    by (rule redirects_settle [THEN conjunct1])
  moreover have "\<not> signed (session (page_load empty_storage))"
    by (simp add: signed_def isAuthenticated_def page_load_def session_defs)
  moreover have "exact_router ''/admin'' = ''/admin''" by (simp add: exact_router_def routes_def)
  ultimately show ?thesis by (simp add: destination_def)
qed

subsection \<open>The restoration of the session\<close>

text \<open>The pages are held back only while the restoration is under way.\<close>

fun restoring :: "task \<Rightarrow> bool" where
  "restoring Restoring = True"
| "restoring (Restored b) = True"
| "restoring (Done out) = True"
| "restoring tk = False"

definition app_ok :: "AppState \<Rightarrow> bool" where
  "app_ok a \<longleftrightarrow> authReady a \<or> (\<exists>i. app_restore a = Some i \<and> i < length (tasks (app_client a)) \<and> restoring (tasks (app_client a) ! i))"

lemma restoring_update: "restoring (ts ! j) \<Longrightarrow> (i = j \<Longrightarrow> restoring tk) \<Longrightarrow> restoring (ts[i := tk] ! j)"
  by (cases "i < length ts"; cases "i = j") (simp_all add: list_update_beyond)

lemma restoring_net:
  assumes "j < length (tasks c)" and "restoring (tasks c ! j)" and "net_event e"
  shows "j < length (tasks (session_step t c e)) \<and> restoring (tasks (session_step t c e) ! j)"
proof (cases e)
  case (Fetch_settles i out)
  then show ?thesis
    using assms by (cases "tasks c ! i"; cases out) (auto simp: on_fetch_def intro!: restoring_update)
next
  case (Body_read i)
  then show ?thesis
    using assms by (cases "tasks c ! i") (auto simp: on_body_def case_prod_beta Let_def intro!: restoring_update)
next
  case (Refresh_settles out)
  then show ?thesis using assms by (simp add: on_refresh_def case_prod_beta)
next
  case Refresh_finally
  have "restoring tk \<Longrightarrow> restoring (wake b tk)" for tk b by (cases tk) simp_all
  then show ?thesis using Refresh_finally assms by (auto simp: on_finally_def split: refresh.split)
next
  case (Resume i)
  then show ?thesis
    using assms by (cases "tasks c ! i") (auto simp: on_resume_def case_prod_beta intro!: restoring_update)
qed (use assms in simp_all)

lemma app_ok_App: "app_ok (App c title)"
proof -
  have "tasks (refreshSession c) = tasks c" for c by (simp add: refreshSession_def)
  then show ?thesis
    by (auto simp: App_def app_ok_def call_restore_def case_prod_beta Let_def)
qed

lemma app_step_ok: "app_ok a \<Longrightarrow> app_ok (app_step t a e)"
proof (cases e)
  case (App_net f)
  assume "app_ok a"
  then show ?thesis using App_net restoring_net [of _ "app_client a" f t] by (auto simp: app_ok_def)
next
  case App_restored
  assume "app_ok a"
  then show ?thesis using App_restored by (auto simp: app_ok_def restore_settled_def split: option.split task.split)
qed (simp_all add: app_ok_def)

interpretation app: event_machine "app_step t" app_ok for t
  by unfold_locales (rule app_step_ok)

lemma pages_appear:
  assumes "a = foldl (app_step t) (App c title) es" and "\<not> authReady a"
    and "list_all (\<lambda>tk. \<exists>out. tk = Done out) (tasks (app_client a))"
  shows "authReady (app_step t a App_restored)"
proof -
  have "app_ok a" using app.run_inv [OF app_ok_App] unfolding assms(1) .
  then obtain i where "app_restore a = Some i" "i < length (tasks (app_client a))" using assms(2) by (auto simp: app_ok_def)
  moreover from this obtain out where "tasks (app_client a) ! i = Done out" using assms(3) by (auto simp: list_all_length)
  ultimately show ?thesis by (simp add: restore_settled_def)
qed

end
