(* ===== verification/BillingCalendar.thy ===== *)
theory BillingCalendar
  imports Calendar Lifecycle
begin

text \<open>
  The pure part of the calendar page, \<open>web/src/features/calendar/calendar-page.tsx\<close>: on which days of a
  month a subscription bills, and the grid of the month.  A local \<open>Date\<close> at midnight is its day number,
  as in \<open>Calendar\<close>.  The two loops of \<open>getBillingDatesInMonth\<close> move a cursor by
  \<open>addInterval\<close>; they are partial functions, so \<open>None\<close> is a page that never answers.

  \<open>new Date(text + "T00:00:00")\<close> of a valid date-only text is that day; other texts are left to the
  parameter \<open>date_parse\<close>, which gives the local day of the parsed instant.  Days are unbounded here;
  the range of \<open>Date\<close> is not modelled.
\<close>

subsection \<open>Dates\<close>

definition local_midnight :: "(string \<Rightarrow> int option) \<Rightarrow> string \<Rightarrow> int option" where
  "local_midnight date_parse v =
     (case match_date_only v of
        Some (y, m, d) \<Rightarrow>
          if length v = 10 \<and> valid_date (digits_int y) (digits_int m) (digits_int d)
          then Some (make_day (digits_int y) (digits_int m - 1) (digits_int d)) else date_parse (v @ ''T00:00:00'')
      | None \<Rightarrow> date_parse (v @ ''T00:00:00''))"

text \<open>\<open>setDate\<close>, \<open>setMonth\<close> and \<open>setFullYear\<close> on a local midnight; another unit leaves
  the date as it is.\<close>

definition addInterval :: "int \<Rightarrow> int \<Rightarrow> string \<Rightarrow> int" where
  "addInterval t cnt unit =
     (if unit = ''day'' then t + cnt
      else if unit = ''week'' then t + cnt * 7
      else if unit = ''month'' then make_day (year_from_day t) (month_from_day t + cnt) (date_from_day t)
      else if unit = ''year'' then make_day (year_from_day t + cnt) (month_from_day t) (date_from_day t)
      else t)"

definition days_in_view :: "int \<Rightarrow> int \<Rightarrow> int" where
  "days_in_view year viewMonth = date_from_day (date_utc year (viewMonth + 1) 0)"

text \<open>A \<open>Set\<close> of JavaScript keeps the order of insertion.\<close>

definition set_add :: "'a \<Rightarrow> 'a list \<Rightarrow> 'a list" where
  "set_add x xs = (if x \<in> set xs then xs else xs @ [x])"

subsection \<open>getBillingDatesInMonth\<close>

partial_function (option) rewind_cursor :: "int \<Rightarrow> string \<Rightarrow> int \<Rightarrow> int \<Rightarrow> int option" where
  "rewind_cursor cnt unit monthEnd cursor =
     (if monthEnd < cursor then rewind_cursor cnt unit monthEnd (addInterval cursor (- cnt) unit) else Some cursor)"

partial_function (option) advance_cursor :: "int \<Rightarrow> string \<Rightarrow> int \<Rightarrow> int \<Rightarrow> int \<Rightarrow> int list \<Rightarrow> int list option" where
  "advance_cursor cnt unit monthStart monthEnd cursor days =
     (if cursor \<le> monthEnd
      then advance_cursor cnt unit monthStart monthEnd (addInterval cursor cnt unit)
        (if monthStart \<le> cursor then set_add (date_from_day cursor) days else days)
      else Some days)"

declare rewind_cursor.simps [code] advance_cursor.simps [code]

definition interval_days :: "int \<Rightarrow> string \<Rightarrow> int \<Rightarrow> int \<Rightarrow> int \<Rightarrow> int list option" where
  "interval_days cnt unit year viewMonth cursor =
     (let monthStart = date_utc year viewMonth 1; monthEnd = date_utc year viewMonth (days_in_view year viewMonth)
      in Option.bind (rewind_cursor cnt unit monthEnd cursor)
           (\<lambda>c. advance_cursor cnt unit monthStart monthEnd c []))"

definition getBillingDatesInMonth :: "(string \<Rightarrow> int option) \<Rightarrow> Subscription \<Rightarrow> int \<Rightarrow> int \<Rightarrow> int list option" where
  "getBillingDatesInMonth date_parse sub year viewMonth =
     (let daysInMonth = days_in_view year viewMonth in
      if \<not> hasFutureCharge sub then Some []
      else if \<not> hasFutureRecurringSchedule sub then
        (if \<not> truthy_str (sub_next_billing_date sub) then Some []
         else case local_midnight date_parse (the (sub_next_billing_date sub)) of
             None \<Rightarrow> Some []
           | Some d \<Rightarrow> Some (if year_from_day d = year \<and> month_from_day d = viewMonth then [date_from_day d] else []))
      else if sub_recurrence_type sub = ''monthly_date'' \<and> sub_monthly_day sub \<noteq> None then
        (let day = the (sub_monthly_day sub)
         in Some (if 1 \<le> day \<and> day \<le> daysInMonth then [day] else if daysInMonth < day then [daysInMonth] else []))
      else if sub_recurrence_type sub = ''yearly_date'' \<and> sub_yearly_month sub \<noteq> None \<and> sub_yearly_day sub \<noteq> None then
        Some (if the (sub_yearly_month sub) - 1 = viewMonth then [min (the (sub_yearly_day sub)) daysInMonth] else [])
      else if sub_recurrence_type sub = ''interval'' \<and> truthy_str (sub_next_billing_date sub) then
        (let cnt = nullish (sub_interval_count sub) 1
         in if cnt \<le> 0 then Some []
            else case local_midnight date_parse (the (sub_next_billing_date sub)) of
                None \<Rightarrow> Some []
              | Some cursor \<Rightarrow> interval_days cnt (sub_interval_unit sub) year viewMonth cursor)
      else Some [])"

subsection \<open>The grid\<close>

definition weekday :: "int \<Rightarrow> int" where
  "weekday t = (t + 4) mod 7"

definition buildCalendarGrid :: "int \<Rightarrow> int \<Rightarrow> int option list" where
  "buildCalendarGrid year viewMonth =
     (let firstDay = weekday (date_utc year viewMonth 1);
          daysInMonth = days_in_view year viewMonth;
          cells = replicate (nat firstDay) None @ map Some [1..daysInMonth]
      in cells @ replicate (42 - length cells) None)"

subsection \<open>Months as numbers\<close>

text \<open>The day before the first of the \<open>k\<close>-th month, counted from January of the year 0, and the month of a day.\<close>

definition month_base :: "int \<Rightarrow> int" where
  "month_base k = make_day 0 k 0"

definition month_index :: "int \<Rightarrow> int" where
  "month_index t = 12 * year_from_day t + month_from_day t"

lemma make_day_base: "make_day y m d = month_base (12 * y + m) + d"
proof -
  have "(12 * y + m) div 12 = y + m div 12" by simp
  moreover have "(12 * y + m) mod 12 = m mod 12" by simp
  ultimately show ?thesis by (simp add: month_base_def make_day_def Let_def)
qed

lemma month_from_day_range: "0 \<le> month_from_day t" "month_from_day t \<le> 11"
  using month_of_range by (simp_all add: month_from_day_def Let_def)

lemma day_base: "month_base (month_index t) + date_from_day t = t"
  using make_day_decompose [of t] by (simp add: make_day_base month_index_def)

lemma days_in_month_range: "0 \<le> m \<Longrightarrow> m \<le> 11 \<Longrightarrow> 28 \<le> days_in_month y m \<and> days_in_month y m \<le> 31"
  by (drule (1) twelve) (elim disjE; simp add: days_in_month_def month_start_def)

lemma month_base_step: "month_base (k + 1) = month_base k + days_in_month (k div 12) (k mod 12)"
proof -
  define y m where "y = k div 12" and "m = k mod 12"
  have k: "k = 12 * y + m" and m: "0 \<le> m" "m \<le> 11" unfolding y_def m_def by simp_all
  show ?thesis
  proof (cases "m = 11")
    case True
    then have k': "k + 1 = 12 * (y + 1) + 0" "k = 12 * y + 11" using k by simp_all
    have "month_base (k + 1) = day_from_year (y + 1) - 1"
      using make_day_base [of "y + 1" 0 0] unfolding k'(1) by (simp add: make_day_def month_start_def)
    moreover have "month_base k = day_from_year y + month_start (leap_year y) 11 - 1"
      using make_day_base [of y 11 0] unfolding k'(2) by (simp add: make_day_def)
    ultimately show ?thesis
      using year_length [of y] True unfolding y_def [symmetric] m_def [symmetric]
      by (simp add: days_in_month_def month_start_def split: if_splits)
  next
    case False
    then have mm: "(m + 1) div 12 = 0" "(m + 1) mod 12 = m + 1" "m div 12 = 0" "m mod 12 = m"
      using m by auto
    have "month_base (12 * y + (m + 1)) = month_base (12 * y + m) + days_in_month y m"
      using make_day_base [of y "m + 1" 0] make_day_base [of y m 0] by (simp add: make_day_def mm days_in_month_def)
    then show ?thesis unfolding y_def [symmetric] m_def [symmetric] unfolding k by (simp add: add.assoc)
  qed
qed

lemma month_base_gap: "28 \<le> month_base (k + 1) - month_base k \<and> month_base (k + 1) - month_base k \<le> 31"
  using days_in_month_range [of "k mod 12" "k div 12"] by (simp add: month_base_step)

lemma month_base_less: "j < k \<Longrightarrow> month_base j + 28 \<le> month_base k"
proof -
  have "month_base j + 28 \<le> month_base (j + 1 + int n)" for n
  proof (induction n)
    case 0 show ?case using month_base_gap [of j] by simp
  next
    case (Suc n)
    then show ?case using month_base_gap [of "j + 1 + int n"] by (simp add: add.assoc algebra_simps)
  qed
  from this [of "nat (k - j - 1)"] show "j < k \<Longrightarrow> month_base j + 28 \<le> month_base k" by simp
qed

lemma month_base_less_iff: "month_base j < month_base k \<longleftrightarrow> j < k"
  using month_base_less [of j k] month_base_less [of k j] by (cases j k rule: linorder_cases) auto

lemma day_in_month:
  assumes "1 \<le> d" "month_base k + d \<le> month_base (k + 1)"
  shows "month_index (month_base k + d) = k" and "date_from_day (month_base k + d) = d"
proof -
  define y m where "y = k div 12" and "m = k mod 12"
  have k: "k = 12 * y + m" and m: "0 \<le> m" "m \<le> 11" unfolding y_def m_def by simp_all
  have v: "valid_date y (m + 1) d" using assms m by (simp add: valid_date_def month_base_step y_def m_def)
  have e: "make_day y m d = month_base k + d" unfolding make_day_base k ..
  show "month_index (month_base k + d) = k" "date_from_day (month_base k + d) = d"
    using decompose_make_day [OF v] k by (simp_all add: e month_index_def)
qed

lemma addInterval_month: "addInterval t n ''month'' = month_base (month_index t + n) + date_from_day t"
  by (simp add: addInterval_def make_day_base month_index_def add.assoc)

lemma addInterval_year: "addInterval t n ''year'' = month_base (month_index t + 12 * n) + date_from_day t"
  by (simp add: addInterval_def make_day_base month_index_def algebra_simps)

lemma month_move:
  assumes "j < k"
  shows "month_base (i + j) + d < month_base (i + k) + d"
  using month_base_less [of "i + j" "i + k"] assms by simp

lemma addInterval_zero: "addInterval t 0 unit = t"
  using day_base [of t] by (simp add: addInterval_def make_day_base month_index_def)

definition known_unit :: "string \<Rightarrow> bool" where
  "known_unit unit \<longleftrightarrow> unit = ''day'' \<or> unit = ''week'' \<or> unit = ''month'' \<or> unit = ''year''"

lemma addInterval_less:
  assumes "known_unit unit" "m < n"
  shows "addInterval t m unit < addInterval t n unit"
  using assms month_move [of m n] month_move [of "12 * m" "12 * n"]
  unfolding known_unit_def
  by (elim disjE) (simp_all add: addInterval_month addInterval_year, simp_all add: addInterval_def)

lemma addInterval_forward: "known_unit unit \<Longrightarrow> 0 < n \<Longrightarrow> t < addInterval t n unit"
  using addInterval_less [of unit 0 n t] by (simp add: addInterval_zero)

lemma addInterval_back: "known_unit unit \<Longrightarrow> 0 < n \<Longrightarrow> addInterval t (- n) unit < t"
  using addInterval_less [of unit "- n" 0 t] by (simp add: addInterval_zero)

lemma addInterval_unknown: "\<not> known_unit unit \<Longrightarrow> addInterval t n unit = t"
  by (simp add: known_unit_def addInterval_def)

subsection \<open>The loops\<close>

lemma rewind_returns:
  assumes "known_unit unit" "0 < n"
  shows "\<exists>c'. rewind_cursor n unit e c = Some c' \<and> c' \<le> e"
proof (induction "nat (c - e)" arbitrary: c rule: less_induct)
  case less
  show ?case
  proof (cases "e < c")
    case True
    let ?c = "addInterval c (- n) unit"
    have "nat (?c - e) < nat (c - e)" using addInterval_back [OF assms, of c] True by simp
    then have "\<exists>c'. rewind_cursor n unit e ?c = Some c' \<and> c' \<le> e" by (rule less)
    with True show ?thesis by (subst rewind_cursor.simps) simp
  qed (subst rewind_cursor.simps, simp)
qed

lemma advance_returns:
  assumes "known_unit unit" "0 < n"
  shows "\<exists>ds. advance_cursor n unit s e c days = Some ds"
proof (induction "nat (e + 1 - c)" arbitrary: c days rule: less_induct)
  case less
  show ?case
  proof (cases "c \<le> e")
    case True
    let ?c = "addInterval c n unit"
    have "nat (e + 1 - ?c) < nat (e + 1 - c)" using addInterval_forward [OF assms, of c] True by simp
    note less [OF this, of "if s \<le> c then set_add (date_from_day c) days else days"]
    with True show ?thesis by (subst advance_cursor.simps) simp
  qed (subst advance_cursor.simps, simp)
qed

lemma rewind_upto: "rewind_cursor n unit e c = Some c' \<Longrightarrow> c' \<le> e"
  by (rule rewind_cursor.raw_induct [where P = "\<lambda>n unit e c c'. c' \<le> e"]) (auto split: if_splits)

lemma advance_beyond: "advance_cursor n unit s e c days = Some ds \<Longrightarrow> \<not> known_unit unit \<longrightarrow> e < c"
proof (rule advance_cursor.raw_induct [where P = "\<lambda>n unit s e c days ds. \<not> known_unit unit \<longrightarrow> e < c"])
  fix f n unit s e c days ds
  assume IH: "\<And>n unit s e c days ds. f n unit s e c days = Some ds \<Longrightarrow> \<not> known_unit unit \<longrightarrow> e < c"
    and b: "(if c \<le> e then f n unit s e (addInterval c n unit) (if s \<le> c then set_add (date_from_day c) days else days)
      else Some days) = Some ds"
  show "\<not> known_unit unit \<longrightarrow> e < c"
  proof (cases "c \<le> e")
    case True
    with b show ?thesis using IH by (metis addInterval_unknown)
  qed simp
qed

lemma interval_days_hangs:
  assumes n: "0 < n"
  shows "interval_days n unit y m c = None \<longleftrightarrow> \<not> known_unit unit"
proof (cases "known_unit unit")
  case True
  let ?e = "date_utc y m (days_in_view y m)"
  obtain c' where "rewind_cursor n unit ?e c = Some c'" using rewind_returns [OF True n] by blast
  moreover obtain ds where "advance_cursor n unit (date_utc y m 1) ?e c' [] = Some ds"
    using advance_returns [OF True n] by blast
  ultimately show ?thesis using True by (simp add: interval_days_def Let_def)
next
  case False
  have "advance_cursor n unit s e c' ds = None" if "rewind_cursor n unit e c = Some c'" for s e c' ds
    using rewind_upto [OF that] advance_beyond [of n unit s e c' ds] False by (cases "advance_cursor n unit s e c' ds") auto
  then have "interval_days n unit y m c = None"
    by (cases "rewind_cursor n unit (date_utc y m (days_in_view y m)) c") (simp_all add: interval_days_def Let_def)
  with False show ?thesis by simp
qed

text \<open>C29: the calendar answers for every subscription except one: a recurring schedule with an interval of
  a unit other than day, week, month and year, for which \<open>addInterval\<close> does not move and the loops
  of \<open>getBillingDatesInMonth\<close> never end.\<close>

theorem billing_dates_returned:
  "getBillingDatesInMonth date_parse sub year viewMonth = None \<longleftrightarrow>
     hasFutureRecurringSchedule sub \<and> sub_recurrence_type sub = ''interval''
     \<and> truthy_str (sub_next_billing_date sub)
     \<and> local_midnight date_parse (the (sub_next_billing_date sub)) \<noteq> None
     \<and> 0 < nullish (sub_interval_count sub) 1 \<and> \<not> known_unit (sub_interval_unit sub)"
  using schedule_imp_charge [of sub] interval_days_hangs
  by (auto simp: getBillingDatesInMonth_def Let_def split: option.splits)

subsection \<open>Schedules\<close>

text \<open>What the loops need of a unit: the occurrences of a schedule that starts on a day \<open>a\<close> of a set
  \<open>steady\<close>, in strictly rising order, with \<open>addInterval\<close> moving from each to its neighbours.\<close>

locale schedule =
  fixes unit :: string and steady :: "int \<Rightarrow> bool" and occ :: "int \<Rightarrow> int \<Rightarrow> int \<Rightarrow> int"
  assumes occ_start: "occ a n 0 = a"
    and occ_move: "steady a \<Longrightarrow> addInterval (occ a n k) (n * j) unit = occ a n (k + j)"
    and occ_step: "0 < n \<Longrightarrow> occ a n k < occ a n (k + 1)"
begin

lemma occ_less: "0 < n \<Longrightarrow> j < k \<Longrightarrow> occ a n j < occ a n k"
proof -
  assume n: "0 < n"
  have "occ a n j < occ a n (j + 1 + int i)" for i
  proof (induction i)
    case 0 show ?case using occ_step [OF n, of a j] by simp
  next
    case (Suc i)
    have "occ a n (j + 1 + int i) < occ a n (j + 1 + int i + 1)" using occ_step [OF n] .
    with Suc show ?case by (simp add: algebra_simps)
  qed
  from this [of "nat (k - j - 1)"] show "j < k \<Longrightarrow> occ a n j < occ a n k" by simp
qed

lemma occ_less_iff: "0 < n \<Longrightarrow> occ a n j < occ a n k \<longleftrightarrow> j < k"
  using occ_less [of n j k a] occ_less [of n k j a] by (cases j k rule: linorder_cases) auto

lemma occ_back: "steady a \<Longrightarrow> addInterval (occ a n k) (- n) unit = occ a n (k - 1)"
  using occ_move [of a n k "- 1"] by simp

lemma occ_forth: "steady a \<Longrightarrow> addInterval (occ a n k) n unit = occ a n (k + 1)"
  using occ_move [of a n k 1] by simp

lemma rewind_occ:
  assumes a: "steady a" and n: "0 < n" and k: "k \<le> 0" "k = 0 \<or> e < occ a n (k + 1)"
  shows "\<exists>j \<le> k. rewind_cursor n unit e (occ a n k) = Some (occ a n j) \<and> occ a n j \<le> e
    \<and> (j = 0 \<or> e < occ a n (j + 1))"
  using k
proof (induction "nat (occ a n k - e)" arbitrary: k rule: less_induct)
  case less
  show ?case
  proof (cases "e < occ a n k")
    case True
    have "nat (occ a n (k - 1) - e) < nat (occ a n k - e)" using occ_step [OF n, of a "k - 1"] True by simp
    moreover have "k - 1 \<le> 0" "k - 1 = 0 \<or> e < occ a n (k - 1 + 1)" using less.prems True by simp_all
    ultimately obtain j where "j \<le> k - 1" "rewind_cursor n unit e (occ a n (k - 1)) = Some (occ a n j)"
      "occ a n j \<le> e" "j = 0 \<or> e < occ a n (j + 1)" using less.hyps by blast
    moreover have "rewind_cursor n unit e (occ a n k) = rewind_cursor n unit e (occ a n (k - 1))"
      using True by (subst rewind_cursor.simps) (simp add: occ_back [OF a])
    ultimately show ?thesis by (intro exI [of _ j]) simp
  next
    case False
    then have "rewind_cursor n unit e (occ a n k) = Some (occ a n k)" by (subst rewind_cursor.simps) simp
    with False less.prems show ?thesis by (intro exI [of _ k]) simp
  qed
qed

lemma advance_occ:
  assumes a: "steady a" and n: "0 < n"
  shows "\<exists>ds. advance_cursor n unit s e (occ a n k) days = Some ds
    \<and> set ds = set days \<union> {date_from_day (occ a n j) | j. k \<le> j \<and> s \<le> occ a n j \<and> occ a n j \<le> e}"
proof (induction "nat (e + 1 - occ a n k)" arbitrary: k days rule: less_induct)
  case less
  let ?D = "\<lambda>k. {date_from_day (occ a n j) | j. k \<le> j \<and> s \<le> occ a n j \<and> occ a n j \<le> e}"
  show ?case
  proof (cases "occ a n k \<le> e")
    case True
    let ?days = "if s \<le> occ a n k then set_add (date_from_day (occ a n k)) days else days"
    have "nat (e + 1 - occ a n (k + 1)) < nat (e + 1 - occ a n k)" using occ_step [OF n, of a k] True by simp
    then obtain ds where ds: "advance_cursor n unit s e (occ a n (k + 1)) ?days = Some ds"
      "set ds = set ?days \<union> ?D (k + 1)" using less by blast
    have "k \<le> j \<longleftrightarrow> j = k \<or> k + 1 \<le> j" for j by arith
    then have "?D k = (if s \<le> occ a n k then {date_from_day (occ a n k)} else {}) \<union> ?D (k + 1)"
      using True by auto
    then have "set ds = set days \<union> ?D k" using ds(2) by (auto simp: set_add_def)
    with ds(1) True show ?thesis by (subst advance_cursor.simps) (simp add: occ_forth [OF a])
  next
    case False
    have "occ a n k \<le> occ a n j" if "k \<le> j" for j using occ_less_iff [OF n, of a j k] that by simp
    with False have "?D k = {}" by (auto dest: order_trans)
    then have "set days = set days \<union> ?D k" by (simp only: Un_empty_right)
    moreover have "advance_cursor n unit s e (occ a n k) days = Some days" using False by (subst advance_cursor.simps) simp
    ultimately show ?thesis by metis
  qed
qed

lemma occ_last:
  assumes n: "0 < n"
  shows "e < occ a n (j + 1) \<longleftrightarrow> (\<forall>t. occ a n j < t \<and> t \<le> e \<longrightarrow> (\<nexists>k. t = occ a n k))"
proof
  assume e: "e < occ a n (j + 1)"
  show "\<forall>t. occ a n j < t \<and> t \<le> e \<longrightarrow> (\<nexists>k. t = occ a n k)"
  proof (intro allI impI notI, elim conjE exE)
    fix t k assume t: "occ a n j < t" "t \<le> e" "t = occ a n k"
    then have "j < k" "k < j + 1" using e occ_less_iff [OF n, of a j k] occ_less_iff [OF n, of a k "j + 1"] by simp_all
    then show False by simp
  qed
next
  assume "\<forall>t. occ a n j < t \<and> t \<le> e \<longrightarrow> (\<nexists>k. t = occ a n k)"
  then show "e < occ a n (j + 1)" using occ_step [OF n, of a j] by (metis not_less)
qed

text \<open>The loops collect the occurrences from the start on; when the start lies behind the month, only the
  last occurrence before the end of the month.\<close>

lemma loops_collect:
  assumes a: "steady a" and n: "0 < n"
  shows "\<exists>ds. Option.bind (rewind_cursor n unit e a) (\<lambda>c. advance_cursor n unit s e c []) = Some ds
    \<and> set ds = {date_from_day t | t. s \<le> t \<and> t \<le> e \<and> (\<exists>k. t = occ a n k)
        \<and> (a \<le> t \<or> e < a \<and> (\<forall>t'. t < t' \<and> t' \<le> e \<longrightarrow> (\<nexists>k. t' = occ a n k)))}"
proof -
  obtain j where j: "j \<le> 0" "rewind_cursor n unit e a = Some (occ a n j)" "occ a n j \<le> e"
    "j = 0 \<or> e < occ a n (j + 1)"
    using rewind_occ [OF a n, of 0 e] by (auto simp: occ_start)
  obtain ds where ds: "advance_cursor n unit s e (occ a n j) [] = Some ds"
    "set ds = {date_from_day (occ a n i) | i. j \<le> i \<and> s \<le> occ a n i \<and> occ a n i \<le> e}"
    using advance_occ [OF a n, of s e j "[]"] by auto
  have lt: "a \<le> occ a n i \<longleftrightarrow> 0 \<le> i" for i
    using occ_less_iff [OF n, of a i 0] by (auto simp: occ_start not_less [symmetric])
  have "j \<le> i \<longleftrightarrow> a \<le> occ a n i \<or> e < a \<and> e < occ a n (i + 1)" if i: "occ a n i \<le> e" for i
  proof (cases "j = 0")
    case True
    then show ?thesis using j(3) by (simp add: lt occ_start)
  next
    case False
    with j(4) have e: "e < occ a n (j + 1)" by simp
    have "i < j + 1" using i e occ_less_iff [OF n, of a i "j + 1"] by simp
    moreover have "e < a" using e j(1) False occ_less_iff [OF n, of a "j + 1" 0] lt [of "j + 1"]
      occ_start [of a n] by (cases "j + 1 = 0") auto
    moreover have "e < occ a n (i + 1) \<longleftrightarrow> j \<le> i"
      using e j(3) occ_less_iff [OF n, of a j "i + 1"] \<open>i < j + 1\<close> by (cases "i = j") auto
    ultimately show ?thesis using lt [of i] False j(1) by auto
  qed
  then have "set ds = {date_from_day (occ a n i) | i. s \<le> occ a n i \<and> occ a n i \<le> e
        \<and> (a \<le> occ a n i \<or> e < a \<and> e < occ a n (i + 1))}" unfolding ds(2) by blast
  also have "\<dots> = {date_from_day t | t. s \<le> t \<and> t \<le> e \<and> (\<exists>k. t = occ a n k)
        \<and> (a \<le> t \<or> e < a \<and> (\<forall>t'. t < t' \<and> t' \<le> e \<longrightarrow> (\<nexists>k. t' = occ a n k)))}"
    unfolding occ_last [OF n] by blast
  finally show ?thesis using j(2) ds(1) by simp
qed

end

text \<open>The rule of a schedule: \<open>t\<close> is a whole number of intervals from the start \<open>a\<close>.\<close>

definition on_schedule :: "string \<Rightarrow> int \<Rightarrow> int \<Rightarrow> int \<Rightarrow> bool" where
  "on_schedule unit n a t =
     (if unit = ''day'' then (t - a) mod n = 0
      else if unit = ''week'' then (t - a) mod (7 * n) = 0
      else if unit = ''month'' then date_from_day t = date_from_day a \<and> (month_index t - month_index a) mod n = 0
      else unit = ''year'' \<and> date_from_day t = date_from_day a \<and> (month_index t - month_index a) mod (12 * n) = 0)"

text \<open>Starts whose day of the month exists in every month that the schedule reaches.\<close>

definition steady_start :: "string \<Rightarrow> int \<Rightarrow> bool" where
  "steady_start unit a \<longleftrightarrow> (unit = ''month'' \<longrightarrow> date_from_day a \<le> 28)
     \<and> (unit = ''year'' \<longrightarrow> date_from_day a \<le> 28 \<or> month_from_day a \<noteq> 1)"

lemma date_from_day_range: "1 \<le> date_from_day t \<and> month_base (month_index t) + date_from_day t \<le> month_base (month_index t + 1)"
proof -
  have "month_index t div 12 = year_from_day t" "month_index t mod 12 = month_from_day t"
    using month_from_day_range [of t] by (simp_all add: month_index_def)
  then show ?thesis using decompose_valid [of t] by (simp add: month_base_step valid_date_def)
qed

lemma month_day_steady:
  assumes "date_from_day a \<le> 28"
  shows "month_index (month_base k + date_from_day a) = k" "date_from_day (month_base k + date_from_day a) = date_from_day a"
  using day_in_month [of "date_from_day a" k] date_from_day_range [of a] month_base_gap [of k] assms by simp_all

lemma days_in_month_year: "m \<noteq> 1 \<Longrightarrow> days_in_month y m = days_in_month y' m"
  by (simp add: days_in_month_def month_start_def)

lemma year_day_steady:
  assumes "date_from_day a \<le> 28 \<or> month_from_day a \<noteq> 1"
  shows "month_index (month_base (month_index a + 12 * k) + date_from_day a) = month_index a + 12 * k"
    "date_from_day (month_base (month_index a + 12 * k) + date_from_day a) = date_from_day a"
proof -
  let ?k = "month_index a + 12 * k"
  have m: "month_index a mod 12 = month_from_day a" "month_index a div 12 = year_from_day a"
    using month_from_day_range [of a] by (simp_all add: month_index_def)
  have "?k mod 12 = month_from_day a" using m by simp
  then have "date_from_day a \<le> days_in_month (?k div 12) (?k mod 12)"
    using assms days_in_month_range [of "month_from_day a" "?k div 12"] month_from_day_range [of a]
      decompose_valid [of a] days_in_month_year [of "month_from_day a" "?k div 12" "year_from_day a"]
    by (auto simp: valid_date_def)
  then have r: "1 \<le> date_from_day a" "month_base ?k + date_from_day a \<le> month_base (?k + 1)"
    using date_from_day_range [of a] by (simp_all add: month_base_step)
  show "month_index (month_base ?k + date_from_day a) = ?k"
    "date_from_day (month_base ?k + date_from_day a) = date_from_day a"
    using day_in_month [OF r] by simp_all
qed

interpretation daily: schedule "''day''" "steady_start ''day''" "\<lambda>a n k. a + n * k"
  by unfold_locales (simp_all add: addInterval_def algebra_simps)

interpretation weekly: schedule "''week''" "steady_start ''week''" "\<lambda>a n k. a + 7 * n * k"
  by unfold_locales (simp_all add: addInterval_def algebra_simps)

lemma move_month:
  assumes "steady_start ''month'' a"
  shows "addInterval (month_base (month_index a + n * k) + date_from_day a) (n * j) ''month''
    = month_base (month_index a + n * (k + j)) + date_from_day a"
  using assms by (simp add: addInterval_month steady_start_def month_day_steady distrib_left add.assoc)

lemma move_year:
  assumes "steady_start ''year'' a"
  shows "addInterval (month_base (month_index a + 12 * (n * k)) + date_from_day a) (n * j) ''year''
    = month_base (month_index a + 12 * (n * (k + j))) + date_from_day a"
  using assms by (simp add: addInterval_year steady_start_def year_day_steady distrib_left add.assoc)

interpretation monthly: schedule "''month''" "steady_start ''month''"
  "\<lambda>a n k. month_base (month_index a + n * k) + date_from_day a"
  by unfold_locales (simp_all add: day_base move_month month_base_less_iff)

interpretation yearly: schedule "''year''" "steady_start ''year''"
  "\<lambda>a n k. month_base (month_index a + 12 * (n * k)) + date_from_day a"
  by unfold_locales (simp_all add: day_base move_year month_base_less_iff)

lemma multiple_iff: "(\<exists>k. (t::int) = a + m * k) \<longleftrightarrow> (t - a) mod m = 0"
proof
  assume "(t - a) mod m = 0"
  then show "\<exists>k. t = a + m * k" by (intro exI [of _ "(t - a) div m"]) (metis add.commute add.right_neutral diff_add_cancel mult_div_mod_eq)
qed auto

lemma base_occurs_iff:
  assumes "\<And>k. month_index (month_base (i + m * k) + d) = i + m * k" "\<And>k. date_from_day (month_base (i + m * k) + d) = d"
  shows "(\<exists>k. t = month_base (i + m * k) + d) \<longleftrightarrow> date_from_day t = d \<and> (month_index t - i) mod m = 0"
proof
  assume t: "date_from_day t = d \<and> (month_index t - i) mod m = 0"
  then have "\<exists>k. month_index t = i + m * k" by (simp only: multiple_iff)
  then obtain k where "month_index t = i + m * k" ..
  with t show "\<exists>k. t = month_base (i + m * k) + d" using day_base [of t] by (intro exI [of _ k]) simp
qed (use assms in auto)

lemma occurs_iff:
  assumes "steady_start unit a"
  shows "unit = ''day'' \<Longrightarrow> (\<exists>k. t = a + n * k) \<longleftrightarrow> on_schedule unit n a t"
    and "unit = ''week'' \<Longrightarrow> (\<exists>k. t = a + 7 * n * k) \<longleftrightarrow> on_schedule unit n a t"
    and "unit = ''month'' \<Longrightarrow> (\<exists>k. t = month_base (month_index a + n * k) + date_from_day a) \<longleftrightarrow> on_schedule unit n a t"
    and "unit = ''year'' \<Longrightarrow>
      (\<exists>k. t = month_base (month_index a + 12 * (n * k)) + date_from_day a) \<longleftrightarrow> on_schedule unit n a t"
proof -
  show "unit = ''day'' \<Longrightarrow> (\<exists>k. t = a + n * k) \<longleftrightarrow> on_schedule unit n a t"
    "unit = ''week'' \<Longrightarrow> (\<exists>k. t = a + 7 * n * k) \<longleftrightarrow> on_schedule unit n a t"
    by (simp_all only: multiple_iff) (simp_all add: on_schedule_def)
  show "unit = ''month'' \<Longrightarrow> (\<exists>k. t = month_base (month_index a + n * k) + date_from_day a) \<longleftrightarrow> on_schedule unit n a t"
    using assms base_occurs_iff [of "month_index a" n "date_from_day a" t]
    by (simp add: on_schedule_def steady_start_def month_day_steady)
  show "unit = ''year'' \<Longrightarrow>
      (\<exists>k. t = month_base (month_index a + 12 * (n * k)) + date_from_day a) \<longleftrightarrow> on_schedule unit n a t"
    using assms base_occurs_iff [of "month_index a" "12 * n" "date_from_day a" t]
    by (simp add: on_schedule_def steady_start_def year_day_steady mult.assoc)
qed

text \<open>The days that the loops find, in terms of the rule.\<close>

definition shown_until :: "string \<Rightarrow> int \<Rightarrow> int \<Rightarrow> int \<Rightarrow> int \<Rightarrow> bool" where
  "shown_until unit n a e t \<longleftrightarrow> on_schedule unit n a t
     \<and> (a \<le> t \<or> e < a \<and> (\<forall>t'. t < t' \<and> t' \<le> e \<longrightarrow> \<not> on_schedule unit n a t'))"

lemma loops_shown:
  assumes a: "steady_start unit a" and u: "known_unit unit" and n: "0 < n"
  shows "\<exists>ds. Option.bind (rewind_cursor n unit e a) (\<lambda>c. advance_cursor n unit s e c []) = Some ds
    \<and> set ds = {date_from_day t | t. s \<le> t \<and> t \<le> e \<and> shown_until unit n a e t}"
  using u unfolding known_unit_def
proof (elim disjE)
  assume u: "unit = ''day''"
  show ?thesis using daily.loops_collect [of a n e s] a n unfolding occurs_iff(1) [OF a u] shown_until_def u by simp
next
  assume u: "unit = ''week''"
  show ?thesis using weekly.loops_collect [of a n e s] a n unfolding occurs_iff(2) [OF a u] shown_until_def u by simp
next
  assume u: "unit = ''month''"
  show ?thesis using monthly.loops_collect [of a n e s] a n unfolding occurs_iff(3) [OF a u] shown_until_def u by simp
next
  assume u: "unit = ''year''"
  show ?thesis using yearly.loops_collect [of a n e s] a n unfolding occurs_iff(4) [OF a u] shown_until_def u by simp
qed

lemma days_in_view_month: "0 \<le> m \<Longrightarrow> m \<le> 11 \<Longrightarrow> 100 \<le> y \<Longrightarrow> days_in_view y m = days_in_month y m"
proof -
  assume m: "0 \<le> m" "m \<le> 11" and y: "100 \<le> y"
  let ?d = "days_in_month y m"
  have v: "valid_date y (m + 1) ?d" using m days_in_month_range [OF m, of y] by (simp add: valid_date_def)
  have b: "month_base (12 * y + (m + 1)) = month_base (12 * y + m) + ?d"
    using month_base_step [of "12 * y + m"] m by (simp add: add.assoc)
  have "make_day y (m + 1) 0 = make_day y m ?d" by (simp add: make_day_base b)
  then show "days_in_view y m = ?d"
    using decompose_make_day(3) [OF v] y by (simp add: days_in_view_def date_utc_def legacy_year_def)
qed

lemma view_days:
  assumes m: "0 \<le> m" "m \<le> 11" and y: "100 \<le> y" and t: "date_utc y m 1 \<le> t" "t \<le> date_utc y m (days_in_view y m)"
  shows "1 \<le> date_from_day t \<and> date_from_day t \<le> days_in_month y m \<and> t = make_day y m (date_from_day t)"
proof -
  let ?k = "12 * y + m" and ?d = "t - month_base (12 * y + m)"
  have b: "month_base (?k + 1) = month_base ?k + days_in_month y m" using month_base_step [of ?k] m by simp
  have d: "1 \<le> ?d" "?d \<le> days_in_month y m"
    using t y by (simp_all add: date_utc_def legacy_year_def make_day_base days_in_view_month [OF m y])
  then have "date_from_day t = ?d" using day_in_month(2) [of ?d ?k] b by simp
  with d show ?thesis by (simp add: make_day_base)
qed

text \<open>C30: the days that the calendar marks for a recurring schedule of an interval are exactly the days of the
  month that lie a whole number of intervals from the next billing date: from that date on when it is not
  after the month, and otherwise only the last one before the end of the month.  A monthly or yearly
  schedule must not start on a day that a month of it lacks.\<close>

theorem interval_days_shown:
  assumes "hasFutureRecurringSchedule sub" and "sub_recurrence_type sub = ''interval''"
    and "sub_next_billing_date sub = Some v" and "v \<noteq> []" and a: "local_midnight date_parse v = Some a"
    and "0 < nullish (sub_interval_count sub) 1" and "known_unit (sub_interval_unit sub)"
    and "steady_start (sub_interval_unit sub) a"
    and m: "0 \<le> viewMonth" "viewMonth \<le> 11" and y: "100 \<le> year"
  shows "\<exists>ds. getBillingDatesInMonth date_parse sub year viewMonth = Some ds \<and> (\<forall>d. d \<in> set ds \<longleftrightarrow>
    1 \<le> d \<and> d \<le> days_in_month year viewMonth
    \<and> shown_until (sub_interval_unit sub) (nullish (sub_interval_count sub) 1) a
        (make_day year viewMonth (days_in_month year viewMonth)) (make_day year viewMonth d))"
proof -
  let ?n = "nullish (sub_interval_count sub) 1" and ?u = "sub_interval_unit sub"
  let ?s = "date_utc year viewMonth 1" and ?e = "date_utc year viewMonth (days_in_view year viewMonth)"
  have e: "?e = make_day year viewMonth (days_in_month year viewMonth)" and s: "?s = make_day year viewMonth 1"
    using y by (simp_all add: days_in_view_month [OF m y] date_utc_def legacy_year_def)
  obtain ds where ds: "interval_days ?n ?u year viewMonth a = Some ds"
    "set ds = {date_from_day t | t. ?s \<le> t \<and> t \<le> ?e \<and> shown_until ?u ?n a ?e t}"
    using loops_shown [OF assms(8,7,6), of ?e ?s] by (auto simp: interval_days_def Let_def)
  have "getBillingDatesInMonth date_parse sub year viewMonth = Some ds"
    using assms ds(1) schedule_imp_charge [of sub] by (simp add: getBillingDatesInMonth_def truthy_str_def)
  moreover have "d \<in> set ds \<longleftrightarrow> 1 \<le> d \<and> d \<le> days_in_month year viewMonth
    \<and> shown_until ?u ?n a ?e (make_day year viewMonth d)" for d
  proof
    assume "d \<in> set ds"
    then obtain t where t: "d = date_from_day t" "?s \<le> t" "t \<le> ?e" "shown_until ?u ?n a ?e t" unfolding ds(2) by blast
    with view_days [OF m y t(2,3)] show "1 \<le> d \<and> d \<le> days_in_month year viewMonth
      \<and> shown_until ?u ?n a ?e (make_day year viewMonth d)" by simp
  next
    assume d: "1 \<le> d \<and> d \<le> days_in_month year viewMonth \<and> shown_until ?u ?n a ?e (make_day year viewMonth d)"
    have "valid_date year (viewMonth + 1) d" using d m by (simp add: valid_date_def)
    then have "date_from_day (make_day year viewMonth d) = d" using decompose_make_day(3) by fastforce
    moreover have "?s \<le> make_day year viewMonth d" "make_day year viewMonth d \<le> ?e"
      using d unfolding e s by (simp_all add: make_day_base)
    ultimately show "d \<in> set ds" using d unfolding ds(2) by (metis (mono_tags, lifting) mem_Collect_eq)
  qed
  ultimately show ?thesis unfolding e by blast
qed

text \<open>A weekly subscription that bills next on Wednesday, 5 February 2025.\<close>

definition weekly_sub :: Subscription where
  "weekly_sub = netflix\<lparr>sub_recurrence_type := ''interval'', sub_interval_count := Some 1, sub_interval_unit := ''week'',
     sub_next_billing_date := Some ''2025-02-05''\<rparr>"

theorem interval_days_shown_witness:
  "\<exists>ds. getBillingDatesInMonth (\<lambda>_. None) weekly_sub 2025 1 = Some ds \<and> 12 \<in> set ds \<and> 13 \<notin> set ds"
proof -
  have "\<exists>ds. getBillingDatesInMonth (\<lambda>_. None) weekly_sub 2025 1 = Some ds \<and> (\<forall>d. d \<in> set ds \<longleftrightarrow>
    1 \<le> d \<and> d \<le> days_in_month 2025 1 \<and> shown_until (sub_interval_unit weekly_sub)
      (nullish (sub_interval_count weekly_sub) 1) 20124
        (make_day 2025 1 (days_in_month 2025 1)) (make_day 2025 1 d))"
    by (rule interval_days_shown [of _ "''2025-02-05''"]; code_simp)
  moreover have "days_in_month 2025 1 = 28" "make_day 2025 1 28 = 20147" "make_day 2025 1 12 = 20131"
    "make_day 2025 1 13 = 20132" "sub_interval_unit weekly_sub = ''week''" "sub_interval_count weekly_sub = Some 1"
    by code_simp+
  ultimately show ?thesis by (auto simp: shown_until_def on_schedule_def)
qed

text \<open>Before the next billing date only the last day is marked, although the schedule bills every week, and a
  schedule that starts on the 31st moves to the 3rd of the month after a short one and stays there.\<close>

lemma weeks_before_are_missing:
  "getBillingDatesInMonth (\<lambda>_. None) weekly_sub 2025 0 = Some [29]"
  "\<forall>d \<in> {1, 8, 15, 22, 29}. on_schedule ''week'' 1 20124 (make_day 2025 0 d)"
  by code_simp+

lemma month_end_drifts:
  "map (getBillingDatesInMonth (\<lambda>_. None)
     (weekly_sub\<lparr>sub_interval_unit := ''month'', sub_next_billing_date := Some ''2025-01-31''\<rparr>) 2025) [0, 1, 2, 3]
   = [Some [31], Some [], Some [3], Some [3]]"
  by code_simp

subsection \<open>The grid\<close>

lemma weekday_range: "0 \<le> weekday t" "weekday t \<le> 6"
  using pos_mod_bound [of 7 "t + 4"] by (simp_all add: weekday_def)

text \<open>the grid of a month has six weeks; a cell holds a day exactly when it is the place of that day counted
  from the weekday of the first, so each day of the month stands once, in the column of its weekday.\<close>

theorem grid_places_days:
  assumes m: "0 \<le> viewMonth" "viewMonth \<le> 11" and y: "100 \<le> year"
  shows "length (buildCalendarGrid year viewMonth) = 42
    \<and> (\<forall>i d. i < 42 \<longrightarrow> (buildCalendarGrid year viewMonth ! i = Some d \<longleftrightarrow>
          1 \<le> d \<and> d \<le> days_in_month year viewMonth \<and> int i = weekday (make_day year viewMonth 1) + d - 1)
        \<and> (buildCalendarGrid year viewMonth ! i = Some d \<longrightarrow> int (i mod 7) = weekday (make_day year viewMonth d)))"
proof -
  define f n where "f = weekday (make_day year viewMonth 1)" and "n = days_in_month year viewMonth"
  have r: "0 \<le> f" "f \<le> 6" "28 \<le> n" "n \<le> 31"
    using weekday_range days_in_month_range [OF m, of year] by (simp_all add: f_def n_def)
  have e: "buildCalendarGrid year viewMonth =
      replicate (nat f) None @ map Some [1..n] @ replicate (42 - (nat f + nat n)) None"
    using y by (simp add: buildCalendarGrid_def Let_def days_in_view_month [OF m y] date_utc_def legacy_year_def
      f_def [symmetric] n_def [symmetric])
  have "length (buildCalendarGrid year viewMonth) = 42" using r by (simp add: e)
  have g: "buildCalendarGrid year viewMonth ! i = Some d \<longleftrightarrow> 1 \<le> d \<and> d \<le> n \<and> int i = f + d - 1" if "i < 42" for i d
  proof (cases "i < nat f")
    case True
    then show ?thesis by (auto simp: e nth_append)
  next
    case False
    show ?thesis
    proof (cases "i < nat f + nat n")
      case True
      have d: "int (i - nat f) = int i - f" "1 + (int i - f) \<le> n" "f \<le> int i" using True False r by linarith+
      then have "[1..n] ! (i - nat f) = 1 + (int i - f)" using nth_upto [of 1 "i - nat f" n] by simp
      moreover have "i - nat f < length [1..n]" "\<not> i < nat f" using True False by simp_all
      ultimately show ?thesis using d by (auto simp: e nth_append)
    next
      case False2: False
      have "i - (nat f + nat n) < 42 - (nat f + nat n)" using False2 that by simp
      then have "replicate (42 - (nat f + nat n)) None ! (i - (nat f + nat n)) = None" by (rule nth_replicate)
      then have "buildCalendarGrid year viewMonth ! i = None"
        using False False2 that by (auto simp: e nth_append simp del: nth_replicate)
      then show ?thesis using False2 r by auto
    qed
  qed
  have "int (i mod 7) = weekday (make_day year viewMonth d)"
    if "i < 42" "buildCalendarGrid year viewMonth ! i = Some d" for i d
  proof -
    have "int i = f + d - 1" using g that by simp
    then have "int i = (make_day year viewMonth 1 + 4) mod 7 + (d - 1)" by (simp add: f_def weekday_def)
    then have "int i mod 7 = (make_day year viewMonth 1 + 4 + (d - 1)) mod 7" by (simp only: mod_add_left_eq)
    then show ?thesis by (simp add: weekday_def make_day_base zmod_int algebra_simps)
  qed
  with g \<open>length (buildCalendarGrid year viewMonth) = 42\<close> show ?thesis unfolding f_def n_def by blast
qed

theorem grid_places_days_witness:
  "buildCalendarGrid 2024 1 ! 4 = Some 1 \<and> buildCalendarGrid 2024 1 ! 32 = Some 29 \<and> weekday (make_day 2024 1 29) = 4"
proof -
  have e: "weekday (make_day 2024 1 1) = 4" "days_in_month 2024 1 = 29" by code_simp+
  have g: "i < 42 \<longrightarrow> (buildCalendarGrid 2024 1 ! i = Some d \<longleftrightarrow> 1 \<le> d \<and> d \<le> 29 \<and> int i = 4 + d - 1)
      \<and> (buildCalendarGrid 2024 1 ! i = Some d \<longrightarrow> int (i mod 7) = weekday (make_day 2024 1 d))" for i d
    using grid_places_days [of 1 2024] unfolding e by auto
  show ?thesis using g [of 4 1] g [of 32 29] by simp
qed

end
