(* ===== verification/BrandTables.thy ===== *)
theory BrandTables
  imports Prelude
begin

text \<open>The tables of icons: \<open>lib/brand-icons/runtime-specs.ts\<close>, which the renderer looks values up in, and
  \<open>lib/brand-icons/specs\<close>, the catalogue that the picker searches.  A loader is the module and the export it
  takes.  The tables stand in pieces of at most eighteen entries.  Keywords outside ASCII are written in UTF-8, in which
  one text contains another exactly when it does in code points.\<close>

datatype IconValuePrefix = Bl | Lg | Custom

definition prefix_text :: "IconValuePrefix \<Rightarrow> string" where
  "prefix_text p = (case p of Bl \<Rightarrow> ''bl'' | Lg \<Rightarrow> ''lg'' | Custom \<Rightarrow> ''custom'')"

datatype icon_loader = Imported string string | Custom_svg string string

record BrandIconRuntimeSpec =
  rs_prefix :: IconValuePrefix
  rs_slug :: string
  rs_loadIcon :: icon_loader

record BrandIconSpec = BrandIconRuntimeSpec +
  bs_title :: string
  bs_hex :: string
  bs_keywords :: "string list"

definition runtime_spec :: "IconValuePrefix \<Rightarrow> string \<Rightarrow> icon_loader \<Rightarrow> BrandIconRuntimeSpec" where
  "runtime_spec p slug load = \<lparr>rs_prefix = p, rs_slug = slug, rs_loadIcon = load\<rparr>"

definition brand_spec :: "IconValuePrefix \<Rightarrow> string \<Rightarrow> string \<Rightarrow> string \<Rightarrow> string list \<Rightarrow> icon_loader \<Rightarrow> BrandIconSpec" where
  "brand_spec p slug title hex keywords load =
     \<lparr>rs_prefix = p, rs_slug = slug, rs_loadIcon = load, bs_title = title, bs_hex = hex, bs_keywords = keywords\<rparr>"

definition core_runtime_1 :: "BrandIconRuntimeSpec list" where
  "core_runtime_1 =
    [runtime_spec Lg ''paypal'' (Imported ''@icongo/lg/esm/LGPaypal'' ''LGPaypal''),
     runtime_spec Lg ''stripe'' (Imported ''@icongo/lg/esm/LGStripe'' ''LGStripe''),
     runtime_spec Lg ''visa'' (Imported ''@icongo/lg/esm/LGVisa'' ''LGVisa''),
     runtime_spec Lg ''mastercard'' (Imported ''@icongo/lg/esm/LGMastercard'' ''LGMastercard''),
     runtime_spec Lg ''amex'' (Imported ''@icongo/lg/esm/LGAmex'' ''LGAmex''),
     runtime_spec Lg ''jcb'' (Imported ''@icongo/lg/esm/LGJcb'' ''LGJcb''),
     runtime_spec Lg ''unionpay'' (Imported ''@icongo/lg/esm/LGUnionpay'' ''LGUnionpay''),
     runtime_spec Lg ''applepay'' (Imported ''@icongo/lg/esm/LGApplePay'' ''LGApplePay''),
     runtime_spec Lg ''googlepay'' (Imported ''@icongo/lg/esm/LGGooglePayIcon'' ''LGGooglePayIcon''),
     runtime_spec Lg ''googleplay'' (Imported ''@icongo/vl/esm/VLGooglePlay'' ''VLGooglePlay''),
     runtime_spec Custom ''ecny'' (Custom_svg ''ecny'' ''SXEcny''),
     runtime_spec Custom ''cash'' (Custom_svg ''cash'' ''SXCash''),
     runtime_spec Custom ''alipay'' (Custom_svg ''alipay'' ''SXAlipay''),
     runtime_spec Custom ''wechatpay'' (Custom_svg ''wechatpay'' ''SXWechatPay''),
     runtime_spec Lg ''openai'' (Imported ''@icongo/lg/esm/LGOpenaiIcon'' ''LGOpenaiIcon''),
     runtime_spec Custom ''cursor'' (Custom_svg ''cursor'' ''SXCursor''),
     runtime_spec Custom ''anthropic'' (Custom_svg ''anthropic'' ''SXAnthropic''),
     runtime_spec Custom ''claude'' (Custom_svg ''claude'' ''SXClaude'')]"

definition coreBrandSpecs_1 :: "BrandIconSpec list" where
  "coreBrandSpecs_1 =
    [brand_spec Lg ''paypal'' ''PayPal'' ''#003087''
       [''payment''] (Imported ''@icongo/lg/esm/LGPaypal'' ''LGPaypal''),
     brand_spec Lg ''stripe'' ''Stripe'' ''#635BFF''
       [''payment''] (Imported ''@icongo/lg/esm/LGStripe'' ''LGStripe''),
     brand_spec Lg ''visa'' ''Visa'' ''#1434CB''
       [''payment'', ''card''] (Imported ''@icongo/lg/esm/LGVisa'' ''LGVisa''),
     brand_spec Lg ''mastercard'' ''Mastercard'' ''#EB001B''
       [''payment'', ''card''] (Imported ''@icongo/lg/esm/LGMastercard'' ''LGMastercard''),
     brand_spec Lg ''amex'' ''American Express'' ''#2E77BC''
       [''payment'', ''card'', ''american express''] (Imported ''@icongo/lg/esm/LGAmex'' ''LGAmex''),
     brand_spec Lg ''jcb'' ''JCB'' ''#0B4EA2''
       [''payment'', ''card''] (Imported ''@icongo/lg/esm/LGJcb'' ''LGJcb''),
     brand_spec Lg ''unionpay'' ''UnionPay'' ''#00447C''
       [''payment'', ''card'', [CHR 0xE9, CHR 0x93, CHR 0xB6, CHR 0xE8, CHR 0x81, CHR 0x94]] (Imported ''@icongo/lg/esm/LGUnionpay'' ''LGUnionpay''),
     brand_spec Lg ''applepay'' ''Apple Pay'' ''#000000''
       [''payment'', ''wallet''] (Imported ''@icongo/lg/esm/LGApplePay'' ''LGApplePay''),
     brand_spec Lg ''googlepay'' ''Google Pay'' ''#4285F4''
       [''payment'', ''wallet''] (Imported ''@icongo/lg/esm/LGGooglePayIcon'' ''LGGooglePayIcon''),
     brand_spec Lg ''googleplay'' ''Google Play'' ''#34A853''
       [''app store'', ''android'', ''google''] (Imported ''@icongo/vl/esm/VLGooglePlay'' ''VLGooglePlay''),
     brand_spec Custom ''ecny'' ''Digital RMB (e-CNY)'' ''#FF0000''
       [''e-cny'', ''digital rmb'', [CHR 0xE6, CHR 0x95, CHR 0xB0, CHR 0xE5, CHR 0xAD, CHR 0x97, CHR 0xE4, CHR 0xBA, CHR 0xBA, CHR 0xE6, CHR 0xB0, CHR 0x91, CHR 0xE5, CHR 0xB8, CHR 0x81], ''payment''] (Custom_svg ''ecny'' ''SXEcny''),
     brand_spec Custom ''cash'' ''Cash'' ''#2E7D32''
       [''money'', ''cash'', ''payment''] (Custom_svg ''cash'' ''SXCash''),
     brand_spec Custom ''alipay'' ''Alipay'' ''#3988FF''
       [''payment'', ''wallet'', [CHR 0xE6, CHR 0x94, CHR 0xAF, CHR 0xE4, CHR 0xBB, CHR 0x98, CHR 0xE5, CHR 0xAE, CHR 0x9D]] (Custom_svg ''alipay'' ''SXAlipay''),
     brand_spec Custom ''wechatpay'' ''WeChat Pay'' ''#15BA11''
       [''payment'', ''wallet'', [CHR 0xE5, CHR 0xBE, CHR 0xAE, CHR 0xE4, CHR 0xBF, CHR 0xA1, CHR 0xE6, CHR 0x94, CHR 0xAF, CHR 0xE4, CHR 0xBB, CHR 0x98]] (Custom_svg ''wechatpay'' ''SXWechatPay''),
     brand_spec Lg ''openai'' ''OpenAI / ChatGPT'' ''#412991''
       [''chatgpt'', ''gpt'', ''ai''] (Imported ''@icongo/lg/esm/LGOpenaiIcon'' ''LGOpenaiIcon''),
     brand_spec Custom ''cursor'' ''Cursor'' ''#26251E''
       [''ai'', ''ide'', ''editor'', ''coding''] (Custom_svg ''cursor'' ''SXCursor''),
     brand_spec Custom ''anthropic'' ''Anthropic'' ''#191919''
       [''ai'', ''llm'', ''claude''] (Custom_svg ''anthropic'' ''SXAnthropic''),
     brand_spec Custom ''claude'' ''Claude'' ''#D97757''
       [''anthropic'', ''ai'', ''llm''] (Custom_svg ''claude'' ''SXClaude'')]"

definition core_runtime_2 :: "BrandIconRuntimeSpec list" where
  "core_runtime_2 =
    [runtime_spec Custom ''gemini'' (Custom_svg ''gemini'' ''SXGemini''),
     runtime_spec Custom ''newapi'' (Custom_svg ''newapi'' ''SXNewapi''),
     runtime_spec Custom ''grok'' (Custom_svg ''grok'' ''SXGrok''),
     runtime_spec Custom ''mistral'' (Custom_svg ''mistral'' ''SXMistral''),
     runtime_spec Custom ''perplexity'' (Custom_svg ''perplexity'' ''SXPerplexity''),
     runtime_spec Custom ''kimi'' (Custom_svg ''kimi'' ''SXKimi''),
     runtime_spec Custom ''moonshot'' (Custom_svg ''moonshot'' ''SXMoonshot''),
     runtime_spec Custom ''zhipu'' (Custom_svg ''zhipu'' ''SXZhipu''),
     runtime_spec Custom ''zai'' (Custom_svg ''zai'' ''SXZai''),
     runtime_spec Custom ''qwen'' (Custom_svg ''qwen'' ''SXQwen''),
     runtime_spec Custom ''deepseek'' (Custom_svg ''deepseek'' ''SXDeepseek''),
     runtime_spec Custom ''huggingface'' (Custom_svg ''huggingface'' ''SXHuggingFace''),
     runtime_spec Lg ''google'' (Imported ''@icongo/lg/esm/LGGoogleIcon'' ''LGGoogleIcon''),
     runtime_spec Lg ''googlecloud'' (Imported ''@icongo/lg/esm/LGGoogleCloud'' ''LGGoogleCloud''),
     runtime_spec Lg ''cloudflare'' (Imported ''@icongo/lg/esm/LGCloudflare'' ''LGCloudflare''),
     runtime_spec Lg ''digitalocean'' (Imported ''@icongo/vl/esm/VLDigitalocean'' ''VLDigitalocean''),
     runtime_spec Lg ''vercel'' (Imported ''@icongo/lg/esm/LGVercelIcon'' ''LGVercelIcon''),
     runtime_spec Lg ''netlify'' (Imported ''@icongo/lg/esm/LGNetlify'' ''LGNetlify'')]"

definition coreBrandSpecs_2 :: "BrandIconSpec list" where
  "coreBrandSpecs_2 =
    [brand_spec Custom ''gemini'' ''Gemini'' ''#448AFF''
       [''google'', ''ai'', ''llm''] (Custom_svg ''gemini'' ''SXGemini''),
     brand_spec Custom ''newapi'' ''NewAPI'' ''#5BA8F4''
       [''api'', ''gateway'', ''ai''] (Custom_svg ''newapi'' ''SXNewapi''),
     brand_spec Custom ''grok'' ''Grok'' ''#000000''
       [''xai'', ''ai'', ''llm''] (Custom_svg ''grok'' ''SXGrok''),
     brand_spec Custom ''mistral'' ''Mistral'' ''#F7D046''
       [''mistral ai'', ''ai'', ''llm''] (Custom_svg ''mistral'' ''SXMistral''),
     brand_spec Custom ''perplexity'' ''Perplexity'' ''#111111''
       [''ai'', ''search'', ''llm''] (Custom_svg ''perplexity'' ''SXPerplexity''),
     brand_spec Custom ''kimi'' ''Kimi'' ''#027AFF''
       [''moonshot'', ''ai'', ''llm''] (Custom_svg ''kimi'' ''SXKimi''),
     brand_spec Custom ''moonshot'' ''Moonshot'' ''#000000''
       [''moonshot'', ''kimi'', ''ai'', ''llm''] (Custom_svg ''moonshot'' ''SXMoonshot''),
     brand_spec Custom ''zhipu'' ''Zhipu'' ''#6253FF''
       [[CHR 0xE6, CHR 0x99, CHR 0xBA, CHR 0xE8, CHR 0xB0, CHR 0xB1], ''ai'', ''llm''] (Custom_svg ''zhipu'' ''SXZhipu''),
     brand_spec Custom ''zai'' ''Z.AI'' ''#2D2D2D''
       [''z.ai'', ''ai'', ''llm'', [CHR 0xE6, CHR 0x99, CHR 0xBA, CHR 0xE8, CHR 0xB0, CHR 0xB1]] (Custom_svg ''zai'' ''SXZai''),
     brand_spec Custom ''qwen'' ''Qwen'' ''#615CED''
       [[CHR 0xE9, CHR 0x80, CHR 0x9A, CHR 0xE4, CHR 0xB9, CHR 0x89, CHR 0xE5, CHR 0x8D, CHR 0x83, CHR 0xE9, CHR 0x97, CHR 0xAE], ''ai'', ''llm''] (Custom_svg ''qwen'' ''SXQwen''),
     brand_spec Custom ''deepseek'' ''DeepSeek'' ''#4D6BFE''
       [''deepseek'', ''ai'', ''llm''] (Custom_svg ''deepseek'' ''SXDeepseek''),
     brand_spec Custom ''huggingface'' ''Hugging Face'' ''#FFCC4D''
       [''model hub'', ''ai'', ''ml''] (Custom_svg ''huggingface'' ''SXHuggingFace''),
     brand_spec Lg ''google'' ''Google'' ''#4285F4''
       [''search'', ''workspace''] (Imported ''@icongo/lg/esm/LGGoogleIcon'' ''LGGoogleIcon''),
     brand_spec Lg ''googlecloud'' ''Google Cloud'' ''#4285F4''
       [''gcp'', ''cloud''] (Imported ''@icongo/lg/esm/LGGoogleCloud'' ''LGGoogleCloud''),
     brand_spec Lg ''cloudflare'' ''Cloudflare'' ''#F38020''
       [''cloud'', ''cdn''] (Imported ''@icongo/lg/esm/LGCloudflare'' ''LGCloudflare''),
     brand_spec Lg ''digitalocean'' ''DigitalOcean'' ''#0080FF''
       [''cloud''] (Imported ''@icongo/vl/esm/VLDigitalocean'' ''VLDigitalocean''),
     brand_spec Lg ''vercel'' ''Vercel'' ''#000000''
       [''hosting''] (Imported ''@icongo/lg/esm/LGVercelIcon'' ''LGVercelIcon''),
     brand_spec Lg ''netlify'' ''Netlify'' ''#00C7B7''
       [''hosting''] (Imported ''@icongo/lg/esm/LGNetlify'' ''LGNetlify'')]"

definition core_runtime_3 :: "BrandIconRuntimeSpec list" where
  "core_runtime_3 =
    [runtime_spec Lg ''aws'' (Imported ''@icongo/lg/esm/LGAws'' ''LGAws''),
     runtime_spec Lg ''oracle'' (Imported ''@icongo/vl/esm/VLOracle'' ''VLOracle''),
     runtime_spec Lg ''ibm'' (Imported ''@icongo/lg/esm/LGIbm'' ''LGIbm''),
     runtime_spec Lg ''namecheap'' (Imported ''@icongo/lg/esm/LGNamecheap'' ''LGNamecheap''),
     runtime_spec Custom ''netcup'' (Custom_svg ''netcup'' ''SXNetcup''),
     runtime_spec Custom ''namecom'' (Custom_svg ''namecom'' ''SXNameCom''),
     runtime_spec Custom ''porkbun'' (Custom_svg ''porkbun'' ''SXPorkbun''),
     runtime_spec Custom ''spaceship'' (Custom_svg ''spaceship'' ''SXSpaceship''),
     runtime_spec Lg ''ovh'' (Imported ''@icongo/si/esm/SIOvh'' ''SIOvh''),
     runtime_spec Lg ''scaleway'' (Imported ''@icongo/si/esm/SIScaleway'' ''SIScaleway''),
     runtime_spec Custom ''tencentcloud'' (Custom_svg ''tencentcloud'' ''SXTencentCloud''),
     runtime_spec Custom ''baiducloud'' (Custom_svg ''baiducloud'' ''SXBaiduCloud''),
     runtime_spec Custom ''westcn'' (Custom_svg ''westcn'' ''SXWestCn''),
     runtime_spec Custom ''frp'' (Custom_svg ''frp'' ''SXFrp''),
     runtime_spec Custom ''linuxdo'' (Custom_svg ''linuxdo'' ''SXLinuxDo''),
     runtime_spec Lg ''github'' (Imported ''@icongo/lg/esm/LGGithubIcon'' ''LGGithubIcon''),
     runtime_spec Lg ''gitlab'' (Imported ''@icongo/lg/esm/LGGitlab'' ''LGGitlab''),
     runtime_spec Lg ''ipfs'' (Imported ''@icongo/si/esm/SIIpfs'' ''SIIpfs'')]"

definition coreBrandSpecs_3 :: "BrandIconSpec list" where
  "coreBrandSpecs_3 =
    [brand_spec Lg ''aws'' ''AWS'' ''#FF9900''
       [''amazon cloud'', ''cloud''] (Imported ''@icongo/lg/esm/LGAws'' ''LGAws''),
     brand_spec Lg ''oracle'' ''Oracle'' ''#F80000''
       [''cloud''] (Imported ''@icongo/vl/esm/VLOracle'' ''VLOracle''),
     brand_spec Lg ''ibm'' ''IBM'' ''#1261FE''
       [''cloud''] (Imported ''@icongo/lg/esm/LGIbm'' ''LGIbm''),
     brand_spec Lg ''namecheap'' ''Namecheap'' ''#FF6A00''
       [''domain'', ''registrar''] (Imported ''@icongo/lg/esm/LGNamecheap'' ''LGNamecheap''),
     brand_spec Custom ''netcup'' ''Netcup'' ''#00646E''
       [''domain'', ''hosting'', ''vps'', ''cloud''] (Custom_svg ''netcup'' ''SXNetcup''),
     brand_spec Custom ''namecom'' ''Name.com'' ''#6EDA78''
       [''domain'', ''registrar'', ''name.com''] (Custom_svg ''namecom'' ''SXNameCom''),
     brand_spec Custom ''porkbun'' ''Porkbun'' ''#F27777''
       [''domain'', ''registrar'', ''hosting''] (Custom_svg ''porkbun'' ''SXPorkbun''),
     brand_spec Custom ''spaceship'' ''Spaceship'' ''#394EFF''
       [''domain'', ''registrar'', ''namecheap'', ''hosting''] (Custom_svg ''spaceship'' ''SXSpaceship''),
     brand_spec Lg ''ovh'' ''OVHcloud'' ''#123F6D''
       [''ovh'', ''cloud'', ''vps'', ''hosting''] (Imported ''@icongo/si/esm/SIOvh'' ''SIOvh''),
     brand_spec Lg ''scaleway'' ''Scaleway'' ''#4F0599''
       [''scaleway'', ''cloud'', ''vps'', ''hosting''] (Imported ''@icongo/si/esm/SIScaleway'' ''SIScaleway''),
     brand_spec Custom ''tencentcloud'' ''Tencent Cloud'' ''#00A3FF''
       [[CHR 0xE8, CHR 0x85, CHR 0xBE, CHR 0xE8, CHR 0xAE, CHR 0xAF, CHR 0xE4, CHR 0xBA, CHR 0x91], ''cloud'', ''tencent''] (Custom_svg ''tencentcloud'' ''SXTencentCloud''),
     brand_spec Custom ''baiducloud'' ''Baidu Cloud'' ''#008DD5''
       [[CHR 0xE7, CHR 0x99, CHR 0xBE, CHR 0xE5, CHR 0xBA, CHR 0xA6, CHR 0xE4, CHR 0xBA, CHR 0x91], ''cloud'', ''baidu''] (Custom_svg ''baiducloud'' ''SXBaiduCloud''),
     brand_spec Custom ''westcn'' ''West.cn'' ''#0070B6''
       [[CHR 0xE8, CHR 0xA5, CHR 0xBF, CHR 0xE9, CHR 0x83, CHR 0xA8, CHR 0xE6, CHR 0x95, CHR 0xB0, CHR 0xE7, CHR 0xA0, CHR 0x81], ''domain'', ''hosting'', ''west.cn''] (Custom_svg ''westcn'' ''SXWestCn''),
     brand_spec Custom ''frp'' ''FRP'' ''#4A7EE5''
       [''frp'', ''proxy'', ''tunnel'', ''network''] (Custom_svg ''frp'' ''SXFrp''),
     brand_spec Custom ''linuxdo'' ''Linux.do'' ''#FFB003''
       [''linux.do'', ''forum'', ''community'', ''linux''] (Custom_svg ''linuxdo'' ''SXLinuxDo''),
     brand_spec Lg ''github'' ''GitHub'' ''#181717''
       [''code'', ''git''] (Imported ''@icongo/lg/esm/LGGithubIcon'' ''LGGithubIcon''),
     brand_spec Lg ''gitlab'' ''GitLab'' ''#FC6D26''
       [''code'', ''git''] (Imported ''@icongo/lg/esm/LGGitlab'' ''LGGitlab''),
     brand_spec Lg ''ipfs'' ''IPFS'' ''#65C2CB''
       [''decentralized storage'', ''web3'', ''network''] (Imported ''@icongo/si/esm/SIIpfs'' ''SIIpfs'')]"

definition core_runtime_4 :: "BrandIconRuntimeSpec list" where
  "core_runtime_4 =
    [runtime_spec Lg ''docker'' (Imported ''@icongo/lg/esm/LGDockerIcon'' ''LGDockerIcon''),
     runtime_spec Lg ''figma'' (Imported ''@icongo/lg/esm/LGFigma'' ''LGFigma''),
     runtime_spec Lg ''postman'' (Imported ''@icongo/lg/esm/LGPostmanIcon'' ''LGPostmanIcon''),
     runtime_spec Lg ''insomnia'' (Imported ''@icongo/lg/esm/LGInsomnia'' ''LGInsomnia''),
     runtime_spec Lg ''jira'' (Imported ''@icongo/lg/esm/LGJira'' ''LGJira''),
     runtime_spec Lg ''trello'' (Imported ''@icongo/lg/esm/LGTrello'' ''LGTrello''),
     runtime_spec Lg ''asana'' (Imported ''@icongo/lg/esm/LGAsanaIcon'' ''LGAsanaIcon''),
     runtime_spec Lg ''adguard'' (Imported ''@icongo/vl/esm/VLAdguard'' ''VLAdguard''),
     runtime_spec Lg ''alibabacloud'' (Imported ''@icongo/vl/esm/VLAlibabacloud'' ''VLAlibabacloud''),
     runtime_spec Lg ''alpinelinux'' (Imported ''@icongo/vl/esm/VLAlpinelinux'' ''VLAlpinelinux''),
     runtime_spec Lg ''android'' (Imported ''@icongo/vl/esm/VLAndroid'' ''VLAndroid''),
     runtime_spec Lg ''archlinux'' (Imported ''@icongo/vl/esm/VLArchlinux'' ''VLArchlinux''),
     runtime_spec Lg ''baidu'' (Imported ''@icongo/vl/esm/VLBaidu'' ''VLBaidu''),
     runtime_spec Lg ''bitbucket'' (Imported ''@icongo/lg/esm/LGBitbucket'' ''LGBitbucket''),
     runtime_spec Lg ''browserstack'' (Imported ''@icongo/lg/esm/LGBrowserstack'' ''LGBrowserstack''),
     runtime_spec Lg ''centos'' (Imported ''@icongo/vl/esm/VLCentos'' ''VLCentos''),
     runtime_spec Lg ''cloudboostio'' (Imported ''@icongo/vl/esm/VLCloudboostio'' ''VLCloudboostio''),
     runtime_spec Lg ''debian'' (Imported ''@icongo/vl/esm/VLDebian'' ''VLDebian'')]"

definition coreBrandSpecs_4 :: "BrandIconSpec list" where
  "coreBrandSpecs_4 =
    [brand_spec Lg ''docker'' ''Docker'' ''#2496ED''
       [''container''] (Imported ''@icongo/lg/esm/LGDockerIcon'' ''LGDockerIcon''),
     brand_spec Lg ''figma'' ''Figma'' ''#A259FF''
       [''design''] (Imported ''@icongo/lg/esm/LGFigma'' ''LGFigma''),
     brand_spec Lg ''postman'' ''Postman'' ''#FF6C37''
       [''api''] (Imported ''@icongo/lg/esm/LGPostmanIcon'' ''LGPostmanIcon''),
     brand_spec Lg ''insomnia'' ''Insomnia'' ''#4000BF''
       [''api''] (Imported ''@icongo/lg/esm/LGInsomnia'' ''LGInsomnia''),
     brand_spec Lg ''jira'' ''Jira'' ''#0052CC''
       [''project''] (Imported ''@icongo/lg/esm/LGJira'' ''LGJira''),
     brand_spec Lg ''trello'' ''Trello'' ''#0052CC''
       [''project''] (Imported ''@icongo/lg/esm/LGTrello'' ''LGTrello''),
     brand_spec Lg ''asana'' ''Asana'' ''#F06A6A''
       [''project''] (Imported ''@icongo/lg/esm/LGAsanaIcon'' ''LGAsanaIcon''),
     brand_spec Lg ''adguard'' ''AdGuard'' ''#68BC71''
       [''ad blocker'', ''privacy'', ''security''] (Imported ''@icongo/vl/esm/VLAdguard'' ''VLAdguard''),
     brand_spec Lg ''alibabacloud'' ''Alibaba Cloud'' ''#FF6A00''
       [''aliyun'', ''cloud''] (Imported ''@icongo/vl/esm/VLAlibabacloud'' ''VLAlibabacloud''),
     brand_spec Lg ''alpinelinux'' ''Alpine Linux'' ''#0D597F''
       [''linux'', ''os''] (Imported ''@icongo/vl/esm/VLAlpinelinux'' ''VLAlpinelinux''),
     brand_spec Lg ''android'' ''Android'' ''#3DDC84''
       [''google'', ''mobile'', ''os''] (Imported ''@icongo/vl/esm/VLAndroid'' ''VLAndroid''),
     brand_spec Lg ''archlinux'' ''Arch Linux'' ''#1793D1''
       [''linux'', ''os''] (Imported ''@icongo/vl/esm/VLArchlinux'' ''VLArchlinux''),
     brand_spec Lg ''baidu'' ''Baidu'' ''#2319DC''
       [''search'', ''china''] (Imported ''@icongo/vl/esm/VLBaidu'' ''VLBaidu''),
     brand_spec Lg ''bitbucket'' ''Bitbucket'' ''#0052CC''
       [''code'', ''git''] (Imported ''@icongo/lg/esm/LGBitbucket'' ''LGBitbucket''),
     brand_spec Lg ''browserstack'' ''BrowserStack'' ''#FF6F00''
       [''testing'', ''browser''] (Imported ''@icongo/lg/esm/LGBrowserstack'' ''LGBrowserstack''),
     brand_spec Lg ''centos'' ''CentOS'' ''#932279''
       [''linux'', ''os''] (Imported ''@icongo/vl/esm/VLCentos'' ''VLCentos''),
     brand_spec Lg ''cloudboostio'' ''Cloudboost'' ''#0050FF''
       [''cloud'', ''database''] (Imported ''@icongo/vl/esm/VLCloudboostio'' ''VLCloudboostio''),
     brand_spec Lg ''debian'' ''Debian'' ''#A81D33''
       [''linux'', ''os''] (Imported ''@icongo/vl/esm/VLDebian'' ''VLDebian'')]"

definition core_runtime_5 :: "BrandIconRuntimeSpec list" where
  "core_runtime_5 =
    [runtime_spec Lg ''email'' (Custom_svg ''email'' ''SXEmail''),
     runtime_spec Lg ''elsevier'' (Imported ''@icongo/vl/esm/VLElsevier'' ''VLElsevier''),
     runtime_spec Lg ''fedora'' (Imported ''@icongo/vl/esm/VLGetfedora'' ''VLGetfedora''),
     runtime_spec Lg ''googledrive'' (Imported ''@icongo/vl/esm/VLGoogleDrive'' ''VLGoogleDrive''),
     runtime_spec Lg ''googlephotos'' (Imported ''@icongo/lg/esm/LGGooglePhotos'' ''LGGooglePhotos''),
     runtime_spec Lg ''huawei'' (Imported ''@icongo/vl/esm/VLHuawei'' ''VLHuawei''),
     runtime_spec Lg ''intel'' (Imported ''@icongo/vl/esm/VLIntel'' ''VLIntel''),
     runtime_spec Lg ''kubernetes'' (Imported ''@icongo/vl/esm/VLKubernetes'' ''VLKubernetes''),
     runtime_spec Lg ''linux'' (Imported ''@icongo/vl/esm/VLLinux'' ''VLLinux''),
     runtime_spec Lg ''manjaro'' (Imported ''@icongo/lg/esm/LGManjaro'' ''LGManjaro''),
     runtime_spec Custom ''giffgaff'' (Custom_svg ''giffgaff'' ''SXGiffgaff''),
     runtime_spec Lg ''microsoft'' (Imported ''@icongo/vl/esm/VLMicrosoft'' ''VLMicrosoft''),
     runtime_spec Custom ''microsoft365'' (Custom_svg ''microsoft365'' ''SXMicrosoft365''),
     runtime_spec Lg ''azure'' (Imported ''@icongo/lg/esm/LGMicrosoftAzure'' ''LGMicrosoftAzure''),
     runtime_spec Lg ''windows'' (Imported ''@icongo/lg/esm/LGMicrosoftWindows'' ''LGMicrosoftWindows''),
     runtime_spec Lg ''onedrive'' (Imported ''@icongo/lg/esm/LGMicrosoftOnedrive'' ''LGMicrosoftOnedrive''),
     runtime_spec Lg ''mongodb'' (Imported ''@icongo/lg/esm/LGMongodbIcon'' ''LGMongodbIcon''),
     runtime_spec Lg ''nextcloud'' (Imported ''@icongo/vl/esm/VLNextcloud'' ''VLNextcloud'')]"

definition coreBrandSpecs_5 :: "BrandIconSpec list" where
  "coreBrandSpecs_5 =
    [brand_spec Lg ''email'' ''Email'' ''#4A4A4A''
       [''mail'', ''inbox''] (Custom_svg ''email'' ''SXEmail''),
     brand_spec Lg ''elsevier'' ''Elsevier'' ''#FF6F00''
       [''research'', ''journal'', ''publisher''] (Imported ''@icongo/vl/esm/VLElsevier'' ''VLElsevier''),
     brand_spec Lg ''fedora'' ''Fedora'' ''#51A2DA''
       [''linux'', ''os''] (Imported ''@icongo/vl/esm/VLGetfedora'' ''VLGetfedora''),
     brand_spec Lg ''googledrive'' ''Google Drive'' ''#0F9D58''
       [''google'', ''cloud storage''] (Imported ''@icongo/vl/esm/VLGoogleDrive'' ''VLGoogleDrive''),
     brand_spec Lg ''googlephotos'' ''Google Photos'' ''#EA4335''
       [''google'', ''photos'', ''storage''] (Imported ''@icongo/lg/esm/LGGooglePhotos'' ''LGGooglePhotos''),
     brand_spec Lg ''huawei'' ''Huawei'' ''#FF0000''
       [''cloud'', ''hardware''] (Imported ''@icongo/vl/esm/VLHuawei'' ''VLHuawei''),
     brand_spec Lg ''intel'' ''Intel'' ''#0071C5''
       [''chip'', ''hardware'', ''cpu''] (Imported ''@icongo/vl/esm/VLIntel'' ''VLIntel''),
     brand_spec Lg ''kubernetes'' ''Kubernetes'' ''#326CE5''
       [''container'', ''orchestration''] (Imported ''@icongo/vl/esm/VLKubernetes'' ''VLKubernetes''),
     brand_spec Lg ''linux'' ''Linux'' ''#FCC624''
       [''linux'', ''os''] (Imported ''@icongo/vl/esm/VLLinux'' ''VLLinux''),
     brand_spec Lg ''manjaro'' ''Manjaro'' ''#35BF5C''
       [''linux'', ''os''] (Imported ''@icongo/lg/esm/LGManjaro'' ''LGManjaro''),
     brand_spec Custom ''giffgaff'' ''giffgaff'' ''#00D672''
       [''telecom'', ''mobile'', ''sim''] (Custom_svg ''giffgaff'' ''SXGiffgaff''),
     brand_spec Lg ''microsoft'' ''Microsoft'' ''#00A4EF''
       [''cloud'', ''productivity''] (Imported ''@icongo/vl/esm/VLMicrosoft'' ''VLMicrosoft''),
     brand_spec Custom ''microsoft365'' ''Microsoft Office 365'' ''#0078D4''
       [''office'', ''microsoft'', ''productivity''] (Custom_svg ''microsoft365'' ''SXMicrosoft365''),
     brand_spec Lg ''azure'' ''Microsoft Azure'' ''#0078D4''
       [''microsoft'', ''cloud''] (Imported ''@icongo/lg/esm/LGMicrosoftAzure'' ''LGMicrosoftAzure''),
     brand_spec Lg ''windows'' ''Microsoft Windows'' ''#0078D4''
       [''microsoft'', ''os''] (Imported ''@icongo/lg/esm/LGMicrosoftWindows'' ''LGMicrosoftWindows''),
     brand_spec Lg ''onedrive'' ''OneDrive'' ''#0078D4''
       [''microsoft'', ''cloud storage''] (Imported ''@icongo/lg/esm/LGMicrosoftOnedrive'' ''LGMicrosoftOnedrive''),
     brand_spec Lg ''mongodb'' ''MongoDB'' ''#47A248''
       [''database'', ''nosql''] (Imported ''@icongo/lg/esm/LGMongodbIcon'' ''LGMongodbIcon''),
     brand_spec Lg ''nextcloud'' ''Nextcloud'' ''#0082C9''
       [''cloud storage'', ''self-hosted''] (Imported ''@icongo/vl/esm/VLNextcloud'' ''VLNextcloud'')]"

definition core_runtime_6 :: "BrandIconRuntimeSpec list" where
  "core_runtime_6 =
    [runtime_spec Lg ''nvidia'' (Imported ''@icongo/vl/esm/VLNvidia'' ''VLNvidia''),
     runtime_spec Lg ''raspberrypi'' (Imported ''@icongo/vl/esm/VLRaspberrypi'' ''VLRaspberrypi''),
     runtime_spec Lg ''server'' (Custom_svg ''server'' ''SXServer''),
     runtime_spec Custom ''simcard'' (Custom_svg ''simcard'' ''SXSimCard''),
     runtime_spec Lg ''shopify'' (Imported ''@icongo/vl/esm/VLShopify'' ''VLShopify''),
     runtime_spec Lg ''stackoverflow'' (Imported ''@icongo/lg/esm/LGStackoverflowIcon'' ''LGStackoverflowIcon''),
     runtime_spec Lg ''supabase'' (Imported ''@icongo/vl/esm/VLSupabase'' ''VLSupabase''),
     runtime_spec Lg ''termius'' (Imported ''@icongo/lg/esm/LGTerminal'' ''LGTerminal''),
     runtime_spec Lg ''unity'' (Imported ''@icongo/lg/esm/LGUnity'' ''LGUnity''),
     runtime_spec Lg ''ubuntu'' (Imported ''@icongo/vl/esm/VLUbuntu'' ''VLUbuntu''),
     runtime_spec Lg ''visualstudio'' (Imported ''@icongo/lg/esm/LGVisualStudio'' ''LGVisualStudio''),
     runtime_spec Lg ''vpn'' (Custom_svg ''vpn'' ''SXVpn''),
     runtime_spec Custom ''clash'' (Custom_svg ''clash'' ''SXClash''),
     runtime_spec Custom ''v2ray'' (Custom_svg ''v2ray'' ''SXV2ray''),
     runtime_spec Lg ''whatsapp'' (Imported ''@icongo/lg/esm/LGWhatsappIcon'' ''LGWhatsappIcon''),
     runtime_spec Lg ''wordpress'' (Imported ''@icongo/lg/esm/LGWordpressIconAlt'' ''LGWordpressIconAlt'')]"

definition coreBrandSpecs_6 :: "BrandIconSpec list" where
  "coreBrandSpecs_6 =
    [brand_spec Lg ''nvidia'' ''NVIDIA'' ''#76B900''
       [''gpu'', ''hardware'', ''ai''] (Imported ''@icongo/vl/esm/VLNvidia'' ''VLNvidia''),
     brand_spec Lg ''raspberrypi'' ''Raspberry Pi'' ''#C51A4A''
       [''hardware'', ''linux'', ''iot''] (Imported ''@icongo/vl/esm/VLRaspberrypi'' ''VLRaspberrypi''),
     brand_spec Lg ''server'' ''Server'' ''#4A4A4A''
       [''host'', ''infrastructure''] (Custom_svg ''server'' ''SXServer''),
     brand_spec Custom ''simcard'' ''SIM Card'' ''#4A4A4A''
       [''sim'', ''mobile'', ''telecom''] (Custom_svg ''simcard'' ''SXSimCard''),
     brand_spec Lg ''shopify'' ''Shopify'' ''#96BF48''
       [''ecommerce'', ''store''] (Imported ''@icongo/vl/esm/VLShopify'' ''VLShopify''),
     brand_spec Lg ''stackoverflow'' ''Stack Overflow'' ''#F58025''
       [''developer'', ''community'', ''q&a''] (Imported ''@icongo/lg/esm/LGStackoverflowIcon'' ''LGStackoverflowIcon''),
     brand_spec Lg ''supabase'' ''Supabase'' ''#3ECF8E''
       [''database'', ''backend''] (Imported ''@icongo/vl/esm/VLSupabase'' ''VLSupabase''),
     brand_spec Lg ''termius'' ''Termius'' ''#2B2B2B''
       [''terminal'', ''ssh''] (Imported ''@icongo/lg/esm/LGTerminal'' ''LGTerminal''),
     brand_spec Lg ''unity'' ''Unity'' ''#000000''
       [''game engine'', ''development''] (Imported ''@icongo/lg/esm/LGUnity'' ''LGUnity''),
     brand_spec Lg ''ubuntu'' ''Ubuntu'' ''#E95420''
       [''linux'', ''os''] (Imported ''@icongo/vl/esm/VLUbuntu'' ''VLUbuntu''),
     brand_spec Lg ''visualstudio'' ''Visual Studio'' ''#5C2D91''
       [''ide'', ''development''] (Imported ''@icongo/lg/esm/LGVisualStudio'' ''LGVisualStudio''),
     brand_spec Lg ''vpn'' ''VPN'' ''#4A4A4A''
       [''privacy'', ''security'', ''network''] (Custom_svg ''vpn'' ''SXVpn''),
     brand_spec Custom ''clash'' ''Clash'' ''#4A4A4A''
       [''proxy'', ''vpn'', ''network''] (Custom_svg ''clash'' ''SXClash''),
     brand_spec Custom ''v2ray'' ''V2Ray'' ''#4A4A4A''
       [''proxy'', ''vpn'', ''network''] (Custom_svg ''v2ray'' ''SXV2ray''),
     brand_spec Lg ''whatsapp'' ''WhatsApp'' ''#25D366''
       [''chat'', ''messaging''] (Imported ''@icongo/lg/esm/LGWhatsappIcon'' ''LGWhatsappIcon''),
     brand_spec Lg ''wordpress'' ''WordPress'' ''#21759B''
       [''cms'', ''blog''] (Imported ''@icongo/lg/esm/LGWordpressIconAlt'' ''LGWordpressIconAlt'')]"

definition coreBrandSpecs :: "BrandIconSpec list" where
  "coreBrandSpecs = coreBrandSpecs_1 @ coreBrandSpecs_2 @ coreBrandSpecs_3 @ coreBrandSpecs_4 @ coreBrandSpecs_5 @ coreBrandSpecs_6"

definition services_runtime_1 :: "BrandIconRuntimeSpec list" where
  "services_runtime_1 =
    [runtime_spec Lg ''onepassword'' (Imported ''@icongo/vl/esm/VL1Password'' ''VL1Password''),
     runtime_spec Lg ''adidas'' (Imported ''@icongo/vl/esm/VLAdidas'' ''VLAdidas''),
     runtime_spec Custom ''adobecreativecloud'' (Custom_svg ''adobecreativecloud'' ''SXAdobeCreativeCloud''),
     runtime_spec Lg ''adobeaftereffects'' (Imported ''@icongo/lg/esm/LGAdobeAfterEffects'' ''LGAdobeAfterEffects''),
     runtime_spec Lg ''adobeanimate'' (Imported ''@icongo/lg/esm/LGAdobeAnimate'' ''LGAdobeAnimate''),
     runtime_spec Lg ''adobedreamweaver'' (Imported ''@icongo/lg/esm/LGAdobeDreamweaver'' ''LGAdobeDreamweaver''),
     runtime_spec Lg ''adobeillustrator'' (Imported ''@icongo/lg/esm/LGAdobeIllustrator'' ''LGAdobeIllustrator''),
     runtime_spec Lg ''adobeincopy'' (Imported ''@icongo/lg/esm/LGAdobeIncopy'' ''LGAdobeIncopy''),
     runtime_spec Lg ''adobeindesign'' (Imported ''@icongo/lg/esm/LGAdobeIndesign'' ''LGAdobeIndesign''),
     runtime_spec Lg ''adobelightroom'' (Imported ''@icongo/lg/esm/LGAdobeLightroom'' ''LGAdobeLightroom''),
     runtime_spec Lg ''adobephotoshop'' (Imported ''@icongo/lg/esm/LGAdobePhotoshop'' ''LGAdobePhotoshop''),
     runtime_spec Lg ''adobepremiere'' (Imported ''@icongo/lg/esm/LGAdobePremiere'' ''LGAdobePremiere''),
     runtime_spec Lg ''adobexd'' (Imported ''@icongo/lg/esm/LGAdobeXd'' ''LGAdobeXd''),
     runtime_spec Lg ''airbnb'' (Imported ''@icongo/lg/esm/LGAirbnbIcon'' ''LGAirbnbIcon''),
     runtime_spec Lg ''behance'' (Imported ''@icongo/vl/esm/VLBehance'' ''VLBehance''),
     runtime_spec Custom ''bitwarden'' (Custom_svg ''bitwarden'' ''SXBitwarden''),
     runtime_spec Lg ''box'' (Imported ''@icongo/lg/esm/LGBox'' ''LGBox''),
     runtime_spec Custom ''baidunetdisk'' (Custom_svg ''baidunetdisk'' ''SXBaiduNetdisk'')]"

definition serviceBrandSpecs_1 :: "BrandIconSpec list" where
  "serviceBrandSpecs_1 =
    [brand_spec Lg ''onepassword'' ''1Password'' ''#0094F5''
       [''password manager'', ''security'', [CHR 0xE5, CHR 0xAF, CHR 0x86, CHR 0xE7, CHR 0xA0, CHR 0x81, CHR 0xE7, CHR 0xAE, CHR 0xA1, CHR 0xE7, CHR 0x90, CHR 0x86]] (Imported ''@icongo/vl/esm/VL1Password'' ''VL1Password''),
     brand_spec Lg ''adidas'' ''Adidas'' ''#000000''
       [''sportswear'', ''brand''] (Imported ''@icongo/vl/esm/VLAdidas'' ''VLAdidas''),
     brand_spec Custom ''adobecreativecloud'' ''Adobe Creative Cloud'' ''#DA1F26''
       [''adobe'', ''creative'', ''design'', [CHR 0xE5, CHR 0x88, CHR 0x9B, CHR 0xE6, CHR 0x84, CHR 0x8F, CHR 0xE4, CHR 0xBA, CHR 0x91]] (Custom_svg ''adobecreativecloud'' ''SXAdobeCreativeCloud''),
     brand_spec Lg ''adobeaftereffects'' ''Adobe After Effects'' ''#9999FF''
       [''adobe'', ''video'', ''motion'', ''ae''] (Imported ''@icongo/lg/esm/LGAdobeAfterEffects'' ''LGAdobeAfterEffects''),
     brand_spec Lg ''adobeanimate'' ''Adobe Animate'' ''#FF8B00''
       [''adobe'', ''animation''] (Imported ''@icongo/lg/esm/LGAdobeAnimate'' ''LGAdobeAnimate''),
     brand_spec Lg ''adobedreamweaver'' ''Adobe Dreamweaver'' ''#35FA00''
       [''adobe'', ''web'', ''development''] (Imported ''@icongo/lg/esm/LGAdobeDreamweaver'' ''LGAdobeDreamweaver''),
     brand_spec Lg ''adobeillustrator'' ''Adobe Illustrator'' ''#FF9A00''
       [''adobe'', ''vector'', ''design'', ''ai''] (Imported ''@icongo/lg/esm/LGAdobeIllustrator'' ''LGAdobeIllustrator''),
     brand_spec Lg ''adobeincopy'' ''Adobe InCopy'' ''#FF3366''
       [''adobe'', ''writing'', ''editorial''] (Imported ''@icongo/lg/esm/LGAdobeIncopy'' ''LGAdobeIncopy''),
     brand_spec Lg ''adobeindesign'' ''Adobe InDesign'' ''#FF3366''
       [''adobe'', ''layout'', ''publishing'', ''id''] (Imported ''@icongo/lg/esm/LGAdobeIndesign'' ''LGAdobeIndesign''),
     brand_spec Lg ''adobelightroom'' ''Adobe Lightroom'' ''#31A8FF''
       [''adobe'', ''photo'', ''editing'', ''lr''] (Imported ''@icongo/lg/esm/LGAdobeLightroom'' ''LGAdobeLightroom''),
     brand_spec Lg ''adobephotoshop'' ''Adobe Photoshop'' ''#31A8FF''
       [''adobe'', ''photo'', ''design'', ''ps''] (Imported ''@icongo/lg/esm/LGAdobePhotoshop'' ''LGAdobePhotoshop''),
     brand_spec Lg ''adobepremiere'' ''Adobe Premiere Pro'' ''#9999FF''
       [''adobe'', ''video'', ''editing'', ''pr''] (Imported ''@icongo/lg/esm/LGAdobePremiere'' ''LGAdobePremiere''),
     brand_spec Lg ''adobexd'' ''Adobe XD'' ''#FF61F6''
       [''adobe'', ''ux'', ''ui'', ''design''] (Imported ''@icongo/lg/esm/LGAdobeXd'' ''LGAdobeXd''),
     brand_spec Lg ''airbnb'' ''Airbnb'' ''#FF5A5F''
       [''travel'', ''booking'', [CHR 0xE4, CHR 0xBD, CHR 0x8F, CHR 0xE5, CHR 0xAE, CHR 0xBF]] (Imported ''@icongo/lg/esm/LGAirbnbIcon'' ''LGAirbnbIcon''),
     brand_spec Lg ''behance'' ''Behance'' ''#1769FF''
       [''design'', ''portfolio''] (Imported ''@icongo/vl/esm/VLBehance'' ''VLBehance''),
     brand_spec Custom ''bitwarden'' ''Bitwarden'' ''#175DDC''
       [''password manager'', ''security'', [CHR 0xE5, CHR 0xAF, CHR 0x86, CHR 0xE7, CHR 0xA0, CHR 0x81, CHR 0xE7, CHR 0xAE, CHR 0xA1, CHR 0xE7, CHR 0x90, CHR 0x86]] (Custom_svg ''bitwarden'' ''SXBitwarden''),
     brand_spec Lg ''box'' ''Box'' ''#0061D5''
       [''cloud storage'', ''files''] (Imported ''@icongo/lg/esm/LGBox'' ''LGBox''),
     brand_spec Custom ''baidunetdisk'' ''Baidu Netdisk'' ''#06A7FF''
       [[CHR 0xE7, CHR 0x99, CHR 0xBE, CHR 0xE5, CHR 0xBA, CHR 0xA6, CHR 0xE7, CHR 0xBD, CHR 0x91, CHR 0xE7, CHR 0x9B, CHR 0x98], ''cloud storage'', ''drive''] (Custom_svg ''baidunetdisk'' ''SXBaiduNetdisk'')]"

definition services_runtime_2 :: "BrandIconRuntimeSpec list" where
  "services_runtime_2 =
    [runtime_spec Lg ''canva'' (Imported ''@icongo/vl/esm/VLCanva'' ''VLCanva''),
     runtime_spec Custom ''coinbase'' (Custom_svg ''coinbase'' ''SXCoinbase''),
     runtime_spec Lg ''dropbox'' (Imported ''@icongo/lg/esm/LGDropbox'' ''LGDropbox''),
     runtime_spec Custom ''quarkdrive'' (Custom_svg ''quarkdrive'' ''SXQuarkDrive''),
     runtime_spec Custom ''aliyundrive'' (Custom_svg ''aliyundrive'' ''SXAliyunDrive''),
     runtime_spec Custom ''drive115'' (Custom_svg ''drive115'' ''SXDrive115''),
     runtime_spec Custom ''drive123'' (Custom_svg ''drive123'' ''SXDrive123''),
     runtime_spec Custom ''weiyun'' (Custom_svg ''weiyun'' ''SXWeiyun''),
     runtime_spec Custom ''xiaomicloud'' (Custom_svg ''xiaomicloud'' ''SXXiaomiCloud''),
     runtime_spec Custom ''xunlei'' (Custom_svg ''xunlei'' ''SXXunlei''),
     runtime_spec Custom ''pikpak'' (Custom_svg ''pikpak'' ''SXPikpak''),
     runtime_spec Lg ''evernote'' (Imported ''@icongo/vl/esm/VLEvernote'' ''VLEvernote''),
     runtime_spec Lg ''expressvpn'' (Imported ''@icongo/si/esm/SIExpressvpn'' ''SIExpressvpn''),
     runtime_spec Lg ''feedly'' (Imported ''@icongo/vl/esm/VLFeedly'' ''VLFeedly''),
     runtime_spec Custom ''feishu'' (Custom_svg ''feishu'' ''SXFeishu''),
     runtime_spec Custom ''feiniu'' (Custom_svg ''feiniu'' ''SXFeiniu''),
     runtime_spec Lg ''fontawesome'' (Imported ''@icongo/lg/esm/LGFontAwesome'' ''LGFontAwesome''),
     runtime_spec Custom ''camscanner'' (Custom_svg ''camscanner'' ''SXCamscanner'')]"

definition serviceBrandSpecs_2 :: "BrandIconSpec list" where
  "serviceBrandSpecs_2 =
    [brand_spec Lg ''canva'' ''Canva'' ''#00C4CC''
       [''design'', ''graphics''] (Imported ''@icongo/vl/esm/VLCanva'' ''VLCanva''),
     brand_spec Custom ''coinbase'' ''Coinbase'' ''#0052FF''
       [''crypto'', ''exchange'', ''coin''] (Custom_svg ''coinbase'' ''SXCoinbase''),
     brand_spec Lg ''dropbox'' ''Dropbox'' ''#0061FF''
       [''cloud storage'', ''files''] (Imported ''@icongo/lg/esm/LGDropbox'' ''LGDropbox''),
     brand_spec Custom ''quarkdrive'' ''Quark Drive'' ''#3A25DD''
       [[CHR 0xE5, CHR 0xA4, CHR 0xB8, CHR 0xE5, CHR 0x85, CHR 0x8B, CHR 0xE7, CHR 0xBD, CHR 0x91, CHR 0xE7, CHR 0x9B, CHR 0x98], ''cloud storage'', ''drive''] (Custom_svg ''quarkdrive'' ''SXQuarkDrive''),
     brand_spec Custom ''aliyundrive'' ''Aliyun Drive'' ''#6666FF''
       [[CHR 0xE9, CHR 0x98, CHR 0xBF, CHR 0xE9, CHR 0x87, CHR 0x8C, CHR 0xE4, CHR 0xBA, CHR 0x91, CHR 0xE7, CHR 0x9B, CHR 0x98], ''cloud storage'', ''drive''] (Custom_svg ''aliyundrive'' ''SXAliyunDrive''),
     brand_spec Custom ''drive115'' ''115 Drive'' ''#224888''
       [(''115'' @ [CHR 0xE7, CHR 0xBD, CHR 0x91, CHR 0xE7, CHR 0x9B, CHR 0x98]), ''cloud storage'', ''drive''] (Custom_svg ''drive115'' ''SXDrive115''),
     brand_spec Custom ''drive123'' ''123 Drive'' ''#597DFC''
       [(''123'' @ [CHR 0xE7, CHR 0xBD, CHR 0x91, CHR 0xE7, CHR 0x9B, CHR 0x98]), ''cloud storage'', ''drive''] (Custom_svg ''drive123'' ''SXDrive123''),
     brand_spec Custom ''weiyun'' ''Tencent Weiyun'' ''#2980FF''
       [[CHR 0xE8, CHR 0x85, CHR 0xBE, CHR 0xE8, CHR 0xAE, CHR 0xAF, CHR 0xE5, CHR 0xBE, CHR 0xAE, CHR 0xE4, CHR 0xBA, CHR 0x91], ''cloud storage'', ''drive''] (Custom_svg ''weiyun'' ''SXWeiyun''),
     brand_spec Custom ''xiaomicloud'' ''Xiaomi Cloud'' ''#1296DB''
       [[CHR 0xE5, CHR 0xB0, CHR 0x8F, CHR 0xE7, CHR 0xB1, CHR 0xB3, CHR 0xE4, CHR 0xBA, CHR 0x91, CHR 0xE7, CHR 0xA9, CHR 0xBA, CHR 0xE9, CHR 0x97, CHR 0xB4], ''xiaomi'', ''cloud storage'', ''drive''] (Custom_svg ''xiaomicloud'' ''SXXiaomiCloud''),
     brand_spec Custom ''xunlei'' ''Xunlei'' ''#1390F2''
       [[CHR 0xE8, CHR 0xBF, CHR 0x85, CHR 0xE9, CHR 0x9B, CHR 0xB7], ''download'', ''cloud storage''] (Custom_svg ''xunlei'' ''SXXunlei''),
     brand_spec Custom ''pikpak'' ''PikPak'' ''#306EFF''
       [''pikpak'', ''cloud storage'', ''drive''] (Custom_svg ''pikpak'' ''SXPikpak''),
     brand_spec Lg ''evernote'' ''Evernote'' ''#00A82D''
       [''notes'', ''productivity''] (Imported ''@icongo/vl/esm/VLEvernote'' ''VLEvernote''),
     brand_spec Lg ''expressvpn'' ''ExpressVPN'' ''#DA3940''
       [''vpn'', ''privacy'', ''security''] (Imported ''@icongo/si/esm/SIExpressvpn'' ''SIExpressvpn''),
     brand_spec Lg ''feedly'' ''Feedly'' ''#2BB24C''
       [''rss'', ''reader'', ''news''] (Imported ''@icongo/vl/esm/VLFeedly'' ''VLFeedly''),
     brand_spec Custom ''feishu'' ''Feishu'' ''#296DFF''
       [''lark'', ''im'', ''collaboration'', [CHR 0xE9, CHR 0xA3, CHR 0x9E, CHR 0xE4, CHR 0xB9, CHR 0xA6]] (Custom_svg ''feishu'' ''SXFeishu''),
     brand_spec Custom ''feiniu'' ''Feiniu'' ''#2668ED''
       [''fnos'', ''nas'', [CHR 0xE9, CHR 0xA3, CHR 0x9E, CHR 0xE7, CHR 0x89, CHR 0x9B]] (Custom_svg ''feiniu'' ''SXFeiniu''),
     brand_spec Lg ''fontawesome'' ''Font Awesome'' ''#528DD7''
       [''icons'', ''font'', ''ui''] (Imported ''@icongo/lg/esm/LGFontAwesome'' ''LGFontAwesome''),
     brand_spec Custom ''camscanner'' ''CamScanner'' ''#3A86FF''
       [''scan'', ''document'', ''pdf''] (Custom_svg ''camscanner'' ''SXCamscanner'')]"

definition services_runtime_3 :: "BrandIconRuntimeSpec list" where
  "services_runtime_3 =
    [runtime_spec Custom ''godaddy'' (Custom_svg ''godaddy'' ''SXGodaddy''),
     runtime_spec Lg ''googleone'' (Imported ''@icongo/lg/esm/LGGoogleOne'' ''LGGoogleOne''),
     runtime_spec Lg ''grammarly'' (Imported ''@icongo/lg/esm/LGGrammarlyIcon'' ''LGGrammarlyIcon''),
     runtime_spec Custom ''wpsoffice'' (Custom_svg ''wpsoffice'' ''SXWpsOffice''),
     runtime_spec Custom ''yuque'' (Custom_svg ''yuque'' ''SXYuque''),
     runtime_spec Custom ''ticktick'' (Custom_svg ''ticktick'' ''SXTickTick''),
     runtime_spec Custom ''hellobike'' (Custom_svg ''hellobike'' ''SXHelloBike''),
     runtime_spec Custom ''china12306'' (Custom_svg ''china12306'' ''SXChina12306''),
     runtime_spec Lg ''udemy'' (Imported ''@icongo/lg/esm/LGUdemyIcon'' ''LGUdemyIcon''),
     runtime_spec Custom ''leetcode'' (Custom_svg ''leetcode'' ''SXLeetcode''),
     runtime_spec Lg ''jetbrains'' (Imported ''@icongo/lg/esm/LGJetbrainsIcon'' ''LGJetbrainsIcon''),
     runtime_spec Custom ''juejin'' (Custom_svg ''juejin'' ''SXJuejin''),
     runtime_spec Custom ''csdn'' (Custom_svg ''csdn'' ''SXCsdn''),
     runtime_spec Lg ''intellijidea'' (Imported ''@icongo/lg/esm/LGIntellijIdea'' ''LGIntellijIdea''),
     runtime_spec Lg ''lastpass'' (Imported ''@icongo/vl/esm/VLLastpass'' ''VLLastpass''),
     runtime_spec Lg ''linkedin'' (Imported ''@icongo/lg/esm/LGLinkedinIcon'' ''LGLinkedinIcon''),
     runtime_spec Lg ''medium'' (Imported ''@icongo/lg/esm/LGMediumIcon'' ''LGMediumIcon''),
     runtime_spec Custom ''meituan'' (Custom_svg ''meituan'' ''SXMeituan'')]"

definition serviceBrandSpecs_3 :: "BrandIconSpec list" where
  "serviceBrandSpecs_3 =
    [brand_spec Custom ''godaddy'' ''GoDaddy'' ''#1BDBDB''
       [''domain'', ''hosting''] (Custom_svg ''godaddy'' ''SXGodaddy''),
     brand_spec Lg ''googleone'' ''Google One'' ''#4285F4''
       [''google'', ''cloud storage'', ''drive''] (Imported ''@icongo/lg/esm/LGGoogleOne'' ''LGGoogleOne''),
     brand_spec Lg ''grammarly'' ''Grammarly'' ''#15C39A''
       [''writing'', ''assistant'', ''grammar''] (Imported ''@icongo/lg/esm/LGGrammarlyIcon'' ''LGGrammarlyIcon''),
     brand_spec Custom ''wpsoffice'' ''WPS Office'' ''#FE3E53''
       [''wps'', ''office'', ''document'', [CHR 0xE9, CHR 0x87, CHR 0x91, CHR 0xE5, CHR 0xB1, CHR 0xB1, CHR 0xE5, CHR 0x8A, CHR 0x9E, CHR 0xE5, CHR 0x85, CHR 0xAC]] (Custom_svg ''wpsoffice'' ''SXWpsOffice''),
     brand_spec Custom ''yuque'' ''Yuque'' ''#31CC79''
       [[CHR 0xE8, CHR 0xAF, CHR 0xAD, CHR 0xE9, CHR 0x9B, CHR 0x80], ''docs'', ''knowledge base''] (Custom_svg ''yuque'' ''SXYuque''),
     brand_spec Custom ''ticktick'' ''TickTick'' ''#617FDE''
       [[CHR 0xE6, CHR 0xBB, CHR 0xB4, CHR 0xE7, CHR 0xAD, CHR 0x94, CHR 0xE6, CHR 0xB8, CHR 0x85, CHR 0xE5, CHR 0x8D, CHR 0x95], ''todo'', ''task management''] (Custom_svg ''ticktick'' ''SXTickTick''),
     brand_spec Custom ''hellobike'' ''HelloBike'' ''#1890FF''
       [[CHR 0xE5, CHR 0x93, CHR 0x88, CHR 0xE5, CHR 0x95, CHR 0xB0, CHR 0xE5, CHR 0x8D, CHR 0x95, CHR 0xE8, CHR 0xBD, CHR 0xA6], ''bike sharing'', ''transport''] (Custom_svg ''hellobike'' ''SXHelloBike''),
     brand_spec Custom ''china12306'' ''China Railway 12306'' ''#F95858''
       [''railway'', ''train'', ''12306'', [CHR 0xE4, CHR 0xB8, CHR 0xAD, CHR 0xE5, CHR 0x9B, CHR 0xBD, CHR 0xE9, CHR 0x93, CHR 0x81, CHR 0xE8, CHR 0xB7, CHR 0xAF]] (Custom_svg ''china12306'' ''SXChina12306''),
     brand_spec Lg ''udemy'' ''Udemy'' ''#A435F0''
       [''learning'', ''courses'', ''education''] (Imported ''@icongo/lg/esm/LGUdemyIcon'' ''LGUdemyIcon''),
     brand_spec Custom ''leetcode'' ''LeetCode'' ''#EAA240''
       [''coding'', ''algorithm'', ''interview''] (Custom_svg ''leetcode'' ''SXLeetcode''),
     brand_spec Lg ''jetbrains'' ''JetBrains'' ''#000000''
       [''ide'', ''developer tools'', ''jetbrains''] (Imported ''@icongo/lg/esm/LGJetbrainsIcon'' ''LGJetbrainsIcon''),
     brand_spec Custom ''juejin'' ''Juejin'' ''#006CFF''
       [[CHR 0xE6, CHR 0x8E, CHR 0x98, CHR 0xE9, CHR 0x87, CHR 0x91], ''developer'', ''community'', ''articles''] (Custom_svg ''juejin'' ''SXJuejin''),
     brand_spec Custom ''csdn'' ''CSDN'' ''#C61C22''
       [''csdn'', ''developer'', ''community'', ''articles'', [CHR 0xE5, CHR 0x8D, CHR 0x9A, CHR 0xE5, CHR 0xAE, CHR 0xA2]] (Custom_svg ''csdn'' ''SXCsdn''),
     brand_spec Lg ''intellijidea'' ''IntelliJ IDEA'' ''#000000''
       [''jetbrains'', ''ide'', ''java'', ''intellij''] (Imported ''@icongo/lg/esm/LGIntellijIdea'' ''LGIntellijIdea''),
     brand_spec Lg ''lastpass'' ''LastPass'' ''#D32D27''
       [''password manager'', ''security'', [CHR 0xE5, CHR 0xAF, CHR 0x86, CHR 0xE7, CHR 0xA0, CHR 0x81, CHR 0xE7, CHR 0xAE, CHR 0xA1, CHR 0xE7, CHR 0x90, CHR 0x86]] (Imported ''@icongo/vl/esm/VLLastpass'' ''VLLastpass''),
     brand_spec Lg ''linkedin'' ''LinkedIn'' ''#0A66C2''
       [''social'', ''network'', ''career''] (Imported ''@icongo/lg/esm/LGLinkedinIcon'' ''LGLinkedinIcon''),
     brand_spec Lg ''medium'' ''Medium'' ''#12100E''
       [''blog'', ''writing'', ''articles''] (Imported ''@icongo/lg/esm/LGMediumIcon'' ''LGMediumIcon''),
     brand_spec Custom ''meituan'' ''Meituan'' ''#FFC300''
       [[CHR 0xE7, CHR 0xBE, CHR 0x8E, CHR 0xE5, CHR 0x9B, CHR 0xA2], ''food delivery'', ''local services''] (Custom_svg ''meituan'' ''SXMeituan'')]"

definition services_runtime_4 :: "BrandIconRuntimeSpec list" where
  "services_runtime_4 =
    [runtime_spec Lg ''meta'' (Imported ''@icongo/si/esm/SIMeta'' ''SIMeta''),
     runtime_spec Lg ''nytimes'' (Imported ''@icongo/vl/esm/VLNytimes'' ''VLNytimes''),
     runtime_spec Lg ''patreon'' (Imported ''@icongo/lg/esm/LGPatreon'' ''LGPatreon''),
     runtime_spec Custom ''afdian'' (Custom_svg ''afdian'' ''SXAfdian''),
     runtime_spec Custom ''onlyfans'' (Custom_svg ''onlyfans'' ''SXOnlyFans''),
     runtime_spec Lg ''pixiv'' (Imported ''@icongo/si/esm/SIPixiv'' ''SIPixiv''),
     runtime_spec Lg ''pinterest'' (Imported ''@icongo/lg/esm/LGPinterest'' ''LGPinterest''),
     runtime_spec Lg ''proton'' (Imported ''@icongo/vl/esm/VLProtonmail'' ''VLProtonmail''),
     runtime_spec Lg ''revolut'' (Imported ''@icongo/vl/esm/VLRevolut'' ''VLRevolut''),
     runtime_spec Lg ''twitter'' (Imported ''@icongo/lg/esm/LGTwitter'' ''LGTwitter''),
     runtime_spec Custom ''x'' (Custom_svg ''x'' ''SXX''),
     runtime_spec Lg ''uber'' (Imported ''@icongo/si/esm/SIUber'' ''SIUber''),
     runtime_spec Lg ''walmart'' (Imported ''@icongo/vl/esm/VLWalmart'' ''VLWalmart''),
     runtime_spec Custom ''samsclub'' (Custom_svg ''samsclub'' ''SXSamsClub''),
     runtime_spec Custom ''pinduoduo'' (Custom_svg ''pinduoduo'' ''SXPinduoduo''),
     runtime_spec Custom ''taobao'' (Custom_svg ''taobao'' ''SXTaobao''),
     runtime_spec Custom ''jd'' (Custom_svg ''jd'' ''SXJd''),
     runtime_spec Custom ''vip88'' (Custom_svg ''vip88'' ''SXVip88'')]"

definition serviceBrandSpecs_4 :: "BrandIconSpec list" where
  "serviceBrandSpecs_4 =
    [brand_spec Lg ''meta'' ''Meta'' ''#0866FF''
       [''facebook'', ''social'', ''meta''] (Imported ''@icongo/si/esm/SIMeta'' ''SIMeta''),
     brand_spec Lg ''nytimes'' ''New York Times'' ''#000000''
       [''news'', ''times'', ''newspaper''] (Imported ''@icongo/vl/esm/VLNytimes'' ''VLNytimes''),
     brand_spec Lg ''patreon'' ''Patreon'' ''#FF424D''
       [''creator'', ''membership'', ''subscription''] (Imported ''@icongo/lg/esm/LGPatreon'' ''LGPatreon''),
     brand_spec Custom ''afdian'' ''Afdian'' ''#8F66DF''
       [[CHR 0xE7, CHR 0x88, CHR 0xB1, CHR 0xE5, CHR 0x8F, CHR 0x91, CHR 0xE7, CHR 0x94, CHR 0xB5], ''creator'', ''membership''] (Custom_svg ''afdian'' ''SXAfdian''),
     brand_spec Custom ''onlyfans'' ''OnlyFans'' ''#00AFF0''
       [''creator'', ''subscription'', ''membership''] (Custom_svg ''onlyfans'' ''SXOnlyFans''),
     brand_spec Lg ''pixiv'' ''Pixiv'' ''#0096FA''
       [''art'', ''illustration'', ''community''] (Imported ''@icongo/si/esm/SIPixiv'' ''SIPixiv''),
     brand_spec Lg ''pinterest'' ''Pinterest'' ''#E60023''
       [''social'', ''inspiration'', ''images''] (Imported ''@icongo/lg/esm/LGPinterest'' ''LGPinterest''),
     brand_spec Lg ''proton'' ''Proton'' ''#6D4AFF''
       [''protonmail'', ''privacy'', ''email''] (Imported ''@icongo/vl/esm/VLProtonmail'' ''VLProtonmail''),
     brand_spec Lg ''revolut'' ''Revolut'' ''#191C1F''
       [''banking'', ''finance'', ''payment''] (Imported ''@icongo/vl/esm/VLRevolut'' ''VLRevolut''),
     brand_spec Lg ''twitter'' ''Twitter'' ''#000000''
       [''twitter'', ''x'', ''social''] (Imported ''@icongo/lg/esm/LGTwitter'' ''LGTwitter''),
     brand_spec Custom ''x'' ''X'' ''#000000''
       [''twitter'', ''x'', ''social''] (Custom_svg ''x'' ''SXX''),
     brand_spec Lg ''uber'' ''Uber'' ''#000000''
       [''ride'', ''transport'', ''travel''] (Imported ''@icongo/si/esm/SIUber'' ''SIUber''),
     brand_spec Lg ''walmart'' ''Walmart'' ''#0071CE''
       [''shopping'', ''retail'', ''groceries''] (Imported ''@icongo/vl/esm/VLWalmart'' ''VLWalmart''),
     brand_spec Custom ''samsclub'' (''Sam'' @ [CHR 0x27] @ ''s Club'') ''#5F6165''
       [[CHR 0xE5, CHR 0xB1, CHR 0xB1, CHR 0xE5, CHR 0xA7, CHR 0x86], ''shopping'', ''retail''] (Custom_svg ''samsclub'' ''SXSamsClub''),
     brand_spec Custom ''pinduoduo'' ''Pinduoduo'' ''#D81E06''
       [[CHR 0xE6, CHR 0x8B, CHR 0xBC, CHR 0xE5, CHR 0xA4, CHR 0x9A, CHR 0xE5, CHR 0xA4, CHR 0x9A], ''shopping'', ''ecommerce''] (Custom_svg ''pinduoduo'' ''SXPinduoduo''),
     brand_spec Custom ''taobao'' ''Taobao'' ''#FC8848''
       [[CHR 0xE6, CHR 0xB7, CHR 0x98, CHR 0xE5, CHR 0xAE, CHR 0x9D], ''shopping'', ''ecommerce''] (Custom_svg ''taobao'' ''SXTaobao''),
     brand_spec Custom ''jd'' ''JD.com'' ''#D81E06''
       [[CHR 0xE4, CHR 0xBA, CHR 0xAC, CHR 0xE4, CHR 0xB8, CHR 0x9C], ''shopping'', ''ecommerce''] (Custom_svg ''jd'' ''SXJd''),
     brand_spec Custom ''vip88'' ''88VIP'' ''#DEC6AF''
       [''88vip'', ''membership'', ''taobao''] (Custom_svg ''vip88'' ''SXVip88'')]"

definition services_runtime_5 :: "BrandIconRuntimeSpec list" where
  "services_runtime_5 =
    [runtime_spec Lg ''wise'' (Imported ''@icongo/vl/esm/VLTransferwise'' ''VLTransferwise''),
     runtime_spec Lg ''xbox'' (Imported ''@icongo/vl/esm/VLXbox'' ''VLXbox''),
     runtime_spec Lg ''zoom'' (Imported ''@icongo/vl/esm/VLZoomus'' ''VLZoomus''),
     runtime_spec Custom ''zhihu'' (Custom_svg ''zhihu'' ''SXZhihu''),
     runtime_spec Custom ''icloud'' (Custom_svg ''icloud'' ''SXIcloud'')]"

definition serviceBrandSpecs_5 :: "BrandIconSpec list" where
  "serviceBrandSpecs_5 =
    [brand_spec Lg ''wise'' ''Wise'' ''#9fe970''
       [''transferwise'', ''payment'', ''money transfer''] (Imported ''@icongo/vl/esm/VLTransferwise'' ''VLTransferwise''),
     brand_spec Lg ''xbox'' ''Xbox'' ''#107C10''
       [''gaming'', ''microsoft'', ''console''] (Imported ''@icongo/vl/esm/VLXbox'' ''VLXbox''),
     brand_spec Lg ''zoom'' ''Zoom'' ''#2D8CFF''
       [''meeting'', ''video call'', ''conference''] (Imported ''@icongo/vl/esm/VLZoomus'' ''VLZoomus''),
     brand_spec Custom ''zhihu'' ''Zhihu'' ''#0E87EA''
       [[CHR 0xE7, CHR 0x9F, CHR 0xA5, CHR 0xE4, CHR 0xB9, CHR 0x8E], ''community'', ''q&a''] (Custom_svg ''zhihu'' ''SXZhihu''),
     brand_spec Custom ''icloud'' ''iCloud'' ''#0A84FF''
       [''apple'', ''cloud storage'', ''icloud''] (Custom_svg ''icloud'' ''SXIcloud'')]"

definition serviceBrandSpecs :: "BrandIconSpec list" where
  "serviceBrandSpecs = serviceBrandSpecs_1 @ serviceBrandSpecs_2 @ serviceBrandSpecs_3 @ serviceBrandSpecs_4 @ serviceBrandSpecs_5"

definition entertainment_runtime_1 :: "BrandIconRuntimeSpec list" where
  "entertainment_runtime_1 =
    [runtime_spec Lg ''audible'' (Imported ''@icongo/si/esm/SIAudible'' ''SIAudible''),
     runtime_spec Lg ''bitly'' (Imported ''@icongo/si/esm/SIBitly'' ''SIBitly''),
     runtime_spec Lg ''cashapp'' (Imported ''@icongo/si/esm/SICashapp'' ''SICashapp''),
     runtime_spec Lg ''chase'' (Imported ''@icongo/si/esm/SIChase'' ''SIChase''),
     runtime_spec Lg ''dhl'' (Imported ''@icongo/si/esm/SIDhl'' ''SIDhl''),
     runtime_spec Lg ''duolingo'' (Imported ''@icongo/si/esm/SIDuolingo'' ''SIDuolingo''),
     runtime_spec Lg ''epicgames'' (Imported ''@icongo/si/esm/SIEpicgames'' ''SIEpicgames''),
     runtime_spec Lg ''hbomax'' (Imported ''@icongo/si/esm/SIHbo'' ''SIHbo''),
     runtime_spec Lg ''max'' (Imported ''@icongo/si/esm/SIMax'' ''SIMax''),
     runtime_spec Lg ''hulu'' (Imported ''@icongo/si/esm/SIHulu'' ''SIHulu''),
     runtime_spec Lg ''instapaper'' (Imported ''@icongo/si/esm/SIInstapaper'' ''SIInstapaper''),
     runtime_spec Lg ''mega'' (Imported ''@icongo/si/esm/SIMega'' ''SIMega''),
     runtime_spec Custom ''nintendo'' (Custom_svg ''nintendo'' ''SXNintendo''),
     runtime_spec Custom ''chinamobile'' (Custom_svg ''chinamobile'' ''SXChinaMobile''),
     runtime_spec Custom ''chinatelecom'' (Custom_svg ''chinatelecom'' ''SXChinaTelecom''),
     runtime_spec Custom ''chinaunicom'' (Custom_svg ''chinaunicom'' ''SXChinaUnicom''),
     runtime_spec Custom ''chinabroadcast'' (Custom_svg ''chinabroadcast'' ''SXChinaBroadcast''),
     runtime_spec Lg ''nordvpn'' (Imported ''@icongo/si/esm/SINordvpn'' ''SINordvpn'')]"

definition entertainmentBrandSpecs_1 :: "BrandIconSpec list" where
  "entertainmentBrandSpecs_1 =
    [brand_spec Lg ''audible'' ''Audible'' ''#F7991C''
       [''audiobook'', ''audio'', ''amazon''] (Imported ''@icongo/si/esm/SIAudible'' ''SIAudible''),
     brand_spec Lg ''bitly'' ''Bitly'' ''#EE6123''
       [''link shortener'', ''url'', ''marketing''] (Imported ''@icongo/si/esm/SIBitly'' ''SIBitly''),
     brand_spec Lg ''cashapp'' ''Cash App'' ''#00D632''
       [''payment'', ''wallet'', ''finance''] (Imported ''@icongo/si/esm/SICashapp'' ''SICashapp''),
     brand_spec Lg ''chase'' ''Chase'' ''#117ACA''
       [''bank'', ''payment'', ''finance''] (Imported ''@icongo/si/esm/SIChase'' ''SIChase''),
     brand_spec Lg ''dhl'' ''DHL'' ''#D40511''
       [''shipping'', ''logistics'', ''delivery''] (Imported ''@icongo/si/esm/SIDhl'' ''SIDhl''),
     brand_spec Lg ''duolingo'' ''Duolingo'' ''#58CC02''
       [''language'', ''learning'', ''education''] (Imported ''@icongo/si/esm/SIDuolingo'' ''SIDuolingo''),
     brand_spec Lg ''epicgames'' ''Epic Games'' ''#313131''
       [''gaming'', ''games'', ''store''] (Imported ''@icongo/si/esm/SIEpicgames'' ''SIEpicgames''),
     brand_spec Lg ''hbomax'' ''HBO Max'' ''#5822B4''
       [''hbo'', ''max'', ''streaming'', ''video''] (Imported ''@icongo/si/esm/SIHbo'' ''SIHbo''),
     brand_spec Lg ''max'' ''Max'' ''#002BE7''
       [''hbo max'', ''streaming'', ''video''] (Imported ''@icongo/si/esm/SIMax'' ''SIMax''),
     brand_spec Lg ''hulu'' ''Hulu'' ''#1CE783''
       [''streaming'', ''video''] (Imported ''@icongo/si/esm/SIHulu'' ''SIHulu''),
     brand_spec Lg ''instapaper'' ''Instapaper'' ''#1F1F1F''
       [''read later'', ''articles'', ''news''] (Imported ''@icongo/si/esm/SIInstapaper'' ''SIInstapaper''),
     brand_spec Lg ''mega'' ''Mega'' ''#D9272E''
       [''cloud storage'', ''files''] (Imported ''@icongo/si/esm/SIMega'' ''SIMega''),
     brand_spec Custom ''nintendo'' ''Nintendo'' ''#E60012''
       [''gaming'', ''console'', ''switch''] (Custom_svg ''nintendo'' ''SXNintendo''),
     brand_spec Custom ''chinamobile'' ''China Mobile'' ''#0080CB''
       [[CHR 0xE4, CHR 0xB8, CHR 0xAD, CHR 0xE5, CHR 0x9B, CHR 0xBD, CHR 0xE7, CHR 0xA7, CHR 0xBB, CHR 0xE5, CHR 0x8A, CHR 0xA8], ''telecom'', ''carrier''] (Custom_svg ''chinamobile'' ''SXChinaMobile''),
     brand_spec Custom ''chinatelecom'' ''China Telecom'' ''#005CA1''
       [[CHR 0xE4, CHR 0xB8, CHR 0xAD, CHR 0xE5, CHR 0x9B, CHR 0xBD, CHR 0xE7, CHR 0x94, CHR 0xB5, CHR 0xE4, CHR 0xBF, CHR 0xA1], ''telecom'', ''carrier''] (Custom_svg ''chinatelecom'' ''SXChinaTelecom''),
     brand_spec Custom ''chinaunicom'' ''China Unicom'' ''#E90003''
       [[CHR 0xE4, CHR 0xB8, CHR 0xAD, CHR 0xE5, CHR 0x9B, CHR 0xBD, CHR 0xE8, CHR 0x81, CHR 0x94, CHR 0xE9, CHR 0x80, CHR 0x9A], ''telecom'', ''carrier''] (Custom_svg ''chinaunicom'' ''SXChinaUnicom''),
     brand_spec Custom ''chinabroadcast'' ''China Broadnet'' ''#205686''
       [[CHR 0xE4, CHR 0xB8, CHR 0xAD, CHR 0xE5, CHR 0x9B, CHR 0xBD, CHR 0xE5, CHR 0xB9, CHR 0xBF, CHR 0xE7, CHR 0x94, CHR 0xB5], ''telecom'', ''carrier''] (Custom_svg ''chinabroadcast'' ''SXChinaBroadcast''),
     brand_spec Lg ''nordvpn'' ''NordVPN'' ''#4687FF''
       [''vpn'', ''privacy'', ''security''] (Imported ''@icongo/si/esm/SINordvpn'' ''SINordvpn'')]"

definition entertainment_runtime_2 :: "BrandIconRuntimeSpec list" where
  "entertainment_runtime_2 =
    [runtime_spec Lg ''notion'' (Imported ''@icongo/si/esm/SINotion'' ''SINotion''),
     runtime_spec Lg ''obsidian'' (Imported ''@icongo/si/esm/SIObsidian'' ''SIObsidian''),
     runtime_spec Lg ''openvpn'' (Imported ''@icongo/si/esm/SIOpenvpn'' ''SIOpenvpn''),
     runtime_spec Lg ''playstation'' (Imported ''@icongo/si/esm/SIPlaystation'' ''SIPlaystation''),
     runtime_spec Lg ''tmobile'' (Imported ''@icongo/si/esm/SITmobile'' ''SITmobile''),
     runtime_spec Lg ''ubisoft'' (Imported ''@icongo/si/esm/SIUbisoft'' ''SIUbisoft''),
     runtime_spec Custom ''neteaseuu'' (Custom_svg ''neteaseuu'' ''SXNeteaseUu''),
     runtime_spec Lg ''unsplash'' (Imported ''@icongo/si/esm/SIUnsplash'' ''SIUnsplash''),
     runtime_spec Lg ''crunchyroll'' (Imported ''@icongo/si/esm/SICrunchyroll'' ''SICrunchyroll''),
     runtime_spec Custom ''dlsite'' (Custom_svg ''dlsite'' ''SXDlsite''),
     runtime_spec Lg ''niconico'' (Imported ''@icongo/si/esm/SINiconico'' ''SINiconico''),
     runtime_spec Custom ''bilibili'' (Custom_svg ''bilibili'' ''SXBilibili''),
     runtime_spec Custom ''iqiyi'' (Custom_svg ''iqiyi'' ''SXIqiyi''),
     runtime_spec Lg ''kuaishou'' (Imported ''@icongo/si/esm/SIKuaishou'' ''SIKuaishou''),
     runtime_spec Custom ''neteasecloudmusic'' (Custom_svg ''neteasecloudmusic'' ''SXNeteaseCloudMusic''),
     runtime_spec Lg ''youtube'' (Imported ''@icongo/lg/esm/LGYoutubeIcon'' ''LGYoutubeIcon''),
     runtime_spec Lg ''spotify'' (Imported ''@icongo/lg/esm/LGSpotifyIcon'' ''LGSpotifyIcon''),
     runtime_spec Lg ''netflix'' (Imported ''@icongo/vl/esm/VLNetflix'' ''VLNetflix'')]"

definition entertainmentBrandSpecs_2 :: "BrandIconSpec list" where
  "entertainmentBrandSpecs_2 =
    [brand_spec Lg ''notion'' ''Notion'' ''#000000''
       [''notes'', ''workspace'', ''productivity''] (Imported ''@icongo/si/esm/SINotion'' ''SINotion''),
     brand_spec Lg ''obsidian'' ''Obsidian'' ''#7C3AED''
       [''notes'', ''markdown'', ''knowledge''] (Imported ''@icongo/si/esm/SIObsidian'' ''SIObsidian''),
     brand_spec Lg ''openvpn'' ''OpenVPN'' ''#EA7E20''
       [''vpn'', ''privacy'', ''security''] (Imported ''@icongo/si/esm/SIOpenvpn'' ''SIOpenvpn''),
     brand_spec Lg ''playstation'' ''PlayStation'' ''#003791''
       [''gaming'', ''console'', ''playstation''] (Imported ''@icongo/si/esm/SIPlaystation'' ''SIPlaystation''),
     brand_spec Lg ''tmobile'' ''T-Mobile'' ''#E20074''
       [''telecom'', ''mobile'', ''carrier''] (Imported ''@icongo/si/esm/SITmobile'' ''SITmobile''),
     brand_spec Lg ''ubisoft'' ''Ubisoft'' ''#000000''
       [''gaming'', ''games'', ''publisher''] (Imported ''@icongo/si/esm/SIUbisoft'' ''SIUbisoft''),
     brand_spec Custom ''neteaseuu'' ''NetEase UU Booster'' ''#36ECD4''
       [([CHR 0xE7, CHR 0xBD, CHR 0x91, CHR 0xE6, CHR 0x98, CHR 0x93] @ ''UU'' @ [CHR 0xE5, CHR 0x8A, CHR 0xA0, CHR 0xE9, CHR 0x80, CHR 0x9F, CHR 0xE5, CHR 0x99, CHR 0xA8]), ''gaming'', ''booster''] (Custom_svg ''neteaseuu'' ''SXNeteaseUu''),
     brand_spec Lg ''unsplash'' ''Unsplash'' ''#000000''
       [''photos'', ''images'', ''stock''] (Imported ''@icongo/si/esm/SIUnsplash'' ''SIUnsplash''),
     brand_spec Lg ''crunchyroll'' ''Crunchyroll'' ''#F47521''
       [''anime'', ''streaming'', ''video''] (Imported ''@icongo/si/esm/SICrunchyroll'' ''SICrunchyroll''),
     brand_spec Custom ''dlsite'' ''DLsite'' ''#0B3687''
       [''doujin'', ''digital store'', ''anime''] (Custom_svg ''dlsite'' ''SXDlsite''),
     brand_spec Lg ''niconico'' ''Niconico'' ''#252525''
       [[CHR 0xE3, CHR 0x83, CHR 0x8B, CHR 0xE3, CHR 0x82, CHR 0xB3, CHR 0xE3, CHR 0x83, CHR 0x8B, CHR 0xE3, CHR 0x82, CHR 0xB3, CHR 0xE5, CHR 0x8B, CHR 0x95, CHR 0xE7, CHR 0x94, CHR 0xBB], ''japan'', ''video'', ''streaming''] (Imported ''@icongo/si/esm/SINiconico'' ''SINiconico''),
     brand_spec Custom ''bilibili'' ''Bilibili'' ''#1296DB''
       [(''b'' @ [CHR 0xE7, CHR 0xAB, CHR 0x99]), [CHR 0xE5, CHR 0x93, CHR 0x94, CHR 0xE5, CHR 0x93, CHR 0xA9, CHR 0xE5, CHR 0x93, CHR 0x94, CHR 0xE5, CHR 0x93, CHR 0xA9], ''anime'', ''video'', ''streaming''] (Custom_svg ''bilibili'' ''SXBilibili''),
     brand_spec Custom ''iqiyi'' ''iQIYI'' ''#42BD56''
       [[CHR 0xE7, CHR 0x88, CHR 0xB1, CHR 0xE5, CHR 0xA5, CHR 0x87, CHR 0xE8, CHR 0x89, CHR 0xBA], ''video'', ''streaming''] (Custom_svg ''iqiyi'' ''SXIqiyi''),
     brand_spec Lg ''kuaishou'' ''Kuaishou'' ''#FF4906''
       [[CHR 0xE5, CHR 0xBF, CHR 0xAB, CHR 0xE6, CHR 0x89, CHR 0x8B], ''short video'', ''video'', ''streaming''] (Imported ''@icongo/si/esm/SIKuaishou'' ''SIKuaishou''),
     brand_spec Custom ''neteasecloudmusic'' ''Netease Cloud Music'' ''#DD001B''
       [[CHR 0xE7, CHR 0xBD, CHR 0x91, CHR 0xE6, CHR 0x98, CHR 0x93, CHR 0xE4, CHR 0xBA, CHR 0x91, CHR 0xE9, CHR 0x9F, CHR 0xB3, CHR 0xE4, CHR 0xB9, CHR 0x90], ''netease'', ''music'', ''streaming''] (Custom_svg ''neteasecloudmusic'' ''SXNeteaseCloudMusic''),
     brand_spec Lg ''youtube'' ''YouTube'' ''#FF0000''
       [''video''] (Imported ''@icongo/lg/esm/LGYoutubeIcon'' ''LGYoutubeIcon''),
     brand_spec Lg ''spotify'' ''Spotify'' ''#1DB954''
       [''music''] (Imported ''@icongo/lg/esm/LGSpotifyIcon'' ''LGSpotifyIcon''),
     brand_spec Lg ''netflix'' ''Netflix'' ''#E50914''
       [''video''] (Imported ''@icongo/vl/esm/VLNetflix'' ''VLNetflix'')]"

definition entertainment_runtime_3 :: "BrandIconRuntimeSpec list" where
  "entertainment_runtime_3 =
    [runtime_spec Lg ''amazonprimevideo'' (Imported ''@icongo/vl/esm/VLCprime'' ''VLCprime''),
     runtime_spec Lg ''appletvplus'' (Imported ''@icongo/lg/esm/LGApple'' ''LGApple''),
     runtime_spec Lg ''applemusic'' (Imported ''@icongo/lg/esm/LGApple'' ''LGApple''),
     runtime_spec Custom ''youtubemusic'' (Custom_svg ''youtubemusic'' ''SXYoutubeMusic''),
     runtime_spec Custom ''qqmusic'' (Custom_svg ''qqmusic'' ''SXQqMusic''),
     runtime_spec Custom ''qq'' (Custom_svg ''qq'' ''SXQq''),
     runtime_spec Custom ''kugoumusic'' (Custom_svg ''kugoumusic'' ''SXKugouMusic''),
     runtime_spec Custom ''ximalaya'' (Custom_svg ''ximalaya'' ''SXXimalaya''),
     runtime_spec Lg ''disneyplus'' (Imported ''@icongo/vl/esm/VLDisney'' ''VLDisney''),
     runtime_spec Lg ''twitch'' (Imported ''@icongo/lg/esm/LGTwitch'' ''LGTwitch''),
     runtime_spec Lg ''vimeo'' (Imported ''@icongo/lg/esm/LGVimeoIcon'' ''LGVimeoIcon''),
     runtime_spec Lg ''soundcloud'' (Imported ''@icongo/lg/esm/LGSoundcloud'' ''LGSoundcloud''),
     runtime_spec Lg ''plex'' (Imported ''@icongo/vl/esm/VLPlextv'' ''VLPlextv''),
     runtime_spec Custom ''infuse'' (Custom_svg ''infuse'' ''SXInfuse''),
     runtime_spec Custom ''emby'' (Custom_svg ''emby'' ''SXEmby''),
     runtime_spec Custom ''jellyfin'' (Custom_svg ''jellyfin'' ''SXJellyfin''),
     runtime_spec Lg ''vlc'' (Imported ''@icongo/vl/esm/VLVideolanVlc'' ''VLVideolanVlc''),
     runtime_spec Custom ''tencentvideo'' (Custom_svg ''tencentvideo'' ''SXTencentVideo'')]"

definition entertainmentBrandSpecs_3 :: "BrandIconSpec list" where
  "entertainmentBrandSpecs_3 =
    [brand_spec Lg ''amazonprimevideo'' ''Amazon Prime Video'' ''#00A8E1''
       [''amazon'', ''prime video'', ''video'', ''streaming''] (Imported ''@icongo/vl/esm/VLCprime'' ''VLCprime''),
     brand_spec Lg ''appletvplus'' ''Apple TV+'' ''#000000''
       [''apple tv'', ''tv+'', ''streaming'', ''video''] (Imported ''@icongo/lg/esm/LGApple'' ''LGApple''),
     brand_spec Lg ''applemusic'' ''Apple Music'' ''#FA2D48''
       [''apple'', ''music'', ''streaming''] (Imported ''@icongo/lg/esm/LGApple'' ''LGApple''),
     brand_spec Custom ''youtubemusic'' ''YouTube Music'' ''#FF0000''
       [''youtube'', ''music'', ''streaming''] (Custom_svg ''youtubemusic'' ''SXYoutubeMusic''),
     brand_spec Custom ''qqmusic'' ''QQ Music'' ''#31C27C''
       [''qq'', (''qq'' @ [CHR 0xE9, CHR 0x9F, CHR 0xB3, CHR 0xE4, CHR 0xB9, CHR 0x90]), ''music'', [CHR 0xE8, CHR 0x85, CHR 0xBE, CHR 0xE8, CHR 0xAE, CHR 0xAF, CHR 0xE9, CHR 0x9F, CHR 0xB3, CHR 0xE4, CHR 0xB9, CHR 0x90]] (Custom_svg ''qqmusic'' ''SXQqMusic''),
     brand_spec Custom ''qq'' ''QQ'' ''#000000''
       [''qq'', ''messaging'', [CHR 0xE8, CHR 0x85, CHR 0xBE, CHR 0xE8, CHR 0xAE, CHR 0xAF]] (Custom_svg ''qq'' ''SXQq''),
     brand_spec Custom ''kugoumusic'' ''Kugou Music'' ''#2C78FF''
       [[CHR 0xE9, CHR 0x85, CHR 0xB7, CHR 0xE7, CHR 0x8B, CHR 0x97, CHR 0xE9, CHR 0x9F, CHR 0xB3, CHR 0xE4, CHR 0xB9, CHR 0x90], ''kugou'', ''music'', [CHR 0xE8, CHR 0x85, CHR 0xBE, CHR 0xE8, CHR 0xAE, CHR 0xAF, CHR 0xE9, CHR 0x9F, CHR 0xB3, CHR 0xE4, CHR 0xB9, CHR 0x90]] (Custom_svg ''kugoumusic'' ''SXKugouMusic''),
     brand_spec Custom ''ximalaya'' ''Ximalaya'' ''#ED2400''
       [[CHR 0xE5, CHR 0x96, CHR 0x9C, CHR 0xE9, CHR 0xA9, CHR 0xAC, CHR 0xE6, CHR 0x8B, CHR 0x89, CHR 0xE9, CHR 0x9B, CHR 0x85], ''audio'', ''podcast''] (Custom_svg ''ximalaya'' ''SXXimalaya''),
     brand_spec Lg ''disneyplus'' ''Disney+'' ''#113CCF''
       [''disney'', ''streaming'', ''video'', ([CHR 0xE8, CHR 0xBF, CHR 0xAA, CHR 0xE5, CHR 0xA3, CHR 0xAB, CHR 0xE5, CHR 0xB0, CHR 0xBC] @ ''+''), [CHR 0xE6, CHR 0xB5, CHR 0x81, CHR 0xE5, CHR 0xAA, CHR 0x92, CHR 0xE4, CHR 0xBD, CHR 0x93]] (Imported ''@icongo/vl/esm/VLDisney'' ''VLDisney''),
     brand_spec Lg ''twitch'' ''Twitch'' ''#9146FF''
       [''streaming'', ''live'', ''gaming'', [CHR 0xE7, CHR 0x9B, CHR 0xB4, CHR 0xE6, CHR 0x92, CHR 0xAD], [CHR 0xE6, CHR 0xB8, CHR 0xB8, CHR 0xE6, CHR 0x88, CHR 0x8F, CHR 0xE7, CHR 0x9B, CHR 0xB4, CHR 0xE6, CHR 0x92, CHR 0xAD]] (Imported ''@icongo/lg/esm/LGTwitch'' ''LGTwitch''),
     brand_spec Lg ''vimeo'' ''Vimeo'' ''#1AB7EA''
       [''video'', ''streaming''] (Imported ''@icongo/lg/esm/LGVimeoIcon'' ''LGVimeoIcon''),
     brand_spec Lg ''soundcloud'' ''SoundCloud'' ''#FF5500''
       [''music'', ''audio'', ''streaming'', [CHR 0xE9, CHR 0x9F, CHR 0xB3, CHR 0xE4, CHR 0xB9, CHR 0x90]] (Imported ''@icongo/lg/esm/LGSoundcloud'' ''LGSoundcloud''),
     brand_spec Lg ''plex'' ''Plex'' ''#E5A00D''
       [''media server'', ''streaming'', ''video''] (Imported ''@icongo/vl/esm/VLPlextv'' ''VLPlextv''),
     brand_spec Custom ''infuse'' ''Infuse'' ''#111111''
       [''media player'', ''video'', ''streaming''] (Custom_svg ''infuse'' ''SXInfuse''),
     brand_spec Custom ''emby'' ''Emby'' ''#06B831''
       [''media server'', ''streaming'', ''video''] (Custom_svg ''emby'' ''SXEmby''),
     brand_spec Custom ''jellyfin'' ''Jellyfin'' ''#00A4DC''
       [''media server'', ''streaming'', ''video''] (Custom_svg ''jellyfin'' ''SXJellyfin''),
     brand_spec Lg ''vlc'' ''VLC'' ''#FF8800''
       [''videolan'', ''media player'', ''video'', [CHR 0xE6, CHR 0x92, CHR 0xAD, CHR 0xE6, CHR 0x94, CHR 0xBE, CHR 0xE5, CHR 0x99, CHR 0xA8]] (Imported ''@icongo/vl/esm/VLVideolanVlc'' ''VLVideolanVlc''),
     brand_spec Custom ''tencentvideo'' ''Tencent Video'' ''#0052D9''
       [''tencent'', ''qq video'', [CHR 0xE8, CHR 0x85, CHR 0xBE, CHR 0xE8, CHR 0xAE, CHR 0xAF, CHR 0xE8, CHR 0xA7, CHR 0x86, CHR 0xE9, CHR 0xA2, CHR 0x91], [CHR 0xE8, CHR 0xA7, CHR 0x86, CHR 0xE9, CHR 0xA2, CHR 0x91], [CHR 0xE6, CHR 0xB5, CHR 0x81, CHR 0xE5, CHR 0xAA, CHR 0x92, CHR 0xE4, CHR 0xBD, CHR 0x93]] (Custom_svg ''tencentvideo'' ''SXTencentVideo'')]"

definition entertainment_runtime_4 :: "BrandIconRuntimeSpec list" where
  "entertainment_runtime_4 =
    [runtime_spec Lg ''weibo'' (Imported ''@icongo/vl/esm/VLWeibo'' ''VLWeibo''),
     runtime_spec Lg ''apple'' (Imported ''@icongo/lg/esm/LGAppleAppStore'' ''LGAppleAppStore''),
     runtime_spec Lg ''tiktok'' (Imported ''@icongo/lg/esm/LGTiktokIcon'' ''LGTiktokIcon''),
     runtime_spec Lg ''discord'' (Imported ''@icongo/lg/esm/LGDiscordIcon'' ''LGDiscordIcon''),
     runtime_spec Lg ''line'' (Imported ''@icongo/vl/esm/VLLine'' ''VLLine''),
     runtime_spec Lg ''telegram'' (Imported ''@icongo/lg/esm/LGTelegram'' ''LGTelegram''),
     runtime_spec Lg ''facebook'' (Imported ''@icongo/lg/esm/LGFacebook'' ''LGFacebook''),
     runtime_spec Lg ''instagram'' (Imported ''@icongo/lg/esm/LGInstagramIcon'' ''LGInstagramIcon''),
     runtime_spec Lg ''bitcoin'' (Imported ''@icongo/lg/esm/LGBitcoin'' ''LGBitcoin''),
     runtime_spec Custom ''okx'' (Custom_svg ''okx'' ''SXOkx''),
     runtime_spec Custom ''binance'' (Custom_svg ''binance'' ''SXBinance''),
     runtime_spec Lg ''ethereum'' (Imported ''@icongo/lg/esm/LGEthereum'' ''LGEthereum''),
     runtime_spec Lg ''monero'' (Imported ''@icongo/lg/esm/LGMonero'' ''LGMonero''),
     runtime_spec Lg ''kraken'' (Imported ''@icongo/lg/esm/LGKraken'' ''LGKraken''),
     runtime_spec Custom ''game'' (Custom_svg ''game'' ''SXGame'')]"

definition entertainmentBrandSpecs_4 :: "BrandIconSpec list" where
  "entertainmentBrandSpecs_4 =
    [brand_spec Lg ''weibo'' ''Weibo'' ''#E6162D''
       [''social'', ''video'', [CHR 0xE5, CHR 0xBE, CHR 0xAE, CHR 0xE5, CHR 0x8D, CHR 0x9A], [CHR 0xE5, CHR 0x9B, CHR 0xBD, CHR 0xE5, CHR 0x86, CHR 0x85, CHR 0xE5, CHR 0xB9, CHR 0xB3, CHR 0xE5, CHR 0x8F, CHR 0xB0]] (Imported ''@icongo/vl/esm/VLWeibo'' ''VLWeibo''),
     brand_spec Lg ''apple'' ''Apple'' ''#000000''
       [''ios'', ''mac''] (Imported ''@icongo/lg/esm/LGAppleAppStore'' ''LGAppleAppStore''),
     brand_spec Lg ''tiktok'' ''TikTok'' ''#000000''
       [''short video''] (Imported ''@icongo/lg/esm/LGTiktokIcon'' ''LGTiktokIcon''),
     brand_spec Lg ''discord'' ''Discord'' ''#5865F2''
       [''chat''] (Imported ''@icongo/lg/esm/LGDiscordIcon'' ''LGDiscordIcon''),
     brand_spec Lg ''line'' ''LINE'' ''#00C300''
       [''chat'', ''messaging'', ''social''] (Imported ''@icongo/vl/esm/VLLine'' ''VLLine''),
     brand_spec Lg ''telegram'' ''Telegram'' ''#26A5E4''
       [''chat''] (Imported ''@icongo/lg/esm/LGTelegram'' ''LGTelegram''),
     brand_spec Lg ''facebook'' ''Facebook'' ''#1877F2''
       [''social''] (Imported ''@icongo/lg/esm/LGFacebook'' ''LGFacebook''),
     brand_spec Lg ''instagram'' ''Instagram'' ''#E4405F''
       [''social''] (Imported ''@icongo/lg/esm/LGInstagramIcon'' ''LGInstagramIcon''),
     brand_spec Lg ''bitcoin'' ''Bitcoin'' ''#F7931A''
       [''btc'', ''crypto''] (Imported ''@icongo/lg/esm/LGBitcoin'' ''LGBitcoin''),
     brand_spec Custom ''okx'' ''OKX'' ''#111111''
       [''crypto'', ''exchange'', ''okx''] (Custom_svg ''okx'' ''SXOkx''),
     brand_spec Custom ''binance'' ''Binance'' ''#F3BA2F''
       [''crypto'', ''exchange'', ''binance''] (Custom_svg ''binance'' ''SXBinance''),
     brand_spec Lg ''ethereum'' ''Ethereum'' ''#3C3C3D''
       [''eth'', ''crypto''] (Imported ''@icongo/lg/esm/LGEthereum'' ''LGEthereum''),
     brand_spec Lg ''monero'' ''Monero'' ''#FF6600''
       [''xmr'', ''crypto''] (Imported ''@icongo/lg/esm/LGMonero'' ''LGMonero''),
     brand_spec Lg ''kraken'' ''Kraken'' ''#5741D9''
       [''exchange'', ''crypto''] (Imported ''@icongo/lg/esm/LGKraken'' ''LGKraken''),
     brand_spec Custom ''game'' ''Game'' ''#4A4A4A''
       [''gaming'', ''gamepad'', ''controller''] (Custom_svg ''game'' ''SXGame'')]"

definition entertainmentBrandSpecs :: "BrandIconSpec list" where
  "entertainmentBrandSpecs = entertainmentBrandSpecs_1 @ entertainmentBrandSpecs_2 @ entertainmentBrandSpecs_3 @ entertainmentBrandSpecs_4"

definition banks_runtime_1 :: "BrandIconRuntimeSpec list" where
  "banks_runtime_1 =
    [runtime_spec Bl ''bankofamerica'' (Imported ''@icongo/bl/esm/BLBankofamericaRect'' ''BLBankofamericaRect''),
     runtime_spec Bl ''hsbc'' (Imported ''@icongo/vl/esm/VLHsbc'' ''VLHsbc''),
     runtime_spec Bl ''n26'' (Imported ''@icongo/vl/esm/VLN26'' ''VLN26''),
     runtime_spec Custom ''zabank'' (Custom_svg ''zabank'' ''SXZaBank''),
     runtime_spec Bl ''bankofchina'' (Imported ''@icongo/bl/esm/BLBocRect'' ''BLBocRect''),
     runtime_spec Bl ''icbc'' (Imported ''@icongo/bl/esm/BLIcbcRect'' ''BLIcbcRect''),
     runtime_spec Bl ''ccb'' (Imported ''@icongo/bl/esm/BLCcbRect'' ''BLCcbRect''),
     runtime_spec Bl ''abc'' (Imported ''@icongo/bl/esm/BLAbchinaRect'' ''BLAbchinaRect''),
     runtime_spec Bl ''cmbchina'' (Imported ''@icongo/bl/esm/BLCmbchinaRect'' ''BLCmbchinaRect''),
     runtime_spec Bl ''cmbc'' (Imported ''@icongo/bl/esm/BLCmbcRect'' ''BLCmbcRect''),
     runtime_spec Bl ''citicbank'' (Imported ''@icongo/bl/esm/BLCiticbankRect'' ''BLCiticbankRect''),
     runtime_spec Bl ''bankcomm'' (Imported ''@icongo/bl/esm/BLBankcommRect'' ''BLBankcommRect''),
     runtime_spec Bl ''cebbank'' (Imported ''@icongo/bl/esm/BLCebbankRect'' ''BLCebbankRect''),
     runtime_spec Bl ''cib'' (Imported ''@icongo/bl/esm/BLCibRect'' ''BLCibRect'')]"

definition bankBrandSpecs_1 :: "BrandIconSpec list" where
  "bankBrandSpecs_1 =
    [brand_spec Bl ''bankofamerica'' ''Bank of America'' ''#E31837''
       [''bank'', ''boa''] (Imported ''@icongo/bl/esm/BLBankofamericaRect'' ''BLBankofamericaRect''),
     brand_spec Bl ''hsbc'' ''HSBC'' ''#DB0011''
       [''bank''] (Imported ''@icongo/vl/esm/VLHsbc'' ''VLHsbc''),
     brand_spec Bl ''n26'' ''N26'' ''#2C2C2C''
       [''bank'', ''digital bank''] (Imported ''@icongo/vl/esm/VLN26'' ''VLN26''),
     brand_spec Custom ''zabank'' ''ZA Bank'' ''#00CC88''
       [[CHR 0xE4, CHR 0xBC, CHR 0x97, CHR 0xE5, CHR 0xAE, CHR 0x89, CHR 0xE9, CHR 0x93, CHR 0xB6, CHR 0xE8, CHR 0xA1, CHR 0x8C], ''bank'', ''digital bank''] (Custom_svg ''zabank'' ''SXZaBank''),
     brand_spec Bl ''bankofchina'' ''Bank of China'' ''#A3121A''
       [''boc'', [CHR 0xE4, CHR 0xB8, CHR 0xAD, CHR 0xE5, CHR 0x9B, CHR 0xBD, CHR 0xE9, CHR 0x93, CHR 0xB6, CHR 0xE8, CHR 0xA1, CHR 0x8C], ''bank''] (Imported ''@icongo/bl/esm/BLBocRect'' ''BLBocRect''),
     brand_spec Bl ''icbc'' ''ICBC'' ''#C8102E''
       [[CHR 0xE5, CHR 0xB7, CHR 0xA5, CHR 0xE5, CHR 0x95, CHR 0x86, CHR 0xE9, CHR 0x93, CHR 0xB6, CHR 0xE8, CHR 0xA1, CHR 0x8C], ''bank''] (Imported ''@icongo/bl/esm/BLIcbcRect'' ''BLIcbcRect''),
     brand_spec Bl ''ccb'' ''China Construction Bank'' ''#005BAC''
       [[CHR 0xE5, CHR 0xBB, CHR 0xBA, CHR 0xE8, CHR 0xAE, CHR 0xBE, CHR 0xE9, CHR 0x93, CHR 0xB6, CHR 0xE8, CHR 0xA1, CHR 0x8C], ''bank''] (Imported ''@icongo/bl/esm/BLCcbRect'' ''BLCcbRect''),
     brand_spec Bl ''abc'' ''Agricultural Bank of China'' ''#007D49''
       [[CHR 0xE5, CHR 0x86, CHR 0x9C, CHR 0xE4, CHR 0xB8, CHR 0x9A, CHR 0xE9, CHR 0x93, CHR 0xB6, CHR 0xE8, CHR 0xA1, CHR 0x8C], ''bank''] (Imported ''@icongo/bl/esm/BLAbchinaRect'' ''BLAbchinaRect''),
     brand_spec Bl ''cmbchina'' ''China Merchants Bank'' ''#D71920''
       [[CHR 0xE6, CHR 0x8B, CHR 0x9B, CHR 0xE5, CHR 0x95, CHR 0x86, CHR 0xE9, CHR 0x93, CHR 0xB6, CHR 0xE8, CHR 0xA1, CHR 0x8C], ''cmb'', ''bank''] (Imported ''@icongo/bl/esm/BLCmbchinaRect'' ''BLCmbchinaRect''),
     brand_spec Bl ''cmbc'' ''China Minsheng Bank'' ''#005BAC''
       [[CHR 0xE6, CHR 0xB0, CHR 0x91, CHR 0xE7, CHR 0x94, CHR 0x9F, CHR 0xE9, CHR 0x93, CHR 0xB6, CHR 0xE8, CHR 0xA1, CHR 0x8C], ''bank''] (Imported ''@icongo/bl/esm/BLCmbcRect'' ''BLCmbcRect''),
     brand_spec Bl ''citicbank'' ''China CITIC Bank'' ''#D32F2F''
       [[CHR 0xE4, CHR 0xB8, CHR 0xAD, CHR 0xE4, CHR 0xBF, CHR 0xA1, CHR 0xE9, CHR 0x93, CHR 0xB6, CHR 0xE8, CHR 0xA1, CHR 0x8C], ''bank''] (Imported ''@icongo/bl/esm/BLCiticbankRect'' ''BLCiticbankRect''),
     brand_spec Bl ''bankcomm'' ''Bank of Communications'' ''#005BAC''
       [[CHR 0xE4, CHR 0xBA, CHR 0xA4, CHR 0xE9, CHR 0x80, CHR 0x9A, CHR 0xE9, CHR 0x93, CHR 0xB6, CHR 0xE8, CHR 0xA1, CHR 0x8C], ''bank''] (Imported ''@icongo/bl/esm/BLBankcommRect'' ''BLBankcommRect''),
     brand_spec Bl ''cebbank'' ''China Everbright Bank'' ''#6A9E3B''
       [[CHR 0xE5, CHR 0x85, CHR 0x89, CHR 0xE5, CHR 0xA4, CHR 0xA7, CHR 0xE9, CHR 0x93, CHR 0xB6, CHR 0xE8, CHR 0xA1, CHR 0x8C], ''bank''] (Imported ''@icongo/bl/esm/BLCebbankRect'' ''BLCebbankRect''),
     brand_spec Bl ''cib'' ''Industrial Bank'' ''#004098''
       [[CHR 0xE5, CHR 0x85, CHR 0xB4, CHR 0xE4, CHR 0xB8, CHR 0x9A, CHR 0xE9, CHR 0x93, CHR 0xB6, CHR 0xE8, CHR 0xA1, CHR 0x8C], ''bank''] (Imported ''@icongo/bl/esm/BLCibRect'' ''BLCibRect'')]"

definition bankBrandSpecs :: "BrandIconSpec list" where
  "bankBrandSpecs = bankBrandSpecs_1"

definition brandRuntimeSpecs :: "BrandIconRuntimeSpec list" where
  "brandRuntimeSpecs =
    core_runtime_1 @ core_runtime_2 @ core_runtime_3 @ core_runtime_4 @ core_runtime_5 @ core_runtime_6 @ services_runtime_1 @
    services_runtime_2 @ services_runtime_3 @ services_runtime_4 @ services_runtime_5 @ entertainment_runtime_1 @
    entertainment_runtime_2 @ entertainment_runtime_3 @ entertainment_runtime_4 @ banks_runtime_1"

definition brandSpecs :: "BrandIconSpec list" where
  "brandSpecs = coreBrandSpecs @ serviceBrandSpecs @ entertainmentBrandSpecs @ bankBrandSpecs"

text \<open>Slugs tell the icons apart.  A long list of texts is checked in buckets by the bits of their first two letters.\<close>

fun distinct_by :: "('a \<Rightarrow> bool) list \<Rightarrow> 'a list \<Rightarrow> bool" where
  "distinct_by [] xs = distinct xs"
| "distinct_by (p # ps) xs = (distinct_by ps (filter p xs) \<and> distinct_by ps (filter (\<lambda>x. \<not> p x) xs))"

lemma distinct_by_distinct: "distinct_by ps xs \<Longrightarrow> distinct xs"
proof (induction ps arbitrary: xs)
  case (Cons p ps)
  then have "distinct (filter p xs)" "distinct (filter (\<lambda>x. \<not> p x) xs)" by auto
  then show ?case by (induction xs) (auto split: if_splits)
qed simp

definition letter_bits :: "(string \<Rightarrow> bool) list" where
  "letter_bits = map (\<lambda>d s. case s of [] \<Rightarrow> False | c # r \<Rightarrow> d c) [digit0, digit1, digit2, digit3, digit4]
     @ map (\<lambda>d s. case s of [] \<Rightarrow> False | [c] \<Rightarrow> False | c # e # r \<Rightarrow> d e) [digit0, digit1, digit2, digit3, digit4]"

lemma first_bits: "take 3 letter_bits = [(\<lambda>s. case s of [] \<Rightarrow> False | c # r \<Rightarrow> digit0 c),
    (\<lambda>s. case s of [] \<Rightarrow> False | c # r \<Rightarrow> digit1 c), (\<lambda>s. case s of [] \<Rightarrow> False | c # r \<Rightarrow> digit2 c)]"
  by (simp add: letter_bits_def)

lemma distinct_slugs: "distinct (map rs_slug brandRuntimeSpecs)"
  unfolding brandRuntimeSpecs_def map_append
  by (rule distinct_by_distinct [where ps = "take 3 letter_bits"], simp only: first_bits distinct_by.simps filter_append, intro conjI;
      rule distinct_by_distinct [where ps = "drop 3 letter_bits"], code_simp)

text \<open>The catalogue lists the icons of the runtime table, in its order and with the same loaders.\<close>

lemma tables_agree: "map BrandIconRuntimeSpec.truncate brandSpecs = brandRuntimeSpecs"
  unfolding brandSpecs_def coreBrandSpecs_def serviceBrandSpecs_def entertainmentBrandSpecs_def bankBrandSpecs_def
    brandRuntimeSpecs_def map_append append_assoc
  by (intro arg_cong2 [where f = append]; code_simp)

end
