(* ===== verification/ExchangeRates.thy ===== *)
theory ExchangeRates
  imports DashboardFilters
begin

text \<open>
  The exchange-rate cache in \<open>localStorage\<close>, \<open>web/src/lib/exchange-rate-cache.ts\<close>.
  The storage item is modelled by what \<open>JSON.parse\<close> makes of it: absent, a text that is not
  an object with an object \<open>rates\<close>, or a store.  The entries of a store have the shape this
  module writes (the source casts without checking them).  \<open>Date.now()\<close> is an argument; an
  operation that awaits the server is split where it awaits, so anything may happen to the storage
  in between.
\<close>

record ExchangeRateCacheEntry =
  expiresAt :: int
  rate :: rat

type_synonym rates = "string \<rightharpoonup> ExchangeRateCacheEntry"

datatype rate_slot = No_item | Not_a_store | Rates rates

definition rate_ttl :: int where
  "rate_ttl = 6 * 60 * 60 * 1000"

definition getCacheKey :: "string \<Rightarrow> string \<Rightarrow> string" where
  "getCacheKey baseCurrency targetCurrency =
     toUpperCase baseCurrency @ ''->'' @ toUpperCase targetCurrency"

fun readExchangeRateCacheStore :: "rate_slot \<Rightarrow> rates" where
  "readExchangeRateCacheStore No_item = Map.empty"
| "readExchangeRateCacheStore Not_a_store = Map.empty"
| "readExchangeRateCacheStore (Rates r) = r"

definition writeExchangeRateCacheStore :: "rates \<Rightarrow> rate_slot" where
  "writeExchangeRateCacheStore store = Rates store"

definition getCachedExchangeRate :: "string \<Rightarrow> string \<Rightarrow> int \<Rightarrow> rate_slot \<Rightarrow> rat option \<times> rate_slot" where
  "getCachedExchangeRate baseCurrency targetCurrency now slot =
     (let store = readExchangeRateCacheStore slot; cacheKey = getCacheKey baseCurrency targetCurrency
      in case store cacheKey of
           None \<Rightarrow> (None, slot)
         | Some entry \<Rightarrow>
             if expiresAt entry \<le> now
             then (None, writeExchangeRateCacheStore (store(cacheKey := None)))
             else (Some (rate entry), slot))"

definition setCachedExchangeRate :: "string \<Rightarrow> string \<Rightarrow> rat \<Rightarrow> int \<Rightarrow> rate_slot \<Rightarrow> rate_slot" where
  "setCachedExchangeRate baseCurrency targetCurrency r now slot =
     (let store = readExchangeRateCacheStore slot; cacheKey = getCacheKey baseCurrency targetCurrency
      in writeExchangeRateCacheStore (store(cacheKey \<mapsto> \<lparr>expiresAt = now + rate_ttl, rate = r\<rparr>)))"

definition setCachedExchangeRates :: "(string \<times> string \<times> rat) list \<Rightarrow> int \<Rightarrow> rate_slot \<Rightarrow> rate_slot" where
  "setCachedExchangeRates entries now slot =
     (if entries = [] then slot
      else writeExchangeRateCacheStore
        (foldl (\<lambda>m (b, t, r). m(getCacheKey b t \<mapsto> \<lparr>expiresAt = now + rate_ttl, rate = r\<rparr>))
          (readExchangeRateCacheStore slot) entries))"

subsection \<open>getExchangeRatesToTarget\<close>

definition normalized_sources :: "string list \<Rightarrow> string \<Rightarrow> string list" where
  "normalized_sources baseCurrencies normalizedTarget =
     dedup (filter (\<lambda>c. c \<noteq> [] \<and> c \<noteq> normalizedTarget) (map toUpperCase baseCurrencies))"

text \<open>The loop over the sources: the cached rates, the sources that miss, the storage.\<close>

fun split_cached :: "string list \<Rightarrow> string \<Rightarrow> int \<Rightarrow> rate_slot \<Rightarrow> (string \<rightharpoonup> rat) \<times> string list \<times> rate_slot" where
  "split_cached [] target now slot = (Map.empty, [], slot)"
| "split_cached (s # ss) target now slot =
     (let (cachedRate, slot1) = getCachedExchangeRate s target now slot;
          (rates, missing, slot2) = split_cached ss target now slot1
      in case cachedRate of Some r \<Rightarrow> (rates(s \<mapsto> r), missing, slot2)
         | None \<Rightarrow> (rates, s # missing, slot2))"

datatype rates_request =
    Rates_ready "string \<rightharpoonup> rat"
  | Rates_fetch string "string \<rightharpoonup> rat" "string list"

text \<open>Up to the request: either the answer, or the request's base currency with the rates found so
  far and the sources still missing.\<close>

definition begin_rates :: "string list \<Rightarrow> string \<Rightarrow> int \<Rightarrow> rate_slot \<Rightarrow> rates_request \<times> rate_slot" where
  "begin_rates baseCurrencies targetCurrency now slot =
     (let normalizedTarget = toUpperCase targetCurrency;
          sources = normalized_sources baseCurrencies normalizedTarget
      in if sources = [] then (Rates_ready Map.empty, slot)
         else let (rates, missing, slot1) = split_cached sources normalizedTarget now slot
           in if missing = [] then (Rates_ready rates, slot1)
              else (Rates_fetch normalizedTarget rates missing, slot1))"

text \<open>\<open>new Map(primaryBaseRates.map(...))\<close>: source currency units per primary unit.\<close>

definition source_per_primary :: "ExchangeRateInfo list \<Rightarrow> string \<rightharpoonup> rat" where
  "source_per_primary infos = (\<lambda>c. map_option ri_rate (map_of_list (\<lambda>i. toUpperCase (ri_target_currency i)) infos c))"

definition usable_rate :: "(string \<rightharpoonup> rat) \<Rightarrow> string \<Rightarrow> rat option" where
  "usable_rate m s = (case m s of None \<Rightarrow> None | Some q \<Rightarrow> if q = 0 \<or> q \<le> 0 then None else Some (1 / q))"

text \<open>After the request: \<open>Inl\<close> is a failed request, which keeps what was cached.\<close>

definition finish_rates ::
  "string \<Rightarrow> (string \<rightharpoonup> rat) \<Rightarrow> string list \<Rightarrow> ExchangeRateInfo list option result \<Rightarrow> int \<Rightarrow> rate_slot
   \<Rightarrow> (string \<rightharpoonup> rat) \<times> rate_slot" where
  "finish_rates target rates missing response now slot =
     (case response of
        Inl _ \<Rightarrow> (rates, slot)
      | Inr infos \<Rightarrow>
          (let m = source_per_primary (nullish infos []);
               found = filter (\<lambda>s. usable_rate m s \<noteq> None) missing
           in (foldl (\<lambda>rs s. rs(s := usable_rate m s)) rates found,
               setCachedExchangeRates (map (\<lambda>s. (s, target, the (usable_rate m s))) found) now slot)))"

subsection \<open>getExchangeRate\<close>

datatype rate_request = Rate_ready rat | Rate_fetch string string

definition begin_rate :: "string \<Rightarrow> string \<Rightarrow> int \<Rightarrow> rate_slot \<Rightarrow> rate_request \<times> rate_slot" where
  "begin_rate baseCurrency targetCurrency now slot =
     (let normalizedBase = toUpperCase baseCurrency; normalizedTarget = toUpperCase targetCurrency
      in if normalizedBase = normalizedTarget then (Rate_ready 1, slot)
         else let (cachedRate, slot1) = getCachedExchangeRate normalizedBase normalizedTarget now slot
           in case cachedRate of Some r \<Rightarrow> (Rate_ready r, slot1)
              | None \<Rightarrow> (Rate_fetch normalizedBase normalizedTarget, slot1))"

definition finish_rate ::
  "string \<Rightarrow> string \<Rightarrow> ExchangeRateInfo result \<Rightarrow> int \<Rightarrow> rate_slot \<Rightarrow> rat result \<times> rate_slot" where
  "finish_rate base target response now slot =
     (case response of Inl e \<Rightarrow> (Inl e, slot)
      | Inr info \<Rightarrow> (Inr (ri_rate info), setCachedExchangeRate base target (ri_rate info) now slot))"

subsection \<open>The cache as an aging store\<close>

lemma getCacheKey_upper [simp]:
  "getCacheKey (toUpperCase a) b = getCacheKey a b" "getCacheKey a (toUpperCase b) = getCacheKey a b"
  by (simp_all add: getCacheKey_def)

definition rate_at :: "rate_slot \<Rightarrow> string \<Rightarrow> int \<Rightarrow> rat option" where
  "rate_at slot k now = (case readExchangeRateCacheStore slot k of None \<Rightarrow> None
     | Some e \<Rightarrow> if expiresAt e \<le> now then None else Some (rate e))"

definition put_rate :: "rate_slot \<Rightarrow> string \<Rightarrow> rat \<Rightarrow> int \<Rightarrow> rate_slot" where
  "put_rate slot k r now =
     Rates ((readExchangeRateCacheStore slot)(k \<mapsto> \<lparr>expiresAt = now + rate_ttl, rate = r\<rparr>))"

interpretation rate_store: aging_store rate_at put_rate "\<lambda>age. age < rate_ttl"
  by unfold_locales (auto simp: rate_at_def put_rate_def)

lemma fst_getCached: "fst (getCachedExchangeRate b t now slot) = rate_at slot (getCacheKey b t) now"
  by (simp add: getCachedExchangeRate_def rate_at_def Let_def split: option.split)

lemma getCached_rate_at: "now \<le> now' \<Longrightarrow> rate_at (snd (getCachedExchangeRate b t now slot)) k now' = rate_at slot k now'"
  by (auto simp: getCachedExchangeRate_def rate_at_def writeExchangeRateCacheStore_def Let_def split: option.split)

lemma setCached_put: "setCachedExchangeRate b t r now slot = put_rate slot (getCacheKey b t) r now"
  by (simp add: setCachedExchangeRate_def put_rate_def writeExchangeRateCacheStore_def Let_def)

lemma setCached_all_put:
  "setCachedExchangeRates entries now slot =
     foldl (\<lambda>s (k, r). put_rate s k r now) slot (map (\<lambda>(b, t, r). (getCacheKey b t, r)) entries)"
proof -
  have "foldl (\<lambda>s (k, r). put_rate s k r now) (Rates m) (map (\<lambda>(b, t, r). (getCacheKey b t, r)) es) =
    Rates (foldl (\<lambda>m (b, t, r). m(getCacheKey b t \<mapsto> \<lparr>expiresAt = now + rate_ttl, rate = r\<rparr>)) m es)" for es m
    by (induction es arbitrary: m) (auto simp: put_rate_def)
  moreover have "put_rate slot k r now = put_rate (Rates (readExchangeRateCacheStore slot)) k r now" for k r
    by (simp add: put_rate_def)
  ultimately show ?thesis
    by (cases entries) (auto simp: setCachedExchangeRates_def writeExchangeRateCacheStore_def put_rate_def)
qed

lemma split_cached_spec:
  "split_cached ss target now slot = (rs, missing, slot') \<Longrightarrow>
     missing = filter (\<lambda>s. rate_at slot (getCacheKey s target) now = None) ss
     \<and> (\<forall>s. rs s = (if s \<in> set ss then rate_at slot (getCacheKey s target) now else None))
     \<and> (\<forall>k. rate_at slot' k now = rate_at slot k now)"
proof (induction ss arbitrary: slot rs missing slot')
  case Nil
  then show ?case by auto
next
  case (Cons s ss)
  obtain c slot1 where c: "getCachedExchangeRate s target now slot = (c, slot1)" by force
  obtain rs2 m2 slot2 where r: "split_cached ss target now slot1 = (rs2, m2, slot2)" by (metis prod_cases3)
  have c': "c = rate_at slot (getCacheKey s target) now" using fst_getCached [of s target now slot] c by simp
  have k: "rate_at slot1 k now = rate_at slot k now" for k
    using getCached_rate_at [of now now s target slot k] c by simp
  from Cons.IH [OF r] Cons.prems c r c' k show ?case by (auto split: option.splits)
qed

lemma set_dedup [simp]: "set (dedup xs) = set xs"
  by (induction xs) auto

lemma distinct_dedup [simp]: "distinct (dedup xs)"
  by (induction xs) auto

lemma fst_finish_rates:
  "fst (finish_rates t rates missing (Inr infos) now slot) s =
     (if s \<in> set missing \<and> usable_rate (source_per_primary (nullish infos [])) s \<noteq> None
      then usable_rate (source_per_primary (nullish infos [])) s else rates s)"
proof -
  have "foldl (\<lambda>rs s. rs(s := f s)) rates ss x = (if x \<in> set ss then f x else rates x)"
    for f :: "string \<Rightarrow> rat option" and ss x
    by (induction ss rule: rev_induct) auto
  then show ?thesis by (simp add: finish_rates_def Let_def)
qed

lemma usable_rate_pos: "usable_rate m s = Some r \<Longrightarrow> 0 < r"
  by (auto simp: usable_rate_def split: option.splits if_splits)

definition positive_rates :: "rate_slot \<Rightarrow> bool" where
  "positive_rates slot \<longleftrightarrow> (\<forall>k e. readExchangeRateCacheStore slot k = Some e \<longrightarrow> 0 < rate e)"

lemma positive_rate_at: "positive_rates slot \<Longrightarrow> rate_at slot k now = Some r \<Longrightarrow> 0 < r"
  by (auto simp: positive_rates_def rate_at_def split: option.splits if_splits)

lemma positive_put: "positive_rates slot \<Longrightarrow> 0 < r \<Longrightarrow> positive_rates (put_rate slot k r now)"
  by (auto simp: positive_rates_def put_rate_def)

lemma positive_put_all:
  "positive_rates slot \<Longrightarrow> \<forall>(k, r) \<in> set kvs. 0 < r \<Longrightarrow>
   positive_rates (foldl (\<lambda>s (k, r). put_rate s k r now) slot kvs)"
  by (induction kvs arbitrary: slot) (auto simp: positive_put)

lemma inj_getCacheKey_base:
  "getCacheKey a t = getCacheKey b t \<longleftrightarrow> toUpperCase a = toUpperCase b"
  by (simp add: getCacheKey_def)

lemma finish_rates_stored:
  assumes "distinct missing" and "\<forall>s \<in> set missing. toUpperCase s = s"
    and "s \<in> set missing" and "usable_rate (source_per_primary (nullish infos [])) s = Some r"
    and "now' - now < rate_ttl"
  shows "rate_at (snd (finish_rates t rates missing (Inr infos) now slot)) (getCacheKey s t) now' = Some r"
proof -
  let ?m = "source_per_primary (nullish infos [])"
  let ?found = "filter (\<lambda>s. usable_rate ?m s \<noteq> None) missing"
  let ?kvs = "map (\<lambda>s. (getCacheKey s t, the (usable_rate ?m s))) ?found"
  have inj: "inj_on (\<lambda>s. getCacheKey s t) (set ?found)"
    using assms(2) by (auto simp: inj_on_def inj_getCacheKey_base)
  have "distinct (map fst ?kvs)"
    using assms(1) inj by (simp add: distinct_map o_def)
  moreover have "(getCacheKey s t, r) \<in> set ?kvs" using assms(3,4) by force
  ultimately have "rate_at (foldl (\<lambda>s (k, v). put_rate s k v now) slot ?kvs) (getCacheKey s t) now' = Some r"
    using assms(5) by (intro rate_store.find_put_all)
  then show ?thesis by (simp add: finish_rates_def Let_def setCached_all_put o_def)
qed

lemma begin_rates_fetchD:
  assumes "begin_rates bs target now slot = (Rates_fetch t rs missing, slot1)"
  shows "t = toUpperCase target" and "distinct missing" and "\<forall>s \<in> set missing. toUpperCase s = s"
    and "missing = filter (\<lambda>s. rate_at slot (getCacheKey s t) now = None) (normalized_sources bs t)"
    and "rs s = (if s \<in> set (normalized_sources bs t) then rate_at slot (getCacheKey s t) now else None)"
proof -
  let ?t = "toUpperCase target"
  obtain rs2 m2 slot2 where r: "split_cached (normalized_sources bs ?t) ?t now slot = (rs2, m2, slot2)"
    by (metis prod_cases3)
  with assms have e: "t = ?t" "rs = rs2" "missing = m2"
    by (auto simp: begin_rates_def Let_def split: if_splits)
  note sp = split_cached_spec [OF r]
  have n: "distinct (normalized_sources bs ?t)" "\<forall>s \<in> set (normalized_sources bs ?t). toUpperCase s = s"
    by (auto simp: normalized_sources_def)
  show "t = ?t" by (rule e)
  show "distinct missing" "\<forall>s \<in> set missing. toUpperCase s = s" using sp n e by auto
  show "missing = filter (\<lambda>s. rate_at slot (getCacheKey s t) now = None) (normalized_sources bs t)"
    "rs s = (if s \<in> set (normalized_sources bs t) then rate_at slot (getCacheKey s t) now else None)"
    using sp e by auto
qed

text \<open>what a completed request returned is served from the cache for the next six hours: a
  second call for the same currencies within that time finds every rate it got, whatever the
  storage held before, and asks the server for none of them.\<close>

theorem rates_served_from_cache:
  assumes "begin_rates bs target now0 slot0 = (Rates_fetch t rs missing, slot1)"
    and "finish_rates t rs missing (Inr infos) now slot2 = (rates, slot3)"
    and "s \<in> set missing" and "rates s = Some r" and "now' - now < rate_ttl"
  shows "getCachedExchangeRate s target now' slot3 = (Some r, slot3)"
proof -
  note f = begin_rates_fetchD [OF assms(1)]
  have "rs s = None" using f(4) f(5) [of s] assms(3) by auto
  then have u: "usable_rate (source_per_primary (nullish infos [])) s = Some r"
    using fst_finish_rates [of t rs missing infos now slot2 s] assms(2,3,4) by (auto split: if_splits)
  have "rate_at slot3 (getCacheKey s t) now' = Some r"
    using finish_rates_stored [OF f(2,3) assms(3) u assms(5), where t = t and rates = rs and slot = slot2] assms(2) by simp
  then show ?thesis
    by (auto simp: f(1) rate_at_def getCachedExchangeRate_def Let_def split: option.splits if_splits)
qed

definition eur_info :: ExchangeRateInfo where
  "eur_info = \<lparr>ri_base_currency = ''USD'', ri_target_currency = ''EUR'', ri_rate = 4,
     ri_source = [], ri_fetched_at = []\<rparr>"

lemma eur_upper: "toUpperCase ''eur'' = ''EUR''" "toUpperCase ''EUR'' = ''EUR''"
  "toUpperCase ''USD'' = ''USD''" "toUpperCase ''usd'' = ''USD''"
  by code_simp+

theorem rates_served_from_cache_witness:
  "getCachedExchangeRate ''EUR'' ''usd'' 2000
     (snd (finish_rates ''USD'' Map.empty [''EUR''] (Inr (Some [eur_info])) 1000 Not_a_store))
   = (Some (1 / 4), snd (finish_rates ''USD'' Map.empty [''EUR''] (Inr (Some [eur_info])) 1000 Not_a_store))"
proof -
  have b: "begin_rates [''eur''] ''usd'' 0 No_item = (Rates_fetch ''USD'' Map.empty [''EUR''], No_item)"
    by (simp add: begin_rates_def normalized_sources_def eur_upper getCachedExchangeRate_def)
  have u: "usable_rate (source_per_primary [eur_info]) ''EUR'' = Some (1 / 4)"
    by (simp add: usable_rate_def source_per_primary_def map_of_list_def eur_info_def eur_upper)
  show ?thesis
    by (rule rates_served_from_cache [OF b, where infos = "Some [eur_info]" and now = 1000
          and ?slot2.0 = Not_a_store and rates = "fst (finish_rates ''USD'' Map.empty [''EUR'']
            (Inr (Some [eur_info])) 1000 Not_a_store)"])
      (simp_all add: fst_finish_rates u rate_ttl_def)
qed

text \<open>no rate that is zero, negative or out of date reaches the caller: with a store of
  positive rates, every rate returned is positive and is either a cache entry that has not expired
  or the reciprocal of a positive rate of the response; and the store stays positive.\<close>

theorem rates_positive_and_fresh:
  assumes "positive_rates slot0" and "positive_rates slot2"
    and "begin_rates bs target now0 slot0 = (Rates_fetch t rs missing, slot1)"
    and "finish_rates t rs missing response now slot2 = (rates, slot3)"
    and "rates s = Some r"
  shows "0 < r \<and> positive_rates slot3
    \<and> (rate_at slot0 (getCacheKey s t) now0 = Some r
      \<or> (\<exists>infos q. response = Inr infos \<and> source_per_primary (nullish infos []) s = Some q \<and> 0 < q \<and> r = 1 / q))"
proof (intro conjI)
  note f = begin_rates_fetchD [OF assms(3)]
  have c: "rate_at slot0 (getCacheKey s t) now0 = Some r" if "rs s = Some r"
    using f(5) [of s] that by (simp split: if_splits)
  have src: "rs s = Some r \<or> (\<exists>infos. response = Inr infos \<and>
      usable_rate (source_per_primary (nullish infos [])) s = Some r)"
  proof (cases response)
    case (Inl e)
    with assms(4,5) show ?thesis by (simp add: finish_rates_def)
  next
    case (Inr infos)
    with assms(4,5) show ?thesis
      using fst_finish_rates [of t rs missing infos now slot2 s] by (auto split: if_splits)
  qed
  then show "0 < r" using c positive_rate_at [OF assms(1)] usable_rate_pos by blast
  show "rate_at slot0 (getCacheKey s t) now0 = Some r
      \<or> (\<exists>infos q. response = Inr infos \<and> source_per_primary (nullish infos []) s = Some q \<and> 0 < q \<and> r = 1 / q)"
    using src c by (auto simp: usable_rate_def split: option.splits if_splits)
  show "positive_rates slot3"
  proof (cases response)
    case (Inl e)
    with assms(2,4) show ?thesis by (simp add: finish_rates_def)
  next
    case (Inr infos)
    with assms(4) show ?thesis
      using assms(2) usable_rate_pos
      by (auto simp: finish_rates_def Let_def setCached_all_put intro!: positive_put_all)
  qed
qed

theorem rates_positive_and_fresh_witness:
  "(0::rat) < 1 / 4 \<and> positive_rates (snd (finish_rates ''USD'' Map.empty [''EUR''] (Inr (Some [eur_info])) 1000 No_item))"
proof -
  have b: "begin_rates [''eur''] ''usd'' 0 No_item = (Rates_fetch ''USD'' Map.empty [''EUR''], No_item)"
    by (simp add: begin_rates_def normalized_sources_def eur_upper getCachedExchangeRate_def)
  have u: "usable_rate (source_per_primary [eur_info]) ''EUR'' = Some (1 / 4)"
    by (simp add: usable_rate_def source_per_primary_def map_of_list_def eur_info_def eur_upper)
  have p: "positive_rates No_item" by (simp add: positive_rates_def)
  have r: "fst (finish_rates ''USD'' Map.empty [''EUR''] (Inr (Some [eur_info])) 1000 No_item) ''EUR'' = Some (1 / 4)"
    by (simp add: fst_finish_rates u)
  let ?f = "finish_rates ''USD'' Map.empty [''EUR''] (Inr (Some [eur_info])) 1000 No_item"
  have f: "?f = (fst ?f, snd ?f)" by simp
  show ?thesis
    using rates_positive_and_fresh [OF p p b f r] by simp
qed

end
