(* ===== verification/DashboardPage.thy ===== *)
theory DashboardPage
  imports SubscriptionPages ExchangeRates Reorder
begin

text \<open>
  The dashboard, \<open>web/src/features/dashboard/dashboard-page.tsx\<close> with
  \<open>hooks/use-dashboard-data.ts\<close>: its data, its handlers with the continuations of their requests, the lookup of
  exchange rates that follows the list of subscriptions, and the amounts on the cards.  The list itself is
  \<open>filteredSubscriptions\<close> of \<open>DashboardFilters\<close>.
\<close>

subsection \<open>State\<close>

datatype dashboard_call =
    Fetch_data
  | Delete_subscription int
  | Dashboard_put Subscription CreateSubscriptionInput
  | Dashboard_post CreateSubscriptionInput
  | Dashboard_renew Subscription

datatype dashboard_reply =
    Dashboard_failed
  | Bootstrap DashboardBootstrap
  | Subscription_deleted
  | Dashboard_saved Subscription

datatype subscription_view = List_view | Cards_view

text \<open>A lookup of rates: its number, the sources, the target and what \<open>getExchangeRatesToTarget\<close> waits for.\<close>

record rates_lookup =
  lk_number :: nat
  lk_sources :: "string list"
  lk_target :: string
  lk_request :: rates_request

text \<open>\<open>ds_active\<close> is the lookup whose effect has not been cleaned up; \<open>ds_items\<close> and \<open>ds_rate_slot\<close> are
  in \<open>localStorage\<close>.\<close>

record DashboardState = "dashboard_call PageCore" +
  ds_summary :: "DashboardSummary option"
  ds_loading :: bool
  ds_preferredCurrency :: string
  ds_items :: items
  ds_rate_slot :: rate_slot
  ds_view :: subscription_view
  ds_formOpen :: bool
  ds_display :: "preference \<Rightarrow> bool"
  ds_exchangeRates :: "string \<rightharpoonup> rat"
  ds_filters :: FilterState
  ds_lookups :: "rates_lookup list"
  ds_active :: "nat option"
  ds_next :: nat

definition mount_dashboard :: "string \<Rightarrow> items \<Rightarrow> rate_slot \<Rightarrow> SubscriptionDetail DetailState \<Rightarrow> DashboardState" where
  "mount_dashboard fallback items slot details = send_call Fetch_data
     \<lparr>pg_subscriptions = [], pg_categories = [], pg_paymentMethods = [], pg_userCurrencies = [], pg_editingSub = None,
      pg_drawer = None, pg_details = details, pg_open = [], pg_calls = [], pg_notices = [],
      ds_summary = None, ds_loading = True, ds_preferredCurrency = getDefaultCurrency fallback items, ds_items = items,
      ds_rate_slot = slot, ds_view = List_view, ds_formOpen = False, ds_display = (\<lambda>p. getDisplay p items),
      ds_exchangeRates = Map.empty, ds_filters = initial_filters, ds_lookups = [], ds_active = None, ds_next = 0\<rparr>"

subsection \<open>Exchange rates\<close>

definition sourceCurrencies :: "DashboardState \<Rightarrow> string list" where
  "sourceCurrencies s =
     dedup (filter (\<lambda>c. c \<noteq> [] \<and> c \<noteq> toUpperCase (ds_preferredCurrency s))
       (map (\<lambda>sub. toUpperCase (sub_currency sub)) (pg_subscriptions s)))"

text \<open>The effect on the preferred currency and the subscriptions, with the cleanup of the one before.\<close>

definition rates_effect :: "int \<Rightarrow> DashboardState \<Rightarrow> DashboardState" where
  "rates_effect now s =
     (let targetCurrency = toUpperCase (ds_preferredCurrency s); sources = sourceCurrencies s in
      if sources = [] then s\<lparr>ds_active := None\<rparr>
      else let (request, slot) = begin_rates sources targetCurrency now (ds_rate_slot s)
        in s\<lparr>ds_rate_slot := slot, ds_active := Some (ds_next s), ds_next := Suc (ds_next s),
             ds_lookups := ds_lookups s @ [\<lparr>lk_number = ds_next s, lk_sources = sources, lk_target = targetCurrency,
               lk_request = request\<rparr>]\<rparr>)"

definition merge_rates :: "string list \<Rightarrow> string \<Rightarrow> (string \<rightharpoonup> rat) \<Rightarrow> (string \<rightharpoonup> rat) \<Rightarrow> (string \<rightharpoonup> rat)" where
  "merge_rates sources target found prev =
     foldl (\<lambda>m source. case found source of None \<Rightarrow> m | Some r \<Rightarrow> m(rate_key source target \<mapsto> r)) prev sources"

definition rates_found :: "nat \<Rightarrow> ExchangeRateInfo list option result \<Rightarrow> int \<Rightarrow> DashboardState \<Rightarrow> DashboardState" where
  "rates_found k response now s =
     (if k < length (ds_lookups s) then
        (let l = ds_lookups s ! k;
             (found, slot) = (case lk_request l of
                 Rates_ready r \<Rightarrow> (r, ds_rate_slot s)
               | Rates_fetch target r missing \<Rightarrow> finish_rates target r missing response now (ds_rate_slot s));
             s = s\<lparr>ds_lookups := without k (ds_lookups s), ds_rate_slot := slot\<rparr>
         in if ds_active s = Some (lk_number l)
            then s\<lparr>ds_exchangeRates := merge_rates (lk_sources l) (lk_target l) found (ds_exchangeRates s)\<rparr> else s)
      else s)"

subsection \<open>Handlers\<close>

definition fetchData :: "DashboardState \<Rightarrow> DashboardState" where
  "fetchData s = send_call Fetch_data s"

definition data_fetched :: "DashboardBootstrap \<Rightarrow> DashboardState \<Rightarrow> DashboardState" where
  "data_fetched data s =
     (let s = s\<lparr>pg_subscriptions := nullish (db_subscriptions data) [], ds_summary := db_summary data,
               pg_userCurrencies := nullish (db_currencies data) [], pg_categories := nullish (db_categories data) [],
               pg_paymentMethods := nullish (db_payment_methods data) []\<rparr>
      in if db_preferred_currency data \<noteq> []
         then s\<lparr>ds_preferredCurrency := db_preferred_currency data,
                ds_items := setDefaultCurrency (db_preferred_currency data) (ds_items s)\<rparr>
         else s)"

definition handleEdit :: "Subscription \<Rightarrow> DashboardState \<Rightarrow> DashboardState" where
  "handleEdit sub s = s\<lparr>pg_editingSub := Some sub, ds_formOpen := True\<rparr>"

definition handleDelete :: "bool \<Rightarrow> int \<Rightarrow> DashboardState \<Rightarrow> DashboardState" where
  "handleDelete confirmed i s = (if \<not> confirmed then s else send_call (Delete_subscription i) s)"

definition dashboard_submit :: "CreateSubscriptionInput \<Rightarrow> DashboardState \<Rightarrow> DashboardState" where
  "dashboard_submit data s =
     (case pg_editingSub s of
        Some sub \<Rightarrow> send_call (Dashboard_put sub (update_payload data)) s
      | None \<Rightarrow> send_call (Dashboard_post data) s)"

definition openNewForm :: "DashboardState \<Rightarrow> DashboardState" where
  "openNewForm s = s\<lparr>pg_editingSub := None, ds_formOpen := True\<rparr>"

definition handleFormOpenChange :: "bool \<Rightarrow> DashboardState \<Rightarrow> DashboardState" where
  "handleFormOpenChange opened s =
     (let s = s\<lparr>ds_formOpen := opened\<rparr> in if \<not> opened then s\<lparr>pg_editingSub := None\<rparr> else s)"

definition saved_in_form :: "string \<Rightarrow> int option \<Rightarrow> DashboardState \<Rightarrow> DashboardState" where
  "saved_in_form message changed s =
     (let s = notify (Page_success message) s;
          s = (case changed of None \<Rightarrow> s | Some i \<Rightarrow> on_details (invalidateSubscriptionDetail i) s)
      in fetchData (s\<lparr>pg_editingSub := None, ds_formOpen := False\<rparr>))"

definition dashboard_answered :: "int \<Rightarrow> dashboard_call \<Rightarrow> dashboard_reply \<Rightarrow> DashboardState \<Rightarrow> DashboardState" where
  "dashboard_answered now c r s =
     (case (c, r) of
        (Fetch_data, Bootstrap data) \<Rightarrow> rates_effect now ((data_fetched data s)\<lparr>ds_loading := False\<rparr>)
      | (Fetch_data, Dashboard_failed) \<Rightarrow> s\<lparr>ds_loading := False\<rparr>
      | (Delete_subscription i, Subscription_deleted) \<Rightarrow>
          fetchData (notify (Page_success ''dashboard.deleteSuccess'') (on_details (invalidateSubscriptionDetail i) s))
      | (Dashboard_put sub data, Dashboard_saved x) \<Rightarrow> saved_in_form ''dashboard.updateSuccess'' (Some (sub_id sub)) s
      | (Dashboard_post data, Dashboard_saved x) \<Rightarrow> saved_in_form ''dashboard.createSuccess'' None s
      | (Dashboard_renew sub, Dashboard_saved x) \<Rightarrow> saved_in_form ''dashboard.updateSuccess'' (Some (sub_id sub)) s
      | _ \<Rightarrow> s)"

text \<open>\<open>Storage_changed\<close> is a setting that another tab has written; \<open>ls\<close> is the storage after it.\<close>

datatype dashboard_event =
    Dashboard_core core_event
  | Dashboard_answer nat dashboard_reply int
  | Rates_answer nat "ExchangeRateInfo list option result" int
  | Filter_event filter_event
  | Toggle_view
  | Storage_changed preference items
  | Edit_subscription Subscription
  | Delete_event bool int
  | New_subscription
  | Dashboard_form bool
  | Dashboard_submit CreateSubscriptionInput
  | Dashboard_mark_renewed Subscription
  | Dashboard_drawer_edit

fun dashboard_step :: "DashboardState \<Rightarrow> dashboard_event \<Rightarrow> DashboardState" where
  "dashboard_step s (Dashboard_core e) = core_step e s"
| "dashboard_step s (Dashboard_answer n r now) =
     (if n < length (pg_open s)
      then dashboard_answered now (pg_open s ! n) r (s\<lparr>pg_open := without n (pg_open s)\<rparr>) else s)"
| "dashboard_step s (Rates_answer k response now) = rates_found k response now s"
| "dashboard_step s (Filter_event e) = s\<lparr>ds_filters := filter_step (ds_filters s) e\<rparr>"
| "dashboard_step s Toggle_view = s\<lparr>ds_view := (if ds_view s = List_view then Cards_view else List_view)\<rparr>"
| "dashboard_step s (Storage_changed p ls) =
     s\<lparr>ds_items := ls, ds_display := (ds_display s)(p := getDisplay p ls)\<rparr>"
| "dashboard_step s (Edit_subscription sub) = handleEdit sub s"
| "dashboard_step s (Delete_event confirmed i) = handleDelete confirmed i s"
| "dashboard_step s New_subscription = (if ds_loading s then s else openNewForm s)"
| "dashboard_step s (Dashboard_form opened) = handleFormOpenChange opened s"
| "dashboard_step s (Dashboard_submit data) = dashboard_submit data s"
| "dashboard_step s (Dashboard_mark_renewed sub) = send_call (Dashboard_renew sub) s"
| "dashboard_step s Dashboard_drawer_edit =
     (case pg_drawer s of None \<Rightarrow> s | Some d \<Rightarrow> (handleEdit (activeSubscription d) s)\<lparr>pg_drawer := None\<rparr>)"

subsection \<open>Cards\<close>

text \<open>The list on the page, for the parameters of \<open>FilterOptions\<close>.\<close>

definition dashboard_options ::
  "(string \<Rightarrow> 'k) \<Rightarrow> (string \<Rightarrow> int option) \<Rightarrow> (string \<Rightarrow> string option) \<Rightarrow> DashboardState \<Rightarrow> 'k FilterOptions" where
  "dashboard_options ck date_ts t s =
     \<lparr>op_categories = pg_categories s, op_disabled_last = ds_display s Disabled_last,
      op_exchangeRates = map_option Num \<circ> ds_exchangeRates s, op_collation_key = ck, op_date_ts = date_ts,
      op_paymentMethods = pg_paymentMethods s, op_preferredCurrency = ds_preferredCurrency s,
      op_subscriptions = pg_subscriptions s, op_t = t\<rparr>"

definition dashboard_list ::
  "(string \<Rightarrow> 'k::linorder) \<Rightarrow> (string \<Rightarrow> int option) \<Rightarrow> (string \<Rightarrow> string option) \<Rightarrow> DashboardState \<Rightarrow> Subscription list" where
  "dashboard_list ck date_ts t s = filteredSubscriptions (dashboard_options ck date_ts t s) (ds_filters s)"

text \<open>What a card gets of the amounts; \<open>money\<close> is \<open>formatCurrencyWithSymbol\<close> in the language shown.\<close>

record CardAmounts =
  ca_displayAmount :: "rat option"
  ca_displayCurrency :: "string option"
  ca_displayCurrencySymbol :: "string option"
  ca_priceTitle :: "string option"
  ca_showMonthlyAmount :: bool
  ca_showCycleProgress :: bool

definition card_amounts :: "(rat \<Rightarrow> string \<Rightarrow> string option \<Rightarrow> string) \<Rightarrow> DashboardState \<Rightarrow> Subscription \<Rightarrow> CardAmounts" where
  "card_amounts money s sub =
     (let targetCurrency = toUpperCase (ds_preferredCurrency s);
          sourceCurrency = toUpperCase (sub_currency sub);
          sourceIsPrimaryCurrency = (sourceCurrency = targetCurrency);
          conversionRate = (if \<not> sourceIsPrimaryCurrency then ds_exchangeRates s (rate_key sourceCurrency targetCurrency) else None);
          hasConversionRate = (case conversionRate of Some r \<Rightarrow> 0 < r | None \<Rightarrow> False);
          shouldConvert = (ds_display s All_in_primary \<and> hasConversionRate);
          displayAmount = (if shouldConvert then Some (sub_amount sub * the conversionRate) else None);
          displayCurrency = (if shouldConvert then Some targetCurrency else None);
          monthlyFactor = (if ds_display s Recurring_monthly then getMonthlyAmountFactor sub else None);
          monthlyDisplayAmount = (case monthlyFactor of
              None \<Rightarrow> None
            | Some f \<Rightarrow> if f = 0 then None else Some (nullish displayAmount (sub_amount sub) * f))
      in \<lparr>ca_displayAmount = (case monthlyDisplayAmount of Some a \<Rightarrow> Some a | None \<Rightarrow> displayAmount),
          ca_displayCurrency = displayCurrency,
          ca_displayCurrencySymbol =
            (case displayCurrency of
               None \<Rightarrow> None
             | Some c \<Rightarrow> if c = [] then None
                 else map_option (\<lambda>u. trim (uc_symbol u)) (map_of_list (\<lambda>u. toUpperCase (uc_code u)) (pg_userCurrencies s) c)),
          ca_priceTitle =
            (if \<not> sourceIsPrimaryCurrency \<and> \<not> shouldConvert \<and> hasConversionRate
             then Some (money (sub_amount sub * the conversionRate * nullish monthlyFactor 1) targetCurrency
               (map_option (\<lambda>u. trim (uc_symbol u)) (map_of_list (\<lambda>u. toUpperCase (uc_code u)) (pg_userCurrencies s) targetCurrency)))
             else None),
          ca_showMonthlyAmount = (monthlyFactor \<noteq> None),
          ca_showCycleProgress = (ds_display s Cycle_progress \<and> isSubscriptionActive sub)\<rparr>)"

text \<open>\<open>amountToDisplay\<close>, \<open>currencyToDisplay\<close> and \<open>symbolToDisplay\<close> of a card.\<close>

definition amountToDisplay :: "CardAmounts \<Rightarrow> Subscription \<Rightarrow> rat" where
  "amountToDisplay c sub = nullish (ca_displayAmount c) (sub_amount sub)"

definition currencyToDisplay :: "CardAmounts \<Rightarrow> Subscription \<Rightarrow> string" where
  "currencyToDisplay c sub = nullish (ca_displayCurrency c) (sub_currency sub)"

definition symbolToDisplay :: "UserCurrency list \<Rightarrow> CardAmounts \<Rightarrow> Subscription \<Rightarrow> string option" where
  "symbolToDisplay currencies c sub =
     (case ca_displayCurrencySymbol c of Some x \<Rightarrow> Some x | None \<Rightarrow> currency_symbol_of currencies (sub_currency sub))"

definition clean_code :: "string \<Rightarrow> bool" where
  "clean_code c \<longleftrightarrow> c \<noteq> [] \<and> trim c = c"

lemma toUpperCase_ne [simp]: "toUpperCase c = [] \<longleftrightarrow> c = []"
  by (simp add: toUpperCase_def)

text \<open>With both settings on, a card shows the amount by which the list is sorted.\<close>

lemma card_shows_comparable:
  assumes "ds_display s All_in_primary" "ds_display s Recurring_monthly"
    and "clean_code (sub_currency sub)" "clean_code (ds_preferredCurrency s)"
  shows "amountToDisplay (card_amounts money s sub) sub
    = getComparableSubscriptionAmount sub (ds_preferredCurrency s) (map_option Num \<circ> ds_exchangeRates s)"
proof -
  have "f = 0 \<longleftrightarrow> False" if "getMonthlyAmountFactor sub = Some f" for f
    using monthly_factor_pos [OF that] by simp
  with assms show ?thesis
    by (auto simp: amountToDisplay_def card_amounts_def getComparableSubscriptionAmount_def getAmountInTargetCurrency_def
        clean_code_def Let_def not_le split: option.split)
qed

lemma amount_order:
  assumes "sort_compare opt By_amount d a b \<le> 0" and "\<not> op_disabled_last opt \<or> isSubscriptionEnded a = isSubscriptionEnded b"
  shows "if d = Asc
    then getComparableSubscriptionAmount a (op_preferredCurrency opt) (op_exchangeRates opt)
      \<le> getComparableSubscriptionAmount b (op_preferredCurrency opt) (op_exchangeRates opt)
    else getComparableSubscriptionAmount b (op_preferredCurrency opt) (op_exchangeRates opt)
      \<le> getComparableSubscriptionAmount a (op_preferredCurrency opt) (op_exchangeRates opt)"
proof -
  have "\<not> (op_disabled_last opt \<and> getSubscriptionStatus a \<noteq> getSubscriptionStatus b)"
    using assms(2) by (cases "getSubscriptionStatus a"; cases "getSubscriptionStatus b") (auto simp: isSubscriptionEnded_def)
  then show ?thesis using assms(1)
    by (cases d) (auto simp: sort_compare_def compareSubscriptions_def Let_def split: if_splits)
qed

lemma ended_behind:
  assumes "op_disabled_last opt" and "sort_compare opt f d a b \<le> 0" and "isSubscriptionEnded a"
  shows "isSubscriptionEnded b"
  using assms by (cases "getSubscriptionStatus b") (auto simp: sort_compare_def isSubscriptionEnded_def Let_def split: if_splits)

lemma split_by:
  "sorted_wrt (\<lambda>a b. P a \<longrightarrow> P b) xs \<Longrightarrow> xs = filter (\<lambda>x. \<not> P x) xs @ filter P xs"
proof (induction xs)
  case (Cons x xs)
  then show ?case
    by (cases "P x") (auto simp: filter_empty_conv filter_id_conv)
qed simp

text \<open>Amounts in a direction.\<close>

fun ascending :: "SortDirection \<Rightarrow> rat list \<Rightarrow> bool" where
  "ascending Asc xs = sorted xs"
| "ascending Desc xs = sorted (rev xs)"

lemma ascending_map:
  "sorted_wrt (\<lambda>a b. if d = Asc then f a \<le> f b else f b \<le> f a) xs \<Longrightarrow> ascending d (map f xs)"
  by (cases d) (simp_all add: sorted_map rev_map [symmetric] sorted_wrt_rev sorted_wrt_map)

text \<open>C32: sorted by amount, the cards from top to bottom show amounts in the chosen direction, when the dashboard
  converts every amount into the preferred currency and to its monthly share, whatever currencies and recurrences are
  mixed and whichever rates are known; with the setting that moves ended subscriptions down, the active cards come first,
  and the amounts of the active and those of the ended cards are each in the direction.  The codes of the currencies are
  taken to be neither empty nor to have blanks around them, as the server stores them.\<close>

theorem amount_sorted_cards:
  fixes ck :: "string \<Rightarrow> 'k::linorder"
  assumes on: "ds_display s All_in_primary" "ds_display s Recurring_monthly"
    and sort: "sortField (ds_filters s) = By_amount"
    and clean: "clean_code (ds_preferredCurrency s)" "list_all (\<lambda>sub. clean_code (sub_currency sub)) (pg_subscriptions s)"
  shows "let dir = sortDirection (ds_filters s); l = dashboard_list ck date_ts t s;
      active = filter (\<lambda>sub. \<not> isSubscriptionEnded sub) l; ended = filter isSubscriptionEnded l;
      shown = map (\<lambda>sub. amountToDisplay (card_amounts money s sub) sub) in
    if ds_display s Disabled_last
    then l = active @ ended \<and> ascending dir (shown active) \<and> ascending dir (shown ended)
    else ascending dir (shown l)"
proof -
  let ?opt = "dashboard_options ck date_ts t s" and ?l = "dashboard_list ck date_ts t s" and ?d = "sortDirection (ds_filters s)"
  let ?amount = "\<lambda>sub. getComparableSubscriptionAmount sub (op_preferredCurrency ?opt) (op_exchangeRates ?opt)"
  have a: "amountToDisplay (card_amounts money s sub) sub = ?amount sub" if "sub \<in> set ?l" for sub
    using that card_shows_comparable [OF on, of sub money] clean
    by (auto simp: dashboard_list_def set_filtered dashboard_options_def list_all_iff)
  have e: "map (\<lambda>sub. amountToDisplay (card_amounts money s sub) sub) l = map ?amount l" if "set l \<subseteq> set ?l" for l
    using that a by auto
  have off: "op_disabled_last ?opt = ds_display s Disabled_last" by (simp add: dashboard_options_def)
  have srt: "sorted_wrt (\<lambda>a b. sort_compare ?opt By_amount ?d a b \<le> 0) ?l"
    using dashboard_order.sorted_js_sort [of ?opt By_amount ?d] sort
    by (simp add: dashboard_list_def filteredSubscriptions_def)
  have part: "ascending ?d (map ?amount (filter P ?l))"
    if alike: "\<And>a b. P a \<Longrightarrow> P b \<Longrightarrow> \<not> op_disabled_last ?opt \<or> isSubscriptionEnded a = isSubscriptionEnded b" for P
  proof (rule ascending_map, rule sorted_wrt_mono_rel [OF _ sorted_wrt_filter [OF srt]])
    show "if ?d = Asc then ?amount a \<le> ?amount b else ?amount b \<le> ?amount a"
      if m: "a \<in> set (filter P ?l)" "b \<in> set (filter P ?l)" "sort_compare ?opt By_amount ?d a b \<le> 0" for a b
      by (rule amount_order [OF m(3)]) (rule alike, use m(1, 2) in auto)
  qed
  have whole: "ascending ?d (map ?amount ?l)" if "\<not> ds_display s Disabled_last"
    using part [of "\<lambda>_. True"] that off by simp
  have halves: "?l = filter (\<lambda>sub. \<not> isSubscriptionEnded sub) ?l @ filter isSubscriptionEnded ?l" if "ds_display s Disabled_last"
    using ended_behind [of ?opt] that off
    by (intro split_by sorted_wrt_mono_rel [OF _ srt]) blast
  have e_all: "map (\<lambda>sub. amountToDisplay (card_amounts money s sub) sub) ?l = map ?amount ?l"
    and e_active: "map (\<lambda>sub. amountToDisplay (card_amounts money s sub) sub) (filter (\<lambda>sub. \<not> isSubscriptionEnded sub) ?l)
      = map ?amount (filter (\<lambda>sub. \<not> isSubscriptionEnded sub) ?l)"
    and e_ended: "map (\<lambda>sub. amountToDisplay (card_amounts money s sub) sub) (filter isSubscriptionEnded ?l)
      = map ?amount (filter isSubscriptionEnded ?l)"
    by (rule e, force)+
  show ?thesis
    unfolding Let_def e_all e_active e_ended
    using whole halves part [of "\<lambda>sub. \<not> isSubscriptionEnded sub"] part [of isSubscriptionEnded]
    by (cases "ds_display s Disabled_last") (simp_all only: if_True if_False not_True_eq_False not_False_eq_True simp_thms)
qed

text \<open>A dashboard in euros that converts 10 dollars at 9/10.\<close>

definition euro_dashboard :: DashboardState where
  "euro_dashboard = (mount_dashboard ''EUR'' Map.empty No_item initial_details)
     \<lparr>pg_subscriptions := [netflix, netflix\<lparr>sub_id := 8, sub_amount := 10, sub_currency := ''EUR''\<rparr>],
      pg_userCurrencies := [\<lparr>uc_id = 1, uc_code = ''USD'', uc_symbol = ''$'', uc_alias = [], uc_sort_order = 0\<rparr>],
      ds_display := (\<lambda>p. p \<noteq> Disabled_last), ds_exchangeRates := [''USD->EUR'' \<mapsto> 9 / 10],
      ds_filters := initial_filters\<lparr>sortField := By_amount\<rparr>\<rparr>"

lemma euro_dashboard_simps [simp]:
  "ds_display euro_dashboard p \<longleftrightarrow> p \<noteq> Disabled_last" "ds_filters euro_dashboard = initial_filters\<lparr>sortField := By_amount\<rparr>"
  "ds_preferredCurrency euro_dashboard = ''EUR''" "ds_exchangeRates euro_dashboard = [''USD->EUR'' \<mapsto> 9 / 10]"
  "pg_subscriptions euro_dashboard = [netflix, netflix\<lparr>sub_id := 8, sub_amount := 10, sub_currency := ''EUR''\<rparr>]"
  "pg_userCurrencies euro_dashboard = [\<lparr>uc_id = 1, uc_code = ''USD'', uc_symbol = ''$'', uc_alias = [], uc_sort_order = 0\<rparr>]"
  by (simp_all add: euro_dashboard_def mount_dashboard_def send_call_def getDefaultCurrency_def or_opt_def or_str_def)

theorem amount_sorted_cards_witness:
  "ascending Asc (map (\<lambda>sub. amountToDisplay (card_amounts (\<lambda>a c x. c) euro_dashboard sub) sub)
     (dashboard_list length (\<lambda>_. None) (\<lambda>_. None) euro_dashboard))"
proof -
  have "clean_code ''USD''" "clean_code ''EUR''" by code_simp+
  then have "clean_code (ds_preferredCurrency euro_dashboard)"
    "list_all (\<lambda>sub. clean_code (sub_currency sub)) (pg_subscriptions euro_dashboard)"
    by (simp_all add: netflix_def)
  note w = amount_sorted_cards [OF _ _ _ this, of length "\<lambda>_. None" "\<lambda>_. None" "\<lambda>a c x. c"]
  show ?thesis using w by (simp add: Let_def initial_filters_def defaultSortDirection_def)
qed

text \<open>
  A converted amount keeps the symbol of the subscription's own currency when the preferred currency is not
  among the currencies of the user: 12 dollars at 9/10 are shown as 10.8 euros with the sign of the dollar.
\<close>

lemma converted_amount_wrong_symbol:
  "let c = card_amounts (\<lambda>a c x. c) euro_dashboard netflix
   in amountToDisplay c netflix = 108 / 10 \<and> currencyToDisplay c netflix = ''EUR''
      \<and> symbolToDisplay (pg_userCurrencies euro_dashboard) c netflix = Some ''$''"
proof -
  have u: "toUpperCase ''USD'' = ''USD''" "toUpperCase ''EUR'' = ''EUR''" "trim ''$'' = ''$''" by code_simp+
  show ?thesis
    by (simp add: card_amounts_def amountToDisplay_def currencyToDisplay_def symbolToDisplay_def currency_symbol_of_def
        rate_key_def map_of_list_def netflix_def getMonthlyAmountFactor_def u Let_def)
qed

subsection \<open>Runs\<close>

lemmas dashboard_handlers = fetchData_def handleEdit_def handleDelete_def dashboard_submit_def
  openNewForm_def handleFormOpenChange_def

definition dashboard_saved_id :: "dashboard_call \<Rightarrow> dashboard_reply \<Rightarrow> int option" where
  "dashboard_saved_id c r =
     (case (c, r) of
        (Delete_subscription i, Subscription_deleted) \<Rightarrow> Some i
      | (Dashboard_put sub data, Dashboard_saved x) \<Rightarrow> Some (sub_id sub)
      | (Dashboard_renew sub, Dashboard_saved x) \<Rightarrow> Some (sub_id sub)
      | _ \<Rightarrow> None)"

definition dashboard_saved :: "DashboardState \<Rightarrow> dashboard_event \<Rightarrow> int option" where
  "dashboard_saved s e =
     (case e of Dashboard_answer n r now \<Rightarrow> if n < length (pg_open s) then dashboard_saved_id (pg_open s ! n) r else None
      | _ \<Rightarrow> None)"

definition dashboard_acts :: "DashboardState \<Rightarrow> dashboard_event \<Rightarrow> SubscriptionDetail detail_event list" where
  "dashboard_acts s e =
     (case dashboard_saved s e of
        Some i \<Rightarrow> [Invalidate i]
      | None \<Rightarrow> (case e of Dashboard_core ce \<Rightarrow> core_details ce | _ \<Rightarrow> []))"

lemma rates_details [simp]:
  "pg_details (rates_effect now s) = pg_details s" "pg_details (rates_found k response now s) = pg_details s"
  "pg_details (data_fetched data s) = pg_details s"
  by (simp_all add: rates_effect_def rates_found_def data_fetched_def Let_def case_prod_beta)

lemma dashboard_answered_details:
  "pg_details (dashboard_answered now c r s) = (case dashboard_saved_id c r of None \<Rightarrow> pg_details s
     | Some i \<Rightarrow> invalidateSubscriptionDetail i (pg_details s))"
  by (cases c; cases r) (simp_all add: dashboard_answered_def dashboard_saved_id_def saved_in_form_def fetchData_def Let_def)

lemma dashboard_step_details:
  "pg_details (dashboard_step s e) = foldl detail_step (pg_details s) (dashboard_acts s e)"
proof (cases e)
  case (Dashboard_answer n r now)
  then show ?thesis
    by (simp add: dashboard_acts_def dashboard_saved_def dashboard_answered_details split: option.split)
qed (simp_all add: dashboard_acts_def dashboard_saved_def core_step_details dashboard_handlers Let_def split: option.split)

interpretation dashboard_client: invalidating_client dashboard_step pg_details dashboard_acts dashboard_saved
  by unfold_locales (rule dashboard_step_details, simp add: dashboard_acts_def)

text \<open>The same freshness as in the action centre: after a change or a deletion the drawer asks again.\<close>

theorem dashboard_drawer_fresh:
  assumes "details_ok (pg_details s)" and "dashboard_saved s e = Some (sub_id sub)"
    and "never_loads dashboard_step dashboard_acts (sub_id sub) (dashboard_step s e) later"
  shows "waits_for_new_request (sub_id sub) (foldl dashboard_step s (e # later))
    (foldl dashboard_step s (e # later @ [Dashboard_core (Open_detail now sub)]))"
  using dashboard_client.saved_stays_outdated [OF assms] open_outdated [of sub "foldl dashboard_step s (e # later)" now]
  by simp

text \<open>
  The answers to \<open>fetchData\<close> are applied in the order of their arrival: when two subscriptions are deleted and the
  list that was asked for after the first deletion arrives last, the second one is shown again.
\<close>

definition bootstrap :: "Subscription list \<Rightarrow> DashboardBootstrap" where
  "bootstrap subs = \<lparr>db_subscriptions = Some subs, db_summary = None, db_categories = None, db_payment_methods = None,
     db_currencies = None, db_preferred_currency = []\<rparr>"

lemma deleted_subscription_reappears:
  "let s = foldl dashboard_step (mount_dashboard ''USD'' Map.empty No_item initial_details)
     [Dashboard_answer 0 (Bootstrap (bootstrap [netflix, netflix\<lparr>sub_id := 8\<rparr>])) 0,
      Delete_event True 7, Dashboard_answer 0 Subscription_deleted 1, Delete_event True 8,
      Dashboard_answer 1 Subscription_deleted 2, Dashboard_answer 1 (Bootstrap (bootstrap [])) 3,
      Dashboard_answer 0 (Bootstrap (bootstrap [netflix\<lparr>sub_id := 8\<rparr>])) 4]
   in pg_subscriptions s = [netflix\<lparr>sub_id := 8\<rparr>] \<and> pg_open s = []"
proof -
  have u: "toUpperCase ''USD'' = ''USD''" "sub_currency netflix = ''USD''" by code_simp+
  show ?thesis
    by (simp add: mount_dashboard_def send_call_def notify_def on_details_def dashboard_answered_def data_fetched_def
        rates_effect_def sourceCurrencies_def getDefaultCurrency_def or_opt_def or_str_def without_def handleDelete_def
        fetchData_def bootstrap_def u Let_def)
qed

end
