(* ===== verification/CycleProgress.thy ===== *)
theory CycleProgress
  imports BillingCalendar
begin

text \<open>
  The progress of the billing cycle at the foot of a card,
  \<open>web/src/features/subscriptions/subscription-cycle-progress-bar.tsx\<close>.  Every \<open>Date\<close> of the module is a midnight
  in UTC, so it is its day number, and the ratio of two durations does not depend on the length of a day.
\<close>

text \<open>\<open>new Date(value)\<close> of a date-only text is that day in UTC; \<open>date_parse\<close> gives the UTC day of other texts.\<close>

definition toUTCDate :: "(string \<Rightarrow> int option) \<Rightarrow> string \<Rightarrow> int option" where
  "toUTCDate date_parse v =
     (let parsed = (case match_date_only v of
          Some (y, m, d) \<Rightarrow>
            if length v = 10 \<and> valid_date (digits_int y) (digits_int m) (digits_int d)
            then Some (make_day (digits_int y) (digits_int m - 1) (digits_int d)) else date_parse v
        | None \<Rightarrow> date_parse v)
      in map_option (\<lambda>t. date_utc (year_from_day t) (month_from_day t) (date_from_day t)) parsed)"

definition daysInUTCMonth :: "int \<Rightarrow> int \<Rightarrow> int" where
  "daysInUTCMonth year monthIndex = date_from_day (date_utc year (monthIndex + 1) 0)"

definition shiftUTCDate :: "int \<Rightarrow> int \<Rightarrow> int \<Rightarrow> int \<Rightarrow> int" where
  "shiftUTCDate t years months days =
     (let baseYear = year_from_day t + years; baseMonth = month_from_day t + months;
          normalizedMonthDate = date_utc baseYear baseMonth 1;
          normalizedYear = year_from_day normalizedMonthDate; normalizedMonth = month_from_day normalizedMonthDate;
          day = min (date_from_day t) (daysInUTCMonth normalizedYear normalizedMonth)
      in date_utc normalizedYear normalizedMonth day + days)"

definition interval_count_or_one :: "Subscription \<Rightarrow> int" where
  "interval_count_or_one sub = (case sub_interval_count sub of Some n \<Rightarrow> if 0 < n then n else 1 | None \<Rightarrow> 1)"

definition getPreviousCycleDate :: "Subscription \<Rightarrow> int \<Rightarrow> int option" where
  "getPreviousCycleDate sub nextDate =
     (let intervalCount = interval_count_or_one sub in
      if sub_recurrence_type sub = ''monthly_date'' then Some (shiftUTCDate nextDate 0 (- 1) 0)
      else if sub_recurrence_type sub = ''yearly_date'' then Some (shiftUTCDate nextDate (- 1) 0 0)
      else if sub_recurrence_type sub = ''interval'' then
        (if sub_interval_unit sub = ''day'' then Some (shiftUTCDate nextDate 0 0 (- intervalCount))
         else if sub_interval_unit sub = ''week'' then Some (shiftUTCDate nextDate 0 0 (- intervalCount * 7))
         else if sub_interval_unit sub = ''month'' then Some (shiftUTCDate nextDate 0 (- intervalCount) 0)
         else if sub_interval_unit sub = ''year'' then Some (shiftUTCDate nextDate (- intervalCount) 0 0)
         else None)
      else None)"

definition cycle_percent :: "int \<Rightarrow> int \<Rightarrow> int \<Rightarrow> rat option" where
  "cycle_percent previousCycleDate nextDate today =
     (let cycleDuration = nextDate - previousCycleDate; elapsed = today - previousCycleDate in
      if cycleDuration \<le> 0 then None
      else let ratio = rat_of_int elapsed / rat_of_int cycleDuration in
        if ratio \<le> 0 then Some 0 else if 1 \<le> ratio then Some 100 else Some (ratio * 100))"

definition getCycleProgressPercent :: "(string \<Rightarrow> int option) \<Rightarrow> int \<Rightarrow> Subscription \<Rightarrow> rat option" where
  "getCycleProgressPercent date_parse today sub =
     (if \<not> hasActiveRecurringCycle sub \<or> \<not> truthy_str (sub_next_billing_date sub) then None
      else case toUTCDate date_parse (the (sub_next_billing_date sub)) of
          None \<Rightarrow> None
        | Some nextDate \<Rightarrow>
            (case getPreviousCycleDate sub nextDate of
               None \<Rightarrow> None
             | Some previousCycleDate \<Rightarrow> cycle_percent previousCycleDate nextDate today))"

definition getProgressColor :: "rat \<Rightarrow> string" where
  "getProgressColor progress =
     (if progress < 25 then ''bg-emerald-500'' else if progress < 50 then ''bg-sky-500''
      else if progress < 75 then ''bg-amber-500'' else if progress < 90 then ''bg-orange-500'' else ''bg-rose-500'')"

subsection \<open>The previous date\<close>

lemma month_number: "0 \<le> m mod (12::int)" "m mod (12::int) \<le> 11"
  by presburger+

lemma month_view:
  assumes "100 \<le> y"
  shows "year_from_day (date_utc y m 1) = y + m div 12" "month_from_day (date_utc y m 1) = m mod 12"
proof -
  have v: "valid_date (y + m div 12) (m mod 12 + 1) 1"
    using days_in_month_range [OF month_number, of "y + m div 12" m] month_number [of m] by (simp add: valid_date_def)
  have "date_utc y m 1 = make_day (y + m div 12) (m mod 12 + 1 - 1) 1"
    using assms by (simp add: date_utc_def legacy_year_def make_day_def Let_def)
  then show "year_from_day (date_utc y m 1) = y + m div 12" "month_from_day (date_utc y m 1) = m mod 12"
    using decompose_make_day [OF v] by simp_all
qed

lemma daysInUTCMonth_month: "0 \<le> m \<Longrightarrow> m \<le> 11 \<Longrightarrow> 100 \<le> y \<Longrightarrow> daysInUTCMonth y m = days_in_month y m"
  using days_in_view_month [of m y] by (simp add: daysInUTCMonth_def days_in_view_def)

text \<open>A shift goes to the month that is meant and keeps the day of the month where that month has it.\<close>

lemma shiftUTCDate_base:
  assumes "100 \<le> year_from_day t + years" "100 \<le> (month_index t + 12 * years + months) div 12"
  shows "shiftUTCDate t years months days
    = month_base (month_index t + 12 * years + months)
      + min (date_from_day t) (days_in_month ((month_index t + 12 * years + months) div 12) ((month_index t + 12 * years + months) mod 12))
      + days"
proof -
  let ?y = "year_from_day t + years" and ?m = "month_from_day t + months"
  define k where "k = month_index t + 12 * years + months"
  have k: "k = ?m + ?y * 12" by (simp add: k_def month_index_def)
  have kd: "k div 12 = ?y + ?m div 12" "k mod 12 = ?m mod 12"
    unfolding k by (simp_all only: div_mult_self1 mod_mult_self1 add.commute)
  have b: "month_base k + d = make_day (k div 12) (k mod 12) d" for d by (simp add: make_day_base)
  have y: "100 \<le> k div 12" using assms(2) unfolding k_def .
  note m = month_number [of k]
  have l: "date_utc (k div 12) i d = make_day (k div 12) i d" for i d using y by (simp add: date_utc_def legacy_year_def)
  show ?thesis
    unfolding k_def [symmetric] b
    by (simp add: shiftUTCDate_def Let_def month_view [OF assms(1)] kd [symmetric] daysInUTCMonth_month [OF m y] l)
qed

lemma month_start_before:
  assumes "0 < n"
  shows "month_base (k - n) + min d (days_in_month ((k - n) div 12) ((k - n) mod 12)) \<le> month_base k"
proof -
  have "month_base (k - n + 1) \<le> month_base k" using assms month_base_less [of "k - n + 1" k] by (cases "n = 1") auto
  then show ?thesis using month_base_step [of "k - n"] by simp
qed

lemma shift_months_before:
  assumes "0 < n" "100 \<le> year_from_day t - (n + 11) div 12"
  shows "shiftUTCDate t 0 (- n) 0 < t"
proof -
  have "100 \<le> (month_index t - n) div 12"
  proof -
    have "n \<le> 12 * ((n + 11) div 12)" by presburger
    then have "12 * 100 \<le> month_index t - n" using assms(2) month_from_day_range [of t] by (simp add: month_index_def)
    then show ?thesis by presburger
  qed
  moreover have "0 \<le> (n + 11) div 12" using assms(1) by (simp add: pos_imp_zdiv_nonneg_iff)
  then have "100 \<le> year_from_day t" using assms(2) by linarith
  ultimately have "shiftUTCDate t 0 (- n) 0 = month_base (month_index t - n)
      + min (date_from_day t) (days_in_month ((month_index t - n) div 12) ((month_index t - n) mod 12))"
    using shiftUTCDate_base [of t 0 "- n" 0] by simp
  then show ?thesis
    using month_start_before [OF assms(1), of "month_index t" "date_from_day t"] day_base [of t] date_from_day_range [of t] by simp
qed

lemma shift_years_before:
  assumes "0 < n" "100 \<le> year_from_day t - n"
  shows "shiftUTCDate t (- n) 0 0 < t"
proof -
  have "(month_index t + 12 * - n) div 12 = year_from_day t - n"
    using month_from_day_range [of t] by (simp add: month_index_def)
  then have "shiftUTCDate t (- n) 0 0 = month_base (month_index t - 12 * n)
      + min (date_from_day t) (days_in_month ((month_index t - 12 * n) div 12) ((month_index t - 12 * n) mod 12))"
    using shiftUTCDate_base [of t "- n" 0 0] assms by simp
  then show ?thesis
    using month_start_before [of "12 * n" "month_index t" "date_from_day t"] assms day_base [of t] date_from_day_range [of t] by simp
qed

lemma shift_days: "100 \<le> year_from_day t \<Longrightarrow> shiftUTCDate t 0 0 days = t + days"
  using shiftUTCDate_base [of t 0 0 days] day_base [of t] date_from_day_range [of t] month_base_step [of "month_index t"]
    month_from_day_range [of t] by (simp add: month_index_def)

subsection \<open>The percentage\<close>

lemma cycle_percent_cases:
  assumes "prev < nxt"
  shows "cycle_percent prev nxt today = Some
    (if today \<le> prev then 0 else if nxt \<le> today then 100 else 100 * rat_of_int (today - prev) / rat_of_int (nxt - prev))"
proof -
  have d: "0 < rat_of_int (nxt - prev)" using assms by simp
  have "rat_of_int (today - prev) / rat_of_int (nxt - prev) \<le> 0 \<longleftrightarrow> today \<le> prev"
    using d by (simp add: divide_le_0_iff del: of_int_diff) 
  moreover have "1 \<le> rat_of_int (today - prev) / rat_of_int (nxt - prev) \<longleftrightarrow> nxt \<le> today"
    using d by (simp add: le_divide_eq del: of_int_diff)
  ultimately show ?thesis using assms by (simp add: cycle_percent_def Let_def)
qed

definition cycle_known :: "Subscription \<Rightarrow> bool" where
  "cycle_known sub \<longleftrightarrow> sub_recurrence_type sub = ''monthly_date'' \<or> sub_recurrence_type sub = ''yearly_date''
     \<or> sub_recurrence_type sub = ''interval'' \<and> known_unit (sub_interval_unit sub)"

lemma interval_count_pos: "0 < interval_count_or_one sub"
  by (simp add: interval_count_or_one_def split: option.split)

lemma previous_before:
  assumes "cycle_known sub" and y: "100 \<le> year_from_day nxt - interval_count_or_one sub"
  shows "\<exists>prev. getPreviousCycleDate sub nxt = Some prev \<and> prev < nxt"
proof -
  define n where "n = interval_count_or_one sub"
  have n: "0 < n" "100 \<le> year_from_day nxt - n" using interval_count_pos y by (simp_all add: n_def)
  have "(n + 11) div 12 \<le> 12 * n div 12" using n(1) by (intro zdiv_mono1) simp_all
  then have "(n + 11) div 12 \<le> n" by simp
  then have m: "100 \<le> year_from_day nxt - (n + 11) div 12" using n(2) by simp
  have one: "100 \<le> year_from_day nxt - (1 + 11) div 12" "100 \<le> year_from_day nxt - 1" using n by simp_all
  have d: "shiftUTCDate nxt 0 0 days = nxt + days" for days using n by (intro shift_days) simp
  show ?thesis
    using assms(1) n shift_months_before [OF n(1) m] shift_years_before [OF n] shift_months_before [OF _ one(1)]
      shift_years_before [OF _ one(2)]
    unfolding cycle_known_def known_unit_def n_def [symmetric]
    by (auto simp: getPreviousCycleDate_def d Let_def n_def [symmetric])
qed

text \<open>a card of an active recurring subscription whose recurrence is known always shows a progress, from 0 to
  100: 0 until the previous date of the cycle, 100 from the next billing date on, and in between the share of the
  days of the cycle that have passed; the previous date lies before the next one, also at the ends of months.\<close>

theorem cycle_progress_bounds:
  assumes "hasActiveRecurringCycle sub" and "sub_next_billing_date sub = Some v" and "v \<noteq> []"
    and "toUTCDate date_parse v = Some nxt" and "cycle_known sub"
    and "100 \<le> year_from_day nxt - interval_count_or_one sub"
  shows "\<exists>prev p. getPreviousCycleDate sub nxt = Some prev \<and> prev < nxt
    \<and> getCycleProgressPercent date_parse today sub = Some p \<and> 0 \<le> p \<and> p \<le> 100
    \<and> (p = 0 \<longleftrightarrow> today \<le> prev) \<and> (p = 100 \<longleftrightarrow> nxt \<le> today)
    \<and> (prev \<le> today \<and> today \<le> nxt \<longrightarrow> p * rat_of_int (nxt - prev) = 100 * rat_of_int (today - prev))"
proof -
  obtain prev where prev: "getPreviousCycleDate sub nxt = Some prev" "prev < nxt"
    using previous_before [OF assms(5,6)] by blast
  define a d where "a = rat_of_int (today - prev)" and "d = rat_of_int (nxt - prev)"
  have d: "0 < d" "a \<le> 0 \<longleftrightarrow> today \<le> prev" "d \<le> a \<longleftrightarrow> nxt \<le> today" "a = 0 \<longleftrightarrow> today = prev" "a = d \<longleftrightarrow> today = nxt"
    using prev(2) by (simp_all add: a_def d_def del: of_int_diff)
  define p where "p = (if today \<le> prev then 0 else if nxt \<le> today then 100 else 100 * a / d)"
  have "getCycleProgressPercent date_parse today sub = Some p"
    using assms(1-4) prev cycle_percent_cases [OF prev(2), of today]
    by (simp add: getCycleProgressPercent_def p_def a_def d_def)
  moreover have "0 \<le> p \<and> p \<le> 100 \<and> (p = 0 \<longleftrightarrow> today \<le> prev) \<and> (p = 100 \<longleftrightarrow> nxt \<le> today)"
    using d prev(2) by (auto simp: p_def not_le field_simps)
  moreover have "p * d = 100 * a" if "prev \<le> today" "today \<le> nxt" using that d prev(2) by (auto simp: p_def)
  ultimately show ?thesis using prev unfolding a_def d_def by blast
qed

theorem cycle_progress_bounds_witness:
  "\<exists>p. getCycleProgressPercent (\<lambda>_. None) 20163 (netflix\<lparr>sub_next_billing_date := Some ''2025-03-31''\<rparr>) = Some p \<and> 0 < p \<and> p < 100"
proof -
  let ?sub = "netflix\<lparr>sub_next_billing_date := Some ''2025-03-31''\<rparr>"
  have c: "hasActiveRecurringCycle ?sub" "sub_next_billing_date ?sub = Some ''2025-03-31''" "cycle_known ?sub"
    "toUTCDate (\<lambda>_. None) ''2025-03-31'' = Some 20178" "100 \<le> year_from_day 20178 - interval_count_or_one ?sub"
    by code_simp+
  have "getPreviousCycleDate ?sub 20178 = Some 20147" by code_simp
  then show ?thesis using cycle_progress_bounds [OF c(1,2) _ c(4,3,5), of 20163] by (auto simp: less_le)
qed

end
