(* ===== verification/SubscriptionCards.thy ===== *)
theory SubscriptionCards
  imports DashboardPage CycleProgress
begin

text \<open>
  The cards of the dashboard, \<open>web/src/features/subscriptions/subscription-card.tsx\<close> and
  \<open>subscription-square-card.tsx\<close>: which texts, links, images and badges they show.  The icon of a
  subscription is read in the same way by both cards, by the calendar and by the action centre.  \<open>t\<close>,
  \<open>formatDay\<close> and \<open>money\<close> are as in \<open>DetailDrawer\<close>; the ellipsis and the middle dot are not characters of HOL, so
  \<open>ellipsis\<close> and \<open>dot\<close> are parameters.
\<close>

subsection \<open>Icons\<close>

datatype icon_view =
    Icon_initial string
  | Icon_brand string
  | Icon_image string
  | Icon_text string

definition isAsyncBrandIconValue :: "string \<Rightarrow> bool" where
  "isAsyncBrandIconValue v =
     (let l = toLowerCase (trim v)
      in startsWith l ''bl:'' \<or> startsWith l ''custom:'' \<or> startsWith l ''lg:'' \<or> startsWith l ''sx:'')"

definition initial_of :: "string \<Rightarrow> string" where
  "initial_of name = toUpperCase (take 1 name)"

definition renderIcon :: "string \<Rightarrow> string \<Rightarrow> icon_view" where
  "renderIcon icon name =
     (if icon = [] then Icon_initial (initial_of name)
      else if isAsyncBrandIconValue icon then Icon_brand icon
      else if startsWith icon ''http://'' \<or> startsWith icon ''https://'' \<or> startsWith icon ''/api/icon-proxy/''
      then Icon_image icon
      else if startsWith icon ''file:'' \<and> drop 5 icon \<noteq> [] \<and> CHR ''/'' \<notin> set (drop 5 icon) \<and> CHR 0x5C \<notin> set (drop 5 icon)
      then Icon_image (''/uploads/icons/'' @ drop 5 icon)
      else if CHR '':'' \<in> set icon then Icon_initial (initial_of name)
      else Icon_text icon)"

definition renderInlineIcon :: "string \<Rightarrow> string \<Rightarrow> icon_view option" where
  "renderInlineIcon icon name = (if icon = [] then None else Some (renderIcon icon name))"

text \<open>The action centre has its own copy; the calendar asks for the absence of a colon and falls back last.\<close>

definition renderActionIcon :: "string \<Rightarrow> string \<Rightarrow> icon_view" where
  "renderActionIcon icon name =
     (if icon = [] then Icon_initial (initial_of name)
      else if isAsyncBrandIconValue icon then Icon_brand icon
      else if startsWith icon ''http://'' \<or> startsWith icon ''https://'' \<or> startsWith icon ''/api/icon-proxy/''
      then Icon_image icon
      else if startsWith icon ''file:'' \<and> drop 5 icon \<noteq> [] \<and> CHR ''/'' \<notin> set (drop 5 icon) \<and> CHR 0x5C \<notin> set (drop 5 icon)
      then Icon_image (''/uploads/icons/'' @ drop 5 icon)
      else if CHR '':'' \<in> set icon then Icon_initial (initial_of name)
      else Icon_text icon)"

definition renderCalendarIcon :: "string \<Rightarrow> string \<Rightarrow> icon_view" where
  "renderCalendarIcon icon name =
     (if icon = [] then Icon_initial (initial_of name)
      else if isAsyncBrandIconValue icon then Icon_brand icon
      else if startsWith icon ''http://'' \<or> startsWith icon ''https://'' \<or> startsWith icon ''/api/icon-proxy/''
      then Icon_image icon
      else if startsWith icon ''file:'' \<and> drop 5 icon \<noteq> [] \<and> CHR ''/'' \<notin> set (drop 5 icon) \<and> CHR 0x5C \<notin> set (drop 5 icon)
      then Icon_image (''/uploads/icons/'' @ drop 5 icon)
      else if CHR '':'' \<notin> set icon then Icon_text icon
      else Icon_initial (initial_of name))"

subsection \<open>Texts\<close>

definition trimEnd :: "string \<Rightarrow> string" where
  "trimEnd s = rev (trimStart (rev s))"

definition truncateWithEllipsis :: "string \<Rightarrow> string \<Rightarrow> nat \<Rightarrow> string" where
  "truncateWithEllipsis ellipsis v maxLength =
     (if length v \<le> maxLength then v else trimEnd (take maxLength v) @ ellipsis)"

definition NOTE_PREVIEW_MAX_LENGTH :: nat where
  "NOTE_PREVIEW_MAX_LENGTH = 56"

definition renderBillingLabel :: "t_fun \<Rightarrow> bool \<Rightarrow> Subscription \<Rightarrow> string" where
  "renderBillingLabel t showMonthlyAmount sub =
     (if showMonthlyAmount \<and> sub_billing_type sub = ''recurring'' then t ''subscription.card.recurrence.monthlyCost'' []
      else if sub_recurrence_type sub = ''monthly_date''
      then t ''subscription.card.recurrence.monthlyDate'' [(''day'', T_num (nullish (sub_monthly_day sub) 1))]
      else if sub_recurrence_type sub = ''yearly_date''
      then t ''subscription.card.recurrence.yearlyDate''
             [(''month'', T_num (nullish (sub_yearly_month sub) 1)), (''day'', T_num (nullish (sub_yearly_day sub) 1))]
      else t (''subscription.card.recurrence.interval.'' @ sub_interval_unit sub)
             [(''count'', T_num (nullish (sub_interval_count sub) 1))])"

text \<open>\<open>days\<close>: \<open>None\<close> without a next billing date, \<open>Some None\<close> for NaN.\<close>

definition card_days :: "(string \<Rightarrow> int option) \<Rightarrow> LocalDate \<Rightarrow> Subscription \<Rightarrow> int option option" where
  "card_days date_parse now sub =
     (if truthy_str (sub_next_billing_date sub) then Some (daysUntil date_parse now (the (sub_next_billing_date sub))) else None)"

definition isUpcoming :: "int option option \<Rightarrow> bool" where
  "isUpcoming days \<longleftrightarrow> (case days of Some (Some n) \<Rightarrow> 0 \<le> n \<and> n < 7 | _ \<Rightarrow> False)"

definition isOverdue :: "int option option \<Rightarrow> bool" where
  "isOverdue days \<longleftrightarrow> (case days of Some (Some n) \<Rightarrow> n < 0 | _ \<Rightarrow> False)"

text \<open>The list card counts the days of the coming week, the square card shows the date.\<close>

definition renderDueText :: "bool \<Rightarrow> t_fun \<Rightarrow> (string \<Rightarrow> string) \<Rightarrow> int option option \<Rightarrow> Subscription \<Rightarrow> string" where
  "renderDueText counts_week t formatDay days sub =
     (if isSubscriptionEnded sub then t ''subscription.card.status.ended'' []
      else if sub_billing_type sub = ''recurring'' \<and> getSubscriptionRenewalMode sub = Cancel_at_period_end
          \<and> truthy_str (getSubscriptionEndsAt sub)
      then t ''subscription.card.endsOn'' [(''date'', T_text (formatDay (the (getSubscriptionEndsAt sub))))]
      else if \<not> truthy_str (sub_next_billing_date sub) then t ''subscription.card.noNextBilling'' []
      else if days = Some (Some 0) then t ''subscription.card.dueToday'' []
      else if counts_week \<and> isUpcoming days then t ''subscription.card.dueIn'' [(''count'', T_num (the (the days)))]
      else if isOverdue days then t ''subscription.card.overdue'' []
      else formatDay (the (sub_next_billing_date sub)))"

definition dueBadgeClass :: "int option option \<Rightarrow> Subscription \<Rightarrow> string" where
  "dueBadgeClass days sub =
     (if isSubscriptionEnded sub then ''bg-zinc-500/10 text-zinc-600 border-zinc-200''
      else if isUpcoming days then ''bg-amber-500/10 text-amber-700 border-amber-200''
      else if isOverdue days then ''bg-destructive/10 text-destructive border-destructive/30''
      else ''bg-zinc-500/10 text-zinc-600 border-zinc-200'')"

definition renderReminderText :: "t_fun \<Rightarrow> Subscription \<Rightarrow> string" where
  "renderReminderText t sub =
     (if sub_notify_enabled sub \<noteq> Some True then t ''subscription.card.reminder.off'' []
      else t ''subscription.card.reminder.on'' [(''days'', T_num (nullish (sub_notify_days_before sub) 0))])"

definition statusStyles :: "SubscriptionStatus \<Rightarrow> string" where
  "statusStyles status = (case status of Active \<Rightarrow> ''bg-emerald-500/10 text-emerald-700 border-emerald-200''
     | Ended \<Rightarrow> ''bg-zinc-500/10 text-zinc-500 border-zinc-200'')"

definition renewalModeStyles :: "SubscriptionRenewalMode \<Rightarrow> string" where
  "renewalModeStyles mode = (case mode of Auto_renew \<Rightarrow> ''bg-sky-500/10 text-sky-700 border-sky-200''
     | Manual_renew \<Rightarrow> ''bg-amber-500/10 text-amber-700 border-amber-200''
     | Cancel_at_period_end \<Rightarrow> ''bg-violet-500/10 text-violet-700 border-violet-200'')"

subsection \<open>The cards\<close>

record CardProps =
  cp_categoryName :: "string option"
  cp_currencies :: "UserCurrency list"
  cp_amounts :: CardAmounts
  cp_paymentMethodName :: "string option"
  cp_paymentMethodIcon :: "string option"

record CardView =
  cv_icon :: icon_view
  cv_name :: string
  cv_href :: "string option"
  cv_category :: string
  cv_paymentIcon :: "icon_view option"
  cv_reminder :: "string option"
  cv_notes :: "(string \<times> string) option"
  cv_price :: string
  cv_priceTitle :: "string option"
  cv_billing :: string
  cv_due :: string
  cv_dueClass :: string
  cv_status :: string
  cv_statusClass :: string
  cv_renewal :: string
  cv_renewalClass :: string
  cv_buttons :: bool
  cv_progress :: "rat option"

definition card_category :: "CardProps \<Rightarrow> Subscription \<Rightarrow> string" where
  "card_category p sub = trimmed_or (cp_categoryName p) (sub_category sub)"

definition card_price :: "(rat \<Rightarrow> string \<Rightarrow> string option \<Rightarrow> string) \<Rightarrow> CardProps \<Rightarrow> Subscription \<Rightarrow> string" where
  "card_price money p sub =
     money (amountToDisplay (cp_amounts p) sub) (currencyToDisplay (cp_amounts p) sub)
       (symbolToDisplay (cp_currencies p) (cp_amounts p) sub)"

text \<open>\<open>hover\<close> is \<open>useHoverCapablePointer\<close>; \<open>today\<close> is the present day in UTC.\<close>

definition SubscriptionCard ::
  "t_fun \<Rightarrow> (string \<Rightarrow> string) \<Rightarrow> (rat \<Rightarrow> string \<Rightarrow> string option \<Rightarrow> string) \<Rightarrow> (string \<Rightarrow> URL option) \<Rightarrow> (string \<Rightarrow> int option)
   \<Rightarrow> string \<Rightarrow> bool \<Rightarrow> LocalDate \<Rightarrow> int \<Rightarrow> CardProps \<Rightarrow> Subscription \<Rightarrow> CardView" where
  "SubscriptionCard t formatDay money new_URL date_parse ellipsis hover now today p sub =
     (let days = card_days date_parse now sub; rawNotes = trim (sub_notes sub); payment = nullish (cp_paymentMethodName p) []
      in \<lparr>cv_icon = renderIcon (sub_icon sub) (sub_name sub), cv_name = sub_name sub,
          cv_href = safeHref new_URL (Some (sub_url sub)), cv_category = card_category p sub,
          cv_paymentIcon = (if payment \<noteq> [] \<and> truthy_str (cp_paymentMethodIcon p)
             then renderInlineIcon (the (cp_paymentMethodIcon p)) payment else None),
          cv_reminder = (if sub_notify_enabled sub = Some False then Some (renderReminderText t sub) else None),
          cv_notes = (if rawNotes = [] then None
             else Some (rawNotes, t ''subscription.card.notes''
               [(''content'', T_text (truncateWithEllipsis ellipsis rawNotes NOTE_PREVIEW_MAX_LENGTH))])),
          cv_price = card_price money p sub, cv_priceTitle = ca_priceTitle (cp_amounts p),
          cv_billing = renderBillingLabel t (ca_showMonthlyAmount (cp_amounts p)) sub,
          cv_due = renderDueText True t formatDay days sub, cv_dueClass = dueBadgeClass days sub,
          cv_status = t (''subscription.card.status.'' @ status_text (getSubscriptionStatus sub)) [],
          cv_statusClass = statusStyles (getSubscriptionStatus sub),
          cv_renewal = t (''subscription.card.renewalMode.'' @ renewal_text (getSubscriptionRenewalMode sub)) [],
          cv_renewalClass = renewalModeStyles (getSubscriptionRenewalMode sub),
          cv_buttons = hover,
          cv_progress = (if ca_showCycleProgress (cp_amounts p) then getCycleProgressPercent date_parse today sub else None)\<rparr>)"

definition square_details :: "string \<Rightarrow> CardProps \<Rightarrow> Subscription \<Rightarrow> string" where
  "square_details dot p sub =
     join_with ('' '' @ dot @ '' '')
       (filter (\<lambda>x. x \<noteq> []) [card_category p sub, nullish (cp_paymentMethodName p) []])"

definition square_due :: "t_fun \<Rightarrow> (string \<Rightarrow> string) \<Rightarrow> (string \<Rightarrow> int option) \<Rightarrow> LocalDate \<Rightarrow> Subscription \<Rightarrow> string \<times> string" where
  "square_due t formatDay date_parse now sub =
     (let days = card_days date_parse now sub in (renderDueText False t formatDay days sub, dueBadgeClass days sub))"

subsection \<open>Properties\<close>

text \<open>Which addresses the page loads an image from.\<close>

definition image_source_ok :: "string \<Rightarrow> bool" where
  "image_source_ok src \<longleftrightarrow> startsWith src ''http://'' \<or> startsWith src ''https://'' \<or> startsWith src ''/api/icon-proxy/''
     \<or> startsWith src ''/uploads/icons/'' \<and> drop 15 src \<noteq> [] \<and> CHR ''/'' \<notin> set (drop 15 src) \<and> CHR 0x5C \<notin> set (drop 15 src)"

lemma same_icon: "renderCalendarIcon icon name = renderIcon icon name" "renderActionIcon icon name = renderIcon icon name"
  by (simp_all add: renderCalendarIcon_def renderActionIcon_def renderIcon_def)

text \<open>whatever text is stored as the icon of a subscription, the cards, the action centre and the calendar agree on
  it, and they load an image only over http or https, from the icon proxy, or from the upload directory by a plain
  file name; a text with any other scheme is never used as an address.\<close>

theorem icon_sources_safe:
  "renderCalendarIcon icon name = renderIcon icon name \<and> renderActionIcon icon name = renderIcon icon name
   \<and> (\<forall>src. renderIcon icon name = Icon_image src \<longrightarrow> image_source_ok src)
   \<and> (\<forall>shown. renderIcon icon name = Icon_text shown \<longrightarrow> shown = icon \<and> CHR '':'' \<notin> set icon)"
proof (intro conjI allI impI)
  fix src
  assume i: "renderIcon icon name = Icon_image src"
  show "image_source_ok src"
  proof (cases "startsWith icon ''http://'' \<or> startsWith icon ''https://'' \<or> startsWith icon ''/api/icon-proxy/''")
    case True
    with i show ?thesis by (auto simp: renderIcon_def image_source_ok_def split: if_splits)
  next
    case False
    with i have "src = ''/uploads/icons/'' @ drop 5 icon" "drop 5 icon \<noteq> []" "CHR ''/'' \<notin> set (drop 5 icon)"
      "CHR 0x5C \<notin> set (drop 5 icon)"
      by (auto simp: renderIcon_def split: if_splits)
    then show ?thesis by (simp add: image_source_ok_def startsWith_def)
  qed
qed (simp_all add: same_icon, (auto simp: renderIcon_def split: if_splits))

theorem icon_sources_safe_witness:
  "renderIcon ''file:logo.png'' ''Netflix'' = Icon_image ''/uploads/icons/logo.png'' \<and> image_source_ok ''/uploads/icons/logo.png''
   \<and> renderCalendarIcon ''javascript:alert(1)'' ''Netflix'' = Icon_initial ''N''"
proof -
  have e: "renderIcon ''file:logo.png'' ''Netflix'' = Icon_image ''/uploads/icons/logo.png''"
    "renderIcon ''javascript:alert(1)'' ''Netflix'' = Icon_initial ''N''" by code_simp+
  then show ?thesis
    using icon_sources_safe [of "''file:logo.png''" "''Netflix''"] icon_sources_safe [of "''javascript:alert(1)''" "''Netflix''"]
    by simp
qed

lemma length_trimEnd: "length (trimEnd s) \<le> length s"
  using length_dropWhile_le [of is_ws "rev s"] by (simp add: trimEnd_def trimStart_def)

lemma note_preview_length: "length (truncateWithEllipsis ellipsis v n) \<le> max (length v) (n + length ellipsis)
    \<and> (length v > n \<longrightarrow> length (truncateWithEllipsis ellipsis v n) \<le> n + length ellipsis)"
  using length_trimEnd [of "take n v"] by (auto simp: truncateWithEllipsis_def)

text \<open>for a subscription that is active and does not end, the card tells the truth about the next billing date:
  today, in \<open>n\<close> days of the coming week, overdue, or the date itself, and the colour of the badge follows.\<close>

theorem due_text_counts_days:
  assumes "isSubscriptionActive sub" and "getSubscriptionRenewalMode sub \<noteq> Cancel_at_period_end"
    and d: "local_of_day (today + n) = target" "1000 \<le> full_year target" "full_year target \<le> 9999" "100 \<le> year_from_day today"
    and nd: "sub_next_billing_date sub = Some (formatDateKey target)"
  shows "let days = card_days date_parse (local_of_day today) sub in
    renderDueText True t formatDay days sub =
      (if n = 0 then t ''subscription.card.dueToday'' []
       else if n < 0 then t ''subscription.card.overdue'' []
       else if n < 7 then t ''subscription.card.dueIn'' [(''count'', T_num n)]
       else formatDay (formatDateKey target))
    \<and> dueBadgeClass days sub =
      (if 0 \<le> n \<and> n < 7 then ''bg-amber-500/10 text-amber-700 border-amber-200''
       else if n < 0 then ''bg-destructive/10 text-destructive border-destructive/30''
       else ''bg-zinc-500/10 text-zinc-600 border-zinc-200'')"
proof -
  have ne: "formatDateKey target \<noteq> []" by (simp add: formatDateKey_def)
  have days: "card_days date_parse (local_of_day today) sub = Some (Some n)"
    using nd ne days_until_key [OF d, of date_parse] by (simp add: card_days_def)
  have "\<not> isSubscriptionEnded sub" using assms(1) by (simp add: active_or_ended)
  with assms(2) nd ne show ?thesis
    unfolding days by (simp add: renderDueText_def dueBadgeClass_def isUpcoming_def isOverdue_def)
qed

theorem due_text_counts_days_witness:
  "renderDueText True (\<lambda>k args. k) (\<lambda>d. d)
     (card_days (\<lambda>_. None) (local_of_day 19782) (netflix\<lparr>sub_next_billing_date := Some (formatDateKey (local_of_day (19782 + 2)))\<rparr>))
     (netflix\<lparr>sub_next_billing_date := Some (formatDateKey (local_of_day (19782 + 2)))\<rparr>) = ''subscription.card.dueIn''"
proof -
  let ?sub = "netflix\<lparr>sub_next_billing_date := Some (formatDateKey (local_of_day (19782 + 2)))\<rparr>"
  have y: "1000 \<le> full_year (local_of_day (19782 + 2))" "full_year (local_of_day (19782 + 2)) \<le> 9999" "100 \<le> year_from_day 19782"
    by (simp_all add: local_of_day_def year_from_day_def day_from_year_def)
  have a: "isSubscriptionActive ?sub" "getSubscriptionRenewalMode ?sub \<noteq> Cancel_at_period_end"
    by (simp_all add: netflix_def lifecycle_defs)
  show ?thesis
    using due_text_counts_days [OF a refl y, of "\<lambda>_. None" "\<lambda>k args. k" "\<lambda>d. d"] by (simp add: Let_def)
qed

end
