(* ===== verification/BrandIcons.thy ===== *)
theory BrandIcons
  imports BrandTables SubscriptionCards
begin

text \<open>
  \<open>lib/brand-icons.ts\<close>, \<open>brand-icons/custom-loaders.ts\<close>, \<open>brand-icons/lazy-icon.ts\<close> and
  \<open>components/async-brand-icon.tsx\<close>: how the value of a brand icon finds its component, and how the component
  finds its drawing.  The modules that hold drawings are loaded by the browser: whether that succeeds is an event.
\<close>

subsection \<open>The lookup\<close>

text \<open>\<open>Runtime_icon\<close> is a component of the runtime table, shared by all who look it up, \<open>Catalog_icon\<close> one
  made for the catalogue alone.\<close>

datatype BrandIconComponent = Runtime_icon icon_loader | Catalog_icon icon_loader

record BrandIconRuntime =
  br_slug :: string
  br_value :: string
  br_Icon :: BrandIconComponent

record BrandIcon = BrandIconRuntime +
  br_title :: string
  br_hex :: string
  br_keywords :: "string list"

definition icon_value :: "'m BrandIconRuntimeSpec_scheme \<Rightarrow> string" where
  "icon_value s = prefix_text (rs_prefix s) @ '':'' @ rs_slug s"

definition runtime_of :: "BrandIconRuntimeSpec \<Rightarrow> BrandIconRuntime" where
  "runtime_of s = \<lparr>br_slug = rs_slug s, br_value = icon_value s, br_Icon = Runtime_icon (rs_loadIcon s)\<rparr>"

definition brandRuntimeIcons :: "BrandIconRuntime list" where
  "brandRuntimeIcons = map runtime_of brandRuntimeSpecs"

text \<open>\<open>new Map(pairs)\<close>: a later pair wins.\<close>

definition new_Map :: "('k \<times> 'v) list \<Rightarrow> 'k \<rightharpoonup> 'v" where
  "new_Map ps = map_of (rev ps)"

definition brandIconMap :: "string \<rightharpoonup> BrandIconRuntime" where
  "brandIconMap = new_Map (map (\<lambda>icon. (br_slug icon, icon)) brandRuntimeIcons)"

definition brandIconValueMap :: "string \<rightharpoonup> BrandIconRuntime" where
  "brandIconValueMap = new_Map (map (\<lambda>icon. (br_value icon, icon)) brandRuntimeIcons)"

definition aliases :: "(string \<times> string) list" where
  "aliases =
    [(''lg:adobecreativecloud'', ''custom:adobecreativecloud''),
     (''lg:bilibili'', ''custom:bilibili''),
     (''lg:bitwarden'', ''custom:bitwarden''),
     (''lg:chatgpt'', ''lg:openai''),
     (''lg:coinbase'', ''custom:coinbase''),
     (''lg:godaddy'', ''custom:godaddy''),
     (''lg:icloud'', ''custom:icloud''),
     (''lg:kugoumusic'', ''custom:kugoumusic''),
     (''lg:kuwomusic'', ''custom:qqmusic''),
     (''lg:nintendo'', ''custom:nintendo''),
     (''lg:qqmusic'', ''custom:qqmusic''),
     (''lg:tencentvideo'', ''custom:tencentvideo''),
     (''lg:times'', ''lg:nytimes''),
     (''lg:x'', ''custom:x''),
     (''lg:xpremium'', ''custom:x''),
     (''lg:youtubemusic'', ''custom:youtubemusic''),
     (''sx:neteasecloudmusic'', ''custom:neteasecloudmusic'')]"

definition legacyIconValueAliases :: "string \<rightharpoonup> string" where
  "legacyIconValueAliases = new_Map aliases"

definition getBrandIcon :: "string \<Rightarrow> BrandIconRuntime option" where
  "getBrandIcon slug = brandIconMap slug"

definition getBrandIconFromValue :: "string \<Rightarrow> BrandIconRuntime option" where
  "getBrandIconFromValue v =
     (if v = [] then None
      else case brandIconValueMap v of
        Some icon \<Rightarrow> Some icon
      | None \<Rightarrow> (case legacyIconValueAliases v of None \<Rightarrow> None | Some aliasValue \<Rightarrow> brandIconValueMap aliasValue))"

definition catalog_icon :: "BrandIconSpec \<Rightarrow> BrandIcon" where
  "catalog_icon s =
     \<lparr>br_slug = rs_slug s, br_value = icon_value s,
      br_Icon = (case brandIconValueMap (icon_value s) of Some icon \<Rightarrow> br_Icon icon | None \<Rightarrow> Catalog_icon (rs_loadIcon s)),
      br_title = bs_title s, br_hex = bs_hex s, br_keywords = bs_keywords s\<rparr>"

definition loadBrandIconsCatalog :: "BrandIcon list" where
  "loadBrandIconsCatalog = map catalog_icon brandSpecs"

text \<open>The drawings of the repository: \<open>modules\<close> are the files that \<open>import.meta.glob\<close> found, and of each what it
  exports as a function.\<close>

definition loadCustomSvgIcon :: "(string \<Rightarrow> (string \<Rightarrow> 'c option) option) \<Rightarrow> string \<Rightarrow> string \<Rightarrow> string + 'c" where
  "loadCustomSvgIcon modules moduleName exportName =
     (case modules (''./custom/'' @ moduleName @ ''.ts'') of
        None \<Rightarrow> Inl (''custom brand icon module not found: '' @ moduleName)
      | Some loadedModule \<Rightarrow>
          (case loadedModule exportName of
             None \<Rightarrow> Inl (''custom brand icon export not found: '' @ moduleName @ ''.'' @ exportName)
           | Some icon \<Rightarrow> Inr icon))"

lemma new_Map_distinct: "distinct (map f xs) \<Longrightarrow> new_Map (map (\<lambda>x. (f x, x)) xs) k = Some x \<longleftrightarrow> x \<in> set xs \<and> f x = k"
proof -
  assume d: "distinct (map f xs)"
  then have "distinct (map fst (rev (map (\<lambda>x. (f x, x)) xs)))" by (simp add: rev_map comp_def del: distinct_rev) (simp add: rev_map [symmetric])
  then show ?thesis by (auto simp: new_Map_def)
qed

lemma distinct_icons: "distinct (map br_slug brandRuntimeIcons)" "distinct (map br_value brandRuntimeIcons)"
proof -
  show s: "distinct (map br_slug brandRuntimeIcons)"
    using distinct_slugs by (simp add: brandRuntimeIcons_def runtime_of_def comp_def)
  have "prefix_text p @ '':'' @ a = prefix_text q @ '':'' @ b \<Longrightarrow> a = b" for p q a b
    by (cases p; cases q) (simp_all add: prefix_text_def)
  then show "distinct (map br_value brandRuntimeIcons)"
    using distinct_slugs unfolding brandRuntimeIcons_def distinct_map map_map comp_def
    by (auto simp: inj_on_def runtime_of_def icon_value_def)
qed

lemma value_found: "brandIconValueMap v = Some icon \<longleftrightarrow> icon \<in> set brandRuntimeIcons \<and> br_value icon = v"
  unfolding brandIconValueMap_def by (rule new_Map_distinct [OF distinct_icons(2)])

text \<open>No alias is the value of an icon, and each leads to one.\<close>

lemma alias_slugs:
  "map (drop 3 \<circ> fst) aliases =
     [''adobecreativecloud'', ''bilibili'', ''bitwarden'', ''chatgpt'', ''coinbase'', ''godaddy'', ''icloud'',
      ''kugoumusic'', ''kuwomusic'', ''nintendo'', ''qqmusic'', ''tencentvideo'', ''times'', ''x'', ''xpremium'',
      ''youtubemusic'', ''neteasecloudmusic'']"
  by code_simp

lemma aliases_are_old:
  "list_all (\<lambda>s. if rs_prefix s = Custom then True
     else rs_slug s \<notin> set [''adobecreativecloud'', ''bilibili'', ''bitwarden'', ''chatgpt'', ''coinbase'', ''godaddy'', ''icloud'',
      ''kugoumusic'', ''kuwomusic'', ''nintendo'', ''qqmusic'', ''tencentvideo'', ''times'', ''x'', ''xpremium'',
      ''youtubemusic'', ''neteasecloudmusic'']) brandRuntimeSpecs"
  unfolding brandRuntimeSpecs_def list_all_append
  by (intro conjI; code_simp)

lemma aliases_lead_to:
  "map (\<lambda>i. icon_value (brandRuntimeSpecs ! i)) [108, 212, 121, 14, 125, 142, 182, 225, 223, 195, 223, 236, 161, 170, 170, 222, 215] =
     map snd aliases" "length brandRuntimeSpecs = 266"
  by code_simp+

lemma alias_value_unknown: "old \<in> set (map fst aliases) \<Longrightarrow> brandIconValueMap old = None"
proof (rule ccontr)
  assume old: "old \<in> set (map fst aliases)" and "brandIconValueMap old \<noteq> None"
  then obtain s where s: "s \<in> set brandRuntimeSpecs" "icon_value s = old"
    by (auto simp: value_found brandRuntimeIcons_def runtime_of_def)
  have "list_all (\<lambda>old. \<not> startsWith old ''custom:'') (map fst aliases)" by code_simp
  then have "rs_prefix s \<noteq> Custom" using old s by (fastforce simp: list_all_iff icon_value_def prefix_text_def startsWith_def)
  then have "drop 3 old = rs_slug s" using s(2) by (cases "rs_prefix s") (auto simp: icon_value_def prefix_text_def)
  moreover have "drop 3 old \<in> set (map (drop 3 \<circ> fst) aliases)" using old by auto
  ultimately have "rs_slug s \<in> set (map (drop 3 \<circ> fst) aliases)" by simp
  then show False
    using aliases_are_old s(1) \<open>rs_prefix s \<noteq> Custom\<close> unfolding alias_slugs list_all_iff by metis
qed

lemma known_value: "s \<in> set brandRuntimeSpecs \<Longrightarrow> brandIconValueMap (icon_value s) = Some (runtime_of s)"
  by (simp add: value_found brandRuntimeIcons_def runtime_of_def)

lemma values_at: "list_all (\<lambda>i. i < length xs) is \<Longrightarrow> y \<in> set (map (\<lambda>i. f (xs ! i)) is) \<Longrightarrow> \<exists>x \<in> set xs. f x = y"
  by (auto simp: list_all_iff)

lemma alias_target_known:
  assumes "new \<in> set (map snd aliases)"
  shows "brandIconValueMap new \<noteq> None"
proof -
  have "\<exists>s \<in> set brandRuntimeSpecs. icon_value s = new"
    by (rule values_at [OF _ assms [folded aliases_lead_to(1)]]) (simp add: aliases_lead_to(2))
  then show ?thesis using known_value by force
qed

lemma alias_at: "legacyIconValueAliases old = Some new \<longleftrightarrow> (old, new) \<in> set aliases"
proof -
  have "distinct (map fst (rev aliases))" by code_simp
  then show ?thesis by (simp add: legacyIconValueAliases_def new_Map_def)
qed

lemma trim_to_colon:
  "\<not> is_ws c \<Longrightarrow> trim (c # p @ CHR '':'' # r) = c # p @ CHR '':'' # rev (dropWhile is_ws (rev r))"
proof -
  assume "\<not> is_ws c"
  moreover have "\<not> is_ws (CHR '':'')" by code_simp
  ultimately show ?thesis by (simp add: trim_def trimStart_def dropWhile_append)
qed

lemma prefix_async: "isAsyncBrandIconValue (icon_value s)"
proof -
  have ws: "\<not> is_ws (CHR ''b'')" "\<not> is_ws (CHR ''l'')" "\<not> is_ws (CHR ''c'')" by code_simp+
  have low: "map low_char ''bl:'' = ''bl:''" "map low_char ''lg:'' = ''lg:''" "map low_char ''custom:'' = ''custom:''" by code_simp+
  show ?thesis
    using trim_to_colon [OF ws(1), of "''l''" "rs_slug s"] trim_to_colon [OF ws(2), of "''g''" "rs_slug s"]
      trim_to_colon [OF ws(3), of "''ustom''" "rs_slug s"] low
    by (cases "rs_prefix s") (simp_all add: isAsyncBrandIconValue_def icon_value_def prefix_text_def startsWith_def toLowerCase_def)
qed

lemma slug_found: "s \<in> set brandRuntimeSpecs \<Longrightarrow> getBrandIcon (rs_slug s) = Some (runtime_of s)"
  unfolding getBrandIcon_def brandIconMap_def
  by (subst new_Map_distinct [OF distinct_icons(1)]) (simp add: brandRuntimeIcons_def runtime_of_def)

lemma catalog_truncate:
  assumes "s \<in> set brandSpecs"
  shows "BrandIconRuntimeSpec.truncate s \<in> set brandRuntimeSpecs"
    and "BrandIconRuntime.truncate (catalog_icon s) = runtime_of (BrandIconRuntimeSpec.truncate s)"
proof -
  show m: "BrandIconRuntimeSpec.truncate s \<in> set brandRuntimeSpecs"
    using assms by (simp flip: tables_agree)
  have "icon_value (BrandIconRuntimeSpec.truncate s) = icon_value s"
    by (simp add: icon_value_def BrandIconRuntimeSpec.truncate_def)
  then show "BrandIconRuntime.truncate (catalog_icon s) = runtime_of (BrandIconRuntimeSpec.truncate s)"
    using known_value [OF m]
    by (simp add: catalog_icon_def runtime_of_def BrandIconRuntime.truncate_def BrandIconRuntimeSpec.truncate_def)
qed

lemma icon_value_ne: "icon_value s \<noteq> []"
  by (simp add: icon_value_def)

lemma catalog_found:
  assumes "s \<in> set brandSpecs"
  shows "getBrandIconFromValue (br_value (catalog_icon s)) = Some (BrandIconRuntime.truncate (catalog_icon s))"
    and "getBrandIcon (br_slug (catalog_icon s)) = Some (BrandIconRuntime.truncate (catalog_icon s))"
    and "isAsyncBrandIconValue (br_value (catalog_icon s))"
  using known_value [OF catalog_truncate(1) [OF assms]] slug_found [OF catalog_truncate(1) [OF assms]] prefix_async [of s]
  unfolding catalog_truncate(2) [OF assms]
  by (simp_all add: getBrandIconFromValue_def catalog_icon_def BrandIconRuntimeSpec.truncate_def icon_value_def)

lemma alias_found:
  assumes "(old, new) \<in> set aliases"
  shows "map_option br_value (getBrandIconFromValue old) = Some new" and "brandIconValueMap old = None"
proof -
  have "[] \<notin> set (map fst aliases)" by code_simp
  moreover have m: "old \<in> set (map fst aliases)" "new \<in> set (map snd aliases)" using assms by force+
  ultimately have "old \<noteq> []" by metis
  show n: "brandIconValueMap old = None" by (rule alias_value_unknown [OF m(1)])
  obtain icon where "brandIconValueMap new = Some icon" using alias_target_known [OF m(2)] by auto
  then show "map_option br_value (getBrandIconFromValue old) = Some new"
    using \<open>old \<noteq> []\<close> n assms by (auto simp: getBrandIconFromValue_def alias_at [THEN iffD2] value_found)
qed

text \<open>C14: the catalogue that the picker offers and the lookup of the renderer agree.  Every value that can be chosen is
  recognised as a brand icon and found again, with the very component that the picker showed, by its value and by its
  slug.  Every alias of an older version, which is no value itself, is found as the icon that it names.\<close>

theorem chosen_icons_are_found:
  "list_all (\<lambda>icon. isAsyncBrandIconValue (br_value icon) \<and> getBrandIconFromValue (br_value icon) = Some (BrandIconRuntime.truncate icon)
       \<and> getBrandIcon (br_slug icon) = Some (BrandIconRuntime.truncate icon)) loadBrandIconsCatalog
   \<and> list_all (\<lambda>(old, new). map_option br_value (getBrandIconFromValue old) = Some new \<and> brandIconValueMap old = None) aliases"
  by (auto simp: loadBrandIconsCatalog_def list_all_iff catalog_found alias_found(2) intro!: alias_found(1) simp del: map_option_eq_Some)

end
