(* ===== verification/CalendarPage.thy ===== *)
theory CalendarPage
  imports BillingCalendar SubscriptionPages Reorder
begin

text \<open>
  The calendar page, \<open>web/src/features/calendar/calendar-page.tsx\<close>: its state, its handlers with the
  continuations of their requests, and what it shows.  The days of a subscription are those of
  \<open>BillingCalendar\<close>.
\<close>

subsection \<open>The billing map\<close>

fun add_days :: "'a \<Rightarrow> int list \<Rightarrow> (int \<rightharpoonup> 'a list) \<Rightarrow> (int \<rightharpoonup> 'a list)" where
  "add_days sub [] m = m"
| "add_days sub (day # days) m = add_days sub days (m(day \<mapsto> nullish (m day) [] @ [sub]))"

text \<open>\<open>None\<close> when the days of a subscription are never found.\<close>

fun collect_days ::
  "('a \<Rightarrow> int list option) \<Rightarrow> 'a list \<Rightarrow> (int \<rightharpoonup> 'a list) \<Rightarrow> (int \<rightharpoonup> 'a list) option" where
  "collect_days days_of [] m = Some m"
| "collect_days days_of (sub # subs) m =
     (case days_of sub of None \<Rightarrow> None | Some days \<Rightarrow> collect_days days_of subs (add_days sub days m))"

definition billingMap ::
  "(string \<Rightarrow> int option) \<Rightarrow> Subscription list \<Rightarrow> int \<Rightarrow> int \<Rightarrow> (int \<rightharpoonup> Subscription list) option" where
  "billingMap date_parse subs year viewMonth =
     collect_days (\<lambda>sub. getBillingDatesInMonth date_parse sub year viewMonth) (filter isSubscriptionActive subs) Map.empty"

subsection \<open>State\<close>

record CalendarToken =
  ct_id :: int
  ct_token :: string
  ct_name :: string
  ct_created_at :: string

datatype calendar_call =
    Load_calendar
  | Post_token string
  | Delete_token int
  | Calendar_put Subscription CreateSubscriptionInput
  | Calendar_post CreateSubscriptionInput
  | Calendar_renew Subscription
  | Calendar_reload

datatype calendar_reply =
    Calendar_failed
  | Calendar_loaded "Subscription list option" "CalendarToken list option" "Category list option"
      "PaymentMethod list option" "UserCurrency list option"
  | Token_created CalendarToken
  | Token_deleted
  | Calendar_saved Subscription
  | Calendar_list "Subscription list option"

record CalendarState = "calendar_call PageCore" +
  viewYear :: int
  viewMonth :: int
  calendar_tokens :: "CalendarToken list"
  loadingSubs :: bool
  loadingTokens :: bool
  selectedDay :: "int option"
  newTokenName :: string
  creatingToken :: bool
  createOpen :: bool
  newlyCreatedUrl :: "string option"
  cal_formOpen :: bool

text \<open>The page is opened on the local day \<open>today\<close>; it shares the cache of details with the other pages.\<close>

definition mount_calendar :: "int \<Rightarrow> SubscriptionDetail DetailState \<Rightarrow> CalendarState" where
  "mount_calendar today details = send_call Load_calendar
     \<lparr>pg_subscriptions = [], pg_categories = [], pg_paymentMethods = [], pg_userCurrencies = [], pg_editingSub = None,
      pg_drawer = None, pg_details = details, pg_open = [], pg_calls = [], pg_notices = [],
      viewYear = year_from_day today, viewMonth = month_from_day today, calendar_tokens = [], loadingSubs = True,
      loadingTokens = True, selectedDay = None, newTokenName = [], creatingToken = False, createOpen = False,
      newlyCreatedUrl = None, cal_formOpen = False\<rparr>"

definition prevMonth :: "CalendarState \<Rightarrow> CalendarState" where
  "prevMonth s =
     (if viewMonth s = 0 then s\<lparr>viewYear := viewYear s - 1, viewMonth := 11, selectedDay := None\<rparr>
      else s\<lparr>viewMonth := viewMonth s - 1, selectedDay := None\<rparr>)"

definition nextMonth :: "CalendarState \<Rightarrow> CalendarState" where
  "nextMonth s =
     (if viewMonth s = 11 then s\<lparr>viewYear := viewYear s + 1, viewMonth := 0, selectedDay := None\<rparr>
      else s\<lparr>viewMonth := viewMonth s + 1, selectedDay := None\<rparr>)"

text \<open>A click on the cell \<open>idx\<close> of the grid.\<close>

definition click_cell :: "nat \<Rightarrow> CalendarState \<Rightarrow> CalendarState" where
  "click_cell idx s =
     (let cells = buildCalendarGrid (viewYear s) (viewMonth s) in
      if length cells \<le> idx then s
      else case cells ! idx of
             None \<Rightarrow> s
           | Some day \<Rightarrow> s\<lparr>selectedDay := if selectedDay s = Some day then None else Some day\<rparr>)"

definition getICalUrl :: "string \<Rightarrow> string \<Rightarrow> string" where
  "getICalUrl origin tok = origin @ ''/api/calendar/feed?token='' @ tok"

definition handleCreateToken :: "CalendarState \<Rightarrow> CalendarState" where
  "handleCreateToken s =
     (if trim (newTokenName s) = [] then s
      else send_call (Post_token (trim (newTokenName s))) (s\<lparr>creatingToken := True\<rparr>))"

definition handleDialogClose :: "bool \<Rightarrow> CalendarState \<Rightarrow> CalendarState" where
  "handleDialogClose opened s =
     (let s = s\<lparr>createOpen := opened\<rparr>
      in if \<not> opened then s\<lparr>newlyCreatedUrl := None, newTokenName := []\<rparr> else s)"

definition handleDeleteToken :: "bool \<Rightarrow> int \<Rightarrow> CalendarState \<Rightarrow> CalendarState" where
  "handleDeleteToken confirmed i s = (if \<not> confirmed then s else send_call (Delete_token i) s)"

definition copyToClipboard :: "bool \<Rightarrow> CalendarState \<Rightarrow> CalendarState" where
  "copyToClipboard written s = (if written then notify (Page_success ''calendar.token.copied'') s else s)"

definition calendar_submit :: "CreateSubscriptionInput \<Rightarrow> CalendarState \<Rightarrow> CalendarState" where
  "calendar_submit data s =
     (case pg_editingSub s of
        Some sub \<Rightarrow> send_call (Calendar_put sub (update_payload data)) s
      | None \<Rightarrow> send_call (Calendar_post data) s)"

definition calendar_form_closed :: "CalendarState \<Rightarrow> CalendarState" where
  "calendar_form_closed s = s\<lparr>pg_editingSub := None, cal_formOpen := False\<rparr>"

definition calendar_form_change :: "bool \<Rightarrow> CalendarState \<Rightarrow> CalendarState" where
  "calendar_form_change opened s =
     (let s = s\<lparr>cal_formOpen := opened\<rparr> in if \<not> opened then s\<lparr>pg_editingSub := None\<rparr> else s)"

text \<open>The handlers after their request; a failed request of the form is reported by the form.\<close>

definition calendar_answered :: "string \<Rightarrow> calendar_call \<Rightarrow> calendar_reply \<Rightarrow> CalendarState \<Rightarrow> CalendarState" where
  "calendar_answered origin c r s =
     (case (c, r) of
        (Load_calendar, Calendar_loaded subs toks cats methods currencies) \<Rightarrow>
          s\<lparr>pg_subscriptions := nullish subs [], calendar_tokens := nullish toks [], pg_categories := nullish cats [],
            pg_paymentMethods := nullish methods [], pg_userCurrencies := nullish currencies [],
            loadingSubs := False, loadingTokens := False\<rparr>
      | (Load_calendar, Calendar_failed) \<Rightarrow> s\<lparr>loadingSubs := False, loadingTokens := False\<rparr>
      | (Post_token name, Token_created tok) \<Rightarrow>
          (notify (Page_success ''calendar.token.createSuccess'')
            (s\<lparr>calendar_tokens := calendar_tokens s @ [tok], newlyCreatedUrl := Some (getICalUrl origin (ct_token tok)),
               newTokenName := []\<rparr>))\<lparr>creatingToken := False\<rparr>
      | (Post_token name, Calendar_failed) \<Rightarrow> s\<lparr>creatingToken := False\<rparr>
      | (Delete_token i, Token_deleted) \<Rightarrow>
          notify (Page_success ''calendar.token.deleteSuccess'')
            (s\<lparr>calendar_tokens := filter (\<lambda>tok. ct_id tok \<noteq> i) (calendar_tokens s)\<rparr>)
      | (Calendar_put sub data, Calendar_saved updated) \<Rightarrow>
          calendar_form_closed (notify (Page_success ''calendar.editSuccess'')
            (s\<lparr>pg_subscriptions := map (\<lambda>x. if sub_id x = sub_id sub then updated else x) (pg_subscriptions s)\<rparr>))
      | (Calendar_post data, Calendar_saved created) \<Rightarrow>
          calendar_form_closed (s\<lparr>pg_subscriptions := pg_subscriptions s @ [created]\<rparr>)
      | (Calendar_renew sub, Calendar_saved renewed) \<Rightarrow>
          send_call Calendar_reload (calendar_form_closed (notify (Page_success ''dashboard.updateSuccess'') s))
      | (Calendar_reload, Calendar_list subs) \<Rightarrow> s\<lparr>pg_subscriptions := nullish subs []\<rparr>
      | _ \<Rightarrow> s)"

datatype calendar_event =
    Calendar_core core_event
  | Calendar_answer nat calendar_reply
  | Prev_month
  | Next_month
  | Click_cell nat
  | Token_name string
  | Create_token
  | Token_dialog bool
  | Remove_token bool int
  | Copy_url bool
  | Calendar_drawer_edit
  | Calendar_form bool
  | Calendar_submit CreateSubscriptionInput
  | Calendar_mark_renewed Subscription

fun calendar_step :: "string \<Rightarrow> CalendarState \<Rightarrow> calendar_event \<Rightarrow> CalendarState" where
  "calendar_step origin s (Calendar_core e) = core_step e s"
| "calendar_step origin s (Calendar_answer n r) =
     (if n < length (pg_open s)
      then calendar_answered origin (pg_open s ! n) r (s\<lparr>pg_open := without n (pg_open s)\<rparr>) else s)"
| "calendar_step origin s Prev_month = prevMonth s"
| "calendar_step origin s Next_month = nextMonth s"
| "calendar_step origin s (Click_cell idx) = click_cell idx s"
| "calendar_step origin s (Token_name v) = s\<lparr>newTokenName := v\<rparr>"
| "calendar_step origin s Create_token = handleCreateToken s"
| "calendar_step origin s (Token_dialog v) = handleDialogClose v s"
| "calendar_step origin s (Remove_token confirmed i) = handleDeleteToken confirmed i s"
| "calendar_step origin s (Copy_url written) = copyToClipboard written s"
| "calendar_step origin s Calendar_drawer_edit =
     (if pg_drawer s = None then s else (drawer_edit s)\<lparr>cal_formOpen := True\<rparr>)"
| "calendar_step origin s (Calendar_form v) = calendar_form_change v s"
| "calendar_step origin s (Calendar_submit data) = calendar_submit data s"
| "calendar_step origin s (Calendar_mark_renewed sub) = send_call (Calendar_renew sub) s"

text \<open>What the page lists for the selected day.\<close>

definition selectedSubs :: "(string \<Rightarrow> int option) \<Rightarrow> CalendarState \<Rightarrow> Subscription list option" where
  "selectedSubs date_parse s =
     (case selectedDay s of
        None \<Rightarrow> Some []
      | Some day \<Rightarrow> map_option (\<lambda>m. nullish (m day) []) (billingMap date_parse (pg_subscriptions s) (viewYear s) (viewMonth s)))"

subsection \<open>Lists of the days\<close>

lemma distinct_set_add: "distinct xs \<Longrightarrow> distinct (set_add x xs)"
  by (simp add: set_add_def)

lemma distinct_advance: "advance_cursor n unit s e c days = Some ds \<Longrightarrow> distinct days \<longrightarrow> distinct ds"
proof (rule advance_cursor.raw_induct [where P = "\<lambda>n unit s e c days ds. distinct days \<longrightarrow> distinct ds"])
  fix f n unit s e c days ds
  assume IH: "\<And>n unit s e c days ds. f n unit s e c days = Some ds \<Longrightarrow> distinct days \<longrightarrow> distinct ds"
    and b: "(if c \<le> e then f n unit s e (addInterval c n unit) (if s \<le> c then set_add (date_from_day c) days else days)
      else Some days) = Some ds"
  show "distinct days \<longrightarrow> distinct ds"
  proof (cases "c \<le> e")
    case True
    with b have "f n unit s e (addInterval c n unit) (if s \<le> c then set_add (date_from_day c) days else days) = Some ds"
      by simp
    from IH [OF this] show ?thesis by (auto intro: distinct_set_add split: if_splits)
  qed (use b in simp)
qed

lemma distinct_billing_dates: "getBillingDatesInMonth date_parse sub y m = Some ds \<Longrightarrow> distinct ds"
  by (auto simp: getBillingDatesInMonth_def interval_days_def Let_def bind_eq_Some_conv
      dest!: distinct_advance split: if_splits option.splits)

lemma add_days_lookup:
  "distinct days \<Longrightarrow> add_days sub days m d = (if d \<in> set days then Some (nullish (m d) [] @ [sub]) else m d)"
  by (induction days arbitrary: m) auto

lemma collect_days_lookup:
  assumes "\<And>sub ds. days_of sub = Some ds \<Longrightarrow> distinct ds" and "collect_days days_of subs m = Some m'"
  shows "m' d = (let new = filter (\<lambda>sub. d \<in> set (the (days_of sub))) subs
    in if new = [] then m d else Some (nullish (m d) [] @ new))"
  using assms(2)
proof (induction subs arbitrary: m)
  case (Cons sub subs)
  then obtain days where days: "days_of sub = Some days" "collect_days days_of subs (add_days sub days m) = Some m'"
    by (auto split: option.splits)
  with Cons.IH [OF days(2)] show ?case
    using add_days_lookup [OF assms(1) [OF days(1)], of sub m d] by (auto simp: Let_def)
qed simp

lemma collect_days_returns:
  "collect_days days_of subs m = None \<longleftrightarrow> (\<exists>sub \<in> set subs. days_of sub = None)"
  by (induction subs arbitrary: m) (auto split: option.splits)

text \<open>under a selected day the page lists exactly the active subscriptions that bill on that day, in the order
  of the list; it answers for every day as long as the days of each active subscription are found.\<close>

theorem selected_day_lists_subscriptions:
  assumes "\<And>sub. sub \<in> set (pg_subscriptions s) \<Longrightarrow> isSubscriptionActive sub \<Longrightarrow>
      getBillingDatesInMonth date_parse sub (viewYear s) (viewMonth s) = Some (days sub)"
    and "selectedDay s = Some d"
  shows "selectedSubs date_parse s
    = Some (filter (\<lambda>sub. isSubscriptionActive sub \<and> d \<in> set (days sub)) (pg_subscriptions s))"
proof -
  let ?days = "\<lambda>sub. getBillingDatesInMonth date_parse sub (viewYear s) (viewMonth s)"
  let ?subs = "filter isSubscriptionActive (pg_subscriptions s)"
  have "collect_days ?days ?subs Map.empty \<noteq> None" using assms(1) by (auto simp: collect_days_returns)
  then obtain m where m: "collect_days ?days ?subs Map.empty = Some m" by auto
  have "filter (\<lambda>sub. d \<in> set (the (?days sub))) ?subs
      = filter (\<lambda>sub. isSubscriptionActive sub \<and> d \<in> set (days sub)) (pg_subscriptions s)"
    using assms(1) by (auto intro: filter_cong)
  then show ?thesis
    using collect_days_lookup [OF distinct_billing_dates m, where d = d] assms(2)
    by (simp add: selectedSubs_def billingMap_def m Let_def)
qed

theorem selected_day_lists_subscriptions_witness:
  "selectedSubs (\<lambda>_. None) ((mount_calendar 20124 initial_details)\<lparr>pg_subscriptions :=
     [weekly_sub, netflix\<lparr>sub_status := Some Ended\<rparr>], selectedDay := Some 12\<rparr>) = Some [weekly_sub]"
proof -
  let ?s = "(mount_calendar 20124 initial_details)\<lparr>pg_subscriptions :=
     [weekly_sub, netflix\<lparr>sub_status := Some Ended\<rparr>], selectedDay := Some 12\<rparr>"
  have v: "viewYear ?s = 2025" "viewMonth ?s = 1" "isSubscriptionActive weekly_sub"
    "\<not> isSubscriptionActive (netflix\<lparr>sub_status := Some Ended\<rparr>)"
    "pg_subscriptions ?s = [weekly_sub, netflix\<lparr>sub_status := Some Ended\<rparr>]" "selectedDay ?s = Some 12"
    by code_simp+
  have "getBillingDatesInMonth (\<lambda>_. None) weekly_sub 2025 1 = Some [5, 12, 19, 26]" by code_simp
  with v have "getBillingDatesInMonth (\<lambda>_. None) sub (viewYear ?s) (viewMonth ?s) = Some ((\<lambda>_. [5, 12, 19, 26]) sub)"
    if "sub \<in> set (pg_subscriptions ?s)" "isSubscriptionActive sub" for sub using that by auto
  from selected_day_lists_subscriptions [OF this v(6)] show ?thesis using v by simp
qed

subsection \<open>Runs\<close>

lemmas calendar_handlers = prevMonth_def nextMonth_def click_cell_def handleCreateToken_def handleDialogClose_def
  handleDeleteToken_def copyToClipboard_def calendar_submit_def calendar_form_closed_def calendar_form_change_def

definition calendar_acts :: "CalendarState \<Rightarrow> calendar_event \<Rightarrow> SubscriptionDetail detail_event list" where
  "calendar_acts s e = (case e of Calendar_core ce \<Rightarrow> core_details ce | _ \<Rightarrow> [])"

lemma calendar_answered_details: "pg_details (calendar_answered origin c r s) = pg_details s"
  by (cases c; cases r) (simp_all add: calendar_answered_def calendar_form_closed_def)

lemma calendar_step_details:
  "pg_details (calendar_step origin s e) = foldl detail_step (pg_details s) (calendar_acts s e)"
  by (cases e) (simp_all add: core_step_details calendar_acts_def calendar_answered_details calendar_handlers drawer_edit_def
      Let_def split: option.split)

interpretation calendar_client: detail_client "calendar_step origin" pg_details calendar_acts
  by unfold_locales (rule calendar_step_details)

text \<open>The month in view is a month, a selected day is one of its days, and no token is named by white space.\<close>

definition token_call_ok :: "calendar_call \<Rightarrow> bool" where
  "token_call_ok c \<longleftrightarrow> (case c of Post_token name \<Rightarrow> name \<noteq> [] \<and> trim name = name | _ \<Rightarrow> True)"

definition calendar_ok :: "CalendarState \<Rightarrow> bool" where
  "calendar_ok s \<longleftrightarrow> 0 \<le> viewMonth s \<and> viewMonth s \<le> 11
     \<and> (\<forall>d. selectedDay s = Some d \<longrightarrow> 1 \<le> d \<and> d \<le> days_in_view (viewYear s) (viewMonth s))
     \<and> list_all token_call_ok (pg_calls s)"

lemma grid_cell_day:
  assumes "Some d \<in> set (buildCalendarGrid year m)"
  shows "1 \<le> d \<and> d \<le> days_in_view year m"
  using assms by (auto simp: buildCalendarGrid_def Let_def)

lemma core_step_calendar [simp]:
  "viewYear (core_step e s) = viewYear s" "viewMonth (core_step e s) = viewMonth s" "selectedDay (core_step e s) = selectedDay s"
  by (cases e; simp add: openSubscriptionDetail_def on_details_def case_prod_beta Let_def)+

lemma page_core_calendar [simp]:
  "viewYear (send_call c s) = viewYear s" "viewMonth (send_call c s) = viewMonth s" "selectedDay (send_call c s) = selectedDay s"
  "viewYear (notify n s) = viewYear s" "viewMonth (notify n s) = viewMonth s" "selectedDay (notify n s) = selectedDay s"
  by (simp_all add: send_call_def notify_def)

lemma calendar_answered_ok: "calendar_ok s \<Longrightarrow> calendar_ok (calendar_answered origin c r s)"
  unfolding calendar_ok_def
  by (cases c; cases r) (simp_all add: calendar_answered_def calendar_form_closed_def token_call_ok_def)

lemma drawer_edit_calendar:
  "viewYear (drawer_edit s) = viewYear s" "viewMonth (drawer_edit s) = viewMonth s"
  "selectedDay (drawer_edit s) = selectedDay s" "pg_calls (drawer_edit s) = pg_calls s"
  by (simp_all add: drawer_edit_def split: option.split)

lemma calendar_step_ok:
  assumes "calendar_ok s"
  shows "calendar_ok (calendar_step origin s e)"
proof (cases e)
  case (Click_cell idx)
  let ?g = "buildCalendarGrid (viewYear s) (viewMonth s)"
  have "1 \<le> d \<and> d \<le> days_in_view (viewYear s) (viewMonth s)" if "idx < length ?g" "?g ! idx = Some d" for d
    using grid_cell_day [of d "viewYear s" "viewMonth s"] nth_mem [of idx ?g] that by simp
  with assms Click_cell show ?thesis
    by (auto simp: calendar_ok_def click_cell_def Let_def not_le split: option.splits)
next
  case (Calendar_answer n r)
  have "calendar_ok (s\<lparr>pg_open := without n (pg_open s)\<rparr>)" using assms by (simp add: calendar_ok_def)
  with assms Calendar_answer show ?thesis by (simp add: calendar_answered_ok)
qed (use assms in \<open>auto simp: calendar_ok_def calendar_handlers Let_def drawer_edit_calendar core_step_frame
    token_call_ok_def split: option.splits\<close>)

interpretation calendar_page: event_machine "calendar_step origin" calendar_ok
  by unfold_locales (rule calendar_step_ok)

text \<open>whatever is clicked, typed and answered in whatever order, the month in view stays a month, the selected
  day is a day of it, and every calendar link that is created has a name without surrounding white space that is
  not empty.\<close>

theorem calendar_view_valid:
  "let s = foldl (calendar_step origin) (mount_calendar today details) es
   in 0 \<le> viewMonth s \<and> viewMonth s \<le> 11
      \<and> (case selectedDay s of None \<Rightarrow> True | Some d \<Rightarrow> 1 \<le> d \<and> d \<le> days_in_view (viewYear s) (viewMonth s))
      \<and> list_all (\<lambda>c. case c of Post_token name \<Rightarrow> name \<noteq> [] \<and> trim name = name | _ \<Rightarrow> True) (pg_calls s)"
proof -
  have "calendar_ok (mount_calendar today details)"
    using month_from_day_range [of today] by (simp add: calendar_ok_def mount_calendar_def token_call_ok_def)
  from calendar_page.run_inv [OF this, of origin es] show ?thesis
    by (auto simp: calendar_ok_def Let_def token_call_ok_def [abs_def] split: option.splits)
qed

lemma months_undo: "calendar_ok s \<Longrightarrow> nextMonth (prevMonth s) = s\<lparr>selectedDay := None\<rparr> \<and> prevMonth (nextMonth s) = s\<lparr>selectedDay := None\<rparr>"
  by (auto simp: calendar_ok_def prevMonth_def nextMonth_def)

subsection \<open>Editing twice\<close>

text \<open>
  This page never invalidates the cache of details.  After an edit the drawer shows the detail from before it, and
  its edit button fills the form with the subscription as it was, so that saving the form undoes the first edit.
\<close>

definition dearer :: Subscription where
  "dearer = netflix\<lparr>sub_amount := 15\<rparr>"

definition edit_twice :: "CreateSubscriptionInput \<Rightarrow> calendar_event list" where
  "edit_twice data =
     [Calendar_answer 0 (Calendar_loaded (Some [netflix]) None None None None),
      Calendar_core (Open_detail 0 netflix), Calendar_core (Detail_answered 0 (Inr netflix_detail) 100),
      Calendar_core (Detail_completed 0), Calendar_core Drawer_settled, Calendar_drawer_edit,
      Calendar_submit data, Calendar_answer 0 (Calendar_saved dearer),
      Calendar_core (Open_detail 5000 dearer), Calendar_core Drawer_settled, Calendar_drawer_edit]"

lemma second_edit_starts_from_stale_detail:
  "let s = foldl (calendar_step []) (mount_calendar 20124 initial_details) (edit_twice data)
   in pg_subscriptions s = [dearer] \<and> pg_editingSub s = Some netflix \<and> cal_formOpen s"
  by (simp add: edit_twice_def mount_calendar_def send_call_def notify_def on_details_def openSubscriptionDetail_def
      mount_drawer_def preloadSubscriptionDetail_def loadSubscriptionDetail_def getCachedSubscriptionDetail_def
      initial_details_def on_answer_def on_complete_def detailVersion_def settle_drawer_def drawer_edit_def
      activeSubscription_def calendar_answered_def calendar_submit_def calendar_form_closed_def without_def
      netflix_detail_def dearer_def DETAIL_CACHE_TTL_MS_def netflix_def Let_def)

end
