(* ===== verification/ChannelForm.thy ===== *)
theory ChannelForm
  imports JsonPretty
begin

text \<open>
  The form of a notification channel, \<open>web/src/features/settings/notification-channel-form\<close>:
  from a channel to form values (\<open>createInitialValues\<close>) and back to the configuration text
  (\<open>buildConfig\<close>), with the types of \<open>types/notification.ts\<close>.

  The configuration is JSON text of any shape, so a form value is JSON; a string method on another
  value is a \<open>TypeError\<close>.  The bullet of the mask (U+2022) is the code unit 0x95 here, since
  characters are code units below 256.
\<close>

subsection \<open>Types\<close>

datatype ChannelType = Smtp | Resend | Telegram | Webhook | Gotify | Ntfy | Bark | Serverchan | Feishu | Wecom
  | Dingtalk | Pushdeer | Pushplus | Pushover | Napcat

datatype WebhookMethod = GET | POST | PUT

fun method_text :: "WebhookMethod \<Rightarrow> string" where
  "method_text GET = ''GET''"
| "method_text POST = ''POST''"
| "method_text PUT = ''PUT''"

record NotificationChannel =
  nc_id :: int
  nc_type :: ChannelType
  nc_enabled :: bool
  nc_config :: string
  nc_configured_secret_fields :: "string list option"
  nc_configured_webhook_header_keys :: "string list option"
  nc_created_at :: string
  nc_updated_at :: string

record NotificationChannelFormValues =
  smtpHost :: json
  smtpPort :: json
  smtpUsername :: json
  smtpPassword :: json
  smtpFromEmail :: json
  smtpFromName :: json
  smtpToEmail :: json
  smtpEncryption :: json
  apiKey :: json
  fromEmail :: json
  resendToEmail :: json
  botToken :: json
  chatId :: json
  webhookUrl :: json
  webhookSecret :: json
  webhookMethod :: WebhookMethod
  webhookHeaders :: string
  pushdeerPushKey :: json
  pushdeerServerUrl :: json
  pushplusToken :: json
  pushplusTopic :: json
  pushplusEndpoint :: json
  pushplusTemplate :: json
  pushplusChannel :: json
  pushoverToken :: json
  pushoverUser :: json
  pushoverDevice :: json
  pushoverPriority :: string
  pushoverSound :: json
  pushoverEndpoint :: json
  gotifyUrl :: json
  gotifyToken :: json
  ntfyUrl :: json
  ntfyTopic :: json
  ntfyToken :: json
  ntfyPriority :: string
  ntfyTags :: json
  ntfyClick :: json
  ntfyIcon :: json
  barkUrl :: json
  barkDeviceKey :: json
  serverChanSendKey :: json
  feishuWebhookUrl :: json
  feishuSecret :: json
  wecomWebhookUrl :: json
  dingtalkWebhookUrl :: json
  dingtalkSecret :: json
  napcatUrl :: json
  napcatAccessToken :: json
  napcatMessageType :: json
  napcatUserId :: json
  napcatGroupId :: json

datatype form_field = F_smtpPassword | F_apiKey | F_botToken | F_webhookSecret | F_gotifyToken | F_ntfyToken
  | F_barkDeviceKey | F_serverChanSendKey | F_feishuWebhookUrl | F_feishuSecret | F_wecomWebhookUrl
  | F_dingtalkWebhookUrl | F_dingtalkSecret | F_pushdeerPushKey | F_pushplusToken | F_pushoverToken
  | F_pushoverUser | F_napcatAccessToken

definition CONFIGURED_SECRET_MASK :: string where
  "CONFIGURED_SECRET_MASK = replicate 8 (CHR 0x95)"

definition WEBHOOK_HEADERS_PARSE_ERROR :: string where
  "WEBHOOK_HEADERS_PARSE_ERROR = ''WEBHOOK_HEADERS_PARSE_ERROR''"

fun CHANNEL_SECRET_FIELD_TO_FORM_FIELD_MAP :: "ChannelType \<Rightarrow> (string \<times> form_field) list" where
  "CHANNEL_SECRET_FIELD_TO_FORM_FIELD_MAP Smtp = [(''password'', F_smtpPassword)]"
| "CHANNEL_SECRET_FIELD_TO_FORM_FIELD_MAP Resend = [(''api_key'', F_apiKey)]"
| "CHANNEL_SECRET_FIELD_TO_FORM_FIELD_MAP Telegram = [(''bot_token'', F_botToken)]"
| "CHANNEL_SECRET_FIELD_TO_FORM_FIELD_MAP Webhook = [(''secret'', F_webhookSecret)]"
| "CHANNEL_SECRET_FIELD_TO_FORM_FIELD_MAP Gotify = [(''token'', F_gotifyToken)]"
| "CHANNEL_SECRET_FIELD_TO_FORM_FIELD_MAP Ntfy = [(''token'', F_ntfyToken)]"
| "CHANNEL_SECRET_FIELD_TO_FORM_FIELD_MAP Bark = [(''device_key'', F_barkDeviceKey)]"
| "CHANNEL_SECRET_FIELD_TO_FORM_FIELD_MAP Serverchan = [(''send_key'', F_serverChanSendKey)]"
| "CHANNEL_SECRET_FIELD_TO_FORM_FIELD_MAP Feishu = [(''webhook_url'', F_feishuWebhookUrl), (''secret'', F_feishuSecret)]"
| "CHANNEL_SECRET_FIELD_TO_FORM_FIELD_MAP Wecom = [(''webhook_url'', F_wecomWebhookUrl)]"
| "CHANNEL_SECRET_FIELD_TO_FORM_FIELD_MAP Dingtalk = [(''webhook_url'', F_dingtalkWebhookUrl), (''secret'', F_dingtalkSecret)]"
| "CHANNEL_SECRET_FIELD_TO_FORM_FIELD_MAP Pushdeer = [(''push_key'', F_pushdeerPushKey)]"
| "CHANNEL_SECRET_FIELD_TO_FORM_FIELD_MAP Pushplus = [(''token'', F_pushplusToken)]"
| "CHANNEL_SECRET_FIELD_TO_FORM_FIELD_MAP Pushover = [(''token'', F_pushoverToken), (''user'', F_pushoverUser)]"
| "CHANNEL_SECRET_FIELD_TO_FORM_FIELD_MAP Napcat = [(''access_token'', F_napcatAccessToken)]"

subsection \<open>Reading a configuration\<close>

definition normalizeNtfyPriority :: "json option \<Rightarrow> string" where
  "normalizeNtfyPriority raw =
     (case raw of
        None \<Rightarrow> []
      | Some JNull \<Rightarrow> []
      | Some v \<Rightarrow>
          (let normalized = toLowerCase (trim (js_text v)) in
           if normalized = [] then []
           else if normalized \<in> {''1'', ''2'', ''3'', ''4'', ''5''} then normalized
           else if normalized = ''min'' then ''1''
           else if normalized = ''low'' then ''2''
           else if normalized = ''default'' then ''3''
           else if normalized = ''high'' then ''4''
           else if normalized = ''max'' \<or> normalized = ''urgent'' then ''5''
           else []))"

definition parseConfig :: "string \<Rightarrow> json" where
  "parseConfig raw = nullish (json_parse raw) (JObj [])"

text \<open>A member of a value: an error on \<open>null\<close>.\<close>

definition member :: "json \<Rightarrow> string \<Rightarrow> json option result" where
  "member j k = (if j = JNull then Inl ''TypeError'' else Inr (json_get j k))"

definition trim_value :: "json \<Rightarrow> string result" where
  "trim_value v = (case v of JStr s \<Rightarrow> Inr (trim s) | _ \<Rightarrow> Inl ''TypeError'')"

definition parseWebhookMethod :: "string \<Rightarrow> WebhookMethod" where
  "parseWebhookMethod raw =
     (let m = toUpperCase (trim raw) in if m = ''GET'' then GET else if m = ''PUT'' then PUT else POST)"

text \<open>\<open>JSON.stringify(o, null, 2)\<close> of an object of strings.\<close>

definition string_members :: "(string \<times> string) list \<Rightarrow> (string \<times> json) list" where
  "string_members kvs = map (\<lambda>(k, s). (k, JStr s)) kvs"

definition pretty_headers :: "(string \<times> string) list \<Rightarrow> string" where
  "pretty_headers kvs = json_pretty [] (JObj (string_members kvs))"

definition parseWebhookHeadersDisplayWithConfiguredKeys :: "string \<Rightarrow> string set \<Rightarrow> string" where
  "parseWebhookHeadersDisplayWithConfiguredKeys rawConfig configuredHeaderKeys =
     (case json_parse rawConfig of
        None \<Rightarrow> []
      | Some parsed \<Rightarrow>
          (case member parsed ''headers'' of
             Inr (Some (JObj kvs)) \<Rightarrow>
               (let normalized = foldl (\<lambda>acc (key, v). case v of
                      JStr s \<Rightarrow> if trim s \<noteq> [] then obj_put key s acc
                                else if key \<in> configuredHeaderKeys then obj_put key CONFIGURED_SECRET_MASK acc
                                else acc
                    | _ \<Rightarrow> acc) [] kvs
                in if normalized = [] then [] else pretty_headers normalized)
           | _ \<Rightarrow> []))"

definition isConfiguredSecretMask :: "string \<Rightarrow> bool" where
  "isConfiguredSecretMask v \<longleftrightarrow> trim v = CONFIGURED_SECRET_MASK"

definition sanitizeSecretInput :: "string \<Rightarrow> string" where
  "sanitizeSecretInput v = (if isConfiguredSecretMask v then [] else v)"

fun header_entries :: "(string \<times> json) list \<Rightarrow> (string \<times> string) list \<Rightarrow> (string \<times> string) list result" where
  "header_entries [] headers = Inr headers"
| "header_entries ((key, v) # kvs) headers =
     (let trimmedKey = trim key in
      case v of
        JStr s \<Rightarrow>
          if trimmedKey = [] then Inl WEBHOOK_HEADERS_PARSE_ERROR
          else header_entries kvs (obj_put trimmedKey (if isConfiguredSecretMask s then [] else s) headers)
      | _ \<Rightarrow> Inl WEBHOOK_HEADERS_PARSE_ERROR)"

definition parseWebhookHeadersInput :: "string \<Rightarrow> (string \<times> string) list result" where
  "parseWebhookHeadersInput raw =
     (case json_parse raw of
        None \<Rightarrow> Inl ''SyntaxError''
      | Some (JObj kvs) \<Rightarrow> header_entries kvs []
      | Some _ \<Rightarrow> Inl WEBHOOK_HEADERS_PARSE_ERROR)"

subsection \<open>Initial values\<close>

text \<open>The values when the configuration is an object or anything but \<open>null\<close>; \<open>methodText\<close>
  is \<open>initCfg.method ?? ""\<close>, which must be a string.\<close>

definition initial_values :: "json \<Rightarrow> string \<Rightarrow> string \<Rightarrow> NotificationChannelFormValues" where
  "initial_values initCfg methodText headersText =
     (let cfg = (\<lambda>k d. json_nullish (json_get initCfg k) (JStr d));
          webhookMethod0 = parseWebhookMethod methodText;
          priorityText = (case json_get initCfg ''priority'' of None \<Rightarrow> ''0'' | Some JNull \<Rightarrow> ''0'' | Some v \<Rightarrow> js_text v)
      in \<lparr>
        smtpHost = cfg ''host'' [],
        smtpPort = cfg ''port'' ''587'',
        smtpUsername = cfg ''username'' [],
        smtpPassword = cfg ''password'' [],
        smtpFromEmail = cfg ''from_email'' [],
        smtpFromName = cfg ''from_name'' [],
        smtpToEmail = cfg ''to_email'' [],
        smtpEncryption = cfg ''encryption'' ''starttls'',
        apiKey = cfg ''api_key'' [],
        fromEmail = cfg ''from_email'' [],
        resendToEmail = cfg ''to_email'' [],
        botToken = cfg ''bot_token'' [],
        chatId = cfg ''chat_id'' [],
        webhookUrl = cfg ''url'' [],
        webhookSecret = cfg ''secret'' [],
        webhookMethod = webhookMethod0,
        webhookHeaders = headersText,
        pushdeerPushKey = cfg ''push_key'' [],
        pushdeerServerUrl = cfg ''server_url'' [],
        pushplusToken = cfg ''token'' [],
        pushplusTopic = cfg ''topic'' [],
        pushplusEndpoint = cfg ''endpoint'' [],
        pushplusTemplate = cfg ''template'' ''markdown'',
        pushplusChannel = cfg ''channel'' [],
        pushoverToken = cfg ''token'' [],
        pushoverUser = cfg ''user'' [],
        pushoverDevice = cfg ''device'' [],
        pushoverPriority = priorityText,
        pushoverSound = cfg ''sound'' [],
        pushoverEndpoint = cfg ''endpoint'' [],
        gotifyUrl = cfg ''url'' [],
        gotifyToken = cfg ''token'' [],
        ntfyUrl = cfg ''url'' [],
        ntfyTopic = cfg ''topic'' [],
        ntfyToken = cfg ''token'' [],
        ntfyPriority = normalizeNtfyPriority (json_get initCfg ''priority''),
        ntfyTags = cfg ''tags'' [],
        ntfyClick = cfg ''click'' [],
        ntfyIcon = cfg ''icon'' [],
        barkUrl = cfg ''url'' [],
        barkDeviceKey = cfg ''device_key'' [],
        serverChanSendKey = cfg ''send_key'' [],
        feishuWebhookUrl = cfg ''webhook_url'' [],
        feishuSecret = cfg ''secret'' [],
        wecomWebhookUrl = cfg ''webhook_url'' [],
        dingtalkWebhookUrl = cfg ''webhook_url'' [],
        dingtalkSecret = cfg ''secret'' [],
        napcatUrl = cfg ''url'' [],
        napcatAccessToken = cfg ''access_token'' [],
        napcatMessageType = cfg ''message_type'' ''private'',
        napcatUserId = cfg ''user_id'' [],
        napcatGroupId = cfg ''group_id'' []\<rparr>)"

definition createInitialValues :: "NotificationChannel option \<Rightarrow> NotificationChannelFormValues result" where
  "createInitialValues ch =
     (let initCfg = (case ch of Some c \<Rightarrow> parseConfig (nc_config c) | None \<Rightarrow> JObj []);
          configuredWebhookHeaderKeys =
            (case ch of Some c \<Rightarrow> set (nullish (nc_configured_webhook_header_keys c) []) | None \<Rightarrow> {});
          headersText = (case ch of
              Some c \<Rightarrow> parseWebhookHeadersDisplayWithConfiguredKeys (nc_config c) configuredWebhookHeaderKeys
            | None \<Rightarrow> [])
      in if initCfg = JNull then Inl ''TypeError''
         else case json_nullish (json_get initCfg ''method'') (JStr []) of
                JStr methodText \<Rightarrow> Inr (initial_values initCfg methodText headersText)
              | _ \<Rightarrow> Inl ''TypeError'')"

definition createConfiguredSecretFormFields :: "NotificationChannel option \<Rightarrow> form_field set" where
  "createConfiguredSecretFormFields ch =
     (case ch of
        None \<Rightarrow> {}
      | Some c \<Rightarrow>
          set (List.map_filter (map_of (CHANNEL_SECRET_FIELD_TO_FORM_FIELD_MAP (nc_type c)))
            (nullish (nc_configured_secret_fields c) [])))"

subsection \<open>Building a configuration\<close>

text \<open>
  A member of the object that is built: its key and its value, which may be left out
  (\<open>...(cond ? \{...\} : \{\})\<close>) or fail.
\<close>

type_synonym member_spec = "string \<times> json option result"

fun collect :: "member_spec list \<Rightarrow> (string \<times> json) list result" where
  "collect [] = Inr []"
| "collect ((k, m) # ms) =
     (case m of
        Inl e \<Rightarrow> Inl e
      | Inr None \<Rightarrow> collect ms
      | Inr (Some v) \<Rightarrow> (case collect ms of Inl e \<Rightarrow> Inl e | Inr kvs \<Rightarrow> Inr ((k, v) # kvs)))"

definition result_map :: "('a \<Rightarrow> 'b) \<Rightarrow> 'a result \<Rightarrow> 'b result" where
  "result_map f m = (case m of Inl e \<Rightarrow> Inl e | Inr x \<Rightarrow> Inr (f x))"

definition sanitized :: "json \<Rightarrow> string result" where
  "sanitized v = (case v of JStr s \<Rightarrow> Inr (sanitizeSecretInput s) | _ \<Rightarrow> Inl ''TypeError'')"

definition trimmed :: "string \<Rightarrow> json \<Rightarrow> member_spec" where
  "trimmed k v = (k, result_map (\<lambda>s. Some (JStr s)) (trim_value v))"

definition trimmed_or_none :: "string \<Rightarrow> json \<Rightarrow> member_spec" where
  "trimmed_or_none k v = (k, result_map (\<lambda>s. if s = [] then None else Some (JStr s)) (trim_value v))"

definition secret :: "string \<Rightarrow> json \<Rightarrow> member_spec" where
  "secret k v = (k, result_map (\<lambda>s. Some (JStr (trim s))) (sanitized v))"

definition secret_or_none :: "string \<Rightarrow> json \<Rightarrow> member_spec" where
  "secret_or_none k v = (k, result_map (\<lambda>s. if trim s = [] then None else Some (JStr (trim s))) (sanitized v))"

definition plain :: "string \<Rightarrow> json \<Rightarrow> member_spec" where
  "plain k v = (k, Inr (Some v))"

text \<open>\<open>parseInt(v, 10) || d\<close>.\<close>

definition int_or :: "string \<Rightarrow> int \<Rightarrow> int" where
  "int_or s d = (case parse_int s of None \<Rightarrow> d | Some i \<Rightarrow> if i = 0 then d else i)"

fun config_members :: "ChannelType \<Rightarrow> NotificationChannelFormValues \<Rightarrow> member_spec list" where
  "config_members Smtp v =
     [trimmed ''host'' (smtpHost v),
      plain ''port'' (JNum (of_int (int_or (js_text (smtpPort v)) 587))),
      trimmed ''username'' (smtpUsername v),
      (''password'', result_map (\<lambda>s. Some (JStr s)) (sanitized (smtpPassword v))),
      trimmed ''from_email'' (smtpFromEmail v),
      trimmed ''from_name'' (smtpFromName v),
      trimmed ''to_email'' (smtpToEmail v),
      plain ''encryption'' (smtpEncryption v)]"
| "config_members Resend v =
     [secret ''api_key'' (apiKey v), trimmed ''from_email'' (fromEmail v), trimmed ''to_email'' (resendToEmail v)]"
| "config_members Telegram v = [secret ''bot_token'' (botToken v), trimmed ''chat_id'' (chatId v)]"
| "config_members Webhook v =
     [trimmed ''url'' (webhookUrl v),
      plain ''method'' (JStr (method_text (webhookMethod v))),
      secret_or_none ''secret'' (webhookSecret v),
      (''headers'', if trim (webhookHeaders v) = [] then Inr None
        else result_map (\<lambda>hs. Some (JObj (map (\<lambda>(k, s). (k, JStr s)) hs))) (parseWebhookHeadersInput (webhookHeaders v)))]"
| "config_members Pushdeer v =
     [secret ''push_key'' (pushdeerPushKey v), trimmed_or_none ''server_url'' (pushdeerServerUrl v)]"
| "config_members Pushplus v =
     [secret ''token'' (pushplusToken v), trimmed_or_none ''topic'' (pushplusTopic v),
      trimmed_or_none ''endpoint'' (pushplusEndpoint v), trimmed_or_none ''template'' (pushplusTemplate v),
      trimmed_or_none ''channel'' (pushplusChannel v)]"
| "config_members Pushover v =
     [secret ''token'' (pushoverToken v), secret ''user'' (pushoverUser v),
      trimmed_or_none ''device'' (pushoverDevice v),
      plain ''priority'' (JNum (of_int (int_or (pushoverPriority v) 0))),
      trimmed_or_none ''sound'' (pushoverSound v), trimmed_or_none ''endpoint'' (pushoverEndpoint v)]"
| "config_members Gotify v = [trimmed ''url'' (gotifyUrl v), secret ''token'' (gotifyToken v)]"
| "config_members Ntfy v =
     [trimmed_or_none ''url'' (ntfyUrl v), trimmed ''topic'' (ntfyTopic v), secret_or_none ''token'' (ntfyToken v),
      trimmed_or_none ''priority'' (JStr (ntfyPriority v)), trimmed_or_none ''tags'' (ntfyTags v),
      trimmed_or_none ''click'' (ntfyClick v), trimmed_or_none ''icon'' (ntfyIcon v)]"
| "config_members Bark v = [trimmed_or_none ''url'' (barkUrl v), secret ''device_key'' (barkDeviceKey v)]"
| "config_members Serverchan v = [secret ''send_key'' (serverChanSendKey v)]"
| "config_members Feishu v =
     [secret ''webhook_url'' (feishuWebhookUrl v), secret_or_none ''secret'' (feishuSecret v)]"
| "config_members Wecom v = [secret ''webhook_url'' (wecomWebhookUrl v)]"
| "config_members Dingtalk v =
     [secret ''webhook_url'' (dingtalkWebhookUrl v), secret_or_none ''secret'' (dingtalkSecret v)]"
| "config_members Napcat v =
     [trimmed ''url'' (napcatUrl v), secret_or_none ''access_token'' (napcatAccessToken v),
      plain ''message_type'' (napcatMessageType v),
      (if napcatMessageType v = JStr ''private'' then trimmed ''user_id'' (napcatUserId v)
       else trimmed ''group_id'' (napcatGroupId v))]"

definition buildConfig :: "ChannelType \<Rightarrow> NotificationChannelFormValues \<Rightarrow> string result" where
  "buildConfig ty v = result_map (\<lambda>kvs. json_stringify (JObj kvs)) (collect (config_members ty v))"

subsection \<open>Reading back a pretty-printed object\<close>

lemma json_parse_headers:
  assumes "distinct (map fst kvs)"
  shows "json_parse (pretty_headers kvs) = Some (JObj (map (\<lambda>(k, s). (k, JStr s)) kvs))"
proof -
  have "json_ok (JObj (string_members kvs))"
    using assms by (simp add: string_members_def o_def case_prod_beta list_all_iff)
  then show ?thesis unfolding pretty_headers_def string_members_def by (rule json_parse_pretty)
qed

subsection \<open>Members of a built configuration\<close>

lemma collect_Cons:
  assumes "collect ((k, m) # ms) = Inr kvs"
  obtains "m = Inr None" "collect ms = Inr kvs"
    | x kvs' where "m = Inr (Some x)" "collect ms = Inr kvs'" "kvs = (k, x) # kvs'"
proof (cases m)
  case (Inr y)
  show ?thesis
  proof (cases y)
    case None
    with Inr assms that(1) show ?thesis by simp
  next
    case (Some x)
    with Inr assms that(2) show ?thesis by (cases "collect ms") simp_all
  qed
qed (use assms in simp)

lemma collect_all:
  assumes "collect ms = Inr kvs" and "(k, m) \<in> set ms"
  obtains x where "m = Inr x"
proof -
  have "\<exists>x. m = Inr x"
    using assms
  proof (induction ms arbitrary: kvs)
    case (Cons km ms)
    obtain k' m' where km: "km = (k', m')" by (cases km)
    from Cons.prems(1) [unfolded km] show ?case
      by (rule collect_Cons) (use Cons.IH Cons.prems(2) km in \<open>auto\<close>)
  qed simp
  then show ?thesis using that by blast
qed

lemma collect_keys: "collect ms = Inr kvs \<Longrightarrow> fst ` set kvs \<subseteq> fst ` set ms"
proof (induction ms arbitrary: kvs)
  case (Cons km ms)
  obtain k m where km: "km = (k, m)" by (cases km)
  from Cons.prems [unfolded km] show ?case
  proof (rule collect_Cons)
    assume "collect ms = Inr kvs"
    from Cons.IH [OF this] show ?thesis by auto
  next
    fix x kvs'
    assume "collect ms = Inr kvs'" "kvs = (k, x) # kvs'"
    with Cons.IH [OF this(1)] km show ?thesis by auto
  qed
qed simp

lemma collect_get_none: "collect ms = Inr kvs \<Longrightarrow> k \<notin> fst ` set ms \<Longrightarrow> map_of kvs k = None"
  using collect_keys [of ms kvs] by (simp add: map_of_eq_None_iff subset_iff) blast

lemma collect_get:
  "collect ms = Inr kvs \<Longrightarrow> distinct (map fst ms) \<Longrightarrow> (k, Inr x) \<in> set ms \<Longrightarrow> map_of kvs k = x"
proof (induction ms arbitrary: kvs)
  case (Cons km ms)
  obtain k' m where km: "km = (k', m)" by (cases km)
  have new: "k' \<notin> fst ` set ms" and dist: "distinct (map fst ms)" using Cons.prems(2) km by simp_all
  have mem: "(k = k' \<and> m = Inr x) \<or> (k \<noteq> k' \<and> (k, Inr x) \<in> set ms)"
    using Cons.prems(3) km new by (cases "k = k'") (auto simp: image_iff)
  from Cons.prems(1) [unfolded km] show ?case
  proof (rule collect_Cons)
    assume "m = Inr None" "collect ms = Inr kvs"
    then show ?thesis using mem collect_get_none new Cons.IH [OF _ dist] by auto
  next
    fix y kvs'
    assume "m = Inr (Some y)" "collect ms = Inr kvs'" "kvs = (k', y) # kvs'"
    then show ?thesis using mem Cons.IH [OF _ dist] by auto
  qed
qed simp

lemma collect_distinct: "collect ms = Inr kvs \<Longrightarrow> distinct (map fst ms) \<Longrightarrow> distinct (map fst kvs)"
proof (induction ms arbitrary: kvs)
  case (Cons km ms)
  obtain k m where km: "km = (k, m)" by (cases km)
  have new: "k \<notin> fst ` set ms" and dist: "distinct (map fst ms)" using Cons.prems(2) km by simp_all
  from Cons.prems(1) [unfolded km] show ?case
  proof (rule collect_Cons)
    fix y kvs'
    assume "collect ms = Inr kvs'" "kvs = (k, y) # kvs'"
    then show ?thesis using Cons.IH [OF _ dist] collect_keys [of ms kvs'] new by auto
  qed (use Cons.IH dist in blast)
qed simp

lemma config_keys_distinct: "distinct (map fst (config_members ty v))"
  by (cases ty) (simp_all add: trimmed_def trimmed_or_none_def secret_def secret_or_none_def plain_def)

subsection \<open>The mask never leaves the form\<close>

lemma mask_not_empty [simp]: "CONFIGURED_SECRET_MASK \<noteq> []"
  by (simp add: CONFIGURED_SECRET_MASK_def)

lemma sanitized_not_mask: "trim (sanitizeSecretInput s) \<noteq> CONFIGURED_SECRET_MASK"
  using mask_not_empty [symmetric] by (auto simp: sanitizeSecretInput_def isConfiguredSecretMask_def)

text \<open>The value of the form under the name of a secret field.\<close>

fun field_value :: "form_field \<Rightarrow> NotificationChannelFormValues \<Rightarrow> json" where
  "field_value F_smtpPassword v = smtpPassword v"
| "field_value F_apiKey v = apiKey v"
| "field_value F_botToken v = botToken v"
| "field_value F_webhookSecret v = webhookSecret v"
| "field_value F_gotifyToken v = gotifyToken v"
| "field_value F_ntfyToken v = ntfyToken v"
| "field_value F_barkDeviceKey v = barkDeviceKey v"
| "field_value F_serverChanSendKey v = serverChanSendKey v"
| "field_value F_feishuWebhookUrl v = feishuWebhookUrl v"
| "field_value F_feishuSecret v = feishuSecret v"
| "field_value F_wecomWebhookUrl v = wecomWebhookUrl v"
| "field_value F_dingtalkWebhookUrl v = dingtalkWebhookUrl v"
| "field_value F_dingtalkSecret v = dingtalkSecret v"
| "field_value F_pushdeerPushKey v = pushdeerPushKey v"
| "field_value F_pushplusToken v = pushplusToken v"
| "field_value F_pushoverToken v = pushoverToken v"
| "field_value F_pushoverUser v = pushoverUser v"
| "field_value F_napcatAccessToken v = napcatAccessToken v"

text \<open>The member that is built from the text of a secret field: nothing or the empty string for the mask, which the
  server takes as no change, nothing or blanks for blanks, and else the text but for blanks around it.\<close>

definition secret_sent :: "string \<Rightarrow> json option \<Rightarrow> bool" where
  "secret_sent u m \<longleftrightarrow>
     (if trim u = CONFIGURED_SECRET_MASK then m = None \<or> m = Some (JStr [])
      else if trim u = [] then m = None \<or> (\<exists>s. m = Some (JStr s) \<and> trim s = [])
      else \<exists>s. m = Some (JStr s) \<and> trim s = trim u)"

lemma fst_specs [simp]:
  "fst (secret k v) = k" "fst (secret_or_none k v) = k" "fst (trimmed k v) = k" "fst (trimmed_or_none k v) = k"
  "fst (plain k v) = k"
  by (simp_all add: secret_def secret_or_none_def trimmed_def trimmed_or_none_def plain_def)

definition secret_spec :: "member_spec \<Rightarrow> json \<Rightarrow> bool" where
  "secret_spec m w \<longleftrightarrow> m = secret (fst m) w \<or> m = secret_or_none (fst m) w
     \<or> snd m = result_map (\<lambda>s. Some (JStr s)) (sanitized w)"

lemma secret_specs [simp]:
  "secret_spec (secret k w) w" "secret_spec (secret_or_none k w) w"
  "secret_spec (k, result_map (\<lambda>s. Some (JStr s)) (sanitized w)) w"
  by (simp_all add: secret_spec_def)

lemma secret_spec_sent:
  assumes "secret_spec m w" and "snd m = Inr x"
  shows "\<exists>u. w = JStr u \<and> secret_sent u x"
proof (cases w)
  case (JStr u)
  have "trim (sanitizeSecretInput u) = (if trim u = CONFIGURED_SECRET_MASK then [] else trim u)"
    by (simp add: sanitizeSecretInput_def isConfiguredSecretMask_def)
  moreover from assms(1) have "x = Some (JStr (trim (sanitizeSecretInput u)))
      \<or> x = (if trim (sanitizeSecretInput u) = [] then None else Some (JStr (trim (sanitizeSecretInput u))))
      \<or> x = Some (JStr (sanitizeSecretInput u))"
    unfolding secret_spec_def
  proof (elim disjE)
    assume "m = secret (fst m) w"
    then have "snd m = snd (secret (fst m) w)" by simp
    then show ?thesis using assms(2) by (simp add: secret_def sanitized_def result_map_def JStr)
  next
    assume "m = secret_or_none (fst m) w"
    then have "snd m = snd (secret_or_none (fst m) w)" by simp
    then show ?thesis using assms(2) by (simp add: secret_or_none_def sanitized_def result_map_def JStr)
  next
    assume "snd m = result_map (\<lambda>s. Some (JStr s)) (sanitized w)"
    then show ?thesis using assms(2) by (simp add: sanitized_def result_map_def JStr)
  qed
  ultimately have "secret_sent u x"
    by (auto simp: secret_sent_def sanitizeSecretInput_def isConfiguredSecretMask_def split: if_splits)
  then show ?thesis using JStr by blast
qed (use assms in \<open>auto simp: secret_spec_def secret_def secret_or_none_def sanitized_def result_map_def prod_eq_iff\<close>)

lemma secret_fields_specs:
  "list_all (\<lambda>(k, f). list_ex (\<lambda>m. fst m = k \<and> secret_spec m (field_value f v)) (config_members ty v))
     (CHANNEL_SECRET_FIELD_TO_FORM_FIELD_MAP ty)"
  by (cases ty) simp_all

lemma sent_unmasked: "secret_sent u m \<Longrightarrow> m = None \<or> (\<exists>s. m = Some (JStr s) \<and> trim s \<noteq> CONFIGURED_SECRET_MASK)"
  using mask_not_empty [symmetric] by (auto simp: secret_sent_def split: if_splits)

text \<open>C19: a placeholder is never sent as a secret: whatever the form holds, in the configuration that is
  built every secret field of the channel type is absent, or a string that does not show the mask.  A field
  left masked is absent or empty, which tells the server to keep the stored secret; any other text is sent
  but for blanks around it, and the field is left out or blank only when its text is.\<close>

theorem mask_is_never_sent:
  assumes "buildConfig ty v = Inr c" and "(k, f) \<in> set (CHANNEL_SECRET_FIELD_TO_FORM_FIELD_MAP ty)"
  shows "\<exists>kvs u. c = json_stringify (JObj kvs) \<and> distinct (map fst kvs)
    \<and> (map_of kvs k = None \<or> (\<exists>s. map_of kvs k = Some (JStr s) \<and> trim s \<noteq> CONFIGURED_SECRET_MASK))
    \<and> field_value f v = JStr u
    \<and> (if trim u = CONFIGURED_SECRET_MASK then map_of kvs k = None \<or> map_of kvs k = Some (JStr [])
       else if trim u = [] then map_of kvs k = None \<or> (\<exists>s. map_of kvs k = Some (JStr s) \<and> trim s = [])
       else \<exists>s. map_of kvs k = Some (JStr s) \<and> trim s = trim u)"
proof -
  obtain kvs where kvs: "collect (config_members ty v) = Inr kvs" and c: "c = json_stringify (JObj kvs)"
    using assms(1) by (auto simp: buildConfig_def result_map_def split: sum.splits)
  obtain m where m: "m \<in> set (config_members ty v)" "fst m = k" "secret_spec m (field_value f v)"
    using secret_fields_specs [of v ty] assms(2) by (fastforce simp: list_all_iff list_ex_iff)
  then have km: "(k, snd m) \<in> set (config_members ty v)" by (metis prod.collapse)
  obtain x where x: "snd m = Inr x" using collect_all [OF kvs km] .
  have get: "map_of kvs k = x"
    by (rule collect_get [OF kvs config_keys_distinct]) (use km x in simp)
  obtain u where u: "field_value f v = JStr u" "secret_sent u x"
    using secret_spec_sent [OF m(3) x] by blast
  show ?thesis
    by (intro exI [of _ kvs] exI [of _ u] conjI c collect_distinct [OF kvs config_keys_distinct] u(1))
      (use sent_unmasked [OF u(2)] u(2) in \<open>simp_all only: secret_sent_def get\<close>)
qed

definition blank_values :: NotificationChannelFormValues where
  "blank_values = initial_values (JObj []) [] []"

theorem mask_is_never_sent_witness:
  "\<exists>kvs c. buildConfig Gotify (blank_values\<lparr>gotifyToken := JStr CONFIGURED_SECRET_MASK\<rparr>) = Inr c
    \<and> c = json_stringify (JObj kvs) \<and> (map_of kvs ''token'' = None \<or> map_of kvs ''token'' = Some (JStr []))"
proof -
  obtain c where "buildConfig Gotify (blank_values\<lparr>gotifyToken := JStr CONFIGURED_SECRET_MASK\<rparr>) = Inr c"
    by (simp add: buildConfig_def blank_values_def initial_values_def trimmed_def secret_def trim_value_def sanitized_def
        result_map_def json_nullish_def Let_def)
  moreover have "trim CONFIGURED_SECRET_MASK = CONFIGURED_SECRET_MASK" by code_simp
  moreover have "field_value F_gotifyToken (blank_values\<lparr>gotifyToken := JStr CONFIGURED_SECRET_MASK\<rparr>) = JStr CONFIGURED_SECRET_MASK"
    by simp
  ultimately show ?thesis
    using mask_is_never_sent [of Gotify "blank_values\<lparr>gotifyToken := JStr CONFIGURED_SECRET_MASK\<rparr>" c "''token''" F_gotifyToken]
    by (metis json.inject(3) CHANNEL_SECRET_FIELD_TO_FORM_FIELD_MAP.simps(5) list.set_intros(1))
qed

subsection \<open>Editing without a change\<close>

lemma decimal_of_int: "decimal_to_string (of_int i) = int_to_string i"
proof -
  have "frac_digits decimal_digits 0 = []" by (simp add: decimal_digits_def eval_nat_numeral)
  moreover have "\<bar>rat_of_int i\<bar> = of_int \<bar>i\<bar>" by simp
  ultimately show ?thesis by (simp add: decimal_to_string_def int_to_string_def Let_def del: of_int_abs)
qed

lemma short_decimal_int: "short_decimal (of_int i)"
proof -
  have "rat_of_int i * 10 ^ decimal_digits = of_int (i * 10 ^ decimal_digits)" by simp
  then show ?thesis unfolding short_decimal_def by (metis Ints_of_int)
qed

lemma int_or_again: "int_or (js_text (JNum (of_int (int_or s d)))) d = int_or s d"
  by (simp add: int_or_def decimal_of_int parse_int_int_to_string split: option.split)

lemma method_again: "parseWebhookMethod (method_text m) = m"
proof -
  have "toUpperCase (trim ''GET'') = ''GET''" "toUpperCase (trim ''POST'') = ''POST''" "toUpperCase (trim ''PUT'') = ''PUT''"
    by code_simp+
  then show ?thesis by (cases m) (simp_all add: parseWebhookMethod_def Let_def)
qed

lemma ntfy_again: "p \<in> {''1'', ''2'', ''3'', ''4'', ''5''} \<Longrightarrow> normalizeNtfyPriority (Some (JStr p)) = p"
  by (elim insertE emptyE; hypsubst; code_simp)

lemma trim_priority [simp]: "trim ''1'' = ''1''" "trim ''2'' = ''2''" "trim ''3'' = ''3''" "trim ''4'' = ''4''" "trim ''5'' = ''5''"
  by code_simp+

definition is_str :: "json \<Rightarrow> bool" where
  "is_str j \<longleftrightarrow> (\<exists>s. j = JStr s)"

text \<open>
  The values for which the form shows again what it stored: the texts of the selections are those that
  the form offers, the template of Pushplus is not blank (a blank one is shown as \<open>markdown\<close>; the form
  offers none), and header values are neither blank nor masked.
\<close>

fun stable_values :: "ChannelType \<Rightarrow> NotificationChannelFormValues \<Rightarrow> bool" where
  "stable_values Smtp v = is_str (smtpEncryption v)"
| "stable_values Webhook v = (trim (webhookHeaders v) = [] \<or>
     (\<exists>hs. parseWebhookHeadersInput (webhookHeaders v) = Inr hs \<and> hs \<noteq> [] \<and> list_all (\<lambda>(k, s). trim s \<noteq> []) hs))"
| "stable_values Pushplus v = (trim_value (pushplusTemplate v) \<noteq> Inr [])"
| "stable_values Ntfy v = (trim (ntfyPriority v) \<in> {[], ''1'', ''2'', ''3'', ''4'', ''5''})"
| "stable_values Napcat v = (napcatMessageType v \<in> {JStr ''private'', JStr ''group''})"
| "stable_values _ v = True"

definition shown :: "(string \<times> json) list \<Rightarrow> string \<Rightarrow> string \<Rightarrow> json" where
  "shown kvs k d = json_nullish (map_of kvs k) (JStr d)"

lemma trim_value_result: "trim_value w = Inr s \<Longrightarrow> \<exists>u. w = JStr u \<and> s = trim u"
  by (cases w) (auto simp: trim_value_def)

lemma result_map_Inr: "result_map f m = Inr x \<Longrightarrow> \<exists>y. m = Inr y \<and> x = f y"
  by (cases m) (auto simp: result_map_def)

lemma sanitized_again: "sanitized (JStr (sanitizeSecretInput u)) = Inr (sanitizeSecretInput u)"
  "sanitized (JStr (trim (sanitizeSecretInput u))) = Inr (trim (sanitizeSecretInput u))"
  using sanitized_not_mask [of u] by (simp_all add: sanitized_def sanitizeSecretInput_def isConfiguredSecretMask_def)

lemma trimmed_again:
  assumes "collect ms = Inr kvs" and "distinct (map fst ms)" and "trimmed k w \<in> set ms"
  shows "trimmed k (shown kvs k d) = trimmed k w"
proof -
  have "(k, snd (trimmed k w)) \<in> set ms" using assms(3) by (simp add: trimmed_def)
  then obtain x where x: "snd (trimmed k w) = Inr x" and m: "(k, Inr x) \<in> set ms"
    using collect_all [OF assms(1)] by metis
  from x obtain u where w: "w = JStr u" and xu: "x = Some (JStr (trim u))"
    by (auto simp: trimmed_def dest!: result_map_Inr trim_value_result)
  have "map_of kvs k = Some (JStr (trim u))" using collect_get [OF assms(1,2) m] xu by simp
  then show ?thesis by (simp add: shown_def json_nullish_def trimmed_def w trim_value_def)
qed

lemma trimmed_or_none_again:
  assumes "collect ms = Inr kvs" and "distinct (map fst ms)" and "trimmed_or_none k w \<in> set ms"
    and "d = [] \<or> trim_value w \<noteq> Inr []"
  shows "trimmed_or_none k (shown kvs k d) = trimmed_or_none k w"
proof -
  have "(k, snd (trimmed_or_none k w)) \<in> set ms" using assms(3) by (simp add: trimmed_or_none_def)
  then obtain x where x: "snd (trimmed_or_none k w) = Inr x" and m: "(k, Inr x) \<in> set ms"
    using collect_all [OF assms(1)] by metis
  from x obtain u where w: "w = JStr u" and xu: "x = (if trim u = [] then None else Some (JStr (trim u)))"
    by (auto simp: trimmed_or_none_def dest!: result_map_Inr trim_value_result)
  have "map_of kvs k = (if trim u = [] then None else Some (JStr (trim u)))"
    using collect_get [OF assms(1,2) m] xu by simp
  then show ?thesis
    using assms(4) by (auto simp: shown_def json_nullish_def trimmed_or_none_def w trim_value_def result_map_def)
qed

lemma secret_again:
  assumes "collect ms = Inr kvs" and "distinct (map fst ms)" and "secret k w \<in> set ms"
  shows "secret k (shown kvs k d) = secret k w"
proof -
  have "(k, snd (secret k w)) \<in> set ms" using assms(3) by (simp add: secret_def)
  then obtain x where x: "snd (secret k w) = Inr x" and m: "(k, Inr x) \<in> set ms"
    using collect_all [OF assms(1)] by metis
  from x obtain u where w: "sanitized w = Inr (sanitizeSecretInput u)" and xu: "x = Some (JStr (trim (sanitizeSecretInput u)))"
    by (cases w) (auto simp: secret_def sanitized_def result_map_def)
  have "map_of kvs k = Some (JStr (trim (sanitizeSecretInput u)))" using collect_get [OF assms(1,2) m] xu by simp
  then show ?thesis by (simp add: shown_def json_nullish_def secret_def w sanitized_again result_map_def)
qed

lemma secret_or_none_again:
  assumes "collect ms = Inr kvs" and "distinct (map fst ms)" and "secret_or_none k w \<in> set ms"
  shows "secret_or_none k (shown kvs k []) = secret_or_none k w"
proof -
  have "(k, snd (secret_or_none k w)) \<in> set ms" using assms(3) by (simp add: secret_or_none_def)
  then obtain x where x: "snd (secret_or_none k w) = Inr x" and m: "(k, Inr x) \<in> set ms"
    using collect_all [OF assms(1)] by metis
  from x obtain u where w: "sanitized w = Inr (sanitizeSecretInput u)"
    and xu: "x = (if trim (sanitizeSecretInput u) = [] then None else Some (JStr (trim (sanitizeSecretInput u))))"
    by (cases w) (auto simp: secret_or_none_def sanitized_def result_map_def)
  have g: "map_of kvs k = (if trim (sanitizeSecretInput u) = [] then None else Some (JStr (trim (sanitizeSecretInput u))))"
    using collect_get [OF assms(1,2) m] xu by simp
  have "sanitized (JStr []) = Inr []"
    using mask_not_empty [symmetric] by (simp add: sanitized_def sanitizeSecretInput_def isConfiguredSecretMask_def)
  with g show ?thesis by (simp add: shown_def json_nullish_def secret_or_none_def w sanitized_again result_map_def)
qed

lemma plain_again:
  assumes "collect ms = Inr kvs" and "distinct (map fst ms)" and "plain k w \<in> set ms" and "w \<noteq> JNull"
  shows "map_of kvs k = Some w" and "shown kvs k d = w"
proof -
  show m: "map_of kvs k = Some w"
    using assms(3) by (intro collect_get [OF assms(1,2)]) (simp add: plain_def)
  show "shown kvs k d = w" using assms(4) by (cases w) (simp_all add: shown_def json_nullish_def m)
qed

lemma password_again:
  assumes "collect ms = Inr kvs" and "distinct (map fst ms)"
    and "(k, result_map (\<lambda>s. Some (JStr s)) (sanitized w)) \<in> set ms"
  shows "sanitized (shown kvs k d) = sanitized w"
proof -
  obtain x where x: "result_map (\<lambda>s. Some (JStr s)) (sanitized w) = Inr x" and m: "(k, Inr x) \<in> set ms"
    using collect_all [OF assms(1,3)] assms(3) by metis
  from x obtain u where w: "sanitized w = Inr (sanitizeSecretInput u)" and xu: "x = Some (JStr (sanitizeSecretInput u))"
    by (cases w) (auto simp: sanitized_def result_map_def)
  have "map_of kvs k = Some (JStr (sanitizeSecretInput u))" using collect_get [OF assms(1,2) m] xu by simp
  then show ?thesis by (simp add: shown_def json_nullish_def w sanitized_again)
qed

subsection \<open>Headers\<close>

definition headers_ok :: "(string \<times> string) list \<Rightarrow> bool" where
  "headers_ok hs \<longleftrightarrow> distinct (map fst hs) \<and> (\<forall>(k, s) \<in> set hs. k \<noteq> [] \<and> trim k = k \<and> \<not> isConfiguredSecretMask s)"

lemma set_obj_put: "set (obj_put k v kvs) \<subseteq> insert (k, v) (set kvs)"
  by (auto simp: obj_put_def split: if_splits)

lemma headers_ok_put:
  "headers_ok hs \<Longrightarrow> k \<noteq> [] \<Longrightarrow> trim k = k \<Longrightarrow> \<not> isConfiguredSecretMask s \<Longrightarrow> headers_ok (obj_put k s hs)"
  using set_obj_put [of k s hs] unfolding headers_ok_def by (fastforce simp: distinct_obj_put)

lemma not_mask_Nil: "\<not> isConfiguredSecretMask []"
  using mask_not_empty [symmetric] by (simp add: isConfiguredSecretMask_def)

lemma header_entries_ok: "header_entries kvs acc = Inr hs \<Longrightarrow> headers_ok acc \<Longrightarrow> headers_ok hs"
proof (induction kvs acc rule: header_entries.induct)
  case (2 key v kvs headers)
  show ?case
  proof (cases v)
    case (JStr s)
    let ?acc = "obj_put (trim key) (if isConfiguredSecretMask s then [] else s) headers"
    have ne: "trim key \<noteq> []" and rest: "header_entries kvs ?acc = Inr hs"
      using "2.prems"(1) JStr by (auto simp: Let_def split: if_splits)
    have "headers_ok ?acc"
      using "2.prems"(2) ne not_mask_Nil by (intro headers_ok_put) simp_all
    then show ?thesis using "2.IH" [OF refl JStr ne rest] by simp
  qed (use 2 in simp_all)
qed simp

lemma header_entries_stored:
  "\<forall>(k, s) \<in> set hs. k \<noteq> [] \<and> trim k = k \<and> \<not> isConfiguredSecretMask s \<Longrightarrow>
   header_entries (map (\<lambda>(k, s). (k, JStr s)) hs) acc = Inr (foldl (\<lambda>m (k, v). obj_put k v m) acc hs)"
  by (induction hs arbitrary: acc) auto

lemma parse_pretty_headers:
  assumes "headers_ok hs" and "hs \<noteq> []"
  shows "parseWebhookHeadersInput (pretty_headers hs) = Inr hs"
proof -
  have d: "distinct (map fst hs)" using assms(1) by (simp add: headers_ok_def)
  have "header_entries (map (\<lambda>(k, s). (k, JStr s)) hs) [] = Inr (obj_of hs)"
    using assms(1) by (subst header_entries_stored) (auto simp: headers_ok_def obj_of_def)
  then show ?thesis
    using json_parse_headers [OF d] by (simp add: parseWebhookHeadersInput_def obj_of_distinct [OF d])
qed

lemma trim_pretty: "trim (pretty_headers hs) \<noteq> []"
proof -
  have "CHR ''{'' \<in> set (pretty_headers hs)" by (simp add: pretty_headers_def)
  moreover have "\<not> is_ws (CHR ''{'')" by (simp add: is_ws_def code_def)
  ultimately show ?thesis by (auto simp: trim_eq_Nil_iff)
qed

lemma display_fold:
  "list_all (\<lambda>(k, s). trim s \<noteq> []) hs \<Longrightarrow>
   foldl (\<lambda>acc (key, v). case v of
       JStr s \<Rightarrow> if trim s \<noteq> [] then obj_put key s acc
                 else if key \<in> keys then obj_put key CONFIGURED_SECRET_MASK acc else acc
     | _ \<Rightarrow> acc) acc (map (\<lambda>(k, s). (k, JStr s)) hs)
   = foldl (\<lambda>m (k, v). obj_put k v m) acc hs"
  by (induction hs arbitrary: acc) auto

lemma display_headers:
  assumes "json_parse c = Some (JObj kvs)" and "map_of kvs ''headers'' = Some (JObj (map (\<lambda>(k, s). (k, JStr s)) hs))"
    and "headers_ok hs" and "hs \<noteq> []" and "list_all (\<lambda>(k, s). trim s \<noteq> []) hs"
  shows "parseWebhookHeadersDisplayWithConfiguredKeys c keys = pretty_headers hs"
proof -
  have "obj_of hs = hs" using assms(3) by (simp add: headers_ok_def obj_of_distinct)
  then show ?thesis
    using assms(1,2,4) unfolding parseWebhookHeadersDisplayWithConfiguredKeys_def member_def
    by (simp add: display_fold [OF assms(5)] Let_def obj_of_def)
qed

lemma display_no_headers:
  assumes "json_parse c = Some (JObj kvs)" and "map_of kvs ''headers'' = None"
  shows "parseWebhookHeadersDisplayWithConfiguredKeys c keys = []"
  using assms by (simp add: parseWebhookHeadersDisplayWithConfiguredKeys_def member_def)

subsection \<open>The configuration that is built can be read\<close>

lemma collect_json_ok:
  "collect ms = Inr kvs \<Longrightarrow> list_all (\<lambda>(k, m). \<forall>x. m = Inr (Some x) \<longrightarrow> json_ok x) ms \<Longrightarrow>
   list_all (\<lambda>(k, v). json_ok v) kvs"
proof (induction ms arbitrary: kvs)
  case (Cons km ms)
  obtain k m where km: "km = (k, m)" by (cases km)
  from Cons.prems(1) [unfolded km] show ?case
    by (rule collect_Cons) (use Cons.IH Cons.prems(2) km in auto)
qed simp

lemma spec_json_ok [simp]:
  "snd (trimmed k w) = Inr (Some x) \<Longrightarrow> json_ok x" "snd (trimmed_or_none k w) = Inr (Some x) \<Longrightarrow> json_ok x"
  "snd (secret k w) = Inr (Some x) \<Longrightarrow> json_ok x" "snd (secret_or_none k w) = Inr (Some x) \<Longrightarrow> json_ok x"
  "result_map (\<lambda>s. Some (JStr s)) m = Inr (Some x) \<Longrightarrow> json_ok x"
  by (auto simp: trimmed_def trimmed_or_none_def secret_def secret_or_none_def dest!: result_map_Inr split: if_splits)

definition spec_ok :: "member_spec \<Rightarrow> bool" where
  "spec_ok m \<longleftrightarrow> (\<forall>x. snd m = Inr (Some x) \<longrightarrow> json_ok x)"

lemma spec_ok_simps [simp]:
  "spec_ok (trimmed k w)" "spec_ok (trimmed_or_none k w)" "spec_ok (secret k w)" "spec_ok (secret_or_none k w)"
  "spec_ok (k, result_map (\<lambda>s. Some (JStr s)) m)" "json_ok w \<Longrightarrow> spec_ok (plain k w)"
  by (auto simp: spec_ok_def) (simp add: plain_def)

lemma parsed_headers_ok:
  assumes "parseWebhookHeadersInput raw = Inr hs"
  shows "headers_ok hs"
proof -
  have "\<exists>kvs. header_entries kvs [] = Inr hs"
  proof (cases "json_parse raw")
    case (Some j)
    with assms show ?thesis by (cases j) (auto simp: parseWebhookHeadersInput_def)
  qed (use assms in \<open>simp add: parseWebhookHeadersInput_def\<close>)
  then obtain kvs where "header_entries kvs [] = Inr hs" ..
  then show ?thesis by (rule header_entries_ok) (simp add: headers_ok_def)
qed

lemma headers_spec_ok:
  "spec_ok (''headers'', if b then Inr None
     else result_map (\<lambda>hs. Some (JObj (map (\<lambda>(k, s). (k, JStr s)) hs))) (parseWebhookHeadersInput raw))"
proof -
  have "json_ok (JObj (map (\<lambda>(k, s). (k, JStr s)) hs))" if "parseWebhookHeadersInput raw = Inr hs" for hs
  proof -
    have "headers_ok hs" using that by (rule parsed_headers_ok)
    then show ?thesis by (auto simp: headers_ok_def o_def case_prod_beta list_all_iff)
  qed
  then show ?thesis by (auto simp: spec_ok_def dest!: result_map_Inr)
qed

lemma config_spec_ok: "stable_values ty v \<Longrightarrow> list_all spec_ok (config_members ty v)"
proof (cases ty)
  case Webhook
  then show ?thesis using headers_spec_ok by simp
qed (auto simp: is_str_def short_decimal_int)

lemma built_config_parses:
  assumes "collect (config_members ty v) = Inr kvs" and "stable_values ty v"
  shows "json_parse (json_stringify (JObj kvs)) = Some (JObj kvs)"
proof (rule json_parse_stringify)
  have "list_all (\<lambda>(k, v). json_ok v) kvs"
    using config_spec_ok [OF assms(2)]
    by (intro collect_json_ok [OF assms(1)]) (auto simp: list_all_iff spec_ok_def)
  then show "json_ok (JObj kvs)" using collect_distinct [OF assms(1) config_keys_distinct] by simp
qed


lemmas shown_member = shown_def [symmetric]

lemma members_again:
  assumes c: "collect (config_members ty v) = Inr kvs" and s: "stable_values ty v"
    and m: "ty = Webhook \<Longrightarrow> methodText = method_text (webhookMethod v)"
    and h: "ty = Webhook \<Longrightarrow> trim headersText = [] \<and> trim (webhookHeaders v) = []
      \<or> trim headersText \<noteq> [] \<and> trim (webhookHeaders v) \<noteq> []
        \<and> parseWebhookHeadersInput headersText = parseWebhookHeadersInput (webhookHeaders v)"
  shows "config_members ty (initial_values (JObj kvs) methodText headersText) = config_members ty v"
proof -
  note d = config_keys_distinct [of ty v]
  note again = trimmed_again [OF c d] trimmed_or_none_again [OF c d] secret_again [OF c d] secret_or_none_again [OF c d]
  note pl = plain_again [OF c d]
  show ?thesis
  proof (cases ty)
    case Smtp
    have "shown kvs ''port'' ''587'' = JNum (of_int (int_or (js_text (smtpPort v)) 587))"
      by (rule pl(2)) (simp_all add: Smtp)
    moreover have "shown kvs ''encryption'' ''starttls'' = smtpEncryption v"
      by (rule pl(2)) (use s in \<open>auto simp: Smtp is_str_def\<close>)
    moreover have "sanitized (shown kvs ''password'' []) = sanitized (smtpPassword v)"
      by (rule password_again [OF c d]) (simp add: Smtp)
    ultimately show ?thesis
      by (auto simp: initial_values_def Let_def shown_member Smtp int_or_again [simplified] intro!: again)
  next
    case Webhook
    with m h show ?thesis by (auto simp: initial_values_def Let_def shown_member method_again intro!: again)
  next
    case Pushover
    have "map_of kvs ''priority'' = Some (JNum (of_int (int_or (pushoverPriority v) 0)))"
      by (rule pl(1)) (simp_all add: Pushover)
    then show ?thesis
      using int_or_again [of "pushoverPriority v" 0]
      by (auto simp: initial_values_def Let_def shown_member Pushover intro!: again)
  next
    case Ntfy
    have "(''priority'', Inr (if trim (ntfyPriority v) = [] then None else Some (JStr (trim (ntfyPriority v)))))
      \<in> set (config_members ty v)"
      by (simp add: Ntfy trimmed_or_none_def trim_value_def result_map_def)
    from collect_get [OF c d this] s Ntfy
    have "trim (normalizeNtfyPriority (map_of kvs ''priority'')) = trim (ntfyPriority v)"
      by (auto simp: ntfy_again normalizeNtfyPriority_def [of None])
    then show ?thesis
      by (auto simp: initial_values_def Let_def shown_member Ntfy trimmed_or_none_def [of "''priority''"] trim_value_def
          intro!: again)
  next
    case Napcat
    have "shown kvs ''message_type'' ''private'' = napcatMessageType v"
      by (rule pl(2)) (use s in \<open>auto simp: Napcat\<close>)
    then show ?thesis using s
      by (auto simp: initial_values_def Let_def shown_member Napcat intro!: again)
  next
    case Pushplus
    with s show ?thesis by (auto simp: initial_values_def Let_def shown_member intro!: again)
  qed (auto simp: initial_values_def Let_def shown_member intro!: again)
qed

lemma built_headers:
  assumes "collect (config_members Webhook v) = Inr kvs" and "stable_values Webhook v"
  shows "map_of kvs ''method'' = Some (JStr (method_text (webhookMethod v)))"
    and "trim (webhookHeaders v) = [] \<Longrightarrow> map_of kvs ''headers'' = None"
    and "trim (webhookHeaders v) \<noteq> [] \<Longrightarrow> parseWebhookHeadersInput (webhookHeaders v) = Inr hs \<Longrightarrow>
      map_of kvs ''headers'' = Some (JObj (map (\<lambda>(k, s). (k, JStr s)) hs))"
proof -
  note get = collect_get [OF assms(1) config_keys_distinct]
  show "map_of kvs ''method'' = Some (JStr (method_text (webhookMethod v)))"
    by (rule get) (simp add: plain_def)
  show "trim (webhookHeaders v) = [] \<Longrightarrow> map_of kvs ''headers'' = None"
    by (rule get) simp
  show "trim (webhookHeaders v) \<noteq> [] \<Longrightarrow> parseWebhookHeadersInput (webhookHeaders v) = Inr hs \<Longrightarrow>
      map_of kvs ''headers'' = Some (JObj (map (\<lambda>(k, s). (k, JStr s)) hs))"
    by (rule get) (simp add: result_map_def)
qed

lemma shown_headers:
  assumes "collect (config_members Webhook v) = Inr kvs" and "stable_values Webhook v"
    and "h = parseWebhookHeadersDisplayWithConfiguredKeys (json_stringify (JObj kvs)) keys"
  shows "trim h = [] \<and> trim (webhookHeaders v) = [] \<or> trim h \<noteq> [] \<and> trim (webhookHeaders v) \<noteq> []
    \<and> parseWebhookHeadersInput h = parseWebhookHeadersInput (webhookHeaders v)"
proof (cases "trim (webhookHeaders v) = []")
  case True
  then have "h = []"
    using display_no_headers [OF built_config_parses [OF assms(1,2)] built_headers(2) [OF assms(1,2)]] assms(3) by simp
  with True show ?thesis by simp
next
  case False
  then obtain hs where hs: "parseWebhookHeadersInput (webhookHeaders v) = Inr hs" "hs \<noteq> []"
    "list_all (\<lambda>(k, s). trim s \<noteq> []) hs"
    using assms(2) by auto
  have "h = pretty_headers hs"
    unfolding assms(3) using built_config_parses [OF assms(1,2)] built_headers(3) [OF assms(1,2) False hs(1)]
    by (rule display_headers) (use hs parsed_headers_ok in auto)
  then show ?thesis using False hs parse_pretty_headers [OF parsed_headers_ok [OF hs(1)]] trim_pretty by simp
qed

lemma only_webhook_has_method: "ty \<noteq> Webhook \<Longrightarrow> ''method'' \<notin> fst ` set (config_members ty v)"
  by (cases ty) auto

text \<open>C18: opening a stored channel and saving it unchanged stores the same configuration, for values that the form shows
  again as they are: the selections hold one of their options (so the template of Pushplus is not blank), the headers of a
  webhook are blank or an object with at least one header and no value that is blank or masked.  For them the
  configuration text that was built is shown as values from which the same text is built again, for every channel type:
  secrets, headers, numbers, and members that were left out, included.  Other values are changed by it, see
  \<open>blank_template_becomes_markdown\<close> and \<open>blank_header_is_dropped\<close> below.\<close>

theorem edit_without_change:
  assumes "buildConfig ty v = Inr (nc_config ch)" and "stable_values ty v"
  shows "\<exists>v'. createInitialValues (Some ch) = Inr v' \<and> buildConfig ty v' = Inr (nc_config ch)"
proof -
  obtain kvs where kvs: "collect (config_members ty v) = Inr kvs" and c: "nc_config ch = json_stringify (JObj kvs)"
    using assms(1) by (cases "collect (config_members ty v)") (simp_all add: buildConfig_def result_map_def)
  have p: "json_parse (nc_config ch) = Some (JObj kvs)" using built_config_parses [OF kvs assms(2)] c by simp
  let ?h = "parseWebhookHeadersDisplayWithConfiguredKeys (nc_config ch)
    (set (nullish (nc_configured_webhook_header_keys ch) []))"
  let ?m = "if ty = Webhook then method_text (webhookMethod v) else []"
  have m: "json_nullish (map_of kvs ''method'') (JStr []) = JStr ?m"
  proof (cases "ty = Webhook")
    case True
    then show ?thesis using built_headers(1) kvs assms(2) by (simp add: json_nullish_def)
  next
    case False
    then show ?thesis using collect_get_none [OF kvs only_webhook_has_method] by (simp add: json_nullish_def)
  qed
  then have v': "createInitialValues (Some ch) = Inr (initial_values (JObj kvs) ?m ?h)"
    using p by (simp add: createInitialValues_def parseConfig_def nullish_def Let_def)
  have "config_members ty (initial_values (JObj kvs) ?m ?h) = config_members ty v"
  proof (rule members_again [OF kvs assms(2)])
    assume w: "ty = Webhook"
    show "trim ?h = [] \<and> trim (webhookHeaders v) = [] \<or> trim ?h \<noteq> [] \<and> trim (webhookHeaders v) \<noteq> []
        \<and> parseWebhookHeadersInput ?h = parseWebhookHeadersInput (webhookHeaders v)"
      by (rule shown_headers) (use kvs assms(2) w c in simp_all)
  qed simp
  then show ?thesis using v' assms(1) by (auto simp: buildConfig_def)
qed

definition gotify_channel :: NotificationChannel where
  "gotify_channel = \<lparr>nc_id = 1, nc_type = Gotify, nc_enabled = True,
     nc_config = ''{\"url\":\"https://push\",\"token\":\"\"}'',
     nc_configured_secret_fields = Some [''token''], nc_configured_webhook_header_keys = None,
     nc_created_at = [], nc_updated_at = []\<rparr>"

theorem edit_without_change_witness:
  "\<exists>v'. createInitialValues (Some gotify_channel) = Inr v' \<and> buildConfig Gotify v' = Inr (nc_config gotify_channel)"
proof (rule edit_without_change)
  show "buildConfig Gotify (blank_values\<lparr>gotifyUrl := JStr '' https://push ''\<rparr>) = Inr (nc_config gotify_channel)"
  proof -
    have t: "trim '' https://push '' = ''https://push''" "trim [] = []" by code_simp+
    have "json_stringify (JObj [(''url'', JStr ''https://push''), (''token'', JStr [])])
      = ''{\"url\":\"https://push\",\"token\":\"\"}''"
      by code_simp
    then show ?thesis
      by (simp add: buildConfig_def blank_values_def initial_values_def trimmed_def secret_def trim_value_def sanitized_def
          sanitizeSecretInput_def result_map_def json_nullish_def Let_def gotify_channel_def t)
  qed
qed simp

text \<open>The values that are excluded above.  A stored configuration of Pushplus without a template, which the form cannot make but
  the interface of the server accepts, is saved with one; a webhook header with a blank value is stored, but not shown, and
  the next save drops it.\<close>

definition stored_channel :: "ChannelType \<Rightarrow> string \<Rightarrow> NotificationChannel" where
  "stored_channel ty config = gotify_channel\<lparr>nc_type := ty, nc_config := config\<rparr>"

lemma blank_template_becomes_markdown:
  "result_map (buildConfig Pushplus) (createInitialValues (Some (stored_channel Pushplus ''{\"token\":\"T\"}'')))
   = Inr (Inr ''{\"token\":\"T\",\"template\":\"markdown\"}'')"
  by code_simp

lemma blank_header_is_dropped:
  "buildConfig Webhook (blank_values\<lparr>webhookUrl := JStr ''u'', webhookHeaders := ''{\"X\":\"\"}''\<rparr>)
     = Inr ''{\"url\":\"u\",\"method\":\"POST\",\"headers\":{\"X\":\"\"}}''
   \<and> result_map (buildConfig Webhook) (createInitialValues (Some (stored_channel Webhook
        ''{\"url\":\"u\",\"method\":\"POST\",\"headers\":{\"X\":\"\"}}'')))
     = Inr (Inr ''{\"url\":\"u\",\"method\":\"POST\"}'')"
  by code_simp

text \<open>A configuration that is the JSON text \<open>null\<close> makes the form throw: \<open>parseConfig\<close> only catches
  syntax errors.\<close>

theorem null_config_crashes: "createInitialValues (Some (gotify_channel\<lparr>nc_config := ''null''\<rparr>)) = Inl ''TypeError''"
proof -
  have "json_parse ''null'' = Some JNull" by code_simp
  then show ?thesis by (simp add: createInitialValues_def parseConfig_def nullish_def)
qed

end
