(* ===== verification/DataTransfer.thy ===== *)
theory DataTransfer
  imports Json Downloads
begin

text \<open>
  Export and import on the account settings,
  \<open>web/src/features/settings/hooks/use-settings-account-transfer.ts\<close>.  The two importers (Wallos and
  Subdux) are the same steps with their own path, format check and texts, and a state of their own; each is
  modelled by the record \<open>ImportState\<close> with an \<open>importer\<close> that tells them apart.

  A handler stops at each \<open>await\<close>; the file, and a response with its body, arrive as events.
  \<open>im_sent\<close> records the requests and \<open>im_previews\<close> the previews that were answered, with the data
  they are for.
\<close>

subsection \<open>Export\<close>

definition disposition_match :: "string \<Rightarrow> string option" where
  "disposition_match = filename_match (\<lambda>v. v)"

definition export_filename :: "string option \<Rightarrow> string" where
  "export_filename disposition =
     (case disposition of
        None \<Rightarrow> ''subdux-export.json''
      | Some d \<Rightarrow> if d = [] then ''subdux-export.json'' else nullish (disposition_match d) ''subdux-export.json'')"

definition export_path :: "bool \<Rightarrow> string" where
  "export_path includeSecrets = (if includeSecrets then ''/export?include_secrets=1&confirm=include_secrets'' else ''/export'')"

record ExportState =
  ex_loading :: bool
  ex_secretsConfirmOpen :: bool
  ex_downloads :: "string list"
  ex_requests :: "string list"

datatype export_reply = Export_failed | Export_response bool "string option"

definition handleExport :: "bool \<Rightarrow> ExportState \<Rightarrow> ExportState" where
  "handleExport includeSecrets s =
     s\<lparr>ex_loading := True, ex_requests := ex_requests s @ [export_path includeSecrets]\<rparr>"

definition export_answered :: "bool \<Rightarrow> export_reply \<Rightarrow> ExportState \<Rightarrow> ExportState" where
  "export_answered includeSecrets r s =
     (let s = (case r of
          Export_failed \<Rightarrow> s
        | Export_response ok disposition \<Rightarrow>
            if \<not> ok then s
            else (let s = s\<lparr>ex_downloads := ex_downloads s @ [export_filename disposition]\<rparr>
                  in if includeSecrets then s\<lparr>ex_secretsConfirmOpen := False\<rparr> else s))
      in s\<lparr>ex_loading := False\<rparr>)"

subsection \<open>Import\<close>

datatype importer = Wallos | Subdux

fun import_path :: "importer \<Rightarrow> string" where
  "import_path Wallos = ''/import/wallos''"
| "import_path Subdux = ''/import/subdux''"

fun import_format :: "importer \<Rightarrow> json \<Rightarrow> bool" where
  "import_format Wallos (JArr xs) = True"
| "import_format Subdux (JObj kvs) = True"
| "import_format i j = False"

fun failed_key :: "importer \<Rightarrow> string" where
  "failed_key Wallos = ''settings.account.importFailed''"
| "failed_key Subdux = ''settings.account.subduxImportFailed''"

fun invalid_key :: "importer \<Rightarrow> string" where
  "invalid_key Wallos = ''settings.account.importInvalidFormat''"
| "invalid_key Subdux = ''settings.account.subduxImportInvalidFormat''"

fun success_key :: "importer \<Rightarrow> string" where
  "success_key Wallos = ''settings.account.importSuccess''"
| "success_key Subdux = ''settings.account.subduxImportSuccess''"

datatype import_notice = Import_error json | Import_success string "json option" "json option"

datatype import_task = Reading_file | Previewing json | Confirming json | Import_over

datatype import_reply =
    File_text string
  | File_unreadable
  | Fetch_failed
  | Fetch_response bool "json option"

record ImportState =
  im_loading :: bool
  im_previewOpen :: bool
  im_preview :: "json option"
  im_rawData :: "json option"
  im_tasks :: "import_task list"
  im_sent :: "(string \<times> string) list"
  im_requests :: "(json \<times> bool) list"
  im_previews :: "(json \<times> json option) list"
  im_notices :: "import_notice list"

definition no_import :: ImportState where
  "no_import = \<lparr>im_loading = False, im_previewOpen = False, im_preview = None, im_rawData = None,
     im_tasks = [], im_sent = [], im_requests = [], im_previews = [], im_notices = []\<rparr>"

text \<open>\<open>JSON.stringify(\{ data, confirm \})\<close>.\<close>

definition import_body :: "json \<Rightarrow> bool \<Rightarrow> string" where
  "import_body data confirm = json_stringify (JObj [(''data'', data), (''confirm'', JBool confirm)])"

definition send_import :: "importer \<Rightarrow> json \<Rightarrow> bool \<Rightarrow> ImportState \<Rightarrow> ImportState" where
  "send_import i data confirm s =
     s\<lparr>im_sent := im_sent s @ [(import_path i, import_body data confirm)], im_requests := im_requests s @ [(data, confirm)]\<rparr>"

definition import_notice :: "import_notice \<Rightarrow> ImportState \<Rightarrow> ImportState" where
  "import_notice n s = s\<lparr>im_notices := im_notices s @ [n]\<rparr>"

definition resetImportPreview :: "ImportState \<Rightarrow> ImportState" where
  "resetImportPreview s = s\<lparr>im_previewOpen := False, im_preview := None, im_rawData := None\<rparr>"

definition import_done :: "nat \<Rightarrow> ImportState \<Rightarrow> ImportState" where
  "import_done n s = s\<lparr>im_loading := False, im_tasks := (im_tasks s)[n := Import_over]\<rparr>"

text \<open>\<open>err.error || t(...)\<close> on the body of an error response; a body that cannot be read or is
  \<open>null\<close> throws, which the handler catches.\<close>

definition import_error :: "(string \<Rightarrow> string) \<Rightarrow> importer \<Rightarrow> json option \<Rightarrow> json" where
  "import_error t i body =
     (case body of
        None \<Rightarrow> JStr (t (failed_key i))
      | Some JNull \<Rightarrow> JStr (t (failed_key i))
      | Some b \<Rightarrow> (case json_get b ''error'' of
            Some e \<Rightarrow> if json_truthy e then e else JStr (t (failed_key i))
          | None \<Rightarrow> JStr (t (failed_key i))))"

definition handleImport :: "ImportState \<Rightarrow> ImportState" where
  "handleImport s = s\<lparr>im_loading := True, im_tasks := im_tasks s @ [Reading_file]\<rparr>"

definition file_read :: "(string \<Rightarrow> string) \<Rightarrow> importer \<Rightarrow> nat \<Rightarrow> string option \<Rightarrow> ImportState \<Rightarrow> ImportState" where
  "file_read t i n txt s =
     (case Option.bind txt json_parse of
        None \<Rightarrow> import_done n (import_notice (Import_error (JStr (t (failed_key i)))) s)
      | Some data \<Rightarrow>
          if \<not> import_format i data
          then import_done n (import_notice (Import_error (JStr (t (invalid_key i)))) s)
          else (send_import i data False s)\<lparr>im_tasks := (im_tasks s)[n := Previewing data]\<rparr>)"

definition previewed :: "(string \<Rightarrow> string) \<Rightarrow> importer \<Rightarrow> nat \<Rightarrow> json \<Rightarrow> import_reply \<Rightarrow> ImportState \<Rightarrow> ImportState" where
  "previewed t i n data r s = import_done n
     (case r of
        Fetch_response ok body \<Rightarrow>
          if \<not> ok then import_notice (Import_error (import_error t i body)) s
          else (case body of
              None \<Rightarrow> import_notice (Import_error (JStr (t (failed_key i)))) s
            | Some JNull \<Rightarrow> import_notice (Import_error (JStr (t (failed_key i)))) s
            | Some b \<Rightarrow>
                (let preview = json_get b ''preview''
                 in s\<lparr>im_preview := preview, im_rawData := Some data, im_previewOpen := True,
                      im_previews := im_previews s @ [(data, preview)]\<rparr>))
      | _ \<Rightarrow> import_notice (Import_error (JStr (t (failed_key i)))) s)"

definition handleConfirmImport :: "importer \<Rightarrow> ImportState \<Rightarrow> ImportState" where
  "handleConfirmImport i s =
     (case im_rawData s of
        None \<Rightarrow> s
      | Some data \<Rightarrow> (send_import i data True (s\<lparr>im_loading := True\<rparr>))\<lparr>im_tasks := im_tasks s @ [Confirming data]\<rparr>)"

definition import_confirmed :: "(string \<Rightarrow> string) \<Rightarrow> importer \<Rightarrow> nat \<Rightarrow> import_reply \<Rightarrow> ImportState \<Rightarrow> ImportState" where
  "import_confirmed t i n r s = import_done n
     (case r of
        Fetch_response ok body \<Rightarrow>
          if \<not> ok then import_notice (Import_error (import_error t i body)) s
          else (case Option.bind body (\<lambda>b. if b = JNull then None else json_get b ''result'') of
              None \<Rightarrow> import_notice (Import_error (JStr (t (failed_key i)))) s
            | Some JNull \<Rightarrow> import_notice (Import_error (JStr (t (failed_key i)))) s
            | Some result \<Rightarrow> resetImportPreview
                (import_notice (Import_success (t (success_key i)) (json_get result ''imported'') (json_get result ''skipped'')) s))
      | _ \<Rightarrow> import_notice (Import_error (JStr (t (failed_key i)))) s)"

datatype import_event =
    Choose_file
  | Import_answer nat import_reply
  | Confirm_import
  | Reset_preview
  | Preview_open bool

fun import_step :: "(string \<Rightarrow> string) \<Rightarrow> importer \<Rightarrow> ImportState \<Rightarrow> import_event \<Rightarrow> ImportState" where
  "import_step t i s Choose_file = handleImport s"
| "import_step t i s (Import_answer n r) =
     (if n < length (im_tasks s) then
        (case (im_tasks s ! n, r) of
           (Reading_file, File_text txt) \<Rightarrow> file_read t i n (Some txt) s
         | (Reading_file, File_unreadable) \<Rightarrow> file_read t i n None s
         | (Previewing data, Fetch_failed) \<Rightarrow> previewed t i n data r s
         | (Previewing data, Fetch_response ok body) \<Rightarrow> previewed t i n data r s
         | (Confirming data, Fetch_failed) \<Rightarrow> import_confirmed t i n r s
         | (Confirming data, Fetch_response ok body) \<Rightarrow> import_confirmed t i n r s
         | _ \<Rightarrow> s)
      else s)"
| "import_step t i s Confirm_import = handleConfirmImport i s"
| "import_step t i s Reset_preview = resetImportPreview s"
| "import_step t i s (Preview_open b) = s\<lparr>im_previewOpen := b\<rparr>"


subsection \<open>What is imported was previewed\<close>

definition request_seen :: "importer \<Rightarrow> (json \<times> json option) list \<Rightarrow> json \<times> bool \<Rightarrow> bool" where
  "request_seen i ps = (\<lambda>(data, confirm). import_format i data \<and> (if confirm then data \<in> fst ` set ps else True))"

definition raw_seen :: "(json \<times> json option) list \<Rightarrow> json option \<Rightarrow> json option \<Rightarrow> bool" where
  "raw_seen ps raw preview = (case raw of None \<Rightarrow> True | Some data \<Rightarrow> (data, preview) \<in> set ps)"

definition task_format :: "importer \<Rightarrow> import_task \<Rightarrow> bool" where
  "task_format i tk = (case tk of Previewing data \<Rightarrow> import_format i data | _ \<Rightarrow> True)"

definition import_ok :: "importer \<Rightarrow> ImportState \<Rightarrow> bool" where
  "import_ok i s \<longleftrightarrow> list_all (request_seen i (im_previews s)) (im_requests s)
     \<and> raw_seen (im_previews s) (im_rawData s) (im_preview s)
     \<and> list_all (\<lambda>p. import_format i (fst p)) (im_previews s) \<and> list_all (task_format i) (im_tasks s)"

lemma seen_simps [simp]:
  "raw_seen ps None v" "task_format i Reading_file" "task_format i (Confirming data)" "task_format i Import_over"
  "task_format i (Previewing data) = import_format i data" "request_seen i ps (data, False) = import_format i data"
  "request_seen i ps (data, True) \<longleftrightarrow> import_format i data \<and> data \<in> fst ` set ps"
  "raw_seen ps (Some data) v \<longleftrightarrow> (data, v) \<in> set ps"
  by (auto simp: raw_seen_def task_format_def request_seen_def)

lemma request_seen_grow: "request_seen i ps r \<Longrightarrow> request_seen i (ps @ qs) r"
  by (auto simp: request_seen_def split: if_splits)

lemma import_ok_notice [simp]: "import_ok i (import_notice n s) = import_ok i s"
  by (simp add: import_ok_def import_notice_def)

lemma import_ok_done: "import_ok i s \<Longrightarrow> import_ok i (import_done n s)"
  by (auto simp: import_ok_def import_done_def intro: list_all_update)

lemma import_ok_reset: "import_ok i s \<Longrightarrow> import_ok i (resetImportPreview s)"
  by (simp add: import_ok_def resetImportPreview_def)

lemma import_ok_handle: "import_ok i s \<Longrightarrow> import_ok i (handleImport s)"
  by (simp add: import_ok_def handleImport_def)

lemma import_ok_read: "import_ok i s \<Longrightarrow> import_ok i (file_read t i n txt s)"
  by (auto simp: file_read_def import_ok_done split: option.split)
    (auto simp: import_ok_def send_import_def intro: list_all_update)

lemma import_ok_previewed:
  assumes "import_ok i s" and "import_format i data"
  shows "import_ok i (previewed t i n data r s)"
proof -
  have "list_all (request_seen i (im_previews s @ [x])) (im_requests s)" for x
    using assms(1) request_seen_grow by (auto simp: import_ok_def list_all_iff)
  then have new: "import_ok i (s\<lparr>im_preview := v, im_rawData := Some data, im_previewOpen := True,
      im_previews := im_previews s @ [(data, v)]\<rparr>)" for v
    using assms by (simp add: import_ok_def)
  show ?thesis
    unfolding previewed_def
    by (rule import_ok_done) (use assms(1) new in \<open>auto simp: Let_def split: import_reply.split option.split json.split\<close>)
qed

lemma import_ok_confirm:
  assumes "import_ok i s"
  shows "import_ok i (handleConfirmImport i s)"
proof (cases "im_rawData s")
  case (Some data)
  with assms have "(data, im_preview s) \<in> set (im_previews s)" by (simp add: import_ok_def)
  then have "import_format i data" "data \<in> fst ` set (im_previews s)"
    using assms by (auto simp: import_ok_def list_all_iff intro: rev_image_eqI)
  with assms Some show ?thesis by (simp add: handleConfirmImport_def import_ok_def send_import_def)
qed (use assms in \<open>simp add: handleConfirmImport_def\<close>)

lemma import_ok_confirmed: "import_ok i s \<Longrightarrow> import_ok i (import_confirmed t i n r s)"
  unfolding import_confirmed_def
  by (rule import_ok_done) (auto simp: import_ok_reset split: import_reply.split option.split json.split)

lemma import_step_ok:
  assumes "import_ok i s"
  shows "import_ok i (import_step t i s e)"
proof (cases e)
  case (Import_answer n r)
  show ?thesis
  proof (cases "n < length (im_tasks s)")
    case True
    then have "task_format i (im_tasks s ! n)" using assms by (simp add: import_ok_def list_all_length)
    then show ?thesis
      using True Import_answer assms import_ok_read import_ok_previewed import_ok_confirmed
      by (auto split: import_task.split import_reply.split)
  qed (use assms Import_answer in simp)
next
  case (Preview_open b)
  with assms show ?thesis by (simp add: import_ok_def)
qed (use assms import_ok_handle import_ok_confirm import_ok_reset in simp_all)

interpretation importing: event_machine "import_step t i" "import_ok i" for t i
  by unfold_locales (rule import_step_ok)

text \<open>C28: nothing is imported that was not previewed: whatever files are chosen, answers delayed and dialogs
  closed, the data that waits for confirmation is the data the preview on the screen was made for, every
  confirmed request carries data that was previewed before, and every request has the format of its
  importer.\<close>

theorem nothing_imported_unseen:
  "let s = foldl (import_step t i) no_import es in
     list_all (\<lambda>(data, confirm). import_format i data \<and> (if confirm then data \<in> fst ` set (im_previews s) else True)) (im_requests s)
     \<and> (case im_rawData s of None \<Rightarrow> True | Some data \<Rightarrow> (data, im_preview s) \<in> set (im_previews s))"
proof -
  have "import_ok i no_import" by (simp add: import_ok_def no_import_def)
  from importing.run_inv [OF this, of t es] show ?thesis
    by (simp add: import_ok_def request_seen_def [abs_def] raw_seen_def Let_def)
qed

subsection \<open>The name of an export\<close>

lemma export_filename_quoted:
  assumes "CHR ''f'' \<notin> set p" and "name \<noteq> []" and "CHR 0x22 \<notin> set name"
  shows "export_filename (Some (p @ ''filename='' @ CHR 0x22 # name @ CHR 0x22 # rest)) = name"
  using filename_match_quoted [of "\<lambda>v. v", OF _ _ assms(1) _ assms(2,3)]
  by (simp add: export_filename_def disposition_match_def nullish_def)

end
