(* ===== verification/IconComponents.thy ===== *)
theory IconComponents
  imports SubscriptionCards
begin

text \<open>
  The components that draw brand icons: \<open>lib/brand-icons/lazy-icon.ts\<close>, which loads a drawing when it is first
  mounted, and \<open>components/async-brand-icon.tsx\<close>, which loads the lookup of \<open>BrandIcons\<close> with the first icon.
  Both keep a promise outside of React and attach a callback to it for every mounted view.  An event is a mounting, a
  rendering, an unmounting, the settling of the promise or, for the lookup, one run of a callback: the callbacks of a
  settled promise are microtasks, which run in their order and with anything in between.  For a drawing they run in
  the event that settles the promise, and a callback that is attached to a promise that has settled already runs at once;
  the latter changes nothing that can be seen: the drawing of a loaded promise is shown by \<open>loadedIcon\<close> without it, and that of
  a failed one sets the icon to the null it has.  A rendering and its effects are one step: a callback that runs after the
  rendering of another view and before the effect of that view is not modelled.
\<close>

subsection \<open>A drawing that is loaded on demand\<close>

datatype icon_size = Size_number rat | Size_text string

definition normalizeSize :: "icon_size \<Rightarrow> rat" where
  "normalizeSize sz =
     (case sz of
        Size_number n \<Rightarrow> n
      | Size_text s \<Rightarrow> (case parse_float s of Num n \<Rightarrow> n | _ \<Rightarrow> 20))"

datatype 'i load_promise = Not_loaded | Loading | Load_ok 'i | Load_failed

text \<open>\<open>li_deps\<close> is the dependency with which the effect of the view ran last.\<close>

record 'i LazyView =
  li_Icon :: "'i option"
  li_deps :: "'i option"
  li_waiting :: bool
  li_mounted :: bool

record 'i LazyIcon =
  loadedIcon :: "'i option"
  loadingPromise :: "'i load_promise"
  lz_loads :: nat
  lz_views :: "'i LazyView list"

definition createLazySvgIcon :: "'i LazyIcon" where
  "createLazySvgIcon = \<lparr>loadedIcon = None, loadingPromise = Not_loaded, lz_loads = 0, lz_views = []\<rparr>"

definition resolvedIcon :: "'i LazyIcon \<Rightarrow> 'i LazyView \<Rightarrow> 'i option" where
  "resolvedIcon z v = (case li_Icon v of Some icon \<Rightarrow> Some icon | None \<Rightarrow> loadedIcon z)"

definition start_loading :: "'i LazyIcon \<Rightarrow> 'i LazyIcon" where
  "start_loading z = (if loadingPromise z = Not_loaded then z\<lparr>loadingPromise := Loading, lz_loads := lz_loads z + 1\<rparr> else z)"

definition load_effect :: "nat \<Rightarrow> 'i LazyIcon \<Rightarrow> 'i LazyIcon" where
  "load_effect n z =
     (let v = lz_views z ! n; resolved = resolvedIcon z v in
      if resolved \<noteq> None then z\<lparr>lz_views := (lz_views z)[n := v\<lparr>li_deps := resolved, li_waiting := False\<rparr>]\<rparr>
      else let z = start_loading z in
           z\<lparr>lz_views := (lz_views z)[n := v\<lparr>li_deps := resolved, li_waiting := loadingPromise z = Loading,
             li_Icon := (case loadingPromise z of Load_ok icon \<Rightarrow> Some icon | _ \<Rightarrow> None)\<rparr>]\<rparr>)"

definition mount_icon :: "'i LazyIcon \<Rightarrow> 'i LazyIcon" where
  "mount_icon z =
     load_effect (length (lz_views z))
       (z\<lparr>lz_views := lz_views z @ [\<lparr>li_Icon = loadedIcon z, li_deps = None, li_waiting = False, li_mounted = True\<rparr>]\<rparr>)"

definition load_settled :: "'i option \<Rightarrow> 'i LazyIcon \<Rightarrow> 'i LazyIcon" where
  "load_settled r z =
     z\<lparr>loadedIcon := r, loadingPromise := (case r of None \<Rightarrow> Load_failed | Some icon \<Rightarrow> Load_ok icon),
       lz_views := map (\<lambda>v. if li_waiting v then v\<lparr>li_Icon := r, li_deps := r, li_waiting := False\<rparr> else v) (lz_views z)\<rparr>"

datatype 'i lazy_event = Mount_icon | Render_icon nat | Unmount_icon nat | Load_settled "'i option"

definition mounted_icon :: "nat \<Rightarrow> 'i LazyIcon \<Rightarrow> bool" where
  "mounted_icon n z \<longleftrightarrow> n < length (lz_views z) \<and> li_mounted (lz_views z ! n)"

fun lazy_step :: "'i LazyIcon \<Rightarrow> 'i lazy_event \<Rightarrow> 'i LazyIcon" where
  "lazy_step z Mount_icon = mount_icon z"
| "lazy_step z (Render_icon n) =
     (if mounted_icon n z \<and> resolvedIcon z (lz_views z ! n) \<noteq> li_deps (lz_views z ! n) then load_effect n z else z)"
| "lazy_step z (Unmount_icon n) =
     (if mounted_icon n z then z\<lparr>lz_views := (lz_views z)[n := (lz_views z ! n)\<lparr>li_waiting := False, li_mounted := False\<rparr>]\<rparr> else z)"
| "lazy_step z (Load_settled r) = (if loadingPromise z = Loading then load_settled r z else z)"

datatype 'i drawn = Placeholder rat | Drawn 'i rat "string option"

definition LazySvgIcon :: "icon_size \<Rightarrow> string option \<Rightarrow> 'i LazyIcon \<Rightarrow> 'i LazyView \<Rightarrow> 'i drawn" where
  "LazySvgIcon sz color z v =
     (case resolvedIcon z v of
        None \<Rightarrow> Placeholder (normalizeSize sz)
      | Some icon \<Rightarrow> Drawn icon (normalizeSize sz) (if color = Some ''default'' then None else color))"

definition lazy_view_ok :: "'i load_promise \<Rightarrow> 'i LazyView \<Rightarrow> bool" where
  "lazy_view_ok p v \<longleftrightarrow> li_waiting v = (p = Loading \<and> li_mounted v) \<and>
     (case p of
        Not_loaded \<Rightarrow> False
      | Loading \<Rightarrow> li_Icon v = None \<and> li_deps v = None
      | Load_ok icon \<Rightarrow> li_Icon v \<in> {None, Some icon} \<and> (li_mounted v \<longrightarrow> li_deps v = Some icon)
      | Load_failed \<Rightarrow> li_Icon v = None \<and> li_deps v = None)"

definition lazy_ok :: "'i LazyIcon \<Rightarrow> bool" where
  "lazy_ok z \<longleftrightarrow> list_all (lazy_view_ok (loadingPromise z)) (lz_views z)
     \<and> loadedIcon z = (case loadingPromise z of Load_ok icon \<Rightarrow> Some icon | _ \<Rightarrow> None)
     \<and> lz_loads z = (if loadingPromise z = Not_loaded then 0 else 1)"

lemma mount_icon_ok: "lazy_ok z \<Longrightarrow> lazy_ok (mount_icon z)"
  by (cases "loadingPromise z"; cases "lz_views z")
    (auto simp: lazy_ok_def mount_icon_def load_effect_def start_loading_def resolvedIcon_def lazy_view_ok_def Let_def
      list_update_append nth_append)

lemma resolved_deps:
  assumes "lazy_ok z" and "mounted_icon n z"
  shows "resolvedIcon z (lz_views z ! n) = li_deps (lz_views z ! n)"
proof -
  have "lazy_view_ok (loadingPromise z) (lz_views z ! n)" "li_mounted (lz_views z ! n)"
    using assms by (auto simp: lazy_ok_def mounted_icon_def list_all_length)
  then show ?thesis using assms(1)
    by (cases "loadingPromise z") (auto simp: lazy_ok_def lazy_view_ok_def resolvedIcon_def split: option.split)
qed

lemma load_settled_ok: "lazy_ok z \<Longrightarrow> loadingPromise z = Loading \<Longrightarrow> lazy_ok (load_settled r z)"
  by (cases r) (auto simp: lazy_ok_def load_settled_def lazy_view_ok_def list.pred_map list_all_iff)

lemma lazy_step_ok: "lazy_ok z \<Longrightarrow> lazy_ok (lazy_step z e)"
proof (cases e)
  case (Unmount_icon n)
  assume ok: "lazy_ok z"
  show ?thesis
  proof (cases "mounted_icon n z")
    case True
    then have "lazy_view_ok (loadingPromise z) (lz_views z ! n)" using ok by (auto simp: lazy_ok_def mounted_icon_def list_all_length)
    then have "lazy_view_ok (loadingPromise z) ((lz_views z ! n)\<lparr>li_waiting := False, li_mounted := False\<rparr>)"
      by (cases "loadingPromise z") (simp_all add: lazy_view_ok_def)
    then show ?thesis using ok Unmount_icon True by (simp add: lazy_ok_def list_all_update)
  qed (use ok Unmount_icon in simp)
qed (auto simp: mount_icon_ok resolved_deps load_settled_ok)

interpretation lazy_icon: event_machine lazy_step lazy_ok
  by unfold_locales (rule lazy_step_ok)

lemma fresh_lazy_icon: "lazy_ok createLazySvgIcon"
  by (simp add: lazy_ok_def createLazySvgIcon_def)

text \<open>C16: a drawing is asked for once, however often its component is mounted, and what is mounted follows the promise:
  the placeholder while it is under way, and when it has loaded the drawing, in every view, also in those that were
  mounted before.  When loading has failed every view keeps the placeholder.\<close>

theorem drawing_loaded_once:
  "let z = foldl lazy_step createLazySvgIcon es in
     lz_loads z = (if loadingPromise z = Not_loaded then 0 else 1)
     \<and> list_all (\<lambda>v. LazySvgIcon sz color z v =
           (case loadingPromise z of
              Load_ok icon \<Rightarrow> Drawn icon (normalizeSize sz) (if color = Some ''default'' then None else color)
            | _ \<Rightarrow> Placeholder (normalizeSize sz))
         \<and> li_waiting v = (loadingPromise z = Loading)) (filter li_mounted (lz_views z))"
proof -
  define z where "z = foldl lazy_step createLazySvgIcon es"
  have "lazy_ok z" unfolding z_def by (rule lazy_icon.run_inv [OF fresh_lazy_icon])
  then show ?thesis
    unfolding z_def [symmetric] Let_def
    by (cases "loadingPromise z") (auto simp: lazy_ok_def lazy_view_ok_def list_all_iff LazySvgIcon_def resolvedIcon_def split: option.split)
qed

text \<open>The promise that failed is kept: no later view asks again.\<close>

lemma failed_drawing_is_never_retried:
  "loadingPromise z = Load_failed \<Longrightarrow>
   loadingPromise (foldl lazy_step z es) = Load_failed \<and> lz_loads (foldl lazy_step z es) = lz_loads z"
proof (induction es arbitrary: z)
  case (Cons e es)
  then have "loadingPromise (lazy_step z e) = Load_failed \<and> lz_loads (lazy_step z e) = lz_loads z"
    by (cases e) (auto simp: mount_icon_def load_effect_def start_loading_def Let_def)
  then show ?case using Cons.IH [of "lazy_step z e"] by simp
qed simp

subsection \<open>An icon that is looked up by its value\<close>

text \<open>\<open>lookup\<close> is \<open>getBrandIconFromValue\<close> of the module that is imported with the first icon.  A callback carries
  the view that waits, or none when its effect was cleaned up, and the value.\<close>

datatype lookup_promise = Lookup_none | Lookup_loading | Lookup_ready | Lookup_failed

record 'i AsyncView =
  ai_value :: string
  ai_loadedValue :: string
  ai_loadedIcon :: "'i option"
  ai_mounted :: bool

record 'i AsyncIcons =
  brandIconCache :: "string \<rightharpoonup> 'i option"
  brandIconLookupPromise :: lookup_promise
  as_callbacks :: "(nat option \<times> string) list"
  as_views :: "'i AsyncView list"

definition no_async_icons :: "'i AsyncIcons" where
  "no_async_icons = \<lparr>brandIconCache = Map.empty, brandIconLookupPromise = Lookup_none, as_callbacks = [], as_views = []\<rparr>"

definition normalizedValue :: "'i AsyncView \<Rightarrow> string" where
  "normalizedValue v = trim (ai_value v)"

definition AsyncBrandIcon :: "'i AsyncIcons \<Rightarrow> 'i AsyncView \<Rightarrow> 'i option" where
  "AsyncBrandIcon s v =
     (if isAsyncBrandIconValue (normalizedValue v)
      then (case brandIconCache s (normalizedValue v) of
              Some cachedIcon \<Rightarrow> cachedIcon
            | None \<Rightarrow> if ai_loadedValue v = normalizedValue v then ai_loadedIcon v else None)
      else None)"

text \<open>The body of a callback: of \<open>then\<close> when the lookup is there, of \<open>catch\<close> when it could not be loaded.\<close>

definition looked_up :: "(string \<Rightarrow> 'i option) \<Rightarrow> bool \<Rightarrow> 'i AsyncIcons \<Rightarrow> nat option \<times> string \<Rightarrow> 'i AsyncIcons" where
  "looked_up lookup ready s c =
     (let (who, v) = c; icon = (if ready then lookup v else None); s = s\<lparr>brandIconCache := (brandIconCache s)(v \<mapsto> icon)\<rparr> in
      case who of
        None \<Rightarrow> s
      | Some n \<Rightarrow> s\<lparr>as_views := (as_views s)[n := (as_views s ! n)\<lparr>ai_loadedValue := v, ai_loadedIcon := icon\<rparr>]\<rparr>)"

definition loadBrandIconLookup :: "'i AsyncIcons \<Rightarrow> 'i AsyncIcons" where
  "loadBrandIconLookup s =
     (if brandIconLookupPromise s = Lookup_none then s\<lparr>brandIconLookupPromise := Lookup_loading\<rparr> else s)"

definition icon_effect :: "nat \<Rightarrow> 'i AsyncIcons \<Rightarrow> 'i AsyncIcons" where
  "icon_effect n s =
     (let v = normalizedValue (as_views s ! n) in
      if \<not> isAsyncBrandIconValue v \<or> brandIconCache s v \<noteq> None then s
      else let s = loadBrandIconLookup s in s\<lparr>as_callbacks := as_callbacks s @ [(Some n, v)]\<rparr>)"

definition cancel_effect :: "nat \<Rightarrow> 'i AsyncIcons \<Rightarrow> 'i AsyncIcons" where
  "cancel_effect n s =
     s\<lparr>as_callbacks := map (\<lambda>(who, v). (if who = Some n then None else who, v)) (as_callbacks s)\<rparr>"

text \<open>A callback runs only when the promise has settled, and the callbacks run in the order in which they were attached.\<close>

definition settled :: "lookup_promise \<Rightarrow> bool" where
  "settled p \<longleftrightarrow> p = Lookup_ready \<or> p = Lookup_failed"

definition run_callback :: "(string \<Rightarrow> 'i option) \<Rightarrow> 'i AsyncIcons \<Rightarrow> 'i AsyncIcons" where
  "run_callback lookup s =
     (case as_callbacks s of
        [] \<Rightarrow> s
      | c # cs \<Rightarrow>
          if settled (brandIconLookupPromise s)
          then looked_up lookup (brandIconLookupPromise s = Lookup_ready) (s\<lparr>as_callbacks := cs\<rparr>) c
          else s)"

definition mounted_view :: "nat \<Rightarrow> 'i AsyncIcons \<Rightarrow> bool" where
  "mounted_view n s \<longleftrightarrow> n < length (as_views s) \<and> ai_mounted (as_views s ! n)"

datatype async_event = Mount_async string | Change_async nat string | Unmount_async nat | Lookup_settled bool | Callback_runs

fun async_step :: "(string \<Rightarrow> 'i option) \<Rightarrow> 'i AsyncIcons \<Rightarrow> async_event \<Rightarrow> 'i AsyncIcons" where
  "async_step lookup s (Mount_async v) =
     icon_effect (length (as_views s))
       (s\<lparr>as_views := as_views s @ [\<lparr>ai_value = v, ai_loadedValue = [], ai_loadedIcon = None, ai_mounted = True\<rparr>]\<rparr>)"
| "async_step lookup s (Change_async n v) =
     (if \<not> mounted_view n s then s
      else let u = as_views s ! n; s' = s\<lparr>as_views := (as_views s)[n := u\<lparr>ai_value := v\<rparr>]\<rparr> in
        if trim v = normalizedValue u then s' else icon_effect n (cancel_effect n s'))"
| "async_step lookup s (Unmount_async n) =
     (if \<not> mounted_view n s then s
      else cancel_effect n (s\<lparr>as_views := (as_views s)[n := (as_views s ! n)\<lparr>ai_mounted := False\<rparr>]\<rparr>))"
| "async_step lookup s (Lookup_settled ready) =
     (if brandIconLookupPromise s = Lookup_loading
      then s\<lparr>brandIconLookupPromise := (if ready then Lookup_ready else Lookup_failed)\<rparr> else s)"
| "async_step lookup s Callback_runs = run_callback lookup s"

text \<open>What the promise says of a value, and which values have been answered or have a callback that waits.\<close>

definition answer_of :: "(string \<Rightarrow> 'i option) \<Rightarrow> lookup_promise \<Rightarrow> string \<Rightarrow> 'i option" where
  "answer_of lookup p v = (if p = Lookup_ready then lookup v else None)"

definition known :: "'i AsyncIcons \<Rightarrow> string set" where
  "known s = dom (brandIconCache s) \<union> snd ` set (as_callbacks s)"

definition covered :: "'i AsyncIcons \<Rightarrow> 'i AsyncView \<Rightarrow> bool" where
  "covered s v \<longleftrightarrow> (ai_mounted v \<and> isAsyncBrandIconValue (normalizedValue v) \<longrightarrow> normalizedValue v \<in> known s)"

definition async_data :: "(string \<Rightarrow> 'i option) \<Rightarrow> 'i AsyncIcons \<Rightarrow> bool" where
  "async_data lookup s \<longleftrightarrow>
     (\<forall>v. brandIconCache s v \<in> {None, Some (answer_of lookup (brandIconLookupPromise s) v)})
     \<and> list_all (\<lambda>v. ai_loadedIcon v = None \<or> brandIconCache s (ai_loadedValue v) = Some (ai_loadedIcon v)) (as_views s)
     \<and> (settled (brandIconLookupPromise s) \<or> brandIconCache s = Map.empty)"

definition async_ok :: "(string \<Rightarrow> 'i option) \<Rightarrow> 'i AsyncIcons \<Rightarrow> bool" where
  "async_ok lookup s \<longleftrightarrow> async_data lookup s \<and> list_all (covered s) (as_views s)"

lemma covered_cong: "known s' = known s \<Longrightarrow> covered s' = covered s"
  by (simp add: covered_def fun_eq_iff)

lemma covered_grows: "covered s v \<Longrightarrow> known s \<subseteq> known s' \<Longrightarrow> covered s' v"
  by (auto simp: covered_def)

definition face :: "'i AsyncView \<Rightarrow> string \<times> bool" where
  "face v = (ai_value v, ai_mounted v)"

lemma covered_faces:
  assumes "map face vs = map face us"
  shows "list_all (covered s) vs = list_all (covered s) us"
proof -
  have "list_all (covered s) ws = list_all (\<lambda>(x, m). m \<and> isAsyncBrandIconValue (trim x) \<longrightarrow> trim x \<in> known s) (map face ws)" for ws
    by (simp add: list_all_iff covered_def face_def normalizedValue_def)
  then show ?thesis by (simp add: assms)
qed

lemma looked_up_frame:
  "brandIconLookupPromise (looked_up lookup r s c) = brandIconLookupPromise s" "as_callbacks (looked_up lookup r s c) = as_callbacks s"
  "dom (brandIconCache (looked_up lookup r s c)) = insert (snd c) (dom (brandIconCache s))"
  by (cases c; simp add: looked_up_def Let_def split: option.split)+

lemma looked_up_faces: "map face (as_views (looked_up lookup r s c)) = map face (as_views s)"
proof -
  have "map face ((as_views s)[n := (as_views s ! n)\<lparr>ai_loadedValue := v, ai_loadedIcon := i\<rparr>]) = map face (as_views s)" for n v i
    by (cases "n < length (as_views s)") (simp_all add: map_update face_def list_update_same_conv list_update_beyond)
  then show ?thesis by (cases c) (simp add: looked_up_def Let_def split: option.split)
qed

lemma list_all_update_weak: "list_all P xs \<Longrightarrow> P x \<Longrightarrow> list_all P (xs[n := x])"
  by (cases "n < length xs") (simp_all add: list_all_update list_update_beyond)

lemma looked_up_data:
  assumes d: "async_data lookup s" and p: "settled (brandIconLookupPromise s)" and r: "r = (brandIconLookupPromise s = Lookup_ready)"
  shows "async_data lookup (looked_up lookup r s c)"
proof (cases c)
  case (Pair who v)
  define i where "i = answer_of lookup (brandIconLookupPromise s) v"
  define m where "m = (brandIconCache s)(v \<mapsto> i)"
  have m: "m x \<in> {None, Some (answer_of lookup (brandIconLookupPromise s) x)}" for x
    using d by (auto simp: async_data_def m_def i_def)
  have "brandIconCache s v \<in> {None, Some i}" using d by (simp add: async_data_def i_def)
  then have "brandIconCache s x = Some y \<Longrightarrow> m x = Some y" for x y by (auto simp: m_def)
  then have vs: "list_all (\<lambda>v. ai_loadedIcon v = None \<or> m (ai_loadedValue v) = Some (ai_loadedIcon v)) (as_views s)"
    using d by (auto simp: async_data_def list_all_iff)
  then have "list_all (\<lambda>v. ai_loadedIcon v = None \<or> m (ai_loadedValue v) = Some (ai_loadedIcon v))
      ((as_views s)[n := (as_views s ! n)\<lparr>ai_loadedValue := v, ai_loadedIcon := i\<rparr>])" for n
    by (rule list_all_update_weak) (simp add: m_def)
  moreover have "(if r then lookup v else None) = i" by (simp add: i_def answer_of_def r)
  then have "looked_up lookup r s c = (let s = s\<lparr>brandIconCache := m\<rparr> in case who of None \<Rightarrow> s
      | Some n \<Rightarrow> s\<lparr>as_views := (as_views s)[n := (as_views s ! n)\<lparr>ai_loadedValue := v, ai_loadedIcon := i\<rparr>]\<rparr>)"
    by (simp only: looked_up_def Pair m_def Let_def prod.case)
  ultimately show ?thesis using p m vs
    by (cases who) (simp_all add: async_data_def Let_def)
qed

lemma run_callback_ok:
  assumes ok: "async_ok lookup s"
  shows "async_ok lookup (run_callback lookup s)"
proof (cases "as_callbacks s = [] \<or> \<not> settled (brandIconLookupPromise s)")
  case True
  then show ?thesis using ok by (auto simp: run_callback_def split: list.split)
next
  case False
  then obtain c cs where cs: "as_callbacks s = c # cs" and p: "settled (brandIconLookupPromise s)" by (auto simp: neq_Nil_conv)
  define u where "u = s\<lparr>as_callbacks := cs\<rparr>"
  define w where "w = looked_up lookup (brandIconLookupPromise u = Lookup_ready) u c"
  have d: "async_data lookup u" using ok by (simp add: u_def async_ok_def async_data_def)
  then have "async_data lookup w" unfolding w_def by (rule looked_up_data) (use p in \<open>simp_all add: u_def\<close>)
  moreover have k: "known w = known s" by (auto simp: w_def known_def looked_up_frame u_def cs)
  moreover have "map face (as_views w) = map face (as_views s)" by (simp add: w_def looked_up_faces, simp add: u_def)
  ultimately have "async_ok lookup w"
    using ok covered_faces [of "as_views w" "as_views s"] by (simp add: async_ok_def covered_cong [OF k])
  then show ?thesis using p by (simp add: run_callback_def cs w_def u_def)
qed

lemma cancel_effect_frame:
  "as_views (cancel_effect n s) = as_views s" "brandIconCache (cancel_effect n s) = brandIconCache s"
  "brandIconLookupPromise (cancel_effect n s) = brandIconLookupPromise s" "known (cancel_effect n s) = known s"
  by (simp_all add: cancel_effect_def known_def image_comp comp_def case_prod_beta)

lemma start_lookup:
  "async_data lookup s \<Longrightarrow> async_data lookup (loadBrandIconLookup s)" "known (loadBrandIconLookup s) = known s"
  "as_views (loadBrandIconLookup s) = as_views s" "brandIconLookupPromise (loadBrandIconLookup s) \<noteq> Lookup_none"
  by (auto simp: loadBrandIconLookup_def async_data_def known_def settled_def answer_of_def)

definition covered_but :: "nat \<Rightarrow> 'i AsyncIcons \<Rightarrow> bool" where
  "covered_but n s \<longleftrightarrow> (\<forall>i < length (as_views s). i \<noteq> n \<longrightarrow> covered s (as_views s ! i))"

lemma covered_all:
  fixes s s' :: "'i AsyncIcons"
  assumes "covered_but n s" and k: "known s \<subseteq> known s'" and f: "map face (as_views s') = map face (as_views s)"
    and "ai_mounted (as_views s ! n) \<and> isAsyncBrandIconValue (normalizedValue (as_views s ! n)) \<longrightarrow>
      normalizedValue (as_views s ! n) \<in> known s'"
  shows "list_all (covered s') (as_views s')"
proof -
  have "covered s' (as_views s ! i)" if "i < length (as_views s)" for i
    using assms(1, 4) covered_grows [OF _ k] that by (cases "i = n") (auto simp: covered_but_def covered_def)
  then have "list_all (covered s') (as_views s)" by (simp add: list_all_length)
  then show ?thesis using covered_faces [OF f] by simp
qed

lemma icon_effect_ok:
  assumes d: "async_data lookup s" and c: "covered_but n s"
  shows "async_ok lookup (icon_effect n s)"
proof -
  define v where "v = normalizedValue (as_views s ! n)"
  define u where "u = loadBrandIconLookup s"
  have cu: "covered_but n u" using c by (simp add: u_def covered_but_def covered_cong [OF start_lookup(2)] start_lookup(3))
  note du = start_lookup(1) [OF d, folded u_def] and ku = start_lookup(2) [of s, folded u_def]
    and vu = start_lookup(3) [of s, folded u_def]
  show ?thesis
  proof (cases "isAsyncBrandIconValue v \<and> brandIconCache s v = None")
    case False
    then have "isAsyncBrandIconValue v \<longrightarrow> v \<in> known s" by (auto simp: known_def)
    then have "list_all (covered s) (as_views s)" by (intro covered_all [OF c]) (simp_all add: v_def)
    then show ?thesis using False d by (simp add: icon_effect_def v_def [symmetric] async_ok_def Let_def)
  next
    case True
    define w where "w = u\<lparr>as_callbacks := as_callbacks u @ [(Some n, v)]\<rparr>"
    have k: "known w = insert v (known u)" by (simp add: w_def known_def)
    have "list_all (covered w) (as_views w)"
      by (rule covered_all [OF cu]) (auto simp: k v_def vu, simp add: w_def vu)
    moreover have "async_data lookup w" using du by (simp add: w_def async_data_def)
    ultimately show ?thesis using True by (simp add: icon_effect_def v_def [symmetric] u_def [symmetric] w_def async_ok_def Let_def)
  qed
qed

lemma mounted_update: "async_data lookup s \<Longrightarrow> ai_loadedIcon u = ai_loadedIcon (as_views s ! n) \<Longrightarrow>
    ai_loadedValue u = ai_loadedValue (as_views s ! n) \<Longrightarrow> n < length (as_views s) \<Longrightarrow>
    async_data lookup (s\<lparr>as_views := (as_views s)[n := u]\<rparr>)"
  by (auto simp: async_data_def list_all_length nth_list_update)

lemma cancelled_data: "async_data lookup (cancel_effect n s) = async_data lookup s"
  by (simp add: async_data_def cancel_effect_frame)

lemma async_step_ok: "async_ok lookup s \<Longrightarrow> async_ok lookup (async_step lookup s e)"
proof (cases e)
  case (Mount_async v)
  assume ok: "async_ok lookup s"
  let ?s = "s\<lparr>as_views := as_views s @ [\<lparr>ai_value = v, ai_loadedValue = [], ai_loadedIcon = None, ai_mounted = True\<rparr>]\<rparr>"
  have k: "known ?s = known s" by (simp add: known_def)
  then have "covered_but (length (as_views s)) ?s"
    using ok by (auto simp: covered_but_def async_ok_def covered_cong [OF k] list_all_length nth_append less_Suc_eq)
  moreover have "async_data lookup ?s" using ok by (simp add: async_ok_def async_data_def)
  ultimately show ?thesis using Mount_async by (simp add: icon_effect_ok)
next
  case (Change_async n v)
  assume ok: "async_ok lookup s"
  define s' where "s' = s\<lparr>as_views := (as_views s)[n := (as_views s ! n)\<lparr>ai_value := v\<rparr>]\<rparr>"
  show ?thesis
  proof (cases "mounted_view n s")
    case True
    then have n: "n < length (as_views s)" by (simp add: mounted_view_def)
    have d: "async_data lookup s'" unfolding s'_def by (rule mounted_update) (use ok n in \<open>simp_all add: async_ok_def\<close>)
    have k: "known s' = known s" by (simp add: s'_def known_def)
    have c: "covered s' (as_views s' ! i)" if "i < length (as_views s)" "i \<noteq> n" for i
      using ok that unfolding covered_cong [OF k] async_ok_def list_all_length by (simp add: s'_def)
    have "async_ok lookup s'" if "trim v = normalizedValue (as_views s ! n)"
      unfolding async_ok_def list_all_length
    proof (intro conjI allI impI)
      fix i assume i: "i < length (as_views s')"
      show "covered s' (as_views s' ! i)"
        using c [of i] i n ok that unfolding covered_cong [OF k]
        by (cases "i = n") (auto simp: covered_def async_ok_def list_all_length s'_def normalizedValue_def)
    qed (rule d)
    moreover have "async_ok lookup (icon_effect n (cancel_effect n s'))"
      using c d by (intro icon_effect_ok)
        (simp_all add: cancelled_data covered_but_def cancel_effect_frame covered_cong [OF cancel_effect_frame(4)], simp add: s'_def)
    ultimately show ?thesis using Change_async True by (simp add: s'_def [symmetric] Let_def)
  qed (use ok Change_async in simp)
next
  case (Unmount_async n)
  assume ok: "async_ok lookup s"
  define s' where "s' = s\<lparr>as_views := (as_views s)[n := (as_views s ! n)\<lparr>ai_mounted := False\<rparr>]\<rparr>"
  show ?thesis
  proof (cases "mounted_view n s")
    case True
    then have n: "n < length (as_views s)" by (simp add: mounted_view_def)
    have k: "known s' = known s" by (simp add: s'_def known_def)
    have "async_data lookup s'" unfolding s'_def by (rule mounted_update) (use ok n in \<open>simp_all add: async_ok_def\<close>)
    moreover have "list_all (covered s') (as_views s')"
      using ok unfolding covered_cong [OF k] by (simp add: async_ok_def s'_def list_all_update covered_def)
    ultimately show ?thesis using Unmount_async True
      by (simp add: s'_def [symmetric] async_ok_def cancelled_data cancel_effect_frame covered_cong [OF cancel_effect_frame(4)])
  qed (use ok Unmount_async in simp)
next
  case (Lookup_settled ready)
  assume ok: "async_ok lookup s"
  show ?thesis
  proof (cases "brandIconLookupPromise s = Lookup_loading")
    case True
    define w where "w = s\<lparr>brandIconLookupPromise := (if ready then Lookup_ready else Lookup_failed)\<rparr>"
    have "brandIconCache s = Map.empty" using ok True by (simp add: async_ok_def async_data_def settled_def)
    then have "async_data lookup w" using ok by (simp add: async_ok_def async_data_def settled_def w_def)
    moreover have k: "known w = known s" and "as_views w = as_views s" by (simp_all add: known_def w_def)
    ultimately have "async_ok lookup w" using ok by (simp add: async_ok_def covered_cong [OF k])
    then show ?thesis using Lookup_settled True by (simp add: w_def)
  qed (use ok Lookup_settled in simp)
qed (simp add: run_callback_ok)

interpretation async_icons: event_machine "async_step lookup" "async_ok lookup" for lookup
  by unfold_locales (rule async_step_ok)

lemma no_async_icons_ok: "async_ok lookup no_async_icons"
  by (simp add: async_ok_def async_data_def no_async_icons_def)

text \<open>C15: what a view shows is decided by the promise and the value it has now, whatever was mounted, changed or left
  before: when the lookup is there it is the icon that the lookup finds for the trimmed value, at the latest when all
  callbacks have run, and until then, as before the lookup is there and when it could not be loaded, the fallback; an
  icon of a value that the view had before is never shown, also not while its own callback still waits.\<close>

theorem icon_shown_is_looked_up:
  "let s = foldl (async_step lookup) no_async_icons es in
     list_all (\<lambda>v. let value = trim (ai_value v) in
         AsyncBrandIcon s v =
         (if brandIconLookupPromise s = Lookup_ready \<and> isAsyncBrandIconValue value
             \<and> (as_callbacks s = [] \<or> value \<in> dom (brandIconCache s)) then lookup value else None))
       (filter ai_mounted (as_views s))"
proof -
  define s where "s = foldl (async_step lookup) no_async_icons es"
  have ok: "async_ok lookup s" unfolding s_def by (rule async_icons.run_inv [OF no_async_icons_ok])
  have "AsyncBrandIcon s v = (if brandIconLookupPromise s = Lookup_ready \<and> isAsyncBrandIconValue (normalizedValue v)
      \<and> (as_callbacks s = [] \<or> normalizedValue v \<in> dom (brandIconCache s)) then lookup (normalizedValue v) else None)"
    if "v \<in> set (as_views s)" "ai_mounted v" for v
  proof -
    have c: "brandIconCache s x \<in> {None, Some (answer_of lookup (brandIconLookupPromise s) x)}" for x
      using ok by (simp add: async_ok_def async_data_def)
    have l: "ai_loadedIcon v = None \<or> brandIconCache s (ai_loadedValue v) = Some (ai_loadedIcon v)"
      and k: "isAsyncBrandIconValue (normalizedValue v) \<longrightarrow> normalizedValue v \<in> known s"
      using ok that by (auto simp: async_ok_def async_data_def list_all_iff covered_def)
    show ?thesis
    proof (cases "brandIconCache s (normalizedValue v)")
      case None
      then have "\<not> (isAsyncBrandIconValue (normalizedValue v) \<and> as_callbacks s = [])" using k by (auto simp: known_def)
      moreover have "AsyncBrandIcon s v = None" using None l by (auto simp: AsyncBrandIcon_def)
      ultimately show ?thesis using None by auto
    next
      case (Some i)
      then show ?thesis using c [of "normalizedValue v"] by (auto simp: AsyncBrandIcon_def answer_of_def)
    qed
  qed
  then show ?thesis unfolding s_def [symmetric] normalizedValue_def Let_def by (auto simp: list_all_iff)
qed

text \<open>The guard on the value matters while a callback waits: the view below has the icon of its old value in its state.\<close>

lemma old_icon_is_kept_but_not_shown:
  "let s = foldl (async_step Some) no_async_icons
     [Mount_async ''lg:netflix'', Lookup_settled True, Callback_runs, Change_async 0 ''lg:spotify'']; v = as_views s ! 0 in
     ai_loadedIcon v = Some ''lg:netflix'' \<and> AsyncBrandIcon s v = None \<and> AsyncBrandIcon (async_step Some s Callback_runs)
       (as_views (async_step Some s Callback_runs) ! 0) = Some ''lg:spotify''"
  by code_simp

text \<open>When the module could not be loaded, no view asks for it again: every brand icon stays the fallback until the page
  is loaded anew.\<close>

lemma failed_lookup_is_final:
  "brandIconLookupPromise s = Lookup_failed \<Longrightarrow> brandIconLookupPromise (foldl (async_step lookup) s es) = Lookup_failed"
proof (induction es arbitrary: s)
  case (Cons e es)
  then have "brandIconLookupPromise (async_step lookup s e) = Lookup_failed"
    by (cases e) (auto simp: icon_effect_def loadBrandIconLookup_def run_callback_def looked_up_frame cancel_effect_frame Let_def
        split: list.split)
  then show ?case using Cons.IH by simp
qed simp

end
