(* ===== verification/IconPicker.thy ===== *)
theory IconPicker
  imports BrandIcons ZipEncryption Reorder
begin

text \<open>
  \<open>features/subscriptions/icon-picker.tsx\<close>: an icon is an emoji, a brand icon, an image with an address, or an
  uploaded file.  The value belongs to the form around the picker, which learns of a choice by \<open>onChange\<close> and
  \<open>onFileSelected\<close>; both calls are recorded.  \<open>new_URL\<close> parses an address, \<open>base_URL\<close> one relative to the
  site, \<open>encode\<close> is as in \<open>Links\<close>, and the emojis are the table of \<open>lib/emoji-data.ts\<close>.
\<close>

subsection \<open>Values and addresses\<close>

datatype icon_preview = No_preview | Brand_preview string | Image_preview string | Text_preview string

definition renderPreview :: "(string \<Rightarrow> URL option) \<Rightarrow> string \<Rightarrow> icon_preview" where
  "renderPreview base_URL v =
     (if v = [] then No_preview
      else if isAsyncBrandIconValue v then Brand_preview v
      else if isRenderableImageURL base_URL v then Image_preview v
      else if startsWith v ''file:'' \<and> drop 5 v \<noteq> [] \<and> CHR ''/'' \<notin> set (drop 5 v) \<and> CHR 0x5C \<notin> set (drop 5 v)
      then Image_preview (''/uploads/icons/'' @ drop 5 v)
      else if CHR '':'' \<in> set v then No_preview
      else Text_preview v)"

definition isNonEmojiValue :: "string \<Rightarrow> bool" where
  "isNonEmojiValue v \<longleftrightarrow> startsWith v ''http://'' \<or> startsWith v ''https://'' \<or> startsWith v ''/api/icon-proxy/''
     \<or> startsWith v ''file:'' \<or> isAsyncBrandIconValue v"

definition suggestionServiceDomains :: "string list" where
  "suggestionServiceDomains = [''google.com'', ''www.google.com'', ''icon.horse'']"

definition is_letter :: "char \<Rightarrow> bool" where
  "is_letter c \<longleftrightarrow> 97 \<le> code (low_char c) \<and> code (low_char c) \<le> 122"

definition domain_part :: "string \<Rightarrow> bool" where
  "domain_part part \<longleftrightarrow> 0 < length part \<and> length part \<le> 63 \<and> list_all (\<lambda>c. is_letter c \<or> is_digit c \<or> c = CHR ''-'') part
     \<and> \<not> startsWith part ''-'' \<and> \<not> endsWith part ''-''"

definition isValidDomain :: "string \<Rightarrow> bool" where
  "isValidDomain hostname \<longleftrightarrow>
     \<not> (hostname = [] \<or> 253 < length hostname \<or> CHR ''.'' \<notin> set hostname) \<and> list_all domain_part (split_on (CHR ''.'') hostname)"

text \<open>The pattern for a scheme, a letter and then letters, digits and some marks up to \<open>://\<close>.\<close>

definition scheme_char :: "char \<Rightarrow> bool" where
  "scheme_char c \<longleftrightarrow> is_letter c \<or> is_digit c \<or> c \<in> {CHR ''+'', CHR ''.'', CHR ''-''}"

definition has_scheme :: "string \<Rightarrow> bool" where
  "has_scheme s \<longleftrightarrow> s \<noteq> [] \<and> is_letter (hd s) \<and> startsWith (dropWhile scheme_char s) ''://''"

definition extractDomain :: "(string \<Rightarrow> URL option) \<Rightarrow> string \<Rightarrow> string option" where
  "extractDomain new_URL input =
     (let trimmed = trim input in
      if trimmed = [] \<or> CHR '' '' \<in> set trimmed then None
      else case new_URL (if has_scheme trimmed then trimmed else ''https://'' @ trimmed) of
        None \<Rightarrow> None
      | Some url \<Rightarrow>
          let lower = toLowerCase (url_hostname url);
              hostname = (if endsWith lower ''.'' then butlast lower else lower)
          in if isValidDomain hostname then Some hostname else None)"

subsection \<open>Files\<close>

datatype UploadedImageFormat = Png | Jpg | Ico

definition allowedMimeByFormat :: "UploadedImageFormat \<Rightarrow> string list" where
  "allowedMimeByFormat f =
     (case f of
        Png \<Rightarrow> [''image/png'']
      | Jpg \<Rightarrow> [''image/jpeg'', ''image/jpg'', ''image/pjpeg'']
      | Ico \<Rightarrow> [''image/x-icon'', ''image/vnd.microsoft.icon''])"

text \<open>From the last dot on; no dot gives the empty text.\<close>

definition getFileExtension :: "string \<Rightarrow> string" where
  "getFileExtension name =
     (if CHR ''.'' \<notin> set name then []
      else toLowerCase (CHR ''.'' # rev (takeWhile (\<lambda>c. c \<noteq> CHR ''.'') (rev name))))"

definition detectFileFormat :: "bytes \<Rightarrow> UploadedImageFormat option" where
  "detectFileFormat h =
     (if take 8 h = [0x89, 0x50, 0x4E, 0x47, 0x0D, 0x0A, 0x1A, 0x0A] then Some Png
      else if take 3 h = [0xFF, 0xD8, 0xFF] then Some Jpg
      else if take 4 h = [0x00, 0x00, 0x01, 0x00] then Some Ico
      else None)"

definition extensionMatchesFormat :: "string \<Rightarrow> UploadedImageFormat \<Rightarrow> bool" where
  "extensionMatchesFormat extension f =
     (case f of
        Png \<Rightarrow> extension = ''.png''
      | Jpg \<Rightarrow> extension = ''.jpg'' \<or> extension = ''.jpeg''
      | Ico \<Rightarrow> extension = ''.ico'')"

record IconFile =
  if_name :: string
  if_size :: nat
  if_type :: string
  if_content :: bytes

subsection \<open>The picker\<close>

datatype picker_tab = Emoji_tab | Brand_tab | Image_tab

datatype file_error = Invalid_type | File_too_large rat

record PickerProps =
  pp_maxFileSizeKB :: rat
  pp_allowImageUrl :: bool
  pp_emojis :: "string list list"

text \<open>The object URL of a preview stands for its file.  \<open>ip_headers\<close> are the files whose first bytes are being read,
  \<open>ip_loads\<close> the requests for the catalogue with whether their effect was cleaned up, \<open>ip_changes\<close> and
  \<open>ip_selected\<close> the calls of the form.\<close>

record PickerState =
  ip_value :: string
  ip_open :: bool
  pickerTab :: picker_tab
  brandSearch :: string
  brandIcons :: "BrandIcon list option"
  emojiCategory :: nat
  imageUrl :: string
  filePreview :: "IconFile option"
  fileError :: "file_error option"
  ip_headers :: "IconFile list"
  ip_loads :: "bool list"
  ip_changes :: "string list"
  ip_selected :: "IconFile list"

definition mount_picker :: "string \<Rightarrow> PickerState" where
  "mount_picker v =
     \<lparr>ip_value = v, ip_open = False, pickerTab = Emoji_tab, brandSearch = [], brandIcons = None, emojiCategory = 0, imageUrl = [],
      filePreview = None, fileError = None, ip_headers = [], ip_loads = [], ip_changes = [], ip_selected = []\<rparr>"

definition icon_matches :: "string \<Rightarrow> BrandIcon \<Rightarrow> bool" where
  "icon_matches term icon \<longleftrightarrow> js_includes (toLowerCase (br_title icon)) term \<or> js_includes (br_slug icon) term
     \<or> list_ex (\<lambda>keyword. js_includes (toLowerCase keyword) term) (br_keywords icon)"

definition filteredIcons :: "PickerState \<Rightarrow> BrandIcon list" where
  "filteredIcons s =
     (case brandIcons s of
        None \<Rightarrow> []
      | Some icons \<Rightarrow>
          if trim (brandSearch s) = [] then icons else filter (icon_matches (toLowerCase (brandSearch s))) icons)"

text \<open>The effect on the catalogue, the tab and whether the picker is open; its cleanup cancels the request before.\<close>

definition catalog_effect :: "PickerState \<Rightarrow> PickerState \<Rightarrow> PickerState" where
  "catalog_effect before s =
     (if brandIcons s = brandIcons before \<and> ip_open s = ip_open before \<and> pickerTab s = pickerTab before then s
      else let s = s\<lparr>ip_loads := map (\<lambda>cancelled. True) (ip_loads s)\<rparr> in
        if \<not> ip_open s \<or> pickerTab s \<noteq> Brand_tab \<or> brandIcons s \<noteq> None then s
        else s\<lparr>ip_loads := ip_loads s @ [False]\<rparr>)"

definition catalog_answered :: "nat \<Rightarrow> bool \<Rightarrow> PickerState \<Rightarrow> PickerState" where
  "catalog_answered n loaded s =
     (if n < length (ip_loads s)
      then let s' = s\<lparr>ip_loads := without n (ip_loads s)\<rparr> in
        if ip_loads s ! n then s' else s'\<lparr>brandIcons := Some (if loaded then loadBrandIconsCatalog else [])\<rparr>
      else s)"

definition imageDomain :: "(string \<Rightarrow> URL option) \<Rightarrow> PickerState \<Rightarrow> string option" where
  "imageDomain new_URL s =
     (case extractDomain new_URL (imageUrl s) of
        None \<Rightarrow> None
      | Some domain \<Rightarrow> if domain \<in> set suggestionServiceDomains then None else Some domain)"

definition imageUrlSuggestions :: "(string \<Rightarrow> URL option) \<Rightarrow> (string \<Rightarrow> string \<Rightarrow> string) \<Rightarrow> PickerState \<Rightarrow> string list" where
  "imageUrlSuggestions new_URL encode s =
     (case imageDomain new_URL s of
        None \<Rightarrow> []
      | Some domain \<Rightarrow> [buildIconProxySuggestionURL encode Google domain, buildIconProxySuggestionURL encode Icon_horse domain])"

definition onChange :: "string \<Rightarrow> PickerState \<Rightarrow> PickerState" where
  "onChange v s = s\<lparr>ip_changes := ip_changes s @ [v]\<rparr>"

definition validateAndSelectFile :: "PickerProps \<Rightarrow> IconFile option \<Rightarrow> PickerState \<Rightarrow> PickerState" where
  "validateAndSelectFile props file s =
     (case file of
        None \<Rightarrow> s
      | Some file \<Rightarrow>
          let s = s\<lparr>fileError := None\<rparr> in
          if getFileExtension (if_name file) = [] then s\<lparr>fileError := Some Invalid_type\<rparr>
          else if pp_maxFileSizeKB props * 1024 < of_nat (if_size file)
          then s\<lparr>fileError := Some (File_too_large (pp_maxFileSizeKB props))\<rparr>
          else s\<lparr>ip_headers := ip_headers s @ [file]\<rparr>)"

definition header_read :: "IconFile \<Rightarrow> PickerState \<Rightarrow> PickerState" where
  "header_read file s =
     (case detectFileFormat (take 16 (if_content file)) of
        None \<Rightarrow> s\<lparr>fileError := Some Invalid_type\<rparr>
      | Some detectedFormat \<Rightarrow>
          if \<not> extensionMatchesFormat (getFileExtension (if_name file)) detectedFormat then s\<lparr>fileError := Some Invalid_type\<rparr>
          else if if_type file \<noteq> [] \<and> if_type file \<notin> set (allowedMimeByFormat detectedFormat)
          then s\<lparr>fileError := Some Invalid_type\<rparr>
          else s\<lparr>filePreview := Some file, ip_selected := ip_selected s @ [file]\<rparr>)"

definition applyImageUrl :: "string \<Rightarrow> PickerState \<Rightarrow> PickerState" where
  "applyImageUrl url s = (onChange url (s\<lparr>imageUrl := url, filePreview := None, fileError := None\<rparr>))\<lparr>ip_open := False\<rparr>"

definition handleRemoveFile :: "PickerState \<Rightarrow> PickerState" where
  "handleRemoveFile s = onChange [] (s\<lparr>filePreview := None, fileError := None\<rparr>)"

definition handleImageUrlSubmit :: "(string \<Rightarrow> URL option) \<Rightarrow> PickerState \<Rightarrow> PickerState" where
  "handleImageUrlSubmit base_URL s =
     (if isRenderableImageURL base_URL (trim (imageUrl s)) then applyImageUrl (trim (imageUrl s)) s else s)"

definition handleOpenChange :: "(string \<Rightarrow> URL option) \<Rightarrow> PickerProps \<Rightarrow> bool \<Rightarrow> PickerState \<Rightarrow> PickerState" where
  "handleOpenChange base_URL props nextOpen s =
     (let s = s\<lparr>ip_open := nextOpen\<rparr> in
      if \<not> nextOpen \<or> \<not> pp_allowImageUrl props then s
      else s\<lparr>imageUrl := (if isRenderableImageURL base_URL (ip_value s) then ip_value s else [])\<rparr>)"

definition currentEmojis :: "PickerProps \<Rightarrow> PickerState \<Rightarrow> string list" where
  "currentEmojis props s = (if emojiCategory s < length (pp_emojis props) then pp_emojis props ! emojiCategory s else [])"

definition emojiValue :: "PickerState \<Rightarrow> string" where
  "emojiValue s = (if isNonEmojiValue (ip_value s) then [] else ip_value s)"

text \<open>What the button of the picker shows.\<close>

datatype picker_button = File_preview IconFile | Value_preview icon_preview

definition picker_trigger :: "(string \<Rightarrow> URL option) \<Rightarrow> PickerState \<Rightarrow> picker_button" where
  "picker_trigger base_URL s =
     (case filePreview s of Some file \<Rightarrow> File_preview file | None \<Rightarrow> Value_preview (renderPreview base_URL (ip_value s)))"

datatype picker_event =
    Value_prop string
  | Open_change bool
  | Pick_tab picker_tab
  | Choose_category nat
  | Emoji_button nat
  | Clear_emoji
  | Search_typed string
  | Brand_button nat
  | Url_typed string
  | Url_blur
  | Url_enter
  | Suggestion_button nat
  | File_chosen "IconFile option"
  | Header_read nat
  | Remove_file
  | Catalog_answered nat bool

text \<open>The controls of a tab exist while the picker is open at that tab, those for an address only where one is allowed,
  the file input only while no preview is shown, and the cross behind an emoji only when one is chosen.\<close>

definition in_tab :: "picker_tab \<Rightarrow> PickerState \<Rightarrow> bool" where
  "in_tab tab s \<longleftrightarrow> ip_open s \<and> pickerTab s = tab"

definition url_input :: "PickerProps \<Rightarrow> PickerState \<Rightarrow> bool" where
  "url_input props s \<longleftrightarrow> in_tab Image_tab s \<and> pp_allowImageUrl props"

definition close_after :: "string \<Rightarrow> PickerState \<Rightarrow> PickerState" where
  "close_after v s = (onChange v s)\<lparr>ip_open := False\<rparr>"

fun picker_handle ::
  "(string \<Rightarrow> URL option) \<Rightarrow> (string \<Rightarrow> URL option) \<Rightarrow> (string \<Rightarrow> string \<Rightarrow> string) \<Rightarrow> PickerProps \<Rightarrow> PickerState \<Rightarrow> picker_event \<Rightarrow> PickerState" where
  "picker_handle base_URL new_URL encode props s (Value_prop v) = s\<lparr>ip_value := v\<rparr>"
| "picker_handle base_URL new_URL encode props s (Open_change v) = handleOpenChange base_URL props v s"
| "picker_handle base_URL new_URL encode props s (Pick_tab tab) = (if ip_open s then s\<lparr>pickerTab := tab\<rparr> else s)"
| "picker_handle base_URL new_URL encode props s (Choose_category n) =
     (if in_tab Emoji_tab s \<and> n < length (pp_emojis props) then s\<lparr>emojiCategory := n\<rparr> else s)"
| "picker_handle base_URL new_URL encode props s (Emoji_button n) =
     (if in_tab Emoji_tab s \<and> n < length (currentEmojis props s) then close_after (currentEmojis props s ! n) s else s)"
| "picker_handle base_URL new_URL encode props s Clear_emoji =
     (if in_tab Emoji_tab s \<and> emojiValue s \<noteq> [] then onChange [] s else s)"
| "picker_handle base_URL new_URL encode props s (Search_typed v) = (if in_tab Brand_tab s then s\<lparr>brandSearch := v\<rparr> else s)"
| "picker_handle base_URL new_URL encode props s (Brand_button n) =
     (if in_tab Brand_tab s \<and> n < length (filteredIcons s) then close_after (br_value (filteredIcons s ! n)) s else s)"
| "picker_handle base_URL new_URL encode props s (Url_typed v) = (if url_input props s then s\<lparr>imageUrl := v\<rparr> else s)"
| "picker_handle base_URL new_URL encode props s Url_blur = (if url_input props s then handleImageUrlSubmit base_URL s else s)"
| "picker_handle base_URL new_URL encode props s Url_enter = (if url_input props s then handleImageUrlSubmit base_URL s else s)"
| "picker_handle base_URL new_URL encode props s (Suggestion_button n) =
     (if url_input props s \<and> n < length (imageUrlSuggestions new_URL encode s)
      then applyImageUrl (imageUrlSuggestions new_URL encode s ! n) s else s)"
| "picker_handle base_URL new_URL encode props s (File_chosen file) =
     (if in_tab Image_tab s \<and> filePreview s = None then validateAndSelectFile props file s else s)"
| "picker_handle base_URL new_URL encode props s (Header_read n) =
     (if n < length (ip_headers s) then header_read (ip_headers s ! n) (s\<lparr>ip_headers := without n (ip_headers s)\<rparr>) else s)"
| "picker_handle base_URL new_URL encode props s Remove_file =
     (if in_tab Image_tab s \<and> filePreview s \<noteq> None then handleRemoveFile s else s)"
| "picker_handle base_URL new_URL encode props s (Catalog_answered n loaded) = catalog_answered n loaded s"

definition picker_step ::
  "(string \<Rightarrow> URL option) \<Rightarrow> (string \<Rightarrow> URL option) \<Rightarrow> (string \<Rightarrow> string \<Rightarrow> string) \<Rightarrow> PickerProps \<Rightarrow> PickerState \<Rightarrow> picker_event \<Rightarrow> PickerState" where
  "picker_step base_URL new_URL encode props s e = catalog_effect s (picker_handle base_URL new_URL encode props s e)"

subsection \<open>What can be chosen\<close>

definition suggested :: "(string \<Rightarrow> string \<Rightarrow> string) \<Rightarrow> string \<Rightarrow> bool" where
  "suggested encode v \<longleftrightarrow> (\<exists>d. isValidDomain d \<and> d \<notin> set suggestionServiceDomains
     \<and> v \<in> {buildIconProxySuggestionURL encode Google d, buildIconProxySuggestionURL encode Icon_horse d})"

definition choice_ok :: "(string \<Rightarrow> URL option) \<Rightarrow> (string \<Rightarrow> string \<Rightarrow> string) \<Rightarrow> PickerProps \<Rightarrow> string \<Rightarrow> bool" where
  "choice_ok base_URL encode props v \<longleftrightarrow> v = [] \<or> v \<in> set (concat (pp_emojis props)) \<or> getBrandIconFromValue v \<noteq> None
     \<or> isRenderableImageURL base_URL v \<or> suggested encode v"

definition size_ok :: "PickerProps \<Rightarrow> IconFile \<Rightarrow> bool" where
  "size_ok props file \<longleftrightarrow> of_nat (if_size file) \<le> pp_maxFileSizeKB props * 1024"

definition file_ok :: "PickerProps \<Rightarrow> IconFile \<Rightarrow> bool" where
  "file_ok props file \<longleftrightarrow> size_ok props file \<and>
     (case detectFileFormat (take 16 (if_content file)) of
        None \<Rightarrow> False
      | Some f \<Rightarrow> extensionMatchesFormat (getFileExtension (if_name file)) f \<and> (if_type file = [] \<or> if_type file \<in> set (allowedMimeByFormat f)))"

definition picker_ok :: "(string \<Rightarrow> URL option) \<Rightarrow> (string \<Rightarrow> string \<Rightarrow> string) \<Rightarrow> PickerProps \<Rightarrow> PickerState \<Rightarrow> bool" where
  "picker_ok base_URL encode props s \<longleftrightarrow>
     brandIcons s \<in> {None, Some [], Some loadBrandIconsCatalog} \<and> list_all (size_ok props) (ip_headers s)
     \<and> list_all (choice_ok base_URL encode props) (ip_changes s) \<and> list_all (file_ok props) (ip_selected s)"

lemma picker_frame:
  "picker_ok base_URL encode props s \<Longrightarrow> brandIcons s' = brandIcons s \<Longrightarrow> ip_headers s' = ip_headers s \<Longrightarrow> ip_changes s' = ip_changes s \<Longrightarrow>
   ip_selected s' = ip_selected s \<Longrightarrow> picker_ok base_URL encode props s'"
  by (simp add: picker_ok_def)

lemma on_change_ok:
  "picker_ok base_URL encode props s \<Longrightarrow> choice_ok base_URL encode props v \<Longrightarrow> picker_ok base_URL encode props (onChange v s)"
  by (simp add: picker_ok_def onChange_def)

lemma apply_url_ok:
  "picker_ok base_URL encode props s \<Longrightarrow> choice_ok base_URL encode props v \<Longrightarrow> picker_ok base_URL encode props (applyImageUrl v s)"
  by (simp add: picker_ok_def applyImageUrl_def onChange_def)

lemma close_after_ok:
  "picker_ok base_URL encode props s \<Longrightarrow> choice_ok base_URL encode props v \<Longrightarrow> picker_ok base_URL encode props (close_after v s)"
  by (simp add: picker_ok_def close_after_def onChange_def)

lemma emoji_choice: "n < length (currentEmojis props s) \<Longrightarrow> choice_ok base_URL encode props (currentEmojis props s ! n)"
  by (auto simp: choice_ok_def currentEmojis_def split: if_splits intro!: bexI nth_mem)

lemma filtered_catalog: "brandIcons s \<in> {None, Some [], Some loadBrandIconsCatalog} \<Longrightarrow> set (filteredIcons s) \<subseteq> set loadBrandIconsCatalog"
  by (auto simp: filteredIcons_def split: option.splits if_splits)

lemma brand_choice:
  assumes "picker_ok base_URL encode props s" and "n < length (filteredIcons s)"
  shows "choice_ok base_URL encode props (br_value (filteredIcons s ! n))"
proof -
  have "filteredIcons s ! n \<in> set loadBrandIconsCatalog"
    using assms nth_mem [OF assms(2)] filtered_catalog [of s] by (auto simp: picker_ok_def)
  then show ?thesis by (auto simp: choice_ok_def loadBrandIconsCatalog_def catalog_found(1))
qed

lemma extracted_domain: "extractDomain new_URL x = Some d \<Longrightarrow> isValidDomain d"
  by (auto simp: extractDomain_def Let_def split: if_splits option.splits)

lemma suggestion_choice:
  assumes "n < length (imageUrlSuggestions new_URL encode s)"
  shows "choice_ok base_URL encode props (imageUrlSuggestions new_URL encode s ! n)"
proof -
  have "imageUrlSuggestions new_URL encode s ! n \<in> set (imageUrlSuggestions new_URL encode s)" using assms by (rule nth_mem)
  then have "suggested encode (imageUrlSuggestions new_URL encode s ! n)"
    unfolding suggested_def imageUrlSuggestions_def imageDomain_def
    by (auto split: option.splits if_splits dest: extracted_domain)
  then show ?thesis by (simp add: choice_ok_def)
qed

lemma submit_ok: "picker_ok base_URL encode props s \<Longrightarrow> picker_ok base_URL encode props (handleImageUrlSubmit base_URL s)"
  by (simp add: handleImageUrlSubmit_def apply_url_ok choice_ok_def)

lemma file_chosen_ok: "picker_ok base_URL encode props s \<Longrightarrow> picker_ok base_URL encode props (validateAndSelectFile props file s)"
  by (auto simp: validateAndSelectFile_def picker_ok_def size_ok_def Let_def split: option.split)

lemma header_read_ok:
  assumes ok: "picker_ok base_URL encode props s" and n: "n < length (ip_headers s)"
  shows "picker_ok base_URL encode props (header_read (ip_headers s ! n) (s\<lparr>ip_headers := without n (ip_headers s)\<rparr>))"
proof -
  have "size_ok props (ip_headers s ! n)" using ok n by (simp add: picker_ok_def list_all_length)
  moreover have "list_all (size_ok props) (without n (ip_headers s))"
    using ok by (auto simp: picker_ok_def list_all_iff without_def dest: in_set_takeD in_set_dropD)
  ultimately show ?thesis using ok
    by (auto simp: header_read_def picker_ok_def file_ok_def split: option.split)
qed

lemma catalog_ok: "picker_ok base_URL encode props s \<Longrightarrow> picker_ok base_URL encode props (catalog_answered n loaded s)"
  by (auto simp: catalog_answered_def picker_ok_def Let_def)

lemma picker_handle_ok:
  assumes ok: "picker_ok base_URL encode props s"
  shows "picker_ok base_URL encode props (picker_handle base_URL new_URL encode props s e)"
proof (cases e)
  case (Brand_button n)
  then show ?thesis using ok by (simp add: close_after_ok brand_choice)
next
  case (Open_change v)
  then show ?thesis using ok by (simp add: handleOpenChange_def Let_def picker_ok_def)
next
  case Remove_file
  then show ?thesis using ok by (simp add: handleRemoveFile_def onChange_def picker_ok_def choice_ok_def)
next
  case Clear_emoji
  then show ?thesis using ok by (simp add: on_change_ok choice_ok_def)
qed (use ok in \<open>simp_all add: close_after_ok emoji_choice apply_url_ok suggestion_choice submit_ok file_chosen_ok header_read_ok catalog_ok
    picker_frame [OF ok]\<close>)

lemma picker_step_ok: "picker_ok base_URL encode props s \<Longrightarrow> picker_ok base_URL encode props (picker_step base_URL new_URL encode props s e)"
proof -
  assume "picker_ok base_URL encode props s"
  then have "picker_ok base_URL encode props (picker_handle base_URL new_URL encode props s e)" by (rule picker_handle_ok)
  then show ?thesis unfolding picker_step_def by (rule picker_frame) (simp_all add: catalog_effect_def Let_def)
qed

interpretation icon_picker: event_machine "picker_step base_URL new_URL encode props" "picker_ok base_URL encode props"
  for base_URL new_URL encode props
  by unfold_locales (rule picker_step_ok)

text \<open>C17: whatever is typed, searched and chosen, the form is given only values that the pages can draw: the empty one, an
  emoji of the table, a brand icon that the lookup finds, an image address, or a suggestion for a valid domain that is
  not one of the services.  Every file it is given is within the size, its first bytes are those of an image format, its
  extension belongs to that format, and its type too unless the browser knows none.\<close>

theorem picked_icons_valid:
  "let s = foldl (picker_step base_URL new_URL encode props) (mount_picker v) es in
     list_all (choice_ok base_URL encode props) (ip_changes s) \<and> list_all (file_ok props) (ip_selected s)"
proof -
  have "picker_ok base_URL encode props (mount_picker v)" by (simp add: picker_ok_def mount_picker_def)
  from icon_picker.run_inv [OF this] show ?thesis by (simp add: picker_ok_def Let_def)
qed

text \<open>After an emoji is chosen in place of a file the button still shows the file: only an address or the cross at the
  file clears its preview.\<close>

lemma file_hides_later_choice:
  assumes "filePreview s = Some file" and "in_tab Emoji_tab s" and "n < length (currentEmojis props s)"
  shows "picker_trigger base_URL (foldl (picker_step base_URL new_URL encode props) s
      [Emoji_button n, Value_prop (currentEmojis props s ! n)]) = File_preview file"
    and "last (ip_changes (foldl (picker_step base_URL new_URL encode props) s
      [Emoji_button n, Value_prop (currentEmojis props s ! n)])) = currentEmojis props s ! n"
  using assms by (simp_all add: picker_step_def catalog_effect_def picker_trigger_def close_after_def onChange_def Let_def)

end
