(* ===== verification/Passkey.thy ===== *)
theory Passkey
  imports Interfaces "HOL-Library.Word"
begin

text \<open>
  Passkeys, \<open>web/src/lib/passkey.ts\<close> and \<open>web/src/lib/passkey-error.ts\<close>: the base64url
  text that the server exchanges, the WebAuthn calls, and the message shown for an error.
  \<open>btoa\<close> and \<open>atob\<close> are the forgiving base64 of the HTML standard; binary strings are the
  bytes of their code units.  The authenticator is a parameter.
\<close>

type_synonym buffer = "8 word list"

subsection \<open>btoa and atob\<close>

definition b64_char :: "nat \<Rightarrow> char" where
  "b64_char n = (if n < 26 then char_of (65 + n) else if n < 52 then char_of (71 + n)
     else if n < 62 then char_of (n - 4) else if n = 62 then CHR ''+'' else CHR ''/'')"

definition b64_val :: "char \<Rightarrow> nat option" where
  "b64_val c = (if 65 \<le> code c \<and> code c \<le> 90 then Some (code c - 65)
     else if 97 \<le> code c \<and> code c \<le> 122 then Some (code c - 71)
     else if 48 \<le> code c \<and> code c \<le> 57 then Some (code c + 4)
     else if c = CHR ''+'' then Some 62 else if c = CHR ''/'' then Some 63 else None)"

fun sextets :: "buffer \<Rightarrow> nat list" where
  "sextets (a # b # c # r) =
     unat a div 4 # (unat a mod 4 * 16 + unat b div 16) # (unat b mod 16 * 4 + unat c div 64) # unat c mod 64 # sextets r"
| "sextets [a, b] = [unat a div 4, unat a mod 4 * 16 + unat b div 16, unat b mod 16 * 4]"
| "sextets [a] = [unat a div 4, unat a mod 4 * 16]"
| "sextets [] = []"

definition pad4 :: "string \<Rightarrow> string" where
  "pad4 s = (if length s mod 4 = 0 then s else s @ replicate (4 - length s mod 4) (CHR ''=''))"

definition btoa :: "buffer \<Rightarrow> string" where
  "btoa bs = pad4 (map b64_char (sextets bs))"

fun octets :: "nat list \<Rightarrow> buffer" where
  "octets (w # x # y # z # r) = word_of_nat (w * 4 + x div 16) # word_of_nat (x mod 16 * 16 + y div 4)
     # word_of_nat (y mod 4 * 64 + z) # octets r"
| "octets [w, x, y] = [word_of_nat (w * 4 + x div 16), word_of_nat (x mod 16 * 16 + y div 4)]"
| "octets [w, x] = [word_of_nat (w * 4 + x div 16)]"
| "octets _ = []"

definition strip_one :: "string \<Rightarrow> string" where
  "strip_one s = (if s \<noteq> [] \<and> last s = CHR ''='' then butlast s else s)"

definition atob :: "string \<Rightarrow> buffer result" where
  "atob s =
     (let s = filter (\<lambda>c. code c \<notin> {9, 10, 12, 13, 32}) s;
          s = (if length s mod 4 = 0 then strip_one (strip_one s) else s)
      in if length s mod 4 = 1 \<or> list_ex (\<lambda>c. b64_val c = None) s then Inl ''InvalidCharacterError''
         else Inr (octets (map (\<lambda>c. the (b64_val c)) s)))"

subsection \<open>base64url\<close>

definition to_url :: "char \<Rightarrow> char" where
  "to_url c = (if c = CHR ''+'' then CHR ''-'' else if c = CHR ''/'' then CHR ''_'' else c)"

definition from_url :: "char \<Rightarrow> char" where
  "from_url c = (if c = CHR ''-'' then CHR ''+'' else if c = CHR ''_'' then CHR ''/'' else c)"

definition normalizeBase64 :: "string \<Rightarrow> string" where
  "normalizeBase64 input =
     (let converted = map from_url input; padding = length converted mod 4
      in if padding = 0 then converted else converted @ replicate (4 - padding) (CHR ''=''))"

definition decodeBase64URL :: "string \<Rightarrow> buffer result" where
  "decodeBase64URL input = atob (normalizeBase64 input)"

definition encodeBase64URL :: "buffer \<Rightarrow> string" where
  "encodeBase64URL value = rev (dropWhile (\<lambda>c. c = CHR ''='') (rev (map to_url (btoa value))))"

subsection \<open>The codec\<close>

lemma less64_cases: "n < 64 \<Longrightarrow> n < 26 \<or> (26 \<le> n \<and> n < 52) \<or> (52 \<le> n \<and> n < 62) \<or> n = 62 \<or> n = (63 :: nat)"
  by linarith

lemma b64_val_char: "n < 64 \<Longrightarrow> b64_val (b64_char n) = Some n"
  by (elim less64_cases [elim_format] disjE conjE) (auto simp: b64_char_def b64_val_def, simp_all add: code_def)

lemma b64_char_safe:
  assumes "n < 64"
  shows "b64_char n \<noteq> CHR ''=''" "b64_char n \<noteq> CHR ''-''" "b64_char n \<noteq> CHR ''_''"
    "code (b64_char n) \<notin> {9, 10, 12, 13, 32}"
proof -
  have v: "b64_val (CHR ''='') = None" "b64_val (CHR ''-'') = None" "b64_val (CHR ''_'') = None"
    "\<And>c. code c \<in> {9, 10, 12, 13, 32} \<Longrightarrow> b64_val c = None"
    by (auto simp: b64_val_def code_def)
  then show "b64_char n \<noteq> CHR ''=''" "b64_char n \<noteq> CHR ''-''" "b64_char n \<noteq> CHR ''_''"
    "code (b64_char n) \<notin> {9, 10, 12, 13, 32}"
    using b64_val_char [OF assms] by (metis option.distinct(1))+
qed

lemma from_to_url: "n < 64 \<Longrightarrow> from_url (to_url (b64_char n)) = b64_char n"
  using b64_char_safe [of n] by (auto simp: from_url_def to_url_def)

lemma unat_less256 [simp]: "unat (a :: 8 word) < 256"
  using unsigned_less [of a] by simp

lemma pack_less: "x mod 4 * 16 + unat (b :: 8 word) div 16 < 64" "x mod 16 * 4 + unat b div 64 < 64"
proof -
  have "x mod 4 < 4" "x mod 16 < 16" "unat b div 16 < 16" "unat b div 64 < 4"
    by (simp_all add: less_mult_imp_div_less)
  then show "x mod 4 * 16 + unat b div 16 < 64" "x mod 16 * 4 + unat b div 64 < 64" by linarith+
qed

lemma pack_less_end: "x mod 4 * 16 < (64 :: nat)" "x mod 16 * 4 < (64 :: nat)" "unat (a :: 8 word) div 4 < 64"
proof -
  have "x mod 4 < 4" "x mod 16 < 16" by simp_all
  then show "x mod 4 * 16 < (64 :: nat)" "x mod 16 * 4 < (64 :: nat)" by linarith+
  show "unat a div 4 < 64" by (simp add: less_mult_imp_div_less)
qed

lemma sextets_less: "list_all (\<lambda>n. n < 64) (sextets bs)"
  by (induction bs rule: sextets.induct) (simp_all add: pack_less pack_less_end)

lemma octets_sextets: "octets (sextets bs) = bs"
proof (induction bs rule: sextets.induct)
  case (1 a b c r)
  have "unat a < 256" "unat b < 256" "unat c < 256" by simp_all
  then have "unat a div 4 * 4 + (unat a mod 4 * 16 + unat b div 16) div 16 = unat a"
    "(unat a mod 4 * 16 + unat b div 16) mod 16 * 16 + (unat b mod 16 * 4 + unat c div 64) div 4 = unat b"
    "(unat b mod 16 * 4 + unat c div 64) mod 4 * 64 + unat c mod 64 = unat c"
    by (simp_all add: less_mult_imp_div_less)
  with 1 show ?case by simp
next
  case (2 a b)
  have "unat a < 256" "unat b < 256" by simp_all
  then have "unat a div 4 * 4 + (unat a mod 4 * 16 + unat b div 16) div 16 = unat a"
    "(unat a mod 4 * 16 + unat b div 16) mod 16 * 16 + unat b mod 16 * 4 div 4 = unat b"
    by (simp_all add: less_mult_imp_div_less)
  then show ?case by simp
next
  case (3 a)
  have "unat a div 4 * 4 + unat a mod 4 * 16 div 16 = unat a" by simp
  then show ?case by simp
qed simp

lemma length_sextets: "length (sextets bs) mod 4 \<noteq> 1"
  by (induction bs rule: sextets.induct) simp_all

lemma drop_padding: "x \<notin> set s \<Longrightarrow> dropWhile (\<lambda>c. c = x) (replicate n x @ rev s) = rev s"
proof (induction n)
  case 0
  then show ?case by (cases s rule: rev_cases) auto
qed simp

lemma encode_body: "encodeBase64URL bs = map to_url (map b64_char (sextets bs))"
proof -
  let ?b = "map b64_char (sextets bs)"
  have ne: "c \<noteq> CHR ''=''" if "c \<in> set (map to_url ?b)" for c
  proof -
    from that obtain n where m: "n \<in> set (sextets bs)" and n2: "c = to_url (b64_char n)" by auto
    from m have n: "n < 64" using sextets_less [of bs] by (simp add: list_all_iff)
    show ?thesis using b64_char_safe(1) [OF n] unfolding n2 to_url_def by auto
  qed
  have "map to_url (btoa bs) = map to_url ?b @ replicate (length (btoa bs) - length ?b) (CHR ''='')"
    by (simp add: btoa_def pad4_def to_url_def)
  moreover have "dropWhile (\<lambda>c. c = CHR ''='') (replicate n (CHR ''='') @ rev (map to_url ?b)) = rev (map to_url ?b)" for n
    by (rule drop_padding) (use ne in blast)
  ultimately show ?thesis by (simp add: encodeBase64URL_def)
qed

lemma strip_one_pad: "strip_one (s @ [CHR ''='']) = s"
  by (simp add: strip_one_def)

lemma strip_one_none: "CHR ''='' \<notin> set s \<Longrightarrow> strip_one s = s"
  using last_in_set by (fastforce simp: strip_one_def)

lemma decode_encode: "decodeBase64URL (encodeBase64URL bs) = Inr bs"
proof -
  let ?b = "map b64_char (sextets bs)"
  have less: "n < 64" if "n \<in> set (sextets bs)" for n using that sextets_less [of bs] by (simp add: list_all_iff)
  have conv: "map from_url (encodeBase64URL bs) = ?b"
    using less from_to_url by (simp add: encode_body)
  have norm: "normalizeBase64 (encodeBase64URL bs) = pad4 ?b"
    using conv by (simp add: normalizeBase64_def pad4_def Let_def)
  have keep: "filter (\<lambda>c. code c \<notin> {9, 10, 12, 13, 32}) (pad4 ?b) = pad4 ?b"
    using less b64_char_safe(4) by (auto simp: pad4_def filter_id_conv code_def)
  have noeq: "CHR ''='' \<notin> set ?b" using less b64_char_safe(1) by fastforce
  have strip: "strip_one (strip_one (pad4 ?b)) = ?b"
  proof -
    have "length ?b mod 4 \<in> {0, 2, 3}"
      using length_sextets [of bs] by auto
    then show ?thesis
      using noeq strip_one_none strip_one_pad [of ?b] strip_one_pad [of "?b @ ''=''"]
      by (auto simp: pad4_def numeral_2_eq_2)
  qed
  have len: "length (pad4 ?b) mod 4 = 0"
  proof -
    have "(n + (4 - n mod 4)) mod 4 = 0" for n :: nat by presburger
    then show ?thesis by (simp add: pad4_def)
  qed
  have vals: "map (\<lambda>c. the (b64_val c)) ?b = sextets bs"
    using less b64_val_char by (simp add: map_idI)
  have ok: "\<not> list_ex (\<lambda>c. b64_val c = None) ?b"
    using less b64_val_char by (auto simp: list_ex_iff)
  show ?thesis
    using length_sextets [of bs] ok vals
    by (simp only: decodeBase64URL_def atob_def norm keep Let_def len strip if_True simp_thms)
      (simp add: octets_sextets)
qed

interpretation base64url: codec encodeBase64URL
  "\<lambda>s. case decodeBase64URL s of Inl e \<Rightarrow> None | Inr b \<Rightarrow> Some b" "\<lambda>_. True"
  by unfold_locales (simp add: decode_encode)

text \<open>base64url is lossless and safe in a URL: every buffer decodes back from its encoding, with
  the padding that \<open>normalizeBase64\<close> restores, and the encoding contains no
  \<open>+\<close>, \<open>/\<close> or \<open>=\<close>.\<close>

theorem base64url_roundtrip:
  "decodeBase64URL (encodeBase64URL bs) = Inr bs
   \<and> set (encodeBase64URL bs) \<inter> {CHR ''+'', CHR ''/'', CHR ''=''} = {}"
proof -
  have "c \<notin> {CHR ''+'', CHR ''/'', CHR ''=''}" if "c \<in> set (encodeBase64URL bs)" for c
  proof -
    from that obtain n where n: "n \<in> set (sextets bs)" and c: "c = to_url (b64_char n)"
      by (auto simp: encode_body)
    have "n < 64" using n sextets_less [of bs] by (simp add: list_all_iff)
    then show ?thesis using b64_char_safe(1) unfolding c by (simp add: to_url_def)
  qed
  then show ?thesis by (auto simp: decode_encode)
qed

subsection \<open>WebAuthn calls\<close>

text \<open>
  The members of the options that the code converts, with text (from the server) or buffers (for the
  authenticator); \<open>'r\<close> stands for the members that it copies.
\<close>

record ('t, 'r) CreationOptions =
  co_challenge :: 't
  co_user_id :: 't
  co_excludeCredentials :: "('t \<times> 'r) list option"
  co_rest :: 'r

record ('t, 'r) RequestOptions =
  ro_challenge :: 't
  ro_allowCredentials :: "('t \<times> 'r) list option"
  ro_mediation :: "string option"
  ro_rest :: 'r

record 't AttestationResponse =
  att_attestationObject :: 't
  att_clientDataJSON :: 't
  att_transports :: "string list option"

record 't AssertionResponse =
  ass_authenticatorData :: 't
  ass_clientDataJSON :: 't
  ass_signature :: 't
  ass_userHandle :: "'t option"

record ('t, 'resp) Credential =
  cr_id :: string
  cr_rawId :: 't
  cr_type :: string
  cr_authenticatorAttachment :: "string option"
  cr_response :: 'resp

datatype ('a) authenticator = Not_a_credential | Other_response | Authenticated 'a

definition result_bind :: "'a result \<Rightarrow> ('a \<Rightarrow> 'b result) \<Rightarrow> 'b result" where
  "result_bind m k = (case m of Inl e \<Rightarrow> Inl e | Inr x \<Rightarrow> k x)"

lemma result_bind_simps [simp]: "result_bind (Inl e) k = Inl e" "result_bind (Inr x) k = k x"
  by (simp_all add: result_bind_def)

fun decode_ids :: "(string \<times> 'r) list \<Rightarrow> (buffer \<times> 'r) list result" where
  "decode_ids [] = Inr []"
| "decode_ids ((i, r) # xs) =
     result_bind (decodeBase64URL i) (\<lambda>b. result_bind (decode_ids xs) (\<lambda>ys. Inr ((b, r) # ys)))"

definition decode_optional :: "(string \<times> 'r) list option \<Rightarrow> (buffer \<times> 'r) list option result" where
  "decode_optional xs = (case xs of None \<Rightarrow> Inr None | Some ys \<Rightarrow> result_bind (decode_ids ys) (\<lambda>zs. Inr (Some zs)))"

definition createPasskeyCredential ::
  "bool \<Rightarrow> ((buffer, 'r) CreationOptions \<Rightarrow> (buffer, buffer AttestationResponse) Credential authenticator result)
   \<Rightarrow> (string, 'r) CreationOptions \<Rightarrow> (string, string AttestationResponse) Credential result" where
  "createPasskeyCredential supported create options =
     (if \<not> supported then Inl ''Passkey is not supported on this device or browser''
      else
        result_bind (decodeBase64URL (co_challenge options)) (\<lambda>challenge.
        result_bind (decodeBase64URL (co_user_id options)) (\<lambda>user.
        result_bind (decode_optional (co_excludeCredentials options)) (\<lambda>exclude.
        result_bind (create \<lparr>co_challenge = challenge, co_user_id = user, co_excludeCredentials = exclude,
            co_rest = co_rest options\<rparr>) (\<lambda>answer.
        case answer of
          Not_a_credential \<Rightarrow> Inl ''Failed to create passkey''
        | Other_response \<Rightarrow> Inl ''Unexpected passkey attestation response''
        | Authenticated c \<Rightarrow>
            Inr \<lparr>cr_id = cr_id c, cr_rawId = encodeBase64URL (cr_rawId c), cr_type = cr_type c,
              cr_authenticatorAttachment = cr_authenticatorAttachment c,
              cr_response = \<lparr>att_attestationObject = encodeBase64URL (att_attestationObject (cr_response c)),
                att_clientDataJSON = encodeBase64URL (att_clientDataJSON (cr_response c)),
                att_transports = att_transports (cr_response c)\<rparr>\<rparr>)))))"

definition getPasskeyCredential ::
  "bool \<Rightarrow> ((buffer, 'r) RequestOptions \<Rightarrow> (buffer, buffer AssertionResponse) Credential authenticator result)
   \<Rightarrow> (string, 'r) RequestOptions \<Rightarrow> (string, string AssertionResponse) Credential result" where
  "getPasskeyCredential supported get options =
     (if \<not> supported then Inl ''Passkey is not supported on this device or browser''
      else
        result_bind (decodeBase64URL (ro_challenge options)) (\<lambda>challenge.
        result_bind (decode_optional (ro_allowCredentials options)) (\<lambda>allow.
        result_bind (get \<lparr>ro_challenge = challenge, ro_allowCredentials = allow, ro_mediation = ro_mediation options,
            ro_rest = ro_rest options\<rparr>) (\<lambda>answer.
        case answer of
          Not_a_credential \<Rightarrow> Inl ''Failed to verify passkey''
        | Other_response \<Rightarrow> Inl ''Unexpected passkey assertion response''
        | Authenticated c \<Rightarrow>
            Inr \<lparr>cr_id = cr_id c, cr_rawId = encodeBase64URL (cr_rawId c), cr_type = cr_type c,
              cr_authenticatorAttachment = cr_authenticatorAttachment c,
              cr_response = \<lparr>ass_authenticatorData = encodeBase64URL (ass_authenticatorData (cr_response c)),
                ass_clientDataJSON = encodeBase64URL (ass_clientDataJSON (cr_response c)),
                ass_signature = encodeBase64URL (ass_signature (cr_response c)),
                ass_userHandle = map_option encodeBase64URL (ass_userHandle (cr_response c))\<rparr>\<rparr>))))"

lemma decode_ids_encoded: "decode_ids (map (\<lambda>(b, r). (encodeBase64URL b, r)) xs) = Inr xs"
  by (induction xs) (auto simp: decode_encode)

text \<open>The authenticator sees the buffers that the server encoded, and the server can decode what the
  authenticator answered.\<close>

lemma assertion_transported:
  assumes "get \<lparr>ro_challenge = ch, ro_allowCredentials = allow, ro_mediation = m, ro_rest = r\<rparr> = Inr (Authenticated c)"
  shows "\<exists>d. getPasskeyCredential True get \<lparr>ro_challenge = encodeBase64URL ch,
      ro_allowCredentials = map_option (map (\<lambda>(b, r). (encodeBase64URL b, r))) allow, ro_mediation = m, ro_rest = r\<rparr> = Inr d
    \<and> decodeBase64URL (cr_rawId d) = Inr (cr_rawId c)
    \<and> decodeBase64URL (ass_signature (cr_response d)) = Inr (ass_signature (cr_response c))"
  using assms
  by (cases allow) (simp_all add: getPasskeyCredential_def decode_optional_def decode_encode decode_ids_encoded)

subsection \<open>passkey-error.ts\<close>

text \<open>What the code can tell of a thrown value: a \<open>DOMException\<close> (which is an \<open>Error\<close>),
  another \<open>Error\<close>, an object with or without a \<open>name\<close> that is a string, or anything else.\<close>

datatype thrown =
    DOM_exception string string
  | Error_object string string
  | Plain_object "string option"
  | Primitive

fun getErrorName :: "thrown \<Rightarrow> string" where
  "getErrorName (DOM_exception name msg) = name"
| "getErrorName (Error_object name msg) = name"
| "getErrorName (Plain_object name) = nullish name []"
| "getErrorName Primitive = []"

fun error_message :: "thrown \<Rightarrow> string option" where
  "error_message (DOM_exception name msg) = Some msg"
| "error_message (Error_object name msg) = Some msg"
| "error_message e = None"

definition getPasskeyErrorKey :: "thrown \<Rightarrow> string option" where
  "getPasskeyErrorKey e =
     (let name = getErrorName e in
      if name = ''NotAllowedError'' then Some ''common.passkeyErrors.notAllowed''
      else if name = ''NotSupportedError'' then Some ''common.passkeyErrors.notSupported''
      else if name = ''InvalidStateError'' then Some ''common.passkeyErrors.invalidState''
      else if name = ''SecurityError'' then Some ''common.passkeyErrors.security''
      else if name = ''AbortError'' then Some ''common.passkeyErrors.aborted''
      else if name = ''NotFoundError'' then Some ''common.passkeyErrors.notFound''
      else case error_message e of
        None \<Rightarrow> None
      | Some m \<Rightarrow>
          let message = toLowerCase m in
          if js_includes message ''timed out or was not allowed'' then Some ''common.passkeyErrors.notAllowed''
          else if js_includes message ''notallowederror'' then Some ''common.passkeyErrors.notAllowed''
          else None)"

definition getPasskeyErrorMessage :: "thrown \<Rightarrow> (string \<Rightarrow> string) \<Rightarrow> string \<Rightarrow> string" where
  "getPasskeyErrorMessage e t fallbackKey =
     (case getPasskeyErrorKey e of
        Some key \<Rightarrow> t key
      | None \<Rightarrow>
          (case error_message e of
             Some m \<Rightarrow> if trim m \<noteq> [] then m else t fallbackKey
           | None \<Rightarrow> t fallbackKey))"

lemma passkey_message_shown:
  "(\<And>key. t key \<noteq> []) \<Longrightarrow> getPasskeyErrorMessage e t fallbackKey \<noteq> []"
  by (auto simp: getPasskeyErrorMessage_def split: option.split)

end
