(* ===== verification/LoginPage.thy ===== *)
theory LoginPage
  imports AuthPages Passkey
begin

text \<open>
  The login page, \<open>web/src/features/auth/login-page.tsx\<close>: password, second factor, passkey and the
  return from an OIDC provider, over the client of \<open>lib/api.ts\<close>.  \<open>lg_credentials\<close> are the passkey
  sign-ins that wait for \<open>getPasskeyCredential\<close>, each with the session id it was begun with; what that
  settles with is an event.  \<open>lg_located\<close> are the addresses assigned to \<open>window.location.href\<close>.  The effects run at
  the mounting: the functions \<open>navigate\<close> and \<open>t\<close> they depend on are taken to stay the same, so a change of the language
  while the page is shown, which would run them again, is not modelled.
\<close>

datatype LoginStep = Credentials_step | Totp_step

datatype login_wait =
    Wait_oidc_config
  | Wait_oidc_session
  | Wait_login
  | Wait_totp
  | Wait_passkey_start
  | Wait_passkey_finish
  | Wait_oidc_start

record LoginState = "login_wait AuthPage" +
  lg_identifier :: string
  lg_password :: string
  lg_loading :: bool
  lg_passkeyLoading :: bool
  lg_oidcLoading :: bool
  lg_oidcSubmitting :: bool
  lg_oidcConfig :: "json option"
  lg_step :: LoginStep
  lg_totpToken :: "json option"
  lg_totpCode :: string
  lg_search :: string
  lg_credentials :: "json option list"
  lg_located :: "string list"

record LoginEnv =
  le_t :: "string \<Rightarrow> string"
  le_passkeySupported :: bool
  le_decode :: "nat list \<Rightarrow> string"

definition auth_error :: "string \<Rightarrow> ('w, 'm) AuthPage_scheme \<Rightarrow> ('w, 'm) AuthPage_scheme" where
  "auth_error msg s = s\<lparr>au_error := msg\<rparr>"

text \<open>A member of a body; \<open>JSON.stringify\<close> leaves one out that is \<open>undefined\<close>.\<close>

definition member :: "string \<Rightarrow> json option \<Rightarrow> (string \<times> json) list" where
  "member k v = (case v of None \<Rightarrow> [] | Some x \<Rightarrow> [(k, x)])"

subsection \<open>Mounting\<close>

definition oidc_action :: "LoginEnv \<Rightarrow> string \<Rightarrow> string option" where
  "oidc_action env search = params_get ''oidc_action'' (searchParams (le_decode env) search)"

definition mount_login :: "LoginEnv \<Rightarrow> string \<Rightarrow> Client \<Rightarrow> LoginState" where
  "mount_login env search c =
     (let s = api_get ''/auth/oidc/config'' Wait_oidc_config
            \<lparr>au_client = c, au_waiting = [], au_error = [], au_success = [], au_path = ''/login'', lg_identifier = [],
             lg_password = [], lg_loading = False, lg_passkeyLoading = False, lg_oidcLoading = False,
             lg_oidcSubmitting = False, lg_oidcConfig = None, lg_step = Credentials_step, lg_totpToken = None,
             lg_totpCode = [], lg_search = search, lg_credentials = [], lg_located = []\<rparr>
      in if oidc_action env search \<noteq> Some ''login'' then s
         else api_get ''/auth/oidc/session'' Wait_oidc_session (s\<lparr>lg_oidcLoading := True\<rparr>))"

subsection \<open>Handlers\<close>

definition handleCredentialsSubmit :: "LoginState \<Rightarrow> LoginState" where
  "handleCredentialsSubmit s =
     api_post ''/auth/login'' (JObj [(''identifier'', JStr (lg_identifier s)), (''password'', JStr (lg_password s))]) Wait_login
       ((auth_error [] s)\<lparr>lg_loading := True\<rparr>)"

definition handleTotpSubmit :: "LoginState \<Rightarrow> LoginState" where
  "handleTotpSubmit s =
     api_post ''/auth/totp/verify-login''
       (JObj (member ''totp_token'' (lg_totpToken s) @ [(''code'', JStr (trim (lg_totpCode s)))])) Wait_totp
       ((auth_error [] s)\<lparr>lg_loading := True\<rparr>)"

definition handleBack :: "LoginState \<Rightarrow> LoginState" where
  "handleBack s = auth_error [] (s\<lparr>lg_step := Credentials_step, lg_totpToken := Some (JStr []), lg_totpCode := []\<rparr>)"

definition handlePasskeyLogin :: "LoginEnv \<Rightarrow> LoginState \<Rightarrow> LoginState" where
  "handlePasskeyLogin env s =
     (let s = auth_error [] s in
      if \<not> le_passkeySupported env then auth_error (le_t env ''auth.login.passkeyUnsupported'') s
      else api_post ''/auth/passkeys/login/start'' (JObj []) Wait_passkey_start (s\<lparr>lg_passkeyLoading := True\<rparr>))"

definition handleOIDCLogin :: "LoginState \<Rightarrow> LoginState" where
  "handleOIDCLogin s =
     api_post ''/auth/oidc/login/start'' (JObj []) Wait_oidc_start ((auth_error [] s)\<lparr>lg_oidcSubmitting := True\<rparr>)"

text \<open>The callbacks of the OIDC effect, and its \<open>finally\<close>.\<close>

definition oidc_session_answered :: "LoginEnv \<Rightarrow> string + json option \<Rightarrow> LoginState \<Rightarrow> LoginState" where
  "oidc_session_answered env r s =
     (case r of
        Inl msg \<Rightarrow> auth_error msg s
      | Inr None \<Rightarrow> auth_error ''TypeError'' s
      | Inr (Some result) \<Rightarrow>
          (let err = nullish (json_get result ''error'') JNull in
           if json_truthy err then auth_error (js_text err) s
           else if json_truthy (resolveAccessToken result) \<and> json_truthy (nullish (json_get result ''user'') JNull)
           then signed_in (le_t env ''auth.login.success'') result s
           else auth_error (le_t env ''auth.login.oidcError'') s))"

definition without_oidc :: "LoginEnv \<Rightarrow> string \<Rightarrow> string" where
  "without_oidc env search =
     (let query = params_text (params_delete ''oidc_session'' (params_delete ''oidc_action'' (searchParams (le_decode env) search)))
      in if query \<noteq> [] then ''?'' @ query else [])"

text \<open>\<open>"requires_totp" in data\<close> throws unless \<open>data\<close> is an object.\<close>

definition login_answered :: "LoginEnv \<Rightarrow> string + json option \<Rightarrow> LoginState \<Rightarrow> LoginState" where
  "login_answered env r s =
     (case r of
        Inl msg \<Rightarrow> auth_error msg s
      | Inr None \<Rightarrow> auth_error ''TypeError'' s
      | Inr (Some data) \<Rightarrow>
          (case data of
             JObj kvs \<Rightarrow>
               if json_truthy (nullish (json_get data ''requires_totp'') JNull)
               then s\<lparr>lg_totpToken := json_get data ''totp_token'', lg_step := Totp_step\<rparr>
               else signed_in (le_t env ''auth.login.success'') data s
           | JArr xs \<Rightarrow> signed_in (le_t env ''auth.login.success'') data s
           | _ \<Rightarrow> auth_error ''TypeError'' s))"

definition auth_answered :: "LoginEnv \<Rightarrow> (string \<Rightarrow> string) \<Rightarrow> string + json option \<Rightarrow> LoginState \<Rightarrow> LoginState" where
  "auth_answered env message r s =
     (case r of
        Inl msg \<Rightarrow> auth_error (message msg) s
      | Inr None \<Rightarrow> auth_error (message ''TypeError'') s
      | Inr (Some data) \<Rightarrow> signed_in (le_t env ''auth.login.success'') data s)"

definition passkey_message :: "LoginEnv \<Rightarrow> string \<Rightarrow> string" where
  "passkey_message env msg = getPasskeyErrorMessage (Error_object ''Error'' msg) (le_t env) ''auth.login.passkeyError''"

definition passkey_started :: "LoginEnv \<Rightarrow> string + json option \<Rightarrow> LoginState \<Rightarrow> LoginState" where
  "passkey_started env r s =
     (case r of
        Inl msg \<Rightarrow> (auth_error (passkey_message env msg) s)\<lparr>lg_passkeyLoading := False\<rparr>
      | Inr None \<Rightarrow> (auth_error (passkey_message env ''TypeError'') s)\<lparr>lg_passkeyLoading := False\<rparr>
      | Inr (Some begin_result) \<Rightarrow> s\<lparr>lg_credentials := lg_credentials s @ [json_get begin_result ''session_id'']\<rparr>)"

definition credential_ready :: "LoginEnv \<Rightarrow> nat \<Rightarrow> thrown + json \<Rightarrow> LoginState \<Rightarrow> LoginState" where
  "credential_ready env n r s =
     (if n < length (lg_credentials s) then
        (let session_id = lg_credentials s ! n;
             s = s\<lparr>lg_credentials := take n (lg_credentials s) @ drop (Suc n) (lg_credentials s)\<rparr>
         in case r of
              Inl e \<Rightarrow> (auth_error (getPasskeyErrorMessage e (le_t env) ''auth.login.passkeyError'') s)\<lparr>lg_passkeyLoading := False\<rparr>
            | Inr cred \<Rightarrow>
                api_post ''/auth/passkeys/login/finish'' (JObj (member ''session_id'' session_id @ [(''credential'', cred)]))
                  Wait_passkey_finish s)
      else s)"

definition oidc_started :: "string + json option \<Rightarrow> LoginState \<Rightarrow> LoginState" where
  "oidc_started r s =
     (case r of
        Inl msg \<Rightarrow> (auth_error msg s)\<lparr>lg_oidcSubmitting := False\<rparr>
      | Inr None \<Rightarrow> (auth_error ''TypeError'' s)\<lparr>lg_oidcSubmitting := False\<rparr>
      | Inr (Some result) \<Rightarrow>
          s\<lparr>lg_located := lg_located s @ [js_text (nullish (json_get result ''authorization_url'') JNull)]\<rparr>)"

fun login_continue :: "LoginEnv \<Rightarrow> login_wait \<Rightarrow> string + json option \<Rightarrow> LoginState \<Rightarrow> LoginState" where
  "login_continue env Wait_oidc_config r s = (case r of Inl msg \<Rightarrow> s | Inr v \<Rightarrow> s\<lparr>lg_oidcConfig := v\<rparr>)"
| "login_continue env Wait_oidc_session r s =
     (oidc_session_answered env r s)\<lparr>lg_search := without_oidc env (lg_search s), lg_oidcLoading := False\<rparr>"
| "login_continue env Wait_login r s = (login_answered env r s)\<lparr>lg_loading := False\<rparr>"
| "login_continue env Wait_totp r s = (auth_answered env id r s)\<lparr>lg_loading := False\<rparr>"
| "login_continue env Wait_passkey_start r s = passkey_started env r s"
| "login_continue env Wait_passkey_finish r s = (auth_answered env (passkey_message env) r s)\<lparr>lg_passkeyLoading := False\<rparr>"
| "login_continue env Wait_oidc_start r s = oidc_started r s"

subsection \<open>The page\<close>

datatype login_field = Lf_identifier | Lf_password | Lf_code

datatype login_event =
    Login_net event
  | Login_continues nat
  | Credential_settles nat "thrown + json"
  | Login_type login_field string
  | Submit_login
  | Submit_code
  | Go_back
  | Passkey_button
  | Oidc_button
  | Login_reload

text \<open>The constraints of the inputs and the disabled buttons; a page that was left has no buttons.\<close>

definition hex_code :: "string \<Rightarrow> bool" where
  "hex_code s \<longleftrightarrow> list_all (\<lambda>c. is_digit c \<or> 65 \<le> code c \<and> code c \<le> 70 \<or> 97 \<le> code c \<and> code c \<le> 102) s"

definition can_submit_login :: "LoginState \<Rightarrow> bool" where
  "can_submit_login s \<longleftrightarrow> au_path s = ''/login'' \<and> lg_step s = Credentials_step \<and> \<not> lg_loading s
     \<and> lg_identifier s \<noteq> [] \<and> lg_password s \<noteq> []"

definition can_submit_code :: "LoginState \<Rightarrow> bool" where
  "can_submit_code s \<longleftrightarrow> au_path s = ''/login'' \<and> lg_step s = Totp_step \<and> \<not> lg_loading s
     \<and> 6 \<le> length (lg_totpCode s) \<and> length (lg_totpCode s) \<le> 8 \<and> hex_code (lg_totpCode s)"

definition can_press :: "LoginState \<Rightarrow> bool" where
  "can_press s \<longleftrightarrow> au_path s = ''/login'' \<and> lg_step s = Credentials_step
     \<and> \<not> (lg_loading s \<or> lg_passkeyLoading s \<or> lg_oidcLoading s \<or> lg_oidcSubmitting s)"

definition oidc_offered :: "LoginState \<Rightarrow> bool" where
  "oidc_offered s \<longleftrightarrow> json_truthy (nullish (Option.bind (lg_oidcConfig s) (\<lambda>c. json_get c ''enabled'')) JNull)"

text \<open>An assignment to \<open>window.location.href\<close> by \<open>lib/api.ts\<close> loads the login page anew.\<close>

fun login_step :: "LoginEnv \<Rightarrow> LoginState \<Rightarrow> login_event \<Rightarrow> LoginState" where
  "login_step env s (Login_net e) = on_net (le_t env) e s"
| "login_step env s (Login_continues k) =
     (case settled k s of None \<Rightarrow> s | Some (w, r) \<Rightarrow> login_continue env w r (drop_waiting k s))"
| "login_step env s (Credential_settles n r) = credential_ready env n r s"
| "login_step env s (Login_type Lf_identifier v) = s\<lparr>lg_identifier := v\<rparr>"
| "login_step env s (Login_type Lf_password v) = s\<lparr>lg_password := v\<rparr>"
| "login_step env s (Login_type Lf_code v) = s\<lparr>lg_totpCode := v\<rparr>"
| "login_step env s Submit_login = (if can_submit_login s then handleCredentialsSubmit s else s)"
| "login_step env s Submit_code = (if can_submit_code s then handleTotpSubmit s else s)"
| "login_step env s Go_back = (if au_path s = ''/login'' \<and> lg_step s = Totp_step then handleBack s else s)"
| "login_step env s Passkey_button = (if can_press s \<and> le_passkeySupported env then handlePasskeyLogin env s else s)"
| "login_step env s Oidc_button = (if can_press s \<and> oidc_offered s then handleOIDCLogin s else s)"
| "login_step env s Login_reload =
     (if location (session (au_client s)) = ''/login''
      then mount_login env [] (page_load (storage (session (au_client s)))) else s)"

subsection \<open>Who is signed in\<close>

text \<open>An answer that signs in: of the password when no second factor is asked for, of the second factor, of the
  passkey, or of the provider.\<close>

fun granting :: "login_wait \<Rightarrow> string + json option \<Rightarrow> bool" where
  "granting Wait_login (Inr (Some data)) \<longleftrightarrow> \<not> json_truthy (nullish (json_get data ''requires_totp'') JNull)"
| "granting Wait_oidc_session (Inr (Some data)) \<longleftrightarrow> \<not> json_truthy (nullish (json_get data ''error'') JNull)"
| "granting Wait_totp (Inr (Some data)) \<longleftrightarrow> True"
| "granting Wait_passkey_finish (Inr (Some data)) \<longleftrightarrow> True"
| "granting w r \<longleftrightarrow> False"

definition grants :: "LoginState \<Rightarrow> login_event \<Rightarrow> bool" where
  "grants s e \<longleftrightarrow> (case e of Login_continues k \<Rightarrow> (case settled k s of None \<Rightarrow> False | Some (w, r) \<Rightarrow> granting w r) | _ \<Rightarrow> False)"

lemma auth_error_simps [simp]:
  "au_client (auth_error m s) = au_client s" "au_waiting (auth_error m s) = au_waiting s" "au_path (auth_error m s) = au_path s"
  "au_error (auth_error m s) = m"
  by (simp_all add: auth_error_def)

lemma mount_login_client: "anonymous c \<Longrightarrow> anonymous (au_client (mount_login env search c))"
  by (simp add: mount_login_def api_defs anonymous_request Let_def)

lemma ungranted_client: "\<not> granting w r \<Longrightarrow> au_client (login_continue env w r s) = au_client s"
  by (cases w; cases r)
     (auto simp: oidc_session_answered_def login_answered_def auth_answered_def passkey_started_def oidc_started_def Let_def
        split: option.split json.split)

lemma login_step_anonymous:
  assumes a: "anonymous (au_client s)" and g: "\<not> grants s e"
  shows "anonymous (au_client (login_step env s e))"
proof (cases e)
  case (Login_continues k)
  then show ?thesis
    using a g by (cases "settled k s") (auto simp: grants_def ungranted_client split: option.splits prod.splits)
next
  case (Login_type f v)
  then show ?thesis using a by (cases f) simp_all
next
  case (Credential_settles n r)
  then show ?thesis
    using a by (cases r) (simp_all add: credential_ready_def Let_def api_defs anonymous_request)
qed (use a in \<open>simp_all add: anonymous_on_net handleCredentialsSubmit_def handleTotpSubmit_def handleBack_def
        handlePasskeyLogin_def handleOIDCLogin_def api_defs anonymous_request mount_login_client anonymous_page_load Let_def\<close>)

lemma ungranted_run:
  "anonymous (au_client s) \<Longrightarrow> (\<And>n. n < length es \<Longrightarrow> \<not> grants (foldl (login_step env) s (take n es)) (es ! n)) \<Longrightarrow>
   anonymous (au_client (foldl (login_step env) s es))"
proof (induction es rule: rev_induct)
  case (snoc e es)
  have "\<not> grants (foldl (login_step env) s (take n es)) (es ! n)" if "n < length es" for n
    using snoc.prems(2) [of n] that by (simp add: nth_append)
  then have "anonymous (au_client (foldl (login_step env) s es))" using snoc by blast
  then show ?case using snoc.prems(2) [of "length es"] login_step_anonymous by simp
qed simp

text \<open>C5: a visitor who is not signed in stays so until the server has accepted a factor: whatever is typed,
  pressed, answered and retried, a session exists only after an answer that grants one, which an answer to the password
  that asks for a second factor never does.\<close>

theorem signed_in_only_by_grant:
  assumes "anonymous c" and "fst (isAuthenticated (session (au_client (foldl (login_step env) (mount_login env search c) es))))"
  shows "\<exists>n < length es. grants (foldl (login_step env) (mount_login env search c) (take n es)) (es ! n)"
proof (rule ccontr)
  assume "\<not> ?thesis"
  then have "anonymous (au_client (foldl (login_step env) (mount_login env search c) es))"
    using assms(1) by (intro ungranted_run mount_login_client) auto
  then show False using assms(2) by (simp add: anonymous_def isAuthenticated_def case_prod_beta)
qed

definition plain_env :: LoginEnv where
  "plain_env = \<lparr>le_t = id, le_passkeySupported = True, le_decode = (\<lambda>bs. [])\<rparr>"

definition json_response :: "nat \<Rightarrow> json \<Rightarrow> Response" where
  "json_response status body = \<lparr>rs_status = status, rs_content_type = Some ''application/json'', rs_body = Some body\<rparr>"

definition alice_signs_in :: "login_event list" where
  "alice_signs_in =
     [Login_type Lf_identifier ''alice'', Login_type Lf_password ''correct horse'', Submit_login,
      Login_net (Fetch_settles 1 (Inr (json_response 200 (JObj [(''token'', JStr ''t1''), (''user'', JObj [])])))),
      Login_net (Body_read 1), Login_continues 1]"

theorem signed_in_only_by_grant_witness:
  "\<exists>n < length alice_signs_in. grants (foldl (login_step plain_env) (mount_login plain_env [] (page_load empty_storage))
      (take n alice_signs_in)) (alice_signs_in ! n)"
proof (rule signed_in_only_by_grant)
  show "anonymous (page_load empty_storage)" by (rule anonymous_page_load)
  show "fst (isAuthenticated (session (au_client
      (foldl (login_step plain_env) (mount_login plain_env [] (page_load empty_storage)) alice_signs_in))))"
    by code_simp
qed

subsection \<open>The buttons\<close>

definition waits :: "login_wait list \<Rightarrow> LoginState \<Rightarrow> nat" where
  "waits ws s = length (filter (\<lambda>x. snd x \<in> set ws) (au_waiting s))"

definition login_ok :: "LoginState \<Rightarrow> bool" where
  "login_ok s \<longleftrightarrow> waits [Wait_login, Wait_totp] s = (if lg_loading s then 1 else 0)
     \<and> waits [Wait_passkey_start, Wait_passkey_finish] s + length (lg_credentials s) = (if lg_passkeyLoading s then 1 else 0)
     \<and> waits [Wait_oidc_session] s = (if lg_oidcLoading s then 1 else 0)
     \<and> waits [Wait_oidc_start] s \<le> (if lg_oidcSubmitting s then 1 else 0)"

lemma waits_simps [simp]:
  "waits ws (await path ops w s) = waits ws s + (if w \<in> set ws then 1 else 0)"
  "waits ws (auth_error m s) = waits ws s" "waits ws (signed_in n d s) = waits ws s" "waits ws (on_net t e s) = waits ws s"
  by (simp_all add: waits_def)

lemma waits_updates [simp]:
  "waits ws (s\<lparr>lg_loading := b\<rparr>) = waits ws s" "waits ws (s\<lparr>lg_passkeyLoading := b\<rparr>) = waits ws s"
  "waits ws (s\<lparr>lg_oidcLoading := b\<rparr>) = waits ws s" "waits ws (s\<lparr>lg_oidcSubmitting := b\<rparr>) = waits ws s"
  "waits ws (s\<lparr>lg_credentials := cs\<rparr>) = waits ws s" "waits ws (s\<lparr>lg_search := v\<rparr>) = waits ws s"
  "waits ws (s\<lparr>lg_oidcConfig := cf\<rparr>) = waits ws s" "waits ws (s\<lparr>lg_located := ls\<rparr>) = waits ws s"
  "waits ws (s\<lparr>lg_step := st\<rparr>) = waits ws s" "waits ws (s\<lparr>lg_totpToken := tk\<rparr>) = waits ws s"
  "waits ws (s\<lparr>lg_totpCode := v\<rparr>) = waits ws s"
  by (simp_all add: waits_def)

lemma waits_drop:
  assumes "k < length (au_waiting s)"
  shows "waits ws s = waits ws (drop_waiting k s) + (if snd (au_waiting s ! k) \<in> set ws then 1 else 0)"
proof -
  have "au_waiting s = take k (au_waiting s) @ au_waiting s ! k # drop (Suc k) (au_waiting s)"
    using assms by (rule id_take_nth_drop)
  then have "waits ws s = length (filter (\<lambda>x. snd x \<in> set ws) (take k (au_waiting s) @ au_waiting s ! k # drop (Suc k) (au_waiting s)))"
    unfolding waits_def by simp
  then show ?thesis by (simp add: waits_def drop_waiting_def)
qed

lemma settled_wait: "settled k s = Some (w, r) \<Longrightarrow> k < length (au_waiting s) \<and> snd (au_waiting s ! k) = w"
  by (auto simp: settled_def split: if_splits task.splits)

lemma login_fields [simp]:
  "lg_loading (await path ops w s) = lg_loading s" "lg_passkeyLoading (await path ops w s) = lg_passkeyLoading s"
  "lg_oidcLoading (await path ops w s) = lg_oidcLoading s" "lg_oidcSubmitting (await path ops w s) = lg_oidcSubmitting s"
  "lg_credentials (await path ops w s) = lg_credentials s"
  "lg_loading (auth_error m s) = lg_loading s" "lg_passkeyLoading (auth_error m s) = lg_passkeyLoading s"
  "lg_oidcLoading (auth_error m s) = lg_oidcLoading s" "lg_oidcSubmitting (auth_error m s) = lg_oidcSubmitting s"
  "lg_credentials (auth_error m s) = lg_credentials s"
  "lg_loading (signed_in n d s) = lg_loading s" "lg_passkeyLoading (signed_in n d s) = lg_passkeyLoading s"
  "lg_oidcLoading (signed_in n d s) = lg_oidcLoading s" "lg_oidcSubmitting (signed_in n d s) = lg_oidcSubmitting s"
  "lg_credentials (signed_in n d s) = lg_credentials s"
  "lg_loading (drop_waiting k s) = lg_loading s" "lg_passkeyLoading (drop_waiting k s) = lg_passkeyLoading s"
  "lg_oidcLoading (drop_waiting k s) = lg_oidcLoading s" "lg_oidcSubmitting (drop_waiting k s) = lg_oidcSubmitting s"
  "lg_credentials (drop_waiting k s) = lg_credentials s"
  "lg_loading (on_net t e s) = lg_loading s" "lg_passkeyLoading (on_net t e s) = lg_passkeyLoading s"
  "lg_oidcLoading (on_net t e s) = lg_oidcLoading s" "lg_oidcSubmitting (on_net t e s) = lg_oidcSubmitting s"
  "lg_credentials (on_net t e s) = lg_credentials s"
  by (simp_all add: await_def auth_error_def signed_in_def drop_waiting_def on_net_def)

lemma answered_frame [simp]:
  "waits ws (oidc_session_answered env r s) = waits ws s" "waits ws (login_answered env r s) = waits ws s"
  "waits ws (auth_answered env f r s) = waits ws s" "waits ws (passkey_started env r s) = waits ws s"
  "waits ws (oidc_started r s) = waits ws s"
  by (auto simp: oidc_session_answered_def login_answered_def auth_answered_def passkey_started_def oidc_started_def Let_def
      waits_def split: sum.split option.split json.split)

lemma answered_fields [simp]:
  "lg_loading (oidc_session_answered env r s) = lg_loading s" "lg_passkeyLoading (oidc_session_answered env r s) = lg_passkeyLoading s"
  "lg_oidcSubmitting (oidc_session_answered env r s) = lg_oidcSubmitting s" "lg_credentials (oidc_session_answered env r s) = lg_credentials s"
  "lg_passkeyLoading (login_answered env r s) = lg_passkeyLoading s" "lg_oidcLoading (login_answered env r s) = lg_oidcLoading s"
  "lg_oidcSubmitting (login_answered env r s) = lg_oidcSubmitting s" "lg_credentials (login_answered env r s) = lg_credentials s"
  "lg_loading (auth_answered env f r s) = lg_loading s" "lg_passkeyLoading (auth_answered env f r s) = lg_passkeyLoading s"
  "lg_oidcLoading (auth_answered env f r s) = lg_oidcLoading s" "lg_oidcSubmitting (auth_answered env f r s) = lg_oidcSubmitting s"
  "lg_credentials (auth_answered env f r s) = lg_credentials s"
  by (auto simp: oidc_session_answered_def login_answered_def auth_answered_def Let_def split: sum.split option.split json.split)

lemma login_ok_mount: "login_ok (mount_login env search c)"
  by (simp add: mount_login_def login_ok_def api_defs Let_def) (simp add: waits_def)

lemma login_ok_continue:
  assumes ok: "login_ok s" and k: "settled k s = Some (w, r)"
  shows "login_ok (login_continue env w r (drop_waiting k s))"
proof -
  have d: "waits ws s = waits ws (drop_waiting k s) + (if w \<in> set ws then 1 else 0)" for ws
    using waits_drop [of k s ws] settled_wait [OF k] by simp
  show ?thesis
    using ok by (cases w; cases r)
      (auto simp: login_ok_def d passkey_started_def oidc_started_def split: if_splits option.split)
qed

lemma login_ok_credential: "login_ok s \<Longrightarrow> login_ok (credential_ready env n r s)"
  by (cases r) (auto simp: credential_ready_def login_ok_def Let_def api_defs split: if_splits)

lemma login_step_ok:
  assumes "login_ok s"
  shows "login_ok (login_step env s e)"
proof (cases e)
  case (Login_continues k)
  then show ?thesis using assms login_ok_continue by (auto split: option.split)
next
  case (Login_type f v)
  then show ?thesis using assms by (cases f) (simp_all add: login_ok_def waits_def)
next
  case (Credential_settles n r)
  then show ?thesis using assms by (simp add: login_ok_credential)
qed (use assms in \<open>simp_all add: login_ok_mount\<close>,
     (auto simp: login_ok_def handleCredentialsSubmit_def handleTotpSubmit_def handleBack_def handlePasskeyLogin_def
        handleOIDCLogin_def api_defs can_submit_login_def can_submit_code_def can_press_def Let_def split: if_splits))

interpretation login: event_machine "login_step env" login_ok for env
  by unfold_locales (rule login_step_ok)

text \<open>the login page never sends a second password or code while one is under way, nor a second passkey
  sign-in, and no button stays disabled: each loading flag is set exactly while a request or the authenticator is still
  awaited, in whatever order things happen and with whatever answers.\<close>

theorem one_sign_in_at_a_time:
  "let s = foldl (login_step env) (mount_login env search c) es
   in waits [Wait_login, Wait_totp] s = (if lg_loading s then 1 else 0)
    \<and> waits [Wait_passkey_start, Wait_passkey_finish] s + length (lg_credentials s) = (if lg_passkeyLoading s then 1 else 0)
    \<and> waits [Wait_oidc_session] s = (if lg_oidcLoading s then 1 else 0)"
  using login.run_inv [OF login_ok_mount] by (simp add: login_ok_def Let_def)

subsection \<open>The return from the provider\<close>

text \<open>The parameters of the provider are dropped from the address, and the others stay as they were.\<close>

lemma oidc_parameters_removed:
  "searchParams other (without_oidc env search)
    = filter (\<lambda>p. fst p \<noteq> ''oidc_action'' \<and> fst p \<noteq> ''oidc_session'') (searchParams (le_decode env) search)"
proof -
  let ?ps = "params_delete ''oidc_session'' (params_delete ''oidc_action'' (searchParams (le_decode env) search))"
  have "searchParams other (without_oidc env search) = searchParams other (params_text ?ps)"
    using searchParams_question [OF params_text_question [of ?ps], of other] unfolding without_oidc_def Let_def by simp
  then show ?thesis by (simp add: searchParams_text params_delete_def conj_commute)
qed

text \<open>
  A wrong code is answered with 401.  The client of \<open>lib/api.ts\<close> takes that for an expired session: it shows that
  message instead of the server's, and loads the login page anew, where the password has to be given again.
\<close>

lemma wrong_code_starts_over:
  assumes "i < length (tasks (au_client s))" and "rs_status res = 401"
    and "tasks (au_client s) ! i = Fetching ''/auth/totp/verify-login'' options False True False"
  shows "let s' = login_step env (login_step env s (Login_net (Fetch_settles i (Inr res)))) Login_reload
    in lg_step s' = Credentials_step \<and> lg_identifier s' = [] \<and> au_error s' = []"
  using assms
  by (simp add: on_net_def on_fetch_def canRefresh_def fail_unauthorized_def handleUnauthorized_def mount_login_def Let_def
      api_defs await_def set_task_def)

end
