(* ===== verification/ManagedLists.thy ===== *)
theory ManagedLists
  imports Types Reorder Interfaces
begin

text \<open>
  The lists of categories and of payment methods on the settings page,
  \<open>web/src/features/settings/category-management.tsx\<close> and \<open>payment-method-management.tsx\<close>
  (their state and handlers; the markup is left out).  As in the currency settings, a request is recorded
  when it is sent, and its answer is an event.
\<close>

datatype list_notice = List_error string | List_success string

subsection \<open>Categories\<close>

datatype category_call =
    Load_categories
  | Post_category CreateCategoryInput
  | Delete_category int
  | Put_category int string
  | Put_category_order "ReorderCurrencyItem list"

datatype category_reply = Category_failed string | Category_list "Category list option" | Category_saved Category | Category_done

record CategoryState =
  categories :: "Category list"
  cat_addName :: string
  cat_addLoading :: bool
  cat_orderChanged :: bool
  cat_orderSaving :: bool
  cat_editingId :: "int option"
  cat_editName :: string
  cat_editLoading :: bool
  cat_dragFrom :: "nat option"
  cat_dragTo :: "nat option"
  cat_open :: "category_call list"
  cat_calls :: "category_call list"
  cat_notices :: "list_notice list"

definition send_category :: "category_call \<Rightarrow> CategoryState \<Rightarrow> CategoryState" where
  "send_category c s = s\<lparr>cat_calls := cat_calls s @ [c], cat_open := cat_open s @ [c]\<rparr>"

definition category_notice :: "list_notice \<Rightarrow> CategoryState \<Rightarrow> CategoryState" where
  "category_notice n s = s\<lparr>cat_notices := cat_notices s @ [n]\<rparr>"

definition mount_categories :: CategoryState where
  "mount_categories = send_category Load_categories \<lparr>categories = [], cat_addName = [], cat_addLoading = False,
     cat_orderChanged = False, cat_orderSaving = False, cat_editingId = None, cat_editName = [], cat_editLoading = False,
     cat_dragFrom = None, cat_dragTo = None, cat_open = [], cat_calls = [], cat_notices = []\<rparr>"

definition handleAddCategory :: "(string \<Rightarrow> string) \<Rightarrow> CategoryState \<Rightarrow> CategoryState" where
  "handleAddCategory t s =
     (let name = trim (cat_addName s) in
      if name = [] then category_notice (List_error (t ''settings.categoryManagement.invalidName'')) s
      else send_category (Post_category \<lparr>cci_name = name, cci_display_order = int (length (categories s))\<rparr>)
        (s\<lparr>cat_addLoading := True\<rparr>))"

definition handleDeleteCategory :: "bool \<Rightarrow> int \<Rightarrow> CategoryState \<Rightarrow> CategoryState" where
  "handleDeleteCategory confirmed i s = (if \<not> confirmed then s else send_category (Delete_category i) s)"

definition handleEditStart :: "Category \<Rightarrow> CategoryState \<Rightarrow> CategoryState" where
  "handleEditStart category s = s\<lparr>cat_editingId := Some (cat_id category), cat_editName := cat_name category\<rparr>"

definition handleEditCancel :: "CategoryState \<Rightarrow> CategoryState" where
  "handleEditCancel s = s\<lparr>cat_editingId := None, cat_editName := []\<rparr>"

definition handleEditSave :: "(string \<Rightarrow> string) \<Rightarrow> int \<Rightarrow> CategoryState \<Rightarrow> CategoryState" where
  "handleEditSave t i s =
     (let name = trim (cat_editName s) in
      if name = [] then category_notice (List_error (t ''settings.categoryManagement.invalidName'')) s
      else send_category (Put_category i name) (s\<lparr>cat_editLoading := True\<rparr>))"

definition drop_category :: "CategoryState \<Rightarrow> CategoryState option" where
  "drop_category s =
     (case (cat_dragFrom s, cat_dragTo s) of
        (Some i, Some j) \<Rightarrow>
          if i = j then Some s
          else map_option (\<lambda>reordered. s\<lparr>categories := reordered, cat_orderChanged := True, cat_dragFrom := None, cat_dragTo := None\<rparr>)
            (move_item i j (categories s))
      | _ \<Rightarrow> Some s)"

definition category_order :: "CategoryState \<Rightarrow> ReorderCurrencyItem list" where
  "category_order s = number_items (\<lambda>i item. \<lparr>ro_id = cat_id item, ro_sort_order = i\<rparr>) (categories s)"

definition save_category_order :: "CategoryState \<Rightarrow> CategoryState" where
  "save_category_order s = send_category (Put_category_order (category_order s)) (s\<lparr>cat_orderSaving := True\<rparr>)"

fun category_answered :: "(string \<Rightarrow> string) \<Rightarrow> category_call \<Rightarrow> category_reply \<Rightarrow> CategoryState \<Rightarrow> CategoryState" where
  "category_answered t Load_categories (Category_list xs) s = s\<lparr>categories := nullish xs []\<rparr>"
| "category_answered t (Post_category input) (Category_saved created) s =
     (category_notice (List_success (t ''settings.categoryManagement.addSuccess''))
       (s\<lparr>categories := categories s @ [created], cat_addName := []\<rparr>))\<lparr>cat_addLoading := False\<rparr>"
| "category_answered t (Post_category input) (Category_failed msg) s =
     (category_notice (List_error msg) s)\<lparr>cat_addLoading := False\<rparr>"
| "category_answered t (Delete_category i) Category_done s =
     category_notice (List_success (t ''settings.categoryManagement.deleteSuccess''))
       (s\<lparr>categories := filter (\<lambda>item. cat_id item \<noteq> i) (categories s)\<rparr>)"
| "category_answered t (Put_category i name) (Category_saved updated) s =
     (category_notice (List_success (t ''settings.categoryManagement.updateSuccess''))
       (s\<lparr>categories := map (\<lambda>item. if cat_id item = i then updated else item) (categories s),
          cat_editingId := None, cat_editName := []\<rparr>))\<lparr>cat_editLoading := False\<rparr>"
| "category_answered t (Put_category i name) (Category_failed msg) s =
     (category_notice (List_error msg) s)\<lparr>cat_editLoading := False\<rparr>"
| "category_answered t (Put_category_order items) Category_done s =
     (category_notice (List_success (t ''settings.categoryManagement.orderSaved''))
       (s\<lparr>categories := number_items (\<lambda>i item. item\<lparr>cat_display_order := i\<rparr>) (categories s),
          cat_orderChanged := False\<rparr>))\<lparr>cat_orderSaving := False\<rparr>"
| "category_answered t (Put_category_order items) (Category_failed msg) s =
     (category_notice (List_error msg) s)\<lparr>cat_orderSaving := False\<rparr>"
| "category_answered t c r s = s"

datatype category_event =
    Category_answer nat category_reply
  | Set_add_name string
  | Set_edit_name string
  | Add_category
  | Delete_category_event bool int
  | Edit_start Category
  | Edit_cancel
  | Edit_save int
  | Category_drag_start nat
  | Category_drag_over nat
  | Category_drop
  | Category_save_order

text \<open>\<open>None\<close> is a page that threw on \<open>undefined\<close> in its list.\<close>

fun category_step :: "(string \<Rightarrow> string) \<Rightarrow> CategoryState \<Rightarrow> category_event \<Rightarrow> CategoryState option" where
  "category_step t s (Category_answer n r) = Some
     (if n < length (cat_open s)
      then category_answered t (cat_open s ! n) r (s\<lparr>cat_open := without n (cat_open s)\<rparr>) else s)"
| "category_step t s (Set_add_name v) = Some (s\<lparr>cat_addName := v\<rparr>)"
| "category_step t s (Set_edit_name v) = Some (s\<lparr>cat_editName := v\<rparr>)"
| "category_step t s Add_category = Some (handleAddCategory t s)"
| "category_step t s (Delete_category_event confirmed i) = Some (handleDeleteCategory confirmed i s)"
| "category_step t s (Edit_start c) = Some (handleEditStart c s)"
| "category_step t s Edit_cancel = Some (handleEditCancel s)"
| "category_step t s (Edit_save i) = Some (handleEditSave t i s)"
| "category_step t s (Category_drag_start i) = Some (s\<lparr>cat_dragFrom := Some i\<rparr>)"
| "category_step t s (Category_drag_over i) = Some (s\<lparr>cat_dragTo := Some i\<rparr>)"
| "category_step t s Category_drop = drop_category s"
| "category_step t s Category_save_order = Some (save_category_order s)"

interpretation category_list: draggable_list categories cat_dragFrom cat_dragTo drop_category
  by unfold_locales (auto simp: drop_category_def option.map_comp o_def option.map_ident split: option.splits)


definition category_run :: "(string \<Rightarrow> string) \<Rightarrow> CategoryState option \<Rightarrow> category_event \<Rightarrow> CategoryState option" where
  "category_run t s e = Option.bind s (\<lambda>s. category_step t s e)"

definition named_call :: "category_call \<Rightarrow> bool" where
  "named_call c \<longleftrightarrow> (case c of Post_category input \<Rightarrow> cci_name input \<noteq> [] \<and> trim (cci_name input) = cci_name input
     | Put_category i name \<Rightarrow> name \<noteq> [] \<and> trim name = name | _ \<Rightarrow> True)"

definition category_ok :: "CategoryState \<Rightarrow> bool" where
  "category_ok s \<longleftrightarrow> list_all named_call (cat_calls s)"

lemma category_calls [simp]:
  "cat_calls (send_category c s) = cat_calls s @ [c]" "cat_calls (category_notice n s) = cat_calls s"
  by (simp_all add: send_category_def category_notice_def)

lemma category_answered_frame:
  "cat_calls (category_answered t c r s) = cat_calls s \<and> cat_open (category_answered t c r s) = cat_open s"
  by (cases "(t, c, r, s)" rule: category_answered.cases) (simp_all add: category_notice_def)

lemma category_step_ok: "category_ok s \<Longrightarrow> category_step t s e = Some s' \<Longrightarrow> category_ok s'"
  unfolding category_ok_def
  by (cases e) (auto simp: handleAddCategory_def handleDeleteCategory_def handleEditStart_def handleEditCancel_def
    handleEditSave_def save_category_order_def drop_category_def named_call_def Let_def category_answered_frame
    split: if_splits option.splits)

interpretation category_page: event_machine "category_run t" "\<lambda>s. pred_option category_ok s" for t
proof
  fix s e
  assume "pred_option category_ok s"
  then show "pred_option category_ok (category_run t s e)"
    using category_step_ok by (cases s) (auto simp: category_run_def option.pred_set split: option.splits)
qed

text \<open>the name of a category is never blank: whatever is typed, saved, dragged and answered in whatever
  order, every request that creates or renames a category carries a name without surrounding white space
  that is not empty.\<close>

theorem category_names_not_blank:
  "case foldl (category_run t) (Some mount_categories) es of
     None \<Rightarrow> True
   | Some s \<Rightarrow> list_all (\<lambda>c. case c of Post_category input \<Rightarrow> cci_name input \<noteq> [] \<and> trim (cci_name input) = cci_name input
       | Put_category i name \<Rightarrow> name \<noteq> [] \<and> trim name = name | _ \<Rightarrow> True) (cat_calls s)"
proof -
  have "pred_option category_ok (Some mount_categories)"
    by (simp add: category_ok_def mount_categories_def named_call_def)
  from category_page.run_inv [OF this, of t es] show ?thesis
    by (cases "foldl (category_run t) (Some mount_categories) es") (simp_all add: category_ok_def named_call_def [abs_def])
qed

text \<open>
  The answer to a renaming closes whatever is being edited by then: an edit of another category that was
  started while the first one was being saved is lost.
\<close>

lemma renaming_closes_another_edit:
  assumes "cat_open s = []" and "cat_editName s = ''a''" and "cat_id other \<noteq> i"
  shows "map_option cat_editingId (foldl (category_run t) (Some s)
    [Edit_save i, Edit_start other, Category_answer 0 (Category_saved c)]) = Some None"
proof -
  have "trim ''a'' = ''a''" by code_simp
  then show ?thesis
    using assms by (simp add: category_run_def handleEditSave_def handleEditStart_def send_category_def category_notice_def Let_def)
qed

subsection \<open>Payment methods\<close>

datatype 'f method_call =
    Load_methods
  | Post_method CreatePaymentMethodInput "'f option"
  | Upload_new_icon PaymentMethod
  | Delete_method int
  | Put_method int UpdatePaymentMethodInput
  | Upload_method_icon int
  | Put_method_order "ReorderCurrencyItem list"

text \<open>\<open>Post_method\<close> keeps the file of its closure, and \<open>Upload_new_icon\<close> is the upload that
  follows it, with the method that was created.\<close>

datatype method_reply = Method_failed string | Method_list "PaymentMethod list option" | Method_saved PaymentMethod
  | Icon_stored string | Method_done

record 'f MethodState =
  methods :: "PaymentMethod list"
  pm_addName :: string
  pm_addIcon :: string
  pm_addIconFile :: "'f option"
  pm_addLoading :: bool
  pm_orderChanged :: bool
  pm_orderSaving :: bool
  pm_addIconPickerKey :: nat
  pm_dragFrom :: "nat option"
  pm_dragTo :: "nat option"
  pm_open :: "'f method_call list"
  pm_calls :: "'f method_call list"
  pm_notices :: "list_notice list"

definition send_method :: "'f method_call \<Rightarrow> 'f MethodState \<Rightarrow> 'f MethodState" where
  "send_method c s = s\<lparr>pm_calls := pm_calls s @ [c], pm_open := pm_open s @ [c]\<rparr>"

definition method_notice :: "list_notice \<Rightarrow> 'f MethodState \<Rightarrow> 'f MethodState" where
  "method_notice n s = s\<lparr>pm_notices := pm_notices s @ [n]\<rparr>"

definition mount_methods :: "'f MethodState" where
  "mount_methods = send_method Load_methods \<lparr>methods = [], pm_addName = [], pm_addIcon = [], pm_addIconFile = None,
     pm_addLoading = False, pm_orderChanged = False, pm_orderSaving = False, pm_addIconPickerKey = 0,
     pm_dragFrom = None, pm_dragTo = None, pm_open = [], pm_calls = [], pm_notices = []\<rparr>"

definition handleAddMethod :: "(string \<Rightarrow> string) \<Rightarrow> 'f MethodState \<Rightarrow> 'f MethodState" where
  "handleAddMethod t s =
     (let name = trim (pm_addName s) in
      if name = [] then method_notice (List_error (t ''settings.paymentMethodManagement.invalidName'')) s
      else send_method (Post_method \<lparr>cpm_name = name, cpm_icon = (if pm_addIconFile s \<noteq> None then [] else pm_addIcon s),
             cpm_sort_order = int (length (methods s))\<rparr> (pm_addIconFile s)) (s\<lparr>pm_addLoading := True\<rparr>))"

definition method_added :: "(string \<Rightarrow> string) \<Rightarrow> PaymentMethod \<Rightarrow> 'f MethodState \<Rightarrow> 'f MethodState" where
  "method_added t nextMethod s =
     (method_notice (List_success (t ''settings.paymentMethodManagement.addSuccess''))
       (s\<lparr>methods := methods s @ [nextMethod], pm_addName := [], pm_addIcon := [], pm_addIconFile := None,
          pm_addIconPickerKey := pm_addIconPickerKey s + 1\<rparr>))\<lparr>pm_addLoading := False\<rparr>"

definition handleDeleteMethod :: "bool \<Rightarrow> int \<Rightarrow> 'f MethodState \<Rightarrow> 'f MethodState" where
  "handleDeleteMethod confirmed i s = (if \<not> confirmed then s else send_method (Delete_method i) s)"

definition handleUpdateMethod :: "int \<Rightarrow> UpdatePaymentMethodInput \<Rightarrow> 'f MethodState \<Rightarrow> 'f MethodState" where
  "handleUpdateMethod i input s = send_method (Put_method i input) s"

definition handleUploadMethodIcon :: "int \<Rightarrow> 'f MethodState \<Rightarrow> 'f MethodState" where
  "handleUploadMethodIcon i s = send_method (Upload_method_icon i) s"

definition update_methods :: "(string \<Rightarrow> string) \<Rightarrow> (PaymentMethod \<Rightarrow> PaymentMethod) \<Rightarrow> 'f MethodState \<Rightarrow> 'f MethodState" where
  "update_methods t f s =
     method_notice (List_success (t ''settings.paymentMethodManagement.updateSuccess'')) (s\<lparr>methods := map f (methods s)\<rparr>)"

definition drop_method :: "'f MethodState \<Rightarrow> 'f MethodState option" where
  "drop_method s =
     (case (pm_dragFrom s, pm_dragTo s) of
        (Some i, Some j) \<Rightarrow>
          if i = j then Some s
          else map_option (\<lambda>reordered. s\<lparr>methods := reordered, pm_orderChanged := True, pm_dragFrom := None, pm_dragTo := None\<rparr>)
            (move_item i j (methods s))
      | _ \<Rightarrow> Some s)"

definition method_order :: "'f MethodState \<Rightarrow> ReorderCurrencyItem list" where
  "method_order s = number_items (\<lambda>i item. \<lparr>ro_id = pm_id item, ro_sort_order = i\<rparr>) (methods s)"

definition save_method_order :: "'f MethodState \<Rightarrow> 'f MethodState" where
  "save_method_order s = send_method (Put_method_order (method_order s)) (s\<lparr>pm_orderSaving := True\<rparr>)"

fun method_answered :: "(string \<Rightarrow> string) \<Rightarrow> 'f method_call \<Rightarrow> method_reply \<Rightarrow> 'f MethodState \<Rightarrow> 'f MethodState" where
  "method_answered t Load_methods (Method_list xs) s = s\<lparr>methods := nullish xs []\<rparr>"
| "method_answered t (Post_method input f) (Method_saved created) s =
     (if f \<noteq> None then send_method (Upload_new_icon created) s else method_added t created s)"
| "method_answered t (Post_method input f) (Method_failed msg) s =
     (method_notice (List_error msg) s)\<lparr>pm_addLoading := False\<rparr>"
| "method_answered t (Upload_new_icon created) (Icon_stored icon) s = method_added t (created\<lparr>pm_icon := icon\<rparr>) s"
| "method_answered t (Upload_new_icon created) (Method_failed msg) s =
     method_added t created (method_notice (List_error (t ''settings.paymentMethodManagement.iconUploadFailed'')) s)"
| "method_answered t (Delete_method i) Method_done s =
     method_notice (List_success (t ''settings.paymentMethodManagement.deleteSuccess''))
       (s\<lparr>methods := filter (\<lambda>item. pm_id item \<noteq> i) (methods s)\<rparr>)"
| "method_answered t (Put_method i input) (Method_saved updated) s =
     update_methods t (\<lambda>item. if pm_id item = i then updated else item) s"
| "method_answered t (Upload_method_icon i) (Icon_stored icon) s =
     update_methods t (\<lambda>item. if pm_id item = i then item\<lparr>pm_icon := icon\<rparr> else item) s"
| "method_answered t (Put_method_order items) Method_done s =
     (method_notice (List_success (t ''settings.paymentMethodManagement.orderSaved''))
       (s\<lparr>methods := number_items (\<lambda>i item. item\<lparr>pm_sort_order := i\<rparr>) (methods s),
          pm_orderChanged := False\<rparr>))\<lparr>pm_orderSaving := False\<rparr>"
| "method_answered t (Put_method_order items) (Method_failed msg) s = s\<lparr>pm_orderSaving := False\<rparr>"
| "method_answered t c r s = s"

interpretation method_list: draggable_list methods pm_dragFrom pm_dragTo drop_method
  by unfold_locales (auto simp: drop_method_def option.map_comp o_def option.map_ident split: option.splits)

datatype 'f method_event =
    Method_answer nat method_reply
  | Set_method_name string
  | Set_method_icon string
  | Set_method_file "'f option"
  | Add_method
  | Delete_method_event bool int
  | Update_method int UpdatePaymentMethodInput
  | Upload_icon_event int
  | Method_drag_start nat
  | Method_drag_over nat
  | Method_drop
  | Method_save_order

fun method_step :: "(string \<Rightarrow> string) \<Rightarrow> 'f MethodState \<Rightarrow> 'f method_event \<Rightarrow> 'f MethodState option" where
  "method_step t s (Method_answer n r) = Some
     (if n < length (pm_open s)
      then method_answered t (pm_open s ! n) r (s\<lparr>pm_open := without n (pm_open s)\<rparr>) else s)"
| "method_step t s (Set_method_name v) = Some (s\<lparr>pm_addName := v\<rparr>)"
| "method_step t s (Set_method_icon v) = Some (s\<lparr>pm_addIcon := v\<rparr>)"
| "method_step t s (Set_method_file f) = Some (s\<lparr>pm_addIconFile := f\<rparr>)"
| "method_step t s Add_method = Some (handleAddMethod t s)"
| "method_step t s (Delete_method_event confirmed i) = Some (handleDeleteMethod confirmed i s)"
| "method_step t s (Update_method i input) = Some (handleUpdateMethod i input s)"
| "method_step t s (Upload_icon_event i) = Some (handleUploadMethodIcon i s)"
| "method_step t s (Method_drag_start i) = Some (s\<lparr>pm_dragFrom := Some i\<rparr>)"
| "method_step t s (Method_drag_over i) = Some (s\<lparr>pm_dragTo := Some i\<rparr>)"
| "method_step t s Method_drop = drop_method s"
| "method_step t s Method_save_order = Some (save_method_order s)"

definition method_run :: "(string \<Rightarrow> string) \<Rightarrow> 'f MethodState option \<Rightarrow> 'f method_event \<Rightarrow> 'f MethodState option" where
  "method_run t s e = Option.bind s (\<lambda>s. method_step t s e)"

text \<open>A created method waits for its icon at most once: the requests that create a method are named, and
  a method that is sent together with a file carries no icon of its own.\<close>

definition method_call_ok :: "'f method_call \<Rightarrow> bool" where
  "method_call_ok c \<longleftrightarrow> (case c of Post_method input f \<Rightarrow> cpm_name input \<noteq> [] \<and> trim (cpm_name input) = cpm_name input
     \<and> (f = None \<or> cpm_icon input = []) | _ \<Rightarrow> True)"

lemma method_calls [simp]:
  "pm_calls (send_method c s) = pm_calls s @ [c]" "pm_calls (method_notice n s) = pm_calls s"
  by (simp_all add: send_method_def method_notice_def)

lemma method_answered_calls:
  "list_all method_call_ok (pm_calls s) \<Longrightarrow> list_all method_call_ok (pm_calls (method_answered t c r s))"
  by (cases "(t, c, r, s)" rule: method_answered.cases)
    (auto simp: method_added_def update_methods_def method_call_ok_def)

lemma method_step_ok:
  "list_all method_call_ok (pm_calls s) \<Longrightarrow> method_step t s e = Some s' \<Longrightarrow> list_all method_call_ok (pm_calls s')"
  by (cases e) (auto simp: handleAddMethod_def handleDeleteMethod_def handleUpdateMethod_def handleUploadMethodIcon_def
    save_method_order_def drop_method_def method_call_ok_def Let_def method_answered_calls split: if_splits option.splits)

interpretation method_page: event_machine "method_run t" "pred_option (\<lambda>s. list_all method_call_ok (pm_calls s))" for t
proof
  fix s :: "'a MethodState option" and e
  assume "pred_option (\<lambda>s. list_all method_call_ok (pm_calls s)) s"
  then show "pred_option (\<lambda>s. list_all method_call_ok (pm_calls s)) (method_run t s e)"
    using method_step_ok by (cases s) (auto simp: method_run_def option.pred_set split: option.splits)
qed

text \<open>An icon that cannot be stored does not lose the method: it is added without it.\<close>

lemma failed_icon_keeps_method:
  "methods (method_answered t (Upload_new_icon created) (Method_failed msg) s) = methods s @ [created]
    \<and> \<not> pm_addLoading (method_answered t (Upload_new_icon created) (Method_failed msg) s)"
  by (simp add: method_added_def method_notice_def)

end
