(* ===== verification/NotificationSettings.thy ===== *)
theory NotificationSettings
  imports Requests ChannelForm
begin

text \<open>
  The notification settings: \<open>web/src/features/settings/settings-notification-tab.tsx\<close> with the form
  (\<open>notification-channel-form.tsx\<close>), the list of channels (\<open>notification-channel-list.tsx\<close>), the policy
  (\<open>notification-policy-section.tsx\<close>) and the templates (\<open>notification-template-section.tsx\<close> and its
  dialog).  What a handler captured when it was rendered, and uses after its request, is part of the
  request: the channel before a toggle, the channels before a deletion, the templates before a change.
\<close>

subsection \<open>Data\<close>

record NotificationPolicy =
  days_before :: int
  notify_on_due_day :: bool
  notify_manual_renew_daily :: bool

record NotificationLog =
  lg_id :: int
  lg_channel_type :: string
  lg_notify_date :: string
  lg_status :: string
  lg_sent_at :: string

datatype TemplateFormat = Plaintext | Markdown | Html

record NotificationTemplate =
  tp_id :: int
  tp_channel_type :: "string option"
  tp_format :: TemplateFormat
  tp_template :: string

record CreateNotificationChannelInput =
  cn_type :: ChannelType
  cn_enabled :: bool
  cn_config :: string

record CreateTemplateInput =
  ct_channel_type :: "string option"
  ct_format :: TemplateFormat
  ct_template :: string

record UpdateTemplateInput =
  ut_format :: TemplateFormat
  ut_template :: string

datatype notify_call =
    Get_channels
  | Get_policy
  | Get_logs
  | Get_templates
  | Put_config int string
  | Post_channel CreateNotificationChannelInput
  | Put_enabled NotificationChannel bool
  | Delete_channel int "NotificationChannel list"
  | Test_channel int
  | Put_policy NotificationPolicy
  | Put_template int UpdateTemplateInput "NotificationTemplate list"
  | Post_template CreateTemplateInput "NotificationTemplate list"
  | Delete_template int "NotificationTemplate list"
  | Preview_template UpdateTemplateInput

datatype notify_reply =
    Notify_failed
  | Channels_are "NotificationChannel list option"
  | Policy_is "NotificationPolicy option"
  | Logs_are "NotificationLog list option"
  | Templates_are "NotificationTemplate list option"
  | Channel_is NotificationChannel
  | Template_is NotificationTemplate
  | Preview_is string
  | Notify_done

record NotificationState = "notify_call Section" +
  nt_active :: bool
  nt_loaded :: bool
  channels :: "NotificationChannel list"
  policy :: NotificationPolicy
  logs :: "NotificationLog list"
  templates :: "NotificationTemplate list"
  formOpen :: bool
  editingChannel :: "NotificationChannel option"
  formSaving :: bool
  policySaving :: bool
  testingChannelId :: "int option"
  updatingChannelId :: "int option"
  form_type :: ChannelType
  form_values :: NotificationChannelFormValues
  nt_alerts :: "string list"
  nt_crashed :: bool
  daysBefore :: string
  notifyOnDueDay :: bool
  notifyManualRenewDaily :: bool
  templateOpen :: bool
  editingTemplate :: "NotificationTemplate option"
  templateSaving :: bool
  channelType :: string
  template_format :: TemplateFormat
  templateContent :: string
  previewing :: bool
  previewResult :: "string option"

subsection \<open>The tab\<close>

text \<open>A new policy runs the effect of its section.\<close>

definition setPolicy :: "NotificationPolicy \<Rightarrow> NotificationState \<Rightarrow> NotificationState" where
  "setPolicy p s = s\<lparr>policy := p, daysBefore := int_to_string (days_before p), notifyOnDueDay := notify_on_due_day p,
     notifyManualRenewDaily := notify_manual_renew_daily p\<rparr>"

definition active_effect :: "NotificationState \<Rightarrow> NotificationState" where
  "active_effect s =
     (if \<not> nt_active s \<or> nt_loaded s then s
      else send Get_templates (send Get_logs (send Get_policy (send Get_channels (s\<lparr>nt_loaded := True\<rparr>)))))"

definition default_policy :: NotificationPolicy where
  "default_policy = \<lparr>days_before = 3, notify_on_due_day = True, notify_manual_renew_daily = False\<rparr>"

definition mount_notifications :: "bool \<Rightarrow> NotificationState" where
  "mount_notifications active = active_effect (setPolicy default_policy
     \<lparr>sc_open = [], sc_sent = [], sc_notices = [], nt_active = active, nt_loaded = False, channels = [], policy = default_policy,
      logs = [], templates = [], formOpen = False, editingChannel = None, formSaving = False, policySaving = False,
      testingChannelId = None, updatingChannelId = None, form_type = Smtp, form_values = initial_values (JObj []) [] [],
      nt_alerts = [], nt_crashed = False, daysBefore = [], notifyOnDueDay = False, notifyManualRenewDaily = False,
      templateOpen = False, editingTemplate = None, templateSaving = False, channelType = ''default'',
      template_format = Plaintext, templateContent = [], previewing = False, previewResult = None\<rparr>)"

subsection \<open>The form of a channel\<close>

text \<open>The form is mounted when it is opened, and its state initialised; an initial value that throws takes the page down.\<close>

definition open_form :: "NotificationChannel option \<Rightarrow> NotificationState \<Rightarrow> NotificationState" where
  "open_form ch s =
     (case createInitialValues ch of
        Inl err \<Rightarrow> s\<lparr>nt_crashed := True\<rparr>
      | Inr v \<Rightarrow> s\<lparr>editingChannel := ch, formOpen := True,
          form_type := (case ch of Some c \<Rightarrow> nc_type c | None \<Rightarrow> Smtp), form_values := v\<rparr>)"

definition handleAddChannel :: "NotificationState \<Rightarrow> NotificationState" where
  "handleAddChannel = open_form None"

definition handleEditChannel :: "NotificationChannel \<Rightarrow> NotificationState \<Rightarrow> NotificationState" where
  "handleEditChannel channel = open_form (Some channel)"

definition handleSaveChannel :: "ChannelType \<Rightarrow> string \<Rightarrow> NotificationState \<Rightarrow> NotificationState" where
  "handleSaveChannel ty cfg s =
     send (case editingChannel s of
             Some ch \<Rightarrow> Put_config (nc_id ch) cfg
           | None \<Rightarrow> Post_channel \<lparr>cn_type = ty, cn_enabled = True, cn_config = cfg\<rparr>) (s\<lparr>formSaving := True\<rparr>)"

definition form_submit :: "(string \<Rightarrow> string) \<Rightarrow> NotificationState \<Rightarrow> NotificationState" where
  "form_submit t s =
     (case buildConfig (form_type s) (form_values s) of
        Inl err \<Rightarrow> s\<lparr>nt_alerts := nt_alerts s @ [t ''settings.notifications.channels.configFields.headersInvalid'']\<rparr>
      | Inr cfg \<Rightarrow> handleSaveChannel (form_type s) cfg s)"

subsection \<open>The list of channels\<close>

definition with_channels :: "(NotificationChannel list \<Rightarrow> NotificationChannel list) \<Rightarrow> NotificationState \<Rightarrow> NotificationState" where
  "with_channels f s = s\<lparr>channels := f (channels s)\<rparr>"

definition replace_channel :: "NotificationChannel \<Rightarrow> NotificationChannel list \<Rightarrow> NotificationChannel list" where
  "replace_channel c = map (\<lambda>ch. if nc_id ch = nc_id c then c else ch)"

definition handleToggleChannel :: "NotificationChannel \<Rightarrow> bool \<Rightarrow> NotificationState \<Rightarrow> NotificationState" where
  "handleToggleChannel channel enabled s =
     send (Put_enabled channel enabled)
       (with_channels (map (\<lambda>ch. if nc_id ch = nc_id channel then ch\<lparr>nc_enabled := enabled\<rparr> else ch))
         (s\<lparr>updatingChannelId := Some (nc_id channel)\<rparr>))"

definition handleDeleteChannel :: "bool \<Rightarrow> NotificationChannel \<Rightarrow> NotificationState \<Rightarrow> NotificationState" where
  "handleDeleteChannel confirmed channel s =
     (if \<not> confirmed then s
      else send (Delete_channel (nc_id channel) (channels s)) (with_channels (filter (\<lambda>ch. nc_id ch \<noteq> nc_id channel)) s))"

definition handleTestChannel :: "NotificationChannel \<Rightarrow> NotificationState \<Rightarrow> NotificationState" where
  "handleTestChannel channel s = send (Test_channel (nc_id channel)) (s\<lparr>testingChannelId := Some (nc_id channel)\<rparr>)"

subsection \<open>The policy\<close>

definition MAX_NOTIFICATION_DAYS_BEFORE :: int where
  "MAX_NOTIFICATION_DAYS_BEFORE = 10"

definition policy_input :: "NotificationState \<Rightarrow> NotificationPolicy" where
  "policy_input s =
     \<lparr>days_before = (case parse_int (daysBefore s) of None \<Rightarrow> 3 | Some n \<Rightarrow> min MAX_NOTIFICATION_DAYS_BEFORE (max 0 n)),
      notify_on_due_day = notifyOnDueDay s, notify_manual_renew_daily = notifyManualRenewDaily s\<rparr>"

definition handleSavePolicy :: "NotificationPolicy \<Rightarrow> NotificationState \<Rightarrow> NotificationState" where
  "handleSavePolicy input s = send (Put_policy input) (s\<lparr>policySaving := True\<rparr>)"

subsection \<open>The templates\<close>

definition handleAdd :: "NotificationState \<Rightarrow> NotificationState" where
  "handleAdd s = s\<lparr>editingTemplate := None, channelType := ''default'', template_format := Plaintext, templateContent := [],
     previewResult := None, templateOpen := True\<rparr>"

definition handleEdit :: "NotificationTemplate \<Rightarrow> NotificationState \<Rightarrow> NotificationState" where
  "handleEdit template s = s\<lparr>editingTemplate := Some template, channelType := nullish (tp_channel_type template) ''default'',
     template_format := tp_format template, templateContent := tp_template template, previewResult := None, templateOpen := True\<rparr>"

definition handleDelete :: "bool \<Rightarrow> NotificationTemplate \<Rightarrow> NotificationState \<Rightarrow> NotificationState" where
  "handleDelete confirmed template s = (if \<not> confirmed then s else send (Delete_template (tp_id template) (templates s)) s)"

definition handlePreview :: "NotificationState \<Rightarrow> NotificationState" where
  "handlePreview s =
     (if trim (templateContent s) = [] then s
      else send (Preview_template \<lparr>ut_format = template_format s, ut_template = templateContent s\<rparr>) (s\<lparr>previewing := True\<rparr>))"

definition template_submit :: "NotificationState \<Rightarrow> NotificationState" where
  "template_submit s =
     (if trim (templateContent s) = [] then s
      else send
        (case editingTemplate s of
           Some tp \<Rightarrow> Put_template (tp_id tp) \<lparr>ut_format = template_format s, ut_template = templateContent s\<rparr> (templates s)
         | None \<Rightarrow> Post_template \<lparr>ct_channel_type = (if channelType s = ''default'' then None else Some (channelType s)),
             ct_format = template_format s, ct_template = templateContent s\<rparr> (templates s))
        (s\<lparr>templateSaving := True\<rparr>))"

subsection \<open>Answers\<close>

definition success_note :: "(string \<Rightarrow> string) \<Rightarrow> string \<Rightarrow> NotificationState \<Rightarrow> NotificationState" where
  "success_note t key = notify (Toast_success (t (''settings.notifications.'' @ key)))"

definition channel_saved ::
  "(string \<Rightarrow> string) \<Rightarrow> string \<Rightarrow> (NotificationChannel \<Rightarrow> NotificationChannel list \<Rightarrow> NotificationChannel list) \<Rightarrow> notify_reply \<Rightarrow> NotificationState \<Rightarrow> NotificationState" where
  "channel_saved t key f r s =
     (case r of
        Channel_is c \<Rightarrow> (success_note t key (with_channels (f c) s))\<lparr>formOpen := False, formSaving := False\<rparr>
      | _ \<Rightarrow> s\<lparr>formSaving := False\<rparr>)"

definition toggle_answered :: "NotificationChannel \<Rightarrow> notify_reply \<Rightarrow> NotificationState \<Rightarrow> NotificationState" where
  "toggle_answered channel r s =
     (with_channels (replace_channel (case r of Channel_is c \<Rightarrow> c | _ \<Rightarrow> channel)) s)\<lparr>updatingChannelId := None\<rparr>"

definition policy_saved :: "(string \<Rightarrow> string) \<Rightarrow> notify_reply \<Rightarrow> NotificationState \<Rightarrow> NotificationState" where
  "policy_saved t r s =
     (case r of
        Policy_is p \<Rightarrow>
          (success_note t ''policy.saveSuccess'' (case p of None \<Rightarrow> s | Some updated \<Rightarrow> setPolicy updated s))\<lparr>policySaving := False\<rparr>
      | _ \<Rightarrow> s\<lparr>policySaving := False\<rparr>)"

definition template_saved ::
  "(string \<Rightarrow> string) \<Rightarrow> string \<Rightarrow> (NotificationTemplate \<Rightarrow> NotificationTemplate list) \<Rightarrow> notify_reply \<Rightarrow> NotificationState \<Rightarrow> NotificationState" where
  "template_saved t key f r s =
     (case r of
        Template_is tp \<Rightarrow> (success_note t key (s\<lparr>templates := f tp\<rparr>))\<lparr>templateOpen := False, templateSaving := False\<rparr>
      | _ \<Rightarrow> s\<lparr>templateSaving := False\<rparr>)"

fun notify_answered :: "(string \<Rightarrow> string) \<Rightarrow> notify_reply \<Rightarrow> notify_call \<Rightarrow> NotificationState \<Rightarrow> NotificationState" where
  "notify_answered t r Get_channels s = (case r of Channels_are xs \<Rightarrow> s\<lparr>channels := nullish xs []\<rparr> | _ \<Rightarrow> s)"
| "notify_answered t r Get_policy s = (case r of Policy_is (Some data) \<Rightarrow> setPolicy data s | _ \<Rightarrow> s)"
| "notify_answered t r Get_logs s = (case r of Logs_are xs \<Rightarrow> s\<lparr>logs := nullish xs []\<rparr> | _ \<Rightarrow> s)"
| "notify_answered t r Get_templates s = (case r of Templates_are xs \<Rightarrow> s\<lparr>templates := nullish xs []\<rparr> | _ \<Rightarrow> s)"
| "notify_answered t r (Put_config i cfg) s = channel_saved t ''channels.updateSuccess'' replace_channel r s"
| "notify_answered t r (Post_channel input) s = channel_saved t ''channels.addSuccess'' (\<lambda>c cs. cs @ [c]) r s"
| "notify_answered t r (Put_enabled channel enabled) s = toggle_answered channel r s"
| "notify_answered t r (Delete_channel i previousChannels) s =
     (if r = Notify_failed then s\<lparr>channels := previousChannels\<rparr> else success_note t ''channels.deleteSuccess'' s)"
| "notify_answered t r (Test_channel i) s =
     (if r = Notify_failed then s else success_note t ''channels.testSuccess'' s)\<lparr>testingChannelId := None\<rparr>"
| "notify_answered t r (Put_policy input) s = policy_saved t r s"
| "notify_answered t r (Put_template i input captured) s =
     template_saved t ''templates.updateSuccess'' (\<lambda>updated. map (\<lambda>item. if tp_id item = tp_id updated then updated else item) captured) r s"
| "notify_answered t r (Post_template input captured) s = template_saved t ''templates.addSuccess'' (\<lambda>created. captured @ [created]) r s"
| "notify_answered t r (Delete_template i captured) s =
     (if r = Notify_failed then s
      else success_note t ''templates.deleteSuccess'' (s\<lparr>templates := filter (\<lambda>item. tp_id item \<noteq> i) captured\<rparr>))"
| "notify_answered t r (Preview_template input) s =
     (case r of Preview_is v \<Rightarrow> s\<lparr>previewResult := Some v, previewing := False\<rparr> | _ \<Rightarrow> s\<lparr>previewing := False\<rparr>)"

datatype notify_event =
    Notify_answer nat notify_reply
  | Notifications_active bool
  | Add_channel
  | Edit_channel nat
  | Close_form
  | Form_type ChannelType
  | Value_change "NotificationChannelFormValues \<Rightarrow> NotificationChannelFormValues"
  | Form_submit
  | Toggle nat bool
  | Delete_channel_button bool nat
  | Test_button nat
  | Days_typed string
  | Due_day_switch bool
  | Daily_switch bool
  | Policy_submit
  | Add_template
  | Edit_template nat
  | Delete_template_button bool nat
  | Close_template
  | Template_channel string
  | Template_format TemplateFormat
  | Template_typed string
  | Preview_button
  | Template_submit

text \<open>The rows of the lists are addressed by their place in what is shown.\<close>

definition on_row :: "nat \<Rightarrow> 'a list \<Rightarrow> ('a \<Rightarrow> NotificationState \<Rightarrow> NotificationState) \<Rightarrow> NotificationState \<Rightarrow> NotificationState" where
  "on_row n xs f s = (if n < length xs then f (xs ! n) s else s)"

text \<open>Nothing behind an open dialog can be pressed.\<close>

definition behind :: "(NotificationState \<Rightarrow> NotificationState) \<Rightarrow> NotificationState \<Rightarrow> NotificationState" where
  "behind f s = (if formOpen s \<or> templateOpen s then s else f s)"

fun notify_live :: "(string \<Rightarrow> string) \<Rightarrow> NotificationState \<Rightarrow> notify_event \<Rightarrow> NotificationState" where
  "notify_live t s (Notify_answer n r) = answer (notify_answered t r) n s"
| "notify_live t s (Notifications_active v) = active_effect (s\<lparr>nt_active := v\<rparr>)"
| "notify_live t s Add_channel = behind handleAddChannel s"
| "notify_live t s (Edit_channel n) = behind (on_row n (channels s) handleEditChannel) s"
| "notify_live t s Close_form = s\<lparr>formOpen := False\<rparr>"
| "notify_live t s (Form_type ty) = (if formOpen s \<and> editingChannel s = None then s\<lparr>form_type := ty\<rparr> else s)"
| "notify_live t s (Value_change f) = (if formOpen s then s\<lparr>form_values := f (form_values s)\<rparr> else s)"
| "notify_live t s Form_submit = (if formOpen s \<and> \<not> formSaving s then form_submit t s else s)"
| "notify_live t s (Toggle n v) =
     behind (on_row n (channels s) (\<lambda>c s. if updatingChannelId s = Some (nc_id c) then s else handleToggleChannel c v s)) s"
| "notify_live t s (Delete_channel_button confirmed n) = behind (on_row n (channels s) (handleDeleteChannel confirmed)) s"
| "notify_live t s (Test_button n) =
     behind (on_row n (channels s) (\<lambda>c s. if testingChannelId s = Some (nc_id c) then s else handleTestChannel c s)) s"
| "notify_live t s (Days_typed v) = behind (\<lambda>s. s\<lparr>daysBefore := v\<rparr>) s"
| "notify_live t s (Due_day_switch v) = behind (\<lambda>s. s\<lparr>notifyOnDueDay := v\<rparr>) s"
| "notify_live t s (Daily_switch v) = behind (\<lambda>s. s\<lparr>notifyManualRenewDaily := v\<rparr>) s"
| "notify_live t s Policy_submit = behind (\<lambda>s. if policySaving s then s else handleSavePolicy (policy_input s) s) s"
| "notify_live t s Add_template = behind handleAdd s"
| "notify_live t s (Edit_template n) = behind (on_row n (templates s) handleEdit) s"
| "notify_live t s (Delete_template_button confirmed n) = behind (on_row n (templates s) (handleDelete confirmed)) s"
| "notify_live t s Close_template = s\<lparr>templateOpen := False\<rparr>"
| "notify_live t s (Template_channel v) = (if templateOpen s \<and> editingTemplate s = None then s\<lparr>channelType := v\<rparr> else s)"
| "notify_live t s (Template_format v) = (if templateOpen s then s\<lparr>template_format := v\<rparr> else s)"
| "notify_live t s (Template_typed v) = (if templateOpen s \<and> length v \<le> 2000 then s\<lparr>templateContent := v\<rparr> else s)"
| "notify_live t s Preview_button =
     (if templateOpen s \<and> \<not> (previewing s \<or> trim (templateContent s) = []) then handlePreview s else s)"
| "notify_live t s Template_submit =
     (if templateOpen s \<and> \<not> (templateSaving s \<or> trim (templateContent s) = []) then template_submit s else s)"

definition notify_step :: "(string \<Rightarrow> string) \<Rightarrow> NotificationState \<Rightarrow> notify_event \<Rightarrow> NotificationState" where
  "notify_step t s e = (if nt_crashed s then s else notify_live t s e)"

subsection \<open>One request of a kind at a time\<close>

definition saves_channel :: "notify_call \<Rightarrow> bool" where
  "saves_channel c \<longleftrightarrow> (case c of Put_config i cfg \<Rightarrow> True | Post_channel input \<Rightarrow> True | _ \<Rightarrow> False)"

definition saves_policy :: "notify_call \<Rightarrow> bool" where
  "saves_policy c \<longleftrightarrow> (case c of Put_policy p \<Rightarrow> True | _ \<Rightarrow> False)"

definition saves_template :: "notify_call \<Rightarrow> bool" where
  "saves_template c \<longleftrightarrow> (case c of Put_template i input ts \<Rightarrow> True | Post_template input ts \<Rightarrow> True | _ \<Rightarrow> False)"

definition previews :: "notify_call \<Rightarrow> bool" where
  "previews c \<longleftrightarrow> (case c of Preview_template input \<Rightarrow> True | _ \<Rightarrow> False)"

lemmas kind_defs = saves_channel_def saves_policy_def saves_template_def previews_def

fun notify_call_ok :: "notify_call \<Rightarrow> bool" where
  "notify_call_ok (Put_policy p) \<longleftrightarrow> 0 \<le> days_before p \<and> days_before p \<le> 10"
| "notify_call_ok (Put_template i input ts) \<longleftrightarrow> trim (ut_template input) \<noteq> []"
| "notify_call_ok (Post_template input ts) \<longleftrightarrow> trim (ct_template input) \<noteq> [] \<and> ct_channel_type input \<noteq> Some ''default''"
| "notify_call_ok (Preview_template input) \<longleftrightarrow> trim (ut_template input) \<noteq> []"
| "notify_call_ok c \<longleftrightarrow> True"

definition pending_ok :: "(notify_call \<Rightarrow> bool) \<Rightarrow> bool \<Rightarrow> NotificationState \<Rightarrow> bool" where
  "pending_ok p b s \<longleftrightarrow> open_of p s = (if b then 1 else 0)"

definition notifications_ok :: "NotificationState \<Rightarrow> bool" where
  "notifications_ok s \<longleftrightarrow> list_all notify_call_ok (sc_sent s) \<and> pending_ok saves_channel (formSaving s) s
     \<and> pending_ok saves_policy (policySaving s) s \<and> pending_ok saves_template (templateSaving s) s \<and> pending_ok previews (previewing s) s"

lemmas notify_defs = setPolicy_def active_effect_def open_form_def handleAddChannel_def handleEditChannel_def handleSaveChannel_def
  form_submit_def with_channels_def handleToggleChannel_def handleDeleteChannel_def handleTestChannel_def handleSavePolicy_def
  handleAdd_def handleEdit_def handleDelete_def handlePreview_def template_submit_def channel_saved_def toggle_answered_def policy_saved_def template_saved_def success_note_def on_row_def behind_def request_defs

lemma pending_free: "n < length (sc_open s) \<Longrightarrow> pending_ok p b s \<Longrightarrow> p (sc_open s ! n) \<Longrightarrow> b"
  using open_of_positive [of n s p] by (auto simp: pending_ok_def split: if_splits)

lemmas answer_defs = channel_saved_def toggle_answered_def policy_saved_def template_saved_def success_note_def notify_def
  with_channels_def setPolicy_def

lemma answered_requests [simp]:
  "sc_open (notify_answered t r c s) = sc_open s" "sc_sent (notify_answered t r c s) = sc_sent s"
  by (cases c; simp add: answer_defs split: notify_reply.split option.split)+

lemma answered_flags [simp]:
  "formSaving (notify_answered t r c s) \<longleftrightarrow> formSaving s \<and> \<not> saves_channel c"
  "policySaving (notify_answered t r c s) \<longleftrightarrow> policySaving s \<and> \<not> saves_policy c"
  "templateSaving (notify_answered t r c s) \<longleftrightarrow> templateSaving s \<and> \<not> saves_template c"
  "previewing (notify_answered t r c s) \<longleftrightarrow> previewing s \<and> \<not> previews c"
  by (cases c; simp add: answer_defs kind_defs split: notify_reply.split option.split)+

lemma pending_cong: "sc_open s' = sc_open s \<Longrightarrow> pending_ok p b s' = pending_ok p b s"
  by (simp add: pending_ok_def open_of_def)

lemma pending_answered:
  assumes n: "n < length (sc_open s)" and "pending_ok p b s" and "sc_open s' = without n (sc_open s)"
  shows "pending_ok p (b \<and> \<not> p (sc_open s ! n)) s'"
  using pending_free [OF n assms(2)] assms by (auto simp: pending_ok_def open_of_def without_filter split: if_splits)

lemma notify_answered_ok:
  assumes ok: "notifications_ok s" and n: "n < length (sc_open s)"
  shows "notifications_ok (notify_answered t r (sc_open s ! n) (s\<lparr>sc_open := without n (sc_open s)\<rparr>))"
  using ok pending_answered [OF n, of _ _ "notify_answered t r (sc_open s ! n) (s\<lparr>sc_open := without n (sc_open s)\<rparr>)"]
  by (simp add: notifications_ok_def)

lemma pending_send:
  "pending_ok p b s \<Longrightarrow> \<not> p c \<Longrightarrow> pending_ok p b (send c s)"
  "pending_ok p False s \<Longrightarrow> p c \<Longrightarrow> pending_ok p True (send c s)"
  by (simp_all add: pending_ok_def)

lemma ok_frame:
  "notifications_ok s \<Longrightarrow> sc_open s' = sc_open s \<Longrightarrow> sc_sent s' = sc_sent s \<Longrightarrow> formSaving s' = formSaving s \<Longrightarrow>
   policySaving s' = policySaving s \<Longrightarrow> templateSaving s' = templateSaving s \<Longrightarrow> previewing s' = previewing s \<Longrightarrow> notifications_ok s'"
  by (simp add: notifications_ok_def pending_ok_def open_of_def)

lemma ok_send:
  "notifications_ok s \<Longrightarrow> notify_call_ok c \<Longrightarrow> \<not> saves_channel c \<Longrightarrow> \<not> saves_policy c \<Longrightarrow> \<not> saves_template c \<Longrightarrow> \<not> previews c \<Longrightarrow>
   notifications_ok (send c s)"
  by (simp add: notifications_ok_def pending_ok_def send_def open_of_def)

lemma active_effect_ok: "notifications_ok s \<Longrightarrow> notifications_ok (active_effect s)"
  unfolding active_effect_def by (auto intro!: ok_send intro: ok_frame simp: kind_defs)

lemma form_submit_ok: "notifications_ok s \<Longrightarrow> \<not> formSaving s \<Longrightarrow> notifications_ok (form_submit t s)"
proof -
  assume ok: "notifications_ok s" and free: "\<not> formSaving s"
  have "notifications_ok (send c (s\<lparr>formSaving := True\<rparr>))" if "saves_channel c" for c
    using ok free that by (cases c) (simp_all add: notifications_ok_def pending_ok_def send_def open_of_def kind_defs)
  then have "notifications_ok (handleSaveChannel ty cfg s)" for ty cfg
    unfolding handleSaveChannel_def by (simp add: kind_defs split: option.split)
  moreover have "notifications_ok (s\<lparr>nt_alerts := xs\<rparr>)" for xs using ok by (intro ok_frame [OF ok]) simp_all
  ultimately show ?thesis unfolding form_submit_def by (cases "buildConfig (form_type s) (form_values s)") simp_all
qed

lemma policy_input_bounds: "0 \<le> days_before (policy_input s) \<and> days_before (policy_input s) \<le> 10"
  by (simp add: policy_input_def MAX_NOTIFICATION_DAYS_BEFORE_def split: option.split)

lemma policy_submit_ok: "notifications_ok s \<Longrightarrow> \<not> policySaving s \<Longrightarrow> notifications_ok (handleSavePolicy (policy_input s) s)"
  using policy_input_bounds [of s]
  by (simp add: handleSavePolicy_def notifications_ok_def pending_ok_def send_def open_of_def kind_defs)

lemma template_submit_ok: "notifications_ok s \<Longrightarrow> \<not> templateSaving s \<Longrightarrow> notifications_ok (template_submit s)"
  by (auto simp: template_submit_def notifications_ok_def pending_ok_def send_def open_of_def kind_defs split: option.split if_splits)

lemma preview_ok: "notifications_ok s \<Longrightarrow> \<not> previewing s \<Longrightarrow> notifications_ok (handlePreview s)"
  by (auto simp: handlePreview_def notifications_ok_def pending_ok_def send_def open_of_def kind_defs split: if_splits)

lemma channel_buttons_ok:
  assumes "notifications_ok s"
  shows "notifications_ok (handleToggleChannel c v s)" "notifications_ok (handleDeleteChannel confirmed c s)"
    "notifications_ok (handleTestChannel c s)" "notifications_ok (handleDelete confirmed tp s)"
proof -
  show "notifications_ok (handleToggleChannel c v s)" unfolding handleToggleChannel_def
    by (rule ok_send) (auto intro: ok_frame [OF assms] simp: kind_defs with_channels_def)
  show "notifications_ok (handleDeleteChannel confirmed c s)" unfolding handleDeleteChannel_def
    using assms by (auto intro!: ok_send intro: ok_frame simp: kind_defs with_channels_def)
  show "notifications_ok (handleTestChannel c s)" unfolding handleTestChannel_def
    by (rule ok_send) (auto intro: ok_frame [OF assms] simp: kind_defs)
  show "notifications_ok (handleDelete confirmed tp s)" unfolding handleDelete_def
    using assms by (auto intro!: ok_send simp: kind_defs)
qed

lemma open_form_ok: "notifications_ok s \<Longrightarrow> notifications_ok (open_form ch s)"
  by (rule ok_frame, assumption) (simp_all add: open_form_def split: sum.split)

lemma behind_ok: "notifications_ok s \<Longrightarrow> (notifications_ok s \<Longrightarrow> notifications_ok (f s)) \<Longrightarrow> notifications_ok (behind f s)"
  by (simp add: behind_def)

lemma on_row_ok: "notifications_ok s \<Longrightarrow> (\<And>x. notifications_ok (f x s)) \<Longrightarrow> notifications_ok (on_row n xs f s)"
  by (simp add: on_row_def)

lemma notify_live_ok: "notifications_ok s \<Longrightarrow> notifications_ok (notify_live t s e)"
proof (cases e)
  case (Notify_answer n r)
  assume "notifications_ok s"
  then show ?thesis using Notify_answer notify_answered_ok by (simp add: answer_def)
next
  case (Notifications_active v)
  assume "notifications_ok s"
  then have "notifications_ok (s\<lparr>nt_active := v\<rparr>)" by (rule ok_frame) simp_all
  then show ?thesis using Notifications_active active_effect_ok by simp
next
  case (Days_typed v)
  assume "notifications_ok s"
  then show ?thesis using Days_typed by (auto simp: behind_def intro: ok_frame)
next
  case (Due_day_switch v)
  assume "notifications_ok s"
  then show ?thesis using Due_day_switch by (auto simp: behind_def intro: ok_frame)
next
  case (Daily_switch v)
  assume "notifications_ok s"
  then show ?thesis using Daily_switch by (auto simp: behind_def intro: ok_frame)
qed (auto intro!: behind_ok on_row_ok
      simp: handleAddChannel_def handleEditChannel_def handleAdd_def handleEdit_def open_form_ok channel_buttons_ok form_submit_ok
        policy_submit_ok template_submit_ok preview_ok
      intro: ok_frame)

lemma notify_step_ok: "notifications_ok s \<Longrightarrow> notifications_ok (notify_step t s e)"
  by (simp add: notify_step_def notify_live_ok)

interpretation notifications: event_machine "notify_step t" notifications_ok for t
  by unfold_locales (rule notify_step_ok)

lemma mount_notifications_ok: "notifications_ok (mount_notifications active)"
  unfolding mount_notifications_def
  by (rule active_effect_ok) (simp add: setPolicy_def notifications_ok_def pending_ok_def open_of_def)


text \<open>A policy that the server may hold is sent back as it is when nothing is changed.\<close>

lemma policy_saved_unchanged:
  assumes "0 \<le> days_before p" and "days_before p \<le> 10"
  shows "policy_input (setPolicy p s) = p"
  using assms by (simp add: policy_input_def setPolicy_def parse_int_int_to_string MAX_NOTIFICATION_DAYS_BEFORE_def)

subsection \<open>Changes that fail\<close>

text \<open>Events that leave the list of channels alone: everything but its buttons, its dialog's answer and a load.\<close>

definition touches :: "notify_call \<Rightarrow> bool" where
  "touches c \<longleftrightarrow> (case c of Get_channels \<Rightarrow> True | Put_config i cfg \<Rightarrow> True | Post_channel input \<Rightarrow> True
     | Put_enabled ch v \<Rightarrow> True | Delete_channel i chs \<Rightarrow> True | _ \<Rightarrow> False)"

fun leaves_channels :: "NotificationState \<Rightarrow> notify_event \<Rightarrow> bool" where
  "leaves_channels s (Notify_answer n r) \<longleftrightarrow> \<not> (n < length (sc_open s) \<and> touches (sc_open s ! n))"
| "leaves_channels s (Toggle n v) \<longleftrightarrow> False"
| "leaves_channels s (Delete_channel_button confirmed n) \<longleftrightarrow> False"
| "leaves_channels s e \<longleftrightarrow> True"

fun all_leave :: "(string \<Rightarrow> string) \<Rightarrow> NotificationState \<Rightarrow> notify_event list \<Rightarrow> bool" where
  "all_leave t s [] = True"
| "all_leave t s (e # es) = (leaves_channels s e \<and> all_leave t (notify_step t s e) es)"

lemma leaves_step: "leaves_channels s e \<Longrightarrow> channels (notify_step t s e) = channels s"
proof (cases e)
  case (Notify_answer n r)
  assume "leaves_channels s e"
  moreover have "\<not> touches c \<Longrightarrow> channels (notify_answered t r c s') = channels s'" for c s'
    by (cases c) (simp_all add: touches_def answer_defs split: notify_reply.split option.split)
  ultimately show ?thesis using Notify_answer by (simp add: notify_step_def answer_def)
qed (simp_all add: notify_step_def notify_defs split: option.split sum.split)

lemma leaves_run: "all_leave t s es \<Longrightarrow> channels (foldl (notify_step t) s es) = channels s"
  by (induction es arbitrary: s) (simp_all add: leaves_step)

lemma replace_restores:
  assumes "distinct (map nc_id cs)" and "c \<in> set cs"
  shows "replace_channel c (map (\<lambda>ch. if nc_id ch = nc_id c then ch\<lparr>nc_enabled := v\<rparr> else ch) cs) = cs"
proof -
  have "c = x" if "x \<in> set cs" "nc_id x = nc_id c" for x
    using assms that by (metis distinct_map inj_on_contraD)
  then show ?thesis by (auto simp: replace_channel_def intro!: map_idI)
qed

lemma toggle_sent:
  assumes "sc_open (notify_step t s (Toggle k v)) = sc_open s @ [c]"
  shows "k < length (channels s) \<and> c = Put_enabled (channels s ! k) v
    \<and> channels (notify_step t s (Toggle k v)) = map (\<lambda>ch. if nc_id ch = nc_id (channels s ! k) then ch\<lparr>nc_enabled := v\<rparr> else ch) (channels s)"
  using assms by (auto simp: notify_step_def notify_defs split: if_splits)

lemma deletion_sent:
  assumes "sc_open (notify_step t s (Delete_channel_button True k)) = sc_open s @ [c]"
  shows "c = Delete_channel (nc_id (channels s ! k)) (channels s)"
  using assms by (auto simp: notify_step_def notify_defs split: if_splits)

text \<open>C13: a change of the list of channels that the server refuses is undone: when nothing else touched the list in
  between, a toggle or a deletion that fails leaves the list as it was before, the order of the channels included.\<close>

theorem failed_changes_are_undone:
  assumes "distinct (map nc_id (channels s))" and e: "e = Toggle k v \<or> e = Delete_channel_button True k"
    and "sc_open (notify_step t s e) = sc_open s @ [c]" and "all_leave t (notify_step t s e) es"
    and "u = foldl (notify_step t) (notify_step t s e) es" and "\<not> nt_crashed u" and "n < length (sc_open u)" and "sc_open u ! n = c"
  shows "channels (notify_step t u (Notify_answer n Notify_failed)) = channels s"
proof -
  have u: "channels u = channels (notify_step t s e)" using leaves_run assms(4,5) by simp
  have answered: "channels (notify_step t u (Notify_answer n Notify_failed))
      = channels (notify_answered t Notify_failed c (u\<lparr>sc_open := without n (sc_open u)\<rparr>))"
    using assms(6-8) by (simp add: notify_step_def answer_def)
  from e show ?thesis
  proof
    assume "e = Toggle k v"
    with toggle_sent [of t s k v c] assms(3) u have "k < length (channels s)" "c = Put_enabled (channels s ! k) v"
      "channels u = map (\<lambda>ch. if nc_id ch = nc_id (channels s ! k) then ch\<lparr>nc_enabled := v\<rparr> else ch) (channels s)" by simp_all
    then show ?thesis
      using replace_restores [OF assms(1), of "channels s ! k" v] by (simp add: answered toggle_answered_def with_channels_def)
  next
    assume "e = Delete_channel_button True k"
    with deletion_sent [of t s k c] assms(3) show ?thesis by (simp add: answered)
  qed
qed

definition a_channel :: "int \<Rightarrow> NotificationChannel" where
  "a_channel i = \<lparr>nc_id = i, nc_type = Bark, nc_enabled = True, nc_config = ''{}'', nc_configured_secret_fields = None,
     nc_configured_webhook_header_keys = None, nc_created_at = [], nc_updated_at = []\<rparr>"

definition three_channels :: NotificationState where
  "three_channels = foldl (notify_step id) (mount_notifications True)
     [Notify_answer 0 (Channels_are (Some [a_channel 1, a_channel 2, a_channel 3]))]"

theorem failed_changes_are_undone_witness:
  "channels (notify_step id (foldl (notify_step id) three_channels [Toggle 1 False, Days_typed ''5'', Policy_submit, Add_template])
     (Notify_answer 3 Notify_failed)) = channels three_channels"
proof (rule failed_changes_are_undone [where e = "Toggle 1 False" and k = 1 and v = False
      and c = "Put_enabled (a_channel 2) False" and es = "[Days_typed ''5'', Policy_submit, Add_template]"])
  show "distinct (map nc_id (channels three_channels))" by code_simp
  show "sc_open (notify_step id three_channels (Toggle 1 False)) = sc_open three_channels @ [Put_enabled (a_channel 2) False]"
    by code_simp
  show "all_leave id (notify_step id three_channels (Toggle 1 False)) [Days_typed ''5'', Policy_submit, Add_template]" by code_simp
  let ?u = "foldl (notify_step id) three_channels [Toggle 1 False, Days_typed ''5'', Policy_submit, Add_template]"
  show "\<not> nt_crashed ?u" "3 < length (sc_open ?u)" "sc_open ?u ! 3 = Put_enabled (a_channel 2) False" by code_simp+
qed simp_all

text \<open>
  The lists and the form that a handler captured are put back as they were then.  A channel that was added while a
  deletion was under way disappears when the deletion fails; a template that was deleted reappears when a second
  deletion, begun before the first was answered, succeeds; and the answer to saving one channel closes the form of
  another one that was opened meanwhile, with what was typed in it.
\<close>

lemma failed_deletion_drops_new_channel:
  "map nc_id (channels (foldl (notify_step id) three_channels
     [Delete_channel_button True 0, Add_channel, Value_change (\<lambda>v. v), Form_type Bark, Form_submit,
      Notify_answer 4 (Channel_is (a_channel 4)), Notify_answer 3 Notify_failed])) = [1, 2, 3]"
  by code_simp

definition a_template :: "int \<Rightarrow> NotificationTemplate" where
  "a_template i = \<lparr>tp_id = i, tp_channel_type = None, tp_format = Plaintext, tp_template = ''due''\<rparr>"

lemma deleted_template_reappears:
  "map tp_id (templates (foldl (notify_step id) (mount_notifications True)
     [Notify_answer 3 (Templates_are (Some [a_template 1, a_template 2])), Delete_template_button True 0, Delete_template_button True 1,
      Notify_answer 3 Notify_done, Notify_answer 3 Notify_done])) = [1]"
  by code_simp

lemma saving_closes_another_form:
  "(let s = foldl (notify_step id) three_channels [Edit_channel 0, Form_submit, Close_form, Edit_channel 1];
        s' = notify_step id s (Notify_answer 3 (Channel_is (a_channel 1)))
    in formOpen s \<and> map_option nc_id (editingChannel s) = Some 2 \<and> \<not> formOpen s')"
  by code_simp

end
