(* ===== verification/PaymentSettings.thy ===== *)
theory PaymentSettings
  imports Currencies Reorder Interfaces
begin

text \<open>
  The currency settings, \<open>web/src/features/settings/hooks/use-settings-payment.ts\<close>.  The hook's
  state and refs are the record \<open>PaymentState\<close>.  \<open>pay_calls\<close> records the requests that were sent
  and \<open>pay_open\<close> those without an answer; an answer is an event, so that answers, drags and edits can
  interleave.  \<open>pay_ref\<close> counts the calls of \<open>setUserCurrencies\<close>: every call passes a new array,
  and an effect runs again when the array is a new one, whatever it holds.

  Effects read the rendered state and run after the rendering when one of their dependencies has changed;
  \<open>settle\<close> renders until none changes.  The language is fixed, and the preset caches are left out of
  the state: a lookup does not depend on them.
\<close>

definition customCodeOption :: string where
  "customCodeOption = ''__custom__''"

definition currencyPlaceholderFallbackCode :: string where
  "currencyPlaceholderFallbackCode = ''USD''"

record PaymentEnv =
  pe_intl :: Intl
  pe_language :: string
  pe_t :: "string \<Rightarrow> string"

datatype pay_call =
    Get_preference
  | Get_currencies
  | Put_preference string
  | Post_currency CreateCurrencyInput bool
  | Delete_currency int
  | Put_currency int UpdateCurrencyInput
  | Put_order "ReorderCurrencyItem list"

text \<open>The flag of \<open>Post_currency\<close> is \<open>addCode === customCodeOption\<close> at the time of the call,
  which the continuation tests again.\<close>

datatype pay_reply =
    Failed string
  | Preference "string option"
  | Currencies "UserCurrency list option"
  | Currency UserCurrency
  | No_content

datatype notice = Error_notice string | Success_notice string

record PaymentState =
  pay_currency :: string
  userCurrencies :: "UserCurrency list"
  addCode :: string
  customCode :: string
  addSymbol :: string
  addAlias :: string
  addLoading :: bool
  orderChanged :: bool
  orderSaving :: bool
  dragFrom :: "nat option"
  dragTo :: "nat option"
  paymentLoaded :: bool
  pay_ref :: nat
  pay_items :: items
  pay_calls :: "pay_call list"
  pay_open :: "pay_call list"
  pay_notices :: "notice list"
  pay_crashed :: bool

subsection \<open>Placeholders\<close>

definition getIntlCurrencySymbolPlaceholder :: "Intl \<Rightarrow> string \<Rightarrow> string \<Rightarrow> string option" where
  "getIntlCurrencySymbolPlaceholder intl cur locale =
     map_option snd (List.find (\<lambda>part. fst part = Currency_part) (format_parts intl locale cur 0 0))"

definition getIntlCurrencyAliasPlaceholder :: "Intl \<Rightarrow> string \<Rightarrow> string \<Rightarrow> string option" where
  "getIntlCurrencyAliasPlaceholder intl cur locale = display_name intl locale cur"

definition preset_meta :: "PaymentEnv \<Rightarrow> string \<Rightarrow> PresetCurrency option" where
  "preset_meta env cur = preset_for (pe_intl env) (pe_language env) cur"

definition preset_codes :: "PaymentEnv \<Rightarrow> string list" where
  "preset_codes env = map pc_code (fst (getPresetCurrencies (pe_intl env) (pe_language env) no_caches))"

definition addPlaceholderCode :: "PaymentState \<Rightarrow> string" where
  "addPlaceholderCode s =
     (if addCode s = customCodeOption
      then or_str (toUpperCase (trim (customCode s))) currencyPlaceholderFallbackCode
      else or_str (addCode s) currencyPlaceholderFallbackCode)"

definition intlFallbackSymbolPlaceholder :: "PaymentEnv \<Rightarrow> string" where
  "intlFallbackSymbolPlaceholder env = nullish
     (getIntlCurrencySymbolPlaceholder (pe_intl env) currencyPlaceholderFallbackCode (pe_language env))
     currencyPlaceholderFallbackCode"

definition intlFallbackAliasPlaceholder :: "PaymentEnv \<Rightarrow> string" where
  "intlFallbackAliasPlaceholder env = nullish
     (getIntlCurrencyAliasPlaceholder (pe_intl env) currencyPlaceholderFallbackCode (pe_language env))
     currencyPlaceholderFallbackCode"

definition getCurrencySymbolPlaceholder :: "PaymentEnv \<Rightarrow> string \<Rightarrow> string" where
  "getCurrencySymbolPlaceholder env cur =
     nullish (map_option pc_symbol (preset_meta env cur))
       (nullish (getIntlCurrencySymbolPlaceholder (pe_intl env) cur (pe_language env)) (intlFallbackSymbolPlaceholder env))"

definition getCurrencyAliasPlaceholder :: "PaymentEnv \<Rightarrow> string \<Rightarrow> string" where
  "getCurrencyAliasPlaceholder env cur =
     nullish (map_option pc_alias (preset_meta env cur))
       (nullish (getIntlCurrencyAliasPlaceholder (pe_intl env) cur (pe_language env)) (intlFallbackAliasPlaceholder env))"

definition addSymbolPlaceholder :: "PaymentEnv \<Rightarrow> PaymentState \<Rightarrow> string" where
  "addSymbolPlaceholder env s = getCurrencySymbolPlaceholder env (addPlaceholderCode s)"

definition addAliasPlaceholder :: "PaymentEnv \<Rightarrow> PaymentState \<Rightarrow> string" where
  "addAliasPlaceholder env s = getCurrencyAliasPlaceholder env (addPlaceholderCode s)"

definition addableCurrencyCodes :: "PaymentEnv \<Rightarrow> PaymentState \<Rightarrow> string list" where
  "addableCurrencyCodes env s = filter (\<lambda>cur. \<not> list_ex (\<lambda>item. uc_code item = cur) (userCurrencies s)) (preset_codes env)"

definition preferredCurrencyCodes :: "PaymentState \<Rightarrow> string list" where
  "preferredCurrencyCodes s = (if 0 < length (userCurrencies s) then map uc_code (userCurrencies s) else DEFAULT_CURRENCY_FALLBACK)"

subsection \<open>Effects\<close>

definition send :: "pay_call \<Rightarrow> PaymentState \<Rightarrow> PaymentState" where
  "send c s = s\<lparr>pay_calls := pay_calls s @ [c], pay_open := pay_open s @ [c]\<rparr>"

definition setUserCurrencies :: "UserCurrency list \<Rightarrow> PaymentState \<Rightarrow> PaymentState" where
  "setUserCurrencies xs s = s\<lparr>userCurrencies := xs, pay_ref := pay_ref s + 1\<rparr>"

definition choose_currency :: "string \<Rightarrow> PaymentState \<Rightarrow> PaymentState" where
  "choose_currency cur s = s\<lparr>pay_currency := cur, pay_items := setDefaultCurrency cur (pay_items s)\<rparr>"

text \<open>The effects, on the rendered state \<open>r\<close> and the state \<open>s\<close> that collects the updates.\<close>

definition currency_effect :: "PaymentState \<Rightarrow> PaymentState \<Rightarrow> PaymentState" where
  "currency_effect r s =
     (case userCurrencies r of
        [] \<Rightarrow> s
      | item # rest \<Rightarrow>
          if \<not> list_ex (\<lambda>i. uc_code i = pay_currency r) (userCurrencies r)
          then send (Put_preference (uc_code item)) (choose_currency (uc_code item) s)
          else s)"

definition add_code_effect :: "PaymentEnv \<Rightarrow> PaymentState \<Rightarrow> PaymentState \<Rightarrow> PaymentState" where
  "add_code_effect env r s =
     (if addCode r = customCodeOption then s\<lparr>addSymbol := [], addAlias := []\<rparr>
      else case addableCurrencyCodes env r of
        [] \<Rightarrow> s\<lparr>addCode := customCodeOption\<rparr>
      | first # rest \<Rightarrow>
          if addCode r = [] \<or> addCode r \<notin> set (addableCurrencyCodes env r) then s\<lparr>addCode := first\<rparr> else s)"

definition preset_effect :: "PaymentEnv \<Rightarrow> PaymentState \<Rightarrow> PaymentState \<Rightarrow> PaymentState" where
  "preset_effect env r s =
     (if addCode r = customCodeOption then s
      else case preset_meta env (addCode r) of
        None \<Rightarrow> s\<lparr>addSymbol := [], addAlias := []\<rparr>
      | Some preset \<Rightarrow> s\<lparr>addSymbol := pc_symbol preset, addAlias := pc_alias preset\<rparr>)"

definition run_effects :: "PaymentEnv \<Rightarrow> bool \<Rightarrow> bool \<Rightarrow> bool \<Rightarrow> PaymentState \<Rightarrow> PaymentState" where
  "run_effects env currency_due add_due preset_due r =
     (let s = (if currency_due then currency_effect r r else r);
          s = (if add_due then add_code_effect env r s else s)
      in if preset_due then preset_effect env r s else s)"

definition effects :: "PaymentEnv \<Rightarrow> PaymentState \<Rightarrow> PaymentState \<Rightarrow> PaymentState" where
  "effects env prev r = run_effects env
     (pay_currency prev \<noteq> pay_currency r \<or> pay_ref prev \<noteq> pay_ref r)
     (addCode prev \<noteq> addCode r \<or> pay_ref prev \<noteq> pay_ref r)
     (addCode prev \<noteq> addCode r) r"

definition dependencies :: "PaymentState \<Rightarrow> string \<times> string \<times> nat" where
  "dependencies s = (pay_currency s, addCode s, pay_ref s)"

fun settle :: "PaymentEnv \<Rightarrow> nat \<Rightarrow> PaymentState \<Rightarrow> PaymentState \<Rightarrow> PaymentState" where
  "settle env 0 prev r = r"
| "settle env (Suc n) prev r =
     (if dependencies prev = dependencies r then r else settle env n r (effects env prev r))"

text \<open>Three renderings are enough, which is shown below.\<close>

definition render :: "PaymentEnv \<Rightarrow> PaymentState \<Rightarrow> PaymentState \<Rightarrow> PaymentState" where
  "render env prev r = settle env 3 prev r"

definition mounted :: "items \<Rightarrow> PaymentState" where
  "mounted ls = \<lparr>pay_currency = getDefaultCurrency ''USD'' ls, userCurrencies = [], addCode = [], customCode = [],
     addSymbol = [], addAlias = [], addLoading = False, orderChanged = False, orderSaving = False,
     dragFrom = None, dragTo = None, paymentLoaded = False, pay_ref = 0, pay_items = ls,
     pay_calls = [], pay_open = [], pay_notices = [], pay_crashed = False\<rparr>"

definition mount :: "PaymentEnv \<Rightarrow> items \<Rightarrow> PaymentState" where
  "mount env ls = render env (mounted ls) (run_effects env True True True (mounted ls))"


subsection \<open>Handlers\<close>

definition activate :: "PaymentState \<Rightarrow> PaymentState" where
  "activate s = (if paymentLoaded s then s else send Get_currencies (send Get_preference (s\<lparr>paymentLoaded := True\<rparr>)))"

definition preference_answered :: "string option \<Rightarrow> PaymentState \<Rightarrow> PaymentState" where
  "preference_answered pref s =
     (case pref of Some cur \<Rightarrow> if cur = [] then s else choose_currency cur s | None \<Rightarrow> s)"

definition currencies_answered :: "UserCurrency list option \<Rightarrow> PaymentState \<Rightarrow> PaymentState" where
  "currencies_answered xs s = setUserCurrencies (nullish xs []) s"

definition handleCurrency :: "string \<Rightarrow> PaymentState \<Rightarrow> PaymentState" where
  "handleCurrency v s = send (Put_preference v) (choose_currency v s)"

definition notify :: "notice \<Rightarrow> PaymentState \<Rightarrow> PaymentState" where
  "notify n s = s\<lparr>pay_notices := pay_notices s @ [n]\<rparr>"

definition add_input :: "PaymentEnv \<Rightarrow> PaymentState \<Rightarrow> CreateCurrencyInput" where
  "add_input env s =
     (let cur = toUpperCase (trim (if addCode s = customCodeOption then customCode s else addCode s));
          preset = preset_meta env cur
      in \<lparr>cc_code = cur,
          cc_symbol = or_str (trim (addSymbol s)) (or_opt (map_option pc_symbol preset) []),
          cc_alias = or_str (trim (addAlias s)) (or_opt (map_option pc_alias preset) []),
          cc_sort_order = int (length (userCurrencies s))\<rparr>)"

definition handleAddCurrency :: "PaymentEnv \<Rightarrow> PaymentState \<Rightarrow> PaymentState" where
  "handleAddCurrency env s =
     (let input = add_input env s in
      if cc_code input = [] then notify (Error_notice (pe_t env ''settings.currencyManagement.invalidCode'')) s
      else send (Post_currency input (addCode s = customCodeOption)) (s\<lparr>addLoading := True\<rparr>))"

definition currency_added :: "PaymentEnv \<Rightarrow> bool \<Rightarrow> UserCurrency \<Rightarrow> PaymentState \<Rightarrow> PaymentState" where
  "currency_added env custom created s =
     (let s = setUserCurrencies (userCurrencies s @ [created]) s;
          s = (if custom then s\<lparr>customCode := [], addSymbol := [], addAlias := []\<rparr> else s);
          s = notify (Success_notice (pe_t env ''settings.currencyManagement.addSuccess'')) s
      in s\<lparr>addLoading := False\<rparr>)"

definition currency_not_added :: "string \<Rightarrow> PaymentState \<Rightarrow> PaymentState" where
  "currency_not_added msg s = (notify (Error_notice msg) s)\<lparr>addLoading := False\<rparr>"

definition handleDeleteCurrency :: "bool \<Rightarrow> int \<Rightarrow> PaymentState \<Rightarrow> PaymentState" where
  "handleDeleteCurrency confirmed i s = (if \<not> confirmed then s else send (Delete_currency i) s)"

definition currency_deleted :: "PaymentEnv \<Rightarrow> int \<Rightarrow> PaymentState \<Rightarrow> PaymentState" where
  "currency_deleted env i s =
     notify (Success_notice (pe_t env ''settings.currencyManagement.deleteSuccess''))
       (setUserCurrencies (filter (\<lambda>item. uc_id item \<noteq> i) (userCurrencies s)) s)"

definition handleUpdateCurrency :: "int \<Rightarrow> UpdateCurrencyInput \<Rightarrow> PaymentState \<Rightarrow> PaymentState" where
  "handleUpdateCurrency i input s = send (Put_currency i input) s"

definition currency_updated :: "PaymentEnv \<Rightarrow> int \<Rightarrow> UserCurrency \<Rightarrow> PaymentState \<Rightarrow> PaymentState" where
  "currency_updated env i updated s =
     notify (Success_notice (pe_t env ''settings.currencyManagement.updateSuccess''))
       (setUserCurrencies (map (\<lambda>item. if uc_id item = i then updated else item) (userCurrencies s)) s)"

definition handleDragStart :: "nat \<Rightarrow> PaymentState \<Rightarrow> PaymentState" where
  "handleDragStart i s = s\<lparr>dragFrom := Some i\<rparr>"

definition handleDragOver :: "nat \<Rightarrow> PaymentState \<Rightarrow> PaymentState" where
  "handleDragOver i s = s\<lparr>dragTo := Some i\<rparr>"

definition handleDrop :: "PaymentState \<Rightarrow> PaymentState option" where
  "handleDrop s =
     (case (dragFrom s, dragTo s) of
        (Some i, Some j) \<Rightarrow>
          if i = j then Some s
          else map_option (\<lambda>reordered. (setUserCurrencies reordered s)\<lparr>orderChanged := True, dragFrom := None, dragTo := None\<rparr>)
            (move_item i j (userCurrencies s))
      | _ \<Rightarrow> Some s)"

definition order_payload :: "PaymentState \<Rightarrow> ReorderCurrencyItem list" where
  "order_payload s = number_items (\<lambda>i item. \<lparr>ro_id = uc_id item, ro_sort_order = i\<rparr>) (userCurrencies s)"

definition handleSaveOrder :: "PaymentState \<Rightarrow> PaymentState" where
  "handleSaveOrder s = send (Put_order (order_payload s)) (s\<lparr>orderSaving := True\<rparr>)"

definition order_saved :: "PaymentEnv \<Rightarrow> PaymentState \<Rightarrow> PaymentState" where
  "order_saved env s =
     (notify (Success_notice (pe_t env ''settings.currencyManagement.orderSaved''))
       ((setUserCurrencies (number_items (\<lambda>i item. item\<lparr>uc_sort_order := i\<rparr>) (userCurrencies s)) s)
          \<lparr>orderChanged := False\<rparr>))\<lparr>orderSaving := False\<rparr>"

text \<open>The answer to a call; an error that is caught without a notice changes nothing.\<close>

fun answered :: "PaymentEnv \<Rightarrow> pay_call \<Rightarrow> pay_reply \<Rightarrow> PaymentState \<Rightarrow> PaymentState" where
  "answered env Get_preference (Preference pref) s = preference_answered pref s"
| "answered env Get_currencies (Currencies xs) s = currencies_answered xs s"
| "answered env (Post_currency input custom) (Currency created) s = currency_added env custom created s"
| "answered env (Post_currency input custom) (Failed msg) s = currency_not_added msg s"
| "answered env (Delete_currency i) No_content s = currency_deleted env i s"
| "answered env (Put_currency i input) (Currency updated) s = currency_updated env i updated s"
| "answered env (Put_currency i input) (Failed msg) s = notify (Error_notice msg) s"
| "answered env (Put_order items) No_content s = order_saved env s"
| "answered env (Put_order items) (Failed msg) s = (notify (Error_notice msg) s)\<lparr>orderSaving := False\<rparr>"
| "answered env c r s = s"

datatype pay_event =
    Activate
  | Answer nat pay_reply
  | Choose_currency string
  | Set_add_code string
  | Set_custom_code string
  | Set_add_symbol string
  | Set_add_alias string
  | Submit_add
  | Delete bool int
  | Update int UpdateCurrencyInput
  | Drag_start nat
  | Drag_over nat
  | Drop
  | Save_order

text \<open>What an event does before the next rendering.\<close>

fun pay_handle :: "PaymentEnv \<Rightarrow> PaymentState \<Rightarrow> pay_event \<Rightarrow> PaymentState" where
  "pay_handle env s Activate = activate s"
| "pay_handle env s (Answer n r) =
     (if n < length (pay_open s)
      then answered env (pay_open s ! n) r (s\<lparr>pay_open := without n (pay_open s)\<rparr>) else s)"
| "pay_handle env s (Choose_currency v) = handleCurrency v s"
| "pay_handle env s (Set_add_code v) = s\<lparr>addCode := v\<rparr>"
| "pay_handle env s (Set_custom_code v) = s\<lparr>customCode := v\<rparr>"
| "pay_handle env s (Set_add_symbol v) = s\<lparr>addSymbol := v\<rparr>"
| "pay_handle env s (Set_add_alias v) = s\<lparr>addAlias := v\<rparr>"
| "pay_handle env s Submit_add = handleAddCurrency env s"
| "pay_handle env s (Delete confirmed i) = handleDeleteCurrency confirmed i s"
| "pay_handle env s (Update i input) = handleUpdateCurrency i input s"
| "pay_handle env s (Drag_start i) = handleDragStart i s"
| "pay_handle env s (Drag_over i) = handleDragOver i s"
| "pay_handle env s Drop = nullish (handleDrop s) (s\<lparr>pay_crashed := True\<rparr>)"
| "pay_handle env s Save_order = handleSaveOrder s"

definition pay_step :: "PaymentEnv \<Rightarrow> PaymentState \<Rightarrow> pay_event \<Rightarrow> PaymentState" where
  "pay_step env s e = (if pay_crashed s then s else render env s (pay_handle env s e))"


subsection \<open>Dragging\<close>

interpretation currency_list: draggable_list userCurrencies dragFrom dragTo handleDrop
  by unfold_locales (auto simp: handleDrop_def setUserCurrencies_def option.map_comp o_def option.map_ident
      split: option.splits)

subsection \<open>Rendering ends\<close>

lemma send_simps [simp]:
  "pay_currency (send c s) = pay_currency s" "userCurrencies (send c s) = userCurrencies s" "addCode (send c s) = addCode s"
  "pay_ref (send c s) = pay_ref s" "pay_items (send c s) = pay_items s" "pay_crashed (send c s) = pay_crashed s"
  by (simp_all add: send_def)

lemma choose_simps [simp]:
  "pay_currency (choose_currency c s) = c" "userCurrencies (choose_currency c s) = userCurrencies s"
  "addCode (choose_currency c s) = addCode s" "pay_ref (choose_currency c s) = pay_ref s"
  "pay_items (choose_currency c s) = setDefaultCurrency c (pay_items s)" "pay_crashed (choose_currency c s) = pay_crashed s"
  by (simp_all add: choose_currency_def)

lemma currency_effect_frame [simp]:
  "userCurrencies (currency_effect r s) = userCurrencies s" "addCode (currency_effect r s) = addCode s"
  "pay_ref (currency_effect r s) = pay_ref s"
  by (simp_all add: currency_effect_def split: list.split)

lemma add_code_effect_frame [simp]:
  "userCurrencies (add_code_effect env r s) = userCurrencies s" "pay_currency (add_code_effect env r s) = pay_currency s"
  "pay_ref (add_code_effect env r s) = pay_ref s" "pay_items (add_code_effect env r s) = pay_items s"
  by (simp_all add: add_code_effect_def split: list.split)

lemma preset_effect_frame [simp]:
  "userCurrencies (preset_effect env r s) = userCurrencies s" "pay_currency (preset_effect env r s) = pay_currency s"
  "pay_ref (preset_effect env r s) = pay_ref s" "pay_items (preset_effect env r s) = pay_items s"
  "addCode (preset_effect env r s) = addCode s"
  by (simp_all add: preset_effect_def split: option.split)

definition currency_listed :: "PaymentState \<Rightarrow> bool" where
  "currency_listed s \<longleftrightarrow> userCurrencies s = [] \<or> pay_currency s \<in> uc_code ` set (userCurrencies s)"

definition code_addable :: "PaymentEnv \<Rightarrow> PaymentState \<Rightarrow> bool" where
  "code_addable env s \<longleftrightarrow> addCode s = customCodeOption \<or> addCode s \<in> set (addableCurrencyCodes env s)"

lemma addable_cong: "userCurrencies s = userCurrencies s' \<Longrightarrow> addableCurrencyCodes env s = addableCurrencyCodes env s'"
  by (simp add: addableCurrencyCodes_def)

lemma preset_codes_eq: "preset_codes env = PRESET_CURRENCY_CODES"
  by (simp add: preset_codes_def getPresetCurrencies_def no_caches_def generate_presets_def Let_def o_def)

lemma addable_not_empty: "[] \<notin> set (addableCurrencyCodes env s)"
proof -
  have "[] \<notin> set PRESET_CURRENCY_CODES" by code_simp
  then show ?thesis by (simp add: addableCurrencyCodes_def preset_codes_eq)
qed

lemma currency_effect_currency:
  "pay_currency (currency_effect r s) = (if currency_listed r then pay_currency s else uc_code (hd (userCurrencies r)))"
  by (auto simp: currency_effect_def currency_listed_def list_ex_iff image_iff split: list.split)

lemma add_code_effect_code:
  "addCode (add_code_effect env r s) =
    (if code_addable env r then addCode s
     else if addableCurrencyCodes env r = [] then customCodeOption else hd (addableCurrencyCodes env r))"
  using addable_not_empty [of env r] by (auto simp: add_code_effect_def code_addable_def split: list.split)

lemma effects_frame [simp]:
  "userCurrencies (effects env prev r) = userCurrencies r" "pay_ref (effects env prev r) = pay_ref r"
  by (simp_all add: effects_def run_effects_def Let_def)

lemma effects_currency:
  "pay_currency (effects env prev r) =
    (if (pay_currency prev \<noteq> pay_currency r \<or> pay_ref prev \<noteq> pay_ref r) \<and> \<not> currency_listed r
     then uc_code (hd (userCurrencies r)) else pay_currency r)"
  by (simp add: effects_def run_effects_def Let_def currency_effect_currency)

lemma effects_code:
  "addCode (effects env prev r) =
    (if (addCode prev \<noteq> addCode r \<or> pay_ref prev \<noteq> pay_ref r) \<and> \<not> code_addable env r
     then (if addableCurrencyCodes env r = [] then customCodeOption else hd (addableCurrencyCodes env r)) else addCode r)"
  by (simp add: effects_def run_effects_def Let_def add_code_effect_code)

lemma hd_code_in: "xs \<noteq> [] \<Longrightarrow> f (hd xs) \<in> f ` set xs"
  by (cases xs) simp_all

lemma currency_listed_effects:
  assumes "pay_currency prev \<noteq> pay_currency r \<or> pay_ref prev \<noteq> pay_ref r \<or> currency_listed r"
  shows "currency_listed (effects env prev r)"
  using assms hd_code_in [of "userCurrencies r" uc_code] by (auto simp: currency_listed_def effects_currency)

lemma code_addable_effects:
  assumes "addCode prev \<noteq> addCode r \<or> pay_ref prev \<noteq> pay_ref r \<or> code_addable env r"
  shows "code_addable env (effects env prev r)"
proof -
  have "addableCurrencyCodes env (effects env prev r) = addableCurrencyCodes env r" by (rule addable_cong) simp
  with assms show ?thesis by (auto simp: code_addable_def effects_code)
qed

text \<open>The second rendering finds nothing left to change.\<close>

lemma effects_twice: "dependencies (effects env r (effects env prev r)) = dependencies (effects env prev r)"
proof -
  let ?s = "effects env prev r"
  have "pay_currency r \<noteq> pay_currency ?s \<Longrightarrow> currency_listed ?s"
    by (rule currency_listed_effects) (auto simp: effects_currency split: if_splits)
  moreover have "addCode r \<noteq> addCode ?s \<Longrightarrow> code_addable env ?s"
    by (rule code_addable_effects) (auto simp: effects_code split: if_splits)
  ultimately show ?thesis
    by (auto simp: dependencies_def effects_currency [of env r ?s] effects_code [of env r ?s])
qed

text \<open>C24: the effects of the currency settings never keep the page rendering: after any update, three
  renderings reach a state in which no effect is due, so any larger number gives the same state.\<close>

theorem rendering_settles: "settle env (3 + n) prev r = render env prev r"
proof -
  have "settle env (3 + n) prev r = settle env (Suc (Suc (Suc n))) prev r" by (simp add: numeral_3_eq_3)
  also have "\<dots> = settle env (Suc (Suc (Suc 0))) prev r"
    using effects_twice [of env r prev] by simp
  finally show ?thesis by (simp add: render_def numeral_3_eq_3)
qed


subsection \<open>The selected currency\<close>

definition stored_currency :: "PaymentState \<Rightarrow> bool" where
  "stored_currency s \<longleftrightarrow> getDefaultCurrency ''USD'' (pay_items s) = or_str (pay_currency s) ''USD''"

definition pay_ok :: "PaymentEnv \<Rightarrow> PaymentState \<Rightarrow> bool" where
  "pay_ok env s \<longleftrightarrow> currency_listed s \<and> code_addable env s \<and> stored_currency s"

lemma stored_choose [simp]: "stored_currency (choose_currency c s)"
  by (simp add: stored_currency_def getDefaultCurrency_def setDefaultCurrency_def)

lemma stored_cong: "pay_items s' = pay_items s \<Longrightarrow> pay_currency s' = pay_currency s \<Longrightarrow> stored_currency s' = stored_currency s"
  by (simp add: stored_currency_def)

lemma stored_currency_effect: "stored_currency s \<Longrightarrow> stored_currency (currency_effect r s)"
  by (auto simp: currency_effect_def stored_currency_def getDefaultCurrency_def setDefaultCurrency_def split: list.split)

lemma stored_effects: "stored_currency r \<Longrightarrow> stored_currency (run_effects env a b c r)"
  using stored_currency_effect [of r r]
  by (simp add: run_effects_def Let_def stored_currency_def)

lemma stored_settle: "stored_currency r \<Longrightarrow> stored_currency (settle env n prev r)"
  by (induction n arbitrary: prev r) (simp_all add: effects_def stored_effects)

lemma settle_keeps:
  "currency_listed r \<and> code_addable env r \<Longrightarrow> currency_listed (settle env n prev r) \<and> code_addable env (settle env n prev r)"
  by (induction n arbitrary: prev r) (simp_all add: currency_listed_effects code_addable_effects)

text \<open>Between two renderings the list only changes together with its counter.\<close>

lemma render_ok:
  assumes "pay_ok env prev" and "stored_currency r"
    and "pay_ref prev = pay_ref r \<Longrightarrow> userCurrencies prev = userCurrencies r"
  shows "pay_ok env (render env prev r)"
proof (cases "dependencies prev = dependencies r")
  case True
  then have "userCurrencies prev = userCurrencies r" using assms(3) by (simp add: dependencies_def)
  with True assms(1,2) addable_cong [of prev r env] show ?thesis
    by (simp add: render_def numeral_3_eq_3 pay_ok_def currency_listed_def code_addable_def dependencies_def)
next
  case False
  have l: "pay_currency prev \<noteq> pay_currency r \<or> pay_ref prev \<noteq> pay_ref r \<or> currency_listed r"
    using assms(1,3) by (cases "pay_ref prev = pay_ref r"; cases "pay_currency prev = pay_currency r")
      (simp_all add: pay_ok_def currency_listed_def)
  have a: "addCode prev \<noteq> addCode r \<or> pay_ref prev \<noteq> pay_ref r \<or> code_addable env r"
    using assms(1,3) addable_cong [of prev r env] by (auto simp: pay_ok_def code_addable_def)
  have "render env prev r = settle env 2 r (effects env prev r)"
    using False by (simp add: render_def numeral_3_eq_3 numeral_2_eq_2)
  then show ?thesis
    using settle_keeps [of "effects env prev r" env 2 r] currency_listed_effects [OF l] code_addable_effects [OF a]
      stored_settle [OF stored_effects [OF assms(2)]]
    by (simp add: pay_ok_def effects_def)
qed

lemma mount_ok: "pay_ok env (mount env ls)"
proof -
  let ?s = "run_effects env True True True (mounted ls)"
  have st: "stored_currency (mounted ls)"
    by (simp add: stored_currency_def mounted_def getDefaultCurrency_def or_opt_def or_str_def)
  have "currency_listed ?s"
    by (simp add: run_effects_def Let_def currency_listed_def) (simp add: mounted_def)
  moreover have "code_addable env ?s"
  proof -
    have a: "addableCurrencyCodes env ?s = addableCurrencyCodes env (mounted ls)"
      by (rule addable_cong) (simp add: run_effects_def Let_def)
    have "\<not> code_addable env (mounted ls)"
      using addable_not_empty [of env "mounted ls"] by (simp add: code_addable_def) (simp add: mounted_def customCodeOption_def)
    then have "addCode ?s = (if addableCurrencyCodes env (mounted ls) = [] then customCodeOption
        else hd (addableCurrencyCodes env (mounted ls)))"
      by (simp add: run_effects_def Let_def add_code_effect_code)
    then show ?thesis using a by (simp add: code_addable_def)
  qed
  ultimately show ?thesis
    using settle_keeps [of ?s env 3 "mounted ls"] stored_settle [OF stored_effects [OF st]]
    by (simp add: pay_ok_def mount_def render_def)
qed

definition carries :: "PaymentState \<Rightarrow> PaymentState \<Rightarrow> bool" where
  "carries s s' \<longleftrightarrow> (stored_currency s \<longrightarrow> stored_currency s') \<and> (pay_ref s = pay_ref s' \<longrightarrow> userCurrencies s = userCurrencies s')"

lemma carriesI:
  "pay_items s' = pay_items s \<Longrightarrow> pay_currency s' = pay_currency s \<Longrightarrow>
   pay_ref s' \<noteq> pay_ref s \<or> userCurrencies s' = userCurrencies s \<Longrightarrow> carries s s'"
  by (auto simp: carries_def stored_currency_def)

lemmas pay_defs = activate_def preference_answered_def currencies_answered_def handleCurrency_def notify_def
  handleAddCurrency_def currency_added_def currency_not_added_def handleDeleteCurrency_def currency_deleted_def
  handleUpdateCurrency_def currency_updated_def handleDragStart_def handleDragOver_def handleSaveOrder_def order_saved_def
  setUserCurrencies_def send_def

lemma carries_choose: "carries s (choose_currency c s)" "carries s (send x (choose_currency c s))"
  by (simp_all add: carries_def stored_currency_def getDefaultCurrency_def setDefaultCurrency_def)

lemma carries_answered: "carries s (answered env c r s)"
  by (cases "(env, c, r, s)" rule: answered.cases)
    (auto intro!: carriesI carries_choose simp: preference_answered_def Let_def pay_defs split: option.split)

lemma carries_handle: "carries s (pay_handle env s e)"
proof (cases e)
  case (Answer n r)
  have "carries (s\<lparr>pay_open := x\<rparr>) s' \<Longrightarrow> carries s s'" for x s'
    by (simp add: carries_def stored_currency_def)
  from this [OF carries_answered] Answer show ?thesis by (simp add: carries_def [of s s])
next
  case (Choose_currency v)
  then show ?thesis using carries_choose by (simp add: handleCurrency_def)
next
  case Drop
  then show ?thesis
    by (auto intro!: carriesI simp: handleDrop_def setUserCurrencies_def nullish_def split: option.split)
qed (auto intro!: carriesI simp: pay_defs Let_def)

lemma pay_step_ok: "pay_ok env s \<Longrightarrow> pay_ok env (pay_step env s e)"
  using carries_handle [of s env e] by (auto simp: pay_step_def carries_def pay_ok_def [of env s] intro!: render_ok)

interpretation payment: event_machine "pay_step env" "pay_ok env" for env
  by unfold_locales (rule pay_step_ok)


text \<open>C25: the selected currency is always one the user has: whatever answers, edits, drags and deletions
  interleave, after the page has rendered the list is empty or holds the selected currency, the currency
  kept in \<open>localStorage\<close> is the selected one, and the code offered for a new currency is a preset that
  the list does not have yet, or the custom one.\<close>

theorem currency_is_selectable:
  "let s = foldl (pay_step env) (mount env ls) es in
     (userCurrencies s = [] \<or> pay_currency s \<in> set (preferredCurrencyCodes s))
     \<and> getDefaultCurrency ''USD'' (pay_items s) = or_str (pay_currency s) ''USD''
     \<and> (addCode s = customCodeOption \<or> addCode s \<in> set (addableCurrencyCodes env s))"
  using payment.run_inv [OF mount_ok, of env ls es]
  by (auto simp: pay_ok_def currency_listed_def code_addable_def stored_currency_def preferredCurrencyCodes_def Let_def)

text \<open>a row that is dragged lands where it is dropped and nothing else moves: the list after the drop
  holds the same currencies, the dragged one at the target, the others in their order; and the payload that
  \<open>handleSaveOrder\<close> sends numbers exactly the rows that are shown.\<close>

theorem drop_moves_one_currency:
  assumes "dragFrom s = Some i" and "dragTo s = Some j" and "i < length (userCurrencies s)" and "j < length (userCurrencies s)"
  shows "\<exists>s'. handleDrop s = Some s' \<and> mset (userCurrencies s') = mset (userCurrencies s)
    \<and> userCurrencies s' ! j = userCurrencies s ! i \<and> without j (userCurrencies s') = without i (userCurrencies s)
    \<and> map ro_id (order_payload s') = map uc_id (userCurrencies s')
    \<and> map ro_sort_order (order_payload s') = map int [0..<length (userCurrencies s')]"
proof -
  obtain s' where s': "handleDrop s = Some s'" "userCurrencies s' ! j = userCurrencies s ! i"
      "without j (userCurrencies s') = without i (userCurrencies s)"
    using currency_list.drop_lands [OF assms] by blast
  have "map ro_id (order_payload s') = map uc_id (userCurrencies s')"
    by (simp add: order_payload_def map_number_items)
  moreover have "map ro_sort_order (order_payload s') = map int [0..<length (userCurrencies s')]"
    by (rule nth_equalityI) (simp_all add: order_payload_def)
  ultimately show ?thesis using s' currency_list.drop_mset [OF s'(1)] by blast
qed

definition euro :: UserCurrency where
  "euro = \<lparr>uc_id = 1, uc_code = ''EUR'', uc_symbol = [], uc_alias = [], uc_sort_order = 0\<rparr>"

definition three_currencies :: PaymentState where
  "three_currencies = (mounted Map.empty)\<lparr>userCurrencies := [euro, euro\<lparr>uc_id := 2, uc_code := ''USD''\<rparr>, euro\<lparr>uc_id := 3, uc_code := ''GBP''\<rparr>],
     dragFrom := Some 0, dragTo := Some 2\<rparr>"

theorem drop_moves_one_currency_witness:
  "\<exists>s'. handleDrop three_currencies = Some s' \<and> userCurrencies s' ! 2 = euro
    \<and> map ro_id (order_payload s') = map uc_id (userCurrencies s')"
proof -
  have "dragFrom three_currencies = Some 0" "dragTo three_currencies = Some 2"
    "0 < length (userCurrencies three_currencies)" "2 < length (userCurrencies three_currencies)"
    by (simp_all add: three_currencies_def)
  from drop_moves_one_currency [OF this] show ?thesis by (auto simp: three_currencies_def)
qed

text \<open>
  Two interleavings that lose work.  A drop while the order is being saved is taken for saved: the button to
  save disappears although the server keeps the older order.  And a row that was dragged when an answer
  shortened the list makes the new list hold \<open>undefined\<close>, on which the page throws.
\<close>

lemma drop_while_saving_is_forgotten:
  "let s = foldl (pay_handle env) three_currencies [Save_order, Drop, Answer 0 No_content] in
     \<not> orderChanged s \<and> pay_calls s = [Put_order (order_payload three_currencies)]
     \<and> map uc_id (userCurrencies s) = [2, 3, 1] \<and> map ro_id (order_payload three_currencies) = [1, 2, 3]"
  by (simp add: three_currencies_def mounted_def euro_def handleSaveOrder_def send_def handleDrop_def move_item_def
      insert_at_def without_def setUserCurrencies_def order_saved_def notify_def number_items_def order_payload_def
      nullish_def Let_def numeral_2_eq_2)

lemma drop_after_deletion_crashes:
  assumes "dragFrom s = Some i" and "dragTo s = Some j" and "i \<noteq> j" and "length (userCurrencies s) \<le> i"
  shows "pay_crashed (pay_handle env s Drop)"
proof -
  have "handleDrop s = None" using currency_list.drop_crashes_iff [of s] assms by blast
  then show ?thesis by (simp add: nullish_def)
qed

end
