(* ===== verification/Reauth.thy ===== *)
theory Reauth
  imports Passkey Interfaces
begin

text \<open>
  The step-up dialog of the backup tab, \<open>web/src/features/admin/reauth-dialog.tsx\<close>, with its use in
  \<open>admin-backup-tab.tsx\<close> (the markup is left out).  The tab mounts the dialog anew under the key
  \<open>reauthPrompt ?? "closed"\<close>: \<open>ra_instance\<close> counts the mountings, and a continuation whose mounting is
  gone still runs, but its state updates have no effect.  Popups are numbered.

  \<open>ra_used\<close> records the calls of \<open>onDownloadBackup\<close> and \<open>onRestore\<close>, with the mounting whose
  closure makes them; a step that awaits a ticket carries the position in \<open>ra_calls\<close> of the request that it has sent, and
  \<open>ra_issued\<close> records the tickets with the position of the request that was answered.
\<close>

datatype ReauthPrompt = Prompt_download | Prompt_restore

definition reauth_operation :: "ReauthPrompt \<Rightarrow> string" where
  "reauth_operation q = (if q = Prompt_restore then ''restore'' else ''backup'')"

record ReauthMethods =
  rm_password :: bool
  rm_passkey :: bool
  rm_oidc :: bool

record OIDCConfig =
  oc_enabled :: bool
  oc_provider_name :: string
  oc_auto_create_user :: bool

type_synonym assertion = "(string, string AssertionResponse) Credential"

datatype reauth_call =
    Get_reauth_methods string
  | Get_oidc_config
  | Post_reauth_password string string
  | Post_passkey_start string
  | Post_passkey_finish string string assertion
  | Post_oidc_start string
  | Post_oidc_finish string

text \<open>What a continuation awaits; a factor carries its mounting and the prompt of its closure.\<close>

datatype factor_step =
    Checking_password nat
  | Starting_passkey
  | Awaiting_credential string
  | Finishing_passkey nat
  | Starting_oidc nat
  | Awaiting_popup nat
  | Finishing_oidc nat

datatype reauth_task =
    Discovering_methods nat
  | Discovering_config nat
  | Factor nat ReauthPrompt factor_step
  | Running_callback
  | Reauth_over

datatype reauth_reply =
    Reauth_failed thrown
  | Methods "ReauthMethods option"
  | Config "OIDCConfig option"
  | Ticket string
  | Passkey_begun string
  | Credential_ready assertion
  | Authorization_url string
  | Popup_found_closed
  | Callback_settled

record DialogState =
  dl_methods :: ReauthMethods
  dl_oidcConfig :: "OIDCConfig option"
  dl_password :: string
  dl_busy :: bool
  dl_popup :: "nat option"

record ReauthState =
  reauthPrompt :: "ReauthPrompt option"
  ra_instance :: nat
  ra_dialog :: DialogState
  ra_tasks :: "reauth_task list"
  ra_calls :: "reauth_call list"
  ra_used :: "(nat \<times> ReauthPrompt \<times> string) list"
  ra_issued :: "(nat \<times> string) list"
  ra_closed :: "nat list"
  ra_located :: "(nat \<times> string) list"
  ra_notices :: "string list"

record ReauthEnv =
  re_t :: "string \<Rightarrow> string"
  re_passkeySupported :: bool

definition password_only :: ReauthMethods where
  "password_only = \<lparr>rm_password = True, rm_passkey = False, rm_oidc = False\<rparr>"

definition new_dialog :: DialogState where
  "new_dialog = \<lparr>dl_methods = password_only, dl_oidcConfig = None, dl_password = [], dl_busy = False, dl_popup = None\<rparr>"

definition mount_reauth :: ReauthState where
  "mount_reauth = \<lparr>reauthPrompt = None, ra_instance = 0, ra_dialog = new_dialog, ra_tasks = [], ra_calls = [], ra_used = [],
     ra_issued = [], ra_closed = [], ra_located = [], ra_notices = []\<rparr>"

definition close_popup :: "nat option \<Rightarrow> ReauthState \<Rightarrow> ReauthState" where
  "close_popup p s = (case p of None \<Rightarrow> s | Some w \<Rightarrow> s\<lparr>ra_closed := ra_closed s @ [w]\<rparr>)"

text \<open>\<open>setReauthPrompt\<close> and the rendering after it: the old dialog is unmounted, which closes its popup,
  and the new one looks up its factors if it is open.\<close>

definition setReauthPrompt :: "ReauthPrompt option \<Rightarrow> ReauthState \<Rightarrow> ReauthState" where
  "setReauthPrompt q s =
     (if q = reauthPrompt s then s
      else
        let s = close_popup (dl_popup (ra_dialog s)) s;
            s = s\<lparr>reauthPrompt := q, ra_instance := Suc (ra_instance s), ra_dialog := new_dialog\<rparr>
        in case q of
             None \<Rightarrow> s
           | Some p \<Rightarrow> s\<lparr>ra_calls := ra_calls s @ [Get_reauth_methods (reauth_operation p), Get_oidc_config],
               ra_tasks := ra_tasks s @ [Discovering_methods (ra_instance s), Discovering_config (ra_instance s)]\<rparr>)"

text \<open>An update of the state of one mounting.\<close>

definition in_dialog :: "nat \<Rightarrow> (DialogState \<Rightarrow> DialogState) \<Rightarrow> ReauthState \<Rightarrow> ReauthState" where
  "in_dialog i f s = (if ra_instance s = i then s\<lparr>ra_dialog := f (ra_dialog s)\<rparr> else s)"

definition reauth_notice :: "string \<Rightarrow> ReauthState \<Rightarrow> ReauthState" where
  "reauth_notice m s = s\<lparr>ra_notices := ra_notices s @ [m]\<rparr>"

definition put_reauth :: "nat \<Rightarrow> reauth_task \<Rightarrow> ReauthState \<Rightarrow> ReauthState" where
  "put_reauth n k s = s\<lparr>ra_tasks := (ra_tasks s)[n := k]\<rparr>"

definition reauth_send :: "reauth_call \<Rightarrow> ReauthState \<Rightarrow> ReauthState" where
  "reauth_send c s = s\<lparr>ra_calls := ra_calls s @ [c]\<rparr>"

definition begin_factor :: "ReauthPrompt \<Rightarrow> factor_step \<Rightarrow> ReauthState \<Rightarrow> ReauthState" where
  "begin_factor q k s = s\<lparr>ra_dialog := (ra_dialog s)\<lparr>dl_busy := True\<rparr>, ra_tasks := ra_tasks s @ [Factor (ra_instance s) q k]\<rparr>"

subsection \<open>Handlers\<close>

definition handlePasswordConfirm :: "ReauthPrompt \<Rightarrow> ReauthState \<Rightarrow> ReauthState" where
  "handlePasswordConfirm q s =
     (if dl_busy (ra_dialog s) \<or> trim (dl_password (ra_dialog s)) = [] then s
      else begin_factor q (Checking_password (length (ra_calls s)))
        (reauth_send (Post_reauth_password (reauth_operation q) (dl_password (ra_dialog s))) s))"

definition handlePasskeyConfirm :: "ReauthEnv \<Rightarrow> ReauthPrompt \<Rightarrow> ReauthState \<Rightarrow> ReauthState" where
  "handlePasskeyConfirm env q s =
     (if dl_busy (ra_dialog s) then s
      else if \<not> re_passkeySupported env then reauth_notice (re_t env ''admin.backup.reauth.passkeyUnsupported'') s
      else begin_factor q Starting_passkey (reauth_send (Post_passkey_start (reauth_operation q)) s))"

definition handleOIDCConfirm :: "ReauthEnv \<Rightarrow> nat option \<Rightarrow> ReauthPrompt \<Rightarrow> ReauthState \<Rightarrow> ReauthState" where
  "handleOIDCConfirm env popup q s =
     (if dl_busy (ra_dialog s) then s
      else case popup of
        None \<Rightarrow> reauth_notice (re_t env ''admin.backup.reauth.oidcPopupBlocked'') s
      | Some w \<Rightarrow> begin_factor q (Starting_oidc w)
          (reauth_send (Post_oidc_start (reauth_operation q)) (s\<lparr>ra_dialog := (ra_dialog s)\<lparr>dl_popup := Some w\<rparr>\<rparr>)))"

text \<open>\<open>verified\<close>: the dialog is closed, then the tab's \<open>onVerified\<close> runs the operation of the
  closure.\<close>

definition reauth_verified :: "nat \<Rightarrow> nat \<Rightarrow> ReauthPrompt \<Rightarrow> nat \<Rightarrow> string \<Rightarrow> ReauthState \<Rightarrow> ReauthState" where
  "reauth_verified n i q c ticket s =
     (let s = setReauthPrompt None (put_reauth n Running_callback (s\<lparr>ra_issued := ra_issued s @ [(c, ticket)]\<rparr>))
      in s\<lparr>ra_used := ra_used s @ [(i, q, ticket)]\<rparr>)"

definition passkey_failed :: "ReauthEnv \<Rightarrow> nat \<Rightarrow> thrown \<Rightarrow> ReauthState \<Rightarrow> ReauthState" where
  "passkey_failed env i e s = in_dialog i (\<lambda>d. d\<lparr>dl_busy := False\<rparr>)
     (case e of
        DOM_exception name msg \<Rightarrow> reauth_notice (getPasskeyErrorMessage e (re_t env) ''admin.backup.reauth.passkeyError'') s
      | Error_object name msg \<Rightarrow> s
      | _ \<Rightarrow> reauth_notice (re_t env ''admin.backup.reauth.passkeyError'') s)"

definition oidc_failed :: "ReauthEnv \<Rightarrow> nat \<Rightarrow> thrown \<Rightarrow> ReauthState \<Rightarrow> ReauthState" where
  "oidc_failed env i e s =
     (let s = (case e of DOM_exception name msg \<Rightarrow> reauth_notice (re_t env ''admin.backup.reauth.oidcCancelled'') s | _ \<Rightarrow> s);
          s = (if ra_instance s = i then close_popup (dl_popup (ra_dialog s)) s else s)
      in in_dialog i (\<lambda>d. d\<lparr>dl_popup := None, dl_busy := False\<rparr>) s)"

text \<open>The continuation of a factor.\<close>

fun factor_resume :: "ReauthEnv \<Rightarrow> nat \<Rightarrow> nat \<Rightarrow> ReauthPrompt \<Rightarrow> factor_step \<Rightarrow> reauth_reply \<Rightarrow> ReauthState \<Rightarrow> ReauthState" where
  "factor_resume env n i q (Checking_password c) r s =
     (case r of
        Ticket ticket \<Rightarrow> reauth_verified n i q c ticket s
      | Reauth_failed e \<Rightarrow> put_reauth n Reauth_over (in_dialog i (\<lambda>d. d\<lparr>dl_busy := False\<rparr>) s)
      | _ \<Rightarrow> s)"
| "factor_resume env n i q Starting_passkey r s =
     (case r of
        Passkey_begun sid \<Rightarrow> put_reauth n (Factor i q (Awaiting_credential sid)) s
      | Reauth_failed e \<Rightarrow> put_reauth n Reauth_over (passkey_failed env i e s)
      | _ \<Rightarrow> s)"
| "factor_resume env n i q (Awaiting_credential sid) r s =
     (case r of
        Credential_ready c \<Rightarrow> put_reauth n (Factor i q (Finishing_passkey (length (ra_calls s))))
          (reauth_send (Post_passkey_finish (reauth_operation q) sid c) s)
      | Reauth_failed e \<Rightarrow> put_reauth n Reauth_over (passkey_failed env i e s)
      | _ \<Rightarrow> s)"
| "factor_resume env n i q (Finishing_passkey c) r s =
     (case r of
        Ticket ticket \<Rightarrow> reauth_verified n i q c ticket s
      | Reauth_failed e \<Rightarrow> put_reauth n Reauth_over (passkey_failed env i e s)
      | _ \<Rightarrow> s)"
| "factor_resume env n i q (Starting_oidc w) r s =
     (case r of
        Authorization_url url \<Rightarrow> put_reauth n (Factor i q (Awaiting_popup w)) (s\<lparr>ra_located := ra_located s @ [(w, url)]\<rparr>)
      | Reauth_failed e \<Rightarrow> put_reauth n Reauth_over (oidc_failed env i e s)
      | _ \<Rightarrow> s)"
| "factor_resume env n i q (Awaiting_popup w) r s =
     (if r = Popup_found_closed \<and> w \<in> set (ra_closed s)
      then put_reauth n Reauth_over (oidc_failed env i (DOM_exception ''AbortError'' ''popup closed'')
        (in_dialog i (\<lambda>d. d\<lparr>dl_popup := None\<rparr>) s))
      else s)"
| "factor_resume env n i q (Finishing_oidc c) r s =
     (case r of
        Ticket ticket \<Rightarrow> reauth_verified n i q c ticket s
      | Reauth_failed e \<Rightarrow> put_reauth n Reauth_over (oidc_failed env i e s)
      | _ \<Rightarrow> s)"

definition methods_answered :: "nat \<Rightarrow> reauth_reply \<Rightarrow> ReauthState \<Rightarrow> ReauthState" where
  "methods_answered i r s =
     (case r of
        Methods (Some m) \<Rightarrow> in_dialog i (\<lambda>d. d\<lparr>dl_methods := m\<rparr>) s
      | Reauth_failed e \<Rightarrow> in_dialog i (\<lambda>d. d\<lparr>dl_methods := password_only\<rparr>) s
      | _ \<Rightarrow> s)"

definition config_answered :: "nat \<Rightarrow> reauth_reply \<Rightarrow> ReauthState \<Rightarrow> ReauthState" where
  "config_answered i r s = (case r of Config (Some c) \<Rightarrow> in_dialog i (\<lambda>d. d\<lparr>dl_oidcConfig := Some c\<rparr>) s | _ \<Rightarrow> s)"

fun reauth_resume :: "ReauthEnv \<Rightarrow> nat \<Rightarrow> reauth_task \<Rightarrow> reauth_reply \<Rightarrow> ReauthState \<Rightarrow> ReauthState" where
  "reauth_resume env n (Discovering_methods i) r s = put_reauth n Reauth_over (methods_answered i r s)"
| "reauth_resume env n (Discovering_config i) r s = put_reauth n Reauth_over (config_answered i r s)"
| "reauth_resume env n (Factor i q k) r s = factor_resume env n i q k r s"
| "reauth_resume env n Running_callback r s = setReauthPrompt None (put_reauth n Reauth_over s)"
| "reauth_resume env n Reauth_over r s = s"

text \<open>A message of the window reaches every listener: each waiting factor closes its popup and finishes.\<close>

definition popup_message :: "nat \<Rightarrow> ReauthState \<Rightarrow> ReauthState" where
  "popup_message n s =
     (case ra_tasks s ! n of
        Factor i q (Awaiting_popup w) \<Rightarrow>
          put_reauth n (Factor i q (Finishing_oidc (length (ra_calls s)))) (reauth_send (Post_oidc_finish (reauth_operation q))
            (close_popup (Some w) (in_dialog i (\<lambda>d. d\<lparr>dl_popup := None\<rparr>) s)))
      | _ \<Rightarrow> s)"

definition onMessage :: "bool \<Rightarrow> string \<Rightarrow> ReauthState \<Rightarrow> ReauthState" where
  "onMessage own_origin type s =
     (if \<not> own_origin then s
      else if type \<noteq> ''oidc-reauth'' then s
      else foldl (\<lambda>s n. popup_message n s) s [0..<length (ra_tasks s)])"

datatype reauth_event =
    Reauth_answer nat reauth_reply
  | Open_prompt ReauthPrompt
  | Dismiss
  | Type_password string
  | Confirm_password
  | Click_passkey
  | Click_oidc "nat option"
  | Window_message bool string
  | Popup_closed_by_user nat

text \<open>The controls of the dialog exist while it is open, the buttons of the other factors when they are
  offered.\<close>

definition with_prompt :: "(ReauthPrompt \<Rightarrow> ReauthState \<Rightarrow> ReauthState) \<Rightarrow> ReauthState \<Rightarrow> ReauthState" where
  "with_prompt f s = (case reauthPrompt s of None \<Rightarrow> s | Some q \<Rightarrow> f q s)"

fun reauth_step :: "ReauthEnv \<Rightarrow> ReauthState \<Rightarrow> reauth_event \<Rightarrow> ReauthState" where
  "reauth_step env s (Reauth_answer n r) = (if n < length (ra_tasks s) then reauth_resume env n (ra_tasks s ! n) r s else s)"
| "reauth_step env s (Open_prompt q) = setReauthPrompt (Some q) s"
| "reauth_step env s Dismiss = setReauthPrompt None s"
| "reauth_step env s (Type_password v) = with_prompt (\<lambda>q s.
     if dl_busy (ra_dialog s) then s else s\<lparr>ra_dialog := (ra_dialog s)\<lparr>dl_password := v\<rparr>\<rparr>) s"
| "reauth_step env s Confirm_password = with_prompt handlePasswordConfirm s"
| "reauth_step env s Click_passkey = with_prompt (\<lambda>q s.
     if rm_passkey (dl_methods (ra_dialog s)) \<and> re_passkeySupported env then handlePasskeyConfirm env q s else s) s"
| "reauth_step env s (Click_oidc popup) = with_prompt (\<lambda>q s.
     if rm_oidc (dl_methods (ra_dialog s)) then handleOIDCConfirm env popup q s else s) s"
| "reauth_step env s (Window_message own type) = onMessage own type s"
| "reauth_step env s (Popup_closed_by_user w) = s\<lparr>ra_closed := ra_closed s @ [w]\<rparr>"

subsection \<open>One factor at a time\<close>

fun factor_of :: "reauth_task \<Rightarrow> nat option" where
  "factor_of (Factor i q k) = Some i"
| "factor_of _ = None"

definition pending_factors :: "nat \<Rightarrow> ReauthState \<Rightarrow> nat" where
  "pending_factors i s = length (filter (\<lambda>k. factor_of k = Some i) (ra_tasks s))"

definition uses :: "nat \<Rightarrow> ReauthState \<Rightarrow> nat" where
  "uses i s = length (filter (\<lambda>u. fst u = i) (ra_used s))"

definition reauth_ok :: "ReauthState \<Rightarrow> bool" where
  "reauth_ok s \<longleftrightarrow>
     (\<forall>i. pending_factors i s + uses i s \<le> 1)
     \<and> (\<forall>i > ra_instance s. pending_factors i s + uses i s = 0)
     \<and> pending_factors (ra_instance s) s = (if dl_busy (ra_dialog s) then 1 else 0)
     \<and> uses (ra_instance s) s = 0
     \<and> (reauthPrompt s = None \<longrightarrow> \<not> dl_busy (ra_dialog s))"

lemma reauth_okD:
  assumes "reauth_ok s"
  shows "pending_factors i s + uses i s \<le> 1" "ra_instance s < i \<Longrightarrow> pending_factors i s + uses i s = 0"
    "pending_factors (ra_instance s) s = (if dl_busy (ra_dialog s) then 1 else 0)" "uses (ra_instance s) s = 0"
    "reauthPrompt s = None \<Longrightarrow> \<not> dl_busy (ra_dialog s)"
  using assms by (simp_all add: reauth_ok_def)

lemma length_filter_update:
  "n < length xs \<Longrightarrow>
   length (filter P (xs[n := y])) + (if P (xs ! n) then 1 else 0) = length (filter P xs) + (if P y then 1 else 0)"
proof (induction xs arbitrary: n)
  case (Cons x xs)
  then show ?case by (cases n) auto
qed simp

definition core :: "ReauthState \<Rightarrow> (ReauthPrompt option \<times> nat \<times> bool) \<times> nat option list \<times> (nat \<times> ReauthPrompt \<times> string) list" where
  "core s = ((reauthPrompt s, ra_instance s, dl_busy (ra_dialog s)), map factor_of (ra_tasks s), ra_used s)"

lemma pending_map: "pending_factors i s = length (filter (\<lambda>k. k = Some i) (map factor_of (ra_tasks s)))"
  by (simp add: pending_factors_def filter_map comp_def)

lemma reauth_ok_cong: "core s' = core s \<Longrightarrow> reauth_ok s = reauth_ok s'"
  by (simp add: reauth_ok_def pending_map uses_def core_def)

lemma ok_same: "reauth_ok s \<Longrightarrow> core s' = core s \<Longrightarrow> reauth_ok s'"
  using reauth_ok_cong by blast

lemma core_frame [simp]:
  "core (close_popup p s) = core s" "core (reauth_notice m s) = core s" "core (reauth_send c s) = core s"
  "core (s\<lparr>ra_located := ls\<rparr>) = core s" "core (s\<lparr>ra_closed := cs\<rparr>) = core s"
  by (simp_all add: core_def close_popup_def reauth_notice_def reauth_send_def split: option.split)

lemma core_in_dialog: "(\<And>d. dl_busy (f d) = dl_busy d) \<Longrightarrow> core (in_dialog i f s) = core s"
  by (simp add: core_def in_dialog_def)

lemma frame_tasks [simp]:
  "ra_tasks (close_popup p s) = ra_tasks s" "ra_tasks (reauth_notice m s) = ra_tasks s" "ra_tasks (reauth_send c s) = ra_tasks s"
  "ra_tasks (in_dialog i f s) = ra_tasks s" "ra_instance (in_dialog i f s) = ra_instance s"
  "ra_instance (close_popup p s) = ra_instance s" "ra_instance (reauth_notice m s) = ra_instance s"
  "ra_instance (put_reauth n k s) = ra_instance s" "ra_dialog (put_reauth n k s) = ra_dialog s"
  by (simp_all add: close_popup_def reauth_notice_def reauth_send_def in_dialog_def put_reauth_def split: option.split)

lemma core_put_same: "n < length (ra_tasks s) \<Longrightarrow> factor_of k = factor_of (ra_tasks s ! n) \<Longrightarrow> core (put_reauth n k s) = core s"
  by (simp add: core_def put_reauth_def map_update list_update_same_conv)

lemma pending_put:
  "n < length (ra_tasks s) \<Longrightarrow> factor_of (ra_tasks s ! n) = Some i \<Longrightarrow> factor_of k = None \<Longrightarrow>
   pending_factors j (put_reauth n k s) + (if j = i then 1 else 0) = pending_factors j s"
  using length_filter_update [of n "ra_tasks s" "\<lambda>k. factor_of k = Some j" k]
  by (auto simp: pending_factors_def put_reauth_def split: if_splits)

lemma ok_setReauthPrompt: "reauth_ok s \<Longrightarrow> reauth_ok (setReauthPrompt q s)"
proof (cases "q = reauthPrompt s")
  case False
  assume ok: "reauth_ok s"
  let ?s = "setReauthPrompt q s"
  have p: "pending_factors i ?s = pending_factors i s" for i
    using False by (simp add: setReauthPrompt_def Let_def pending_factors_def close_popup_def split: option.split)
  have u: "uses i ?s = uses i s" for i
    using False by (simp add: setReauthPrompt_def Let_def uses_def close_popup_def split: option.split)
  have r: "ra_instance ?s = Suc (ra_instance s)" "dl_busy (ra_dialog ?s) = False" "ra_used ?s = ra_used s"
    using False by (simp_all add: setReauthPrompt_def Let_def close_popup_def new_dialog_def split: option.split)
  have "pending_factors i s = 0 \<and> uses i s = 0" if "ra_instance s < i" for i
    using ok that by (simp add: reauth_ok_def)
  then show ?thesis using ok by (simp add: reauth_ok_def p u r)
qed (simp add: setReauthPrompt_def)

lemma closed_prompt:
  "ra_tasks (setReauthPrompt None s) = ra_tasks s" "ra_used (setReauthPrompt None s) = ra_used s"
  "reauthPrompt (setReauthPrompt None s) = None"
  "ra_instance (setReauthPrompt None s) = (if reauthPrompt s = None then ra_instance s else Suc (ra_instance s))"
  "dl_busy (ra_dialog (setReauthPrompt None s)) \<longleftrightarrow> reauthPrompt s = None \<and> dl_busy (ra_dialog s)"
  by (auto simp: setReauthPrompt_def Let_def close_popup_def new_dialog_def split: option.split)

lemma ok_begin: "reauth_ok s \<Longrightarrow> \<not> dl_busy (ra_dialog s) \<Longrightarrow> reauthPrompt s = Some q \<Longrightarrow> reauth_ok (begin_factor q k s)"
  by (auto simp: reauth_ok_def begin_factor_def pending_factors_def uses_def)

lemma ok_idle_dialog:
  assumes "reauth_ok s" and "n < length (ra_tasks s)" and "factor_of (ra_tasks s ! n) = Some i"
  shows "reauth_ok (put_reauth n Reauth_over (in_dialog i (\<lambda>d. d\<lparr>dl_busy := False\<rparr>) s))"
proof -
  let ?d = "in_dialog i (\<lambda>d. d\<lparr>dl_busy := False\<rparr>) s"
  have p: "pending_factors j (put_reauth n Reauth_over ?d) + (if j = i then 1 else 0) = pending_factors j s" for j
    using pending_put [of n ?d i Reauth_over j] assms(2,3) by (simp add: pending_factors_def)
  have le: "pending_factors j (put_reauth n Reauth_over ?d) \<le> pending_factors j s" for j
    using p [of j] by simp
  have u: "uses j (put_reauth n Reauth_over ?d) = uses j s" for j
    by (simp add: uses_def put_reauth_def in_dialog_def)
  have now: "pending_factors (ra_instance s) (put_reauth n Reauth_over ?d) = (if dl_busy (ra_dialog ?d) then 1 else 0)"
  proof (cases "i = ra_instance s")
    case True
    then show ?thesis using p [of i] assms(1) by (simp add: reauth_ok_def in_dialog_def split: if_splits)
  next
    case False
    then show ?thesis using p [of "ra_instance s"] assms(1) by (simp add: reauth_ok_def in_dialog_def)
  qed
  have rest: "ra_used (put_reauth n Reauth_over ?d) = ra_used s"
    "reauthPrompt (put_reauth n Reauth_over ?d) = reauthPrompt s" "dl_busy (ra_dialog ?d) \<Longrightarrow> dl_busy (ra_dialog s)"
    by (auto simp: put_reauth_def in_dialog_def split: if_splits)
  have "pending_factors j (put_reauth n Reauth_over ?d) + uses j s \<le> 1" for j
    using le [of j] assms(1) unfolding reauth_ok_def by (meson add_le_mono1 order_trans)
  moreover have "pending_factors j (put_reauth n Reauth_over ?d) + uses j s = 0" if "ra_instance s < j" for j
    using le [of j] assms(1) that by (simp add: reauth_ok_def)
  ultimately show ?thesis using assms(1) now rest by (auto simp: reauth_ok_def u)
qed

lemma ok_verified:
  assumes "reauth_ok s" and "n < length (ra_tasks s)" and "factor_of (ra_tasks s ! n) = Some i"
  shows "reauth_ok (reauth_verified n i q c ticket s)"
proof -
  let ?t = "put_reauth n Running_callback (s\<lparr>ra_issued := ra_issued s @ [(c, ticket)]\<rparr>)"
  have p: "pending_factors j ?t + (if j = i then 1 else 0) = pending_factors j s" for j
    using pending_put [of n "s\<lparr>ra_issued := ra_issued s @ [(c, ticket)]\<rparr>" i Running_callback j] assms(2,3)
    by (simp add: pending_factors_def)
  have pos: "pending_factors i s = 1" "uses i s = 0" "i \<le> ra_instance s"
  proof -
    have "1 \<le> pending_factors i s" using p [of i] by simp
    moreover have "pending_factors i s + uses i s \<le> 1" using assms(1) by (simp add: reauth_ok_def)
    ultimately show "pending_factors i s = 1" "uses i s = 0" by simp_all
    show "i \<le> ra_instance s"
      using \<open>1 \<le> pending_factors i s\<close> assms(1) by (metis add_is_0 not_le not_one_le_zero reauth_ok_def)
  qed
  define s' where "s' = setReauthPrompt None ?t"
  have busy: "i = ra_instance s \<Longrightarrow> reauthPrompt s \<noteq> None"
    using reauth_okD(3,5) [OF assms(1)] pos(1) by (metis zero_neq_one)
  have tasks: "ra_tasks s' = ra_tasks ?t" "ra_used s' = ra_used s"
    "reauthPrompt s' = None" "ra_instance s' = (if reauthPrompt s = None then ra_instance s else Suc (ra_instance s))"
    "\<not> dl_busy (ra_dialog s')"
    unfolding s'_def closed_prompt using reauth_okD(5) [OF assms(1)] by (auto simp add: put_reauth_def)
  note inst = tasks(4,5)
  have lt: "i < ra_instance s'" using inst(1) busy pos(3) by (cases "i = ra_instance s") auto
  have pj: "pending_factors j s' + (if j = i then 1 else 0) = pending_factors j s" for j
    using p [of j] tasks(1) by (simp add: pending_factors_def)
  have load: "pending_factors j s' + uses j (s'\<lparr>ra_used := ra_used s' @ [(i, q, ticket)]\<rparr>) = pending_factors j s + uses j s" for j
    using pj [of j] tasks(2) by (auto simp: uses_def)
  have new: "pending_factors (ra_instance s') s' = 0" "uses (ra_instance s') (s'\<lparr>ra_used := ra_used s' @ [(i, q, ticket)]\<rparr>) = 0"
  proof -
    have "pending_factors (ra_instance s') s + uses (ra_instance s') s = 0"
    proof (cases "reauthPrompt s = None")
      case True
      with inst(1) show ?thesis using assms(1) by (simp add: reauth_ok_def)
    next
      case False
      with inst(1) show ?thesis using assms(1) by (simp add: reauth_ok_def)
    qed
    with load [of "ra_instance s'"] show "pending_factors (ra_instance s') s' = 0"
      "uses (ra_instance s') (s'\<lparr>ra_used := ra_used s' @ [(i, q, ticket)]\<rparr>) = 0" by simp_all
  qed
  have v: "reauth_verified n i q c ticket s = s'\<lparr>ra_used := ra_used s' @ [(i, q, ticket)]\<rparr>"
    by (simp add: reauth_verified_def s'_def Let_def)
  have f: "pending_factors j (s'\<lparr>ra_used := ra_used s' @ [(i, q, ticket)]\<rparr>) = pending_factors j s'" for j
    by (simp add: pending_factors_def)
  have one: "pending_factors j s + uses j s \<le> 1" "ra_instance s' < j \<Longrightarrow> pending_factors j s + uses j s = 0" for j
    using assms(1) inst(1) by (simp_all add: reauth_ok_def split: if_splits)
  show ?thesis
    unfolding v reauth_ok_def f load using one new inst(2) tasks(3) by simp
qed

lemma ok_passkey_failed:
  assumes "reauth_ok s" and "n < length (ra_tasks s)" and "factor_of (ra_tasks s ! n) = Some i"
  shows "reauth_ok (put_reauth n Reauth_over (passkey_failed env i e s))"
proof -
  have "reauth_ok (reauth_notice m s)" for m
    by (rule ok_same [OF assms(1)]) simp
  then have "reauth_ok (put_reauth n Reauth_over (in_dialog i (\<lambda>d. d\<lparr>dl_busy := False\<rparr>) (reauth_notice m s)))" for m
    using assms(2,3) by (intro ok_idle_dialog) simp_all
  then show ?thesis using ok_idle_dialog [OF assms] by (cases e) (simp_all add: passkey_failed_def)
qed

lemma ok_oidc_failed:
  assumes "reauth_ok s" and "n < length (ra_tasks s)" and "factor_of (ra_tasks s ! n) = Some i"
  shows "reauth_ok (put_reauth n Reauth_over (oidc_failed env i e s))"
proof -
  have d: "in_dialog i (\<lambda>d. d\<lparr>dl_popup := None, dl_busy := False\<rparr>) s =
      in_dialog i (\<lambda>d. d\<lparr>dl_busy := False\<rparr>) (in_dialog i (\<lambda>d. d\<lparr>dl_popup := None\<rparr>) s)" for s
    by (simp add: in_dialog_def)
  have core: "core (in_dialog i (\<lambda>d. d\<lparr>dl_popup := None\<rparr>) s') = core s'" for s'
    by (rule core_in_dialog) simp
  have "reauth_ok (put_reauth n Reauth_over (in_dialog i (\<lambda>d. d\<lparr>dl_popup := None, dl_busy := False\<rparr>) s'))"
    if "core s' = core s" "ra_tasks s' = ra_tasks s" for s'
    unfolding d using assms(2,3) that
    by (intro ok_idle_dialog ok_same [OF assms(1)]) (simp_all add: core)
  then show ?thesis by (cases e) (auto simp: oidc_failed_def Let_def)
qed

lemma ok_step_on:
  "reauth_ok s \<Longrightarrow> n < length (ra_tasks s) \<Longrightarrow> factor_of (ra_tasks s ! n) = factor_of k \<Longrightarrow> reauth_ok (put_reauth n k s)"
  using reauth_ok_cong [OF core_put_same [of n s k]] by simp

lemma ok_factor:
  assumes "reauth_ok s" and "n < length (ra_tasks s)" and "factor_of (ra_tasks s ! n) = Some i"
  shows "reauth_ok (factor_resume env n i q k r s)"
proof -
  have send: "reauth_ok (reauth_send c s)" "reauth_ok (s\<lparr>ra_located := ls\<rparr>)" for c ls
    by (rule ok_same [OF assms(1)], simp)+
  have popup: "reauth_ok (in_dialog i (\<lambda>d. d\<lparr>dl_popup := None\<rparr>) s)"
    by (rule ok_same [OF assms(1)], rule core_in_dialog) simp
  note step_facts = assms ok_verified [OF assms] ok_idle_dialog [OF assms] ok_passkey_failed [OF assms] ok_oidc_failed [OF assms]
  show ?thesis
    by (cases k; cases r) (use step_facts send popup in \<open>simp_all add: ok_step_on ok_oidc_failed\<close>)
qed

lemma ok_message: "reauth_ok s \<Longrightarrow> n < length (ra_tasks s) \<Longrightarrow> reauth_ok (popup_message n s)"
proof -
  assume ok: "reauth_ok s" and n: "n < length (ra_tasks s)"
  show ?thesis
  proof (cases "\<exists>i q w. ra_tasks s ! n = Factor i q (Awaiting_popup w)")
    case True
    then obtain i q w where k: "ra_tasks s ! n = Factor i q (Awaiting_popup w)" by blast
    let ?s = "reauth_send (Post_oidc_finish (reauth_operation q)) (close_popup (Some w) (in_dialog i (\<lambda>d. d\<lparr>dl_popup := None\<rparr>) s))"
    have "core ?s = core s" using core_in_dialog [of "\<lambda>d. d\<lparr>dl_popup := None\<rparr>" i s] by simp
    then have "reauth_ok ?s" by (rule ok_same [OF ok])
    then show ?thesis using k n by (simp add: popup_message_def ok_step_on)
  next
    case False
    then have "popup_message n s = s" by (auto simp: popup_message_def split: reauth_task.split factor_step.split)
    then show ?thesis using ok by simp
  qed
qed

lemma popup_message_length [simp]: "length (ra_tasks (popup_message n s)) = length (ra_tasks s)"
  by (auto simp: popup_message_def put_reauth_def reauth_send_def close_popup_def in_dialog_def split: reauth_task.split factor_step.split)

lemma ok_messages: "reauth_ok s \<Longrightarrow> \<forall>n \<in> set ns. n < length (ra_tasks s) \<Longrightarrow> reauth_ok (foldl (\<lambda>s n. popup_message n s) s ns)"
  by (induction ns arbitrary: s) (simp_all add: ok_message)

lemma core_discovery [simp]: "core (methods_answered i r s) = core s" "core (config_answered i r s) = core s"
  "ra_tasks (methods_answered i r s) = ra_tasks s" "ra_tasks (config_answered i r s) = ra_tasks s"
  by (auto simp: methods_answered_def config_answered_def core_in_dialog split: reauth_reply.split option.split)

lemma ok_resume:
  assumes "reauth_ok s" and "n < length (ra_tasks s)"
  shows "reauth_ok (reauth_resume env n (ra_tasks s ! n) r s)"
proof (cases "ra_tasks s ! n")
  case (Factor i q k)
  then show ?thesis using ok_factor [OF assms] by simp
next
  case (Discovering_methods i)
  moreover have "reauth_ok (methods_answered i r s)" by (rule ok_same [OF assms(1)]) simp
  ultimately show ?thesis using assms(2) by (simp add: ok_step_on)
next
  case (Discovering_config i)
  moreover have "reauth_ok (config_answered i r s)" by (rule ok_same [OF assms(1)]) simp
  ultimately show ?thesis using assms(2) by (simp add: ok_step_on)
qed (use assms in \<open>simp_all add: ok_step_on ok_setReauthPrompt\<close>)

lemma ok_handlers:
  assumes "reauth_ok s" and "reauthPrompt s = Some q"
  shows "reauth_ok (handlePasswordConfirm q s)" "reauth_ok (handlePasskeyConfirm env q s)" "reauth_ok (handleOIDCConfirm env popup q s)"
    "\<not> dl_busy (ra_dialog s) \<Longrightarrow> reauth_ok (s\<lparr>ra_dialog := (ra_dialog s)\<lparr>dl_password := v\<rparr>\<rparr>)"
proof -
  have same: "reauth_ok s'" if "core s' = core s" for s'
    using ok_same [OF assms(1) that] .
  have begin': "reauth_ok (begin_factor q k s')" if "\<not> dl_busy (ra_dialog s)" "core s' = core s" for k s'
    using ok_begin [OF same [OF that(2)]] that assms(2) by (simp add: core_def)
  show "reauth_ok (handlePasswordConfirm q s)" "reauth_ok (handlePasskeyConfirm env q s)"
    using assms(1) by (simp_all add: handlePasswordConfirm_def handlePasskeyConfirm_def begin' same)
  show "reauth_ok (handleOIDCConfirm env popup q s)"
  proof (cases popup)
    case (Some w)
    have "core (s\<lparr>ra_dialog := (ra_dialog s)\<lparr>dl_popup := Some w\<rparr>\<rparr>) = core s" by (simp add: core_def)
    then show ?thesis using Some assms(1) by (simp add: handleOIDCConfirm_def begin')
  qed (use assms(1) in \<open>simp add: handleOIDCConfirm_def same\<close>)
  show "reauth_ok (s\<lparr>ra_dialog := (ra_dialog s)\<lparr>dl_password := v\<rparr>\<rparr>)"
    by (rule same) (simp add: core_def)
qed

lemma ok_reauth_step:
  assumes "reauth_ok s"
  shows "reauth_ok (reauth_step env s e)"
proof (cases e)
  case (Window_message own type)
  then show ?thesis using assms by (simp add: onMessage_def ok_messages)
next
  case (Popup_closed_by_user w)
  then show ?thesis by (simp add: ok_same [OF assms])
qed (use assms in \<open>simp_all add: ok_resume ok_setReauthPrompt with_prompt_def ok_handlers split: option.split\<close>)

interpretation reauth: event_machine "reauth_step env" reauth_ok for env
  by unfold_locales (rule ok_reauth_step)

lemma mount_reauth_ok: "reauth_ok mount_reauth"
  by (simp add: reauth_ok_def mount_reauth_def new_dialog_def pending_factors_def uses_def)

lemma distinct_uses: "(\<And>i. length (filter (\<lambda>u. fst u = i) us) \<le> 1) \<Longrightarrow> distinct (map fst us)"
proof (induction us)
  case (Cons u us)
  have f: "length (filter (\<lambda>v. fst v = fst u) us) = 0" using Cons.prems [of "fst u"] by simp
  then have "fst u \<notin> fst ` set us" by (auto simp: filter_empty_conv)
  moreover have "length (filter (\<lambda>v. fst v = i) us) \<le> 1" for i
    using Cons.prems [of i] by (simp split: if_splits)
  ultimately show ?case using Cons.IH by simp
qed simp

subsection \<open>The requests behind the tickets\<close>

text \<open>The operation that a request asks a ticket for; the requests that only begin a factor bring none.\<close>

fun ticket_operation :: "reauth_call \<Rightarrow> string option" where
  "ticket_operation (Post_reauth_password op pw) = Some op"
| "ticket_operation (Post_passkey_finish op sid c) = Some op"
| "ticket_operation (Post_oidc_finish op) = Some op"
| "ticket_operation c = None"

definition asks_for :: "ReauthPrompt \<Rightarrow> ReauthState \<Rightarrow> nat \<Rightarrow> bool" where
  "asks_for q s c \<longleftrightarrow> c < length (ra_calls s)
     \<and> ticket_operation (ra_calls s ! c) = Some (if q = Prompt_restore then ''restore'' else ''backup'')"

fun awaits_ticket :: "reauth_task \<Rightarrow> (ReauthPrompt \<times> nat) option" where
  "awaits_ticket (Factor i q (Checking_password c)) = Some (q, c)"
| "awaits_ticket (Factor i q (Finishing_passkey c)) = Some (q, c)"
| "awaits_ticket (Factor i q (Finishing_oidc c)) = Some (q, c)"
| "awaits_ticket k = None"

definition task_asked :: "ReauthState \<Rightarrow> reauth_task \<Rightarrow> bool" where
  "task_asked s k \<longleftrightarrow> (case awaits_ticket k of None \<Rightarrow> True | Some (q, c) \<Rightarrow> asks_for q s c)"

definition use_asked :: "ReauthState \<Rightarrow> nat \<times> ReauthPrompt \<times> string \<Rightarrow> bool" where
  "use_asked s u \<longleftrightarrow> (case u of (i, q, ticket) \<Rightarrow> list_ex (\<lambda>(c, x). x = ticket \<and> asks_for q s c) (ra_issued s))"

definition asked_ok :: "ReauthState \<Rightarrow> bool" where
  "asked_ok s \<longleftrightarrow> list_all (task_asked s) (ra_tasks s) \<and> list_all (use_asked s) (ra_used s)"

lemma asked_cong:
  assumes "ra_calls s' = ra_calls s"
  shows "asks_for q s' = asks_for q s" "task_asked s' = task_asked s" "ra_issued s' = ra_issued s \<Longrightarrow> use_asked s' = use_asked s"
proof -
  show a: "asks_for q s' = asks_for q s" for q by (simp add: fun_eq_iff asks_for_def assms)
  show "task_asked s' = task_asked s" "ra_issued s' = ra_issued s \<Longrightarrow> use_asked s' = use_asked s"
    by (auto simp: fun_eq_iff task_asked_def use_asked_def a split: option.split)
qed

text \<open>A state with more requests and more tickets, the rest the same, keeps what was asked.\<close>

definition asks_more :: "ReauthState \<Rightarrow> ReauthState \<Rightarrow> bool" where
  "asks_more s s' \<longleftrightarrow> (\<exists>cs ts. ra_calls s' = ra_calls s @ cs \<and> ra_issued s' = ra_issued s @ ts)"

lemma asks_more_keeps:
  assumes "asks_more s s'"
  shows "asks_for q s c \<Longrightarrow> asks_for q s' c" "task_asked s k \<Longrightarrow> task_asked s' k" "use_asked s u \<Longrightarrow> use_asked s' u"
proof -
  show a: "asks_for q s c \<Longrightarrow> asks_for q s' c" for q c
    using assms by (auto simp: asks_more_def asks_for_def nth_append)
  show "task_asked s k \<Longrightarrow> task_asked s' k"
    using a by (auto simp: task_asked_def split: option.splits)
  show "use_asked s u \<Longrightarrow> use_asked s' u"
    using a assms by (fastforce simp: use_asked_def asks_more_def list_ex_iff split: prod.splits)
qed

lemma asked_okI:
  assumes "asked_ok s" and m: "asks_more s s'" and "ra_used s' = ra_used s"
    and t: "\<And>k. k \<in> set (ra_tasks s') \<Longrightarrow> k \<in> set (ra_tasks s) \<or> task_asked s' k"
  shows "asked_ok s'"
  using assms(1, 3) t asks_more_keeps(2, 3) [OF m] unfolding asked_ok_def list_all_iff by metis

lemma asks_more_refl [simp]: "asks_more s s"
  by (simp add: asks_more_def)

lemma asked_same:
  "asked_ok s \<Longrightarrow> asks_more s s' \<Longrightarrow> ra_used s' = ra_used s \<Longrightarrow> ra_tasks s' = ra_tasks s \<Longrightarrow> asked_ok s'"
  by (rule asked_okI) auto

definition frame :: "ReauthState \<Rightarrow> ReauthState \<Rightarrow> bool" where
  "frame s s' \<longleftrightarrow> ra_calls s' = ra_calls s \<and> ra_issued s' = ra_issued s \<and> ra_used s' = ra_used s \<and> ra_tasks s' = ra_tasks s"

lemma frame_ok: "asked_ok s \<Longrightarrow> frame s s' \<Longrightarrow> asked_ok s'"
  by (rule asked_same) (auto simp: frame_def asks_more_def)

lemma asked_put:
  assumes "asked_ok s" and "task_asked s k"
  shows "asked_ok (put_reauth n k s)"
proof (rule asked_okI [OF assms(1)])
  have t: "task_asked (put_reauth n k s) = task_asked s" by (rule asked_cong) (simp add: put_reauth_def)
  fix x assume "x \<in> set (ra_tasks (put_reauth n k s))"
  then have "x = k \<or> x \<in> set (ra_tasks s)" using set_update_subset_insert [of "ra_tasks s" n k] by (auto simp: put_reauth_def)
  then show "x \<in> set (ra_tasks s) \<or> task_asked (put_reauth n k s) x" using assms(2) t by auto
qed (simp_all add: put_reauth_def asks_more_def)

lemma asked_setReauthPrompt:
  assumes "asked_ok s"
  shows "asked_ok (setReauthPrompt q s)"
  by (rule asked_okI [OF assms])
    (auto simp: setReauthPrompt_def Let_def close_popup_def asks_more_def task_asked_def split: option.splits if_splits)

lemma asked_verified:
  assumes "asked_ok s" and "asks_for q s c"
  shows "asked_ok (reauth_verified n i q c ticket s)"
proof -
  let ?s = "s\<lparr>ra_issued := ra_issued s @ [(c, ticket)]\<rparr>"
  have "asked_ok ?s" by (rule asked_same [OF assms(1)]) (simp_all add: asks_more_def)
  then have ok: "asked_ok (setReauthPrompt None (put_reauth n Running_callback ?s))" (is "asked_ok ?t")
    by (intro asked_setReauthPrompt asked_put) (simp_all add: task_asked_def)
  have more: "ra_calls ?t = ra_calls s" "ra_issued ?t = ra_issued s @ [(c, ticket)]"
    by (auto simp: setReauthPrompt_def Let_def close_popup_def put_reauth_def split: option.split)
  then have "use_asked ?t (i, q, ticket)" using assms(2) by (simp add: use_asked_def asks_for_def)
  moreover have "task_asked (w\<lparr>ra_used := us\<rparr>) = task_asked w" "use_asked (w\<lparr>ra_used := us\<rparr>) = use_asked w" for w us
    by (rule asked_cong, simp)+ simp
  ultimately show ?thesis using ok by (simp add: reauth_verified_def Let_def asked_ok_def)
qed

lemma asked_failed:
  "frame s (passkey_failed env i e s)" "frame s (oidc_failed env i e s)"
  by (cases e; simp add: frame_def passkey_failed_def oidc_failed_def Let_def in_dialog_def reauth_notice_def close_popup_def
      split: option.split)+

lemma asked_sent:
  "asked_ok s \<Longrightarrow> ticket_operation r = Some (reauth_operation q) \<Longrightarrow>
   asked_ok (reauth_send r s) \<and> asks_for q (reauth_send r s) (length (ra_calls s))"
  using asked_same [of s "reauth_send r s"]
  by (simp add: reauth_send_def asks_more_def asks_for_def reauth_operation_def)

lemma asked_factor:
  assumes ok: "asked_ok s" and k: "task_asked s (Factor i q k)"
  shows "asked_ok (factor_resume env n i q k r s)"
proof -
  have over: "asked_ok (put_reauth n Reauth_over s')" if "frame s s'" for s'
    by (rule asked_put [OF frame_ok [OF ok that]]) (simp add: task_asked_def)
  have popup: "frame s (oidc_failed env i e (in_dialog i (\<lambda>d. d\<lparr>dl_popup := None\<rparr>) s))" for e
    using asked_failed(2) [of "in_dialog i (\<lambda>d. d\<lparr>dl_popup := None\<rparr>) s"] by (simp add: frame_def in_dialog_def)
  have dialog: "frame s (in_dialog i f s)" for f by (simp add: frame_def in_dialog_def)
  have located: "asked_ok (s\<lparr>ra_located := ls\<rparr>)" for ls by (rule frame_ok [OF ok]) (simp add: frame_def)
  have sent: "asked_ok (put_reauth n (Factor i q (Finishing_passkey (length (ra_calls s))))
      (reauth_send (Post_passkey_finish (reauth_operation q) sid c) s))" for sid c
    using asked_sent [OF ok, of "Post_passkey_finish (reauth_operation q) sid c" q]
    by (intro asked_put) (simp_all add: task_asked_def)
  have plain: "asked_ok (put_reauth n (Factor i q (Awaiting_credential sid)) s)"
    "asked_ok (put_reauth n (Factor i q (Awaiting_popup w)) (s\<lparr>ra_located := ls\<rparr>))" for sid w ls
    using ok located by (intro asked_put; simp add: task_asked_def)+
  show ?thesis
    by (cases k; cases r)
      (use k in \<open>simp_all add: ok over popup dialog sent plain asked_failed asked_verified task_asked_def\<close>)
qed

lemma asked_message:
  assumes ok: "asked_ok s"
  shows "asked_ok (popup_message n s)"
proof (cases "\<exists>i q w. ra_tasks s ! n = Factor i q (Awaiting_popup w)")
  case True
  then obtain i q w where k: "ra_tasks s ! n = Factor i q (Awaiting_popup w)" by blast
  let ?s = "close_popup (Some w) (in_dialog i (\<lambda>d. d\<lparr>dl_popup := None\<rparr>) s)"
  have "asked_ok ?s" by (rule frame_ok [OF ok]) (simp add: frame_def close_popup_def in_dialog_def)
  moreover have "length (ra_calls ?s) = length (ra_calls s)" by (simp add: close_popup_def in_dialog_def)
  ultimately have "asked_ok (put_reauth n (Factor i q (Finishing_oidc (length (ra_calls s))))
      (reauth_send (Post_oidc_finish (reauth_operation q)) ?s))"
    using asked_sent [of ?s "Post_oidc_finish (reauth_operation q)" q] by (intro asked_put) (simp_all add: task_asked_def)
  then show ?thesis using k by (simp add: popup_message_def)
next
  case False
  then have "popup_message n s = s" by (auto simp: popup_message_def split: reauth_task.split factor_step.split)
  then show ?thesis using ok by simp
qed

lemma asked_begin:
  assumes "asked_ok s" and "task_asked s (Factor (ra_instance s) q k)"
  shows "asked_ok (begin_factor q k s)"
proof (rule asked_okI [OF assms(1)])
  have t: "task_asked (begin_factor q k s) = task_asked s" by (rule asked_cong) (simp add: begin_factor_def)
  show "x \<in> set (ra_tasks s) \<or> task_asked (begin_factor q k s) x" if "x \<in> set (ra_tasks (begin_factor q k s))" for x
    using that assms(2) t by (auto simp: begin_factor_def)
qed (simp_all add: begin_factor_def asks_more_def)

lemma asked_handlers:
  assumes ok: "asked_ok s"
  shows "asked_ok (handlePasswordConfirm q s)" "asked_ok (handlePasskeyConfirm env q s)" "asked_ok (handleOIDCConfirm env popup q s)"
proof -
  have notice: "asked_ok (reauth_notice m s)" for m by (rule frame_ok [OF ok]) (simp add: frame_def reauth_notice_def)
  have begins: "asked_ok (begin_factor q k (reauth_send c s'))" if "frame s s'" "awaits_ticket (Factor (ra_instance s') q k) = None" for k c s'
    using frame_ok [OF ok that(1)] asked_same [of s' "reauth_send c s'"] that(2)
    by (intro asked_begin) (simp_all add: task_asked_def reauth_send_def asks_more_def)
  have "asked_ok (begin_factor q (Checking_password (length (ra_calls s))) (reauth_send (Post_reauth_password (reauth_operation q) pw) s))" for pw
    using asked_sent [OF ok, of "Post_reauth_password (reauth_operation q) pw" q] by (intro asked_begin) (simp_all add: task_asked_def)
  then show "asked_ok (handlePasswordConfirm q s)" using ok by (simp add: handlePasswordConfirm_def)
  show "asked_ok (handlePasskeyConfirm env q s)" using ok notice by (simp add: handlePasskeyConfirm_def begins frame_def)
  show "asked_ok (handleOIDCConfirm env popup q s)"
    using ok notice by (cases popup) (simp_all add: handleOIDCConfirm_def begins frame_def)
qed

lemma asked_reauth_step:
  assumes ok: "asked_ok s"
  shows "asked_ok (reauth_step env s e)"
proof (cases e)
  case (Reauth_answer n r)
  show ?thesis
  proof (cases "n < length (ra_tasks s)")
    case True
    then have k: "task_asked s (ra_tasks s ! n)" using ok by (simp add: asked_ok_def list_all_length)
    have over: "asked_ok (put_reauth n Reauth_over s')" if "frame s s'" for s'
      by (rule asked_put [OF frame_ok [OF ok that]]) (simp add: task_asked_def)
    have "frame s (methods_answered i r s)" "frame s (config_answered i r s)" "frame s s" for i
      by (auto simp: frame_def methods_answered_def config_answered_def in_dialog_def split: reauth_reply.split option.split)
    then have "asked_ok (reauth_resume env n (ra_tasks s ! n) r s)"
      using k ok by (cases "ra_tasks s ! n") (simp_all add: over asked_factor asked_setReauthPrompt)
    then show ?thesis using Reauth_answer True by simp
  qed (use ok Reauth_answer in simp)
next
  case (Window_message own type)
  have "asked_ok (foldl (\<lambda>s n. popup_message n s) s ns)" for ns
    using ok by (induction ns arbitrary: s) (simp_all add: asked_message)
  then show ?thesis using ok Window_message by (simp add: onMessage_def)
next
  case (Type_password v)
  have "asked_ok (s\<lparr>ra_dialog := d\<rparr>)" for d by (rule frame_ok [OF ok]) (simp add: frame_def)
  then show ?thesis using ok Type_password by (simp add: with_prompt_def split: option.split)
next
  case (Popup_closed_by_user w)
  have "asked_ok (s\<lparr>ra_closed := ws\<rparr>)" for ws by (rule frame_ok [OF ok]) (simp add: frame_def)
  then show ?thesis using Popup_closed_by_user by simp
qed (use ok in \<open>simp_all add: asked_setReauthPrompt with_prompt_def asked_handlers split: option.split\<close>)

interpretation reauth_requests: event_machine "reauth_step env" asked_ok for env
  by unfold_locales (rule asked_reauth_step)

lemma mount_reauth_asked: "asked_ok mount_reauth"
  by (simp add: asked_ok_def mount_reauth_def)

text \<open>C33: whatever the administrator, the server and the popups do, and in any order: an opening of the dialog
  runs the backup or the restore at most once, and with a ticket that answered a request whose body asked for that very
  operation, restore or backup (the password, the finished passkey or the finished popup); and the dialog is busy exactly
  while one factor of it is under way, so factors never overlap and the dialog never hangs.\<close>

theorem one_ticket_per_dialog:
  fixes env :: ReauthEnv and es :: "reauth_event list"
  defines "s \<equiv> foldl (reauth_step env) mount_reauth es"
  shows "distinct (map fst (ra_used s))
    \<and> list_all (\<lambda>(i, q, ticket). list_ex (\<lambda>(c, x). x = ticket \<and> c < length (ra_calls s)
          \<and> ticket_operation (ra_calls s ! c) = Some (if q = Prompt_restore then ''restore'' else ''backup'')) (ra_issued s)) (ra_used s)
    \<and> pending_factors (ra_instance s) s = (if dl_busy (ra_dialog s) then 1 else 0)"
proof -
  have ok: "reauth_ok s" unfolding s_def by (rule reauth.run_inv [OF mount_reauth_ok])
  have "asked_ok s" unfolding s_def by (rule reauth_requests.run_inv [OF mount_reauth_asked])
  then have "list_all (use_asked s) (ra_used s)" by (simp add: asked_ok_def)
  moreover have "length (filter (\<lambda>u. fst u = i) (ra_used s)) \<le> 1" for i
    using reauth_okD(1) [OF ok, of i] by (simp add: uses_def)
  ultimately show ?thesis
    using distinct_uses reauth_okD(3) [OF ok] unfolding use_asked_def [abs_def] asks_for_def by blast
qed

text \<open>Leaving the dialog does not stop it: the cancel button is disabled while a factor is checked, but the
  dialog can still be dismissed (Escape, or a click outside), and the restore runs when the ticket comes.\<close>

lemma dismissed_dialog_still_restores:
  "ra_used (foldl (reauth_step env) mount_reauth
     [Open_prompt Prompt_restore, Type_password ''secret'', Confirm_password, Dismiss, Reauth_answer 2 (Ticket ticket)])
   = [(1, Prompt_restore, ticket)]"
proof -
  have "trim ''secret'' \<noteq> []" by code_simp
  then show ?thesis
    by (simp add: mount_reauth_def setReauthPrompt_def close_popup_def new_dialog_def with_prompt_def handlePasswordConfirm_def
        begin_factor_def reauth_send_def reauth_verified_def put_reauth_def Let_def)
qed

text \<open>The end of an operation closes whatever dialog is open then.\<close>

lemma finished_operation_closes_next_dialog:
  assumes "n < length (ra_tasks s)" and "ra_tasks s ! n = Running_callback"
  shows "reauthPrompt (foldl (reauth_step env) s [Open_prompt q, Reauth_answer n Callback_settled]) = None"
proof -
  have "ra_tasks (setReauthPrompt (Some q) s) ! n = Running_callback" "n < length (ra_tasks (setReauthPrompt (Some q) s))"
    using assms by (auto simp: setReauthPrompt_def Let_def close_popup_def nth_append split: option.split)
  then show ?thesis by (simp add: closed_prompt(3))
qed

end
