(* ===== verification/Reports.thy ===== *)
theory Reports
  imports SubscriptionCards
begin

text \<open>
  The reports, \<open>web/src/features/reports/reports-page.tsx\<close> and \<open>reports-panels.tsx\<close>, with their payload,
  \<open>web/src/types/reports.ts\<close>: what each panel shows, and the geometry of the forecast chart.  Parameters:
  \<open>t\<close> and \<open>formatDay\<close> are as in \<open>DetailDrawer\<close>, \<open>money\<close> is \<open>formatCurrencyWithSymbol\<close> in the language
  shown, and \<open>render_month\<close> the locale's rendering of the month of a day.
\<close>

subsection \<open>reports.ts\<close>

record AnalyticsReportKPIs =
  kp_active_count :: int
  kp_auto_renew_count :: int
  kp_manual_renew_count :: int
  kp_canceling_count :: int
  kp_total_monthly :: rat
  kp_total_yearly :: rat
  kp_committed_monthly :: rat
  kp_committed_yearly :: rat
  kp_due_this_month :: rat
  kp_due_next_30_days :: rat
  kp_upcoming_renewal_count :: int

record MonthlyForecastItem =
  mf_month :: string
  mf_amount_due :: rat
  mf_occurrence_count :: int

record ReportBreakdownItem =
  rb_key :: string
  rb_label :: string
  rb_count :: int
  rb_monthly_amount :: rat
  rb_yearly_amount :: rat
  rb_percentage :: rat

record ReportSubscriptionSpend =
  rs_id :: int
  rs_name :: string
  rs_icon :: string
  rs_category :: string
  rs_payment_method :: string
  rs_renewal_mode :: SubscriptionRenewalMode
  rs_next_billing_date :: string
  rs_monthly_amount :: rat
  rs_yearly_amount :: rat
  rs_original_amount :: rat
  rs_original_currency :: string

record ReportUpcomingRenewal =
  ru_id :: int
  ru_name :: string
  ru_icon :: string
  ru_billing_date :: string
  ru_days_until :: int
  ru_amount :: rat
  ru_category :: string
  ru_payment_method :: string
  ru_renewal_mode :: SubscriptionRenewalMode

record ReportPriceIncrease =
  pi_subscription_id :: int
  pi_name :: string
  pi_previous_monthly_amount :: rat
  pi_new_monthly_amount :: rat
  pi_delta_monthly_amount :: rat
  pi_delta_percentage :: rat
  pi_currency :: string
  pi_changed_at :: string

record ReportSubscriptionEvent =
  re_id :: int
  re_subscription_id :: "int option"
  re_name :: string
  re_type :: SubscriptionEventType
  re_changed_fields :: "string list"
  re_previous_amount :: "rat option"
  re_new_amount :: "rat option"
  re_previous_currency :: string
  re_new_currency :: string
  re_changed_at :: string

record ReportAnnualGrowthItem =
  ag_subscription_id :: int
  ag_name :: string
  ag_baseline_monthly_amount :: rat
  ag_current_monthly_amount :: rat
  ag_delta_monthly_amount :: rat
  ag_delta_percentage :: rat
  ag_currency :: string

record AnalyticsReport =
  ar_currency :: string
  ar_generated_at :: string
  ar_kpis :: AnalyticsReportKPIs
  ar_monthly_forecast :: "MonthlyForecastItem list option"
  ar_category_breakdown :: "ReportBreakdownItem list option"
  ar_payment_method_breakdown :: "ReportBreakdownItem list option"
  ar_renewal_mode_breakdown :: "ReportBreakdownItem list option"
  ar_top_subscriptions :: "ReportSubscriptionSpend list option"
  ar_upcoming_renewals :: "ReportUpcomingRenewal list option"
  ar_price_increases :: "ReportPriceIncrease list option"
  ar_recent_changes :: "ReportSubscriptionEvent list option"
  ar_annual_growth :: "ReportAnnualGrowthItem list option"

subsection \<open>Helpers\<close>

text \<open>\<open>toFixed(1)\<close> below \<open>10^21\<close>: the nearest number of tenths, the larger one of two.\<close>

definition tenths_text :: "int \<Rightarrow> string" where
  "tenths_text n = int_to_string (n div 10) @ ''.'' @ int_to_string (n mod 10)"

definition toFixed1 :: "rat \<Rightarrow> string" where
  "toFixed1 x = (if x < 0 then ''-'' @ tenths_text (floor (- x * 10 + 1 / 2)) else tenths_text (floor (x * 10 + 1 / 2)))"

definition max_of :: "rat \<Rightarrow> rat list \<Rightarrow> rat" where
  "max_of = foldl max"

text \<open>A part of the text that is no number is \<open>NaN\<close>, which is falsy like zero.\<close>

definition formatMonth :: "(int \<Rightarrow> string) \<Rightarrow> string \<Rightarrow> string" where
  "formatMonth render_month v =
     (let parts = split_on (CHR ''-'') v;
          year = nullish (parse_int (hd parts)) 0;
          month = (if 1 < length parts then nullish (parse_int (parts ! 1)) 0 else 0)
      in if year = 0 \<or> month = 0 then v else render_month (date_utc year (month - 1) 1))"

subsection \<open>The chart\<close>

definition chartWidth :: rat where "chartWidth = 760"
definition chartHeight :: rat where "chartHeight = 240"
definition chartLeft :: rat where "chartLeft = 24"
definition chartTop :: rat where "chartTop = 24"
definition chartBottom :: rat where "chartBottom = chartHeight - 34"
definition chartSpanX :: rat where "chartSpanX = chartWidth - chartLeft - 24"
definition chartSpanY :: rat where "chartSpanY = chartBottom - chartTop"

lemmas chart_defs = chartWidth_def chartHeight_def chartLeft_def chartTop_def chartBottom_def chartSpanX_def chartSpanY_def

type_synonym point = "rat \<times> rat"

definition chart_point :: "nat \<Rightarrow> rat \<Rightarrow> nat \<Rightarrow> MonthlyForecastItem \<Rightarrow> point" where
  "chart_point n maxAmount i item =
     (chartLeft + chartSpanX * of_nat i / of_nat (max 1 (n - 1)), chartBottom - mf_amount_due item / maxAmount * chartSpanY)"

definition chart_points :: "rat \<Rightarrow> MonthlyForecastItem list \<Rightarrow> point list" where
  "chart_points maxAmount items =
     map (\<lambda>i. chart_point (length items) maxAmount i (items ! i)) [0..<length items]"

definition curve_controls :: "point \<Rightarrow> point \<Rightarrow> point \<times> point" where
  "curve_controls previous p =
     (let controlOffset = (fst p - fst previous) * (45 / 100)
      in ((fst previous + controlOffset, snd previous), (fst p - controlOffset, snd p)))"

definition point_text :: "point \<Rightarrow> string" where
  "point_text p = toFixed1 (fst p) @ '' '' @ toFixed1 (snd p)"

definition curve_text :: "point \<Rightarrow> point \<Rightarrow> string" where
  "curve_text previous p =
     (let (c1, c2) = curve_controls previous p
      in join_with '' '' [''C '' @ point_text c1, point_text c2, point_text p])"

fun curve_path :: "string \<Rightarrow> point \<Rightarrow> point list \<Rightarrow> string" where
  "curve_path path previous [] = path"
| "curve_path path previous (p # ps) = curve_path (path @ '' '' @ curve_text previous p) p ps"

definition smoothLinePath :: "point list \<Rightarrow> string" where
  "smoothLinePath points = (case points of [] \<Rightarrow> [] | p # ps \<Rightarrow> curve_path (''M '' @ point_text p) p ps)"

definition area_path :: "point list \<Rightarrow> string" where
  "area_path points =
     (if 1 < length points
      then smoothLinePath points @ '' L '' @ toFixed1 (fst (last points)) @ '' 206 L '' @ toFixed1 (fst (hd points)) @ '' 206 Z''
      else [])"

definition yTicks :: "rat list" where
  "yTicks = [0, 1 / 4, 1 / 2, 3 / 4, 1]"

definition tick_lines :: "rat list" where
  "tick_lines = map (\<lambda>tick. chartBottom - tick * chartSpanY) yTicks"

record Tooltip =
  tt_left :: rat
  tt_top :: rat
  tt_transform :: string
  tt_month :: string
  tt_amount :: string
  tt_occurrences :: string

definition tooltip_transform :: "rat \<Rightarrow> string" where
  "tooltip_transform x =
     (if chartWidth * (68 / 100) < x then ''translate(-100%, calc(-100% - 12px))''
      else if x < chartWidth * (32 / 100) then ''translate(0, calc(-100% - 12px))''
      else ''translate(-50%, calc(-100% - 12px))'')"

text \<open>A label under the chart: whether it is shown on narrow screens too, and where.\<close>

record PointLabel =
  pl_text :: "string option"
  pl_edge :: bool
  pl_align :: string
  pl_from_right :: bool
  pl_offset :: rat

definition point_label :: "(string \<Rightarrow> string) \<Rightarrow> nat \<Rightarrow> nat \<Rightarrow> MonthlyForecastItem \<Rightarrow> rat \<Rightarrow> PointLabel" where
  "point_label monthText n i item x =
     \<lparr>pl_text = (if i = 0 \<or> i = n - 1 \<or> i mod 3 = 0 then Some (monthText (mf_month item)) else None),
      pl_edge = (i = 0 \<or> i = n - 1),
      pl_align = (if i = 0 then ''text-left'' else if i = n - 1 then ''text-right'' else ''-translate-x-1/2 text-center''),
      pl_from_right = (i = n - 1),
      pl_offset = (if i = n - 1 then (chartWidth - x) / chartWidth * 100 else x / chartWidth * 100)\<rparr>"

record ForecastView =
  fv_points :: "point list"
  fv_line :: string
  fv_area :: string
  fv_labels :: "PointLabel list"
  fv_tooltip :: "Tooltip option"

definition MonthlyForecastPanel ::
  "t_fun \<Rightarrow> (string \<Rightarrow> string) \<Rightarrow> (rat \<Rightarrow> string) \<Rightarrow> rat \<Rightarrow> nat option \<Rightarrow> MonthlyForecastItem list \<Rightarrow> ForecastView option" where
  "MonthlyForecastPanel t monthText formatAmount maxAmount activeIndex items =
     (if items = [] then None
      else
        let points = chart_points maxAmount items; n = length items
        in Some \<lparr>fv_points = points, fv_line = smoothLinePath points, fv_area = area_path points,
             fv_labels = map (\<lambda>i. point_label monthText n i (items ! i) (fst (points ! i))) [0..<n],
             fv_tooltip =
               (case activeIndex of
                  None \<Rightarrow> None
                | Some i \<Rightarrow>
                    if i < n then
                      Some \<lparr>tt_left = fst (points ! i) / chartWidth * 100, tt_top = snd (points ! i) / chartHeight * 100,
                        tt_transform = tooltip_transform (fst (points ! i)), tt_month = monthText (mf_month (items ! i)),
                        tt_amount = formatAmount (mf_amount_due (items ! i)),
                        tt_occurrences = t ''reports.forecast.occurrences'' [(''count'', T_num (mf_occurrence_count (items ! i)))]\<rparr>
                    else None)\<rparr>)"

datatype chart_event = Point_entered nat | Chart_left | Point_blurred

fun chart_step :: "nat option \<Rightarrow> chart_event \<Rightarrow> nat option" where
  "chart_step active (Point_entered i) = Some i"
| "chart_step active Chart_left = None"
| "chart_step active Point_blurred = None"

subsection \<open>The other panels\<close>

record BreakdownRow =
  br_label :: string
  br_count :: int
  br_amount :: string
  br_percentage :: string
  br_width :: rat

definition BreakdownPanel :: "(ReportBreakdownItem \<Rightarrow> string) \<Rightarrow> (rat \<Rightarrow> string) \<Rightarrow> ReportBreakdownItem list \<Rightarrow> BreakdownRow list" where
  "BreakdownPanel labelForKey formatAmount items =
     map (\<lambda>item. \<lparr>br_label = labelForKey item, br_count = rb_count item, br_amount = formatAmount (rb_monthly_amount item),
       br_percentage = toFixed1 (rb_percentage item) @ ''%'', br_width = max 2 (min 100 (rb_percentage item))\<rparr>) items"

record SpendRow =
  sr_icon :: icon_view
  sr_name :: string
  sr_badge :: string
  sr_detail :: string
  sr_amount :: string

definition TopSubscriptionsPanel ::
  "t_fun \<Rightarrow> (string \<Rightarrow> string) \<Rightarrow> (rat \<Rightarrow> string) \<Rightarrow> ReportSubscriptionSpend list \<Rightarrow> SpendRow list" where
  "TopSubscriptionsPanel t formatDay formatAmount items =
     map (\<lambda>item. \<lparr>sr_icon = renderIcon (rs_icon item) (rs_name item), sr_name = rs_name item,
       sr_badge = reportRenewalModeLabel (rs_renewal_mode item) (as_translator t),
       sr_detail = or_str (rs_category item) (t ''reports.categories.none'' [])
         @ (if rs_next_billing_date item \<noteq> [] then '' / '' @ formatDay (rs_next_billing_date item) else []),
       sr_amount = formatAmount (rs_monthly_amount item)\<rparr>) items"

definition UpcomingRenewalsPanel ::
  "t_fun \<Rightarrow> (string \<Rightarrow> string) \<Rightarrow> (rat \<Rightarrow> string) \<Rightarrow> ReportUpcomingRenewal list \<Rightarrow> SpendRow list" where
  "UpcomingRenewalsPanel t formatDay formatAmount items =
     map (\<lambda>item. \<lparr>sr_icon = renderIcon (ru_icon item) (ru_name item), sr_name = ru_name item,
       sr_badge = reportRenewalModeLabel (ru_renewal_mode item) (as_translator t),
       sr_detail = formatDay (ru_billing_date item) @ '' / '' @ t ''reports.upcoming.daysUntil'' [(''count'', T_num (ru_days_until item))],
       sr_amount = formatAmount (ru_amount item)\<rparr>) items"

record IncreaseRow =
  ir_name :: string
  ir_date :: string
  ir_badge :: string
  ir_previous :: string
  ir_new :: string
  ir_delta :: string

definition PriceIncreasesPanel ::
  "t_fun \<Rightarrow> (string \<Rightarrow> string) \<Rightarrow> (rat \<Rightarrow> string) \<Rightarrow> ReportPriceIncrease list \<Rightarrow> IncreaseRow list" where
  "PriceIncreasesPanel t formatDay formatAmount items =
     map (\<lambda>item. \<lparr>ir_name = pi_name item, ir_date = formatDay (pi_changed_at item),
       ir_badge = ''+'' @ toFixed1 (pi_delta_percentage item) @ ''%'',
       ir_previous = formatAmount (pi_previous_monthly_amount item), ir_new = formatAmount (pi_new_monthly_amount item),
       ir_delta = t ''reports.priceIncreases.delta'' [(''amount'', T_text (formatAmount (pi_delta_monthly_amount item)))]\<rparr>) items"

record GrowthRow =
  gw_name :: string
  gw_range :: string
  gw_delta :: string
  gw_percentage :: string
  gw_width :: rat

definition AnnualGrowthPanel :: "t_fun \<Rightarrow> (rat \<Rightarrow> string) \<Rightarrow> ReportAnnualGrowthItem list \<Rightarrow> GrowthRow list" where
  "AnnualGrowthPanel t formatAmount items =
     (let maxDelta = max_of 1 (map ag_delta_monthly_amount items)
      in map (\<lambda>item. \<lparr>gw_name = ag_name item,
           gw_range = t ''reports.annualGrowth.fromTo'' [(''from'', T_text (formatAmount (ag_baseline_monthly_amount item))),
             (''to'', T_text (formatAmount (ag_current_monthly_amount item)))],
           gw_delta = formatAmount (ag_delta_monthly_amount item), gw_percentage = ''+'' @ toFixed1 (ag_delta_percentage item) @ ''%'',
           gw_width = max 4 (min 100 (ag_delta_monthly_amount item / maxDelta * 100))\<rparr>) items)"

record ChangeRow =
  cr_name :: string
  cr_type :: string
  cr_detail :: string
  cr_amounts :: string

definition RecentChangesPanel ::
  "t_fun \<Rightarrow> (string \<Rightarrow> string) \<Rightarrow> (rat \<Rightarrow> string) \<Rightarrow> ReportSubscriptionEvent list \<Rightarrow> ChangeRow list" where
  "RecentChangesPanel t formatDay formatAmount items =
     map (\<lambda>item. \<lparr>cr_name = re_name item, cr_type = subscriptionEventTypeLabel (event_type_text (re_type item)) (as_translator t),
       cr_detail = formatDay (re_changed_at item)
         @ (if re_changed_fields item \<noteq> []
            then '' / '' @ join_with '', '' (map (\<lambda>field. subscriptionEventFieldLabel field (as_translator t)) (re_changed_fields item))
            else []),
       cr_amounts = formatSubscriptionEventAmountChange
         \<lparr>ac_new_amount = re_new_amount item, ac_new_currency = Some (re_new_currency item),
          ac_previous_amount = re_previous_amount item, ac_previous_currency = Some (re_previous_currency item)\<rparr>
         (\<lambda>amount currency. formatAmount amount)\<rparr>) items"

subsection \<open>The page\<close>

datatype reports_reply = Reports_failed | Reports_loaded AnalyticsReport "UserCurrency list option"

record ReportsState =
  rp_report :: "AnalyticsReport option"
  rp_currencies :: "UserCurrency list"
  rp_loading :: bool
  rp_activeIndex :: "nat option"

definition mount_reports :: ReportsState where
  "mount_reports = \<lparr>rp_report = None, rp_currencies = [], rp_loading = True, rp_activeIndex = None\<rparr>"

definition reports_answered :: "reports_reply \<Rightarrow> ReportsState \<Rightarrow> ReportsState" where
  "reports_answered r s =
     (case r of
        Reports_failed \<Rightarrow> s\<lparr>rp_loading := False\<rparr>
      | Reports_loaded report cs \<Rightarrow> s\<lparr>rp_report := Some report, rp_currencies := nullish cs [], rp_loading := False\<rparr>)"

definition displayCurrency :: "ReportsState \<Rightarrow> string" where
  "displayCurrency s = or_str (case rp_report s of Some r \<Rightarrow> ar_currency r | None \<Rightarrow> []) ''USD''"

definition report_amount :: "(rat \<Rightarrow> string \<Rightarrow> string option \<Rightarrow> string) \<Rightarrow> ReportsState \<Rightarrow> rat \<Rightarrow> string" where
  "report_amount money s amount =
     money amount (displayCurrency s)
       (map_option uc_symbol (map_of_list (\<lambda>c. toUpperCase (uc_code c)) (rp_currencies s) (toUpperCase (displayCurrency s))))"

definition monthlyForecast :: "ReportsState \<Rightarrow> MonthlyForecastItem list" where
  "monthlyForecast s = (case rp_report s of Some r \<Rightarrow> nullish (ar_monthly_forecast r) [] | None \<Rightarrow> [])"

definition maxForecastAmount :: "MonthlyForecastItem list \<Rightarrow> rat" where
  "maxForecastAmount items = max_of 1 (map mf_amount_due items)"

definition forecast12MonthTotal :: "MonthlyForecastItem list \<Rightarrow> rat" where
  "forecast12MonthTotal items = foldl (\<lambda>total item. total + mf_amount_due item) 0 items"

definition forecast12MonthPayments :: "MonthlyForecastItem list \<Rightarrow> int" where
  "forecast12MonthPayments items = foldl (\<lambda>total item. total + mf_occurrence_count item) 0 items"

text \<open>A card: its label, value and detail.\<close>

definition kpi_cards :: "t_fun \<Rightarrow> (rat \<Rightarrow> string) \<Rightarrow> AnalyticsReportKPIs \<Rightarrow> MonthlyForecastItem list \<Rightarrow> (string \<times> string \<times> string) list" where
  "kpi_cards t formatAmount k forecast =
     (let amount = (\<lambda>x. (''amount'', T_text (formatAmount x))); count = (\<lambda>n. (''count'', T_num n)) in
      [(t ''reports.kpis.monthly'' [], formatAmount (kp_total_monthly k), t ''reports.kpis.yearlyDetail'' [amount (kp_total_yearly k)]),
       (t ''reports.yearlyStats.totalYearly'' [], formatAmount (kp_total_yearly k),
        t ''reports.yearlyStats.monthlyAverage'' [amount (kp_total_yearly k / 12)]),
       (t ''reports.kpis.committed'' [], formatAmount (kp_committed_monthly k),
        t ''reports.kpis.autoRenewDetail'' [count (kp_auto_renew_count k)]),
       (t ''reports.yearlyStats.committedYearly'' [], formatAmount (kp_committed_yearly k),
        t ''reports.yearlyStats.autoRenewCount'' [count (kp_auto_renew_count k)]),
       (t ''reports.kpis.next30Days'' [], formatAmount (kp_due_next_30_days k),
        t ''reports.kpis.renewalDetail'' [count (kp_upcoming_renewal_count k)]),
       (t ''reports.yearlyStats.forecast12Months'' [], formatAmount (forecast12MonthTotal forecast),
        t ''reports.yearlyStats.forecastMonths'' [count (int (length forecast))]),
       (t ''reports.kpis.active'' [], int_to_string (kp_active_count k),
        t ''reports.kpis.modeDetail'' [(''auto'', T_num (kp_auto_renew_count k)), (''manual'', T_num (kp_manual_renew_count k)),
          (''canceling'', T_num (kp_canceling_count k))]),
       (t ''reports.yearlyStats.forecastPayments'' [], int_to_string (forecast12MonthPayments forecast),
        t ''reports.yearlyStats.paymentDetail'' [])])"

record ReportsView =
  vw_kpis :: "(string \<times> string \<times> string) list"
  vw_forecast :: "ForecastView option"
  vw_breakdowns :: "BreakdownRow list list"
  vw_top :: "SpendRow list"
  vw_upcoming :: "SpendRow list"
  vw_increases :: "IncreaseRow list"
  vw_growth :: "GrowthRow list"
  vw_changes :: "ChangeRow list"

text \<open>\<open>as_mode\<close> reads the key of a renewal mode, which the code casts.\<close>

datatype reports_body = Reports_skeleton | Reports_error | Reports_panels ReportsView

definition ReportsPage ::
  "t_fun \<Rightarrow> (string \<Rightarrow> string) \<Rightarrow> (int \<Rightarrow> string) \<Rightarrow> (rat \<Rightarrow> string \<Rightarrow> string option \<Rightarrow> string)
   \<Rightarrow> ReportsState \<Rightarrow> reports_body" where
  "ReportsPage t formatDay render_month money s =
     (if rp_loading s then Reports_skeleton
      else case rp_report s of
        None \<Rightarrow> Reports_error
      | Some r \<Rightarrow>
          let formatAmount = report_amount money s; forecast = monthlyForecast s;
              plain = (\<lambda>key none. BreakdownPanel (\<lambda>item. or_str (rb_label item) (t none [])) formatAmount key)
          in Reports_panels
            \<lparr>vw_kpis = kpi_cards t formatAmount (ar_kpis r) forecast,
             vw_forecast = MonthlyForecastPanel t (formatMonth render_month) formatAmount (maxForecastAmount forecast)
               (rp_activeIndex s) forecast,
             vw_breakdowns =
               [BreakdownPanel (\<lambda>item. t (''reports.renewalModes.'' @ rb_key item) []) formatAmount (nullish (ar_renewal_mode_breakdown r) []),
                plain (nullish (ar_category_breakdown r) []) ''reports.categories.none'',
                plain (nullish (ar_payment_method_breakdown r) []) ''reports.paymentMethods.none''],
             vw_top = TopSubscriptionsPanel t formatDay formatAmount (nullish (ar_top_subscriptions r) []),
             vw_upcoming = UpcomingRenewalsPanel t formatDay formatAmount (nullish (ar_upcoming_renewals r) []),
             vw_increases = PriceIncreasesPanel t formatDay formatAmount (nullish (ar_price_increases r) []),
             vw_growth = AnnualGrowthPanel t formatAmount (nullish (ar_annual_growth r) []),
             vw_changes = RecentChangesPanel t formatDay formatAmount (nullish (ar_recent_changes r) [])\<rparr>)"

datatype reports_event = Reports_answer reports_reply | Reports_chart chart_event

fun reports_step :: "ReportsState \<Rightarrow> reports_event \<Rightarrow> ReportsState" where
  "reports_step s (Reports_answer r) = reports_answered r s"
| "reports_step s (Reports_chart e) = s\<lparr>rp_activeIndex := chart_step (rp_activeIndex s) e\<rparr>"

subsection \<open>The chart stays in its plot\<close>

lemma max_of_start: "a \<le> max_of a xs"
  by (induction xs arbitrary: a) (auto simp: max_of_def intro: order_trans max.cobounded1)

lemma max_of_ge: "x \<in> set xs \<Longrightarrow> x \<le> max_of a xs"
proof (induction xs arbitrary: a)
  case (Cons y xs)
  have "y \<le> max_of (max a y) xs" using max_of_start [of "max a y" xs] by simp
  then show ?case using Cons by (auto simp: max_of_def)
qed simp

lemma max_of_in: "max_of a xs = a \<or> max_of a xs \<in> set xs"
proof (induction xs arbitrary: a)
  case (Cons y xs)
  then show ?case using Cons [of "max a y"] by (auto simp: max_of_def max_def split: if_splits)
qed (simp add: max_of_def)

text \<open>The point at \<open>u\<close> of the cubic that the path draws between two points.\<close>

definition cubic :: "rat \<Rightarrow> rat \<Rightarrow> rat \<Rightarrow> rat \<Rightarrow> rat \<Rightarrow> rat" where
  "cubic u a b c d = (1 - u) ^ 3 * a + 3 * (1 - u) ^ 2 * u * b + 3 * (1 - u) * u ^ 2 * c + u ^ 3 * d"

definition curve_at :: "point \<Rightarrow> point \<Rightarrow> rat \<Rightarrow> point" where
  "curve_at p q u =
     (let (c1, c2) = curve_controls p q in (cubic u (fst p) (fst c1) (fst c2) (fst q), cubic u (snd p) (snd c1) (snd c2) (snd q)))"

lemma cubic_upper:
  assumes "0 \<le> u" "u \<le> 1" "a \<le> m" "b \<le> m" "c \<le> m" "d \<le> m"
  shows "cubic u a b c d \<le> m"
proof -
  have "m - cubic u a b c d = (1 - u) ^ 3 * (m - a) + 3 * (1 - u) ^ 2 * u * (m - b) + 3 * (1 - u) * u ^ 2 * (m - c) + u ^ 3 * (m - d)"
    by (simp add: cubic_def power2_eq_square power3_eq_cube algebra_simps)
  also have "\<dots> \<ge> 0" using assms by (intro add_nonneg_nonneg mult_nonneg_nonneg) simp_all
  finally show ?thesis by simp
qed

lemma cubic_lower:
  assumes "0 \<le> u" "u \<le> 1" "m \<le> a" "m \<le> b" "m \<le> c" "m \<le> d"
  shows "m \<le> cubic u a b c d"
proof -
  have "cubic u (- a) (- b) (- c) (- d) = - cubic u a b c d" by (simp add: cubic_def)
  then show ?thesis using cubic_upper [of u "- a" "- m" "- b" "- c" "- d"] assms by simp
qed

lemma curve_between:
  assumes "0 \<le> u" "u \<le> 1" and "fst p \<le> fst q"
  shows "fst p \<le> fst (curve_at p q u) \<and> fst (curve_at p q u) \<le> fst q
    \<and> min (snd p) (snd q) \<le> snd (curve_at p q u) \<and> snd (curve_at p q u) \<le> max (snd p) (snd q)"
  unfolding curve_at_def curve_controls_def Let_def prod.case fst_conv snd_conv
  using assms by (intro conjI cubic_upper cubic_lower) (simp_all add: field_simps)

lemma point_x:
  "i < length items \<Longrightarrow> fst (chart_points m items ! i) = chartLeft + chartSpanX * of_nat i / of_nat (max 1 (length items - 1))"
  by (simp add: chart_points_def chart_point_def)

lemma point_y:
  "i < length items \<Longrightarrow> snd (chart_points m items ! i) = chartBottom - mf_amount_due (items ! i) / m * chartSpanY"
  by (simp add: chart_points_def chart_point_def)

lemma point_in_plot:
  assumes "list_all (\<lambda>item. 0 \<le> mf_amount_due item) items" and i: "i < length items"
  shows "chartLeft \<le> fst (chart_points (maxForecastAmount items) items ! i)
    \<and> fst (chart_points (maxForecastAmount items) items ! i) \<le> chartWidth - 24
    \<and> chartTop \<le> snd (chart_points (maxForecastAmount items) items ! i)
    \<and> snd (chart_points (maxForecastAmount items) items ! i) \<le> chartBottom"
proof -
  let ?m = "maxForecastAmount items" and ?n = "of_nat (max 1 (length items - 1)) :: rat"
  have m: "1 \<le> ?m" unfolding maxForecastAmount_def by (rule max_of_start)
  have "mf_amount_due (items ! i) \<le> ?m" unfolding maxForecastAmount_def using i by (intro max_of_ge) simp
  moreover have "0 \<le> mf_amount_due (items ! i)" using assms by (simp add: list_all_length)
  ultimately have r: "0 \<le> mf_amount_due (items ! i) / ?m" "mf_amount_due (items ! i) / ?m \<le> 1" using m by simp_all
  have "i \<le> max 1 (length items - 1)" using i by linarith
  then have "(of_nat i :: rat) \<le> ?n" by (simp only: of_nat_le_iff)
  moreover have "0 < ?n" by simp
  ultimately have x: "of_nat i / ?n \<le> (1 :: rat)" "0 \<le> of_nat i / ?n" by (simp_all add: divide_le_eq)
  show ?thesis
    using r x mult_left_mono [OF x(1), of chartSpanX] mult_right_mono [OF r(2), of chartSpanY]
      mult_nonneg_nonneg [OF _ x(2), of chartSpanX] mult_nonneg_nonneg [OF r(1), of chartSpanY]
    unfolding point_x [OF i] point_y [OF i] times_divide_eq_right [symmetric] by (simp add: chart_defs)
qed

lemma points_ascend:
  assumes "Suc i < length items"
  shows "fst (chart_points m items ! i) < fst (chart_points m items ! Suc i)"
proof -
  have "0 < (of_nat (max 1 (length items - 1)) :: rat)" by simp
  then show ?thesis using assms by (simp add: point_x chart_defs divide_strict_right_mono)
qed

text \<open>C39: the forecast chart shows the numbers: with amounts that are not negative, every point and every place of
  the curve between them lies in the plot, from left to right in the order of the months, at a height between those of
  its neighbours; and when a month reaches one unit of the currency, the highest amount touches the top line.\<close>

theorem forecast_chart_in_plot:
  assumes "list_all (\<lambda>item. 0 \<le> mf_amount_due item) items" and "ps = chart_points (maxForecastAmount items) items"
  shows "(\<forall>i < length items. chartLeft \<le> fst (ps ! i) \<and> fst (ps ! i) \<le> chartWidth - 24 \<and> chartTop \<le> snd (ps ! i) \<and> snd (ps ! i) \<le> chartBottom)
    \<and> (\<forall>i u. Suc i < length items \<longrightarrow> 0 \<le> u \<longrightarrow> u \<le> 1 \<longrightarrow>
         fst (ps ! i) < fst (ps ! Suc i)
         \<and> fst (ps ! i) \<le> fst (curve_at (ps ! i) (ps ! Suc i) u) \<and> fst (curve_at (ps ! i) (ps ! Suc i) u) \<le> fst (ps ! Suc i)
         \<and> min (snd (ps ! i)) (snd (ps ! Suc i)) \<le> snd (curve_at (ps ! i) (ps ! Suc i) u)
         \<and> snd (curve_at (ps ! i) (ps ! Suc i) u) \<le> max (snd (ps ! i)) (snd (ps ! Suc i)))
    \<and> ((\<exists>item \<in> set items. 1 \<le> mf_amount_due item) \<longrightarrow> (\<exists>i < length items. snd (ps ! i) = chartTop))"
proof (intro conjI)
  show "\<forall>i < length items. chartLeft \<le> fst (ps ! i) \<and> fst (ps ! i) \<le> chartWidth - 24 \<and> chartTop \<le> snd (ps ! i) \<and> snd (ps ! i) \<le> chartBottom"
    using point_in_plot [OF assms(1)] unfolding assms(2) by blast
  show "\<forall>i u. Suc i < length items \<longrightarrow> 0 \<le> u \<longrightarrow> u \<le> 1 \<longrightarrow>
         fst (ps ! i) < fst (ps ! Suc i)
         \<and> fst (ps ! i) \<le> fst (curve_at (ps ! i) (ps ! Suc i) u) \<and> fst (curve_at (ps ! i) (ps ! Suc i) u) \<le> fst (ps ! Suc i)
         \<and> min (snd (ps ! i)) (snd (ps ! Suc i)) \<le> snd (curve_at (ps ! i) (ps ! Suc i) u)
         \<and> snd (curve_at (ps ! i) (ps ! Suc i) u) \<le> max (snd (ps ! i)) (snd (ps ! Suc i))"
    using points_ascend [of _ items "maxForecastAmount items"] curve_between unfolding assms(2) by (blast dest: less_imp_le)
  show "(\<exists>item \<in> set items. 1 \<le> mf_amount_due item) \<longrightarrow> (\<exists>i < length items. snd (ps ! i) = chartTop)"
  proof
    assume "\<exists>item \<in> set items. 1 \<le> mf_amount_due item"
    then obtain item where "item \<in> set items" "1 \<le> mf_amount_due item" by blast
    then have item: "mf_amount_due item \<in> set (map mf_amount_due items)" "1 \<le> mf_amount_due item" by simp_all
    have "maxForecastAmount items = 1 \<longrightarrow> maxForecastAmount items = mf_amount_due item"
      using max_of_ge [OF item(1), of 1] item(2) by (auto simp: maxForecastAmount_def)
    then have "maxForecastAmount items \<in> set (map mf_amount_due items)"
      using max_of_in [of 1 "map mf_amount_due items"] item(1) unfolding maxForecastAmount_def by auto
    then obtain i where i: "i < length items" "mf_amount_due (items ! i) = maxForecastAmount items"
      by (auto simp: in_set_conv_nth)
    moreover have "maxForecastAmount items \<noteq> 0"
      using max_of_start [of 1 "map mf_amount_due items"] by (auto simp: maxForecastAmount_def)
    ultimately show "\<exists>i < length items. snd (ps ! i) = chartTop"
      unfolding assms(2) by (intro exI [of _ i]) (simp add: point_y chart_defs)
  qed
qed

definition two_months :: "MonthlyForecastItem list" where
  "two_months = [\<lparr>mf_month = ''2024-01'', mf_amount_due = 10, mf_occurrence_count = 1\<rparr>,
     \<lparr>mf_month = ''2024-02'', mf_amount_due = 40, mf_occurrence_count = 2\<rparr>]"

theorem forecast_chart_in_plot_witness:
  "\<exists>i < length two_months. snd (chart_points (maxForecastAmount two_months) two_months ! i) = chartTop"
proof -
  have "list_all (\<lambda>item. 0 \<le> mf_amount_due item) two_months" "\<exists>item \<in> set two_months. 1 \<le> mf_amount_due item"
    by (simp_all add: two_months_def)
  then show ?thesis using forecast_chart_in_plot [OF _ refl, of two_months] by blast
qed

subsection \<open>Bars and totals\<close>

text \<open>The bars have a width that can be drawn, longer ones for larger parts; the growth that is largest fills its bar.\<close>

lemma bar_widths:
  "r \<in> set (BreakdownPanel f g items) \<Longrightarrow> 2 \<le> br_width r \<and> br_width r \<le> 100"
  "q \<in> set (AnnualGrowthPanel t g growth) \<Longrightarrow> 4 \<le> gw_width q \<and> gw_width q \<le> 100"
  by (auto simp: BreakdownPanel_def AnnualGrowthPanel_def Let_def)

lemma forecast_totals:
  "forecast12MonthTotal items = sum_list (map mf_amount_due items)"
  "forecast12MonthPayments items = sum_list (map mf_occurrence_count items)"
proof -
  have "foldl (\<lambda>total item. total + mf_amount_due item) a items = a + sum_list (map mf_amount_due items)" for a
    by (induction items arbitrary: a) simp_all
  then show "forecast12MonthTotal items = sum_list (map mf_amount_due items)" by (simp add: forecast12MonthTotal_def)
  have "foldl (\<lambda>total item. total + mf_occurrence_count item) a items = a + sum_list (map mf_occurrence_count items)" for a
    by (induction items arbitrary: a) simp_all
  then show "forecast12MonthPayments items = sum_list (map mf_occurrence_count items)" by (simp add: forecast12MonthPayments_def)
qed

lemma toFixed1_error:
  assumes "0 \<le> x"
  shows "toFixed1 x = tenths_text (floor (x * 10 + 1 / 2))
    \<and> \<bar>x - of_int (floor (x * 10 + 1 / 2)) / 10\<bar> \<le> 1 / 20"
proof -
  define n where "n = rat_of_int (floor (x * 10 + 1 / 2))"
  have "n \<le> x * 10 + 1 / 2" "x * 10 + 1 / 2 < n + 1" using floor_correct [of "x * 10 + 1 / 2"] by (simp_all add: n_def)
  then have "\<bar>x - n / 10\<bar> \<le> 1 / 20" by linarith
  then show ?thesis using assms by (simp add: toFixed1_def n_def)
qed

end
