(* ===== verification/SecuritySections.thy ===== *)
theory SecuritySections
  imports Requests LoginPage
begin

text \<open>
  The passkeys and the OIDC connections on the settings page, \<open>web/src/features/settings/passkey-section.tsx\<close>
  and \<open>oidc-section.tsx\<close>.  \<open>ps_creating\<close> are the registrations that wait for \<open>createPasskeyCredential\<close>,
  each with the session it was begun with; what that settles with is an event, as are the answers of the server.
\<close>

subsection \<open>Passkeys\<close>

record PasskeyCredential =
  pk_id :: int
  pk_name :: string
  pk_last_used_at :: "string option"
  pk_created_at :: string

datatype 'c passkey_call = Get_passkeys | Register_start string | Register_finish string 'c | Delete_passkey int

datatype passkey_reply = Passkey_failed string | Passkey_list "PasskeyCredential list option" | Passkey_begun string
  | Passkey_made PasskeyCredential | Passkey_deleted

record 'c PasskeyState = "'c passkey_call Section" +
  passkeys :: "PasskeyCredential list"
  ps_loading :: bool
  registering :: bool
  ps_deletingID :: "int option"
  ps_name :: string
  ps_error :: string
  ps_creating :: "string list"

definition mount_passkeys :: "'c PasskeyState" where
  "mount_passkeys = send Get_passkeys \<lparr>sc_open = [], sc_sent = [], sc_notices = [], passkeys = [], ps_loading = True,
     registering = False, ps_deletingID = None, ps_name = [], ps_error = [], ps_creating = []\<rparr>"

definition handleRegister :: "(string \<Rightarrow> string) \<Rightarrow> bool \<Rightarrow> 'c PasskeyState \<Rightarrow> 'c PasskeyState" where
  "handleRegister t passkeySupported s =
     (let s = s\<lparr>ps_error := []\<rparr> in
      if \<not> passkeySupported then s\<lparr>ps_error := t ''settings.passkeys.unsupported''\<rparr>
      else send (Register_start (trim (ps_name s))) (s\<lparr>registering := True\<rparr>))"

definition register_failed :: "(string \<Rightarrow> string) \<Rightarrow> thrown \<Rightarrow> 'c PasskeyState \<Rightarrow> 'c PasskeyState" where
  "register_failed t err s = s\<lparr>ps_error := getPasskeyErrorMessage err t ''settings.passkeys.registerError'', registering := False\<rparr>"

definition handleDeletePasskey :: "bool \<Rightarrow> int \<Rightarrow> 'c PasskeyState \<Rightarrow> 'c PasskeyState" where
  "handleDeletePasskey confirmed i s = (if \<not> confirmed then s else send (Delete_passkey i) (s\<lparr>ps_deletingID := Some i\<rparr>))"

definition passkey_created :: "(string \<Rightarrow> string) \<Rightarrow> nat \<Rightarrow> thrown + 'c \<Rightarrow> 'c PasskeyState \<Rightarrow> 'c PasskeyState" where
  "passkey_created t n r s =
     (if n < length (ps_creating s) then
        (let s' = s\<lparr>ps_creating := without n (ps_creating s)\<rparr> in
         case r of Inl err \<Rightarrow> register_failed t err s' | Inr cred \<Rightarrow> send (Register_finish (ps_creating s ! n) cred) s')
      else s)"

fun passkey_answered :: "(string \<Rightarrow> string) \<Rightarrow> passkey_reply \<Rightarrow> 'c passkey_call \<Rightarrow> 'c PasskeyState \<Rightarrow> 'c PasskeyState" where
  "passkey_answered t (Passkey_list items) Get_passkeys s = s\<lparr>passkeys := nullish items [], ps_loading := False\<rparr>"
| "passkey_answered t r Get_passkeys s = s\<lparr>ps_loading := False\<rparr>"
| "passkey_answered t (Passkey_begun session_id) (Register_start nm) s = s\<lparr>ps_creating := ps_creating s @ [session_id]\<rparr>"
| "passkey_answered t (Passkey_failed msg) (Register_start nm) s = register_failed t (Error_object ''Error'' msg) s"
| "passkey_answered t (Passkey_made created) (Register_finish i cred) s =
     notify (Toast_success (t ''settings.passkeys.registerSuccess''))
       (s\<lparr>passkeys := created # passkeys s, ps_name := [], registering := False\<rparr>)"
| "passkey_answered t (Passkey_failed msg) (Register_finish i cred) s = register_failed t (Error_object ''Error'' msg) s"
| "passkey_answered t (Passkey_failed msg) (Delete_passkey i) s =
     s\<lparr>ps_error := getPasskeyErrorMessage (Error_object ''Error'' msg) t ''settings.passkeys.deleteError'', ps_deletingID := None\<rparr>"
| "passkey_answered t r (Delete_passkey i) s =
     notify (Toast_success (t ''settings.passkeys.deleteSuccess''))
       (s\<lparr>passkeys := filter (\<lambda>item. pk_id item \<noteq> i) (passkeys s), ps_deletingID := None\<rparr>)"
| "passkey_answered t r c s = s"

fun passkey_reply_to :: "'c passkey_call \<Rightarrow> passkey_reply \<Rightarrow> bool" where
  "passkey_reply_to c (Passkey_failed msg) = True"
| "passkey_reply_to Get_passkeys (Passkey_list xs) = True"
| "passkey_reply_to (Register_start nm) (Passkey_begun i) = True"
| "passkey_reply_to (Register_finish i cred) (Passkey_made p) = True"
| "passkey_reply_to (Delete_passkey i) Passkey_deleted = True"
| "passkey_reply_to c r = False"

text \<open>\<open>formatDate\<close>: \<open>show_time\<close> is what the formatter makes of a text that is a date.\<close>

definition passkey_date :: "(string \<Rightarrow> string) \<Rightarrow> (string \<Rightarrow> string option) \<Rightarrow> string option \<Rightarrow> string" where
  "passkey_date t show_time v =
     (if \<not> truthy_str v then t ''settings.passkeys.neverUsed'' else nullish (show_time (the v)) (the v))"

datatype 'c passkey_event =
    Passkey_answer nat passkey_reply
  | Passkey_created_event nat "thrown + 'c"
  | Passkey_name string
  | Register_submitted
  | Passkey_delete bool int

fun passkey_step :: "(string \<Rightarrow> string) \<Rightarrow> bool \<Rightarrow> 'c PasskeyState \<Rightarrow> 'c passkey_event \<Rightarrow> 'c PasskeyState" where
  "passkey_step t supported s (Passkey_answer n r) =
     (if n < length (sc_open s) \<and> passkey_reply_to (sc_open s ! n) r then answer (passkey_answered t r) n s else s)"
| "passkey_step t supported s (Passkey_created_event n r) = passkey_created t n r s"
| "passkey_step t supported s (Passkey_name v) = (if length v \<le> 255 then s\<lparr>ps_name := v\<rparr> else s)"
| "passkey_step t supported s Register_submitted = (if registering s \<or> \<not> supported then s else handleRegister t supported s)"
| "passkey_step t supported s (Passkey_delete confirmed i) =
     (if i \<in> pk_id ` set (passkeys s) \<and> ps_deletingID s \<noteq> Some i then handleDeletePasskey confirmed i s else s)"

text \<open>One registration at a time: the request that begins it, the authenticator, or the request that ends it.\<close>

definition is_register :: "'c passkey_call \<Rightarrow> bool" where
  "is_register c \<longleftrightarrow> (case c of Register_start nm \<Rightarrow> True | Register_finish i cred \<Rightarrow> True | _ \<Rightarrow> False)"

lemma is_register_simps [simp]:
  "is_register (Register_start nm)" "is_register (Register_finish i cred)" "\<not> is_register Get_passkeys" "\<not> is_register (Delete_passkey j)"
  by (simp_all add: is_register_def)

definition passkeys_ok :: "'c PasskeyState \<Rightarrow> bool" where
  "passkeys_ok s \<longleftrightarrow> open_of is_register s + length (ps_creating s) = (if registering s then 1 else 0)"

lemmas passkey_defs = handleRegister_def register_failed_def handleDeletePasskey_def passkey_created_def request_defs

lemma passkey_answered_ok:
  assumes ok: "passkeys_ok s" and n: "n < length (sc_open s)" and r: "passkey_reply_to (sc_open s ! n) r"
  shows "passkeys_ok (passkey_answered t r (sc_open s ! n) (s\<lparr>sc_open := without n (sc_open s)\<rparr>))"
proof -
  have "is_register (sc_open s ! n) \<Longrightarrow> registering s \<and> open_of is_register s = 1 \<and> ps_creating s = []"
    using ok open_of_positive [OF n, of is_register] unfolding passkeys_ok_def
    by (cases "registering s"; cases "ps_creating s") auto
  then show ?thesis
    using ok n r by (cases "sc_open s ! n"; cases r) (simp_all add: passkeys_ok_def passkey_defs open_of_def without_filter)
qed

lemma passkey_step_ok: "passkeys_ok s \<Longrightarrow> passkeys_ok (passkey_step t supported s e)"
proof (cases e)
  case (Passkey_answer n r)
  assume "passkeys_ok s"
  then show ?thesis using Passkey_answer passkey_answered_ok [of s n r t] by (simp add: answer_def)
next
  case (Passkey_created_event n r)
  assume "passkeys_ok s"
  moreover from this have "n < length (ps_creating s) \<Longrightarrow> registering s \<and> length (ps_creating s) = 1 \<and> open_of is_register s = 0"
    by (auto simp: passkeys_ok_def split: if_splits)
  ultimately show ?thesis using Passkey_created_event
    by (cases r) (auto simp: passkeys_ok_def passkey_defs open_of_def Let_def without_def)
qed (auto simp: passkeys_ok_def passkey_defs open_of_def Let_def)

interpretation passkey_page: event_machine "passkey_step t supported" passkeys_ok for t supported
  by unfold_locales (rule passkey_step_ok)

lemma one_registration_at_a_time:
  "open_of is_register (foldl (passkey_step t supported) mount_passkeys es) \<le> 1"
proof -
  have "passkeys_ok mount_passkeys" by (simp add: passkeys_ok_def mount_passkeys_def request_defs open_of_def)
  from passkey_page.run_inv [OF this, of t supported es] show ?thesis by (simp add: passkeys_ok_def split: if_splits)
qed

text \<open>The list that was asked for when the page was opened replaces a passkey that was registered before it came.\<close>

lemma late_list_hides_new_passkey:
  "passkeys (foldl (passkey_step id True) (mount_passkeys :: unit PasskeyState)
     [Register_submitted, Passkey_answer 1 (Passkey_begun ''s''), Passkey_created_event 0 (Inr ()),
      Passkey_answer 1 (Passkey_made \<lparr>pk_id = 1, pk_name = ''key'', pk_last_used_at = None, pk_created_at = ''2024-01-01''\<rparr>),
      Passkey_answer 0 (Passkey_list (Some []))]) = []"
  by code_simp

subsection \<open>OIDC connections\<close>

record OIDCConfig =
  oc_enabled :: bool
  oc_provider_name :: string
  oc_auto_create_user :: bool

record OIDCConnection =
  on_id :: int
  on_provider :: string
  on_email :: string

datatype oidc_call = Get_oidc | Get_oidc_session | Connect_start | Delete_connection int | Refresh_connections int

datatype oidc_reply = Oidc_failed string | Oidc_loaded OIDCConfig "OIDCConnection list option"
  | Oidc_session string "OIDCConnection option" | Oidc_started string | Connection_deleted | Connections "OIDCConnection list option"

record OidcState = "oidc_call Section" +
  oidc_config :: "OIDCConfig option"
  connections :: "OIDCConnection list"
  oi_loading :: bool
  processingCallback :: bool
  oi_starting :: bool
  oi_deletingID :: "int option"
  oi_error :: string
  oi_search :: string
  oi_located :: "string list"

definition providerName :: "OidcState \<Rightarrow> string" where
  "providerName s = or_str (case oidc_config s of Some c \<Rightarrow> oc_provider_name c | None \<Rightarrow> []) ''OIDC''"

definition mount_oidc :: "LoginEnv \<Rightarrow> string \<Rightarrow> OidcState" where
  "mount_oidc env search =
     (let s = send Get_oidc \<lparr>sc_open = [], sc_sent = [], sc_notices = [], oidc_config = None, connections = [], oi_loading = True,
            processingCallback = False, oi_starting = False, oi_deletingID = None, oi_error = [], oi_search = search, oi_located = []\<rparr>
      in if oidc_action env search \<noteq> Some ''connect'' then s else send Get_oidc_session (s\<lparr>processingCallback := True\<rparr>))"

definition handleConnect :: "OidcState \<Rightarrow> OidcState" where
  "handleConnect s = send Connect_start (s\<lparr>oi_error := [], oi_starting := True\<rparr>)"

definition handleDisconnect :: "bool \<Rightarrow> int \<Rightarrow> OidcState \<Rightarrow> OidcState" where
  "handleDisconnect confirmed i s =
     (if \<not> confirmed then s else send (Delete_connection i) (s\<lparr>oi_error := [], oi_deletingID := Some i\<rparr>))"

definition connection_session :: "LoginEnv \<Rightarrow> oidc_reply \<Rightarrow> OidcState \<Rightarrow> OidcState" where
  "connection_session env r s =
     (case r of
        Oidc_session err conn \<Rightarrow>
          if err \<noteq> [] then s\<lparr>oi_error := err\<rparr>
          else (case conn of None \<Rightarrow> s
                | Some c \<Rightarrow> notify (Toast_success (le_t env ''settings.oidc.connectSuccess'')) (s\<lparr>connections := [c]\<rparr>))
      | Oidc_failed msg \<Rightarrow> s\<lparr>oi_error := msg\<rparr>
      | _ \<Rightarrow> s)"

fun oidc_answered :: "LoginEnv \<Rightarrow> oidc_reply \<Rightarrow> oidc_call \<Rightarrow> OidcState \<Rightarrow> OidcState" where
  "oidc_answered env (Oidc_loaded cfg conns) Get_oidc s =
     s\<lparr>oidc_config := Some cfg, connections := nullish conns [], oi_loading := False\<rparr>"
| "oidc_answered env r Get_oidc s = s\<lparr>oi_loading := False\<rparr>"
| "oidc_answered env r Get_oidc_session s =
     (connection_session env r s)\<lparr>oi_search := without_oidc env (oi_search s), processingCallback := False\<rparr>"
| "oidc_answered env (Oidc_started url) Connect_start s = s\<lparr>oi_located := oi_located s @ [url]\<rparr>"
| "oidc_answered env (Oidc_failed msg) Connect_start s = s\<lparr>oi_error := msg, oi_starting := False\<rparr>"
| "oidc_answered env Connection_deleted (Delete_connection i) s = send (Refresh_connections i) s"
| "oidc_answered env (Oidc_failed msg) (Delete_connection i) s = s\<lparr>oi_error := msg, oi_deletingID := None\<rparr>"
| "oidc_answered env (Connections latest) (Refresh_connections i) s =
     (notify (Toast_success (le_t env ''settings.oidc.disconnectSuccess'')) (s\<lparr>connections := nullish latest []\<rparr>))\<lparr>oi_deletingID := None\<rparr>"
| "oidc_answered env (Oidc_failed msg) (Refresh_connections i) s = s\<lparr>oi_error := msg, oi_deletingID := None\<rparr>"
| "oidc_answered env r c s = s"

definition oidc_enabled :: "OidcState \<Rightarrow> bool" where
  "oidc_enabled s = (case oidc_config s of Some c \<Rightarrow> oc_enabled c | None \<Rightarrow> False)"

datatype oidc_event = Oidc_answer nat oidc_reply | Connect_pressed | Disconnect_pressed bool int

fun oidc_step :: "LoginEnv \<Rightarrow> OidcState \<Rightarrow> oidc_event \<Rightarrow> OidcState" where
  "oidc_step env s (Oidc_answer n r) = answer (oidc_answered env r) n s"
| "oidc_step env s Connect_pressed =
     (if oidc_enabled s \<and> \<not> (oi_starting s \<or> processingCallback s \<or> connections s \<noteq> []) then handleConnect s else s)"
| "oidc_step env s (Disconnect_pressed confirmed i) =
     (if i \<in> on_id ` set (connections s) \<and> oi_deletingID s \<noteq> Some i then handleDisconnect confirmed i s else s)"

text \<open>The provider was disconnected, but the request for the new list failed: the page reports the disconnection as
  failed and goes on showing the connection.\<close>

lemma disconnection_reported_as_failed:
  assumes "s = foldl (oidc_step plain_env) (mount_oidc plain_env [])
     [Oidc_answer 0 (Oidc_loaded \<lparr>oc_enabled = True, oc_provider_name = ''Example'', oc_auto_create_user = False\<rparr>
        (Some [\<lparr>on_id = 3, on_provider = ''oidc'', on_email = ''a@b.org''\<rparr>])),
      Disconnect_pressed True 3, Oidc_answer 0 Connection_deleted, Oidc_answer 0 (Oidc_failed ''offline'')]"
  shows "oi_error s = ''offline'' \<and> map on_id (connections s) = [3] \<and> sc_notices s = []"
  unfolding assms by code_simp

end
