(* ===== verification/Theme.thy ===== *)
theory Theme
  imports Json
begin

text \<open>
  Colour themes, \<open>web/src/lib/theme.ts\<close>.  The state that the module reads and writes is the
  record \<open>Page\<close>: the items of \<open>localStorage\<close>, whether the system prefers dark colours,
  the \<open>dark\<close> class of the document and its CSS variables.  Colour arithmetic is exact
  (\<open>rat\<close>); the operator \<open>**\<close> is the parameter \<open>pow\<close>.
\<close>

subsection \<open>Data\<close>

datatype Theme = Light | Dark | System

datatype ThemeColorScheme = Scheme_default | Ocean | Sunset | Forest | Custom

datatype ThemeTone = Light_tone | Dark_tone

record CustomThemeColors =
  light_primary :: string
  light_accent :: string
  dark_primary :: string
  dark_accent :: string

record ThemeBaseColors =
  base_primary :: string
  base_accent :: string

record ThemeColorPreset =
  preset_light :: ThemeBaseColors
  preset_dark :: ThemeBaseColors

record Page =
  pg_items :: "string \<rightharpoonup> string"
  pg_system_dark :: bool
  pg_dark_class :: bool
  pg_style :: "string \<rightharpoonup> string"

fun theme_text :: "Theme \<Rightarrow> string" where
  "theme_text Light = ''light''"
| "theme_text Dark = ''dark''"
| "theme_text System = ''system''"

fun scheme_text :: "ThemeColorScheme \<Rightarrow> string" where
  "scheme_text Scheme_default = ''default''"
| "scheme_text Ocean = ''ocean''"
| "scheme_text Sunset = ''sunset''"
| "scheme_text Forest = ''forest''"
| "scheme_text Custom = ''custom''"

definition THEME_KEY :: string where "THEME_KEY = ''theme''"
definition THEME_COLOR_SCHEME_KEY :: string where "THEME_COLOR_SCHEME_KEY = ''themeColorScheme''"
definition THEME_CUSTOM_COLORS_KEY :: string where "THEME_CUSTOM_COLORS_KEY = ''themeCustomColors''"

definition DEFAULT_CUSTOM_THEME_COLORS :: CustomThemeColors where
  "DEFAULT_CUSTOM_THEME_COLORS = \<lparr>light_primary = ''#2563eb'', light_accent = ''#14b8a6'',
     dark_primary = ''#60a5fa'', dark_accent = ''#2dd4bf''\<rparr>"

fun THEME_COLOR_PRESETS :: "ThemeColorScheme \<Rightarrow> ThemeColorPreset option" where
  "THEME_COLOR_PRESETS Ocean = Some
     \<lparr>preset_light = \<lparr>base_primary = ''#2563eb'', base_accent = ''#0ea5e9''\<rparr>,
      preset_dark = \<lparr>base_primary = ''#60a5fa'', base_accent = ''#22d3ee''\<rparr>\<rparr>"
| "THEME_COLOR_PRESETS Sunset = Some
     \<lparr>preset_light = \<lparr>base_primary = ''#ea580c'', base_accent = ''#ec4899''\<rparr>,
      preset_dark = \<lparr>base_primary = ''#fb923c'', base_accent = ''#f472b6''\<rparr>\<rparr>"
| "THEME_COLOR_PRESETS Forest = Some
     \<lparr>preset_light = \<lparr>base_primary = ''#166534'', base_accent = ''#0f766e''\<rparr>,
      preset_dark = \<lparr>base_primary = ''#4ade80'', base_accent = ''#2dd4bf''\<rparr>\<rparr>"
| "THEME_COLOR_PRESETS _ = None"

definition THEME_COLOR_SCHEME_OPTIONS :: "ThemeColorScheme list" where
  "THEME_COLOR_SCHEME_OPTIONS = [Scheme_default, Ocean, Sunset, Forest, Custom]"

definition THEME_COLOR_VARIABLES :: "string list" where
  "THEME_COLOR_VARIABLES = [''--primary'', ''--primary-foreground'', ''--accent'', ''--accent-foreground'',
     ''--ring'', ''--sidebar-primary'', ''--sidebar-primary-foreground'', ''--sidebar-ring'',
     ''--chart-1'', ''--chart-2'', ''--chart-3'', ''--chart-4'', ''--chart-5'']"

subsection \<open>Hex colours\<close>

definition hex_lower :: "char \<Rightarrow> bool" where
  "hex_lower c \<longleftrightarrow> is_digit c \<or> (97 \<le> code c \<and> code c \<le> 102)"

definition HEX_COLOR_PATTERN :: "string \<Rightarrow> bool" where
  "HEX_COLOR_PATTERN s \<longleftrightarrow> s \<noteq> [] \<and> hd s = CHR ''#'' \<and> list_all (\<lambda>c. hex_val c \<noteq> None) (tl s)
     \<and> (length (tl s) = 3 \<or> length (tl s) = 6)"

definition normalizeHexColor :: "string \<Rightarrow> string \<Rightarrow> string" where
  "normalizeHexColor v fallback =
     (let next = toLowerCase (trim v)
      in if \<not> HEX_COLOR_PATTERN next then fallback
         else if length next = 4
         then [next ! 0, next ! 1, next ! 1, next ! 2, next ! 2, next ! 3, next ! 3]
         else next)"

text \<open>\<open>Number.parseInt(s, 16)\<close> on two characters; \<open>None\<close> is NaN.\<close>

definition parse_hex2 :: "string \<Rightarrow> nat option" where
  "parse_hex2 s = (let ds = takeWhile (\<lambda>c. hex_val c \<noteq> None) s
     in if ds = [] then None else Some (foldl (\<lambda>a c. 16 * a + the (hex_val c)) 0 ds))"

definition hexToRgb :: "string \<Rightarrow> (nat \<times> nat \<times> nat) option" where
  "hexToRgb hex =
     (let normalized = normalizeHexColor hex []
      in if length normalized \<noteq> 7 then None
         else case (parse_hex2 (slice 1 3 normalized), parse_hex2 (slice 3 5 normalized), parse_hex2 (slice 5 7 normalized)) of
                (Some r, Some g, Some b) \<Rightarrow> Some (r, g, b)
              | _ \<Rightarrow> None)"

definition round_js :: "rat \<Rightarrow> int" where
  "round_js x = \<lfloor>x + 1 / 2\<rfloor>"

definition clamp :: "rat \<Rightarrow> nat" where
  "clamp v = nat (min 255 (max 0 (round_js v)))"

definition channel :: "rat \<Rightarrow> string" where
  "channel v = (let n = clamp v in if n < 16 then [CHR ''0'', hex_digit n] else [hex_digit (n div 16), hex_digit (n mod 16)])"

definition rgbToHex :: "rat \<Rightarrow> rat \<Rightarrow> rat \<Rightarrow> string" where
  "rgbToHex r g b = ''#'' @ channel r @ channel g @ channel b"

definition mixHex :: "string \<Rightarrow> string \<Rightarrow> rat \<Rightarrow> string" where
  "mixHex firstHex secondHex secondRatio =
     (case (hexToRgb firstHex, hexToRgb secondHex) of
        (Some (r1, g1, b1), Some (r2, g2, b2)) \<Rightarrow>
          (let ratio = min 1 (max 0 secondRatio); inverse = 1 - ratio
           in rgbToHex (of_nat r1 * inverse + of_nat r2 * ratio) (of_nat g1 * inverse + of_nat g2 * ratio)
                (of_nat b1 * inverse + of_nat b2 * ratio))
      | _ \<Rightarrow> firstHex)"

definition toLinear :: "(rat \<Rightarrow> rat \<Rightarrow> rat) \<Rightarrow> nat \<Rightarrow> rat" where
  "toLinear pow ch =
     (let normalized = of_nat ch / 255
      in if normalized \<le> 3928 / 100000 then normalized / (1292 / 100)
         else pow ((normalized + 55 / 1000) / (1055 / 1000)) (24 / 10))"

definition getContrastTextColor :: "(rat \<Rightarrow> rat \<Rightarrow> rat) \<Rightarrow> string \<Rightarrow> string \<Rightarrow> string \<Rightarrow> string" where
  "getContrastTextColor pow backgroundHex lightText darkText =
     (case hexToRgb backgroundHex of
        None \<Rightarrow> lightText
      | Some (r, g, b) \<Rightarrow>
          (let luminance = 2126 / 10000 * toLinear pow r + 7152 / 10000 * toLinear pow g + 722 / 10000 * toLinear pow b
           in if luminance > 45 / 100 then darkText else lightText))"

subsection \<open>Custom colours\<close>

definition normalizeCustomThemeColors :: "CustomThemeColors \<Rightarrow> CustomThemeColors" where
  "normalizeCustomThemeColors colors = \<lparr>
     light_primary = normalizeHexColor (light_primary colors) (light_primary DEFAULT_CUSTOM_THEME_COLORS),
     light_accent = normalizeHexColor (light_accent colors) (light_accent DEFAULT_CUSTOM_THEME_COLORS),
     dark_primary = normalizeHexColor (dark_primary colors) (dark_primary DEFAULT_CUSTOM_THEME_COLORS),
     dark_accent = normalizeHexColor (dark_accent colors) (dark_accent DEFAULT_CUSTOM_THEME_COLORS)\<rparr>"

definition str_or :: "json option \<Rightarrow> string \<Rightarrow> string" where
  "str_or v d = (case v of Some (JStr s) \<Rightarrow> s | _ \<Rightarrow> d)"

fun isRecord :: "json \<Rightarrow> bool" where
  "isRecord (JArr xs) = True"
| "isRecord (JObj kvs) = True"
| "isRecord _ = False"

definition parseCustomThemeColors :: "string option \<Rightarrow> CustomThemeColors" where
  "parseCustomThemeColors raw =
     (case raw of
        None \<Rightarrow> DEFAULT_CUSTOM_THEME_COLORS
      | Some text \<Rightarrow>
          if text = [] then DEFAULT_CUSTOM_THEME_COLORS
          else (case json_parse text of
             None \<Rightarrow> DEFAULT_CUSTOM_THEME_COLORS
           | Some parsed \<Rightarrow>
               if \<not> isRecord parsed then DEFAULT_CUSTOM_THEME_COLORS
               else normalizeCustomThemeColors \<lparr>
                 light_primary = str_or (json_get parsed ''light_primary'') (light_primary DEFAULT_CUSTOM_THEME_COLORS),
                 light_accent = str_or (json_get parsed ''light_accent'') (light_accent DEFAULT_CUSTOM_THEME_COLORS),
                 dark_primary = str_or (json_get parsed ''dark_primary'') (dark_primary DEFAULT_CUSTOM_THEME_COLORS),
                 dark_accent = str_or (json_get parsed ''dark_accent'') (dark_accent DEFAULT_CUSTOM_THEME_COLORS)\<rparr>))"

definition colors_json :: "CustomThemeColors \<Rightarrow> json" where
  "colors_json c = JObj [(''light_primary'', JStr (light_primary c)), (''light_accent'', JStr (light_accent c)),
     (''dark_primary'', JStr (dark_primary c)), (''dark_accent'', JStr (dark_accent c))]"

subsection \<open>Applying a theme\<close>

definition getResolvedThemeTone :: "Theme \<Rightarrow> Page \<Rightarrow> ThemeTone" where
  "getResolvedThemeTone theme p = (case theme of Light \<Rightarrow> Light_tone | Dark \<Rightarrow> Dark_tone
     | System \<Rightarrow> if pg_system_dark p then Dark_tone else Light_tone)"

definition getThemeColorPreset :: "ThemeColorScheme \<Rightarrow> CustomThemeColors \<Rightarrow> ThemeColorPreset option" where
  "getThemeColorPreset scheme c = (case scheme of
       Scheme_default \<Rightarrow> None
     | Custom \<Rightarrow> Some \<lparr>preset_light = \<lparr>base_primary = light_primary c, base_accent = light_accent c\<rparr>,
         preset_dark = \<lparr>base_primary = dark_primary c, base_accent = dark_accent c\<rparr>\<rparr>
     | _ \<Rightarrow> THEME_COLOR_PRESETS scheme)"

definition createThemeColorVariables ::
  "(rat \<Rightarrow> rat \<Rightarrow> rat) \<Rightarrow> ThemeBaseColors \<Rightarrow> ThemeTone \<Rightarrow> (string \<times> string) list" where
  "createThemeColorVariables pow base tone =
     (let light = (tone = Light_tone);
          surface = (if light then ''#ffffff'' else ''#111827'');
          fg = (if light then ''#111827'' else ''#f9fafb'');
          ringTarget = (if light then ''#ffffff'' else ''#000000'');
          accentSurface = mixHex surface (base_accent base) (if light then 14 / 100 else 22 / 100);
          contrast = getContrastTextColor pow (base_primary base) ''#ffffff'' ''#111827'';
          ring = mixHex (base_primary base) ringTarget (if light then 28 / 100 else 34 / 100)
      in [(''--primary'', base_primary base),
          (''--primary-foreground'', contrast),
          (''--accent'', accentSurface),
          (''--accent-foreground'', fg),
          (''--ring'', ring),
          (''--sidebar-primary'', base_primary base),
          (''--sidebar-primary-foreground'', contrast),
          (''--sidebar-ring'', ring),
          (''--chart-1'', base_primary base),
          (''--chart-2'', base_accent base),
          (''--chart-3'', mixHex (base_primary base) (base_accent base) (1 / 2)),
          (''--chart-4'', mixHex (base_accent base) (if light then ''#f59e0b'' else ''#fbbf24'') (35 / 100)),
          (''--chart-5'', mixHex (base_primary base) (if light then ''#10b981'' else ''#34d399'') (35 / 100))])"

definition clearThemeColorOverrides :: "Page \<Rightarrow> Page" where
  "clearThemeColorOverrides p = p\<lparr>pg_style := foldl (\<lambda>m v. m(v := None)) (pg_style p) THEME_COLOR_VARIABLES\<rparr>"

definition applyThemeColorStyles ::
  "(rat \<Rightarrow> rat \<Rightarrow> rat) \<Rightarrow> Theme \<Rightarrow> ThemeColorScheme \<Rightarrow> CustomThemeColors \<Rightarrow> Page \<Rightarrow> Page" where
  "applyThemeColorStyles pow theme scheme customColors p =
     (case getThemeColorPreset scheme customColors of
        None \<Rightarrow> clearThemeColorOverrides p
      | Some preset \<Rightarrow>
          (let tone = getResolvedThemeTone theme p;
               variables = map_of (createThemeColorVariables pow
                 (case tone of Light_tone \<Rightarrow> preset_light preset | Dark_tone \<Rightarrow> preset_dark preset) tone)
           in p\<lparr>pg_style := foldl (\<lambda>m v. m(v \<mapsto> nullish (variables v) [])) (pg_style p) THEME_COLOR_VARIABLES\<rparr>))"

definition getTheme :: "Page \<Rightarrow> Theme" where
  "getTheme p = (case pg_items p THEME_KEY of
       Some stored \<Rightarrow> if stored = ''light'' then Light else if stored = ''dark'' then Dark else System
     | None \<Rightarrow> System)"

definition getThemeColorScheme :: "Page \<Rightarrow> ThemeColorScheme" where
  "getThemeColorScheme p = (case pg_items p THEME_COLOR_SCHEME_KEY of
       Some stored \<Rightarrow>
         if stored = ''default'' then Scheme_default else if stored = ''ocean'' then Ocean
         else if stored = ''sunset'' then Sunset else if stored = ''forest'' then Forest
         else if stored = ''custom'' then Custom else Scheme_default
     | None \<Rightarrow> Scheme_default)"

definition getDefaultCustomThemeColors :: CustomThemeColors where
  "getDefaultCustomThemeColors = DEFAULT_CUSTOM_THEME_COLORS"

definition getCustomThemeColors :: "Page \<Rightarrow> CustomThemeColors" where
  "getCustomThemeColors p = parseCustomThemeColors (pg_items p THEME_CUSTOM_COLORS_KEY)"

definition getThemeColorSchemeSwatch :: "ThemeColorScheme \<Rightarrow> CustomThemeColors \<Rightarrow> string \<times> string" where
  "getThemeColorSchemeSwatch scheme c = (case scheme of
       Scheme_default \<Rightarrow> (''#111827'', ''#6b7280'')
     | Custom \<Rightarrow> (light_primary c, light_accent c)
     | _ \<Rightarrow> (case THEME_COLOR_PRESETS scheme of
         Some preset \<Rightarrow> (base_primary (preset_light preset), base_accent (preset_light preset))
       | None \<Rightarrow> ([], [])))"

definition set_item :: "string \<Rightarrow> string \<Rightarrow> Page \<Rightarrow> Page" where
  "set_item k v p = p\<lparr>pg_items := (pg_items p)(k \<mapsto> v)\<rparr>"

definition applyTheme :: "(rat \<Rightarrow> rat \<Rightarrow> rat) \<Rightarrow> Theme \<Rightarrow> Page \<Rightarrow> Page" where
  "applyTheme pow theme p =
     (let p = set_item THEME_KEY (theme_text theme) p;
          isDark = (theme = Dark \<or> (theme = System \<and> pg_system_dark p));
          p = p\<lparr>pg_dark_class := isDark\<rparr>
      in applyThemeColorStyles pow theme (getThemeColorScheme p) (getCustomThemeColors p) p)"

definition applyThemeColorScheme ::
  "(rat \<Rightarrow> rat \<Rightarrow> rat) \<Rightarrow> ThemeColorScheme \<Rightarrow> CustomThemeColors \<Rightarrow> Page \<Rightarrow> Page" where
  "applyThemeColorScheme pow scheme customColors p =
     (let normalizedColors = normalizeCustomThemeColors customColors;
          p = set_item THEME_COLOR_SCHEME_KEY (scheme_text scheme) p;
          p = set_item THEME_CUSTOM_COLORS_KEY (json_stringify (colors_json normalizedColors)) p
      in applyThemeColorStyles pow (getTheme p) scheme normalizedColors p)"

definition initTheme :: "(rat \<Rightarrow> rat \<Rightarrow> rat) \<Rightarrow> Page \<Rightarrow> Page" where
  "initTheme pow p = applyTheme pow (getTheme p) p"

text \<open>The listener of \<open>watchSystemTheme\<close>: the system preference has become \<open>dark\<close>.\<close>

definition systemThemeChanged :: "(rat \<Rightarrow> rat \<Rightarrow> rat) \<Rightarrow> bool \<Rightarrow> Page \<Rightarrow> Page" where
  "systemThemeChanged pow dark p =
     (let p = p\<lparr>pg_system_dark := dark\<rparr> in if getTheme p = System then applyTheme pow System p else p)"

definition useTheme :: "Page \<Rightarrow> ThemeTone" where
  "useTheme p = (case getTheme p of Light \<Rightarrow> Light_tone | Dark \<Rightarrow> Dark_tone
     | System \<Rightarrow> if pg_system_dark p then Dark_tone else Light_tone)"

subsection \<open>Colours are normalised\<close>

definition plain_color :: "string \<Rightarrow> bool" where
  "plain_color s \<longleftrightarrow> length s = 7 \<and> hd s = CHR ''#'' \<and> list_all hex_lower (tl s)"

lemma hex_lower_facts:
  "hex_lower c \<Longrightarrow> \<not> is_ws c" "hex_lower c \<Longrightarrow> low_char c = c" "hex_lower c \<Longrightarrow> hex_val c \<noteq> None"
  by (auto simp: hex_lower_def is_digit_def is_ws_def low_char_def hex_val_def)

lemma hex_lower_low: "hex_val (low_char c) \<noteq> None \<Longrightarrow> hex_lower (low_char c)"
  by (auto simp: hex_val_def hex_lower_def low_char_def is_digit_def split: if_splits)

lemma hash_facts: "\<not> is_ws (CHR ''#'')" "low_char (CHR ''#'') = CHR ''#''"
  by (simp_all add: is_ws_def low_char_def code_def)

lemma normalize_plain:
  assumes "plain_color s"
  shows "normalizeHexColor s fallback = s"
proof -
  obtain ds where s: "s = CHR ''#'' # ds" and ds: "length ds = 6" "list_all hex_lower ds"
    using assms by (cases s) (auto simp: plain_color_def)
  have "\<forall>c \<in> set s. \<not> is_ws c" using s ds hex_lower_facts(1) hash_facts by (auto simp: list_all_iff)
  then have "trim s = s" by (rule trim_no_ws)
  moreover have "toLowerCase s = s"
    using s ds hex_lower_facts(2) hash_facts by (auto simp: toLowerCase_def list_all_iff map_idI)
  moreover have "HEX_COLOR_PATTERN s"
    using s ds hex_lower_facts(3) by (auto simp: HEX_COLOR_PATTERN_def list_all_iff)
  ultimately show ?thesis using ds s by (simp add: normalizeHexColor_def)
qed

lemma normalize_result: "normalizeHexColor v fallback = fallback \<or> plain_color (normalizeHexColor v fallback)"
proof (cases "HEX_COLOR_PATTERN (toLowerCase (trim v))")
  case True
  define s where "s = toLowerCase (trim v)"
  then obtain ds where s: "s = CHR ''#'' # ds" and l: "length ds = 3 \<or> length ds = 6"
    and h: "list_all (\<lambda>c. hex_val c \<noteq> None) ds"
    using True by (cases "toLowerCase (trim v)") (auto simp: HEX_COLOR_PATTERN_def)
  have low: "list_all hex_lower ds"
  proof -
    have "\<exists>d. c = low_char d" if "c \<in> set ds" for c
      using that s s_def by (metis toLowerCase_def image_iff list.set_intros(2) list.set_map)
    then show ?thesis using h hex_lower_low by (fastforce simp: list_all_iff)
  qed
  from l show ?thesis
  proof
    assume "length ds = 3"
    then obtain a b c where d: "ds = [a, b, c]" by (auto simp: length_Suc_conv numeral_3_eq_3)
    then have "normalizeHexColor v fallback = [CHR ''#'', a, a, b, b, c, c]"
      using True s by (simp add: normalizeHexColor_def s_def [symmetric] Let_def)
    then show ?thesis using low d by (simp add: plain_color_def)
  next
    assume "length ds = 6"
    then have "normalizeHexColor v fallback = s"
      using True s by (simp add: normalizeHexColor_def s_def [symmetric] Let_def)
    then show ?thesis using low s \<open>length ds = 6\<close> by (simp add: plain_color_def)
  qed
qed (simp add: normalizeHexColor_def Let_def)

lemma default_colors_plain:
  "plain_color (light_primary DEFAULT_CUSTOM_THEME_COLORS)" "plain_color (light_accent DEFAULT_CUSTOM_THEME_COLORS)"
  "plain_color (dark_primary DEFAULT_CUSTOM_THEME_COLORS)" "plain_color (dark_accent DEFAULT_CUSTOM_THEME_COLORS)"
  by code_simp+

definition plain_colors :: "CustomThemeColors \<Rightarrow> bool" where
  "plain_colors c \<longleftrightarrow> plain_color (light_primary c) \<and> plain_color (light_accent c)
     \<and> plain_color (dark_primary c) \<and> plain_color (dark_accent c)"

lemma normalized_plain: "plain_colors (normalizeCustomThemeColors c)"
  using normalize_result default_colors_plain
  unfolding plain_colors_def normalizeCustomThemeColors_def by (metis CustomThemeColors.select_convs)

lemma normalize_plain_colors: "plain_colors c \<Longrightarrow> normalizeCustomThemeColors c = c"
  by (simp add: plain_colors_def normalizeCustomThemeColors_def normalize_plain)

lemma parse_stored_colors: "parseCustomThemeColors (Some (json_stringify (colors_json c))) = normalizeCustomThemeColors c"
proof -
  have ok: "json_ok (colors_json c)" by (simp add: colors_json_def)
  then obtain d u where "json_stringify (colors_json c) = d # u" by (rule stringify_first)
  then have ne: "json_stringify (colors_json c) \<noteq> []" by simp
  have r: "isRecord (colors_json c)" by (simp add: colors_json_def)
  have g: "str_or (json_get (colors_json c) ''light_primary'') d = light_primary c"
    "str_or (json_get (colors_json c) ''light_accent'') d = light_accent c"
    "str_or (json_get (colors_json c) ''dark_primary'') d = dark_primary c"
    "str_or (json_get (colors_json c) ''dark_accent'') d = dark_accent c" for d
    by (simp_all add: colors_json_def str_or_def)
  show ?thesis
    using ne r by (simp add: parseCustomThemeColors_def json_text.dec_enc [OF ok] g normalizeCustomThemeColors_def)
qed

lemma colors_parsed_plain: "plain_colors (parseCustomThemeColors raw)"
  using normalized_plain default_colors_plain
  by (auto simp: parseCustomThemeColors_def plain_colors_def [of DEFAULT_CUSTOM_THEME_COLORS] split: option.split)

subsection \<open>What applying a theme leaves behind\<close>

lemma theme_keys [simp]:
  "THEME_KEY \<noteq> THEME_COLOR_SCHEME_KEY" "THEME_KEY \<noteq> THEME_CUSTOM_COLORS_KEY"
  "THEME_COLOR_SCHEME_KEY \<noteq> THEME_CUSTOM_COLORS_KEY" "THEME_COLOR_SCHEME_KEY \<noteq> THEME_KEY"
  "THEME_CUSTOM_COLORS_KEY \<noteq> THEME_KEY" "THEME_CUSTOM_COLORS_KEY \<noteq> THEME_COLOR_SCHEME_KEY"
  by (simp_all add: THEME_KEY_def THEME_COLOR_SCHEME_KEY_def THEME_CUSTOM_COLORS_KEY_def)

lemma fold_clear: "foldl (\<lambda>m v. m(v := None)) m vs x = (if x \<in> set vs then None else m x)"
  by (induction vs arbitrary: m) auto

lemma fold_set: "foldl (\<lambda>m v. m(v \<mapsto> f v)) m vs x = (if x \<in> set vs then Some (f x) else m x)"
  by (induction vs arbitrary: m) auto

lemma apply_styles_fields [simp]:
  "pg_items (applyThemeColorStyles pow th sc c p) = pg_items p"
  "pg_system_dark (applyThemeColorStyles pow th sc c p) = pg_system_dark p"
  "pg_dark_class (applyThemeColorStyles pow th sc c p) = pg_dark_class p"
  by (simp_all add: applyThemeColorStyles_def clearThemeColorOverrides_def Let_def split: option.split)

lemma apply_styles_style:
  "(pg_style (applyThemeColorStyles pow th sc c p) v \<noteq> None) =
    (if v \<in> set THEME_COLOR_VARIABLES then sc \<noteq> Scheme_default else pg_style p v \<noteq> None)"
proof (cases sc)
  case Scheme_default
  then show ?thesis
    by (simp add: applyThemeColorStyles_def clearThemeColorOverrides_def getThemeColorPreset_def fold_clear)
qed (simp_all add: applyThemeColorStyles_def getThemeColorPreset_def fold_set Let_def)

text \<open>the choice of a colour scheme survives a reload: after \<open>applyThemeColorScheme\<close> the page
  reads the same scheme and the normalised custom colours back, every colour then has the form
  \<open>#rrggbb\<close> whatever was entered, and applying what was read changes nothing in the storage.\<close>

theorem theme_settings_roundtrip:
  "getThemeColorScheme (applyThemeColorScheme pow sc c p) = sc
   \<and> getCustomThemeColors (applyThemeColorScheme pow sc c p) = normalizeCustomThemeColors c
   \<and> plain_colors (getCustomThemeColors (applyThemeColorScheme pow sc c p))
   \<and> getTheme (applyThemeColorScheme pow sc c p) = getTheme p
   \<and> pg_items (applyThemeColorScheme pow sc (getCustomThemeColors (applyThemeColorScheme pow sc c p))
        (applyThemeColorScheme pow sc c p)) = pg_items (applyThemeColorScheme pow sc c p)"
proof -
  let ?p = "applyThemeColorScheme pow sc c p"
  have c: "getCustomThemeColors ?p = normalizeCustomThemeColors c"
    using normalize_plain_colors [OF normalized_plain]
    by (simp add: getCustomThemeColors_def applyThemeColorScheme_def set_item_def Let_def parse_stored_colors)
  have s: "getThemeColorScheme ?p = sc"
    by (cases sc) (simp_all add: getThemeColorScheme_def applyThemeColorScheme_def set_item_def Let_def)
  have t: "getTheme ?p = getTheme p"
    by (simp add: getTheme_def applyThemeColorScheme_def set_item_def Let_def)
  have i: "pg_items (applyThemeColorScheme pow sc (normalizeCustomThemeColors c) ?p) = pg_items ?p"
    using normalize_plain_colors [OF normalized_plain, of c]
    by (simp add: applyThemeColorScheme_def set_item_def Let_def fun_upd_twist fun_eq_iff)
  show ?thesis using c s t i normalized_plain by simp
qed

text \<open>the document always shows the theme that is in force: after \<open>applyTheme\<close> the stored
  theme is the chosen one, the \<open>dark\<close> class is set exactly when \<open>useTheme\<close> says dark, and
  of the thirteen colour variables either all are set (some scheme) or none (the default one); when the
  system preference changes this stays so.\<close>

theorem applied_theme_consistent:
  "getTheme (applyTheme pow th p) = th
   \<and> (pg_dark_class (applyTheme pow th p) \<longleftrightarrow> useTheme (applyTheme pow th p) = Dark_tone)
   \<and> (pg_dark_class (systemThemeChanged pow d (applyTheme pow th p))
        \<longleftrightarrow> useTheme (systemThemeChanged pow d (applyTheme pow th p)) = Dark_tone)
   \<and> {v \<in> set THEME_COLOR_VARIABLES. pg_style (applyTheme pow th p) v \<noteq> None}
      = (if getThemeColorScheme p = Scheme_default then {} else set THEME_COLOR_VARIABLES)"
proof -
  have t: "getTheme (applyTheme pow th p) = th" for th p
    by (cases th) (simp_all add: getTheme_def applyTheme_def set_item_def Let_def)
  have d: "pg_dark_class (applyTheme pow th p) \<longleftrightarrow> useTheme (applyTheme pow th p) = Dark_tone" for th p
  proof -
    have "pg_dark_class (applyTheme pow th p) \<longleftrightarrow> th = Dark \<or> (th = System \<and> pg_system_dark (applyTheme pow th p))"
      by (simp add: applyTheme_def set_item_def Let_def)
    then show ?thesis by (cases th) (simp_all add: useTheme_def t)
  qed
  have c: "pg_dark_class (systemThemeChanged pow d (applyTheme pow th p))
        \<longleftrightarrow> useTheme (systemThemeChanged pow d (applyTheme pow th p)) = Dark_tone"
  proof (cases "th = System")
    case True
    have "getTheme (applyTheme pow System p\<lparr>pg_system_dark := d\<rparr>) = System"
      using t [of System p] by (simp add: getTheme_def)
    with True d show ?thesis by (simp add: systemThemeChanged_def)
  next
    case False
    have g: "getTheme (applyTheme pow th p\<lparr>pg_system_dark := d\<rparr>) = th"
      using t [of th p] by (simp add: getTheme_def)
    with False d [of th p] show ?thesis by (cases th) (simp_all add: systemThemeChanged_def useTheme_def t)
  qed
  have "getThemeColorScheme ((set_item THEME_KEY x p)\<lparr>pg_dark_class := b\<rparr>) = getThemeColorScheme p" for x b
    by (simp add: getThemeColorScheme_def set_item_def)
  then have "{v \<in> set THEME_COLOR_VARIABLES. pg_style (applyTheme pow th p) v \<noteq> None}
      = (if getThemeColorScheme p = Scheme_default then {} else set THEME_COLOR_VARIABLES)"
    by (auto simp: applyTheme_def Let_def apply_styles_style simp del: not_None_eq)
  with t d c show ?thesis by simp
qed

subsection \<open>Mixing colours\<close>

lemma foldl_hex2: "hex_val a = Some x \<Longrightarrow> hex_val b = Some y \<Longrightarrow> parse_hex2 [a, b] = Some (16 * x + y)"
  by (simp add: parse_hex2_def)

lemma parse_channel: "parse_hex2 (channel v) = Some (clamp v)"
proof -
  have c: "clamp v < 256" by (auto simp: clamp_def)
  then have "clamp v div 16 < 16" by (simp add: less_mult_imp_div_less)
  then show ?thesis
    by (simp add: channel_def Let_def foldl_hex2 [OF hex_val_0 hex_val_digit] foldl_hex2 [OF hex_val_digit hex_val_digit])
qed

lemma hex_lower_digit: "n < 16 \<Longrightarrow> hex_lower (hex_digit n)"
  by (auto simp: hex_lower_def hex_digit_def is_digit_def)

lemma channel_two: "\<exists>a b. channel v = [a, b] \<and> hex_lower a \<and> hex_lower b"
proof -
  have c: "clamp v < 256" by (auto simp: clamp_def)
  then have "clamp v div 16 < 16" by (simp add: less_mult_imp_div_less)
  moreover have "hex_lower (CHR ''0'')" by (simp add: hex_lower_def is_digit_def code_def)
  ultimately show ?thesis using hex_lower_digit by (simp add: channel_def Let_def)
qed

lemma plain_rgbToHex: "plain_color (rgbToHex r g b)"
  using channel_two [of r] channel_two [of g] channel_two [of b] by (auto simp: rgbToHex_def plain_color_def)

lemma hexToRgb_rgbToHex: "hexToRgb (rgbToHex r g b) = Some (clamp r, clamp g, clamp b)"
proof -
  obtain r1 r2 g1 g2 b1 b2 where c: "channel r = [r1, r2]" "channel g = [g1, g2]" "channel b = [b1, b2]"
    using channel_two by meson
  have "normalizeHexColor (rgbToHex r g b) [] = [CHR ''#'', r1, r2, g1, g2, b1, b2]"
    using normalize_plain [OF plain_rgbToHex, of r g b "[]"] c by (simp add: rgbToHex_def)
  then show ?thesis
    using parse_channel [of r] parse_channel [of g] parse_channel [of b] c
    by (simp add: hexToRgb_def slice_def Let_def)
qed

lemma hex_digit_val: "hex_lower c \<Longrightarrow> \<exists>n < 16. hex_val c = Some n \<and> hex_digit n = c"
  by (intro exI [of _ "the (hex_val c)"]) (auto simp: hex_lower_def hex_val_def is_digit_def hex_digit_def code_def)

lemma channel_of_pair:
  assumes "x < 16" "y < 16"
  shows "channel (of_nat (16 * x + y)) = [hex_digit x, hex_digit y]"
proof -
  have r: "round_js (of_nat n) = int n" for n unfolding round_js_def by linarith
  have c: "clamp (of_nat (16 * x + y)) = 16 * x + y"
    using assms unfolding clamp_def r by simp
  have "hex_digit 0 = CHR ''0''" by code_simp
  then show ?thesis using assms unfolding channel_def Let_def c by (cases "x = 0") auto
qed

lemma rgb_of_plain:
  assumes "plain_color h"
  obtains r g b where "hexToRgb h = Some (r, g, b)" and "rgbToHex (of_nat r) (of_nat g) (of_nat b) = h"
proof -
  obtain c1 c2 c3 c4 c5 c6 where h: "h = [CHR ''#'', c1, c2, c3, c4, c5, c6]"
      and l: "hex_lower c1" "hex_lower c2" "hex_lower c3" "hex_lower c4" "hex_lower c5" "hex_lower c6"
    using assms by (auto simp: plain_color_def length_Suc_conv eval_nat_numeral)
  obtain n1 n2 n3 n4 n5 n6 where
      n: "n1 < 16" "n2 < 16" "n3 < 16" "n4 < 16" "n5 < 16" "n6 < 16"
    and v: "hex_val c1 = Some n1" "hex_val c2 = Some n2" "hex_val c3 = Some n3" "hex_val c4 = Some n4"
      "hex_val c5 = Some n5" "hex_val c6 = Some n6"
    and d: "hex_digit n1 = c1" "hex_digit n2 = c2" "hex_digit n3 = c3" "hex_digit n4 = c4" "hex_digit n5 = c5"
      "hex_digit n6 = c6"
    using l [THEN hex_digit_val] by blast
  have "normalizeHexColor h [] = h" using assms by (rule normalize_plain)
  then have "hexToRgb h = Some (16 * n1 + n2, 16 * n3 + n4, 16 * n5 + n6)"
    using h foldl_hex2 v by (simp add: hexToRgb_def slice_def Let_def)
  moreover have "rgbToHex (of_nat (16 * n1 + n2)) (of_nat (16 * n3 + n4)) (of_nat (16 * n5 + n6)) = h"
    unfolding rgbToHex_def channel_of_pair [OF n(1,2)] channel_of_pair [OF n(3,4)] channel_of_pair [OF n(5,6)] d h
    by simp
  ultimately show ?thesis by (rule that)
qed

text \<open>mixing two colours gives a colour again, the ratio is clamped to the interval from 0 to 1, and its
  ends give back the first and the second colour exactly.\<close>

theorem mix_colors:
  assumes "plain_color a" and "plain_color b"
  shows "plain_color (mixHex a b q) \<and> mixHex a b q = mixHex a b (min 1 (max 0 q))
    \<and> mixHex a b 0 = a \<and> mixHex a b 1 = b"
proof -
  obtain r g u where a: "hexToRgb a = Some (r, g, u)" "rgbToHex (of_nat r) (of_nat g) (of_nat u) = a"
    using rgb_of_plain [OF assms(1)] .
  obtain r' g' u' where b: "hexToRgb b = Some (r', g', u')" "rgbToHex (of_nat r') (of_nat g') (of_nat u') = b"
    using rgb_of_plain [OF assms(2)] .
  have "min 1 (max 0 (min 1 (max 0 q))) = min 1 (max 0 q)" by simp
  then show ?thesis using a b by (simp add: mixHex_def plain_rgbToHex Let_def)
qed

theorem mix_colors_witness: "mixHex ''#ffffff'' ''#2563eb'' 1 = ''#2563eb''"
proof -
  have "plain_color ''#ffffff''" "plain_color ''#2563eb''" by code_simp+
  then show ?thesis using mix_colors by blast
qed

end
