(* ===== verification/SettingsPage.thy ===== *)
theory SettingsPage
  imports Theme Currencies ApiKeys NotificationSettings
begin

text \<open>
  The settings page, \<open>web/src/features/settings/settings-page.tsx\<close>: its tabs, the appearance and the
  display settings of \<open>settings-general-tab.tsx\<close>, the audit log (\<open>settings-audit-tab.tsx\<close>) and the
  version (\<open>settings-about-tab.tsx\<close>).  A tab is mounted when it is visited first and stays mounted; the
  API keys and the notifications are the machines of \<open>ApiKeys\<close> and \<open>NotificationSettings\<close>, driven by the
  tab that is active.  The hooks of the payment and the account tab are in theories of their own.
\<close>

subsection \<open>The audit log\<close>

datatype audit_call = Load_events | Effect_events nat

record 'e AuditState = "audit_call Section" +
  audit_events :: "'e list"
  audit_loading :: bool
  audit_active :: bool
  audit_round :: nat

definition audit_effect :: "'e AuditState \<Rightarrow> 'e AuditState" where
  "audit_effect s = (if \<not> audit_active s then s else send (Effect_events (audit_round s)) s)"

definition mount_audit :: "bool \<Rightarrow> 'e AuditState" where
  "mount_audit active = audit_effect \<lparr>sc_open = [], sc_sent = [], sc_notices = [], audit_events = [], audit_loading = False,
     audit_active = active, audit_round = 0\<rparr>"

text \<open>When \<open>active\<close> changes, the cleanup cancels the answer that the effect waits for.\<close>

definition set_audit_active :: "bool \<Rightarrow> 'e AuditState \<Rightarrow> 'e AuditState" where
  "set_audit_active v s =
     (if v = audit_active s then s else audit_effect (s\<lparr>audit_active := v, audit_round := audit_round s + 1\<rparr>))"

definition loadEvents :: "'e AuditState \<Rightarrow> 'e AuditState" where
  "loadEvents s = send Load_events (s\<lparr>audit_loading := True\<rparr>)"

datatype 'e audit_reply = Audit_failed | Audit_events "'e list option"

fun audit_answered :: "'e audit_reply \<Rightarrow> audit_call \<Rightarrow> 'e AuditState \<Rightarrow> 'e AuditState" where
  "audit_answered Audit_failed Load_events s = s\<lparr>audit_loading := False\<rparr>"
| "audit_answered (Audit_events xs) Load_events s = s\<lparr>audit_events := nullish xs [], audit_loading := False\<rparr>"
| "audit_answered Audit_failed (Effect_events n) s = s"
| "audit_answered (Audit_events xs) (Effect_events n) s =
     (if audit_active s \<and> n = audit_round s then s\<lparr>audit_events := nullish xs []\<rparr> else s)"

datatype 'e audit_event = Audit_answer nat "'e audit_reply" | Audit_refresh

fun audit_step :: "'e AuditState \<Rightarrow> 'e audit_event \<Rightarrow> 'e AuditState" where
  "audit_step s (Audit_answer n r) = answer (audit_answered r) n s"
| "audit_step s Audit_refresh = (if audit_active s \<and> \<not> audit_loading s then loadEvents s else s)"

subsection \<open>The version\<close>

record VersionInfo =
  vi_version :: string
  vi_commit :: string

datatype LatestStatus = Latest_idle | Latest_done | Latest_error

definition strip_v :: "string \<Rightarrow> string" where
  "strip_v v = (if startsWith v ''v'' then drop 1 v else v)"

definition isNewVersionAvailable :: "LatestStatus \<Rightarrow> string option \<Rightarrow> VersionInfo option \<Rightarrow> bool" where
  "isNewVersionAvailable status latest info =
     (status = Latest_done \<and> truthy_str latest \<and> (case info of None \<Rightarrow> False | Some v \<Rightarrow> the latest \<noteq> strip_v (vi_version v)))"

subsection \<open>The page\<close>

datatype SettingsTab = General | Payment | Notification | Account | Apikey | Audit | About

definition tab_of :: "string \<Rightarrow> SettingsTab option" where
  "tab_of = map_of [(''general'', General), (''payment'', Payment), (''notification'', Notification), (''account'', Account),
     (''apikey'', Apikey), (''audit'', Audit), (''about'', About)]"

definition isSettingsTab :: "string \<Rightarrow> bool" where
  "isSettingsTab v \<longleftrightarrow> tab_of v \<noteq> None"

record 'e SettingsState =
  st_page :: Page
  st_theme :: Theme
  st_scheme :: ThemeColorScheme
  st_colors :: CustomThemeColors
  st_display :: "preference \<Rightarrow> bool"
  activeTab :: SettingsTab
  visitedTabs :: "SettingsTab list"
  st_notifications :: "NotificationState option"
  st_api_keys :: "ApiKeysState option"
  st_audit :: "'e AuditState option"
  versionRequested :: bool
  versionOpen :: nat
  versionInfo :: "VersionInfo option"
  latestOpen :: nat
  latestVersion :: "string option"
  latestCheckStatus :: LatestStatus
  st_languages :: "string list"

definition mount_settings :: "Page \<Rightarrow> 'e SettingsState" where
  "mount_settings p = \<lparr>st_page = p, st_theme = getTheme p, st_scheme = getThemeColorScheme p, st_colors = getCustomThemeColors p,
     st_display = (\<lambda>q. getDisplay q (pg_items p)), activeTab = General, visitedTabs = [General], st_notifications = None,
     st_api_keys = None, st_audit = None, versionRequested = False, versionOpen = 0, versionInfo = None, latestOpen = 0, latestVersion = None,
     latestCheckStatus = Latest_idle, st_languages = []\<rparr>"

definition handleTheme :: "(rat \<Rightarrow> rat \<Rightarrow> rat) \<Rightarrow> Theme \<Rightarrow> 'e SettingsState \<Rightarrow> 'e SettingsState" where
  "handleTheme pow th s = s\<lparr>st_theme := th, st_page := applyTheme pow th (st_page s)\<rparr>"

definition handleThemeColorScheme :: "(rat \<Rightarrow> rat \<Rightarrow> rat) \<Rightarrow> ThemeColorScheme \<Rightarrow> 'e SettingsState \<Rightarrow> 'e SettingsState" where
  "handleThemeColorScheme pow scheme s = s\<lparr>st_scheme := scheme, st_page := applyThemeColorScheme pow scheme (st_colors s) (st_page s)\<rparr>"

definition change_colors :: "(rat \<Rightarrow> rat \<Rightarrow> rat) \<Rightarrow> CustomThemeColors \<Rightarrow> 'e SettingsState \<Rightarrow> 'e SettingsState" where
  "change_colors pow c s = s\<lparr>st_colors := c, st_page := applyThemeColorScheme pow (st_scheme s) c (st_page s)\<rparr>"

datatype color_key = Light_primary | Light_accent | Dark_primary | Dark_accent

fun set_color :: "color_key \<Rightarrow> string \<Rightarrow> CustomThemeColors \<Rightarrow> CustomThemeColors" where
  "set_color Light_primary v c = c\<lparr>light_primary := v\<rparr>"
| "set_color Light_accent v c = c\<lparr>light_accent := v\<rparr>"
| "set_color Dark_primary v c = c\<lparr>dark_primary := v\<rparr>"
| "set_color Dark_accent v c = c\<lparr>dark_accent := v\<rparr>"

definition handleCustomThemeColorChange ::
  "(rat \<Rightarrow> rat \<Rightarrow> rat) \<Rightarrow> color_key \<Rightarrow> string \<Rightarrow> 'e SettingsState \<Rightarrow> 'e SettingsState" where
  "handleCustomThemeColorChange pow key v s = change_colors pow (set_color key v (st_colors s)) s"

definition handleResetCustomThemeColors :: "(rat \<Rightarrow> rat \<Rightarrow> rat) \<Rightarrow> 'e SettingsState \<Rightarrow> 'e SettingsState" where
  "handleResetCustomThemeColors pow s = change_colors pow getDefaultCustomThemeColors s"

text \<open>The four handlers of the display settings.\<close>

definition handleDisplay :: "preference \<Rightarrow> bool \<Rightarrow> 'e SettingsState \<Rightarrow> 'e SettingsState" where
  "handleDisplay q enabled s = s\<lparr>st_display := (st_display s)(q := enabled),
     st_page := (st_page s)\<lparr>pg_items := setDisplay q enabled (pg_items (st_page s))\<rparr>\<rparr>"

text \<open>A tab is rendered: mounted when it is new, otherwise told whether it is active.\<close>

definition render_child :: "bool \<Rightarrow> (bool \<Rightarrow> 's) \<Rightarrow> (bool \<Rightarrow> 's \<Rightarrow> 's) \<Rightarrow> bool \<Rightarrow> 's option \<Rightarrow> 's option" where
  "render_child visited mount activate active child =
     (if \<not> visited then None else Some (case child of None \<Rightarrow> mount active | Some s \<Rightarrow> activate active s))"

definition render_tabs :: "'e SettingsState \<Rightarrow> 'e SettingsState" where
  "render_tabs s = s\<lparr>
     st_notifications := render_child (Notification \<in> set (visitedTabs s)) mount_notifications
       (\<lambda>v u. notify_step id u (Notifications_active v)) (activeTab s = Notification) (st_notifications s),
     st_api_keys := render_child (Apikey \<in> set (visitedTabs s)) mount_api_keys set_active (activeTab s = Apikey) (st_api_keys s),
     st_audit := render_child (Audit \<in> set (visitedTabs s)) mount_audit set_audit_active (activeTab s = Audit) (st_audit s)\<rparr>"

definition version_effect :: "'e SettingsState \<Rightarrow> 'e SettingsState" where
  "version_effect s = (if activeTab s \<noteq> About \<or> versionRequested s then s else s\<lparr>versionRequested := True, versionOpen := versionOpen s + 1\<rparr>)"

definition choose_tab :: "string \<Rightarrow> 'e SettingsState \<Rightarrow> 'e SettingsState" where
  "choose_tab v s =
     (case tab_of v of
        None \<Rightarrow> s
      | Some tab \<Rightarrow>
          version_effect (render_tabs (s\<lparr>activeTab := tab,
            visitedTabs := (if tab \<in> set (visitedTabs s) then visitedTabs s else visitedTabs s @ [tab])\<rparr>)))"

datatype 'e settings_event =
    Choose_tab string
  | Theme_button Theme
  | Scheme_button ThemeColorScheme
  | Color_input color_key string
  | Reset_colors
  | Display_switch preference bool
  | Language_chosen string
  | System_theme bool
  | Version_answer "VersionInfo option"
  | Latest_answer "string option"
  | Notification_event notify_event
  | Api_key_event key_event
  | Audit_log_event "'e audit_event"

text \<open>
  The colours of the inputs: a browser gives \<open>#\<close> and six lower-case digits.  The tabs are told to be active by
  the page only.
\<close>

fun settings_step :: "(rat \<Rightarrow> rat \<Rightarrow> rat) \<Rightarrow> string \<Rightarrow> (string \<Rightarrow> string) \<Rightarrow> 'e SettingsState \<Rightarrow> 'e settings_event \<Rightarrow> 'e SettingsState" where
  "settings_step pow origin t s (Choose_tab v) = choose_tab v s"
| "settings_step pow origin t s (Theme_button th) = (if activeTab s = General then handleTheme pow th s else s)"
| "settings_step pow origin t s (Scheme_button scheme) = (if activeTab s = General then handleThemeColorScheme pow scheme s else s)"
| "settings_step pow origin t s (Color_input key v) =
     (if activeTab s = General \<and> st_scheme s = Custom \<and> plain_color v then handleCustomThemeColorChange pow key v s else s)"
| "settings_step pow origin t s Reset_colors =
     (if activeTab s = General \<and> st_scheme s = Custom then handleResetCustomThemeColors pow s else s)"
| "settings_step pow origin t s (Display_switch q v) = (if activeTab s = General then handleDisplay q v s else s)"
| "settings_step pow origin t s (Language_chosen l) = (if activeTab s = General then s\<lparr>st_languages := st_languages s @ [l]\<rparr> else s)"
| "settings_step pow origin t s (System_theme dark) = s\<lparr>st_page := systemThemeChanged pow dark (st_page s)\<rparr>"
| "settings_step pow origin t s (Version_answer r) =
     (if versionOpen s = 0 then s
      else case r of
        None \<Rightarrow> s\<lparr>versionOpen := versionOpen s - 1\<rparr>
      | Some info \<Rightarrow> s\<lparr>versionOpen := versionOpen s - 1, versionInfo := Some info, latestOpen := latestOpen s + 1\<rparr>)"
| "settings_step pow origin t s (Latest_answer r) =
     (if latestOpen s = 0 then s
      else case r of
        None \<Rightarrow> s\<lparr>latestOpen := latestOpen s - 1, latestCheckStatus := Latest_error\<rparr>
      | Some tag \<Rightarrow> s\<lparr>latestOpen := latestOpen s - 1, latestVersion := Some (strip_v tag), latestCheckStatus := Latest_done\<rparr>)"
| "settings_step pow origin t s (Notification_event e) =
     (case e of Notifications_active v \<Rightarrow> s | _ \<Rightarrow> s\<lparr>st_notifications := map_option (\<lambda>u. notify_step t u e) (st_notifications s)\<rparr>)"
| "settings_step pow origin t s (Api_key_event e) =
     (case e of Tab_active v \<Rightarrow> s | _ \<Rightarrow> s\<lparr>st_api_keys := map_option (\<lambda>u. key_step origin u e) (st_api_keys s)\<rparr>)"
| "settings_step pow origin t s (Audit_log_event e) = s\<lparr>st_audit := map_option (\<lambda>u. audit_step u e) (st_audit s)\<rparr>"

subsection \<open>What is shown is what is stored\<close>

definition stored_ok :: "'e SettingsState \<Rightarrow> bool" where
  "stored_ok s \<longleftrightarrow> getTheme (st_page s) = st_theme s \<and> getThemeColorScheme (st_page s) = st_scheme s
     \<and> getCustomThemeColors (st_page s) = st_colors s \<and> plain_colors (st_colors s)
     \<and> (\<forall>q. getDisplay q (pg_items (st_page s)) = st_display s q)"

lemma theme_keys_apart:
  "preference_key q \<noteq> THEME_KEY" "preference_key q \<noteq> THEME_COLOR_SCHEME_KEY" "preference_key q \<noteq> THEME_CUSTOM_COLORS_KEY"
  by (cases q; simp add: THEME_KEY_def THEME_COLOR_SCHEME_KEY_def THEME_CUSTOM_COLORS_KEY_def)+

lemma stored_items:
  "pg_items (applyTheme pow th p) = (pg_items p)(THEME_KEY \<mapsto> theme_text th)"
  "pg_items (applyThemeColorScheme pow sc c p) = (pg_items p)(THEME_COLOR_SCHEME_KEY \<mapsto> scheme_text sc,
     THEME_CUSTOM_COLORS_KEY \<mapsto> json_stringify (colors_json (normalizeCustomThemeColors c)))"
  by (simp_all add: applyTheme_def applyThemeColorScheme_def set_item_def Let_def)

lemma display_of_theme:
  "getDisplay q (pg_items (applyTheme pow th p)) = getDisplay q (pg_items p)"
  "getDisplay q (pg_items (applyThemeColorScheme pow sc c p)) = getDisplay q (pg_items p)"
  unfolding stored_items using theme_keys_apart [of q] by (simp_all add: getDisplay_def)

lemma theme_of_display:
  "getTheme (p\<lparr>pg_items := setDisplay q b (pg_items p)\<rparr>) = getTheme p"
  "getThemeColorScheme (p\<lparr>pg_items := setDisplay q b (pg_items p)\<rparr>) = getThemeColorScheme p"
  "getCustomThemeColors (p\<lparr>pg_items := setDisplay q b (pg_items p)\<rparr>) = getCustomThemeColors p"
  using theme_keys_apart [of q]
  by (simp_all add: getTheme_def getThemeColorScheme_def getCustomThemeColors_def setDisplay_def)

lemma scheme_of_theme:
  "getThemeColorScheme (applyTheme pow th p) = getThemeColorScheme p" "getCustomThemeColors (applyTheme pow th p) = getCustomThemeColors p"
  by (simp_all add: getThemeColorScheme_def getCustomThemeColors_def stored_items)

lemma theme_of_theme: "getTheme (applyTheme pow th p) = th"
  by (cases th) (simp_all add: getTheme_def stored_items)

lemma theme_of_scheme:
  "getTheme (applyThemeColorScheme pow sc c p) = getTheme p"
  "getCustomThemeColors (applyThemeColorScheme pow sc c p) = normalizeCustomThemeColors c"
  by (simp_all add: getTheme_def getCustomThemeColors_def stored_items parse_stored_colors normalize_plain_colors [OF normalized_plain])

lemma scheme_of_scheme: "getThemeColorScheme (applyThemeColorScheme pow sc c p) = sc"
  by (cases sc) (simp_all add: getThemeColorScheme_def stored_items)

lemma mount_stored: "stored_ok (mount_settings p)"
  by (simp add: stored_ok_def mount_settings_def getCustomThemeColors_def colors_parsed_plain)

lemma change_colors_ok: "stored_ok s \<Longrightarrow> plain_colors c \<Longrightarrow> stored_ok (change_colors pow c s)"
  by (simp add: stored_ok_def change_colors_def theme_of_scheme scheme_of_scheme display_of_theme normalize_plain_colors)

lemma set_color_plain: "plain_colors c \<Longrightarrow> plain_color v \<Longrightarrow> plain_colors (set_color key v c)"
  by (cases key) (simp_all add: plain_colors_def)

lemma system_theme_ok: "stored_ok s \<Longrightarrow> stored_ok (s\<lparr>st_page := systemThemeChanged pow dark (st_page s)\<rparr>)"
proof -
  assume ok: "stored_ok s"
  let ?p = "(st_page s)\<lparr>pg_system_dark := dark\<rparr>"
  have "getTheme ?p = getTheme (st_page s)" "getThemeColorScheme ?p = getThemeColorScheme (st_page s)"
    "getCustomThemeColors ?p = getCustomThemeColors (st_page s)"
    by (simp_all add: getTheme_def getThemeColorScheme_def getCustomThemeColors_def)
  then show ?thesis
    using ok by (simp add: stored_ok_def systemThemeChanged_def Let_def scheme_of_theme theme_of_theme display_of_theme)
qed

lemma choose_tab_frame:
  "st_page (choose_tab v s) = st_page s" "st_theme (choose_tab v s) = st_theme s" "st_scheme (choose_tab v s) = st_scheme s"
  "st_colors (choose_tab v s) = st_colors s" "st_display (choose_tab v s) = st_display s"
  by (simp_all add: choose_tab_def version_effect_def render_tabs_def split: option.split)

lemma stored_frame:
  "stored_ok s \<Longrightarrow> st_page s' = st_page s \<Longrightarrow> st_theme s' = st_theme s \<Longrightarrow> st_scheme s' = st_scheme s \<Longrightarrow> st_colors s' = st_colors s \<Longrightarrow>
   st_display s' = st_display s \<Longrightarrow> stored_ok s'"
  by (simp add: stored_ok_def)

lemma settings_step_stored: "stored_ok s \<Longrightarrow> stored_ok (settings_step pow origin t s e)"
proof (cases e)
  case (Choose_tab v)
  assume "stored_ok s"
  then show ?thesis unfolding Choose_tab settings_step.simps by (rule stored_frame) (simp_all add: choose_tab_frame)
next
  case (Theme_button th)
  assume "stored_ok s"
  then show ?thesis using Theme_button
    by (simp add: stored_ok_def handleTheme_def theme_of_theme scheme_of_theme display_of_theme)
next
  case (Scheme_button scheme)
  assume "stored_ok s"
  then show ?thesis using Scheme_button
    by (simp add: stored_ok_def handleThemeColorScheme_def theme_of_scheme scheme_of_scheme display_of_theme normalize_plain_colors)
next
  case (Color_input key v)
  assume ok: "stored_ok s"
  then have "plain_colors (st_colors s)" by (simp add: stored_ok_def)
  with ok show ?thesis using Color_input
    by (simp add: handleCustomThemeColorChange_def change_colors_ok set_color_plain)
next
  case Reset_colors
  assume "stored_ok s"
  moreover have "plain_colors getDefaultCustomThemeColors"
    using default_colors_plain by (simp add: plain_colors_def getDefaultCustomThemeColors_def)
  ultimately show ?thesis using Reset_colors by (simp add: handleResetCustomThemeColors_def change_colors_ok)
next
  case (Display_switch q v)
  assume "stored_ok s"
  then show ?thesis using Display_switch
    by (simp add: stored_ok_def handleDisplay_def theme_of_display display_roundtrip)
next
  case (System_theme dark)
  assume "stored_ok s"
  then show ?thesis using System_theme system_theme_ok by simp
qed (auto intro: stored_frame split: option.split notify_event.split key_event.split)

interpretation settings_stored: event_machine "settings_step pow origin t" stored_ok for pow origin t
  by unfold_locales (rule settings_step_stored)

text \<open>C9: the settings survive a reload: after any sequence of choices, with the system changing its theme in between, the
  page that is opened anew shows the theme, the colour scheme, the custom colours and the four display settings that
  were shown before.\<close>

theorem settings_survive_reload:
  "let s = foldl (settings_step pow origin t) (mount_settings p) es; s' = mount_settings (st_page s) in
     st_theme s' = st_theme s \<and> st_scheme s' = st_scheme s \<and> st_colors s' = st_colors s \<and> st_display s' = st_display s"
proof -
  have "stored_ok (foldl (settings_step pow origin t) (mount_settings p) es)" by (rule settings_stored.run_inv [OF mount_stored])
  then show ?thesis by (simp add: stored_ok_def mount_settings_def Let_def fun_eq_iff)
qed

subsection \<open>The tabs\<close>

definition child_ok :: "SettingsTab \<Rightarrow> ('s \<Rightarrow> bool) \<Rightarrow> 'e SettingsState \<Rightarrow> 's option \<Rightarrow> bool" where
  "child_ok tab is_ok s child \<longleftrightarrow>
     (case child of None \<Rightarrow> tab \<notin> set (visitedTabs s) | Some u \<Rightarrow> tab \<in> set (visitedTabs s) \<and> is_ok u)"

definition notifications_fit :: "bool \<Rightarrow> NotificationState \<Rightarrow> bool" where
  "notifications_fit active u \<longleftrightarrow> (nt_crashed u \<or> nt_active u = active) \<and> length (filter (\<lambda>c. c = Get_channels) (sc_sent u)) \<le> 1
     \<and> (\<not> nt_loaded u \<longrightarrow> Get_channels \<notin> set (sc_sent u))"

definition tabs_ok :: "'e SettingsState \<Rightarrow> bool" where
  "tabs_ok s \<longleftrightarrow> distinct (visitedTabs s) \<and> activeTab s \<in> set (visitedTabs s)
     \<and> child_ok Notification (notifications_fit (activeTab s = Notification)) s (st_notifications s)
     \<and> child_ok Apikey (\<lambda>u. tab_active u = (activeTab s = Apikey)) s (st_api_keys s)
     \<and> child_ok Audit (\<lambda>u. audit_active u = (activeTab s = Audit)) s (st_audit s)
     \<and> versionRequested s = (About \<in> set (visitedTabs s)) \<and> (if versionRequested s then versionOpen s + latestOpen s \<le> 1 else versionOpen s + latestOpen s = 0)"

lemma mount_tabs: "tabs_ok (mount_settings p)"
  by (simp add: tabs_ok_def mount_settings_def child_ok_def)

lemma api_keys_active:
  "tab_active (mount_api_keys v) = v" "tab_active (set_active v u) = v"
  "(\<And>v. e \<noteq> Tab_active v) \<Longrightarrow> tab_active (key_step origin u e) = tab_active u"
proof -
  show "tab_active (mount_api_keys v) = v" "tab_active (set_active v u) = v"
    by (auto simp: mount_api_keys_def key_defs ApiKeys.active_effect_def)
  have answered: "tab_active (key_answered r c u) = tab_active u" for r c u by (cases c; cases r) simp_all
  show "(\<And>v. e \<noteq> Tab_active v) \<Longrightarrow> tab_active (key_step origin u e) = tab_active u"
    by (cases e) (auto simp: answer_def answered key_defs Let_def split: option.split)
qed

lemma audit_is_active:
  fixes u :: "'e AuditState"
  shows "audit_active (mount_audit v) = v" "audit_active (set_audit_active v u) = v" "audit_active (audit_step u e) = audit_active u"
proof -
  show "audit_active (mount_audit v) = v" "audit_active (set_audit_active v u) = v"
    by (auto simp: mount_audit_def set_audit_active_def audit_effect_def send_def)
  have "audit_active (audit_answered r c u) = audit_active u" for r c and u :: "'e AuditState" by (cases c; cases r) simp_all
  then show "audit_active (audit_step u e) = audit_active u"
    by (cases e) (simp_all add: answer_def loadEvents_def send_def)
qed

lemma notifications_fit_active:
  "notifications_fit v (mount_notifications v)" "notifications_fit w u \<Longrightarrow> notifications_fit v (notify_step t u (Notifications_active v))"
  by (auto simp: notifications_fit_def mount_notifications_def NotificationSettings.active_effect_def setPolicy_def notify_step_def
      send_def filter_empty_conv)

lemma answered_active: "nt_active (notify_answered t r c u) = nt_active u \<and> nt_loaded (notify_answered t r c u) = nt_loaded u"
  by (cases c) (simp_all add: answer_defs split: notify_reply.split option.split)

definition quiet_change :: "NotificationState \<Rightarrow> NotificationState \<Rightarrow> bool" where
  "quiet_change u u' \<longleftrightarrow> nt_active u' = nt_active u \<and> nt_loaded u' = nt_loaded u
     \<and> (sc_sent u' = sc_sent u \<or> (\<exists>c. c \<noteq> Get_channels \<and> sc_sent u' = sc_sent u @ [c]))"

lemma quiet_behind: "quiet_change u (f u) \<Longrightarrow> quiet_change u (behind f u)"
  by (simp add: behind_def quiet_change_def)

lemma quiet_row: "(\<And>x. quiet_change u (f x u)) \<Longrightarrow> quiet_change u (on_row n xs f u)"
  by (simp add: on_row_def quiet_change_def)

lemma quiet_handlers:
  "quiet_change u (open_form ch u)" "quiet_change u (form_submit t u)" "quiet_change u (handleToggleChannel c v u)"
  "quiet_change u (handleDeleteChannel confirmed c u)" "quiet_change u (handleTestChannel c u)" "quiet_change u (handleSavePolicy p u)"
  "quiet_change u (handleAdd u)" "quiet_change u (handleEdit tp u)" "quiet_change u (handleDelete confirmed tp u)"
  "quiet_change u (handlePreview u)" "quiet_change u (template_submit u)"
  by (simp_all add: quiet_change_def open_form_def form_submit_def handleSaveChannel_def handleToggleChannel_def handleDeleteChannel_def
      handleTestChannel_def handleSavePolicy_def handleAdd_def handleEdit_def handleDelete_def handlePreview_def template_submit_def
      with_channels_def send_def split: sum.split option.split)

lemma live_sent:
  assumes "\<And>v. e \<noteq> Notifications_active v"
  shows "quiet_change u (notify_live t u e)"
proof (cases e)
  case (Notify_answer n r)
  then show ?thesis by (simp add: quiet_change_def answer_def answered_active)
next
  case (Notifications_active v)
  then show ?thesis using assms by blast
next
  case (Toggle n v)
  then show ?thesis by (auto intro!: quiet_behind quiet_row simp: quiet_handlers) (simp_all add: quiet_change_def)
next
  case (Test_button n)
  then show ?thesis by (auto intro!: quiet_behind quiet_row simp: quiet_handlers) (simp_all add: quiet_change_def)
next
  case Policy_submit
  then show ?thesis by (auto intro!: quiet_behind simp: quiet_handlers) (simp_all add: quiet_change_def)
qed (simp_all add: quiet_behind quiet_row quiet_handlers handleAddChannel_def handleEditChannel_def, simp_all add: quiet_change_def behind_def)

lemma notifications_fit_step:
  assumes "notifications_fit v u" and "\<And>w. e \<noteq> Notifications_active w"
  shows "notifications_fit v (notify_step t u e)"
proof (cases "nt_crashed u")
  case True
  then show ?thesis using assms(1) by (simp add: notify_step_def)
next
  case False
  then have "quiet_change u (notify_step t u e)" using live_sent [OF assms(2)] by (simp add: notify_step_def)
  then show ?thesis using assms(1) False unfolding notifications_fit_def quiet_change_def by auto
qed

lemma child_frame:
  "child_ok tab P s child \<Longrightarrow> visitedTabs s' = visitedTabs s \<Longrightarrow> (\<And>u. P u \<Longrightarrow> P (f u)) \<Longrightarrow> child_ok tab P s' (map_option f child)"
  by (cases child) (simp_all add: child_ok_def)

lemma child_same: "visitedTabs s' = visitedTabs s \<Longrightarrow> child_ok tab P s' child = child_ok tab P s child"
  by (simp add: child_ok_def split: option.split)

lemma child_rendered:
  assumes "child_ok tab P s child" and "set (visitedTabs s) \<subseteq> set (visitedTabs s')"
    and "Q (mount active)" and "\<And>u. P u \<Longrightarrow> Q (activate active u)"
  shows "child_ok tab Q s' (render_child (tab \<in> set (visitedTabs s')) mount activate active child)"
  using assms by (auto simp: child_ok_def render_child_def split: option.splits)

lemma choose_tab_ok:
  assumes ok: "tabs_ok s"
  shows "tabs_ok (choose_tab v s)"
proof (cases "tab_of v")
  case None
  then show ?thesis using ok by (simp add: choose_tab_def)
next
  case (Some tab)
  define w where "w = s\<lparr>activeTab := tab, visitedTabs := (if tab \<in> set (visitedTabs s) then visitedTabs s else visitedTabs s @ [tab])\<rparr>"
  have sub: "set (visitedTabs s) \<subseteq> set (visitedTabs w)" by (auto simp: w_def)
  have n: "child_ok Notification (notifications_fit (activeTab w = Notification)) w
      (render_child (Notification \<in> set (visitedTabs w)) mount_notifications (\<lambda>v u. notify_step id u (Notifications_active v))
         (activeTab w = Notification) (st_notifications s))"
    using ok unfolding tabs_ok_def by (intro child_rendered [OF _ sub] notifications_fit_active) blast+
  have a: "child_ok Apikey (\<lambda>u. tab_active u = (activeTab w = Apikey)) w
      (render_child (Apikey \<in> set (visitedTabs w)) mount_api_keys set_active (activeTab w = Apikey) (st_api_keys s))"
    using ok unfolding tabs_ok_def by (intro child_rendered [OF _ sub] api_keys_active) blast+
  have d: "child_ok Audit (\<lambda>u. audit_active u = (activeTab w = Audit)) w
      (render_child (Audit \<in> set (visitedTabs w)) mount_audit set_audit_active (activeTab w = Audit) (st_audit s))"
    using ok unfolding tabs_ok_def by (intro child_rendered [OF _ sub] audit_is_active) blast+
  define u where "u = version_effect (render_tabs w)"
  have f: "visitedTabs u = visitedTabs w" "activeTab u = activeTab w"
    "st_notifications u = render_child (Notification \<in> set (visitedTabs w)) mount_notifications (\<lambda>v u. notify_step id u (Notifications_active v))
         (activeTab w = Notification) (st_notifications s)"
    "st_api_keys u = render_child (Apikey \<in> set (visitedTabs w)) mount_api_keys set_active (activeTab w = Apikey) (st_api_keys s)"
    "st_audit u = render_child (Audit \<in> set (visitedTabs w)) mount_audit set_audit_active (activeTab w = Audit) (st_audit s)"
    by (simp_all add: u_def version_effect_def render_tabs_def w_def)
  have g: "versionRequested u = (versionRequested s \<or> tab = About)" "latestOpen u = latestOpen s"
    "versionOpen u = versionOpen s + (if tab = About \<and> \<not> versionRequested s then 1 else 0)"
    by (auto simp: u_def version_effect_def render_tabs_def w_def)
  have v: "distinct (visitedTabs w)" "activeTab w \<in> set (visitedTabs w)" "About \<in> set (visitedTabs w) \<longleftrightarrow> About \<in> set (visitedTabs s) \<or> tab = About"
    using ok by (auto simp: w_def tabs_ok_def)
  have "tabs_ok u"
    using ok n a d unfolding tabs_ok_def f g v child_same [OF f(1)] by (auto simp: v split: if_splits)
  moreover have "choose_tab v s = u" using Some by (simp add: choose_tab_def w_def u_def)
  ultimately show ?thesis by simp
qed

lemma tabs_frame:
  assumes "tabs_ok s" and "visitedTabs s' = visitedTabs s" and "activeTab s' = activeTab s" and "versionRequested s' = versionRequested s"
    and "versionOpen s' + latestOpen s' \<le> versionOpen s + latestOpen s"
    and "child_ok Notification (notifications_fit (activeTab s = Notification)) s (st_notifications s')"
    and "child_ok Apikey (\<lambda>u. tab_active u = (activeTab s = Apikey)) s (st_api_keys s')"
    and "child_ok Audit (\<lambda>u. audit_active u = (activeTab s = Audit)) s (st_audit s')"
  shows "tabs_ok s'"
  using assms unfolding tabs_ok_def child_same [OF assms(2)] by (auto split: if_splits)

lemma tabs_same:
  assumes "tabs_ok s" and same: "visitedTabs s' = visitedTabs s" "activeTab s' = activeTab s" "versionRequested s' = versionRequested s"
    "versionOpen s' = versionOpen s" "latestOpen s' = latestOpen s" "st_notifications s' = st_notifications s"
    "st_api_keys s' = st_api_keys s" "st_audit s' = st_audit s"
  shows "tabs_ok s'"
  using assms(1) unfolding tabs_ok_def child_ok_def same .

lemma tabs_children:
  "tabs_ok s \<Longrightarrow> child_ok Notification (notifications_fit (activeTab s = Notification)) s (st_notifications s)"
  "tabs_ok s \<Longrightarrow> child_ok Apikey (\<lambda>u. tab_active u = (activeTab s = Apikey)) s (st_api_keys s)"
  "tabs_ok s \<Longrightarrow> child_ok Audit (\<lambda>u. audit_active u = (activeTab s = Audit)) s (st_audit s)"
  by (simp_all add: tabs_ok_def)

lemma child_event:
  "child_ok tab P s child \<Longrightarrow> (\<And>u. P u \<Longrightarrow> P (f u)) \<Longrightarrow> child_ok tab P s (map_option f child)"
  by (cases child) (simp_all add: child_ok_def)

lemma settings_step_tabs: "tabs_ok s \<Longrightarrow> tabs_ok (settings_step pow origin t s e)"
proof (cases e)
  case (Choose_tab v)
  assume "tabs_ok s"
  then show ?thesis using Choose_tab choose_tab_ok by simp
next
  case (Notification_event ev)
  assume ok: "tabs_ok s"
  show ?thesis
  proof (cases "\<exists>v. ev = Notifications_active v")
    case False
    then have "settings_step pow origin t s e = s\<lparr>st_notifications := map_option (\<lambda>u. notify_step t u ev) (st_notifications s)\<rparr>"
      using Notification_event by (cases ev) simp_all
    moreover have "child_ok Notification (notifications_fit (activeTab s = Notification)) s
        (map_option (\<lambda>u. notify_step t u ev) (st_notifications s))"
      using False by (intro child_event tabs_children(1) [OF ok] notifications_fit_step) blast+
    ultimately show ?thesis using tabs_children [OF ok] by (auto intro!: tabs_frame [OF ok])
  qed (use ok Notification_event in auto)
next
  case (Api_key_event ev)
  assume ok: "tabs_ok s"
  show ?thesis
  proof (cases "\<exists>v. ev = Tab_active v")
    case False
    then have "settings_step pow origin t s e = s\<lparr>st_api_keys := map_option (\<lambda>u. key_step origin u ev) (st_api_keys s)\<rparr>"
      using Api_key_event by (cases ev) simp_all
    moreover have "child_ok Apikey (\<lambda>u. tab_active u = (activeTab s = Apikey)) s (map_option (\<lambda>u. key_step origin u ev) (st_api_keys s))"
      using False api_keys_active(3) [of ev origin] by (intro child_event tabs_children(2) [OF ok]) auto
    ultimately show ?thesis using tabs_children [OF ok] by (auto intro!: tabs_frame [OF ok])
  qed (use ok Api_key_event in auto)
next
  case (Audit_log_event ev)
  assume ok: "tabs_ok s"
  have "child_ok Audit (\<lambda>u. audit_active u = (activeTab s = Audit)) s (map_option (\<lambda>u. audit_step u ev) (st_audit s))"
    by (intro child_event tabs_children(3) [OF ok]) (simp add: audit_is_active)
  then show ?thesis using Audit_log_event tabs_children [OF ok] by (auto intro!: tabs_frame [OF ok])
next
  case (Version_answer r)
  assume ok: "tabs_ok s"
  then show ?thesis using Version_answer tabs_children [OF ok] by (auto intro!: tabs_frame [OF ok] split: option.split)
next
  case (Latest_answer r)
  assume ok: "tabs_ok s"
  then show ?thesis using Latest_answer tabs_children [OF ok] by (auto intro!: tabs_frame [OF ok] split: option.split)
qed (erule tabs_same; simp add: handleTheme_def handleThemeColorScheme_def handleCustomThemeColorChange_def
      handleResetCustomThemeColors_def change_colors_def handleDisplay_def)+

interpretation settings_tabs: event_machine "settings_step pow origin t" tabs_ok for pow origin t
  by unfold_locales (rule settings_step_tabs)

text \<open>C8: the tabs are well formed whatever is chosen and done in them: no tab is visited twice in the list, the active
  one is in it, the notification, API key and audit parts exist exactly when their tab was visited and know whether it is
  active (the notification part unless a masked secret that is not a text has crashed its form, which takes the page
  down), the channels are loaded at most once however often their tab is left and visited again, and the version is asked
  for once, when its tab is visited.\<close>

theorem settings_tabs_well_formed:
  "let s = foldl (settings_step pow origin t) (mount_settings p) es in
     distinct (visitedTabs s) \<and> activeTab s \<in> set (visitedTabs s)
     \<and> (case st_notifications s of
          None \<Rightarrow> Notification \<notin> set (visitedTabs s)
        | Some u \<Rightarrow> Notification \<in> set (visitedTabs s) \<and> (nt_crashed u \<or> nt_active u = (activeTab s = Notification))
            \<and> length (filter (\<lambda>c. c = Get_channels) (sc_sent u)) \<le> 1)
     \<and> (case st_api_keys s of
          None \<Rightarrow> Apikey \<notin> set (visitedTabs s)
        | Some u \<Rightarrow> Apikey \<in> set (visitedTabs s) \<and> tab_active u = (activeTab s = Apikey))
     \<and> (case st_audit s of
          None \<Rightarrow> Audit \<notin> set (visitedTabs s)
        | Some u \<Rightarrow> Audit \<in> set (visitedTabs s) \<and> audit_active u = (activeTab s = Audit))
     \<and> versionRequested s = (About \<in> set (visitedTabs s)) \<and> versionOpen s + latestOpen s \<le> 1"
proof -
  have "tabs_ok (foldl (settings_step pow origin t) (mount_settings p) es)" by (rule settings_tabs.run_inv [OF mount_tabs])
  then show ?thesis
    by (auto simp: tabs_ok_def child_ok_def notifications_fit_def Let_def split: option.split if_splits)
qed

text \<open>The answer that the audit tab waited for is dropped when the tab was left in between, also when it was visited again.\<close>

lemma audit_answer_cancelled:
  "audit_events (foldl audit_step (set_audit_active True (set_audit_active False (mount_audit True))) [Audit_answer 0 (Audit_events (Some [x]))]) = []"
  by (simp add: mount_audit_def set_audit_active_def audit_effect_def send_def answer_def)

end
