(* ===== verification/SignUpPages.thy ===== *)
theory SignUpPages
  imports AuthPages
begin

text \<open>
  The other pages of \<open>web/src/features/auth\<close>: \<open>register-page.tsx\<close>, \<open>forgot-password-page.tsx\<close> and
  \<open>reset-password-page.tsx\<close>, over the client of \<open>lib/api.ts\<close>.  \<open>t\<close> is the translation.
  A continuation carries what its closure captured.
\<close>

subsection \<open>Registration\<close>

datatype register_wait = Wait_register_config | Wait_code | Wait_register

record RegisterState = "register_wait AuthPage" +
  rg_username :: string
  rg_email :: string
  rg_password :: string
  rg_confirmPassword :: string
  rg_verificationCode :: string
  registrationEnabled :: bool
  emailVerificationEnabled :: bool
  configLoading :: bool
  codeSending :: bool
  codeCooldown :: int
  rg_loading :: bool

definition mount_register :: "Client \<Rightarrow> RegisterState" where
  "mount_register c = api_get ''/auth/register/config'' Wait_register_config
     \<lparr>au_client = c, au_waiting = [], au_error = [], au_success = [], au_path = ''/register'', rg_username = [], rg_email = [],
      rg_password = [], rg_confirmPassword = [], rg_verificationCode = [], registrationEnabled = False,
      emailVerificationEnabled = False, configLoading = True, codeSending = False, codeCooldown = 0, rg_loading = False\<rparr>"

definition handleSendCode :: "(string \<Rightarrow> string) \<Rightarrow> RegisterState \<Rightarrow> RegisterState" where
  "handleSendCode t s =
     (let s = s\<lparr>au_error := []\<rparr> in
      if trim (rg_email s) = [] then s\<lparr>au_error := t ''auth.register.emailRequired''\<rparr>
      else api_post ''/auth/register/send-code'' (JObj [(''email'', JStr (trim (rg_email s)))]) Wait_code (s\<lparr>codeSending := True\<rparr>))"

definition register_body :: "RegisterState \<Rightarrow> json" where
  "register_body s =
     JObj [(''username'', JStr (trim (rg_username s))), (''email'', JStr (trim (rg_email s))), (''password'', JStr (rg_password s)),
       (''verification_code'', JStr (if emailVerificationEnabled s then trim (rg_verificationCode s) else []))]"

definition register_submit :: "(string \<Rightarrow> string) \<Rightarrow> RegisterState \<Rightarrow> RegisterState" where
  "register_submit t s =
     (let s = s\<lparr>au_error := []\<rparr> in
      if \<not> registrationEnabled s then s\<lparr>au_error := t ''auth.register.registrationDisabled''\<rparr>
      else if rg_password s \<noteq> rg_confirmPassword s then s\<lparr>au_error := t ''auth.register.passwordMismatch''\<rparr>
      else if length (rg_password s) < 8 then s\<lparr>au_error := t ''auth.register.passwordTooShort''\<rparr>
      else if emailVerificationEnabled s \<and> trim (rg_verificationCode s) = []
      then s\<lparr>au_error := t ''auth.register.verificationCodeRequired''\<rparr>
      else api_post ''/auth/register'' (register_body s) Wait_register (s\<lparr>rg_loading := True\<rparr>))"

definition config_flag :: "string \<Rightarrow> json \<Rightarrow> bool" where
  "config_flag k config = json_truthy (nullish (json_get config k) JNull)"

text \<open>A configuration that is \<open>undefined\<close> throws into the \<open>catch\<close>.\<close>

fun register_continue :: "(string \<Rightarrow> string) \<Rightarrow> register_wait \<Rightarrow> string + json option \<Rightarrow> RegisterState \<Rightarrow> RegisterState" where
  "register_continue t Wait_register_config (Inr (Some config)) s =
     s\<lparr>registrationEnabled := config_flag ''registration_enabled'' config,
       emailVerificationEnabled := config_flag ''email_verification_enabled'' config, configLoading := False\<rparr>"
| "register_continue t Wait_register_config r s =
     s\<lparr>registrationEnabled := False, emailVerificationEnabled := False, configLoading := False\<rparr>"
| "register_continue t Wait_code (Inr v) s =
     s\<lparr>au_success := au_success s @ [t ''auth.register.verificationCodeSent''], codeCooldown := 60, codeSending := False\<rparr>"
| "register_continue t Wait_code (Inl msg) s = s\<lparr>au_error := msg, codeSending := False\<rparr>"
| "register_continue t Wait_register (Inr (Some data)) s = (signed_in (t ''auth.register.success'') data s)\<lparr>rg_loading := False\<rparr>"
| "register_continue t Wait_register (Inr None) s = s\<lparr>au_error := ''TypeError'', rg_loading := False\<rparr>"
| "register_continue t Wait_register (Inl msg) s = s\<lparr>au_error := msg, rg_loading := False\<rparr>"

text \<open>The interval of the effect on \<open>codeCooldown\<close> exists while that is positive.\<close>

definition cooldown_tick :: "RegisterState \<Rightarrow> RegisterState" where
  "cooldown_tick s = (if codeCooldown s \<le> 0 then s else s\<lparr>codeCooldown := (if codeCooldown s > 0 then codeCooldown s - 1 else 0)\<rparr>)"

datatype register_field = Rf_username | Rf_email | Rf_password | Rf_confirm | Rf_code

fun register_type :: "register_field \<Rightarrow> string \<Rightarrow> RegisterState \<Rightarrow> RegisterState" where
  "register_type Rf_username v s = s\<lparr>rg_username := v\<rparr>"
| "register_type Rf_email v s = s\<lparr>rg_email := v\<rparr>"
| "register_type Rf_password v s = s\<lparr>rg_password := v\<rparr>"
| "register_type Rf_confirm v s = s\<lparr>rg_confirmPassword := v\<rparr>"
| "register_type Rf_code v s = s\<lparr>rg_verificationCode := v\<rparr>"

datatype register_event =
    Register_net event
  | Register_continues nat
  | Register_type register_field string
  | Send_code_button
  | Submit_registration
  | Cooldown_tick

definition can_send_code :: "RegisterState \<Rightarrow> bool" where
  "can_send_code s \<longleftrightarrow> au_path s = ''/register'' \<and> emailVerificationEnabled s
     \<and> \<not> (codeSending s \<or> codeCooldown s > 0 \<or> configLoading s \<or> \<not> registrationEnabled s \<or> trim (rg_email s) = [])"

definition can_register :: "RegisterState \<Rightarrow> bool" where
  "can_register s \<longleftrightarrow> au_path s = ''/register'' \<and> \<not> (rg_loading s \<or> configLoading s \<or> \<not> registrationEnabled s)"

fun register_step :: "(string \<Rightarrow> string) \<Rightarrow> RegisterState \<Rightarrow> register_event \<Rightarrow> RegisterState" where
  "register_step t s (Register_net e) = on_net t e s"
| "register_step t s (Register_continues k) =
     (case settled k s of None \<Rightarrow> s | Some (w, r) \<Rightarrow> register_continue t w r (drop_waiting k s))"
| "register_step t s (Register_type f v) = register_type f v s"
| "register_step t s Send_code_button = (if can_send_code s then handleSendCode t s else s)"
| "register_step t s Submit_registration = (if can_register s then register_submit t s else s)"
| "register_step t s Cooldown_tick = cooldown_tick s"

subsection \<open>The forgotten password\<close>

datatype forgot_wait = Wait_forgot string

record ForgotState = "forgot_wait AuthPage" +
  fg_email :: string
  fg_loading :: bool

definition mount_forgot :: "Client \<Rightarrow> ForgotState" where
  "mount_forgot c = \<lparr>au_client = c, au_waiting = [], au_error = [], au_success = [], au_path = ''/forgot-password'',
     fg_email = [], fg_loading = False\<rparr>"

definition forgot_body :: "string \<Rightarrow> json" where
  "forgot_body email = JObj [(''email'', JStr (trim email))]"

definition forgot_submit :: "ForgotState \<Rightarrow> ForgotState" where
  "forgot_submit s = api_post ''/auth/password/forgot'' (forgot_body (fg_email s)) (Wait_forgot (fg_email s))
     (s\<lparr>au_error := [], fg_loading := True\<rparr>)"

fun forgot_continue :: "(string \<Rightarrow> string) \<Rightarrow> forgot_wait \<Rightarrow> string + json option \<Rightarrow> ForgotState \<Rightarrow> ForgotState" where
  "forgot_continue t (Wait_forgot email) (Inr v) s =
     s\<lparr>au_success := au_success s @ [t ''auth.forgotPassword.success''],
       au_path := ''/reset-password?email='' @ encodeURIComponent (trim email), fg_loading := False\<rparr>"
| "forgot_continue t (Wait_forgot email) (Inl msg) s = s\<lparr>au_error := msg, fg_loading := False\<rparr>"

datatype forgot_event = Forgot_net event | Forgot_continues nat | Forgot_type string | Forgot_submit

fun forgot_step :: "(string \<Rightarrow> string) \<Rightarrow> ForgotState \<Rightarrow> forgot_event \<Rightarrow> ForgotState" where
  "forgot_step t s (Forgot_net e) = on_net t e s"
| "forgot_step t s (Forgot_continues k) =
     (case settled k s of None \<Rightarrow> s | Some (w, r) \<Rightarrow> forgot_continue t w r (drop_waiting k s))"
| "forgot_step t s (Forgot_type v) = s\<lparr>fg_email := v\<rparr>"
| "forgot_step t s Forgot_submit = (if fg_loading s \<or> fg_email s = [] then s else forgot_submit s)"

subsection \<open>The new password\<close>

datatype reset_wait = Wait_reset

record ResetState = "reset_wait AuthPage" +
  rp_email :: string
  rp_verificationCode :: string
  rp_newPassword :: string
  rp_confirmPassword :: string
  rp_loading :: bool

definition mount_reset :: "(nat list \<Rightarrow> string) \<Rightarrow> string \<Rightarrow> Client \<Rightarrow> ResetState" where
  "mount_reset other search c = \<lparr>au_client = c, au_waiting = [], au_error = [], au_success = [], au_path = ''/reset-password'',
     rp_email = nullish (params_get ''email'' (searchParams other search)) [], rp_verificationCode = [], rp_newPassword = [],
     rp_confirmPassword = [], rp_loading = False\<rparr>"

definition reset_submit :: "(string \<Rightarrow> string) \<Rightarrow> ResetState \<Rightarrow> ResetState" where
  "reset_submit t s =
     (let s = s\<lparr>au_error := []\<rparr> in
      if rp_newPassword s \<noteq> rp_confirmPassword s then s\<lparr>au_error := t ''auth.resetPassword.passwordMismatch''\<rparr>
      else if length (rp_newPassword s) < 8 then s\<lparr>au_error := t ''auth.resetPassword.passwordTooShort''\<rparr>
      else api_post ''/auth/password/reset''
        (JObj [(''email'', JStr (trim (rp_email s))), (''verification_code'', JStr (trim (rp_verificationCode s))),
           (''new_password'', JStr (rp_newPassword s))]) Wait_reset (s\<lparr>rp_loading := True\<rparr>))"

fun reset_continue :: "(string \<Rightarrow> string) \<Rightarrow> reset_wait \<Rightarrow> string + json option \<Rightarrow> ResetState \<Rightarrow> ResetState" where
  "reset_continue t Wait_reset (Inr v) s =
     s\<lparr>au_success := au_success s @ [t ''auth.resetPassword.success''], au_path := ''/login'', rp_loading := False\<rparr>"
| "reset_continue t Wait_reset (Inl msg) s = s\<lparr>au_error := msg, rp_loading := False\<rparr>"

text \<open>The page that the router shows at a path with a query.\<close>

definition pathname :: "string \<Rightarrow> string" where
  "pathname path = takeWhile (\<lambda>c. c \<noteq> CHR ''?'') path"

definition search_of :: "string \<Rightarrow> string" where
  "search_of path = dropWhile (\<lambda>c. c \<noteq> CHR ''?'') path"

subsection \<open>Properties\<close>

text \<open>after a verification code was sent, the page asks for no other one before its interval has fired sixty times,
  whatever is typed, submitted and answered meanwhile.\<close>

theorem resend_waits_sixty_ticks:
  assumes "settled k s = Some (Wait_code, Inr v)" and "length (filter (\<lambda>e. e = Cooldown_tick) later) < 60"
  shows "\<not> can_send_code (foldl (register_step t) s (Register_continues k # later))"
proof -
  have step: "60 - int (Suc n) \<le> codeCooldown (register_step t s Cooldown_tick)" if "60 - int n \<le> codeCooldown s" "n < 60" for s n
    using that by (auto simp: cooldown_tick_def)
  have other: "codeCooldown s \<le> 60 \<Longrightarrow> e \<noteq> Cooldown_tick \<Longrightarrow> codeCooldown s \<le> codeCooldown (register_step t s e)
      \<and> codeCooldown (register_step t s e) \<le> 60" for s e
  proof (cases e)
    case (Register_continues j)
    moreover assume "codeCooldown s \<le> 60"
    moreover have "codeCooldown (drop_waiting j s) = codeCooldown s" by (simp add: drop_waiting_def)
    moreover have "codeCooldown (register_continue t w r s') = (case (w, r) of (Wait_code, Inr v) \<Rightarrow> 60 | _ \<Rightarrow> codeCooldown s')" for w r s'
      by (cases "(t, w, r, s')" rule: register_continue.cases) (simp_all add: signed_in_def)
    ultimately show ?thesis by (auto split: option.split register_wait.split sum.split)
  next
    case (Register_type f w)
    moreover assume "codeCooldown s \<le> 60"
    ultimately show ?thesis by (cases f) simp_all
  qed (auto simp: on_net_def handleSendCode_def register_submit_def api_defs await_def Let_def)
  have tick: "codeCooldown s \<le> 60 \<Longrightarrow> codeCooldown (register_step t s Cooldown_tick) \<le> 60" for s
    by (simp add: cooldown_tick_def)
  have run: "60 - int (length (filter (\<lambda>e. e = Cooldown_tick) es)) \<le> codeCooldown (foldl (register_step t) u es)
      \<and> codeCooldown (foldl (register_step t) u es) \<le> 60"
    if "codeCooldown u = 60" "length (filter (\<lambda>e. e = Cooldown_tick) es) < 60" for u es
    using that(2)
  proof (induction es rule: rev_induct)
    case (snoc e es)
    show ?case
    proof (cases "e = Cooldown_tick")
      case True
      then show ?thesis using snoc step [of "length (filter (\<lambda>e. e = Cooldown_tick) es)"] tick by simp
    next
      case False
      then show ?thesis using snoc other [OF _ False] by fastforce
    qed
  qed (simp add: that(1))
  have "codeCooldown (register_step t s (Register_continues k)) = 60" using assms(1) by simp
  from run [OF this assms(2)] show ?thesis using assms(2) by (simp add: can_send_code_def)
qed

definition ok_response :: Response where
  "ok_response = \<lparr>rs_status = 204, rs_content_type = None, rs_body = None\<rparr>"

definition config_response :: Response where
  "config_response = \<lparr>rs_status = 200, rs_content_type = Some ''application/json'',
     rs_body = Some (JObj [(''registration_enabled'', JBool True), (''email_verification_enabled'', JBool True)])\<rparr>"

definition code_sent :: "register_event list" where
  "code_sent = [Register_net (Fetch_settles 0 (Inr config_response)), Register_net (Body_read 0), Register_continues 0,
     Register_type Rf_email ''a@b.org'', Send_code_button, Register_net (Fetch_settles 1 (Inr ok_response)), Register_net (Body_read 1)]"

theorem resend_waits_sixty_ticks_witness:
  "\<not> can_send_code (foldl (register_step id) (foldl (register_step id) (mount_register (page_load empty_storage)) code_sent)
     [Register_continues 0, Cooldown_tick, Send_code_button])"
proof -
  let ?s = "foldl (register_step id) (mount_register (page_load empty_storage)) code_sent"
  have "settled 0 ?s = Some (Wait_code, Inr None)" by code_simp
  then show ?thesis by (rule resend_waits_sixty_ticks) simp
qed

text \<open>What the registration sends, on every branch.\<close>

lemma registration_checked:
  assumes "au_waiting (register_step t s Submit_registration) \<noteq> au_waiting s"
  shows "registrationEnabled s \<and> rg_password s = rg_confirmPassword s \<and> 8 \<le> length (rg_password s)
    \<and> (emailVerificationEnabled s \<longrightarrow> trim (rg_verificationCode s) \<noteq> []) \<and> \<not> rg_loading s"
  using assms by (auto simp: register_submit_def can_register_def Let_def split: if_splits)

lemma reset_checked:
  assumes "au_waiting (reset_submit t s) \<noteq> au_waiting s"
  shows "rp_newPassword s = rp_confirmPassword s \<and> 8 \<le> length (rp_newPassword s)"
  using assms by (auto simp: reset_submit_def Let_def split: if_splits)

lemma forgot_step_waiting:
  "x \<in> set (au_waiting (forgot_step t s e)) \<Longrightarrow>
    x \<in> set (au_waiting s) \<or> e = Forgot_submit \<and> snd x = Wait_forgot (fg_email s)"
proof (cases e)
  case (Forgot_continues k)
  assume "x \<in> set (au_waiting (forgot_step t s e))"
  moreover have "au_waiting (forgot_continue t w r s') = au_waiting s'" for w r s'
    by (cases "(t, w, r, s')" rule: forgot_continue.cases) simp_all
  moreover have "set (au_waiting (drop_waiting k s)) \<subseteq> set (au_waiting s)"
    by (auto simp: drop_waiting_def dest: in_set_takeD in_set_dropD)
  ultimately show ?thesis using Forgot_continues by (auto split: option.splits)
qed (auto simp: on_net_def forgot_submit_def api_defs await_def split: if_splits)

lemma forgot_submitted:
  "x \<in> set (au_waiting (foldl (forgot_step t) (mount_forgot c) es)) \<Longrightarrow>
    \<exists>n < length es. es ! n = Forgot_submit \<and> snd x = Wait_forgot (fg_email (foldl (forgot_step t) (mount_forgot c) (take n es)))"
proof (induction es rule: rev_induct)
  case (snoc e es)
  from forgot_step_waiting [of x t _ e] snoc.prems
  consider "x \<in> set (au_waiting (foldl (forgot_step t) (mount_forgot c) es))"
    | "e = Forgot_submit" "snd x = Wait_forgot (fg_email (foldl (forgot_step t) (mount_forgot c) es))" by auto
  then show ?case
  proof cases
    case 1
    from snoc.IH [OF this] obtain n where "n < length es" "es ! n = Forgot_submit"
      "snd x = Wait_forgot (fg_email (foldl (forgot_step t) (mount_forgot c) (take n es)))" by blast
    then show ?thesis by (intro exI [of _ n]) (simp add: nth_append)
  next
    case 2
    then show ?thesis by (intro exI [of _ "length es"]) simp
  qed
qed (simp add: mount_forgot_def)

lemma path_parts:
  "CHR ''?'' \<notin> set p \<Longrightarrow> pathname (p @ CHR ''?'' # q) = p \<and> search_of (p @ CHR ''?'' # q) = CHR ''?'' # q"
  by (induction p) (auto simp: pathname_def search_of_def)

lemma settled_in: "settled k s = Some (w, r) \<Longrightarrow> \<exists>i. (i, w) \<in> set (au_waiting s)"
  by (auto simp: settled_def split: if_splits task.splits) (metis nth_mem prod.collapse)

text \<open>C7: the email survives the change of the page: when a request for a new password succeeds, the page that is
  shown next is the one for the new password, and it is filled with the email of that request without surrounding
  white space, whatever characters it has and whatever was typed while the request was under way.\<close>

theorem reset_page_gets_email:
  assumes "s = foldl (forgot_step t) (mount_forgot c) es" and "settled k s = Some (Wait_forgot email, Inr v)"
    and "s' = forgot_step t s (Forgot_continues k)"
  shows "pathname (au_path s') = ''/reset-password''
    \<and> rp_email (mount_reset other (search_of (au_path s')) (au_client s')) = trim email
    \<and> (\<exists>n < length es. es ! n = Forgot_submit \<and> fg_email (foldl (forgot_step t) (mount_forgot c) (take n es)) = email)"
proof -
  have p: "au_path s' = ''/reset-password'' @ CHR ''?'' # ''email='' @ encodeURIComponent (trim email)"
    using assms(2,3) by simp
  have "encodeURIComponent ''email'' = ''email''" by code_simp
  then have "form_decode other ''email'' = ''email''" using form_decode_component [of other "''email''"] by simp
  then have "searchParams other (CHR ''?'' # ''email='' @ encodeURIComponent (trim email)) = [(''email'', trim email)]"
    using single_parameter [of "''email''" other "trim email"] by simp
  moreover have "pathname (au_path s') = ''/reset-password'' \<and> search_of (au_path s') = CHR ''?'' # ''email='' @ encodeURIComponent (trim email)"
    unfolding p by (rule path_parts) simp
  ultimately have "pathname (au_path s') = ''/reset-password''"
    "rp_email (mount_reset other (search_of (au_path s')) (au_client s')) = trim email"
    by (simp_all add: mount_reset_def params_get_def)
  moreover have "\<exists>n < length es. es ! n = Forgot_submit \<and> fg_email (foldl (forgot_step t) (mount_forgot c) (take n es)) = email"
    using settled_in [OF assms(2)] forgot_submitted unfolding assms(1) by fastforce
  ultimately show ?thesis by blast
qed

definition link_sent :: "forgot_event list" where
  "link_sent = [Forgot_type '' a+b&c@d.org '', Forgot_submit, Forgot_type ''other'', Forgot_net (Fetch_settles 0 (Inr ok_response)),
     Forgot_net (Body_read 0)]"

theorem reset_page_gets_email_witness:
  "rp_email (mount_reset (\<lambda>bs. []) (search_of (au_path (forgot_step id (foldl (forgot_step id) (mount_forgot (page_load empty_storage)) link_sent)
     (Forgot_continues 0)))) (page_load empty_storage)) = ''a+b&c@d.org''"
proof -
  let ?s = "foldl (forgot_step id) (mount_forgot (page_load empty_storage)) link_sent"
  have "settled 0 ?s = Some (Wait_forgot '' a+b&c@d.org '', Inr None)" by code_simp
  from reset_page_gets_email [OF refl this refl, of "\<lambda>bs. []"]
  have "rp_email (mount_reset (\<lambda>bs. []) (search_of (au_path (forgot_step id ?s (Forgot_continues 0))))
      (au_client (forgot_step id ?s (Forgot_continues 0)))) = trim '' a+b&c@d.org ''" by blast
  moreover have "trim '' a+b&c@d.org '' = ''a+b&c@d.org''" by code_simp
  ultimately show ?thesis by (simp add: mount_reset_def)
qed

end
