(* ===== verification/SubscriptionForm.thy ===== *)
theory SubscriptionForm
  imports Calendar Currencies Lifecycle
begin

text \<open>
  The subscription form, \<open>web/src/features/subscriptions/hooks/use-subscription-form-state.ts\<close>: its
  values from a subscription and back to the input that is sent, the effects that keep them consistent,
  and the submission with its uploads.

  The props are part of the state and change by an event; \<open>fp_today\<close> is \<open>new Date()\<close>.  Every
  effect is run on every rendering, its list of dependencies left out: with unchanged dependencies it changes
  nothing, since it has then set the value that its condition asks for (the effect of the opening has set
  \<open>wasOpenRef\<close> to \<open>open\<close>, and a file is chosen only in the open form).  What the form calls (\<open>onSubmit\<close>, \<open>onOpenChange\<close>,
  \<open>onMarkRenewed\<close>, \<open>api.uploadFile\<close>) is recorded in \<open>fs_sent\<close>, and the answers are events.
\<close>

datatype SubscriptionNotifySetting = Notify_default | Notify_enabled | Notify_disabled

record SubscriptionFormValues =
  fv_amount :: string
  fv_nextBillingDate :: string
  fv_endsAt :: string
  fv_categoryId :: string
  fv_currency :: string
  fv_icon :: string
  fv_intervalCount :: string
  fv_intervalUnit :: string
  fv_monthlyDay :: string
  fv_name :: string
  fv_notes :: string
  fv_notifyDaysBefore :: string
  fv_notifyEnabled :: SubscriptionNotifySetting
  fv_paymentMethodId :: string
  fv_recurrenceType :: string
  fv_renewalMode :: SubscriptionRenewalMode
  fv_status :: SubscriptionStatus
  fv_url :: string
  fv_yearlyDay :: string
  fv_yearlyMonth :: string

record FormEnv =
  fe_intl :: Intl
  fe_language :: string
  fe_t :: "string \<Rightarrow> string"
  fe_date :: "string \<Rightarrow> LocalDate option"

record FormProps =
  fp_open :: bool
  fp_subscription :: "Subscription option"
  fp_can_renew :: bool
  fp_paymentMethods :: "PaymentMethod list"
  fp_userCurrencies :: "UserCurrency list"
  fp_today :: LocalDate

definition MAX_NOTIFICATION_DAYS_BEFORE :: int where
  "MAX_NOTIFICATION_DAYS_BEFORE = 10"

subsection \<open>Values\<close>

definition formatDateInput :: "FormEnv \<Rightarrow> LocalDate \<Rightarrow> string option \<Rightarrow> string" where
  "formatDateInput env today value =
     (case value of
        None \<Rightarrow> formatDateKey today
      | Some [] \<Rightarrow> formatDateKey today
      | Some v \<Rightarrow>
          if match_date_only (trim v) \<noteq> None then take 10 (trim v)
          else case fe_date env v of None \<Rightarrow> formatDateKey today | Some parsed \<Rightarrow> formatDateKey parsed)"

definition id_text :: "int option \<Rightarrow> string" where
  "id_text v = (case v of None \<Rightarrow> [] | Some i \<Rightarrow> int_to_string i)"

definition buildInitialValues :: "FormEnv \<Rightarrow> LocalDate \<Rightarrow> Subscription option \<Rightarrow> string \<Rightarrow> SubscriptionFormValues" where
  "buildInitialValues env today subscription fallbackCurrencyCode =
     (case subscription of
        Some sub \<Rightarrow> \<lparr>
          fv_amount = decimal_to_string (sub_amount sub),
          fv_nextBillingDate = formatDateInput env today (sub_next_billing_date sub),
          fv_endsAt = formatDateInput env today
            (if truthy_str (sub_ends_at sub) then sub_ends_at sub else sub_next_billing_date sub),
          fv_categoryId = id_text (sub_category_id sub),
          fv_currency = or_str (sub_currency sub) fallbackCurrencyCode,
          fv_icon = sub_icon sub,
          fv_intervalCount = int_to_string (nullish (sub_interval_count sub) 1),
          fv_intervalUnit = or_str (sub_interval_unit sub) ''month'',
          fv_monthlyDay = int_to_string (nullish (sub_monthly_day sub) (date today)),
          fv_name = sub_name sub,
          fv_notes = sub_notes sub,
          fv_notifyDaysBefore = id_text (sub_notify_days_before sub),
          fv_notifyEnabled = (case sub_notify_enabled sub of
              None \<Rightarrow> Notify_default | Some b \<Rightarrow> if b then Notify_enabled else Notify_disabled),
          fv_paymentMethodId = id_text (sub_payment_method_id sub),
          fv_recurrenceType = or_str (sub_recurrence_type sub) ''interval'',
          fv_renewalMode = nullish (sub_renewal_mode sub) Auto_renew,
          fv_status = nullish (sub_status sub) Active,
          fv_url = sub_url sub,
          fv_yearlyDay = int_to_string (nullish (sub_yearly_day sub) (date today)),
          fv_yearlyMonth = int_to_string (nullish (sub_yearly_month sub) (month today + 1))\<rparr>
      | None \<Rightarrow> \<lparr>
          fv_amount = [],
          fv_nextBillingDate = formatDateKey today,
          fv_endsAt = formatDateKey today,
          fv_categoryId = [],
          fv_currency = fallbackCurrencyCode,
          fv_icon = [],
          fv_intervalCount = ''1'',
          fv_intervalUnit = ''month'',
          fv_monthlyDay = int_to_string (date today),
          fv_name = [],
          fv_notes = [],
          fv_notifyDaysBefore = [],
          fv_notifyEnabled = Notify_default,
          fv_paymentMethodId = [],
          fv_recurrenceType = ''interval'',
          fv_renewalMode = Auto_renew,
          fv_status = Active,
          fv_url = [],
          fv_yearlyDay = int_to_string (date today),
          fv_yearlyMonth = int_to_string (month today + 1)\<rparr>)"

definition currencyOptions :: "FormEnv \<Rightarrow> UserCurrency list \<Rightarrow> (string \<times> string) list" where
  "currencyOptions env userCurrencies =
     (let alias = (\<lambda>cur. or_opt (map_option pc_alias (preset_for (fe_intl env) (fe_language env) cur)) cur) in
      if 0 < length userCurrencies
      then map (\<lambda>item. (uc_code item, or_str (trim (uc_alias item)) (alias (uc_code item)))) userCurrencies
      else map (\<lambda>cur. (cur, alias cur)) DEFAULT_CURRENCY_FALLBACK)"

definition defaultCurrencyCode :: "FormEnv \<Rightarrow> UserCurrency list \<Rightarrow> string" where
  "defaultCurrencyCode env userCurrencies =
     (case currencyOptions env userCurrencies of
        [] \<Rightarrow> hd DEFAULT_CURRENCY_FALLBACK
      | option # _ \<Rightarrow> or_str (fst option) (hd DEFAULT_CURRENCY_FALLBACK))"

text \<open>The input that \<open>handleSubmit\<close> sends, with the icon as it stands then.\<close>

definition submit_payload :: "SubscriptionFormValues \<Rightarrow> string \<Rightarrow> CreateSubscriptionInput" where
  "submit_payload v icon = \<lparr>
     in_name = fv_name v,
     in_amount = parse_float (fv_amount v),
     in_currency = fv_currency v,
     in_status = fv_status v,
     in_renewal_mode = fv_renewalMode v,
     in_ends_at = (if fv_status v = Ended then Some (fv_endsAt v)
       else if fv_renewalMode v = Cancel_at_period_end then Some (fv_nextBillingDate v) else None),
     in_billing_type = ''recurring'',
     in_recurrence_type = fv_recurrenceType v,
     in_interval_count = (if fv_recurrenceType v = ''interval'' then Some (parse_int (fv_intervalCount v)) else None),
     in_interval_unit = (if fv_recurrenceType v = ''interval'' then fv_intervalUnit v else []),
     in_next_billing_date = fv_nextBillingDate v,
     in_monthly_day = (if fv_recurrenceType v = ''monthly_date'' then Some (parse_int (fv_monthlyDay v)) else None),
     in_yearly_month = (if fv_recurrenceType v = ''yearly_date'' then Some (parse_int (fv_yearlyMonth v)) else None),
     in_yearly_day = (if fv_recurrenceType v = ''yearly_date'' then Some (parse_int (fv_yearlyDay v)) else None),
     in_category = [],
     in_category_id = (if fv_categoryId v \<noteq> [] then Some (parse_int (fv_categoryId v)) else None),
     in_payment_method_id = (if fv_paymentMethodId v \<noteq> [] then Some (parse_int (fv_paymentMethodId v)) else None),
     in_notify_enabled = (if fv_notifyEnabled v = Notify_default then None else Some (fv_notifyEnabled v = Notify_enabled)),
     in_notify_days_before =
       (if fv_notifyEnabled v = Notify_enabled \<and> fv_notifyDaysBefore v \<noteq> []
        then (case parse_int (fv_notifyDaysBefore v) of
                None \<Rightarrow> Some 0
              | Some n \<Rightarrow> Some (min MAX_NOTIFICATION_DAYS_BEFORE (max 0 n)))
        else None),
     in_icon = icon,
     in_url = fv_url v,
     in_notes = fv_notes v\<rparr>"


subsection \<open>State, effects and handlers\<close>

datatype 'f form_call =
    Upload_icon int 'f
  | Submit_subscription CreateSubscriptionInput
  | Mark_renewed Subscription
  | Open_change bool

text \<open>
  What a pending call of \<open>handleSubmit\<close> or \<open>handleMarkRenewed\<close> awaits, with what its closure
  holds: the icon file and whether the form edits; \<open>Closing\<close> is the timer of 1.5 seconds.
\<close>

datatype 'f form_task =
    Uploading_before SubscriptionFormValues "'f option" bool
  | Submitting "'f option" bool
  | Uploading_after
  | Renewing
  | Closing
  | Finished

datatype form_reply = Rejected string | Uploaded string | Saved Subscription | Timer

record 'f FormState =
  fs_props :: FormProps
  fs_values :: SubscriptionFormValues
  fs_loading :: bool
  fs_error :: string
  fs_iconFile :: "'f option"
  fs_wasOpen :: bool
  fs_tasks :: "'f form_task list"
  fs_sent :: "'f form_call list"

definition open_effect :: "FormEnv \<Rightarrow> 'f FormState \<Rightarrow> 'f FormState \<Rightarrow> 'f FormState" where
  "open_effect env r s =
     (let p = fs_props r;
          s = (if fp_open p \<and> \<not> fs_wasOpen r
               then s\<lparr>fs_error := [], fs_loading := False, fs_iconFile := None,
                 fs_values := buildInitialValues env (fp_today p) (fp_subscription p) (defaultCurrencyCode env (fp_userCurrencies p))\<rparr>
               else s);
          s = (if \<not> fp_open p then s\<lparr>fs_iconFile := None\<rparr> else s)
      in s\<lparr>fs_wasOpen := fp_open p\<rparr>)"

definition setValues :: "(SubscriptionFormValues \<Rightarrow> SubscriptionFormValues) \<Rightarrow> 'f FormState \<Rightarrow> 'f FormState" where
  "setValues f s = s\<lparr>fs_values := f (fs_values s)\<rparr>"

definition currency_option_effect :: "FormEnv \<Rightarrow> 'f FormState \<Rightarrow> 'f FormState \<Rightarrow> 'f FormState" where
  "currency_option_effect env r s =
     (let options = currencyOptions env (fp_userCurrencies (fs_props r)) in
      if \<not> fp_open (fs_props r) \<or> length options = 0 then s
      else if \<not> list_ex (\<lambda>option. fst option = fv_currency (fs_values r)) options
      then setValues (\<lambda>v. v\<lparr>fv_currency := fst (hd options)\<rparr>) s else s)"

definition payment_method_effect :: "'f FormState \<Rightarrow> 'f FormState \<Rightarrow> 'f FormState" where
  "payment_method_effect r s =
     (if \<not> fp_open (fs_props r) \<or> fv_paymentMethodId (fs_values r) = [] then s
      else if \<not> list_ex (\<lambda>item. int_to_string (pm_id item) = fv_paymentMethodId (fs_values r)) (fp_paymentMethods (fs_props r))
      then setValues (\<lambda>v. v\<lparr>fv_paymentMethodId := []\<rparr>) s else s)"

definition ends_at_effect :: "'f FormState \<Rightarrow> 'f FormState \<Rightarrow> 'f FormState" where
  "ends_at_effect r s =
     (let v = fs_values r in
      if \<not> fp_open (fs_props r) then s
      else if fv_status v = Active then
        (if fv_renewalMode v = Cancel_at_period_end \<and> fv_endsAt v \<noteq> fv_nextBillingDate v
         then setValues (\<lambda>w. w\<lparr>fv_endsAt := fv_nextBillingDate v\<rparr>) s else s)
      else if fv_endsAt v = []
      then setValues (\<lambda>w. w\<lparr>fv_endsAt := or_str (fv_nextBillingDate v) (formatDateKey (fp_today (fs_props r)))\<rparr>) s
      else s)"

definition form_effects :: "FormEnv \<Rightarrow> 'f FormState \<Rightarrow> 'f FormState" where
  "form_effects env r =
     ends_at_effect r (payment_method_effect r (currency_option_effect env r (open_effect env r r)))"

definition form_render :: "FormEnv \<Rightarrow> 'f FormState \<Rightarrow> 'f FormState" where
  "form_render env s = form_effects env (form_effects env s)"

definition mount_form :: "FormEnv \<Rightarrow> FormProps \<Rightarrow> 'f FormState" where
  "mount_form env p = form_render env \<lparr>fs_props = p,
     fs_values = buildInitialValues env (fp_today p) (fp_subscription p) (defaultCurrencyCode env (fp_userCurrencies p)),
     fs_loading = False, fs_error = [], fs_iconFile = None, fs_wasOpen = False, fs_tasks = [], fs_sent = []\<rparr>"

definition handleIconChange :: "string \<Rightarrow> 'f FormState \<Rightarrow> 'f FormState" where
  "handleIconChange v s = (setValues (\<lambda>w. w\<lparr>fv_icon := v\<rparr>) s)\<lparr>fs_iconFile := None\<rparr>"

definition handleIconFileSelected :: "'f \<Rightarrow> 'f FormState \<Rightarrow> 'f FormState" where
  "handleIconFileSelected f s = setValues (\<lambda>w. w\<lparr>fv_icon := []\<rparr>) (s\<lparr>fs_iconFile := Some f\<rparr>)"

definition isEditing :: "'f FormState \<Rightarrow> bool" where
  "isEditing s \<longleftrightarrow> fp_subscription (fs_props s) \<noteq> None"

definition call :: "'f form_call \<Rightarrow> 'f FormState \<Rightarrow> 'f FormState" where
  "call c s = s\<lparr>fs_sent := fs_sent s @ [c]\<rparr>"

definition put_task :: "nat \<Rightarrow> 'f form_task \<Rightarrow> 'f FormState \<Rightarrow> 'f FormState" where
  "put_task n tk s = s\<lparr>fs_tasks := (fs_tasks s)[n := tk]\<rparr>"

definition submit_icon :: "'f option \<Rightarrow> bool \<Rightarrow> string \<Rightarrow> string" where
  "submit_icon iconFile editing iconValue = (if iconFile \<noteq> None \<and> \<not> editing then [] else iconValue)"

definition handleSubmit :: "'f FormState \<Rightarrow> 'f FormState" where
  "handleSubmit s =
     (let v = fs_values s; s = s\<lparr>fs_error := [], fs_loading := True\<rparr> in
      case (fs_iconFile s, fp_subscription (fs_props s)) of
        (Some f, Some sub) \<Rightarrow>
          if sub_id sub \<noteq> 0
          then call (Upload_icon (sub_id sub) f) (s\<lparr>fs_tasks := fs_tasks s @ [Uploading_before v (Some f) True]\<rparr>)
          else call (Submit_subscription (submit_payload v (fv_icon v))) (s\<lparr>fs_tasks := fs_tasks s @ [Submitting (Some f) True]\<rparr>)
      | (iconFile, sub) \<Rightarrow>
          call (Submit_subscription (submit_payload v (submit_icon iconFile (sub \<noteq> None) (fv_icon v))))
            (s\<lparr>fs_tasks := fs_tasks s @ [Submitting iconFile (sub \<noteq> None)]\<rparr>))"

definition handleMarkRenewed :: "'f FormState \<Rightarrow> 'f FormState" where
  "handleMarkRenewed s =
     (case fp_subscription (fs_props s) of
        None \<Rightarrow> s
      | Some sub \<Rightarrow>
          if \<not> fp_can_renew (fs_props s) then s
          else call (Mark_renewed sub) (s\<lparr>fs_error := [], fs_loading := True, fs_tasks := fs_tasks s @ [Renewing]\<rparr>))"

definition fail_form :: "nat \<Rightarrow> string \<Rightarrow> 'f FormState \<Rightarrow> 'f FormState" where
  "fail_form n msg s = put_task n Finished (s\<lparr>fs_error := msg, fs_loading := False\<rparr>)"

definition close_form :: "nat \<Rightarrow> 'f FormState \<Rightarrow> 'f FormState" where
  "close_form n s = put_task n Finished ((call (Open_change False) s)\<lparr>fs_loading := False\<rparr>)"

text \<open>The continuation of a task when its call is answered; a timer only fires.\<close>

fun form_resume :: "FormEnv \<Rightarrow> nat \<Rightarrow> 'f form_task \<Rightarrow> form_reply \<Rightarrow> 'f FormState \<Rightarrow> 'f FormState" where
  "form_resume env n (Uploading_before v iconFile editing) (Uploaded icon) s =
     put_task n (Submitting iconFile editing) (call (Submit_subscription (submit_payload v icon)) s)"
| "form_resume env n (Uploading_before v iconFile editing) (Rejected msg) s = fail_form n msg s"
| "form_resume env n (Submitting iconFile editing) (Saved created) s =
     (case iconFile of
        Some f \<Rightarrow>
          if \<not> editing \<and> sub_id created \<noteq> 0
          then put_task n Uploading_after (call (Upload_icon (sub_id created) f) s)
          else close_form n s
      | None \<Rightarrow> close_form n s)"
| "form_resume env n (Submitting iconFile editing) (Rejected msg) s = fail_form n msg s"
| "form_resume env n Uploading_after (Uploaded icon) s = close_form n s"
| "form_resume env n Uploading_after (Rejected msg) s =
     put_task n Closing (s\<lparr>fs_error := fe_t env ''subscription.form.iconUploadFailed'', fs_loading := False\<rparr>)"
| "form_resume env n Renewing (Saved renewed) s = close_form n s"
| "form_resume env n Renewing (Rejected msg) s = fail_form n msg s"
| "form_resume env n Closing Timer s = put_task n Finished (call (Open_change False) s)"
| "form_resume env n tk r s = s"

datatype 'f form_event =
    Props FormProps
  | Set_values "SubscriptionFormValues \<Rightarrow> SubscriptionFormValues"
  | Icon_change string
  | Icon_file 'f
  | Submit
  | Renew
  | Reply nat form_reply

fun form_handle :: "FormEnv \<Rightarrow> 'f FormState \<Rightarrow> 'f form_event \<Rightarrow> 'f FormState" where
  "form_handle env s (Props p) = s\<lparr>fs_props := p\<rparr>"
| "form_handle env s (Set_values f) = setValues f s"
| "form_handle env s (Icon_change v) = handleIconChange v s"
| "form_handle env s (Icon_file f) = handleIconFileSelected f s"
| "form_handle env s Submit = handleSubmit s"
| "form_handle env s Renew = handleMarkRenewed s"
| "form_handle env s (Reply n r) = (if n < length (fs_tasks s) then form_resume env n (fs_tasks s ! n) r s else s)"

definition form_step :: "FormEnv \<Rightarrow> 'f FormState \<Rightarrow> 'f form_event \<Rightarrow> 'f FormState" where
  "form_step env s e = form_render env (form_handle env s e)"

subsection \<open>The effects settle\<close>

definition currency_offered :: "FormEnv \<Rightarrow> FormProps \<Rightarrow> SubscriptionFormValues \<Rightarrow> bool" where
  "currency_offered env p v \<longleftrightarrow> fv_currency v \<in> fst ` set (currencyOptions env (fp_userCurrencies p))"

definition method_known :: "FormProps \<Rightarrow> SubscriptionFormValues \<Rightarrow> bool" where
  "method_known p v \<longleftrightarrow>
     fv_paymentMethodId v = [] \<or> fv_paymentMethodId v \<in> (\<lambda>m. int_to_string (pm_id m)) ` set (fp_paymentMethods p)"

definition end_known :: "SubscriptionFormValues \<Rightarrow> bool" where
  "end_known v \<longleftrightarrow>
     (if fv_status v = Active then fv_renewalMode v = Cancel_at_period_end \<longrightarrow> fv_endsAt v = fv_nextBillingDate v
      else fv_endsAt v \<noteq> [])"

definition form_consistent :: "FormEnv \<Rightarrow> 'f FormState \<Rightarrow> bool" where
  "form_consistent env s \<longleftrightarrow>
     fs_wasOpen s = fp_open (fs_props s)
     \<and> (if fp_open (fs_props s)
        then currency_offered env (fs_props s) (fs_values s) \<and> method_known (fs_props s) (fs_values s) \<and> end_known (fs_values s)
        else fs_iconFile s = None)"

lemma currencyOptions_ne [simp]: "currencyOptions env cs \<noteq> []"
  by (simp add: currencyOptions_def DEFAULT_CURRENCY_FALLBACK_def)

lemma formatDateKey_ne [simp]: "formatDateKey l \<noteq> []"
  by (simp add: formatDateKey_def)

lemma list_ex_in_image: "list_ex (\<lambda>x. f x = c) xs \<longleftrightarrow> c \<in> f ` set xs"
  by (auto simp: list_ex_iff)

lemma open_effect_simps [simp]:
  "fs_props (open_effect env r s) = fs_props s" "fs_wasOpen (open_effect env r s) = fp_open (fs_props r)"
  "fs_tasks (open_effect env r s) = fs_tasks s" "fs_sent (open_effect env r s) = fs_sent s"
  by (simp_all add: open_effect_def Let_def)

lemma open_effect_values:
  "fs_wasOpen r = fp_open (fs_props r) \<Longrightarrow> fs_values (open_effect env r s) = fs_values s"
  "\<not> fp_open (fs_props r) \<Longrightarrow> fs_iconFile (open_effect env r s) = None"
  by (simp_all add: open_effect_def Let_def)

lemma open_effect_idle:
  "fs_wasOpen r = fp_open (fs_props r) \<Longrightarrow> fp_open (fs_props r) \<or> fs_iconFile r = None \<Longrightarrow> open_effect env r r = r"
  by (cases r) (auto simp: open_effect_def Let_def)

lemma currency_option_effect_eq:
  "currency_option_effect env r s =
    (if fp_open (fs_props r) \<and> \<not> currency_offered env (fs_props r) (fs_values r)
     then setValues (\<lambda>v. v\<lparr>fv_currency := fst (hd (currencyOptions env (fp_userCurrencies (fs_props r))))\<rparr>) s else s)"
  by (simp add: currency_option_effect_def currency_offered_def Let_def list_ex_in_image)

lemma payment_method_effect_eq:
  "payment_method_effect r s =
    (if fp_open (fs_props r) \<and> \<not> method_known (fs_props r) (fs_values r)
     then setValues (\<lambda>v. v\<lparr>fv_paymentMethodId := []\<rparr>) s else s)"
  by (simp add: payment_method_effect_def method_known_def list_ex_in_image)

definition end_value :: "LocalDate \<Rightarrow> SubscriptionFormValues \<Rightarrow> string" where
  "end_value today v = (if fv_status v = Active then fv_nextBillingDate v else or_str (fv_nextBillingDate v) (formatDateKey today))"

lemma ends_at_effect_eq:
  "ends_at_effect r s =
    (if fp_open (fs_props r) \<and> \<not> end_known (fs_values r)
     then setValues (\<lambda>v. v\<lparr>fv_endsAt := end_value (fp_today (fs_props r)) (fs_values r)\<rparr>) s else s)"
  by (simp add: ends_at_effect_def end_known_def end_value_def Let_def)

lemmas form_effect_eqs = currency_option_effect_eq payment_method_effect_eq ends_at_effect_eq setValues_def

lemma form_effects_frame [simp]:
  "fs_props (form_effects env s) = fs_props s" "fs_wasOpen (form_effects env s) = fp_open (fs_props s)"
  "fs_tasks (form_effects env s) = fs_tasks s" "fs_sent (form_effects env s) = fs_sent s"
  by (simp_all add: form_effects_def form_effect_eqs)

lemma form_effects_closed: "\<not> fp_open (fs_props s) \<Longrightarrow> fs_iconFile (form_effects env s) = None"
  by (simp add: form_effects_def form_effect_eqs open_effect_values)

lemma form_effects_values:
  assumes "fs_wasOpen s = fp_open (fs_props s)" and "fp_open (fs_props s)"
  shows "fs_values (form_effects env s) =
    (let v = fs_values s;
         w = (if currency_offered env (fs_props s) v then v
              else v\<lparr>fv_currency := fst (hd (currencyOptions env (fp_userCurrencies (fs_props s))))\<rparr>);
         w = (if method_known (fs_props s) v then w else w\<lparr>fv_paymentMethodId := []\<rparr>)
     in if end_known v then w else w\<lparr>fv_endsAt := end_value (fp_today (fs_props s)) v\<rparr>)"
  using assms by (simp add: form_effects_def form_effect_eqs open_effect_values Let_def)

lemma values_consistent:
  fixes v :: SubscriptionFormValues and p :: FormProps and env :: FormEnv
  defines "w \<equiv> (if currency_offered env p v then v
              else v\<lparr>fv_currency := fst (hd (currencyOptions env (fp_userCurrencies p)))\<rparr>)"
  shows "currency_offered env p w" and "method_known p w = method_known p v" and "end_known w = end_known v"
    and "method_known p (if method_known p v then w else w\<lparr>fv_paymentMethodId := []\<rparr>)"
proof -
  show "currency_offered env p w"
    using hd_in_set [OF currencyOptions_ne, of env "fp_userCurrencies p"] by (simp add: w_def currency_offered_def)
  show m: "method_known p w = method_known p v" by (simp add: w_def method_known_def)
  show "end_known w = end_known v" by (simp add: w_def end_known_def)
  show "method_known p (if method_known p v then w else w\<lparr>fv_paymentMethodId := []\<rparr>)"
    using m by (simp add: method_known_def)
qed

lemma offered_update [simp]:
  "currency_offered env p (v\<lparr>fv_paymentMethodId := x\<rparr>) = currency_offered env p v"
  "currency_offered env p (v\<lparr>fv_endsAt := x\<rparr>) = currency_offered env p v"
  "method_known p (v\<lparr>fv_endsAt := x\<rparr>) = method_known p v"
  "end_known (v\<lparr>fv_paymentMethodId := x\<rparr>) = end_known v"
  by (simp_all add: currency_offered_def method_known_def end_known_def)

lemma end_known_update:
  "fv_status w = fv_status v \<Longrightarrow> fv_nextBillingDate w = fv_nextBillingDate v \<Longrightarrow> end_known (w\<lparr>fv_endsAt := end_value today v\<rparr>)"
  by (simp add: end_known_def end_value_def or_str_def)

lemma effects_consistent:
  assumes "fs_wasOpen s = fp_open (fs_props s)"
  shows "form_consistent env (form_effects env s)"
proof (cases "fp_open (fs_props s)")
  case True
  then show ?thesis
    unfolding form_consistent_def form_effects_values [OF assms True]
    using values_consistent [where env = env and p = "fs_props s" and v = "fs_values s"]
    by (simp add: Let_def end_known_update)
next
  case False
  then show ?thesis by (simp add: form_consistent_def form_effects_closed)
qed

lemma consistent_effects:
  assumes "form_consistent env s"
  shows "form_effects env s = s"
proof -
  have guards: "(fp_open (fs_props s) \<and> \<not> currency_offered env (fs_props s) (fs_values s)) = False"
    "(fp_open (fs_props s) \<and> \<not> method_known (fs_props s) (fs_values s)) = False"
    "(fp_open (fs_props s) \<and> \<not> end_known (fs_values s)) = False"
    using assms unfolding form_consistent_def by (meson)+
  have "open_effect env s s = s"
    using assms by (intro open_effect_idle) (simp_all add: form_consistent_def split: if_splits)
  moreover have "currency_option_effect env s s = s" "payment_method_effect s s = s" "ends_at_effect s s = s"
    unfolding currency_option_effect_eq payment_method_effect_eq ends_at_effect_eq guards if_False by (rule refl)+
  ultimately show ?thesis by (simp add: form_effects_def)
qed

lemma form_render_consistent: "form_consistent env (form_render env s)"
  unfolding form_render_def by (rule effects_consistent) simp

lemma form_step_consistent: "form_consistent env (form_step env s e)"
  unfolding form_step_def by (rule form_render_consistent)


interpretation subscription_form: event_machine "form_step env" "form_consistent env" for env
  by unfold_locales (rule form_step_consistent)

lemma end_known_iff:
  "end_known v \<longleftrightarrow> (if fv_status v = Ended then fv_endsAt v \<noteq> []
     else if fv_renewalMode v = Cancel_at_period_end then fv_endsAt v = fv_nextBillingDate v else True)"
  by (cases "fv_status v") (simp_all add: end_known_def)

text \<open>C26: an open form never offers what cannot be saved: after any events the effects have settled (another
  rendering changes nothing), and while the form is open its currency is one of the options, its payment
  method is blank or exists, a subscription that is cancelled at the end of its period ends at the next
  billing date and an ended one has an end; a closed form keeps no icon file.\<close>

theorem open_form_is_consistent:
  "let s = foldl (form_step env) (mount_form env p) es; v = fs_values s in
     form_render env s = s \<and>
     (if fp_open (fs_props s)
      then fv_currency v \<in> fst ` set (currencyOptions env (fp_userCurrencies (fs_props s)))
        \<and> (fv_paymentMethodId v = [] \<or> fv_paymentMethodId v \<in> (\<lambda>m. int_to_string (pm_id m)) ` set (fp_paymentMethods (fs_props s)))
        \<and> (if fv_status v = Ended then fv_endsAt v \<noteq> []
           else if fv_renewalMode v = Cancel_at_period_end then fv_endsAt v = fv_nextBillingDate v else True)
      else fs_iconFile s = None)"
proof -
  let ?s = "foldl (form_step env) (mount_form env p) es"
  have c: "form_consistent env ?s"
    by (rule subscription_form.run_inv) (simp add: mount_form_def form_render_consistent)
  then have "form_render env ?s = ?s" by (simp add: form_render_def consistent_effects)
  then show ?thesis
    using conjunct2 [OF c [unfolded form_consistent_def currency_offered_def method_known_def end_known_iff]]
    unfolding Let_def by (rule conjI)
qed

subsection \<open>Editing without a change\<close>

definition billing_day :: "string \<Rightarrow> string" where
  "billing_day d = take 10 (trim d)"

definition end_date :: "Subscription \<Rightarrow> string option" where
  "end_date sub = (if truthy_str (sub_ends_at sub) then sub_ends_at sub else sub_next_billing_date sub)"

text \<open>A subscription as the server stores it: dates start with a day, the amount is a decimal, and the
  fields of its recurrence are present.\<close>

definition stored_ok :: "FormEnv \<Rightarrow> FormProps \<Rightarrow> Subscription \<Rightarrow> bool" where
  "stored_ok env p sub \<longleftrightarrow>
     short_decimal (sub_amount sub)
     \<and> list_all (\<lambda>d. case d of None \<Rightarrow> False | Some v \<Rightarrow> match_date_only (trim v) \<noteq> None) [sub_next_billing_date sub, end_date sub]
     \<and> sub_currency sub \<noteq> [] \<and> sub_currency sub \<in> fst ` set (currencyOptions env (fp_userCurrencies p))
     \<and> (sub_payment_method_id sub = None \<or> sub_payment_method_id sub \<in> (Some \<circ> pm_id) ` set (fp_paymentMethods p))
     \<and> sub_recurrence_type sub \<noteq> []
     \<and> (sub_recurrence_type sub = ''interval'' \<longrightarrow> sub_interval_count sub \<noteq> None \<and> sub_interval_unit sub \<noteq> [])
     \<and> (sub_recurrence_type sub = ''monthly_date'' \<longrightarrow> sub_monthly_day sub \<noteq> None)
     \<and> (sub_recurrence_type sub = ''yearly_date'' \<longrightarrow> sub_yearly_month sub \<noteq> None \<and> sub_yearly_day sub \<noteq> None)"

text \<open>What the form sends for it when nothing is changed: the stored fields, but for those that the form clears, because
  they do not apply or, the text of the category, always.\<close>

definition resubmitted :: "Subscription \<Rightarrow> CreateSubscriptionInput" where
  "resubmitted sub =
     (let rt = sub_recurrence_type sub; next_day = nullish (map_option billing_day (sub_next_billing_date sub)) [] in \<lparr>
     in_name = sub_name sub,
     in_amount = Num (sub_amount sub),
     in_currency = sub_currency sub,
     in_status = nullish (sub_status sub) Active,
     in_renewal_mode = nullish (sub_renewal_mode sub) Auto_renew,
     in_ends_at = (if sub_status sub = Some Ended then map_option billing_day (end_date sub)
       else if sub_renewal_mode sub = Some Cancel_at_period_end then Some next_day else None),
     in_billing_type = ''recurring'',
     in_recurrence_type = rt,
     in_interval_count = (if rt = ''interval'' then Some (sub_interval_count sub) else None),
     in_interval_unit = (if rt = ''interval'' then sub_interval_unit sub else []),
     in_next_billing_date = next_day,
     in_monthly_day = (if rt = ''monthly_date'' then Some (sub_monthly_day sub) else None),
     in_yearly_month = (if rt = ''yearly_date'' then Some (sub_yearly_month sub) else None),
     in_yearly_day = (if rt = ''yearly_date'' then Some (sub_yearly_day sub) else None),
     in_category = [],
     in_category_id = map_option Some (sub_category_id sub),
     in_payment_method_id = map_option Some (sub_payment_method_id sub),
     in_notify_enabled = sub_notify_enabled sub,
     in_notify_days_before = (if sub_notify_enabled sub = Some True
       then map_option (\<lambda>n. min 10 (max 0 n)) (sub_notify_days_before sub) else None),
     in_icon = sub_icon sub,
     in_url = sub_url sub,
     in_notes = sub_notes sub\<rparr>)"

lemma formatDateInput_day: "match_date_only (trim v) \<noteq> None \<Longrightarrow> formatDateInput env today (Some v) = billing_day v"
proof -
  assume m: "match_date_only (trim v) \<noteq> None"
  then have "v \<noteq> []" by (auto simp: match_date_only_def)
  with m show ?thesis by (cases v) (simp_all add: formatDateInput_def billing_day_def)
qed

lemma billing_day_ne: "match_date_only (trim v) \<noteq> None \<Longrightarrow> billing_day v \<noteq> []"
  by (auto simp: match_date_only_def billing_day_def split: if_splits)

lemma id_text_eqs [simp]: "id_text v = [] \<longleftrightarrow> v = None" "parse_int (id_text (Some i)) = Some i"
  by (simp_all add: id_text_def parse_int_int_to_string split: option.split)

lemma nullish_Some: "v \<noteq> None \<Longrightarrow> Some (nullish v d) = v"
  by (cases v) (simp_all add: nullish_def)

lemma submit_payload_endsAt: "fv_status v = Active \<Longrightarrow> submit_payload (v\<lparr>fv_endsAt := x\<rparr>) icon = submit_payload v icon"
  by (simp add: submit_payload_def)

lemma initial_payload:
  assumes "stored_ok env p sub" and "v = buildInitialValues env today (Some sub) d"
  shows "submit_payload v (fv_icon v) = resubmitted sub"
    and "currency_offered env p v" and "method_known p v" and "fv_status v = Ended \<Longrightarrow> end_known v"
    and "fv_icon v = sub_icon sub"
proof -
  obtain nd where nd: "sub_next_billing_date sub = Some nd" "match_date_only (trim nd) \<noteq> None"
    using assms(1) by (auto simp: stored_ok_def split: option.splits)
  obtain ed where ed: "end_date sub = Some ed" "match_date_only (trim ed) \<noteq> None"
    using assms(1) by (auto simp: stored_ok_def split: option.splits)
  have n: "fv_nextBillingDate v = billing_day nd" "fv_endsAt v = billing_day ed"
    using assms(2) nd ed by (simp_all add: buildInitialValues_def formatDateInput_day end_date_def [symmetric])
  show "fv_icon v = sub_icon sub" using assms(2) by (simp add: buildInitialValues_def)
  show "currency_offered env p v" "method_known p v"
    using assms by (auto simp: stored_ok_def buildInitialValues_def currency_offered_def method_known_def or_str_def id_text_def)
  show "fv_status v = Ended \<Longrightarrow> end_known v"
    using n billing_day_ne [OF ed(2)] by (simp add: end_known_def)
  have st: "fv_status v = nullish (sub_status sub) Active" "fv_renewalMode v = nullish (sub_renewal_mode sub) Auto_renew"
    "fv_recurrenceType v = sub_recurrence_type sub"
    using assms by (simp_all add: buildInitialValues_def stored_ok_def or_str_def)
  note ok = assms(1) [unfolded stored_ok_def]
  have amount: "parse_float (fv_amount v) = Num (sub_amount sub)"
    using ok assms(2) by (simp add: buildInitialValues_def parse_float_decimal)
  have texts: "fv_name v = sub_name sub" "fv_currency v = sub_currency sub" "fv_icon v = sub_icon sub"
    "fv_url v = sub_url sub" "fv_notes v = sub_notes sub" "nullish (map_option billing_day (sub_next_billing_date sub)) [] = billing_day nd"
    using ok assms(2) nd by (simp_all add: buildInitialValues_def or_str_def nullish_def)
  have ends: "(if fv_status v = Ended then Some (fv_endsAt v) else if fv_renewalMode v = Cancel_at_period_end
       then Some (fv_nextBillingDate v) else None)
     = (if sub_status sub = Some Ended then map_option billing_day (end_date sub)
       else if sub_renewal_mode sub = Some Cancel_at_period_end then Some (billing_day nd) else None)"
    using st n ed by (cases "sub_status sub"; cases "sub_renewal_mode sub") (simp_all add: nullish_def)
  have interval: "(if sub_recurrence_type sub = ''interval'' then Some (parse_int (fv_intervalCount v)) else None)
     = (if sub_recurrence_type sub = ''interval'' then Some (sub_interval_count sub) else None)"
    "(if sub_recurrence_type sub = ''interval'' then fv_intervalUnit v else [])
     = (if sub_recurrence_type sub = ''interval'' then sub_interval_unit sub else [])"
    using ok assms(2) by (simp_all add: buildInitialValues_def parse_int_int_to_string nullish_Some or_str_def)
  have days: "(if sub_recurrence_type sub = ''monthly_date'' then Some (parse_int (fv_monthlyDay v)) else None)
     = (if sub_recurrence_type sub = ''monthly_date'' then Some (sub_monthly_day sub) else None)"
    "(if sub_recurrence_type sub = ''yearly_date'' then Some (parse_int (fv_yearlyMonth v)) else None)
     = (if sub_recurrence_type sub = ''yearly_date'' then Some (sub_yearly_month sub) else None)"
    "(if sub_recurrence_type sub = ''yearly_date'' then Some (parse_int (fv_yearlyDay v)) else None)
     = (if sub_recurrence_type sub = ''yearly_date'' then Some (sub_yearly_day sub) else None)"
    using ok assms(2) by (simp_all add: buildInitialValues_def parse_int_int_to_string nullish_Some)
  have fields: "fv_categoryId v = id_text (sub_category_id sub)" "fv_paymentMethodId v = id_text (sub_payment_method_id sub)"
    "fv_notifyDaysBefore v = id_text (sub_notify_days_before sub)"
    "fv_notifyEnabled v = (case sub_notify_enabled sub of None \<Rightarrow> Notify_default | Some b \<Rightarrow> if b then Notify_enabled else Notify_disabled)"
    using assms(2) by (simp_all add: buildInitialValues_def)
  have ids: "(if fv_categoryId v \<noteq> [] then Some (parse_int (fv_categoryId v)) else None) = map_option Some (sub_category_id sub)"
    "(if fv_paymentMethodId v \<noteq> [] then Some (parse_int (fv_paymentMethodId v)) else None)
     = map_option Some (sub_payment_method_id sub)"
    using fields(1,2) by (cases "sub_category_id sub"; cases "sub_payment_method_id sub"; simp)+
  have notify: "(if fv_notifyEnabled v = Notify_default then None else Some (fv_notifyEnabled v = Notify_enabled)) = sub_notify_enabled sub"
    "(if fv_notifyEnabled v = Notify_enabled \<and> fv_notifyDaysBefore v \<noteq> []
        then (case parse_int (fv_notifyDaysBefore v) of
                None \<Rightarrow> Some 0
              | Some n \<Rightarrow> Some (min MAX_NOTIFICATION_DAYS_BEFORE (max 0 n)))
        else None)
     = (if sub_notify_enabled sub = Some True then map_option (\<lambda>n. min 10 (max 0 n)) (sub_notify_days_before sub) else None)"
    using fields(3,4) by (cases "sub_notify_enabled sub"; cases "sub_notify_days_before sub"; simp add: MAX_NOTIFICATION_DAYS_BEFORE_def)+
  show "submit_payload v (fv_icon v) = resubmitted sub"
    unfolding submit_payload_def resubmitted_def Let_def st n texts amount ends [unfolded st n] interval days ids notify
    by (rule refl)
qed


lemma mounted_values:
  assumes "fp_open p" and "v = buildInitialValues env (fp_today p) (fp_subscription p) (defaultCurrencyCode env (fp_userCurrencies p))"
    and "currency_offered env p v" and "method_known p v"
  shows "fs_values (mount_form env p :: 'f FormState) = (if end_known v then v else v\<lparr>fv_endsAt := end_value (fp_today p) v\<rparr>)"
proof -
  let ?i = "\<lparr>fs_props = p, fs_values = v, fs_loading = False, fs_error = [], fs_iconFile = None, fs_wasOpen = False,
    fs_tasks = [], fs_sent = []\<rparr> :: 'f FormState"
  have w: "fs_values (form_effects env ?i) = (if end_known v then v else v\<lparr>fv_endsAt := end_value (fp_today p) v\<rparr>)"
    using assms by (simp add: form_effects_def form_effect_eqs open_effect_def Let_def)
  have "form_consistent env (form_effects env ?i)"
    using assms(1,3,4) by (simp add: form_consistent_def w end_known_update)
  then show ?thesis
    using w assms(2) by (simp add: mount_form_def form_render_def consistent_effects)
qed

text \<open>C27: editing a subscription and saving it unchanged, for a subscription whose amount is a decimal, whose next billing
  date and end date begin with a day, whose currency and payment method are still in the lists and whose recurrence fields
  are present: the form, after its effects, sends the stored name, amount (digit for digit), currency, icon, link, notes,
  status, renewal mode, recurrence with the fields that belong to it, next billing day, category and payment method ids
  and reminder switch.  The end date is the stored one of an ended subscription, the next billing day of one that ends with
  its period, and else cleared; the days of notice are kept within 0 to 10 for an own reminder, and else cleared, like the
  recurrence fields that do not belong; the old text of the category is always cleared (\<open>category_text_is_lost\<close>).\<close>

theorem editing_keeps_subscription:
  assumes "fp_open p" and "fp_subscription p = Some sub" and "stored_ok env p sub"
  shows "let v = fs_values (mount_form env p :: 'f FormState); d = submit_payload v (fv_icon v);
      rt = sub_recurrence_type sub; next_day = billing_day (the (sub_next_billing_date sub)) in
    in_name d = sub_name sub \<and> in_amount d = Num (sub_amount sub) \<and> in_currency d = sub_currency sub
    \<and> in_icon d = sub_icon sub \<and> in_url d = sub_url sub \<and> in_notes d = sub_notes sub
    \<and> in_status d = nullish (sub_status sub) Active \<and> in_renewal_mode d = nullish (sub_renewal_mode sub) Auto_renew
    \<and> in_recurrence_type d = rt \<and> in_next_billing_date d = next_day
    \<and> in_interval_count d = (if rt = ''interval'' then Some (sub_interval_count sub) else None)
    \<and> in_interval_unit d = (if rt = ''interval'' then sub_interval_unit sub else [])
    \<and> in_monthly_day d = (if rt = ''monthly_date'' then Some (sub_monthly_day sub) else None)
    \<and> in_yearly_month d = (if rt = ''yearly_date'' then Some (sub_yearly_month sub) else None)
    \<and> in_yearly_day d = (if rt = ''yearly_date'' then Some (sub_yearly_day sub) else None)
    \<and> in_category_id d = map_option Some (sub_category_id sub)
    \<and> in_payment_method_id d = map_option Some (sub_payment_method_id sub)
    \<and> in_notify_enabled d = sub_notify_enabled sub
    \<and> in_notify_days_before d = (if sub_notify_enabled sub = Some True
         then map_option (\<lambda>n. min 10 (max 0 n)) (sub_notify_days_before sub) else None)
    \<and> in_ends_at d = (if sub_status sub = Some Ended then map_option billing_day (end_date sub)
         else if sub_renewal_mode sub = Some Cancel_at_period_end then Some next_day else None)
    \<and> in_category d = []"
proof -
  define v where v: "v = buildInitialValues env (fp_today p) (Some sub) (defaultCurrencyCode env (fp_userCurrencies p))"
  note i = initial_payload [OF assms(3) v]
  have m: "fs_values (mount_form env p :: 'f FormState) = (if end_known v then v else v\<lparr>fv_endsAt := end_value (fp_today p) v\<rparr>)"
    by (rule mounted_values) (use assms v i in simp_all)
  have d: "submit_payload (fs_values (mount_form env p :: 'f FormState)) (fv_icon (fs_values (mount_form env p :: 'f FormState)))
    = resubmitted sub"
  proof (cases "end_known v")
    case True
    then show ?thesis using m i(1) by simp
  next
    case False
    then have "fv_status v = Active" using i(4) by (cases "fv_status v") simp_all
    with False show ?thesis using m i(1) submit_payload_endsAt by simp
  qed
  obtain nd where "sub_next_billing_date sub = Some nd"
    using assms(3) by (auto simp: stored_ok_def split: option.splits)
  then show ?thesis unfolding Let_def d by (simp add: resubmitted_def nullish_def Let_def)
qed

text \<open>A subscription of before the categories had records carries the name of its category as a text, which its card and
  the groups of the actions page show.  Whatever is edited, the form sends the empty text, and the server stores it.\<close>

lemma category_text_is_lost: "in_category (submit_payload v icon) = []"
  by (simp add: submit_payload_def)

definition example_props :: FormProps where
  "example_props = \<lparr>fp_open = True, fp_subscription = Some (netflix\<lparr>sub_next_billing_date := Some ''2025-03-31T00:00:00Z''\<rparr>),
     fp_can_renew = True, fp_paymentMethods = [], fp_userCurrencies = [],
     fp_today = \<lparr>full_year = 2025, month = 0, date = 15\<rparr>\<rparr>"

definition example_env :: FormEnv where
  "example_env = \<lparr>fe_intl = plain_intl, fe_language = ''en'', fe_t = (\<lambda>k. k), fe_date = (\<lambda>_. None)\<rparr>"


lemma example_stored_ok: "stored_ok example_env example_props (netflix\<lparr>sub_next_billing_date := Some ''2025-03-31T00:00:00Z''\<rparr>)"
proof -
  have "match_date_only (trim ''2025-03-31T00:00:00Z'') \<noteq> None" by code_simp
  moreover have "short_decimal 12" by (simp add: short_decimal_def)
  moreover have "''USD'' \<in> fst ` set (currencyOptions example_env [])"
    by (simp add: currencyOptions_def DEFAULT_CURRENCY_FALLBACK_def)
  ultimately show ?thesis
    by (simp add: stored_ok_def netflix_def end_date_def truthy_str_def example_props_def split: option.split)
qed

theorem editing_keeps_subscription_witness:
  "in_next_billing_date (submit_payload (fs_values (mount_form example_env example_props :: nat FormState))
     (fv_icon (fs_values (mount_form example_env example_props :: nat FormState)))) = ''2025-03-31''"
proof -
  have "fp_open example_props" "fp_subscription example_props = Some (netflix\<lparr>sub_next_billing_date := Some ''2025-03-31T00:00:00Z''\<rparr>)"
    by (simp_all add: example_props_def)
  note e = editing_keeps_subscription [OF this example_stored_ok, where 'f = nat]
  have "billing_day ''2025-03-31T00:00:00Z'' = ''2025-03-31''" by code_simp
  with e show ?thesis by (simp add: Let_def)
qed

subsection \<open>Submissions\<close>

definition is_submission :: "'f form_call \<Rightarrow> bool" where
  "is_submission c \<longleftrightarrow> (case c of Submit_subscription d \<Rightarrow> True | _ \<Rightarrow> False)"

definition waits_to_submit :: "'f form_task \<Rightarrow> bool" where
  "waits_to_submit tk \<longleftrightarrow> (case tk of Uploading_before v f e \<Rightarrow> True | _ \<Rightarrow> False)"

definition submissions :: "'f FormState \<Rightarrow> nat" where
  "submissions s = length (filter is_submission (fs_sent s)) + length (filter waits_to_submit (fs_tasks s))"

lemma submission_simps [simp]:
  "is_submission (Submit_subscription d)" "\<not> is_submission (Upload_icon i f)" "\<not> is_submission (Mark_renewed sub)"
  "\<not> is_submission (Open_change b)" "waits_to_submit (Uploading_before v f' e)" "\<not> waits_to_submit (Submitting f' e)"
  "\<not> waits_to_submit Uploading_after" "\<not> waits_to_submit Renewing" "\<not> waits_to_submit Closing" "\<not> waits_to_submit Finished"
  by (simp_all add: is_submission_def waits_to_submit_def)

lemma waiting_update:
  "n < length xs \<Longrightarrow> \<not> waits_to_submit tk \<Longrightarrow>
   length (filter waits_to_submit (xs[n := tk])) + (if waits_to_submit (xs ! n) then 1 else 0) = length (filter waits_to_submit xs)"
proof (induction xs arbitrary: n)
  case (Cons x xs)
  then show ?case by (cases n) auto
qed simp

lemma put_task_submissions:
  assumes "n < length (fs_tasks s)" and "\<not> waits_to_submit tk"
  shows "submissions (put_task n tk s) + (if waits_to_submit (fs_tasks s ! n) then 1 else 0) = submissions s"
  using waiting_update [OF assms] by (simp add: submissions_def put_task_def)

lemma call_submissions [simp]: "submissions (call c s) = submissions s + (if is_submission c then 1 else 0)"
  by (simp add: call_def submissions_def)

lemma call_tasks [simp]: "fs_tasks (call c s) = fs_tasks s"
  by (simp add: call_def)

lemma submissions_cong [simp]:
  "submissions (s\<lparr>fs_error := e\<rparr>) = submissions s" "submissions (s\<lparr>fs_loading := b\<rparr>) = submissions s"
  "submissions (s\<lparr>fs_props := p\<rparr>) = submissions s" "submissions (s\<lparr>fs_values := v\<rparr>) = submissions s"
  "submissions (s\<lparr>fs_iconFile := f\<rparr>) = submissions s"
  by (simp_all add: submissions_def)

lemma render_submissions [simp]: "submissions (form_render env s) = submissions s"
  by (simp add: form_render_def submissions_def)

lemma resume_submissions:
  assumes "n < length (fs_tasks s)"
  shows "submissions (form_resume env n (fs_tasks s ! n) r s) \<le> submissions s"
proof -
  have p: "submissions (put_task n tk s') \<le> submissions s'"
    if "\<not> waits_to_submit tk" "fs_tasks s' = fs_tasks s" for tk s'
    using put_task_submissions [of n s' tk] that assms by simp
  have fail: "submissions (fail_form n msg s) \<le> submissions s" for msg
    using p [of Finished "s\<lparr>fs_error := msg, fs_loading := False\<rparr>"] by (simp add: fail_form_def)
  have close: "submissions (close_form n s) \<le> submissions s"
    using p [of Finished "(call (Open_change False) s)\<lparr>fs_loading := False\<rparr>"] by (simp add: close_form_def)
  have timer: "submissions (put_task n Finished (call (Open_change False) s)) \<le> submissions s"
    "submissions (put_task n Closing (s\<lparr>fs_error := msg, fs_loading := False\<rparr>)) \<le> submissions s" for msg
    using p [of Finished "call (Open_change False) s"] p [of Closing "s\<lparr>fs_error := msg, fs_loading := False\<rparr>"] by simp_all
  have upload: "submissions (put_task n Uploading_after (call (Upload_icon i f) s)) \<le> submissions s" for i f
    using p [of Uploading_after "call (Upload_icon i f) s"] by simp
  have submit: "submissions (put_task n (Submitting f e) (call (Submit_subscription d) s)) \<le> submissions s"
    if "waits_to_submit (fs_tasks s ! n)" for f e d
    using put_task_submissions [of n "call (Submit_subscription d) s" "Submitting f e"] assms that by simp
  show ?thesis
    by (cases "(env, n, fs_tasks s ! n, r, s)" rule: form_resume.cases)
      (use fail close timer upload submit in \<open>auto split: option.split\<close>)
qed

lemma handleSubmit_submissions: "submissions (handleSubmit s) \<le> submissions s + 1"
  by (auto simp: handleSubmit_def Let_def submissions_def call_def split: option.split)

lemma handle_submissions:
  "submissions (form_handle env s e) \<le> submissions s + (case e of Submit \<Rightarrow> 1 | _ \<Rightarrow> 0)"
proof (cases e)
  case Submit
  then show ?thesis using handleSubmit_submissions [of s] by simp
next
  case Renew
  have "submissions (s\<lparr>fs_error := [], fs_loading := True, fs_tasks := fs_tasks s @ [Renewing]\<rparr>) = submissions s"
    by (simp add: submissions_def)
  with Renew show ?thesis by (auto simp: handleMarkRenewed_def split: option.split)
next
  case (Reply n r)
  then show ?thesis using resume_submissions [of n s env r] by simp
qed (simp_all add: setValues_def handleIconChange_def handleIconFileSelected_def)

definition submit_count :: "'f form_event list \<Rightarrow> nat" where
  "submit_count es = length (filter (\<lambda>e. case e of Submit \<Rightarrow> True | _ \<Rightarrow> False) es)"

lemma run_submissions: "submissions (foldl (form_step env) s es) \<le> submissions s + submit_count es"
proof (induction es arbitrary: s)
  case (Cons e es)
  show ?case
    using Cons.IH [of "form_step env s e"] handle_submissions [of env s e]
    by (cases e) (simp_all add: form_step_def submit_count_def)
qed (simp add: submit_count_def)

text \<open>one press of the button creates one subscription at most: whatever answers, failures and edits
  interleave, the number of inputs handed to \<open>onSubmit\<close> is at most the number of submissions of the
  form, uploads of icons before or after it included.\<close>

theorem one_creation_per_submission:
  fixes es :: "'f form_event list"
  shows "length (filter is_submission (fs_sent (foldl (form_step env) (mount_form env p) es))) \<le> submit_count es"
proof -
  have "submissions (mount_form env p :: 'f FormState) = 0" by (simp add: mount_form_def) (simp add: submissions_def)
  then show ?thesis using run_submissions [of env "mount_form env p :: 'f FormState" es] by (simp add: submissions_def)
qed

text \<open>
  When the upload of the icon of a new subscription fails, the form stays open for 1.5 seconds with the
  button enabled, and pressing it again creates the subscription a second time.
\<close>

lemma form_render_frame [simp]:
  "fs_props (form_render env s) = fs_props s" "fs_tasks (form_render env s) = fs_tasks s"
  "fs_sent (form_render env s) = fs_sent s" "fs_wasOpen (form_render env s) = fp_open (fs_props s)"
  by (simp_all add: form_render_def)

lemma form_render_icon [simp]:
  assumes "fp_open (fs_props s)" and "fs_wasOpen s"
  shows "fs_iconFile (form_render env s) = fs_iconFile s"
proof -
  have e: "fs_iconFile (form_effects env u) = fs_iconFile u" if "fp_open (fs_props u)" "fs_wasOpen u" for u
    using that by (simp add: form_effects_def form_effect_eqs open_effect_def Let_def)
  show ?thesis using assms by (simp add: form_render_def e)
qed

lemma failed_upload_allows_duplicate:
  fixes f :: 'f
  assumes "fp_open p" and "fp_subscription p = None" and "sub_id sub \<noteq> 0"
  shows "length (filter is_submission (fs_sent (foldl (form_step env) (mount_form env p)
    [Icon_file f, Submit, Reply 0 (Saved sub), Reply 0 (Rejected msg), Submit]))) = 2"
proof -
  let ?m = "mount_form env p :: 'f FormState"
  have "fs_props ?m = p" "fs_tasks ?m = []" "fs_sent ?m = []" "fs_wasOpen ?m"
    using assms by (simp_all add: mount_form_def)
  then show ?thesis
    using assms
    by (simp add: form_step_def handleIconFileSelected_def setValues_def handleSubmit_def call_def put_task_def Let_def)
qed

end
