(* ===== verification/Toasts.thy ===== *)
theory Toasts
  imports Interfaces
begin

text \<open>
  The toast store, \<open>web/src/lib/toast-store.ts\<close>.  The module's variables are the record
  \<open>ToastStore\<close>; what \<open>window.setTimeout\<close> has scheduled is part of the state, as the
  list of pending timers with their due times, and \<open>toast_step\<close> runs one call or fires the
  timer that is due first.  Listeners are numbers; \<open>notified\<close> records which were called.
\<close>

subsection \<open>State\<close>

datatype ToastId = Str_id string | Num_id int

datatype ToastType = Toast_default | Toast_success | Toast_error | Toast_info | Toast_warning | Toast_loading

record ToastClassNames =
  cn_toast :: "string option"
  cn_description :: "string option"
  cn_actionButton :: "string option"
  cn_cancelButton :: "string option"

record ToastOptions =
  to_id :: "ToastId option"
  to_description :: "string option"
  to_duration :: "rat option"
  to_dismissible :: "bool option"
  to_className :: "string option"
  to_classNames :: "ToastClassNames option"

record ToastRecord =
  t_id :: ToastId
  t_type :: ToastType
  t_title :: string
  t_description :: "string option"
  t_duration :: "rat option"
  t_dismissible :: bool
  t_className :: "string option"
  t_classNames :: "ToastClassNames option"
  t_visible :: bool

definition DEFAULT_DURATION :: rat where
  "DEFAULT_DURATION = 4000"

definition EXIT_DURATION_MS :: rat where
  "EXIT_DURATION_MS = 180"

datatype timer_action = Dismiss_toast ToastId | Remove_toasts "ToastId list"

record ToastStore =
  listeners :: "nat list"
  toastCounter :: int
  toasts :: "ToastRecord list"
  timers :: "(rat \<times> timer_action) list"
  clock :: rat
  notified :: "nat list"

definition initial_store :: ToastStore where
  "initial_store = \<lparr>listeners = [], toastCounter = 0, toasts = [], timers = [], clock = 0, notified = []\<rparr>"

subsection \<open>Operations\<close>

definition emitChange :: "ToastStore \<Rightarrow> ToastStore" where
  "emitChange s = s\<lparr>notified := notified s @ listeners s\<rparr>"

definition subscribe :: "nat \<Rightarrow> ToastStore \<Rightarrow> ToastStore" where
  "subscribe l s = (if l \<in> set (listeners s) then s else s\<lparr>listeners := listeners s @ [l]\<rparr>)"

definition unsubscribe :: "nat \<Rightarrow> ToastStore \<Rightarrow> ToastStore" where
  "unsubscribe l s = s\<lparr>listeners := filter (\<lambda>m. m \<noteq> l) (listeners s)\<rparr>"

definition getSnapshot :: "ToastStore \<Rightarrow> ToastRecord list" where
  "getSnapshot s = toasts s"

definition setTimeout :: "timer_action \<Rightarrow> rat \<Rightarrow> ToastStore \<Rightarrow> ToastStore" where
  "setTimeout a delay s = s\<lparr>timers := timers s @ [(clock s + delay, a)]\<rparr>"

definition removeToast :: "ToastId \<Rightarrow> ToastStore \<Rightarrow> ToastStore" where
  "removeToast i s = emitChange (s\<lparr>toasts := filter (\<lambda>x. t_id x \<noteq> i) (toasts s)\<rparr>)"

definition dismissToast :: "ToastId option \<Rightarrow> ToastStore \<Rightarrow> ToastStore" where
  "dismissToast i s =
     (let targets = (case i of None \<Rightarrow> map t_id (toasts s) | Some i \<Rightarrow> [i]);
          hit = (\<lambda>x. t_id x \<in> set targets \<and> t_visible x);
          changed = list_ex hit (toasts s);
          s = s\<lparr>toasts := map (\<lambda>x. if hit x then x\<lparr>t_visible := False\<rparr> else x) (toasts s)\<rparr>
      in if \<not> changed then s else setTimeout (Remove_toasts targets) EXIT_DURATION_MS (emitChange s))"

definition empty_options :: ToastOptions where
  "empty_options = \<lparr>to_id = None, to_description = None, to_duration = None, to_dismissible = None,
     to_className = None, to_classNames = None\<rparr>"

definition createToast :: "ToastType \<Rightarrow> string \<Rightarrow> ToastOptions \<Rightarrow> ToastStore \<Rightarrow> ToastId \<times> ToastStore" where
  "createToast ty title options s =
     (let (i, s) = (case to_id options of
            Some i \<Rightarrow> (i, s)
          | None \<Rightarrow> (Num_id (toastCounter s + 1), s\<lparr>toastCounter := toastCounter s + 1\<rparr>));
          nextToast = \<lparr>t_id = i, t_type = ty, t_title = title, t_description = to_description options,
            t_duration = to_duration options, t_dismissible = nullish (to_dismissible options) True,
            t_className = to_className options, t_classNames = to_classNames options, t_visible = True\<rparr>;
          s = (if list_ex (\<lambda>x. t_id x = i) (toasts s)
               then s\<lparr>toasts := map (\<lambda>x. if t_id x = i then nextToast else x) (toasts s)\<rparr>
               else s\<lparr>toasts := nextToast # toasts s\<rparr>);
          s = emitChange s;
          duration = nullish (t_duration nextToast) DEFAULT_DURATION
      in (i, if duration > 0 then setTimeout (Dismiss_toast i) duration s else s))"

definition run_action :: "timer_action \<Rightarrow> ToastStore \<Rightarrow> ToastStore" where
  "run_action a s = (case a of
       Dismiss_toast i \<Rightarrow> dismissToast (Some i) s
     | Remove_toasts targets \<Rightarrow> foldl (\<lambda>s i. removeToast i s) s targets)"

text \<open>The timer that is due first, the earlier one in the list when two are due together.\<close>

fun next_timer :: "(rat \<times> timer_action) list \<Rightarrow> ((rat \<times> timer_action) \<times> (rat \<times> timer_action) list) option" where
  "next_timer [] = None"
| "next_timer (x # xs) =
     (case next_timer xs of
        None \<Rightarrow> Some (x, [])
      | Some (y, ys) \<Rightarrow> if fst y < fst x then Some (y, x # ys) else Some (x, xs))"

definition fire_next :: "ToastStore \<Rightarrow> ToastStore" where
  "fire_next s = (case next_timer (timers s) of
       None \<Rightarrow> s
     | Some ((due, a), rest) \<Rightarrow> run_action a (s\<lparr>timers := rest, clock := max (clock s) due\<rparr>))"

text \<open>Time passes while no timer is due.\<close>

definition wait_until :: "rat \<Rightarrow> ToastStore \<Rightarrow> ToastStore" where
  "wait_until time s = (if clock s \<le> time \<and> list_all (\<lambda>x. time \<le> fst x) (timers s) then s\<lparr>clock := time\<rparr> else s)"

datatype toast_event =
    Create ToastType string ToastOptions
  | Dismiss "ToastId option"
  | Subscribe nat
  | Unsubscribe nat
  | Fire
  | Wait_until rat

fun toast_step :: "ToastStore \<Rightarrow> toast_event \<Rightarrow> ToastStore" where
  "toast_step s (Create ty title options) = snd (createToast ty title options s)"
| "toast_step s (Dismiss i) = dismissToast i s"
| "toast_step s (Subscribe l) = subscribe l s"
| "toast_step s (Unsubscribe l) = unsubscribe l s"
| "toast_step s Fire = fire_next s"
| "toast_step s (Wait_until time) = wait_until time s"

subsection \<open>The invariant\<close>

definition duration_of :: "ToastRecord \<Rightarrow> rat" where
  "duration_of x = nullish (t_duration x) DEFAULT_DURATION"

definition will_dismiss :: "(rat \<times> timer_action) list \<Rightarrow> ToastId \<Rightarrow> bool" where
  "will_dismiss ts i \<longleftrightarrow> Dismiss_toast i \<in> snd ` set ts"

definition will_remove :: "(rat \<times> timer_action) list \<Rightarrow> ToastId \<Rightarrow> bool" where
  "will_remove ts i \<longleftrightarrow> (\<exists>targets. Remove_toasts targets \<in> snd ` set ts \<and> i \<in> set targets)"

definition toast_covered :: "(rat \<times> timer_action) list \<Rightarrow> ToastRecord \<Rightarrow> bool" where
  "toast_covered ts x \<longleftrightarrow> (if t_visible x then duration_of x \<le> 0 \<or> will_dismiss ts (t_id x) else will_remove ts (t_id x))"

definition toasts_ok :: "ToastStore \<Rightarrow> bool" where
  "toasts_ok s \<longleftrightarrow> distinct (map t_id (toasts s)) \<and> list_all (toast_covered (timers s)) (toasts s)
     \<and> distinct (listeners s)"

lemma covered_mono: "toast_covered ts x \<Longrightarrow> set ts \<subseteq> set ts' \<Longrightarrow> toast_covered ts' x"
  by (auto simp: toast_covered_def will_dismiss_def will_remove_def split: if_splits)

lemma emitChange_simps [simp]:
  "toasts (emitChange s) = toasts s" "timers (emitChange s) = timers s" "listeners (emitChange s) = listeners s"
  "clock (emitChange s) = clock s" "toastCounter (emitChange s) = toastCounter s"
  by (simp_all add: emitChange_def)

lemma setTimeout_simps [simp]:
  "toasts (setTimeout a d s) = toasts s" "timers (setTimeout a d s) = timers s @ [(clock s + d, a)]"
  "listeners (setTimeout a d s) = listeners s" "toastCounter (setTimeout a d s) = toastCounter s"
  by (simp_all add: setTimeout_def)

lemma removeToast_simps [simp]:
  "toasts (removeToast i s) = filter (\<lambda>x. t_id x \<noteq> i) (toasts s)" "timers (removeToast i s) = timers s"
  "listeners (removeToast i s) = listeners s" "toastCounter (removeToast i s) = toastCounter s"
  by (simp_all add: removeToast_def)

lemma remove_all_simps [simp]:
  "toasts (foldl (\<lambda>s i. removeToast i s) s is) = filter (\<lambda>x. t_id x \<notin> set is) (toasts s)"
  "timers (foldl (\<lambda>s i. removeToast i s) s is) = timers s"
  "listeners (foldl (\<lambda>s i. removeToast i s) s is) = listeners s"
  by (induction "is" arbitrary: s) (simp_all add: conj_commute)

lemma next_timer_None [simp]: "next_timer ts = None \<longleftrightarrow> ts = []"
proof (cases ts)
  case (Cons x xs)
  then show ?thesis by (cases "next_timer xs") (auto simp: case_prod_beta)
qed simp

lemma next_timer_mset: "next_timer ts = Some (x, rest) \<Longrightarrow> mset ts = add_mset x (mset rest)"
  by (induction ts arbitrary: x rest) (auto split: option.splits if_splits)

lemma next_timer_first: "next_timer ts = Some (x, rest) \<Longrightarrow> y \<in> set ts \<Longrightarrow> fst x \<le> fst y"
proof (induction ts arbitrary: x rest y)
  case (Cons z ts)
  show ?case
  proof (cases "next_timer ts")
    case None
    with Cons.prems show ?thesis by simp
  next
    case (Some p)
    then obtain u us where p: "next_timer ts = Some (u, us)" by (cases p) auto
    then have "u \<in># mset ts" using next_timer_mset by fastforce
    then show ?thesis using Cons.prems Cons.IH [OF p] p by (fastforce split: if_splits)
  qed
qed simp

lemma next_timer_set: "next_timer ts = Some (x, rest) \<Longrightarrow> set ts = insert x (set rest)"
  by (metis next_timer_mset set_mset_add_mset_insert set_mset_mset)

text \<open>Dismissing: what becomes of the list, and of the timers.\<close>

definition hide :: "(ToastId \<Rightarrow> bool) \<Rightarrow> ToastRecord \<Rightarrow> ToastRecord" where
  "hide P x = (if P (t_id x) \<and> t_visible x then x\<lparr>t_visible := False\<rparr> else x)"

lemma t_id_hide [simp]: "t_id (hide P x) = t_id x"
  by (simp add: hide_def)

lemma map_id_hide [simp]: "map t_id (map (hide P) xs) = map t_id xs"
  by simp

definition dismiss_targets :: "ToastId option \<Rightarrow> ToastStore \<Rightarrow> ToastId list" where
  "dismiss_targets i s = (case i of None \<Rightarrow> map t_id (toasts s) | Some i \<Rightarrow> [i])"

lemma dismissToast_simps [simp]:
  "toasts (dismissToast i s) = map (hide (\<lambda>j. j \<in> set (dismiss_targets i s))) (toasts s)"
  "listeners (dismissToast i s) = listeners s"
  "toastCounter (dismissToast i s) = toastCounter s"
  "timers (dismissToast i s) = (if \<exists>x \<in> set (toasts s). t_id x \<in> set (dismiss_targets i s) \<and> t_visible x
     then timers s @ [(clock s + EXIT_DURATION_MS, Remove_toasts (dismiss_targets i s))] else timers s)"
  by (simp_all add: dismissToast_def Let_def dismiss_targets_def hide_def list_ex_iff)

lemma dismiss_ok:
  assumes "distinct (map t_id (toasts s))" and "distinct (listeners s)"
    and cov: "\<forall>x \<in> set (toasts s). t_id x \<notin> set (dismiss_targets i s) \<or> \<not> t_visible x \<longrightarrow> toast_covered (timers s) x"
  shows "toasts_ok (dismissToast i s)"
proof -
  have "toast_covered (timers (dismissToast i s)) (hide (\<lambda>j. j \<in> set (dismiss_targets i s)) x)"
    if "x \<in> set (toasts s)" for x
  proof (cases "t_id x \<in> set (dismiss_targets i s) \<and> t_visible x")
    case True
    then have "timers (dismissToast i s) = timers s @ [(clock s + EXIT_DURATION_MS, Remove_toasts (dismiss_targets i s))]"
      using that by auto
    with True show ?thesis by (auto simp: toast_covered_def hide_def will_remove_def simp del: dismissToast_simps)
  next
    case False
    with that have "toast_covered (timers s) x" using cov by blast
    then have "toast_covered (timers (dismissToast i s)) x" by (rule covered_mono) auto
    moreover have "hide (\<lambda>j. j \<in> set (dismiss_targets i s)) x = x" using False by (simp add: hide_def)
    ultimately show ?thesis by simp
  qed
  then have "list_all (toast_covered (timers (dismissToast i s))) (toasts (dismissToast i s))"
    by (simp add: list_all_iff del: dismissToast_simps(4))
  then show ?thesis using assms(1,2) by (simp add: toasts_ok_def o_def del: dismissToast_simps(4))
qed

lemma toasts_ok_dismiss: "toasts_ok s \<Longrightarrow> toasts_ok (dismissToast i s)"
  by (rule dismiss_ok) (auto simp: toasts_ok_def list_all_iff)

lemma toasts_ok_distinct: "toasts_ok s \<Longrightarrow> distinct (map t_id (toasts s))"
  by (simp add: toasts_ok_def)

text \<open>Creating.\<close>

definition new_id :: "ToastOptions \<Rightarrow> ToastStore \<Rightarrow> ToastId" where
  "new_id options s = (case to_id options of Some i \<Rightarrow> i | None \<Rightarrow> Num_id (toastCounter s + 1))"

definition new_record :: "ToastType \<Rightarrow> string \<Rightarrow> ToastOptions \<Rightarrow> ToastStore \<Rightarrow> ToastRecord" where
  "new_record ty title options s = \<lparr>t_id = new_id options s, t_type = ty, t_title = title,
     t_description = to_description options, t_duration = to_duration options,
     t_dismissible = nullish (to_dismissible options) True, t_className = to_className options,
     t_classNames = to_classNames options, t_visible = True\<rparr>"

lemma new_record_simps [simp]:
  "t_id (new_record ty title options s) = new_id options s" "t_visible (new_record ty title options s)"
  by (simp_all add: new_record_def)

lemma list_ex_id: "list_ex (\<lambda>x. f x = i) xs \<longleftrightarrow> i \<in> f ` set xs"
  by (auto simp: list_ex_iff)

lemma createToast_simps [simp]:
  "fst (createToast ty title options s) = new_id options s"
  "toasts (snd (createToast ty title options s)) =
     (if new_id options s \<in> t_id ` set (toasts s)
      then map (\<lambda>x. if t_id x = new_id options s then new_record ty title options s else x) (toasts s)
      else new_record ty title options s # toasts s)"
  "listeners (snd (createToast ty title options s)) = listeners s"
  "timers (snd (createToast ty title options s)) = timers s @
     (if duration_of (new_record ty title options s) > 0
      then [(clock s + duration_of (new_record ty title options s), Dismiss_toast (new_id options s))] else [])"
  by (cases "to_id options"; simp add: createToast_def Let_def new_id_def new_record_def duration_of_def
      list_ex_id setTimeout_def emitChange_def)+

lemma toasts_ok_create:
  assumes "toasts_ok s"
  shows "toasts_ok (snd (createToast ty title options s))"
proof -
  let ?s = "snd (createToast ty title options s)" and ?n = "new_record ty title options s"
  have new: "toast_covered (timers ?s) ?n"
    by (cases "duration_of ?n > 0") (auto simp: toast_covered_def will_dismiss_def)
  have old: "toast_covered (timers ?s) x" if "x \<in> set (toasts s)" for x
    by (rule covered_mono [of "timers s"]) (use assms that in \<open>auto simp: toasts_ok_def list_all_iff\<close>)
  have "list_all (toast_covered (timers ?s)) (toasts ?s)"
    using new old by (auto simp: list_all_iff simp del: createToast_simps(4))
  moreover have "distinct (map t_id (toasts ?s))"
  proof (cases "new_id options s \<in> t_id ` set (toasts s)")
    case True
    have "map t_id (map (\<lambda>x. if t_id x = new_id options s then ?n else x) (toasts s)) = map t_id (toasts s)"
      by simp
    with True toasts_ok_distinct [OF assms] show ?thesis by (simp only: createToast_simps if_True)
  next
    case False
    with toasts_ok_distinct [OF assms] show ?thesis by simp
  qed
  moreover have "distinct (listeners ?s)" using assms by (simp add: toasts_ok_def)
  ultimately show ?thesis by (simp only: toasts_ok_def)
qed

text \<open>Firing a timer.\<close>

lemma toasts_ok_fire:
  assumes ok: "toasts_ok s"
  shows "toasts_ok (fire_next s)"
proof (cases "next_timer (timers s)")
  case None
  with ok show ?thesis by (simp add: fire_next_def)
next
  case (Some p)
  obtain due a rest where p: "next_timer (timers s) = Some ((due, a), rest)" using Some by (cases p) auto
  have set: "set (timers s) = insert (due, a) (set rest)" using next_timer_set [OF p] .
  let ?s = "s\<lparr>timers := rest, clock := max (clock s) due\<rparr>"
  have f: "fire_next s = run_action a ?s" by (simp add: fire_next_def p)
  show ?thesis
  proof (cases a)
    case (Dismiss_toast i)
    have "toasts_ok (dismissToast (Some i) ?s)"
    proof (rule dismiss_ok)
      show "\<forall>x \<in> set (toasts ?s). t_id x \<notin> set (dismiss_targets (Some i) ?s) \<or> \<not> t_visible x
          \<longrightarrow> toast_covered (timers ?s) x"
        using ok set Dismiss_toast
        by (auto simp: toasts_ok_def list_all_iff toast_covered_def will_dismiss_def will_remove_def dismiss_targets_def)
    qed (use ok in \<open>simp_all add: toasts_ok_def\<close>)
    then show ?thesis by (simp add: f run_action_def Dismiss_toast)
  next
    case (Remove_toasts targets)
    have "toast_covered rest x" if "x \<in> set (toasts s)" "t_id x \<notin> set targets" for x
    proof -
      have "will_remove rest i" if "will_remove (timers s) i" "i \<notin> set targets" for i
        using that set Remove_toasts by (auto simp: will_remove_def)
      moreover have "will_dismiss rest i" if "will_dismiss (timers s) i" for i
        using that set Remove_toasts by (auto simp: will_dismiss_def)
      moreover have "toast_covered (timers s) x" using ok that by (simp add: toasts_ok_def list_all_iff)
      ultimately show ?thesis using that by (auto simp: toast_covered_def)
    qed
    then show ?thesis using ok
      by (auto simp: f run_action_def Remove_toasts toasts_ok_def list_all_iff intro: distinct_map_filter)
  qed
qed

interpretation toast_store: event_machine toast_step toasts_ok
proof
  fix s e
  assume "toasts_ok s"
  then show "toasts_ok (toast_step s e)"
    by (cases e) (auto simp: toasts_ok_dismiss toasts_ok_create toasts_ok_fire wait_until_def subscribe_def
        unsubscribe_def, auto simp: toasts_ok_def)
qed

lemma toasts_ok_run: "toasts_ok (foldl toast_step initial_store es)"
  by (rule toast_store.run_inv) (simp add: toasts_ok_def initial_store_def)

subsection \<open>What holds in every run\<close>

text \<open>C37: in every state that calls and timers can reach, the ids of the toasts are distinct, a
  visible toast with a positive duration has a timer that will dismiss it, and a hidden one has a
  timer that will take it off the list: no toast is stuck.\<close>

theorem no_toast_is_stuck:
  assumes "s = foldl toast_step initial_store es"
  shows "distinct (map t_id (getSnapshot s))
    \<and> (\<forall>x \<in> set (getSnapshot s). t_visible x \<and> duration_of x > 0 \<longrightarrow>
        (\<exists>due. (due, Dismiss_toast (t_id x)) \<in> set (timers s)))
    \<and> (\<forall>x \<in> set (getSnapshot s). \<not> t_visible x \<longrightarrow>
        (\<exists>due targets. (due, Remove_toasts targets) \<in> set (timers s) \<and> t_id x \<in> set targets))"
proof -
  have ok: "toasts_ok s" unfolding assms by (rule toasts_ok_run)
  then have "toast_covered (timers s) x" if "x \<in> set (toasts s)" for x
    using that by (simp add: toasts_ok_def list_all_iff)
  then show ?thesis using ok
    by (fastforce simp: toasts_ok_def getSnapshot_def toast_covered_def will_dismiss_def will_remove_def)
qed

theorem no_toast_is_stuck_witness:
  "\<exists>due. (due, Dismiss_toast (Num_id 1)) \<in> set (timers (toast_step initial_store (Create Toast_error ''Failed'' empty_options)))"
  using no_toast_is_stuck [of "toast_step initial_store (Create Toast_error ''Failed'' empty_options)"
      "[Create Toast_error ''Failed'' empty_options]"]
  by (simp add: getSnapshot_def initial_store_def empty_options_def new_id_def duration_of_def new_record_def
      DEFAULT_DURATION_def)

text \<open>Every firing brings the store closer to having no timer.\<close>

fun action_weight :: "timer_action \<Rightarrow> nat" where
  "action_weight (Dismiss_toast i) = 2"
| "action_weight (Remove_toasts targets) = 1"

definition weight :: "ToastStore \<Rightarrow> nat" where
  "weight s = sum_mset (image_mset (action_weight \<circ> snd) (mset (timers s)))"

lemma weight_fire: "timers s \<noteq> [] \<Longrightarrow> weight (fire_next s) < weight s"
proof -
  assume "timers s \<noteq> []"
  then obtain due a rest where p: "next_timer (timers s) = Some ((due, a), rest)"
    by (cases "next_timer (timers s)") auto
  have m: "mset (timers s) = add_mset (due, a) (mset rest)" using next_timer_mset [OF p] .
  show ?thesis by (cases a) (simp_all add: weight_def m fire_next_def p run_action_def)
qed

lemma weight_le: "weight s \<le> 2 * length (timers s)"
proof -
  have w: "action_weight a \<le> 2" for a by (cases a) simp_all
  have "sum_list (map (action_weight \<circ> snd) ts) \<le> 2 * length ts" for ts :: "(rat \<times> timer_action) list"
  proof (induction ts)
    case (Cons x ts)
    then show ?case using w [of "snd x"] by simp
  qed simp
  moreover have "weight s = sum_list (map (action_weight \<circ> snd) (timers s))"
    unfolding weight_def by (metis mset_map sum_mset_sum_list)
  ultimately show ?thesis by simp
qed

lemma drain: "\<exists>n \<le> weight s. timers (foldl toast_step s (replicate n Fire)) = []"
proof (induction "weight s" arbitrary: s rule: less_induct)
  case less
  show ?case
  proof (cases "timers s = []")
    case True
    then show ?thesis by (intro exI [of _ 0]) simp
  next
    case False
    obtain n where n: "n \<le> weight (fire_next s)" "timers (foldl toast_step (fire_next s) (replicate n Fire)) = []"
      using less [OF weight_fire [OF False]] by blast
    then show ?thesis using weight_fire [OF False] by (intro exI [of _ "Suc n"]) simp
  qed
qed

text \<open>when nothing more is called, the timers run out after at most two firings each, and then
  only toasts that asked for no time limit are left, all of them visible.\<close>

theorem only_sticky_toasts_remain:
  "\<exists>n \<le> 2 * length (timers (foldl toast_step initial_store es)).
     timers (foldl toast_step initial_store (es @ replicate n Fire)) = []
     \<and> list_all (\<lambda>x. t_visible x \<and> duration_of x \<le> 0) (getSnapshot (foldl toast_step initial_store (es @ replicate n Fire)))"
proof -
  let ?s = "foldl toast_step initial_store es"
  obtain n where n: "n \<le> weight ?s" "timers (foldl toast_step ?s (replicate n Fire)) = []"
    using drain by blast
  have "toasts_ok (foldl toast_step initial_store (es @ replicate n Fire))" by (rule toasts_ok_run)
  with n(2) have "list_all (\<lambda>x. t_visible x \<and> duration_of x \<le> 0)
      (getSnapshot (foldl toast_step initial_store (es @ replicate n Fire)))"
    by (auto simp: toasts_ok_def list_all_iff toast_covered_def will_dismiss_def will_remove_def getSnapshot_def
        split: if_splits)
  moreover have "n \<le> 2 * length (timers ?s)" using n(1) weight_le [of ?s] by simp
  ultimately show ?thesis using n(2) by auto
qed

text \<open>Creating a toast touches no other one.\<close>

lemma create_keeps_others:
  "filter (\<lambda>x. t_id x \<noteq> new_id options s) (toasts (snd (createToast ty title options s)))
   = filter (\<lambda>x. t_id x \<noteq> new_id options s) (toasts s)"
proof -
  have "filter (\<lambda>x. t_id x \<noteq> i) (map (\<lambda>x. if t_id x = i then n else x) xs) = filter (\<lambda>x. t_id x \<noteq> i) xs"
    if "t_id n = i" for n :: ToastRecord and i xs using that by (induction xs) auto
  then show ?thesis by simp
qed

lemma created_toast_is_shown:
  "new_record ty title options s \<in> set (getSnapshot (snd (createToast ty title options s)))"
  by (auto simp: getSnapshot_def)

text \<open>
  A timer knows a toast only by its id.  A toast that is dismissed and created again with the same
  id within the exit animation is taken off the list by the first one's removal timer, 80 ms after
  it was shown instead of 4 s.
\<close>

definition saved_options :: ToastOptions where
  "saved_options = empty_options\<lparr>to_id := Some (Str_id ''save'')\<rparr>"

lemma recreated_toast_is_removed_early:
  "let s = foldl toast_step initial_store [Create Toast_info ''Saving'' saved_options, Dismiss (Some (Str_id ''save'')),
       Wait_until 100, Create Toast_success ''Saved'' saved_options]
   in map t_title (filter t_visible (getSnapshot s)) = [''Saved''] \<and> clock s = 100
      \<and> getSnapshot (toast_step s Fire) = [] \<and> clock (toast_step s Fire) = 180"
  by code_simp

end
