(* ===== verification/TwoFactor.thy ===== *)
theory TwoFactor
  imports Requests Types
begin

text \<open>
  The second factor on the settings page: \<open>web/src/features/settings/totp-section.tsx\<close> and its dialog
  \<open>totp-setup-dialog.tsx\<close>.  \<open>tf_user\<close> is the user that the page passes down and that \<open>onUserChange\<close>
  replaces.  \<open>tf_writes\<close> counts the writes to the clipboard that are under way and \<open>tf_timers\<close> the timers
  that take the word \<open>copied\<close> away again.  The events are what is typed and pressed on what is
  rendered at that moment, and the answers of the server in any order.
\<close>

datatype Step = Qr | Verify | Backup

record TotpSetupResponse =
  otpauth_uri :: string
  totp_secret :: string

datatype totp_call = Get_setup | Post_confirm string | Post_disable string string | Get_me

datatype totp_reply = Totp_failed string | Setup_ready TotpSetupResponse | Totp_confirmed "string list" | Totp_user User | Totp_done

record TwoFactorState = "totp_call Section" +
  tf_user :: "User option"
  setupOpen :: bool
  showDisableForm :: bool
  disablePassword :: string
  disableCode :: string
  disabling :: bool
  disableError :: string
  dialog_step :: Step
  totp_setup :: "TotpSetupResponse option"
  totp_code :: string
  verifying :: bool
  verifyError :: string
  backupCodes :: "string list"
  copied :: bool
  tf_writes :: nat
  tf_timers :: nat

definition mount_two_factor :: "User option \<Rightarrow> TwoFactorState" where
  "mount_two_factor user = \<lparr>sc_open = [], sc_sent = [], sc_notices = [], tf_user = user, setupOpen = False,
     showDisableForm = False, disablePassword = [], disableCode = [], disabling = False, disableError = [],
     dialog_step = Qr, totp_setup = None, totp_code = [], verifying = False, verifyError = [], backupCodes = [], copied = False,
     tf_writes = 0, tf_timers = 0\<rparr>"

definition totpEnabled :: "TwoFactorState \<Rightarrow> bool" where
  "totpEnabled s = (case tf_user s of Some u \<Rightarrow> user_totp_enabled u | None \<Rightarrow> False)"

subsection \<open>The dialog\<close>

text \<open>The effect of the dialog runs when \<open>open\<close> changes, and does nothing unless it is true then.\<close>

definition setup_effect :: "TwoFactorState \<Rightarrow> TwoFactorState" where
  "setup_effect s =
     send Get_setup (s\<lparr>dialog_step := Qr, totp_code := [], verifyError := [], backupCodes := [], copied := False, totp_setup := None\<rparr>)"

definition set_setup_open :: "bool \<Rightarrow> TwoFactorState \<Rightarrow> TwoFactorState" where
  "set_setup_open v s = (if v \<and> \<not> setupOpen s then setup_effect (s\<lparr>setupOpen := True\<rparr>) else s\<lparr>setupOpen := v\<rparr>)"

definition type_code :: "string \<Rightarrow> TwoFactorState \<Rightarrow> TwoFactorState" where
  "type_code v s = s\<lparr>totp_code := filter is_digit v\<rparr>"

definition handleVerify :: "TwoFactorState \<Rightarrow> TwoFactorState" where
  "handleVerify s =
     (if trim (totp_code s) = [] then s
      else send (Post_confirm (trim (totp_code s))) (s\<lparr>verifyError := [], verifying := True\<rparr>))"

definition handleCopyAll :: "TwoFactorState \<Rightarrow> TwoFactorState" where
  "handleCopyAll s = s\<lparr>tf_writes := tf_writes s + 1\<rparr>"

definition code_copied :: "TwoFactorState \<Rightarrow> TwoFactorState" where
  "code_copied s = (if tf_writes s = 0 then s else s\<lparr>tf_writes := tf_writes s - 1, copied := True, tf_timers := tf_timers s + 1\<rparr>)"

definition copied_timer :: "TwoFactorState \<Rightarrow> TwoFactorState" where
  "copied_timer s = (if tf_timers s = 0 then s else s\<lparr>tf_timers := tf_timers s - 1, copied := False\<rparr>)"

subsection \<open>The section\<close>

definition handleEnabled :: "(string \<Rightarrow> string) \<Rightarrow> TwoFactorState \<Rightarrow> TwoFactorState" where
  "handleEnabled t s = send Get_me (notify (Toast_success (t ''settings.twoFactor.enableSuccess'')) (set_setup_open False s))"

definition handleDone :: "(string \<Rightarrow> string) \<Rightarrow> TwoFactorState \<Rightarrow> TwoFactorState" where
  "handleDone t s = set_setup_open False (handleEnabled t s)"

definition handleDisable :: "TwoFactorState \<Rightarrow> TwoFactorState" where
  "handleDisable s =
     (if disablePassword s = [] \<or> disableCode s = [] then s
      else send (Post_disable (disablePassword s) (trim (disableCode s))) (s\<lparr>disableError := [], disabling := True\<rparr>))"

definition cancel_disable :: "TwoFactorState \<Rightarrow> TwoFactorState" where
  "cancel_disable s = s\<lparr>showDisableForm := False, disablePassword := [], disableCode := [], disableError := []\<rparr>"

definition disabled :: "(string \<Rightarrow> string) \<Rightarrow> TwoFactorState \<Rightarrow> TwoFactorState" where
  "disabled t s =
     (send Get_me ((notify (Toast_success (t ''settings.twoFactor.disableSuccess'')) s)
        \<lparr>showDisableForm := False, disablePassword := [], disableCode := []\<rparr>))\<lparr>disabling := False\<rparr>"

fun totp_answered :: "(string \<Rightarrow> string) \<Rightarrow> totp_reply \<Rightarrow> totp_call \<Rightarrow> TwoFactorState \<Rightarrow> TwoFactorState" where
  "totp_answered t (Setup_ready data) Get_setup s = s\<lparr>totp_setup := Some data\<rparr>"
| "totp_answered t (Totp_failed msg) Get_setup s = set_setup_open False (notify (Toast_error (t ''common.requestFailed'')) s)"
| "totp_answered t (Totp_confirmed codes) (Post_confirm c) s = s\<lparr>backupCodes := codes, dialog_step := Backup, verifying := False\<rparr>"
| "totp_answered t (Totp_failed msg) (Post_confirm c) s = s\<lparr>verifyError := msg, verifying := False\<rparr>"
| "totp_answered t (Totp_failed msg) (Post_disable p c) s = s\<lparr>disableError := msg, disabling := False\<rparr>"
| "totp_answered t r (Post_disable p c) s = disabled t s"
| "totp_answered t (Totp_user user) Get_me s = s\<lparr>tf_user := Some user\<rparr>"
| "totp_answered t r c s = s"

text \<open>The replies that a request can have.\<close>

fun totp_reply_to :: "totp_call \<Rightarrow> totp_reply \<Rightarrow> bool" where
  "totp_reply_to c (Totp_failed msg) = True"
| "totp_reply_to c (Setup_ready data) = (c = Get_setup)"
| "totp_reply_to (Post_confirm x) (Totp_confirmed codes) = True"
| "totp_reply_to c (Totp_confirmed codes) = False"
| "totp_reply_to c (Totp_user user) = (c = Get_me)"
| "totp_reply_to (Post_disable p x) Totp_done = True"
| "totp_reply_to c Totp_done = False"

datatype totp_event =
    Totp_answer nat totp_reply
  | Enable_button
  | Disable_link
  | Disable_password string
  | Disable_code string
  | Disable_button
  | Cancel_button
  | Dialog_dismissed
  | Next_button
  | Code_typed string
  | Enter_key
  | Verify_button
  | Back_button
  | Copy_button
  | Copy_written
  | Copy_timer
  | Done_button

text \<open>What is not rendered cannot be pressed; an input with \<open>maxLength\<close> takes no longer text.\<close>

definition disable_form :: "TwoFactorState \<Rightarrow> bool" where
  "disable_form s \<longleftrightarrow> totpEnabled s \<and> showDisableForm s"

definition on_step :: "Step \<Rightarrow> TwoFactorState \<Rightarrow> bool" where
  "on_step st s \<longleftrightarrow> setupOpen s \<and> dialog_step s = st"

fun totp_step :: "(string \<Rightarrow> string) \<Rightarrow> TwoFactorState \<Rightarrow> totp_event \<Rightarrow> TwoFactorState" where
  "totp_step t s (Totp_answer n r) =
     (if n < length (sc_open s) \<and> totp_reply_to (sc_open s ! n) r then answer (totp_answered t r) n s else s)"
| "totp_step t s Enable_button = (if \<not> totpEnabled s then set_setup_open True s else s)"
| "totp_step t s Disable_link = (if totpEnabled s then s\<lparr>showDisableForm := True\<rparr> else s)"
| "totp_step t s (Disable_password v) = (if disable_form s then s\<lparr>disablePassword := v\<rparr> else s)"
| "totp_step t s (Disable_code v) = (if disable_form s \<and> length v \<le> 8 then s\<lparr>disableCode := v\<rparr> else s)"
| "totp_step t s Disable_button =
     (if disable_form s \<and> \<not> (disabling s \<or> disablePassword s = [] \<or> disableCode s = []) then handleDisable s else s)"
| "totp_step t s Cancel_button = (if disable_form s then cancel_disable s else s)"
| "totp_step t s Dialog_dismissed = set_setup_open False s"
| "totp_step t s Next_button = (if on_step Qr s \<and> totp_setup s \<noteq> None then s\<lparr>dialog_step := Verify\<rparr> else s)"
| "totp_step t s (Code_typed v) = (if on_step Verify s \<and> length v \<le> 6 then type_code v s else s)"
| "totp_step t s Enter_key = (if on_step Verify s then handleVerify s else s)"
| "totp_step t s Verify_button = (if on_step Verify s \<and> \<not> (verifying s \<or> length (totp_code s) < 6) then handleVerify s else s)"
| "totp_step t s Back_button = (if on_step Verify s then s\<lparr>dialog_step := Qr\<rparr> else s)"
| "totp_step t s Copy_button = (if on_step Backup s then handleCopyAll s else s)"
| "totp_step t s Copy_written = code_copied s"
| "totp_step t s Copy_timer = copied_timer s"
| "totp_step t s Done_button = (if on_step Backup s then handleDone t s else s)"

subsection \<open>The dialog is well formed\<close>

definition code_text :: "string \<Rightarrow> bool" where
  "code_text c \<longleftrightarrow> length c \<le> 6 \<and> list_all is_digit c"

fun call_ok :: "totp_call \<Rightarrow> bool" where
  "call_ok (Post_confirm c) \<longleftrightarrow> c \<noteq> [] \<and> code_text c"
| "call_ok (Post_disable p c) \<longleftrightarrow> p \<noteq> [] \<and> length c \<le> 8"
| "call_ok c \<longleftrightarrow> True"

definition is_disable :: "totp_call \<Rightarrow> bool" where
  "is_disable c \<longleftrightarrow> (\<exists>p x. c = Post_disable p x)"

definition two_factor_ok :: "TwoFactorState \<Rightarrow> bool" where
  "two_factor_ok s \<longleftrightarrow> code_text (totp_code s) \<and> length (disableCode s) \<le> 8
     \<and> (dialog_step s = Verify \<longrightarrow> totp_setup s \<noteq> None)
     \<and> list_all call_ok (sc_sent s)
     \<and> open_of is_disable s = (if disabling s then 1 else 0)"

lemma length_trim: "length (trim s) \<le> length s"
  unfolding trim_def trimStart_def by (metis length_dropWhile_le length_rev order_trans)

lemma trim_digits: "list_all is_digit c \<Longrightarrow> trim c = c"
  by (rule trim_no_ws) (auto simp: list_all_iff not_ws_digit)

lemmas dialog_defs = setup_effect_def set_setup_open_def type_code_def handleVerify_def handleCopyAll_def code_copied_def
  copied_timer_def handleEnabled_def handleDone_def handleDisable_def cancel_disable_def disabled_def request_defs

lemma is_disable_simps [simp]:
  "is_disable (Post_disable p c)" "\<not> is_disable Get_setup" "\<not> is_disable (Post_confirm c)" "\<not> is_disable Get_me"
  by (simp_all add: is_disable_def)

lemma mount_two_factor_ok: "two_factor_ok (mount_two_factor user)"
  by (simp add: two_factor_ok_def mount_two_factor_def code_text_def open_of_def)

lemma set_setup_open_ok: "two_factor_ok s \<Longrightarrow> two_factor_ok (set_setup_open v s)"
  by (simp add: two_factor_ok_def dialog_defs code_text_def open_of_def)

lemma handleVerify_ok: "two_factor_ok s \<Longrightarrow> two_factor_ok (handleVerify s)"
  by (auto simp: two_factor_ok_def handleVerify_def code_text_def trim_digits open_of_def request_defs)

lemma handleDisable_ok: "two_factor_ok s \<Longrightarrow> \<not> disabling s \<Longrightarrow> two_factor_ok (handleDisable s)"
  using length_trim [of "disableCode s"] by (auto simp: two_factor_ok_def handleDisable_def open_of_def request_defs)

lemma handleDone_ok: "two_factor_ok s \<Longrightarrow> two_factor_ok (handleDone t s)"
  by (simp add: two_factor_ok_def dialog_defs code_text_def open_of_def)

lemma totp_answered_ok:
  assumes ok: "two_factor_ok s" and n: "n < length (sc_open s)" and r: "totp_reply_to (sc_open s ! n) r"
  shows "two_factor_ok (totp_answered t r (sc_open s ! n) (s\<lparr>sc_open := without n (sc_open s)\<rparr>))"
proof -
  have "is_disable (sc_open s ! n) \<Longrightarrow> disabling s"
    using ok open_of_positive [OF n, of is_disable] by (auto simp: two_factor_ok_def split: if_splits)
  then show ?thesis
    using ok n r by (cases "sc_open s ! n"; cases r)
      (simp_all add: two_factor_ok_def dialog_defs open_of_def without_filter)
qed

lemma totp_step_ok: "two_factor_ok s \<Longrightarrow> two_factor_ok (totp_step t s e)"
proof (cases e)
  case (Totp_answer n r)
  assume "two_factor_ok s"
  then show ?thesis using Totp_answer totp_answered_ok [of s n r t] by (simp add: answer_def)
next
  case (Code_typed v)
  assume "two_factor_ok s"
  moreover have "code_text (filter is_digit v)" if "length v \<le> 6"
    using that by (auto simp: code_text_def list_all_iff intro: order_trans [OF length_filter_le])
  ultimately show ?thesis using Code_typed by (simp add: type_code_def two_factor_ok_def open_of_def)
qed (simp_all add: set_setup_open_ok handleVerify_ok handleDisable_ok handleDone_ok,
     simp_all add: two_factor_ok_def dialog_defs on_step_def open_of_def)

interpretation two_factor: event_machine "totp_step t" two_factor_ok for t
  by unfold_locales (rule totp_step_ok)

subsection \<open>Where the secret and the backup codes come from\<close>

lemma answered_codes:
  "totp_reply_to c r \<Longrightarrow> dialog_step (totp_answered t r c s) = Backup \<Longrightarrow>
   dialog_step s = Backup \<and> backupCodes (totp_answered t r c s) = backupCodes s \<or> r = Totp_confirmed (backupCodes (totp_answered t r c s))"
  by (cases c; cases r) (auto simp: dialog_defs)

lemma step_codes:
  "dialog_step (totp_step t s e) = Backup \<Longrightarrow>
   dialog_step s = Backup \<and> backupCodes (totp_step t s e) = backupCodes s
   \<or> (\<exists>k. e = Totp_answer k (Totp_confirmed (backupCodes (totp_step t s e))))"
proof (cases e)
  case (Totp_answer n r)
  assume "dialog_step (totp_step t s e) = Backup"
  then show ?thesis
    using Totp_answer answered_codes [of "sc_open s ! n" r t "s\<lparr>sc_open := without n (sc_open s)\<rparr>"]
    by (auto simp: answer_def split: if_splits)
qed (auto simp: dialog_defs on_step_def split: if_splits)

lemma codes_from_server:
  "dialog_step (foldl (totp_step t) (mount_two_factor user) es) = Backup \<Longrightarrow>
   \<exists>k. Totp_answer k (Totp_confirmed (backupCodes (foldl (totp_step t) (mount_two_factor user) es))) \<in> set es"
proof (induction es rule: rev_induct)
  case (snoc e es)
  let ?s = "foldl (totp_step t) (mount_two_factor user) es"
  from snoc.prems have "dialog_step (totp_step t ?s e) = Backup" by simp
  from step_codes [OF this] consider "dialog_step ?s = Backup" "backupCodes (totp_step t ?s e) = backupCodes ?s"
    | k where "e = Totp_answer k (Totp_confirmed (backupCodes (totp_step t ?s e)))" by blast
  then show ?case
  proof cases
    case 1
    then show ?thesis using snoc.IH by auto
  next
    case 2
    then have "Totp_answer k (Totp_confirmed (backupCodes (totp_step t ?s e))) \<in> set (es @ [e])" by (metis in_set_conv_decomp)
    then show ?thesis by (metis foldl_Cons foldl_Nil foldl_append)
  qed
qed (simp add: mount_two_factor_def)

lemma answered_setup:
  "totp_reply_to c r \<Longrightarrow> totp_setup (totp_answered t r c s) = Some d \<Longrightarrow> totp_setup s = Some d \<or> r = Setup_ready d"
  by (cases c; cases r) (auto simp: dialog_defs)

lemma step_setup:
  "totp_setup (totp_step t s e) = Some d \<Longrightarrow> totp_setup s = Some d \<or> (\<exists>k. e = Totp_answer k (Setup_ready d))"
proof (cases e)
  case (Totp_answer n r)
  assume "totp_setup (totp_step t s e) = Some d"
  then show ?thesis
    using Totp_answer answered_setup [of "sc_open s ! n" r t "s\<lparr>sc_open := without n (sc_open s)\<rparr>" d]
    by (auto simp: answer_def split: if_splits)
qed (auto simp: dialog_defs on_step_def split: if_splits)

lemma setup_from_server:
  "totp_setup (foldl (totp_step t) (mount_two_factor user) es) = Some d \<Longrightarrow> \<exists>k. Totp_answer k (Setup_ready d) \<in> set es"
proof (induction es rule: rev_induct)
  case (snoc e es)
  then show ?case using step_setup [of t "foldl (totp_step t) (mount_two_factor user) es" e d] by auto
qed (simp add: mount_two_factor_def)

subsection \<open>The dialog is well formed\<close>

fun answers_setup :: "TotpSetupResponse \<Rightarrow> totp_event \<Rightarrow> bool" where
  "answers_setup d (Totp_answer k (Setup_ready x)) = (x = d)"
| "answers_setup d e = False"

fun answers_codes :: "string list \<Rightarrow> totp_event \<Rightarrow> bool" where
  "answers_codes xs (Totp_answer k (Totp_confirmed ys)) = (ys = xs)"
| "answers_codes xs e = False"

text \<open>C10: the dialog is well formed whatever is typed, pressed and answered in whatever order: the step that asks for a
  code shows a secret that the server has answered to some request for a setup (of this opening or of an earlier one, see
  \<open>late_setup_shows_old_secret\<close>), the backup codes shown are those of an answer that confirmed the factor, a code that
  is sent has one to six digits and nothing else, a request that disables the second factor carries a password, and at
  most one such request is under way, exactly while its button is disabled.\<close>

theorem two_factor_well_formed:
  "let s = foldl (totp_step t) (mount_two_factor user) es in
     (case dialog_step s of
        Verify \<Rightarrow> (case totp_setup s of None \<Rightarrow> False | Some d \<Rightarrow> list_ex (answers_setup d) es)
      | Backup \<Rightarrow> list_ex (answers_codes (backupCodes s)) es
      | _ \<Rightarrow> True)
     \<and> length (totp_code s) \<le> 6 \<and> list_all is_digit (totp_code s)
     \<and> list_all (\<lambda>c. case c of Post_confirm x \<Rightarrow> x \<noteq> [] \<and> length x \<le> 6 \<and> list_all is_digit x
          | Post_disable p x \<Rightarrow> p \<noteq> [] \<and> length x \<le> 8 | _ \<Rightarrow> True) (sc_sent s)
     \<and> length (filter (\<lambda>c. case c of Post_disable p x \<Rightarrow> True | _ \<Rightarrow> False) (sc_open s)) = (if disabling s then 1 else 0)"
proof -
  let ?s = "foldl (totp_step t) (mount_two_factor user) es"
  have "two_factor_ok ?s" by (rule two_factor.run_inv [OF mount_two_factor_ok])
  moreover have "call_ok = (\<lambda>c. case c of Post_confirm x \<Rightarrow> x \<noteq> [] \<and> length x \<le> 6 \<and> list_all is_digit x
      | Post_disable p x \<Rightarrow> p \<noteq> [] \<and> length x \<le> 8 | _ \<Rightarrow> True)"
    by (rule ext, simp add: code_text_def split: totp_call.split)
  moreover have "is_disable = (\<lambda>c. case c of Post_disable p x \<Rightarrow> True | _ \<Rightarrow> False)"
    by (rule ext, simp split: totp_call.split)
  moreover have "totp_setup ?s = Some d \<Longrightarrow> list_ex (answers_setup d) es" for d
    using setup_from_server [of t user es d] by (auto simp: list_ex_iff intro!: bexI)
  moreover have "dialog_step ?s = Backup \<Longrightarrow> list_ex (answers_codes (backupCodes ?s)) es"
    using codes_from_server [of t user es] by (auto simp: list_ex_iff intro!: bexI)
  ultimately show ?thesis
    by (auto simp add: two_factor_ok_def code_text_def open_of_def Let_def split: Step.split option.split)
qed

subsection \<open>What goes wrong\<close>

definition secret :: "string \<Rightarrow> totp_reply" where
  "secret x = Setup_ready \<lparr>otpauth_uri = ''otpauth://totp/'' @ x, totp_secret = x\<rparr>"

definition confirming :: "totp_event list" where
  "confirming = [Enable_button, Totp_answer 0 (secret ''A''), Next_button, Code_typed ''123456'', Verify_button]"

text \<open>
  The server has enabled the second factor and handed out the backup codes.  When the dialog is dismissed instead
  of left with its button, the page asks nobody for the new user: it goes on showing the factor as disabled, and
  opening the dialog again erases the codes.
\<close>

lemma dismissed_dialog_loses_codes:
  assumes "s = foldl (totp_step id) (mount_two_factor None) (confirming @ [Totp_answer 0 (Totp_confirmed [''c1'', ''c2'']), Dialog_dismissed])"
  shows "\<not> totpEnabled s \<and> sc_open s = [] \<and> backupCodes s = [''c1'', ''c2''] \<and> backupCodes (totp_step id s Enable_button) = []"
  unfolding assms by code_simp

text \<open>Every request for a setup replaces the secret on the server.  The answer to the first opening that arrives after
  the answer to the second shows the old secret, whose codes the server rejects; when it is an error, it closes the dialog.\<close>

lemma late_setup_shows_old_secret:
  "map_option totp_secret (totp_setup (foldl (totp_step id) (mount_two_factor None)
     [Enable_button, Dialog_dismissed, Enable_button, Totp_answer 1 (secret ''NEW''), Totp_answer 0 (secret ''OLD'')])) = Some ''OLD''
   \<and> \<not> setupOpen (foldl (totp_step id) (mount_two_factor None)
     [Enable_button, Dialog_dismissed, Enable_button, Totp_answer 1 (secret ''NEW''), Totp_answer 0 (Totp_failed ''offline'')])"
  by code_simp

text \<open>The key confirms again while the first confirmation is under way, which its button does not.\<close>

lemma enter_confirms_twice:
  "sc_open (foldl (totp_step id) (mount_two_factor None) (confirming @ [Enter_key])) = [Post_confirm ''123456'', Post_confirm ''123456'']
   \<and> sc_open (foldl (totp_step id) (mount_two_factor None) (confirming @ [Verify_button])) = [Post_confirm ''123456'']"
  by code_simp

end
