(* ===== verification/Spec2Isabelle.thy ===== *)
theory Spec2Isabelle
  imports AccountSettings ActionCenter AdminRuns AdminSettings AdminState AdminTypes Amounts ApiKeys AppRoutes AuthPages BillingCalendar BrandIcons BrandTables Calendar
    CalendarPage ChannelForm Currencies CycleProgress DashboardFilters DashboardPage DataTransfer DetailCache DetailDrawer
    Downloads EventFormatters ExchangeRates
    IconComponents IconPicker Interfaces Json JsonPretty Lifecycle Links LoginPage ManagedLists NotificationSettings Numbers Passkey PaymentSettings Prelude
    Reauth Reorder Reports Requests Routes SecuritySections Session SettingsPage SignUpPages SubscriptionCards SubscriptionForm SubscriptionPages
    Theme Toasts TwoFactor Types UrlQuery ZipEncryption
begin

text \<open>
  Subdux is a subscription tracker: a Go server with a TypeScript client under \<open>web/src\<close>.  This
  development models the logic of the client, the modules with state and computation of their own, and
  leaves the pages that render them aside.

  \<^bold>\<open>Foundations.\<close>  \<open>Prelude\<close> holds the fragment of ECMAScript the modules share
  (strings, nullish values), \<open>Numbers\<close> number parsing and printing, \<open>Json\<close> JSON values,
  \<open>JSON.stringify\<close> and \<open>JSON.parse\<close> with their round trip, \<open>JsonPretty\<close> the indented
  printing, \<open>UrlQuery\<close> the query of an address, \<open>Types\<close> the records of \<open>types/*.ts\<close>, and
  \<open>Requests\<close> what the sections of the settings share: the requests under way, what was sent and the notices
  shown.  \<open>Interfaces\<close> states the contracts that several modules share, as locales:
  \<open>codec\<close> (interpreted by number texts, JSON and base64url), \<open>js_comparator\<close> and
  \<open>js_total_comparator\<close> (the dashboard's sort), \<open>event_machine\<close> (modules with state:
  session, toasts, detail cache, preloading, language files) and \<open>aging_store\<close> (exchange rates and
  subscription details).

  \<^bold>\<open>Components.\<close>
  \<^item> \<open>Session\<close>, \<open>lib/api.ts\<close>: the token and user caches, the shared refresh and every call as a
    task that waits for the network; the events are the settling of a \<open>fetch\<close>, the reading of a body,
    the settling of the refresh, its \<open>finally\<close> and the resumption of a task, in any order.  Shown: at
    most two requests per call, one refresh at a time, the next only after the answer to the last, what a 401 does, that no call hangs, that a stored
    token is never used and that the user survives a reload.
  \<^item> \<open>ChannelForm\<close>, \<open>features/settings/notification-channel-form\<close>: configuration text to form
    values and back.  Shown: the mask is never sent, and a masked field only as nothing or empty; editing without a
    change stores the same text, for the values that the form offers.
  \<^item> \<open>ZipEncryption\<close>, \<open>lib/zip-encryption.ts\<close>: the byte-level detection of AES entries and the
    password check, against an independent encoder of archives.
  \<^item> \<open>DetailCache\<close>, \<open>features/subscriptions/subscription-detail-cache.ts\<close>, and
    \<open>ExchangeRates\<close>, \<open>lib/exchange-rate-cache.ts\<close>: what the caches serve.
  \<^item> \<open>Toasts\<close>, \<open>lib/toast-store.ts\<close>: the store and its timers.
  \<^item> \<open>DashboardFilters\<close>, \<open>Amounts\<close>, \<open>Lifecycle\<close>, \<open>Calendar\<close>: the list of the dashboard
    (\<open>use-dashboard-filters.ts\<close>, \<open>preset-labels.ts\<close>), comparable amounts, the lifecycle of a
    subscription and calendar days (\<open>lib/utils.ts\<close>).
  \<^item> \<open>Passkey\<close>, \<open>Theme\<close>, \<open>EventFormatters\<close>, \<open>Routes\<close>, \<open>Currencies\<close>,
    \<open>Links\<close>: the modules of the same names under \<open>lib\<close> and \<open>i18n/index.ts\<close>.

  \<^item> \<open>SubscriptionForm\<close>, \<open>features/subscriptions/hooks/use-subscription-form-state.ts\<close>, and
    \<open>PaymentSettings\<close>, \<open>features/settings/hooks/use-settings-payment.ts\<close>: two hooks as
    machines whose step is a handler or the answer to a request, followed by the renderings in which React
    runs the effects.  An effect sees the state that was rendered and writes to the next one.  Shown: the
    renderings settle, the values that are shown stay consistent with the lists they are chosen from, what an
    edit without a change sends of each stored field, and which it clears, and a submission creates at most one subscription.
  \<^item> \<open>ManagedLists\<close>, \<open>features/settings/category-management.tsx\<close> and
    \<open>payment-method-management.tsx\<close>, with \<open>Reorder\<close>, the dragging that these pages and the
    currency settings share (locale \<open>draggable_list\<close>).
  \<^item> \<open>AccountSettings\<close>, \<open>DataTransfer\<close>: \<open>use-settings-account.ts\<close> over the session, and
    \<open>use-settings-account-transfer.ts\<close>.  Shown: only checked input is sent; nothing is imported that
    was not previewed.
  \<^item> \<open>AdminTypes\<close>, \<open>AdminSettings\<close>, \<open>AdminState\<close>, \<open>AdminRuns\<close>:
    \<open>features/admin/hooks/use-admin-page-state.ts\<close>: the settings form and its update, the machine of all
    handlers and answers, and what holds of its runs.  Shown: a save without an edit writes back complete
    settings, secrets are sent only when typed, and a backup's password is checked against the archive that was
    chosen (with \<open>ZipEncryption\<close>).
  \<^item> \<open>Reauth\<close>: \<open>features/admin/reauth-dialog.tsx\<close> with its use in \<open>admin-backup-tab.tsx\<close>:
    three factors, their continuations and the mountings of the dialog.  Shown: one ticket and one operation
    per dialog, the ticket of a request for that operation.
  \<^item> \<open>SubscriptionPages\<close>: what the dashboard, the calendar and the action centre share, with the cache of
    details beneath and the drawer above it; the locales \<open>detail_client\<close> and
    \<open>invalidating_client\<close> state what a page may rely on.  \<open>DetailDrawer\<close>,
    \<open>subscription-detail-drawer.tsx\<close>: the effect of the drawer and the rows of its panels.
  \<^item> \<open>BillingCalendar\<close>, \<open>CalendarPage\<close>, \<open>features/calendar/calendar-page.tsx\<close>: the
    billing days of a month and the grid, where dates are day numbers at local midnight, and the page.  Shown:
    when the days are found at all (the loops are \<open>partial_function\<close>s), that they are the days of the
    schedule (locale \<open>schedule\<close>, interpreted for the four units), and that the view stays valid.
  \<^item> \<open>ActionCenter\<close>, \<open>features/actions/actions-page.tsx\<close>: groups, commands, handlers.  Shown:
    the grouping, what is offered, and that no stale detail is shown after an action.
  \<^item> \<open>DashboardPage\<close>, \<open>features/dashboard/dashboard-page.tsx\<close> and \<open>use-dashboard-data.ts\<close>,
    over \<open>DashboardFilters\<close>, \<open>ExchangeRates\<close> and \<open>Amounts\<close>.  Shown: which
    subscriptions are in the list and in which order, and that by amount it is the order of the amounts on its cards.
  \<^item> \<open>SubscriptionCards\<close>, \<open>CycleProgress\<close>: the two cards, the icons of all pages, and the
    progress bar of a cycle.
  \<^item> \<open>AuthPages\<close>, \<open>LoginPage\<close>, \<open>SignUpPages\<close>, \<open>features/auth\<close>: the
    pages for login, registration, a forgotten and a new password, as machines over the session.  Shown: the session is
    signed in only by an answer that grants it, one attempt is under way at a time, the address that the page for a
    forgotten password navigates to gives the e-mail back, and the cooldown of the code.
  \<^item> \<open>AppRoutes\<close>, \<open>App.tsx\<close>: the guards and the table of routes.  Shown: redirects end.
  \<^item> \<open>Reports\<close>, \<open>features/reports\<close>: the page, its panels and the geometry of the chart.  Shown:
    every point and control point of the forecast lies in the plot.
  \<^item> \<open>SettingsPage\<close>, \<open>settings-page.tsx\<close> with the general, audit and about tabs, over
    \<open>Theme\<close>, \<open>Currencies\<close> and the sections below, which are mounted when their tab is first visited
    and stay.  Shown: what is chosen is what the page shows after a reload; the tabs are well formed.
  \<^item> \<open>TwoFactor\<close>, \<open>SecuritySections\<close>, \<open>ApiKeys\<close>: the sections for the second factor,
    passkeys, the OIDC connection and API keys.  Shown: the dialogs are well formed in every state, a key that is shown
    came after the last closing of its dialog, the configuration that is copied carries the key.
  \<^item> \<open>NotificationSettings\<close>: channels, policy and templates over \<open>ChannelForm\<close>.  Shown: the
    requests satisfy the bounds of the inputs, and a change that fails is undone.
  \<^item> \<open>BrandTables\<close>, \<open>BrandIcons\<close>, \<open>lib/brand-icons\<close>: the tables of icons and the lookups
    over them.  Shown: the catalogue and the runtime table agree, and every value and every alias is found.
    \<open>IconComponents\<close>, \<open>lazy-icon.ts\<close> and \<open>async-brand-icon.tsx\<close>: views that wait for a promise
    outside of React.  Shown: what a view shows is what the lookup says of the value it has, with the callbacks as
    microtasks of their own, and a drawing is loaded once.
  \<^item> \<open>IconPicker\<close>, \<open>features/subscriptions/icon-picker.tsx\<close>.  Shown: only values that can be drawn
    and checked image files reach the form.
  \<^item> \<open>Downloads\<close>: the file name in a \<open>Content-Disposition\<close> header, for both downloads.

  \<^bold>\<open>Parameters.\<close>  The server's answers, \<open>Intl\<close>, \<open>localeCompare\<close>, the parsers of
  dates with a time and of URLs, PBKDF2, the authenticator and the clock are arguments of the definitions.

  \<^bold>\<open>Bounds and fuel.\<close>  Loops are structural recursions or functions with a measure.  The JSON
  parser takes the length of the text plus one as fuel, which the round trip shows to be enough for every
  printed value.  Decimals are printed with at most \<open>decimal_digits\<close> digits after the point.

  \<^bold>\<open>Not modelled.\<close>  The Go server (another language, the source of events here), the markup of the
  pages and components, generic widgets, the translation texts and the emoji table.  Characters are code
  units below 256 with ASCII case mapping; numbers are exact rationals, so the rounding of binary floating
  point is not modelled; JSON objects keep their insertion order (integer-like keys are not moved to the
  front).
\<close>

end
